(* ===== verification/GoPrelude.thy ===== *)
theory GoPrelude
  imports Main "HOL-Library.Word" "HOL-Library.Char_ord" "HOL-Library.List_Lexorder"
begin

text \<open>
  The part of Go the modelled code rests on, and the generic lemmas the components share.

  \<^item> A Go string is a byte string, so \<open>string\<close> (a list of 8-bit characters) is its exact
    model; the functions of package \<open>strings\<close> that treat the bytes as UTF-8 are written on
    the encoded bytes.
  \<^item> A \<open>time.Time\<close> is the number of nanoseconds since the zero time (year 1, UTC), so
    \<open>IsZero\<close> is equality with 0, \<open>Before\<close> and \<open>After\<close> are the orders on
    integers, and a \<open>time.Duration\<close> is an integer too.
  \<^item> A pointer that may be nil is an option; an \<open>error\<close> result is the left side of a sum.
  \<^item> A slice searched by a field and modified through a pointer to the element found is a list
    with \<open>find\<close> and \<open>update_first\<close>.
\<close>

section \<open>Proof collections\<close>

named_theorems row_simps \<open>reading a table after one of its rows was written\<close>
named_theorems go_defs \<open>definitions of small Go helpers, unfolded together\<close>

section \<open>Errors\<close>

text \<open>
  \<open>invalid\<close> and \<open>missing\<close> of \<open>internal/application/service.go\<close> wrap the sentinels
  \<open>ErrValidation\<close> and \<open>ErrNotFound\<close>; the format string and its arguments are kept apart.
  \<open>GoPanic\<close> is a nil dereference or an index out of range.
\<close>

datatype go_error =
    ErrValidation string "string list"
  | ErrNotFound string string
  | GoError string
  | GoPanic string

type_synonym 'a result = "go_error + 'a"

definition invalid :: "string \<Rightarrow> string list \<Rightarrow> go_error" where
  "invalid f args = ErrValidation f args"

definition missing :: "string \<Rightarrow> string \<Rightarrow> go_error" where
  "missing kind i = ErrNotFound kind i"

definition is_panic :: "go_error \<Rightarrow> bool" where
  "is_panic e = (case e of GoPanic _ \<Rightarrow> True | _ \<Rightarrow> False)"

lemma is_panic_simps [simp]:
  "\<not> is_panic (invalid f a)" "\<not> is_panic (missing k i)" "\<not> is_panic (GoError m)"
  "is_panic (GoPanic m)"
  by (simp_all add: is_panic_def invalid_def missing_def)

lemma error_distinct [simp]:
  "invalid f a \<noteq> missing k i" "missing k i \<noteq> invalid f a"
  "invalid f a \<noteq> GoPanic m" "missing k i \<noteq> GoPanic m"
  "GoPanic m \<noteq> invalid f a" "GoPanic m \<noteq> missing k i"
  by (simp_all add: invalid_def missing_def)

text \<open>A loop whose body returns an error or nothing: the first error stops it.\<close>

fun each :: "('a \<Rightarrow> unit result) \<Rightarrow> 'a list \<Rightarrow> unit result" where
  "each f [] = Inr ()"
| "each f (x # xs) = (case f x of Inl e \<Rightarrow> Inl e | Inr u \<Rightarrow> each f xs)"

lemma each_ok: "each f xs = Inr u \<longleftrightarrow> (\<forall>x\<in>set xs. f x = Inr ())"
  by (induction xs) (auto split: sum.splits)

lemma each_error: "each f xs = Inl e \<Longrightarrow> \<exists>x\<in>set xs. f x = Inl e"
  by (induction xs) (auto split: sum.splits)

text \<open>Checks made one after the other: the first that fails is the result.\<close>

fun chain :: "unit result list \<Rightarrow> unit result" where
  "chain [] = Inr ()"
| "chain (r # rs) = (case r of Inl e \<Rightarrow> Inl e | Inr u \<Rightarrow> chain rs)"

lemma chain_Cons_ok: "chain (r # rs) = Inr u \<longleftrightarrow> r = Inr () \<and> chain rs = Inr ()"
  by (cases r) auto

lemma chain_Cons_error: "chain (r # rs) = Inl e \<longleftrightarrow> r = Inl e \<or> r = Inr () \<and> chain rs = Inl e"
  by (cases r) auto

lemmas chain_simps = chain.simps(1) chain_Cons_ok chain_Cons_error

declare chain.simps(2) [simp del]

text \<open>No error of a chain or of a loop is a panic when no check of it can panic.\<close>

definition no_panic :: "'a result \<Rightarrow> bool" where
  "no_panic r = (case r of Inl e \<Rightarrow> \<not> is_panic e | Inr _ \<Rightarrow> True)"

lemma no_panic_simps [simp]: "no_panic (Inr x)" "no_panic (Inl e) \<longleftrightarrow> \<not> is_panic e"
  by (simp_all add: no_panic_def)

lemma no_panic_chain: "\<forall>r\<in>set rs. no_panic r \<Longrightarrow> no_panic (chain rs)"
  by (induction rs) (auto simp: chain.simps split: sum.splits)

lemma no_panic_each: "\<forall>x\<in>set xs. no_panic (f x) \<Longrightarrow> no_panic (each f xs)"
  by (induction xs) (auto split: sum.splits)

text \<open>\<open>if bad { return nil, err }\<close>\<close>

definition reject :: "bool \<Rightarrow> go_error \<Rightarrow> unit result" where
  "reject bad e = (if bad then Inl e else Inr ())"

lemma reject_ok [simp]: "reject bad e = Inr u \<longleftrightarrow> \<not> bad"
  by (simp add: reject_def)

section \<open>Time\<close>

type_synonym time = int

definition zero_time :: time where
  "zero_time = 0"

definition second :: int where
  "second = 1000000000"

definition minute :: int where
  "minute = 60 * second"

definition hour :: int where
  "hour = 60 * minute"

lemma durations_positive [simp]: "0 < second" "0 < minute" "0 < hour"
  by (simp_all add: second_def minute_def hour_def)

section \<open>Counters\<close>

text \<open>A \<open>uint64\<close> counter below its maximum is incremented without wrapping.\<close>

lemma uint_Suc:
  fixes w :: "64 word"
  assumes "w \<noteq> - 1"
  shows "uint (w + 1) = uint w + 1"
proof -
  have "uint w \<noteq> uint (- 1 :: 64 word)" using assms by (metis word_uint_eqI)
  moreover have "uint (- 1 :: 64 word) = 2 ^ 64 - 1"
    by (simp add: unsigned_minus_1_eq_mask mask_eq_exp_minus_1)
  moreover have "uint w < 2 ^ 64" using uint_lt2p [of w] by simp
  moreover have "0 \<le> uint w" by simp
  ultimately have "0 \<le> uint w + 1" "uint w + 1 < 2 ^ 64" by linarith+
  then have "(uint w + 1) mod 2 ^ 64 = uint w + 1" by (rule mod_pos_pos_trivial)
  then show ?thesis by (simp add: uint_word_ariths)
qed

lemma word_below_not_max: "(w :: 64 word) < m \<Longrightarrow> w \<noteq> - 1"
  using word_n1_ge [of m] leD by blast

section \<open>Rows of a table\<close>

text \<open>\<open>for i := range xs { if P(xs[i]) { return &xs[i] } }\<close> and a write through the pointer.\<close>

fun update_first :: "('a \<Rightarrow> bool) \<Rightarrow> ('a \<Rightarrow> 'a) \<Rightarrow> 'a list \<Rightarrow> 'a list" where
  "update_first P f [] = []"
| "update_first P f (x # xs) = (if P x then f x # xs else x # update_first P f xs)"

text \<open>The same loop without the \<open>return\<close>: the last match wins.\<close>

definition find_last :: "('a \<Rightarrow> bool) \<Rightarrow> 'a list \<Rightarrow> 'a option" where
  "find_last P xs = find P (rev xs)"

definition update_last :: "('a \<Rightarrow> bool) \<Rightarrow> ('a \<Rightarrow> 'a) \<Rightarrow> 'a list \<Rightarrow> 'a list" where
  "update_last P f xs = rev (update_first P f (rev xs))"

lemma length_update_first [simp]: "length (update_first P f xs) = length xs"
  by (induction xs) auto

lemma map_update_first: "(\<And>x. P x \<Longrightarrow> g (f x) = g x) \<Longrightarrow> map g (update_first P f xs) = map g xs"
  by (induction xs) auto

lemma update_first_none: "find P xs = None \<Longrightarrow> update_first P f xs = xs"
  by (induction xs) (auto split: if_splits)

lemma set_update_first:
  "y \<in> set (update_first P f xs) \<Longrightarrow> y \<in> set xs \<or> (\<exists>x. find P xs = Some x \<and> y = f x)"
  by (induction xs) (auto split: if_splits)

lemma set_update_first_iff:
  "find P xs = Some x \<Longrightarrow> f x \<in> set (update_first P f xs)"
  by (induction xs) (auto split: if_splits)

lemma find_update_first:
  "find P xs = Some x \<Longrightarrow> P (f x) \<Longrightarrow> find P (update_first P f xs) = Some (f x)"
  by (induction xs) (auto split: if_splits)

lemma find_update_first_other:
  "(\<And>x. P x \<Longrightarrow> \<not> Q x) \<Longrightarrow> (\<And>x. P x \<Longrightarrow> \<not> Q (f x)) \<Longrightarrow>
   find Q (update_first P f xs) = find Q xs"
  by (induction xs) auto

lemma find_cong_map:
  "find P xs = Some x \<Longrightarrow> P x \<and> x \<in> set xs"
  by (induction xs) (auto split: if_splits)

lemma find_Some_in: "find P xs = Some x \<Longrightarrow> x \<in> set xs"
  using find_cong_map by fastforce

lemma find_Some_prop: "find P xs = Some x \<Longrightarrow> P x"
  using find_cong_map by fastforce

lemma find_None_all: "find P xs = None \<Longrightarrow> x \<in> set xs \<Longrightarrow> \<not> P x"
  by (simp add: find_None_iff)

lemma find_append: "find P (xs @ ys) = (case find P xs of None \<Rightarrow> find P ys | Some x \<Rightarrow> Some x)"
  by (induction xs) auto

text \<open>A write that keeps the part \<open>g\<close> of every row.\<close>

lemma find_update_first_core:
  assumes "\<And>x. g (f x) = g x" and "\<And>x y. g x = g y \<Longrightarrow> P x = P y"
  shows "map_option g (find P (update_first Q f xs)) = map_option g (find P xs)"
proof -
  have "P (f x) = P x" for x using assms by blast
  then show ?thesis by (induction xs) (simp_all add: assms(1))
qed

lemma map_update_first_found:
  "find P xs = Some a \<Longrightarrow> g b = g a \<Longrightarrow> map g (update_first P (\<lambda>_. b) xs) = map g xs"
  by (induction xs) (auto split: if_splits)

lemma find_distinct_key:
  "distinct (map key xs) \<Longrightarrow> x \<in> set xs \<Longrightarrow> find (\<lambda>r. key r = key x) xs = Some x"
  by (induction xs) auto

lemma find_last_Some_prop: "find_last P xs = Some x \<Longrightarrow> P x"
  by (auto simp: find_last_def dest: find_Some_prop)

lemma find_last_Some_in: "find_last P xs = Some x \<Longrightarrow> x \<in> set xs"
  by (auto simp: find_last_def dest: find_Some_in)

lemma find_last_None: "find_last P xs = None \<longleftrightarrow> (\<forall>x\<in>set xs. \<not> P x)"
  by (auto simp: find_last_def find_None_iff)

section \<open>The interface of a keyed table\<close>

text \<open>
  Every entity of the state lives in a slice and is addressed by its \<open>ID\<close>. The operations
  a client uses are the lookup and the write through the pointer the lookup returns; the
  provider promises that the table can be read back after it was replaced, that the
  replacement is the last one, and that it touches nothing else of the state
  (\<open>rows\<close> of other tables are stated by their own components).
\<close>

locale keyed_table =
  fixes rows :: "'s \<Rightarrow> 'r list"
    and set_rows :: "'r list \<Rightarrow> 's \<Rightarrow> 's"
    and key :: "'r \<Rightarrow> string"
  assumes rows_set [simp]: "rows (set_rows xs s) = xs"
    and set_set [simp]: "set_rows xs (set_rows ys s) = set_rows xs s"
    and set_rows_id [simp]: "set_rows (rows s) s = s"
begin

lemma lookup_after_write:
  assumes "find (\<lambda>r. key r = i) (rows s) = Some r" and "key (f r) = i"
  shows "find (\<lambda>r. key r = i) (rows (set_rows (update_first (\<lambda>r. key r = i) f (rows s)) s)) = Some (f r)"
  using assms by (simp add: find_update_first)

lemma lookup_other_after_write:
  assumes "\<And>r. key r = i \<Longrightarrow> key (f r) = i" and "j \<noteq> i"
  shows "find (\<lambda>r. key r = j) (rows (set_rows (update_first (\<lambda>r. key r = i) f (rows s)) s))
    = find (\<lambda>r. key r = j) (rows s)"
  using assms by (simp, subst find_update_first_other) auto

lemma keys_after_write:
  assumes "\<And>r. key r = i \<Longrightarrow> key (f r) = i"
  shows "map key (rows (set_rows (update_first (\<lambda>r. key r = i) f (rows s)) s)) = map key (rows s)"
  using assms by (simp add: map_update_first)

lemma lookup_after_append:
  assumes "find (\<lambda>r. key r = key r0) (rows s) = None"
  shows "find (\<lambda>r. key r = key r0) (rows (set_rows (rows s @ [r0]) s)) = Some r0"
  using assms by (simp add: find_append)

lemma write_missing:
  assumes "find (\<lambda>r. key r = i) (rows s) = None"
  shows "set_rows (update_first (\<lambda>r. key r = i) f (rows s)) s = s"
  using assms by (simp add: update_first_none)

end

section \<open>The interface of a transactional operation\<close>

text \<open>
  \<open>Store.Update\<close> runs a function on the state and keeps the new state when the function
  returns no error. Every operation of the service has this shape; a component promises that its
  operation keeps its invariant when it succeeds, and the client concludes it of any run.
\<close>

definition commit :: "('c \<Rightarrow> 's \<Rightarrow> ('o \<times> 's) result) \<Rightarrow> 's \<Rightarrow> 'c \<Rightarrow> 's" where
  "commit op s c = (case op c s of Inl e \<Rightarrow> s | Inr (out, t) \<Rightarrow> t)"

definition run_all :: "('c \<Rightarrow> 's \<Rightarrow> ('o \<times> 's) result) \<Rightarrow> 's \<Rightarrow> 'c list \<Rightarrow> 's" where
  "run_all op s cs = foldl (commit op) s cs"

text \<open>The state after an operation that succeeds, to evaluate it on a concrete input.\<close>

definition state_after :: "('o \<times> 's) result \<Rightarrow> 's" where
  "state_after r = snd (projr r)"

lemma succeeds: "\<not> isl r \<Longrightarrow> r = Inr (fst (projr r), state_after r)"
  by (cases r) (simp_all add: state_after_def)

text \<open>Every request of a run is acceptable in the state it arrives at.\<close>

fun run_ok :: "('c \<Rightarrow> 's \<Rightarrow> ('o \<times> 's) result) \<Rightarrow> ('c \<Rightarrow> 's \<Rightarrow> bool) \<Rightarrow> 's \<Rightarrow> 'c list \<Rightarrow> bool" where
  "run_ok op ok s [] = True"
| "run_ok op ok s (c # cs) = (ok c s \<and> run_ok op ok (commit op s c) cs)"

locale transactional =
  fixes op :: "'c \<Rightarrow> 's \<Rightarrow> ('o \<times> 's) result"
    and ok :: "'c \<Rightarrow> 's \<Rightarrow> bool"
    and inv :: "'s \<Rightarrow> bool"
  assumes op_keeps: "inv s \<Longrightarrow> ok c s \<Longrightarrow> op c s = Inr (out, t) \<Longrightarrow> inv t"
begin

lemma commit_keeps: "inv s \<Longrightarrow> ok c s \<Longrightarrow> inv (commit op s c)"
  by (auto simp: commit_def split: sum.splits prod.splits intro: op_keeps)

lemma run_keeps: "inv s \<Longrightarrow> run_ok op ok s cs \<Longrightarrow> inv (run_all op s cs)"
  by (induction cs arbitrary: s) (simp_all add: run_all_def commit_keeps)

end

end
