(* ===== verification/GoStrings.thy ===== *)
theory GoStrings
  imports GoPrelude "HOL-Library.Sublist"
begin

text \<open>
  Packages \<open>strings\<close>, \<open>slices\<close>, \<open>sort\<close> and the regular expressions of the modelled
  files. All functions compute, so closed instances are decided by \<open>code_simp\<close> or
  \<open>simp\<close>. Case mappings act on ASCII letters and on the multi-byte runes they take to ASCII
  (U+212A, the Kelvin sign; U+017F, the long s, in folding; U+0130, the dotted capital I, in
  \<open>ToLower\<close>); other non-ASCII letters are left alone.
\<close>

section \<open>White space\<close>

text \<open>The encodings of the runes that \<open>unicode.IsSpace\<close> accepts.\<close>

definition go_spaces :: "string list" where
  "go_spaces =
    [[CHR 0x20], [CHR 0x09], [CHR 0x0A], [CHR 0x0B], [CHR 0x0C], [CHR 0x0D],
     [CHR 0xC2, CHR 0x85], [CHR 0xC2, CHR 0xA0], [CHR 0xE1, CHR 0x9A, CHR 0x80],
     [CHR 0xE2, CHR 0x80, CHR 0x80], [CHR 0xE2, CHR 0x80, CHR 0x81], [CHR 0xE2, CHR 0x80, CHR 0x82],
     [CHR 0xE2, CHR 0x80, CHR 0x83], [CHR 0xE2, CHR 0x80, CHR 0x84], [CHR 0xE2, CHR 0x80, CHR 0x85],
     [CHR 0xE2, CHR 0x80, CHR 0x86], [CHR 0xE2, CHR 0x80, CHR 0x87], [CHR 0xE2, CHR 0x80, CHR 0x88],
     [CHR 0xE2, CHR 0x80, CHR 0x89], [CHR 0xE2, CHR 0x80, CHR 0x8A], [CHR 0xE2, CHR 0x80, CHR 0xA8],
     [CHR 0xE2, CHR 0x80, CHR 0xA9], [CHR 0xE2, CHR 0x80, CHR 0xAF], [CHR 0xE2, CHR 0x81, CHR 0x9F],
     [CHR 0xE3, CHR 0x80, CHR 0x80]]"

lemma go_spaces_nonempty: "w \<in> set go_spaces \<Longrightarrow> w \<noteq> []"
  by (auto simp: go_spaces_def)

definition space_at :: "string list \<Rightarrow> string \<Rightarrow> string option" where
  "space_at ws s = find (\<lambda>w. prefix w s) ws"

text \<open>Each step drops at least one byte, so the length of the string bounds the steps.\<close>

fun trim_steps :: "nat \<Rightarrow> string list \<Rightarrow> string \<Rightarrow> string" where
  "trim_steps 0 ws s = s"
| "trim_steps (Suc n) ws s =
     (case space_at ws s of None \<Rightarrow> s | Some w \<Rightarrow> trim_steps n ws (drop (length w) s))"

definition trim_left :: "string \<Rightarrow> string" where
  "trim_left s = trim_steps (length s) go_spaces s"

definition trim_right :: "string \<Rightarrow> string" where
  "trim_right s = rev (trim_steps (length s) (map rev go_spaces) (rev s))"

definition trim_space :: "string \<Rightarrow> string" where
  "trim_space s = trim_right (trim_left s)"

lemma space_at_Some:
  assumes "space_at ws s = Some w"
  shows "w \<in> set ws" and "prefix w s"
  using assms by (auto simp: space_at_def dest: find_cong_map)

lemma length_trim_steps: "length (trim_steps n ws s) \<le> length s"
proof (induction n arbitrary: s)
  case (Suc n)
  have "length (trim_steps n ws (drop k s)) \<le> length s" for k
    using Suc [of "drop k s"] by simp
  then show ?case by (auto split: option.splits)
qed simp

text \<open>With the length of the string as the number of steps nothing is left to trim.\<close>

lemma trim_steps_done:
  assumes "\<And>w. w \<in> set ws \<Longrightarrow> w \<noteq> []"
  shows "length s \<le> n \<Longrightarrow> space_at ws (trim_steps n ws s) = None"
proof (induction n arbitrary: s)
  case 0
  then have "s = []" by simp
  moreover have "w \<notin> set ws" if "prefix w []" for w using that assms by auto
  ultimately show ?case by (auto simp: space_at_def find_None_iff)
next
  case (Suc n)
  show ?case
  proof (cases "space_at ws s")
    case None
    then show ?thesis by simp
  next
    case (Some w)
    then have "w \<noteq> []" using assms space_at_Some by blast
    then have "length (drop (length w) s) \<le> n" using Suc.prems by (cases w) auto
    then show ?thesis using Some Suc.IH by simp
  qed
qed

lemma trim_left_done: "space_at go_spaces (trim_left s) = None"
  unfolding trim_left_def by (rule trim_steps_done) (auto simp: go_spaces_nonempty)

lemma trim_left_idem: "trim_left (trim_left s) = trim_left s"
proof -
  have "trim_steps n go_spaces (trim_left s) = trim_left s" for n
    by (cases n) (simp_all add: trim_left_done)
  then show ?thesis by (simp add: trim_left_def)
qed

lemma trim_steps_suffix: "suffix (trim_steps n ws s) s"
proof (induction n arbitrary: s)
  case (Suc n)
  have "suffix (trim_steps n ws (drop k s)) s" for k
    using Suc [of "drop k s"] suffix_drop suffix_order.trans by blast
  then show ?case by (auto split: option.splits)
qed simp

lemma trim_right_prefix: "prefix (trim_right s) s"
  using trim_steps_suffix [of "length s" "map rev go_spaces" "rev s"]
  by (simp add: trim_right_def suffix_to_prefix)

lemma trim_right_idem: "trim_right (trim_right s) = trim_right s"
proof -
  define t where "t = trim_steps (length s) (map rev go_spaces) (rev s)"
  have "space_at (map rev go_spaces) t = None"
    unfolding t_def by (rule trim_steps_done) (auto dest: go_spaces_nonempty)
  then have "trim_steps n (map rev go_spaces) t = t" for n by (cases n) simp_all
  then show ?thesis by (simp add: trim_right_def t_def [symmetric])
qed

lemma trim_space_idem [simp]: "trim_space (trim_space s) = trim_space s"
proof -
  have "space_at go_spaces (trim_space s) = None"
    using trim_left_done [of s] trim_right_prefix [of "trim_left s"] prefix_order.trans
    by (fastforce simp: space_at_def trim_space_def find_None_iff)
  then have "trim_left (trim_space s) = trim_space s"
    by (cases "length (trim_space s)") (simp_all add: trim_left_def)
  then show ?thesis by (simp add: trim_space_def trim_right_idem)
qed

lemma trim_space_empty [simp]: "trim_space [] = []"
  by (simp add: trim_space_def trim_left_def trim_right_def)

section \<open>Letter case\<close>

definition upper_letters :: string where
  "upper_letters = ''ABCDEFGHIJKLMNOPQRSTUVWXYZ''"

definition lower_letters :: string where
  "lower_letters = ''abcdefghijklmnopqrstuvwxyz''"

definition digits :: string where
  "digits = ''0123456789''"

definition lower_char :: "char \<Rightarrow> char" where
  "lower_char c = (case map_of (zip upper_letters lower_letters) c of Some l \<Rightarrow> l | None \<Rightarrow> c)"

text \<open>\<open>strings.ToLower\<close>: the Kelvin sign (E2 84 AA) becomes \<open>k\<close> and the dotted capital I (C4 B0)
  becomes \<open>i\<close>.\<close>

fun to_lower :: "string \<Rightarrow> string" where
  "to_lower (a # b # s) =
     (if a = CHR 0xC4 \<and> b = CHR 0xB0 then CHR ''i'' # to_lower s
      else (case s of
        c # s' \<Rightarrow> (if a = CHR 0xE2 \<and> b = CHR 0x84 \<and> c = CHR 0xAA then CHR ''k'' # to_lower s'
                  else lower_char a # to_lower (b # s))
      | [] \<Rightarrow> lower_char a # to_lower (b # s)))"
| "to_lower (a # s) = lower_char a # to_lower s"
| "to_lower [] = []"

text \<open>The folding under which \<open>strings.EqualFold\<close> and the field names of
  \<open>encoding/json\<close> are compared: both special runes fold to their ASCII letter.\<close>

fun fold_name :: "string \<Rightarrow> string" where
  "fold_name (a # b # s) =
     (if a = CHR 0xC5 \<and> b = CHR 0xBF then CHR ''s'' # fold_name s
      else (case s of
        c # s' \<Rightarrow> (if a = CHR 0xE2 \<and> b = CHR 0x84 \<and> c = CHR 0xAA then CHR ''k'' # fold_name s'
                  else lower_char a # fold_name (b # s))
      | [] \<Rightarrow> lower_char a # fold_name (b # s)))"
| "fold_name (a # s) = lower_char a # fold_name s"
| "fold_name [] = []"

definition equal_fold :: "string \<Rightarrow> string \<Rightarrow> bool" where
  "equal_fold a b \<longleftrightarrow> fold_name a = fold_name b"

lemma equal_fold_refl [simp]: "equal_fold a a"
  by (simp add: equal_fold_def)

lemma equal_fold_sym: "equal_fold a b \<Longrightarrow> equal_fold b a"
  by (simp add: equal_fold_def)

section \<open>Prefixes and characters\<close>

definition has_prefix :: "string \<Rightarrow> string \<Rightarrow> bool" where
  "has_prefix s p \<longleftrightarrow> take (length p) s = p"

definition trim_prefix :: "string \<Rightarrow> string \<Rightarrow> string" where
  "trim_prefix s p = (if has_prefix s p then drop (length p) s else s)"

definition has_suffix :: "string \<Rightarrow> string \<Rightarrow> bool" where
  "has_suffix s p \<longleftrightarrow> has_prefix (rev s) (rev p)"

definition contains_any :: "string \<Rightarrow> string \<Rightarrow> bool" where
  "contains_any s cs \<longleftrightarrow> list_ex (\<lambda>c. c \<in> set cs) s"

lemma has_prefix_iff: "has_prefix s p \<longleftrightarrow> prefix p s"
  by (auto simp: has_prefix_def prefix_def) (metis append_take_drop_id)

text \<open>\<open>strings.ReplaceAll(s, "-", "")\<close>\<close>

definition remove_char :: "char \<Rightarrow> string \<Rightarrow> string" where
  "remove_char c s = filter (\<lambda>d. d \<noteq> c) s"

section \<open>Regular expressions\<close>

definition hex_lower :: string where
  "hex_lower = ''0123456789abcdef''"

text \<open>\<open>^sha256:[0-9a-f]{64}$\<close>, compiled in several files of the repository.\<close>

definition sha256_digest :: "string \<Rightarrow> bool" where
  "sha256_digest s \<longleftrightarrow>
     has_prefix s ''sha256:'' \<and> length s = 71 \<and> list_all (\<lambda>c. c \<in> set hex_lower) (drop 7 s)"

text \<open>\<open>^[A-Za-z0-9][A-Za-z0-9<extra>]{lo,hi}$\<close>\<close>

definition alnum :: "char \<Rightarrow> bool" where
  "alnum c \<longleftrightarrow> c \<in> set upper_letters \<or> c \<in> set lower_letters \<or> c \<in> set digits"

definition name_like :: "string \<Rightarrow> nat \<Rightarrow> nat \<Rightarrow> string \<Rightarrow> bool" where
  "name_like extra lo hi s =
     (case s of [] \<Rightarrow> False
      | c # t \<Rightarrow> alnum c \<and> lo \<le> length t \<and> length t \<le> hi \<and>
                list_all (\<lambda>d. alnum d \<or> d \<in> set extra) t)"

text \<open>\<open>^(?:[0-9a-f]{40}|[0-9a-f]{64})$\<close>\<close>

definition full_sha :: "string \<Rightarrow> bool" where
  "full_sha s \<longleftrightarrow> (length s = 40 \<or> length s = 64) \<and> list_all (\<lambda>c. c \<in> set hex_lower) s"

lemma sha256_digest_length: "sha256_digest s \<Longrightarrow> length s = 71"
  by (simp add: sha256_digest_def)

lemma sha256_digest_nonempty: "sha256_digest s \<Longrightarrow> s \<noteq> []"
  by (auto simp: sha256_digest_def)

section \<open>Sorted sets of strings\<close>

text \<open>\<open>sort.Strings\<close> orders by bytes, which is the lexicographic order on \<open>string\<close>.\<close>

fun drop_repeats :: "string list \<Rightarrow> string list \<Rightarrow> string list" where
  "drop_repeats out [] = out"
| "drop_repeats out (s # v) =
     (if out = [] \<or> s \<noteq> last out then drop_repeats (out @ [s]) v else drop_repeats out v)"

lemma drop_repeats_set: "set (drop_repeats out v) = set out \<union> set v"
proof (induction v arbitrary: out)
  case (Cons s v)
  then show ?case by (cases "out = []") (auto dest: last_in_set)
qed simp

lemma drop_repeats_sorted:
  assumes "sorted v" and "sorted_wrt (<) out" and "\<And>x y. x \<in> set out \<Longrightarrow> y \<in> set v \<Longrightarrow> x \<le> y"
  shows "sorted_wrt (<) (drop_repeats out v)"
  using assms
proof (induction v arbitrary: out)
  case (Cons s v)
  have IH: "sorted_wrt (<) (drop_repeats o2 v)"
    if "sorted_wrt (<) o2" and "\<And>x y. x \<in> set o2 \<Longrightarrow> y \<in> set v \<Longrightarrow> x \<le> y" for o2
    using Cons.IH [of o2] Cons.prems(1) that by simp
  show ?case
  proof (cases "out = [] \<or> s \<noteq> last out")
    case True
    have less: "x < s" if x: "x \<in> set out" for x
    proof -
      have ne: "out \<noteq> []" using x by auto
      with True have l: "last out \<noteq> s" by auto
      have "last out \<le> s" using Cons.prems(3) last_in_set [OF ne] by simp
      with l have ls: "last out < s" by simp
      have sp: "out = butlast out @ [last out]" using ne by simp
      have "x \<le> last out"
      proof (cases "x \<in> set (butlast out)")
        case True
        have "sorted_wrt (<) (butlast out @ [last out])" using Cons.prems(2) sp by simp
        then show ?thesis using True by (auto simp: sorted_wrt_append)
      next
        case False
        have "x \<in> set (butlast out) \<union> {last out}" using x sp by (metis set_append list.set(1) list.set(2))
        then show ?thesis using False by simp
      qed
      from this ls show ?thesis by (rule le_less_trans)
    qed
    have "sorted_wrt (<) (out @ [s])" using Cons.prems(2) less by (simp add: sorted_wrt_append)
    then have "sorted_wrt (<) (drop_repeats (out @ [s]) v)"
      using Cons.prems by (intro IH) auto
    then show ?thesis using True by simp
  next
    case False
    then have "drop_repeats out (s # v) = drop_repeats out v" by simp
    moreover have "sorted_wrt (<) (drop_repeats out v)" using Cons.prems by (intro IH) auto
    ultimately show ?thesis by simp
  qed
qed simp

end
