(* ===== verification/GoTime.thy ===== *)
theory GoTime
  imports GoStrings
begin

text \<open>
  \<open>time.Time\<close> as read from JSON: \<open>UnmarshalJSON\<close> accepts a string in the strict
  RFC 3339 form. The value is the instant in nanoseconds since 0001-01-01T00:00:00Z; fractions
  beyond nanoseconds are truncated.
\<close>

definition digit_value :: "char \<Rightarrow> int option" where
  "digit_value c = map_of (zip digits [0, 1, 2, 3, 4, 5, 6, 7, 8, 9]) c"

fun number_from :: "int \<Rightarrow> string \<Rightarrow> int option" where
  "number_from acc [] = Some acc"
| "number_from acc (c # s) =
     (case digit_value c of None \<Rightarrow> None | Some d \<Rightarrow> number_from (10 * acc + d) s)"

definition fixed_number :: "nat \<Rightarrow> string \<Rightarrow> int option" where
  "fixed_number n s = (if length s = n then number_from 0 s else None)"

definition leap_year :: "int \<Rightarrow> bool" where
  "leap_year y \<longleftrightarrow> y mod 4 = 0 \<and> (y mod 100 \<noteq> 0 \<or> y mod 400 = 0)"

definition days_in :: "int \<Rightarrow> int \<Rightarrow> int" where
  "days_in y m =
     (if m = 2 then (if leap_year y then 29 else 28)
      else if m \<in> {4, 6, 9, 11} then 30 else 31)"

text \<open>Days of the months before \<open>m\<close> in a common year.\<close>

definition days_before :: "int \<Rightarrow> int" where
  "days_before m =
     (case map_of [(1, 0), (2, 31), (3, 59), (4, 90), (5, 120), (6, 151), (7, 181), (8, 212),
                   (9, 243), (10, 273), (11, 304), (12, 334)] m of Some d \<Rightarrow> d | None \<Rightarrow> 0)"

definition day_number :: "int \<Rightarrow> int \<Rightarrow> int \<Rightarrow> int" where
  "day_number y m d =
     (let p = y - 1 in
      365 * p + p div 4 - p div 100 + p div 400 + days_before m
        + (if 2 < m \<and> leap_year y then 1 else 0) + (d - 1))"

definition is_digit :: "char \<Rightarrow> bool" where
  "is_digit c \<longleftrightarrow> c \<in> set digits"

text \<open>The fraction: at least one digit after the point; the first nine count.\<close>

definition split_fraction :: "string \<Rightarrow> (int \<times> string) option" where
  "split_fraction s =
     (case s of
        CHR ''.'' # t \<Rightarrow>
          (let ds = takeWhile is_digit t; nine = take 9 (ds @ replicate 9 (CHR ''0'')) in
           if ds = [] then None
           else map_option (\<lambda>n. (n, dropWhile is_digit t)) (number_from 0 nine))
      | _ \<Rightarrow> Some (0, s))"

text \<open>The zone as seconds east of UTC.\<close>

definition zone_offset :: "string \<Rightarrow> int option" where
  "zone_offset s =
     (if s = ''Z'' then Some 0
      else if length s = 6 \<and> s ! 3 = CHR '':'' \<and> (hd s = CHR ''+'' \<or> hd s = CHR ''-'') then
        (case (fixed_number 2 (take 2 (drop 1 s)), fixed_number 2 (drop 4 s)) of
           (Some h, Some m) \<Rightarrow>
             (if h < 24 \<and> m < 60
              then Some ((if hd s = CHR ''-'' then -1 else 1) * (h * 3600 + m * 60)) else None)
         | _ \<Rightarrow> None)
      else None)"

definition part :: "nat \<Rightarrow> nat \<Rightarrow> string \<Rightarrow> int option" where
  "part i n s = fixed_number n (take n (drop i s))"

definition parse_rfc3339 :: "string \<Rightarrow> time option" where
  "parse_rfc3339 s =
     (if length s < 20 \<or> s ! 4 \<noteq> CHR ''-'' \<or> s ! 7 \<noteq> CHR ''-'' \<or> s ! 10 \<noteq> CHR ''T'' \<or>
         s ! 13 \<noteq> CHR '':'' \<or> s ! 16 \<noteq> CHR '':'' then None
      else
        (case (part 0 4 s, part 5 2 s, part 8 2 s) of
           (Some y, Some mo, Some d) \<Rightarrow>
             (case (part 11 2 s, part 14 2 s, part 17 2 s, split_fraction (drop 19 s)) of
                (Some h, Some mi, Some sec, Some (frac, rest)) \<Rightarrow>
                  (if mo < 1 \<or> 12 < mo \<or> d < 1 \<or> days_in y mo < d \<or> 24 \<le> h \<or> 60 \<le> mi \<or> 60 \<le> sec
                   then None
                   else map_option
                     (\<lambda>off. (day_number y mo d * 86400 + h * 3600 + mi * 60 + sec - off) * second + frac)
                     (zone_offset rest))
              | _ \<Rightarrow> None)
         | _ \<Rightarrow> None))"

lemma parse_zero_time: "parse_rfc3339 ''0001-01-01T00:00:00Z'' = Some zero_time"
  by code_simp

lemma parse_unix_epoch: "parse_rfc3339 ''1970-01-01T00:00:00Z'' = Some (62135596800 * second)"
  by code_simp

lemma parse_offset: "parse_rfc3339 ''2024-02-29T12:30:15.5+02:00'' =
    parse_rfc3339 ''2024-02-29T10:30:15.500Z''"
  by code_simp

end
