(* ===== verification/JsonData.thy ===== *)
theory JsonData
  imports GoTime
begin

text \<open>
  What the service uses of \<open>encoding/json\<close>: a command carries a \<open>map[string]any\<close>,
  which \<open>decode\<close> of \<open>internal/application/service.go\<close> marshals (object keys come out
  sorted) and unmarshals over a struct with unknown fields refused. A struct is described by its
  table of fields; decoding runs over the entries in order, a field keeps its old value when it is
  not named, \<open>null\<close> leaves a string, a number, a boolean and a struct as they are and empties
  a slice or a map, a slice is decoded over its old elements and a map is merged into the old one.
  A field is found by its exact name first and by case folding otherwise.
\<close>

section \<open>Values\<close>

text \<open>\<open>JFrac\<close> is a number with a fraction or an exponent: no modelled field accepts one.\<close>

datatype json =
    JNull
  | JBool bool
  | JInt int
  | JFrac string
  | JStr string
  | JArr "json list"
  | JObj "(string \<times> json) list"

type_synonym json_data = "(string \<times> json) list"

text \<open>\<open>c.Data[key].(string)\<close> with the failed assertion giving the empty string, and the
  presence test \<open>_, ok := c.Data[key]\<close>.\<close>

definition data_string :: "json_data \<Rightarrow> string \<Rightarrow> string" where
  "data_string data k = (case map_of data k of Some (JStr s) \<Rightarrow> s | _ \<Rightarrow> [])"

definition has_key :: "json_data \<Rightarrow> string \<Rightarrow> bool" where
  "has_key data k \<longleftrightarrow> map_of data k \<noteq> None"

lemma has_key_iff: "has_key data k \<longleftrightarrow> k \<in> fst ` set data"
  by (metis has_key_def map_of_eq_None_iff)

section \<open>Decoding one value\<close>

type_synonym 'a decoder = "json \<Rightarrow> 'a \<Rightarrow> 'a option"

definition dec_string :: "string decoder" where
  "dec_string j old = (case j of JNull \<Rightarrow> Some old | JStr s \<Rightarrow> Some s | _ \<Rightarrow> None)"

definition dec_bool :: "bool decoder" where
  "dec_bool j old = (case j of JNull \<Rightarrow> Some old | JBool b \<Rightarrow> Some b | _ \<Rightarrow> None)"

text \<open>A Go \<open>int\<close> has 64 bits; a number out of its range is a type error.\<close>

definition dec_int :: "int decoder" where
  "dec_int j old =
     (case j of JNull \<Rightarrow> Some old
      | JInt n \<Rightarrow> (if - (2 ^ 63) \<le> n \<and> n < 2 ^ 63 then Some n else None)
      | _ \<Rightarrow> None)"

definition dec_uint64 :: "64 word decoder" where
  "dec_uint64 j old =
     (case j of JNull \<Rightarrow> Some old
      | JInt n \<Rightarrow> (if 0 \<le> n \<and> n < 2 ^ 64 then Some (word_of_int n) else None)
      | _ \<Rightarrow> None)"

definition dec_time :: "time decoder" where
  "dec_time j old = (case j of JNull \<Rightarrow> Some old | JStr s \<Rightarrow> parse_rfc3339 s | _ \<Rightarrow> None)"

text \<open>The elements of a slice, decoded over the old ones while they last.\<close>

fun dec_elems :: "'a decoder \<Rightarrow> 'a \<Rightarrow> json list \<Rightarrow> 'a list \<Rightarrow> 'a list option" where
  "dec_elems d z [] olds = Some []"
| "dec_elems d z (j # js) olds =
     (case d j (case olds of [] \<Rightarrow> z | x # _ \<Rightarrow> x) of
        None \<Rightarrow> None
      | Some v \<Rightarrow> (case dec_elems d z js (tl olds) of None \<Rightarrow> None | Some vs \<Rightarrow> Some (v # vs)))"

definition dec_list :: "'a decoder \<Rightarrow> 'a \<Rightarrow> 'a list decoder" where
  "dec_list d z j old = (case j of JNull \<Rightarrow> Some [] | JArr js \<Rightarrow> dec_elems d z js old | _ \<Rightarrow> None)"

definition dec_strings :: "string list decoder" where
  "dec_strings = dec_list dec_string []"

text \<open>A map keeps the old entries; each value is decoded over a zero value.\<close>

fun put_entry :: "string \<Rightarrow> 'a \<Rightarrow> (string \<times> 'a) list \<Rightarrow> (string \<times> 'a) list" where
  "put_entry k v [] = [(k, v)]"
| "put_entry k v ((l, w) # m) = (if l = k then (k, v) # m else (l, w) # put_entry k v m)"

fun dec_entries :: "'a decoder \<Rightarrow> 'a \<Rightarrow> json_data \<Rightarrow> (string \<times> 'a) list \<Rightarrow> (string \<times> 'a) list option"
where
  "dec_entries d z [] m = Some m"
| "dec_entries d z ((k, j) # kvs) m =
     (case d j z of None \<Rightarrow> None | Some v \<Rightarrow> dec_entries d z kvs (put_entry k v m))"

definition dec_map :: "'a decoder \<Rightarrow> 'a \<Rightarrow> (string \<times> 'a) list decoder" where
  "dec_map d z j old =
     (case j of JNull \<Rightarrow> Some [] | JObj kvs \<Rightarrow> dec_entries d z (sort_key fst kvs) old | _ \<Rightarrow> None)"

definition dec_any :: "json decoder" where
  "dec_any j old = Some j"

lemma put_entry_lookup: "map_of (put_entry k v m) = (map_of m)(k \<mapsto> v)"
  by (induction m) auto

lemma length_dec_elems: "dec_elems d z js olds = Some vs \<Longrightarrow> length vs = length js"
  by (induction js arbitrary: olds vs) (auto split: option.splits)

section \<open>Decoding a struct\<close>

type_synonym 'r field = "string \<times> 'r decoder"

text \<open>A field of a record, from its selector and its update function.\<close>

definition field :: "string \<Rightarrow> ('r \<Rightarrow> 'a) \<Rightarrow> (('a \<Rightarrow> 'a) \<Rightarrow> 'r \<Rightarrow> 'r) \<Rightarrow> 'a decoder \<Rightarrow> 'r field" where
  "field n get upd d =
     (n, \<lambda>j r. case d j (get r) of None \<Rightarrow> None | Some v \<Rightarrow> Some (upd (\<lambda>_. v) r))"

definition find_field :: "'r field list \<Rightarrow> string \<Rightarrow> 'r decoder option" where
  "find_field tbl k =
     (case find (\<lambda>f. fst f = k) tbl of
        Some f \<Rightarrow> Some (snd f)
      | None \<Rightarrow> map_option snd (find (\<lambda>f. fold_name (fst f) = fold_name k) tbl))"

fun dec_fields :: "'r field list \<Rightarrow> json_data \<Rightarrow> 'r \<Rightarrow> 'r option" where
  "dec_fields tbl [] r = Some r"
| "dec_fields tbl ((k, j) # kvs) r =
     (case find_field tbl k of
        None \<Rightarrow> None
      | Some d \<Rightarrow> (case d j r of None \<Rightarrow> None | Some r' \<Rightarrow> dec_fields tbl kvs r'))"

definition dec_struct :: "'r field list \<Rightarrow> 'r decoder" where
  "dec_struct tbl j old =
     (case j of JNull \<Rightarrow> Some old | JObj kvs \<Rightarrow> dec_fields tbl (sort_key fst kvs) old | _ \<Rightarrow> None)"

definition dec_pointer :: "'a decoder \<Rightarrow> 'a \<Rightarrow> 'a option decoder" where
  "dec_pointer d z j old =
     (case j of JNull \<Rightarrow> Some None
      | _ \<Rightarrow> map_option Some (d j (case old of None \<Rightarrow> z | Some v \<Rightarrow> v)))"

text \<open>\<open>decode\<close> of \<open>internal/application/service.go\<close>.\<close>

definition decode :: "'r field list \<Rightarrow> json_data \<Rightarrow> 'r \<Rightarrow> 'r result" where
  "decode tbl data v =
     (case dec_fields tbl (sort_key fst data) v of
        None \<Rightarrow> Inl (invalid ''invalid fields: %v'' [])
      | Some v' \<Rightarrow> Inr v')"

section \<open>What decoding leaves alone\<close>

lemma find_field_fold:
  assumes "find_field tbl k = Some d"
  shows "\<exists>n. (n, d) \<in> set tbl \<and> fold_name n = fold_name k"
proof (cases "find (\<lambda>f. fst f = k) tbl")
  case (Some f)
  then have "f \<in> set tbl" "fst f = k" by (simp_all add: find_Some_in find_Some_prop [of "\<lambda>f. fst f = k"])
  moreover have "d = snd f" using assms Some by (simp add: find_field_def)
  ultimately show ?thesis by (metis prod.collapse)
next
  case None
  then obtain f where f: "find (\<lambda>f. fold_name (fst f) = fold_name k) tbl = Some f" "d = snd f"
    using assms by (auto simp: find_field_def)
  then have "f \<in> set tbl" "fold_name (fst f) = fold_name k"
    by (simp_all add: find_Some_in find_Some_prop [of "\<lambda>f. fold_name (fst f) = fold_name k"])
  then show ?thesis using f(2) by (metis prod.collapse)
qed

text \<open>
  A part \<open>g\<close> of the struct survives decoding when every field that a key of the object can
  reach, exactly or by folding, leaves it alone.
\<close>

definition keeps_part :: "('r \<Rightarrow> 'b) \<Rightarrow> 'r decoder \<Rightarrow> bool" where
  "keeps_part g d \<longleftrightarrow> (\<forall>j r r'. d j r = Some r' \<longrightarrow> g r' = g r)"

lemma keeps_partD: "keeps_part g d \<Longrightarrow> d j r = Some r' \<Longrightarrow> g r' = g r"
  by (simp add: keeps_part_def)

lemma keeps_part_field:
  "(\<And>v r. g (upd (\<lambda>_. v) r) = g r) \<Longrightarrow> keeps_part g (snd (field n get upd d))"
  by (auto simp: keeps_part_def field_def split: option.splits)

lemma dec_fields_keeps:
  assumes "\<And>n d. (n, d) \<in> set tbl \<Longrightarrow> fold_name n \<in> fold_name ` fst ` set kvs \<Longrightarrow> keeps_part g d"
    and "dec_fields tbl kvs r = Some r'"
  shows "g r' = g r"
  using assms
proof (induction kvs arbitrary: r)
  case (Cons kj kvs)
  obtain k j where kj: "kj = (k, j)" by force
  from Cons.prems(2) kj obtain d r1 where d: "find_field tbl k = Some d" "d j r = Some r1"
      "dec_fields tbl kvs r1 = Some r'"
    by (auto split: option.splits)
  from find_field_fold [OF d(1)] obtain n where n: "(n, d) \<in> set tbl" "fold_name n = fold_name k"
    by blast
  have "keeps_part g d" using Cons.prems(1) [OF n(1)] n(2) kj by simp
  then have "g r1 = g r" using d(2) keeps_partD by metis
  moreover have "g r' = g r1" using Cons.IH [OF _ d(3)] Cons.prems(1) by simp
  ultimately show ?case by simp
qed simp

lemma decode_keeps:
  assumes "\<And>n d. (n, d) \<in> set tbl \<Longrightarrow> fold_name n \<in> fold_name ` fst ` set data \<Longrightarrow> keeps_part g d"
    and "decode tbl data r = Inr r'"
  shows "g r' = g r"
  using assms dec_fields_keeps [of tbl "sort_key fst data" g r r']
  by (auto simp: decode_def split: option.splits)

lemma decode_empty [simp]: "decode tbl [] r = Inr r"
  by (simp add: decode_def)

section \<open>Names a key can stand for\<close>

definition ascii :: "string \<Rightarrow> bool" where
  "ascii s \<longleftrightarrow> list_all (\<lambda>c. (of_char c :: nat) < 128) s"

lemma ascii_char: "(of_char c :: nat) < 128 \<Longrightarrow> c \<noteq> CHR 0xC4 \<and> c \<noteq> CHR 0xC5 \<and> c \<noteq> CHR 0xE2"
  by auto

lemma ascii_Cons: "ascii (c # s) \<Longrightarrow> c \<noteq> CHR 0xC4 \<and> c \<noteq> CHR 0xC5 \<and> c \<noteq> CHR 0xE2 \<and> ascii s"
  using ascii_char by (simp add: ascii_def)

lemma fold_name_step: "c \<noteq> CHR 0xC5 \<Longrightarrow> c \<noteq> CHR 0xE2 \<Longrightarrow> fold_name (c # s) = lower_char c # fold_name s"
  by (cases s) (simp_all split: list.split)

lemma to_lower_step: "c \<noteq> CHR 0xC4 \<Longrightarrow> c \<noteq> CHR 0xE2 \<Longrightarrow> to_lower (c # s) = lower_char c # to_lower s"
  by (cases s) (simp_all split: list.split)

lemma fold_name_ascii: "ascii s \<Longrightarrow> fold_name s = map lower_char s"
  by (induction s) (simp, metis ascii_Cons fold_name_step list.simps(9))

lemma to_lower_ascii: "ascii s \<Longrightarrow> to_lower s = map lower_char s"
  by (induction s) (simp, metis ascii_Cons to_lower_step list.simps(9))

text \<open>
  For an ASCII key in lower case folding is the identity, so the guards of the command handler,
  which compare keys exactly, see the field that decoding will write.
\<close>

lemma fold_name_plain: "ascii k \<Longrightarrow> to_lower k = k \<Longrightarrow> fold_name k = k"
  by (simp add: fold_name_ascii to_lower_ascii)

text \<open>The long s is not an upper-case letter, and it folds to the letter s.\<close>

definition long_s :: string where
  "long_s = [CHR 0xC5, CHR 0xBF]"

lemma long_s_key:
  "to_lower (long_s @ ''tatus'') = long_s @ ''tatus''"
  "fold_name (long_s @ ''tatus'') = fold_name ''status''"
  "long_s @ ''tatus'' \<noteq> ''status''"
  by code_simp+

end
