(* ===== verification/DomainModel.thy ===== *)
theory DomainModel
  imports JsonData
begin

text \<open>
  The persisted data of \<open>internal/domain\<close>: one record per struct, in the order the
  components need them. A selector is the Go field name after a short prefix for the struct
  (\<open>fStatus\<close> is \<open>Feature.Status\<close>); an embedded \<open>Meta\<close> is the field
  \<open><prefix>Meta\<close>. \<open>zero_T\<close> is the zero value of \<open>T\<close> and
  \<open>fields_T\<close> its JSON fields, as its struct tags give them.
\<close>

text \<open>The fields promoted from an embedded struct.\<close>

definition lift_fields :: "('r \<Rightarrow> 'a) \<Rightarrow> (('a \<Rightarrow> 'a) \<Rightarrow> 'r \<Rightarrow> 'r) \<Rightarrow> 'a field list \<Rightarrow> 'r field list" where
  "lift_fields get upd tbl =
     map (\<lambda>(n, d). (n, \<lambda>j r. case d j (get r) of None \<Rightarrow> None | Some m \<Rightarrow> Some (upd (\<lambda>_. m) r))) tbl"

section \<open>Planning entities\<close>


record Meta =
  mID :: string
  mProductID :: string
  mFeatureID :: string
  mActor :: string
  mCreatedAt :: time
  mUpdatedAt :: time

definition zero_Meta :: Meta where
  "zero_Meta = \<lparr>mID = [], mProductID = [], mFeatureID = [], mActor = [], mCreatedAt = zero_time,
     mUpdatedAt = zero_time\<rparr>"

definition fields_Meta :: "Meta field list" where
  "fields_Meta =
     [field ''id'' mID mID_update dec_string,
      field ''product_id'' mProductID mProductID_update dec_string,
      field ''feature_id'' mFeatureID mFeatureID_update dec_string,
      field ''actor'' mActor mActor_update dec_string,
      field ''created_at'' mCreatedAt mCreatedAt_update dec_time,
      field ''updated_at'' mUpdatedAt mUpdatedAt_update dec_time]"

record Product =
  pMeta :: Meta
  pName :: string
  pDescription :: string

definition zero_Product :: Product where
  "zero_Product = \<lparr>pMeta = zero_Meta, pName = [], pDescription = []\<rparr>"

definition fields_Product :: "Product field list" where
  "fields_Product =
     lift_fields pMeta pMeta_update fields_Meta @
     [field ''name'' pName pName_update dec_string,
      field ''description'' pDescription pDescription_update dec_string]"

record Feature =
  fMeta :: Meta
  fTitle :: string
  fProblem :: string
  fGoal :: string
  fRequirements :: "string list"
  fConstraints :: "string list"
  fContext :: string
  fRepositories :: "string list"
  fOwner :: string
  fStatus :: string

definition zero_Feature :: Feature where
  "zero_Feature = \<lparr>fMeta = zero_Meta, fTitle = [], fProblem = [], fGoal = [], fRequirements = [], fConstraints = [],
     fContext = [], fRepositories = [], fOwner = [], fStatus = []\<rparr>"

definition fields_Feature :: "Feature field list" where
  "fields_Feature =
     lift_fields fMeta fMeta_update fields_Meta @
     [field ''title'' fTitle fTitle_update dec_string,
      field ''problem'' fProblem fProblem_update dec_string,
      field ''goal'' fGoal fGoal_update dec_string,
      field ''requirements'' fRequirements fRequirements_update (dec_list dec_string []),
      field ''constraints'' fConstraints fConstraints_update (dec_list dec_string []),
      field ''context'' fContext fContext_update dec_string,
      field ''repositories'' fRepositories fRepositories_update (dec_list dec_string []),
      field ''owner'' fOwner fOwner_update dec_string,
      field ''status'' fStatus fStatus_update dec_string]"

record Branch =
  bRepositoryID :: string
  bName :: string

definition zero_Branch :: Branch where
  "zero_Branch = \<lparr>bRepositoryID = [], bName = []\<rparr>"

definition fields_Branch :: "Branch field list" where
  "fields_Branch =
     [field ''repository_id'' bRepositoryID bRepositoryID_update dec_string,
      field ''name'' bName bName_update dec_string]"

record Commit =
  cmRepositoryID :: string
  cmSHA :: string

definition zero_Commit :: Commit where
  "zero_Commit = \<lparr>cmRepositoryID = [], cmSHA = []\<rparr>"

definition fields_Commit :: "Commit field list" where
  "fields_Commit =
     [field ''repository_id'' cmRepositoryID cmRepositoryID_update dec_string,
      field ''sha'' cmSHA cmSHA_update dec_string]"

record PullRequest =
  prRepositoryID :: string
  prID :: string
  prURL :: string
  prStatus :: string

definition zero_PullRequest :: PullRequest where
  "zero_PullRequest = \<lparr>prRepositoryID = [], prID = [], prURL = [], prStatus = []\<rparr>"

definition fields_PullRequest :: "PullRequest field list" where
  "fields_PullRequest =
     [field ''repository_id'' prRepositoryID prRepositoryID_update dec_string,
      field ''id'' prID prID_update dec_string,
      field ''url'' prURL prURL_update dec_string,
      field ''status'' prStatus prStatus_update dec_string]"

record Integration =
  iKind :: string
  iFixesFindingID :: string
  iMeta :: Meta
  iTitle :: string
  iObjective :: string
  iRationale :: string
  iDependencies :: "string list"
  iAcceptanceCriteria :: "string list"
  iStatus :: string
  iOwner :: string
  iRepositories :: "string list"
  iBranches :: "Branch list"
  iCommits :: "Commit list"
  iPullRequests :: "PullRequest list"
  iCompleted :: "string list"
  iRemaining :: "string list"
  iWorkingAreas :: "string list"
  iPosition :: int

definition zero_Integration :: Integration where
  "zero_Integration = \<lparr>iKind = [], iFixesFindingID = [], iMeta = zero_Meta, iTitle = [], iObjective = [], iRationale = [],
     iDependencies = [], iAcceptanceCriteria = [], iStatus = [], iOwner = [], iRepositories = [],
     iBranches = [], iCommits = [], iPullRequests = [], iCompleted = [], iRemaining = [],
     iWorkingAreas = [], iPosition = 0\<rparr>"

definition fields_Integration :: "Integration field list" where
  "fields_Integration =
     lift_fields iMeta iMeta_update fields_Meta @
     [field ''kind'' iKind iKind_update dec_string,
      field ''fixes_finding_id'' iFixesFindingID iFixesFindingID_update dec_string,
      field ''title'' iTitle iTitle_update dec_string,
      field ''objective'' iObjective iObjective_update dec_string,
      field ''rationale'' iRationale iRationale_update dec_string,
      field ''dependencies'' iDependencies iDependencies_update (dec_list dec_string []),
      field ''acceptance_criteria'' iAcceptanceCriteria iAcceptanceCriteria_update (dec_list dec_string []),
      field ''status'' iStatus iStatus_update dec_string,
      field ''owner'' iOwner iOwner_update dec_string,
      field ''repositories'' iRepositories iRepositories_update (dec_list dec_string []),
      field ''branches'' iBranches iBranches_update (dec_list (dec_struct fields_Branch) zero_Branch),
      field ''commits'' iCommits iCommits_update (dec_list (dec_struct fields_Commit) zero_Commit),
      field ''pull_requests'' iPullRequests iPullRequests_update (dec_list (dec_struct fields_PullRequest) zero_PullRequest),
      field ''completed'' iCompleted iCompleted_update (dec_list dec_string []),
      field ''remaining'' iRemaining iRemaining_update (dec_list dec_string []),
      field ''working_areas'' iWorkingAreas iWorkingAreas_update (dec_list dec_string []),
      field ''position'' iPosition iPosition_update dec_int]"

record Memory =
  memMeta :: Meta
  memIntegrationID :: string
  memKind :: string
  memTitle :: string
  memBody :: string
  memReason :: string
  memStatus :: string
  memCompleted :: "string list"
  memCurrent :: string
  memRemaining :: "string list"
  memNext :: "string list"
  memWarnings :: "string list"
  memCommit :: string
  memDeployment :: string
  memSession :: string
  memResolution :: string

definition zero_Memory :: Memory where
  "zero_Memory = \<lparr>memMeta = zero_Meta, memIntegrationID = [], memKind = [], memTitle = [], memBody = [],
     memReason = [], memStatus = [], memCompleted = [], memCurrent = [], memRemaining = [], memNext = [],
     memWarnings = [], memCommit = [], memDeployment = [], memSession = [], memResolution = []\<rparr>"

definition fields_Memory :: "Memory field list" where
  "fields_Memory =
     lift_fields memMeta memMeta_update fields_Meta @
     [field ''integration_id'' memIntegrationID memIntegrationID_update dec_string,
      field ''kind'' memKind memKind_update dec_string,
      field ''title'' memTitle memTitle_update dec_string,
      field ''body'' memBody memBody_update dec_string,
      field ''reason'' memReason memReason_update dec_string,
      field ''status'' memStatus memStatus_update dec_string,
      field ''completed'' memCompleted memCompleted_update (dec_list dec_string []),
      field ''current'' memCurrent memCurrent_update dec_string,
      field ''remaining'' memRemaining memRemaining_update (dec_list dec_string []),
      field ''next'' memNext memNext_update (dec_list dec_string []),
      field ''warnings'' memWarnings memWarnings_update (dec_list dec_string []),
      field ''commit'' memCommit memCommit_update dec_string,
      field ''deployment'' memDeployment memDeployment_update dec_string,
      field ''session'' memSession memSession_update dec_string,
      field ''resolution'' memResolution memResolution_update dec_string]"

record Gate =
  gMeta :: Meta
  gTitle :: string
  gReason :: string
  gIntegrationIDs :: "string list"
  gPosition :: int
  gBlocking :: bool
  gEnvironmentID :: string
  gCommit :: string
  gDeployment :: string
  gResult :: string

definition zero_Gate :: Gate where
  "zero_Gate = \<lparr>gMeta = zero_Meta, gTitle = [], gReason = [], gIntegrationIDs = [], gPosition = 0, gBlocking = False,
     gEnvironmentID = [], gCommit = [], gDeployment = [], gResult = []\<rparr>"

definition fields_Gate :: "Gate field list" where
  "fields_Gate =
     lift_fields gMeta gMeta_update fields_Meta @
     [field ''title'' gTitle gTitle_update dec_string,
      field ''reason'' gReason gReason_update dec_string,
      field ''integration_ids'' gIntegrationIDs gIntegrationIDs_update (dec_list dec_string []),
      field ''position'' gPosition gPosition_update dec_int,
      field ''blocking'' gBlocking gBlocking_update dec_bool,
      field ''environment_id'' gEnvironmentID gEnvironmentID_update dec_string,
      field ''commit'' gCommit gCommit_update dec_string,
      field ''deployment'' gDeployment gDeployment_update dec_string,
      field ''result'' gResult gResult_update dec_string]"

record Check =
  chMeta :: Meta
  chGateID :: string
  chTitle :: string
  chMechanism :: string
  chInstructions :: string

definition zero_Check :: Check where
  "zero_Check = \<lparr>chMeta = zero_Meta, chGateID = [], chTitle = [], chMechanism = [], chInstructions = []\<rparr>"

definition fields_Check :: "Check field list" where
  "fields_Check =
     lift_fields chMeta chMeta_update fields_Meta @
     [field ''gate_id'' chGateID chGateID_update dec_string,
      field ''title'' chTitle chTitle_update dec_string,
      field ''mechanism'' chMechanism chMechanism_update dec_string,
      field ''instructions'' chInstructions chInstructions_update dec_string]"

record Artifact =
  artKind :: string
  artURL :: string
  artLabel :: string

definition zero_Artifact :: Artifact where
  "zero_Artifact = \<lparr>artKind = [], artURL = [], artLabel = []\<rparr>"

definition fields_Artifact :: "Artifact field list" where
  "fields_Artifact =
     [field ''kind'' artKind artKind_update dec_string,
      field ''url'' artURL artURL_update dec_string,
      field ''label'' artLabel artLabel_update dec_string]"

record CheckResult =
  rMeta :: Meta
  rCheckID :: string
  rResult :: string
  rCommit :: string
  rEnvironmentID :: string
  rDeployment :: string
  rSteps :: "string list"
  rObservations :: string
  rLogs :: string
  rArtifacts :: "Artifact list"

definition zero_CheckResult :: CheckResult where
  "zero_CheckResult = \<lparr>rMeta = zero_Meta, rCheckID = [], rResult = [], rCommit = [], rEnvironmentID = [], rDeployment = [],
     rSteps = [], rObservations = [], rLogs = [], rArtifacts = []\<rparr>"

definition fields_CheckResult :: "CheckResult field list" where
  "fields_CheckResult =
     lift_fields rMeta rMeta_update fields_Meta @
     [field ''check_id'' rCheckID rCheckID_update dec_string,
      field ''result'' rResult rResult_update dec_string,
      field ''commit'' rCommit rCommit_update dec_string,
      field ''environment_id'' rEnvironmentID rEnvironmentID_update dec_string,
      field ''deployment'' rDeployment rDeployment_update dec_string,
      field ''steps'' rSteps rSteps_update (dec_list dec_string []),
      field ''observations'' rObservations rObservations_update dec_string,
      field ''logs'' rLogs rLogs_update dec_string,
      field ''artifacts'' rArtifacts rArtifacts_update (dec_list (dec_struct fields_Artifact) zero_Artifact)]"

record ReviewComment =
  rcID :: int
  rcKind :: string
  rcAuthor :: string
  rcBody :: string
  rcURL :: string
  rcPath :: string
  rcLine :: int
  rcCommit :: string
  rcUpdatedAt :: time

definition zero_ReviewComment :: ReviewComment where
  "zero_ReviewComment = \<lparr>rcID = 0, rcKind = [], rcAuthor = [], rcBody = [], rcURL = [], rcPath = [], rcLine = 0,
     rcCommit = [], rcUpdatedAt = zero_time\<rparr>"

definition fields_ReviewComment :: "ReviewComment field list" where
  "fields_ReviewComment =
     [field ''id'' rcID rcID_update dec_int,
      field ''kind'' rcKind rcKind_update dec_string,
      field ''author'' rcAuthor rcAuthor_update dec_string,
      field ''body'' rcBody rcBody_update dec_string,
      field ''url'' rcURL rcURL_update dec_string,
      field ''path'' rcPath rcPath_update dec_string,
      field ''line'' rcLine rcLine_update dec_int,
      field ''commit'' rcCommit rcCommit_update dec_string,
      field ''updated_at'' rcUpdatedAt rcUpdatedAt_update dec_time]"

record ReviewSource =
  rsRepositoryID :: string
  rsPullRequest :: int
  rsComment :: ReviewComment
  rsPriority :: string

definition zero_ReviewSource :: ReviewSource where
  "zero_ReviewSource = \<lparr>rsRepositoryID = [], rsPullRequest = 0, rsComment = zero_ReviewComment, rsPriority = []\<rparr>"

definition fields_ReviewSource :: "ReviewSource field list" where
  "fields_ReviewSource =
     [field ''repository_id'' rsRepositoryID rsRepositoryID_update dec_string,
      field ''pull_request'' rsPullRequest rsPullRequest_update dec_int,
      field ''comment'' rsComment rsComment_update (dec_struct fields_ReviewComment),
      field ''priority'' rsPriority rsPriority_update dec_string]"

record Finding =
  fdReviewSource :: "ReviewSource option"
  fdMeta :: Meta
  fdResultID :: string
  fdTitle :: string
  fdSeverity :: string
  fdBody :: string
  fdStatus :: string
  fdIntegrationIDs :: "string list"
  fdGateIDs :: "string list"
  fdBlocksRelease :: bool
  fdResolution :: string
  fdFixCommit :: string

definition zero_Finding :: Finding where
  "zero_Finding = \<lparr>fdReviewSource = None, fdMeta = zero_Meta, fdResultID = [], fdTitle = [], fdSeverity = [],
     fdBody = [], fdStatus = [], fdIntegrationIDs = [], fdGateIDs = [], fdBlocksRelease = False,
     fdResolution = [], fdFixCommit = []\<rparr>"

definition fields_Finding :: "Finding field list" where
  "fields_Finding =
     lift_fields fdMeta fdMeta_update fields_Meta @
     [field ''review_source'' fdReviewSource fdReviewSource_update (dec_pointer (dec_struct fields_ReviewSource) zero_ReviewSource),
      field ''result_id'' fdResultID fdResultID_update dec_string,
      field ''title'' fdTitle fdTitle_update dec_string,
      field ''severity'' fdSeverity fdSeverity_update dec_string,
      field ''body'' fdBody fdBody_update dec_string,
      field ''status'' fdStatus fdStatus_update dec_string,
      field ''integration_ids'' fdIntegrationIDs fdIntegrationIDs_update (dec_list dec_string []),
      field ''gate_ids'' fdGateIDs fdGateIDs_update (dec_list dec_string []),
      field ''blocks_release'' fdBlocksRelease fdBlocksRelease_update dec_bool,
      field ''resolution'' fdResolution fdResolution_update dec_string,
      field ''fix_commit'' fdFixCommit fdFixCommit_update dec_string]"

section \<open>Environments, applications and releases\<close>

record ArtifactRetention =
  arKeepLast :: int
  arKeepCurrent :: bool
  arKeepPrevious :: int

definition zero_ArtifactRetention :: ArtifactRetention where
  "zero_ArtifactRetention = \<lparr>arKeepLast = 0, arKeepCurrent = False, arKeepPrevious = 0\<rparr>"

definition fields_ArtifactRetention :: "ArtifactRetention field list" where
  "fields_ArtifactRetention =
     [field ''keep_last'' arKeepLast arKeepLast_update dec_int,
      field ''keep_current'' arKeepCurrent arKeepCurrent_update dec_bool,
      field ''keep_previous'' arKeepPrevious arKeepPrevious_update dec_int]"

record Environment =
  eReservationEpoch :: "64 word"
  eSelectionGeneration :: "64 word"
  eParameters :: "(string \<times> string) list"
  eDesiredOperationID :: string
  eCluster :: string
  eNamespace :: string
  eDesiredCompositionID :: string
  eMeta :: Meta
  eName :: string
  eDesired :: json_data
  eReconciled :: json_data
  eRuntime :: json_data
  eComposition :: json_data

definition zero_Environment :: Environment where
  "zero_Environment = \<lparr>eReservationEpoch = 0, eSelectionGeneration = 0, eParameters = [], eDesiredOperationID = [],
     eCluster = [], eNamespace = [], eDesiredCompositionID = [], eMeta = zero_Meta, eName = [],
     eDesired = [], eReconciled = [], eRuntime = [], eComposition = []\<rparr>"

definition fields_Environment :: "Environment field list" where
  "fields_Environment =
     lift_fields eMeta eMeta_update fields_Meta @
     [field ''reservation_epoch'' eReservationEpoch eReservationEpoch_update dec_uint64,
      field ''selection_generation'' eSelectionGeneration eSelectionGeneration_update dec_uint64,
      field ''parameters'' eParameters eParameters_update (dec_map dec_string []),
      field ''desired_operation_id'' eDesiredOperationID eDesiredOperationID_update dec_string,
      field ''cluster'' eCluster eCluster_update dec_string,
      field ''namespace'' eNamespace eNamespace_update dec_string,
      field ''desired_composition_id'' eDesiredCompositionID eDesiredCompositionID_update dec_string,
      field ''name'' eName eName_update dec_string,
      field ''desired'' eDesired eDesired_update (dec_map dec_any JNull),
      field ''reconciled'' eReconciled eReconciled_update (dec_map dec_any JNull),
      field ''runtime'' eRuntime eRuntime_update (dec_map dec_any JNull),
      field ''composition'' eComposition eComposition_update (dec_map dec_any JNull)]"

record Application =
  appRetention :: "ArtifactRetention option"
  appParameters :: "(string \<times> string) list"
  appKind :: string
  appMeta :: Meta
  appName :: string
  appRepositoryID :: string
  appPath :: string

definition zero_Application :: Application where
  "zero_Application = \<lparr>appRetention = None, appParameters = [], appKind = [], appMeta = zero_Meta, appName = [],
     appRepositoryID = [], appPath = []\<rparr>"

definition fields_Application :: "Application field list" where
  "fields_Application =
     lift_fields appMeta appMeta_update fields_Meta @
     [field ''retention'' appRetention appRetention_update (dec_pointer (dec_struct fields_ArtifactRetention) zero_ArtifactRetention),
      field ''parameters'' appParameters appParameters_update (dec_map dec_string []),
      field ''kind'' appKind appKind_update dec_string,
      field ''name'' appName appName_update dec_string,
      field ''repository_id'' appRepositoryID appRepositoryID_update dec_string,
      field ''path'' appPath appPath_update dec_string]"

record IntegrationRevision =
  revMeta :: Meta
  revIntegrationID :: string
  revRepositoryID :: string
  revBranch :: string
  revBaseCommit :: string
  revHeadCommit :: string
  revCommits :: "string list"

definition zero_IntegrationRevision :: IntegrationRevision where
  "zero_IntegrationRevision = \<lparr>revMeta = zero_Meta, revIntegrationID = [], revRepositoryID = [], revBranch = [], revBaseCommit = [],
     revHeadCommit = [], revCommits = []\<rparr>"

definition fields_IntegrationRevision :: "IntegrationRevision field list" where
  "fields_IntegrationRevision =
     lift_fields revMeta revMeta_update fields_Meta @
     [field ''integration_id'' revIntegrationID revIntegrationID_update dec_string,
      field ''repository_id'' revRepositoryID revRepositoryID_update dec_string,
      field ''branch'' revBranch revBranch_update dec_string,
      field ''base_commit'' revBaseCommit revBaseCommit_update dec_string,
      field ''head_commit'' revHeadCommit revHeadCommit_update dec_string,
      field ''commits'' revCommits revCommits_update (dec_list dec_string [])]"

record Repository =
  repoRole :: string
  repoRegisteredRepositoryID :: string
  repoMeta :: Meta
  repoName :: string
  repoURL :: string
  repoProvider :: string

definition zero_Repository :: Repository where
  "zero_Repository = \<lparr>repoRole = [], repoRegisteredRepositoryID = [], repoMeta = zero_Meta, repoName = [], repoURL = [],
     repoProvider = []\<rparr>"

definition fields_Repository :: "Repository field list" where
  "fields_Repository =
     lift_fields repoMeta repoMeta_update fields_Meta @
     [field ''role'' repoRole repoRole_update dec_string,
      field ''registered_repository_id'' repoRegisteredRepositoryID repoRegisteredRepositoryID_update dec_string,
      field ''name'' repoName repoName_update dec_string,
      field ''url'' repoURL repoURL_update dec_string,
      field ''provider'' repoProvider repoProvider_update dec_string]"

record Release =
  relExecutionOperationID :: string
  relCandidateOperationID :: string
  relEnvironmentID :: string
  relRecordedExternally :: bool
  relEvidence :: "string list"
  relSourceCommits :: "(string \<times> string) list"
  relArtifactDigests :: "(string \<times> string) list"
  relGitOpsCommits :: "(string \<times> string) list"
  relStatus :: string
  relSnapshots :: "Integration list"
  relMeta :: Meta
  relName :: string
  relIntegrationIDs :: "string list"
  relExcludedIntegrationIDs :: "string list"
  relNotes :: string

definition zero_Release :: Release where
  "zero_Release = \<lparr>relExecutionOperationID = [], relCandidateOperationID = [], relEnvironmentID = [],
     relRecordedExternally = False, relEvidence = [], relSourceCommits = [], relArtifactDigests = [],
     relGitOpsCommits = [], relStatus = [], relSnapshots = [], relMeta = zero_Meta, relName = [],
     relIntegrationIDs = [], relExcludedIntegrationIDs = [], relNotes = []\<rparr>"

definition fields_Release :: "Release field list" where
  "fields_Release =
     lift_fields relMeta relMeta_update fields_Meta @
     [field ''execution_operation_id'' relExecutionOperationID relExecutionOperationID_update dec_string,
      field ''candidate_operation_id'' relCandidateOperationID relCandidateOperationID_update dec_string,
      field ''environment_id'' relEnvironmentID relEnvironmentID_update dec_string,
      field ''recorded_externally'' relRecordedExternally relRecordedExternally_update dec_bool,
      field ''evidence'' relEvidence relEvidence_update (dec_list dec_string []),
      field ''source_commits'' relSourceCommits relSourceCommits_update (dec_map dec_string []),
      field ''artifact_digests'' relArtifactDigests relArtifactDigests_update (dec_map dec_string []),
      field ''gitops_commits'' relGitOpsCommits relGitOpsCommits_update (dec_map dec_string []),
      field ''status'' relStatus relStatus_update dec_string,
      field ''snapshots'' relSnapshots relSnapshots_update (dec_list (dec_struct fields_Integration) zero_Integration),
      field ''name'' relName relName_update dec_string,
      field ''integration_ids'' relIntegrationIDs relIntegrationIDs_update (dec_list dec_string []),
      field ''excluded_integration_ids'' relExcludedIntegrationIDs relExcludedIntegrationIDs_update (dec_list dec_string []),
      field ''notes'' relNotes relNotes_update dec_string]"

record RepositoryBinding =
  rbBaseBranch :: string
  rbMeta :: Meta
  rbRepositoryID :: string
  rbConnectionID :: string
  rbFullName :: string
  rbRole :: string
  rbDefaultBranch :: string

definition zero_RepositoryBinding :: RepositoryBinding where
  "zero_RepositoryBinding = \<lparr>rbBaseBranch = [], rbMeta = zero_Meta, rbRepositoryID = [], rbConnectionID = [], rbFullName = [],
     rbRole = [], rbDefaultBranch = []\<rparr>"

definition fields_RepositoryBinding :: "RepositoryBinding field list" where
  "fields_RepositoryBinding =
     lift_fields rbMeta rbMeta_update fields_Meta @
     [field ''base_branch'' rbBaseBranch rbBaseBranch_update dec_string,
      field ''repository_id'' rbRepositoryID rbRepositoryID_update dec_string,
      field ''connection_id'' rbConnectionID rbConnectionID_update dec_string,
      field ''full_name'' rbFullName rbFullName_update dec_string,
      field ''role'' rbRole rbRole_update dec_string,
      field ''default_branch'' rbDefaultBranch rbDefaultBranch_update dec_string]"

record EnvironmentBinding =
  ebGitOpsMode :: string
  ebMeta :: Meta
  ebEnvironmentID :: string
  ebApplicationID :: string
  ebPurpose :: string
  ebConnectionID :: string
  ebRepositoryID :: string
  ebRef :: string
  ebPath :: string
  ebImageField :: string
  ebDigestField :: string
  ebAllowDeploy :: bool

definition zero_EnvironmentBinding :: EnvironmentBinding where
  "zero_EnvironmentBinding = \<lparr>ebGitOpsMode = [], ebMeta = zero_Meta, ebEnvironmentID = [], ebApplicationID = [], ebPurpose = [],
     ebConnectionID = [], ebRepositoryID = [], ebRef = [], ebPath = [], ebImageField = [],
     ebDigestField = [], ebAllowDeploy = False\<rparr>"

definition fields_EnvironmentBinding :: "EnvironmentBinding field list" where
  "fields_EnvironmentBinding =
     lift_fields ebMeta ebMeta_update fields_Meta @
     [field ''gitops_mode'' ebGitOpsMode ebGitOpsMode_update dec_string,
      field ''environment_id'' ebEnvironmentID ebEnvironmentID_update dec_string,
      field ''application_id'' ebApplicationID ebApplicationID_update dec_string,
      field ''purpose'' ebPurpose ebPurpose_update dec_string,
      field ''connection_id'' ebConnectionID ebConnectionID_update dec_string,
      field ''repository_id'' ebRepositoryID ebRepositoryID_update dec_string,
      field ''ref'' ebRef ebRef_update dec_string,
      field ''path'' ebPath ebPath_update dec_string,
      field ''image_field'' ebImageField ebImageField_update dec_string,
      field ''digest_field'' ebDigestField ebDigestField_update dec_string,
      field ''allow_deploy'' ebAllowDeploy ebAllowDeploy_update dec_bool]"

record ExternalScope =
  esMeta :: Meta
  esIntegrationID :: string
  esGateID :: string
  esExternalSystemIDs :: "string list"
  esRelationshipIDs :: "string list"

definition zero_ExternalScope :: ExternalScope where
  "zero_ExternalScope = \<lparr>esMeta = zero_Meta, esIntegrationID = [], esGateID = [], esExternalSystemIDs = [],
     esRelationshipIDs = []\<rparr>"

definition fields_ExternalScope :: "ExternalScope field list" where
  "fields_ExternalScope =
     lift_fields esMeta esMeta_update fields_Meta @
     [field ''integration_id'' esIntegrationID esIntegrationID_update dec_string,
      field ''gate_id'' esGateID esGateID_update dec_string,
      field ''external_system_ids'' esExternalSystemIDs esExternalSystemIDs_update (dec_list dec_string []),
      field ''relationship_ids'' esRelationshipIDs esRelationshipIDs_update (dec_list dec_string [])]"

record Command =
  cAction :: string
  cActor :: string
  cID :: string
  cProductID :: string
  cFeatureID :: string
  cIntegrationID :: string
  cGateID :: string
  cCheckID :: string
  cResultID :: string
  cData :: json_data

definition zero_Command :: Command where
  "zero_Command = \<lparr>cAction = [], cActor = [], cID = [], cProductID = [], cFeatureID = [], cIntegrationID = [],
     cGateID = [], cCheckID = [], cResultID = [], cData = []\<rparr>"

record Event =
  evID :: string
  evAction :: string
  evActor :: string
  evAt :: time
  evEntityID :: string
  evProductID :: string
  evFeatureID :: string
  evData :: Command

definition zero_Event :: Event where
  "zero_Event = \<lparr>evID = [], evAction = [], evActor = [], evAt = zero_time, evEntityID = [], evProductID = [],
     evFeatureID = [], evData = zero_Command\<rparr>"

end
