(* ===== verification/WorkerModel.thy ===== *)
theory WorkerModel
  imports DomainModel
begin

text \<open>
  The worker protocol's data, \<open>internal/domain/worker_jobs.go\<close> and the registry inventory
  of \<open>internal/domain/registry_inventory.go\<close> and \<open>registry_image_content.go\<close>.
\<close>

record WorkerSourceFetch =
  wsfProvider :: string
  wsfRepositoryID :: int
  wsfTimeoutSeconds :: int
  wsfMaxDownloadBytes :: int
  wsfMaxRequests :: int
  wsfMaxEntries :: int
  wsfMaxDepth :: int

definition zero_WorkerSourceFetch :: WorkerSourceFetch where
  "zero_WorkerSourceFetch = \<lparr>wsfProvider = [], wsfRepositoryID = 0, wsfTimeoutSeconds = 0, wsfMaxDownloadBytes = 0,
     wsfMaxRequests = 0, wsfMaxEntries = 0, wsfMaxDepth = 0\<rparr>"

record WorkerRuntimeRootFS =
  wrfHash :: string
  wrfArchiveBytes :: int
  wrfMaxExpandedBytes :: int
  wrfMaxEntries :: int
  wrfInputsHash :: string

definition zero_WorkerRuntimeRootFS :: WorkerRuntimeRootFS where
  "zero_WorkerRuntimeRootFS = \<lparr>wrfHash = [], wrfArchiveBytes = 0, wrfMaxExpandedBytes = 0, wrfMaxEntries = 0, wrfInputsHash = []\<rparr>"

record WorkerExecution =
  weSourceFetch :: "WorkerSourceFetch option"
  weRuntimeRootFS :: "WorkerRuntimeRootFS option"
  weKind :: string
  weToolchainImage :: string
  weBuildKitImage :: string
  wePlatform :: string
  weCheckArgv :: "string list"
  weBuildArgv :: "string list"
  weOutputFile :: string
  weImagePath :: string
  weEntrypoint :: "string list"
  weNetwork :: string
  weTimeoutSeconds :: int
  weMemoryMB :: int
  weStorageMB :: int
  weCPUs :: int
  wePIDs :: int
  weSourceBytes :: int
  weOutputBytes :: int
  weLogBytes :: int

definition zero_WorkerExecution :: WorkerExecution where
  "zero_WorkerExecution = \<lparr>weSourceFetch = None, weRuntimeRootFS = None, weKind = [], weToolchainImage = [],
     weBuildKitImage = [], wePlatform = [], weCheckArgv = [], weBuildArgv = [], weOutputFile = [],
     weImagePath = [], weEntrypoint = [], weNetwork = [], weTimeoutSeconds = 0, weMemoryMB = 0,
     weStorageMB = 0, weCPUs = 0, wePIDs = 0, weSourceBytes = 0, weOutputBytes = 0, weLogBytes = 0\<rparr>"

record WorkerLocalOCI =
  ociRuntimeRootFS :: "WorkerRuntimeRootFS option"
  ociJobID :: string
  ociAttemptID :: string
  ociInputHash :: string
  ociSourceSHA :: string
  ociRecipeHash :: string
  ociConfigRevision :: string
  ociToolchainImage :: string
  ociPlatform :: string
  ociArchiveHash :: string
  ociLayoutHash :: string
  ociIndexDigest :: string
  ociManifestDigest :: string
  ociArchiveBytes :: int

definition zero_WorkerLocalOCI :: WorkerLocalOCI where
  "zero_WorkerLocalOCI = \<lparr>ociRuntimeRootFS = None, ociJobID = [], ociAttemptID = [], ociInputHash = [], ociSourceSHA = [],
     ociRecipeHash = [], ociConfigRevision = [], ociToolchainImage = [], ociPlatform = [],
     ociArchiveHash = [], ociLayoutHash = [], ociIndexDigest = [], ociManifestDigest = [],
     ociArchiveBytes = 0\<rparr>"

record WorkerSourceProof =
  wspParentHash :: string
  wspDeliveryID :: string
  wspParentID :: string
  wspSnapshotHash :: string

definition zero_WorkerSourceProof :: WorkerSourceProof where
  "zero_WorkerSourceProof = \<lparr>wspParentHash = [], wspDeliveryID = [], wspParentID = [], wspSnapshotHash = []\<rparr>"

record IntelligencePatchBinding =
  ipbTaskID :: string
  ipbResultFingerprint :: string
  ipbBaseSHA :: string
  ipbHeadSHA :: string
  ipbAllowedPaths :: "string list"

definition zero_IntelligencePatchBinding :: IntelligencePatchBinding where
  "zero_IntelligencePatchBinding = \<lparr>ipbTaskID = [], ipbResultFingerprint = [], ipbBaseSHA = [], ipbHeadSHA = [], ipbAllowedPaths = []\<rparr>"

record RegistryObserveLimits =
  rlMaxResponseBytes :: int
  rlMaxTotalBytes :: int
  rlMaxNodes :: int
  rlMaxEdges :: int
  rlMaxDepth :: int
  rlMaxPages :: int
  rlMaxRequests :: int
  rlTimeoutSeconds :: int

definition zero_RegistryObserveLimits :: RegistryObserveLimits where
  "zero_RegistryObserveLimits = \<lparr>rlMaxResponseBytes = 0, rlMaxTotalBytes = 0, rlMaxNodes = 0, rlMaxEdges = 0, rlMaxDepth = 0,
     rlMaxPages = 0, rlMaxRequests = 0, rlTimeoutSeconds = 0\<rparr>"

record RegistryScope =
  rscProductID :: string
  rscComponentID :: string
  rscRepositoryID :: string
  rscOrigin :: string
  rscRepository :: string
  rscImageRepository :: string

definition zero_RegistryScope :: RegistryScope where
  "zero_RegistryScope = \<lparr>rscProductID = [], rscComponentID = [], rscRepositoryID = [], rscOrigin = [], rscRepository = [],
     rscImageRepository = []\<rparr>"

record WorkerRegistryInputs =
  wriScope :: RegistryScope
  wriRoots :: "string list"
  wriRootSetHash :: string
  wriRequestRetentionInputHash :: string
  wriLimits :: RegistryObserveLimits

definition zero_WorkerRegistryInputs :: WorkerRegistryInputs where
  "zero_WorkerRegistryInputs = \<lparr>wriScope = zero_RegistryScope, wriRoots = [], wriRootSetHash = [], wriRequestRetentionInputHash = [],
     wriLimits = zero_RegistryObserveLimits\<rparr>"

record WorkerCheckBinding =
  wcbName :: string
  wcbExpectedAppID :: int
  wcbFinalizeSeconds :: int

definition zero_WorkerCheckBinding :: WorkerCheckBinding where
  "zero_WorkerCheckBinding = \<lparr>wcbName = [], wcbExpectedAppID = 0, wcbFinalizeSeconds = 0\<rparr>"

record WorkerPublication =
  wpComponentID :: string
  wpProfile :: string
  wpOrigin :: string
  wpRepository :: string
  wpReceipt :: WorkerLocalOCI

definition zero_WorkerPublication :: WorkerPublication where
  "zero_WorkerPublication = \<lparr>wpComponentID = [], wpProfile = [], wpOrigin = [], wpRepository = [],
     wpReceipt = zero_WorkerLocalOCI\<rparr>"

record WorkerInputs =
  wiIntelligencePatch :: "IntelligencePatchBinding option"
  wiRegistry :: "WorkerRegistryInputs option"
  wiCheck :: "WorkerCheckBinding option"
  wiSourceProof :: "WorkerSourceProof option"
  wiRecipeID :: string
  wiRecipeRevision :: string
  wiRecipeHash :: string
  wiConfigRevision :: string
  wiRepositoryID :: string
  wiRepositoryURL :: string
  wiRevisionID :: string
  wiSourceSHA :: string
  wiTrust :: string
  wiParameters :: json_data
  wiExecution :: "WorkerExecution option"
  wiPublication :: "WorkerPublication option"

definition zero_WorkerInputs :: WorkerInputs where
  "zero_WorkerInputs = \<lparr>wiIntelligencePatch = None, wiRegistry = None, wiCheck = None, wiSourceProof = None, wiRecipeID = [],
     wiRecipeRevision = [], wiRecipeHash = [], wiConfigRevision = [], wiRepositoryID = [],
     wiRepositoryURL = [], wiRevisionID = [], wiSourceSHA = [], wiTrust = [], wiParameters = [],
     wiExecution = None, wiPublication = None\<rparr>"

record WorkerJob =
  jCheckOperationID :: string
  jMeta :: Meta
  jOperationID :: string
  jRequestKey :: string
  jRequestHash :: string
  jIntegrationID :: string
  jCapability :: string
  jInputs :: WorkerInputs
  jInputHash :: string
  jStatus :: string
  jDeadline :: time
  jMaxAttempts :: int
  jFence :: "64 word"
  jCancellationRequested :: bool

definition zero_WorkerJob :: WorkerJob where
  "zero_WorkerJob = \<lparr>jCheckOperationID = [], jMeta = zero_Meta, jOperationID = [], jRequestKey = [], jRequestHash = [],
     jIntegrationID = [], jCapability = [], jInputs = zero_WorkerInputs, jInputHash = [], jStatus = [],
     jDeadline = zero_time, jMaxAttempts = 0, jFence = 0, jCancellationRequested = False\<rparr>"

record RegistryNode =
  rnDigest :: string
  rnKind :: string
  rnMediaType :: string
  rnAvailability :: string
  rnSize :: int

definition zero_RegistryNode :: RegistryNode where
  "zero_RegistryNode = \<lparr>rnDigest = [], rnKind = [], rnMediaType = [], rnAvailability = [], rnSize = 0\<rparr>"

record RegistryPlatform =
  rpOS :: string
  rpArchitecture :: string
  rpVariant :: string

definition zero_RegistryPlatform :: RegistryPlatform where
  "zero_RegistryPlatform = \<lparr>rpOS = [], rpArchitecture = [], rpVariant = []\<rparr>"

record RegistryEdge =
  reFrom :: string
  reTo :: string
  reKind :: string
  rePlatform :: "RegistryPlatform option"

definition zero_RegistryEdge :: RegistryEdge where
  "zero_RegistryEdge = \<lparr>reFrom = [], reTo = [], reKind = [], rePlatform = None\<rparr>"

record RegistryRoot =
  rrDigest :: string
  rrClosure :: string
  rrBlockers :: "string list"

definition zero_RegistryRoot :: RegistryRoot where
  "zero_RegistryRoot = \<lparr>rrDigest = [], rrClosure = [], rrBlockers = []\<rparr>"

record RegistryImageContentDescriptor =
  icdDigest :: string
  icdKind :: string
  icdMediaType :: string
  icdSize :: int
  icdPlatform :: "RegistryPlatform option"

definition zero_RegistryImageContentDescriptor :: RegistryImageContentDescriptor where
  "zero_RegistryImageContentDescriptor = \<lparr>icdDigest = [], icdKind = [], icdMediaType = [], icdSize = 0, icdPlatform = None\<rparr>"

record RegistryImageContentManifest =
  icmDigest :: string
  icmKind :: string
  icmMediaType :: string
  icmSize :: int
  icmDescriptorCount :: int
  icmDescriptorHash :: string
  icmDescriptors :: "RegistryImageContentDescriptor list"

definition zero_RegistryImageContentManifest :: RegistryImageContentManifest where
  "zero_RegistryImageContentManifest = \<lparr>icmDigest = [], icmKind = [], icmMediaType = [], icmSize = 0, icmDescriptorCount = 0,
     icmDescriptorHash = [], icmDescriptors = []\<rparr>"

record RegistryImageContentRoot =
  icrDigest :: string
  icrClosure :: string
  icrManifests :: "RegistryImageContentManifest list"
  icrHash :: string

definition zero_RegistryImageContentRoot :: RegistryImageContentRoot where
  "zero_RegistryImageContentRoot = \<lparr>icrDigest = [], icrClosure = [], icrManifests = [], icrHash = []\<rparr>"

record RegistryGraph =
  rgImageContentRoots :: "RegistryImageContentRoot list"
  rgNodes :: "RegistryNode list"
  rgEdges :: "RegistryEdge list"
  rgRoots :: "RegistryRoot list"
  rgTagCount :: int
  rgTagSetHash :: string
  rgDiscovery :: string
  rgGlobalInventoryComplete :: bool
  rgBlockers :: "string list"
  rgGraphHash :: string

definition zero_RegistryGraph :: RegistryGraph where
  "zero_RegistryGraph = \<lparr>rgImageContentRoots = [], rgNodes = [], rgEdges = [], rgRoots = [], rgTagCount = 0,
     rgTagSetHash = [], rgDiscovery = [], rgGlobalInventoryComplete = False, rgBlockers = [],
     rgGraphHash = []\<rparr>"

record WorkerRegistryReport =
  wrrKind :: string
  wrrScope :: RegistryScope
  wrrRecipeID :: string
  wrrRecipeRevision :: string
  wrrRecipeHash :: string
  wrrConfigRevision :: string
  wrrRootSetHash :: string
  wrrStartedAt :: time
  wrrFinishedAt :: time
  wrrRequests :: int
  wrrBytes :: int
  wrrGraph :: RegistryGraph

definition zero_WorkerRegistryReport :: WorkerRegistryReport where
  "zero_WorkerRegistryReport = \<lparr>wrrKind = [], wrrScope = zero_RegistryScope, wrrRecipeID = [], wrrRecipeRevision = [],
     wrrRecipeHash = [], wrrConfigRevision = [], wrrRootSetHash = [], wrrStartedAt = zero_time,
     wrrFinishedAt = zero_time, wrrRequests = 0, wrrBytes = 0, wrrGraph = zero_RegistryGraph\<rparr>"

record WorkerPublicationReport =
  wprManifestDigest :: string

definition zero_WorkerPublicationReport :: WorkerPublicationReport where
  "zero_WorkerPublicationReport = \<lparr>wprManifestDigest = []\<rparr>"

record WorkerAttemptRequest =
  wrJobID :: string
  wrAttemptID :: string
  wrFence :: "64 word"
  wrInputHash :: string

definition zero_WorkerAttemptRequest :: WorkerAttemptRequest where
  "zero_WorkerAttemptRequest = \<lparr>wrJobID = [], wrAttemptID = [], wrFence = 0, wrInputHash = []\<rparr>"

record WorkerReport =
  repRegistry :: "WorkerRegistryReport option"
  repWorkerAttemptRequest :: WorkerAttemptRequest
  repResult :: string
  repEvidenceHash :: string
  repLocalOCI :: "WorkerLocalOCI option"
  repPublication :: "WorkerPublicationReport option"

definition zero_WorkerReport :: WorkerReport where
  "zero_WorkerReport = \<lparr>repRegistry = None, repWorkerAttemptRequest = zero_WorkerAttemptRequest, repResult = [],
     repEvidenceHash = [], repLocalOCI = None, repPublication = None\<rparr>"

record WorkerAttempt =
  aMeta :: Meta
  aJobID :: string
  aPrincipal :: string
  aFence :: "64 word"
  aInputHash :: string
  aLeaseUntil :: time
  aStatus :: string
  aReport :: "WorkerReport option"

definition zero_WorkerAttempt :: WorkerAttempt where
  "zero_WorkerAttempt = \<lparr>aMeta = zero_Meta, aJobID = [], aPrincipal = [], aFence = 0, aInputHash = [],
     aLeaseUntil = zero_time, aStatus = [], aReport = None\<rparr>"

type_synonym RawMessage = json

record WorkerLease =
  wlIntelligencePatch :: RawMessage
  wlJob :: WorkerJob
  wlAttempt :: WorkerAttempt

definition zero_WorkerLease :: WorkerLease where
  "zero_WorkerLease = \<lparr>wlIntelligencePatch = JNull, wlJob = zero_WorkerJob, wlAttempt = zero_WorkerAttempt\<rparr>"

record WorkerClaim =
  wcRecipeID :: string
  wcRecipeHash :: string
  wcProductID :: string
  wcRepositoryID :: string
  wcCapability :: string

definition zero_WorkerClaim :: WorkerClaim where
  "zero_WorkerClaim = \<lparr>wcRecipeID = [], wcRecipeHash = [], wcProductID = [], wcRepositoryID = [], wcCapability = []\<rparr>"

record NativeQuarantine =
  nqMeta :: Meta
  nqRestoreID :: string

definition zero_NativeQuarantine :: NativeQuarantine where
  "zero_NativeQuarantine = \<lparr>nqMeta = zero_Meta, nqRestoreID = []\<rparr>"

record RegistryInventory =
  riMeta :: Meta
  riJobID :: string
  riAttemptID :: string
  riFence :: "64 word"
  riInputHash :: string
  riInputs :: WorkerInputs
  riReport :: WorkerRegistryReport
  riReceivedAt :: time

definition zero_RegistryInventory :: RegistryInventory where
  "zero_RegistryInventory = \<lparr>riMeta = zero_Meta, riJobID = [], riAttemptID = [], riFence = 0, riInputHash = [],
     riInputs = zero_WorkerInputs, riReport = zero_WorkerRegistryReport, riReceivedAt = zero_time\<rparr>"

record RegistryObservationAuthority =
  raScope :: RegistryScope
  raRecipeID :: string
  raRecipeRevision :: string
  raRecipeHash :: string
  raConfigRevision :: string
  raLimits :: RegistryObserveLimits
  raCurrent :: bool

definition zero_RegistryObservationAuthority :: RegistryObservationAuthority where
  "zero_RegistryObservationAuthority = \<lparr>raScope = zero_RegistryScope, raRecipeID = [], raRecipeRevision = [], raRecipeHash = [],
     raConfigRevision = [], raLimits = zero_RegistryObserveLimits, raCurrent = False\<rparr>"

end
