(* ===== verification/StateModel.thy ===== *)
theory StateModel
  imports WorkerModel
begin

text \<open>
  The durable operation record and the state: the tables that the modelled operations read or
  write, in the order of \<open>domain.State\<close>, and the fields of \<open>ExternalOperation\<close> they use.
  The fields of an operation or a delivery snapshot left out are the evidence of delivery flows
  that are not modelled; \<open>opOther\<close> and \<open>dsOther\<close> stand for their encoding, and
  \<open>stOtherIDs\<close> holds the IDs of the entries of the tables left out, which an entity ID must
  not repeat.
\<close>

record NativeDelivery =
  ndParentHash :: string
  ndConfigRevision :: string
  ndBuildRecipeHash :: string
  ndBuildRecipeRevision :: string
  ndPublicationRecipeHash :: string
  ndPublicationRecipeRevision :: string
  ndDeadline :: time
  ndBuildJobID :: string
  ndPublicationJobID :: string

definition zero_NativeDelivery :: NativeDelivery where
  "zero_NativeDelivery = \<lparr>ndParentHash = [], ndConfigRevision = [], ndBuildRecipeHash = [], ndBuildRecipeRevision = [],
     ndPublicationRecipeHash = [], ndPublicationRecipeRevision = [], ndDeadline = zero_time,
     ndBuildJobID = [], ndPublicationJobID = []\<rparr>"

record Connection =
  cnnID :: string
  cnnAppID :: int
  cnnInstallationID :: int
  cnnPrivateKeyRef :: string
  cnnOwner :: string
  cnnAPIURL :: string
  cnnRegistryCredentialRef :: string

definition zero_Connection :: Connection where
  "zero_Connection = \<lparr>cnnID = [], cnnAppID = 0, cnnInstallationID = 0, cnnPrivateKeyRef = [], cnnOwner = [],
     cnnAPIURL = [], cnnRegistryCredentialRef = []\<rparr>"

record GitHubConnection =
  ghcConnected :: bool
  ghcLastTestedAt :: "time option"
  ghcLastError :: string
  ghcRepositoryCount :: int
  ghcMeta :: Meta
  ghcName :: string
  ghcConfig :: Connection

definition zero_GitHubConnection :: GitHubConnection where
  "zero_GitHubConnection = \<lparr>ghcConnected = False, ghcLastTestedAt = None, ghcLastError = [], ghcRepositoryCount = 0,
     ghcMeta = zero_Meta, ghcName = [], ghcConfig = zero_Connection\<rparr>"

record RegisteredRepository =
  regProviderAPIURL :: string
  regConnectionIDs :: "string list"
  regMeta :: Meta
  regConnectionID :: string
  regProviderRepositoryID :: int
  regFullName :: string
  regDefaultBranch :: string
  regURL :: string
  regPrivate :: bool
  regObservedAt :: time

definition zero_RegisteredRepository :: RegisteredRepository where
  "zero_RegisteredRepository = \<lparr>regProviderAPIURL = [], regConnectionIDs = [], regMeta = zero_Meta, regConnectionID = [],
     regProviderRepositoryID = 0, regFullName = [], regDefaultBranch = [], regURL = [],
     regPrivate = False, regObservedAt = zero_time\<rparr>"

record ConnectionGrant =
  cgMeta :: Meta
  cgConnectionID :: string

definition zero_ConnectionGrant :: ConnectionGrant where
  "zero_ConnectionGrant = \<lparr>cgMeta = zero_Meta, cgConnectionID = []\<rparr>"

record NativeBinding =
  nbBuildRecipeID :: string
  nbPublicationRecipeID :: string
  nbParameters :: json_data

definition zero_NativeBinding :: NativeBinding where
  "zero_NativeBinding = \<lparr>nbBuildRecipeID = [], nbPublicationRecipeID = [], nbParameters = []\<rparr>"

record ComponentBuild =
  cbNative :: "NativeBinding option"
  cbMode :: string
  cbProfile :: string
  cbRebuildMissing :: bool
  cbMeta :: Meta
  cbApplicationID :: string
  cbConnectionID :: string
  cbWorkflow :: string
  cbImageRepository :: string
  cbWorkflowRef :: string
  cbInputs :: "(string \<times> string) list"

definition zero_ComponentBuild :: ComponentBuild where
  "zero_ComponentBuild = \<lparr>cbNative = None, cbMode = [], cbProfile = [], cbRebuildMissing = False, cbMeta = zero_Meta,
     cbApplicationID = [], cbConnectionID = [], cbWorkflow = [], cbImageRepository = [],
     cbWorkflowRef = [], cbInputs = []\<rparr>"

record BuildRequest =
  brqWorkflowSHA :: string
  brqRepository :: string
  brqWorkflow :: string
  brqRef :: string
  brqSourceSHA :: string
  brqImageTag :: string
  brqOperationID :: string
  brqInputs :: "(string \<times> string) list"
  brqRequestedAt :: time

definition zero_BuildRequest :: BuildRequest where
  "zero_BuildRequest = \<lparr>brqWorkflowSHA = [], brqRepository = [], brqWorkflow = [], brqRef = [], brqSourceSHA = [],
     brqImageTag = [], brqOperationID = [], brqInputs = [], brqRequestedAt = zero_time\<rparr>"

record RunResult =
  rurFound :: bool
  rurID :: int
  rurStatus :: string
  rurConclusion :: string
  rurHeadSHA :: string
  rurURL :: string
  rurArtifacts :: "(string \<times> string) list"

definition zero_RunResult :: RunResult where
  "zero_RunResult = \<lparr>rurFound = False, rurID = 0, rurStatus = [], rurConclusion = [], rurHeadSHA = [], rurURL = [],
     rurArtifacts = []\<rparr>"

record ArtifactResult =
  arrAvailable :: bool
  arrDigest :: string
  arrURI :: string
  arrObservedAt :: time

definition zero_ArtifactResult :: ArtifactResult where
  "zero_ArtifactResult = \<lparr>arrAvailable = False, arrDigest = [], arrURI = [], arrObservedAt = zero_time\<rparr>"

record GitOpsRequest =
  grqRepository :: string
  grqRef :: string
  grqPath :: string
  grqImageRepository :: string
  grqImageField :: string
  grqDigestField :: string
  grqExpectedHeadSHA :: string

definition zero_GitOpsRequest :: GitOpsRequest where
  "zero_GitOpsRequest = \<lparr>grqRepository = [], grqRef = [], grqPath = [], grqImageRepository = [], grqImageField = [],
     grqDigestField = [], grqExpectedHeadSHA = []\<rparr>"

record GitOpsSnapshot =
  gsnImageRepository :: string
  gsnHeadSHA :: string
  gsnBlobSHA :: string
  gsnContent :: string
  gsnDigest :: string

definition zero_GitOpsSnapshot :: GitOpsSnapshot where
  "zero_GitOpsSnapshot = \<lparr>gsnImageRepository = [], gsnHeadSHA = [], gsnBlobSHA = [], gsnContent = [], gsnDigest = []\<rparr>"

record DeliverySnapshot =
  dsBuildBaseline :: "ComponentBuild option"
  dsNative :: "NativeDelivery option"
  dsRevision :: IntegrationRevision
  dsApplication :: Application
  dsBuild :: ComponentBuild
  dsTarget :: EnvironmentBinding
  dsEnvironment :: Environment
  dsSource :: RepositoryBinding
  dsGitOps :: RepositoryBinding
  dsSourceConnection :: Connection
  dsGitOpsConnection :: Connection
  dsBuildRequest :: BuildRequest
  dsGitOpsRequest :: GitOpsRequest
  dsOther :: string

definition zero_DeliverySnapshot :: DeliverySnapshot where
  "zero_DeliverySnapshot = \<lparr>dsBuildBaseline = None, dsNative = None, dsRevision = zero_IntegrationRevision,
     dsApplication = zero_Application, dsBuild = zero_ComponentBuild, dsTarget = zero_EnvironmentBinding,
     dsEnvironment = zero_Environment, dsSource = zero_RepositoryBinding,
     dsGitOps = zero_RepositoryBinding, dsSourceConnection = zero_Connection,
     dsGitOpsConnection = zero_Connection, dsBuildRequest = zero_BuildRequest,
     dsGitOpsRequest = zero_GitOpsRequest, dsOther = []\<rparr>"

record NativeObservation =
  nobManifestDigest :: string
  nobConfigDigest :: string
  nobLayerDigest :: string
  nobPlatform :: string
  nobBytes :: int
  nobObservedAt :: time

definition zero_NativeObservation :: NativeObservation where
  "zero_NativeObservation = \<lparr>nobManifestDigest = [], nobConfigDigest = [], nobLayerDigest = [], nobPlatform = [], nobBytes = 0,
     nobObservedAt = zero_time\<rparr>"

record NativeReconciliation =
  nrcActor :: string
  nrcAt :: time
  nrcAttemptStatus :: string

definition zero_NativeReconciliation :: NativeReconciliation where
  "zero_NativeReconciliation = \<lparr>nrcActor = [], nrcAt = zero_time, nrcAttemptStatus = []\<rparr>"

record NativeArtifact =
  natPublicationJobID :: string
  natPublicationAttemptID :: string
  natPublicationInputHash :: string
  natProfile :: string
  natReceipt :: WorkerLocalOCI
  natObservation :: NativeObservation
  natReconciliation :: "NativeReconciliation option"

definition zero_NativeArtifact :: NativeArtifact where
  "zero_NativeArtifact = \<lparr>natPublicationJobID = [], natPublicationAttemptID = [], natPublicationInputHash = [],
     natProfile = [], natReceipt = zero_WorkerLocalOCI, natObservation = zero_NativeObservation,
     natReconciliation = None\<rparr>"

record DeliveryArtifact =
  daProvenance :: string
  daNative :: "NativeArtifact option"
  daMeta :: Meta
  daOperationID :: string
  daApplicationID :: string
  daRepositoryID :: string
  daSourceCommit :: string
  daImageRepository :: string
  daTag :: string
  daDigest :: string
  daAvailability :: string
  daObservedAt :: time
  daBuildRequest :: BuildRequest
  daBuildRunID :: int

definition zero_DeliveryArtifact :: DeliveryArtifact where
  "zero_DeliveryArtifact = \<lparr>daProvenance = [], daNative = None, daMeta = zero_Meta, daOperationID = [], daApplicationID = [],
     daRepositoryID = [], daSourceCommit = [], daImageRepository = [], daTag = [], daDigest = [],
     daAvailability = [], daObservedAt = zero_time, daBuildRequest = zero_BuildRequest, daBuildRunID = 0\<rparr>"

record DeliveryBuildRun =
  dbrMeta :: Meta
  dbrOperationID :: string
  dbrApplicationID :: string
  dbrRequest :: BuildRequest
  dbrResult :: RunResult

definition zero_DeliveryBuildRun :: DeliveryBuildRun where
  "zero_DeliveryBuildRun = \<lparr>dbrMeta = zero_Meta, dbrOperationID = [], dbrApplicationID = [], dbrRequest = zero_BuildRequest,
     dbrResult = zero_RunResult\<rparr>"

record ArtifactPin =
  apnMeta :: Meta
  apnApplicationID :: string
  apnImageRepository :: string
  apnDigest :: string
  apnPurpose :: string
  apnRequestKey :: string
  apnRequestHash :: string
  apnReleasedAt :: "time option"

definition zero_ArtifactPin :: ArtifactPin where
  "zero_ArtifactPin = \<lparr>apnMeta = zero_Meta, apnApplicationID = [], apnImageRepository = [], apnDigest = [], apnPurpose = [],
     apnRequestKey = [], apnRequestHash = [], apnReleasedAt = None\<rparr>"

record CompositionComponent =
  cmcApplicationID :: string
  cmcBaseRef :: string
  cmcBaseCommit :: string
  cmcTargetBranch :: string
  cmcRevisionIDs :: "string list"

definition zero_CompositionComponent :: CompositionComponent where
  "zero_CompositionComponent = \<lparr>cmcApplicationID = [], cmcBaseRef = [], cmcBaseCommit = [], cmcTargetBranch = [],
     cmcRevisionIDs = []\<rparr>"

record Composition =
  cmpAutoRefresh :: bool
  cmpMeta :: Meta
  cmpEnvironmentID :: string
  cmpName :: string
  cmpStatus :: string
  cmpComponents :: "CompositionComponent list"
  cmpApplicationSnapshots :: "Application list"
  cmpRevisionSnapshots :: "IntegrationRevision list"
  cmpEnvironmentSnapshot :: Environment

definition zero_Composition :: Composition where
  "zero_Composition = \<lparr>cmpAutoRefresh = False, cmpMeta = zero_Meta, cmpEnvironmentID = [], cmpName = [], cmpStatus = [],
     cmpComponents = [], cmpApplicationSnapshots = [], cmpRevisionSnapshots = [],
     cmpEnvironmentSnapshot = zero_Environment\<rparr>"

record RuntimeObservation =
  robMeta :: Meta
  robOperationID :: string
  robEnvironmentID :: string
  robGitOpsCommit :: string
  robArtifactDigest :: string
  robHealthy :: bool
  robDetails :: string

definition zero_RuntimeObservation :: RuntimeObservation where
  "zero_RuntimeObservation = \<lparr>robMeta = zero_Meta, robOperationID = [], robEnvironmentID = [], robGitOpsCommit = [],
     robArtifactDigest = [], robHealthy = False, robDetails = []\<rparr>"

record RuntimePod =
  podName :: string
  podUID :: string
  podPhase :: string
  podImage :: string
  podImageID :: string
  podReady :: bool

definition zero_RuntimePod :: RuntimePod where
  "zero_RuntimePod = \<lparr>podName = [], podUID = [], podPhase = [], podImage = [], podImageID = [], podReady = False\<rparr>"

record RuntimeFluxSnapshot =
  flxRevision :: string
  flxStatus :: string
  flxError :: string

definition zero_RuntimeFluxSnapshot :: RuntimeFluxSnapshot where
  "zero_RuntimeFluxSnapshot = \<lparr>flxRevision = [], flxStatus = [], flxError = []\<rparr>"

record RuntimeReading =
  rrdProductID :: string
  rrdEnvironmentID :: string
  rrdApplicationID :: string
  rrdObservedAt :: time
  rrdWorkloadImage :: string
  rrdHealth :: string
  rrdPods :: "RuntimePod list"
  rrdFlux :: "RuntimeFluxSnapshot option"
  rrdErrors :: "string list"

definition zero_RuntimeReading :: RuntimeReading where
  "zero_RuntimeReading = \<lparr>rrdProductID = [], rrdEnvironmentID = [], rrdApplicationID = [], rrdObservedAt = zero_time,
     rrdWorkloadImage = [], rrdHealth = [], rrdPods = [], rrdFlux = None, rrdErrors = []\<rparr>"

record RuntimeExpected =
  rexImageRepository :: string
  rexValue :: string
  rexGitOpsCommit :: string
  rexError :: string

definition zero_RuntimeExpected :: RuntimeExpected where
  "zero_RuntimeExpected = \<lparr>rexImageRepository = [], rexValue = [], rexGitOpsCommit = [], rexError = []\<rparr>"

record RuntimeSnapshot =
  rsnMeta :: Meta
  rsnOperationID :: string
  rsnEnvironmentID :: string
  rsnApplicationID :: string
  rsnRuntime :: RuntimeReading
  rsnExpected :: RuntimeExpected

definition zero_RuntimeSnapshot :: RuntimeSnapshot where
  "zero_RuntimeSnapshot = \<lparr>rsnMeta = zero_Meta, rsnOperationID = [], rsnEnvironmentID = [], rsnApplicationID = [],
     rsnRuntime = zero_RuntimeReading, rsnExpected = zero_RuntimeExpected\<rparr>"

record CheckRunIdentity =
  criRepositoryID :: int
  criRepository :: string
  criHeadSHA :: string
  criName :: string
  criExternalID :: string
  criAppID :: int

definition zero_CheckRunIdentity :: CheckRunIdentity where
  "zero_CheckRunIdentity = \<lparr>criRepositoryID = 0, criRepository = [], criHeadSHA = [], criName = [], criExternalID = [],
     criAppID = 0\<rparr>"

record CheckRunOutput =
  croTitle :: string
  croSummary :: string

definition zero_CheckRunOutput :: CheckRunOutput where
  "zero_CheckRunOutput = \<lparr>croTitle = [], croSummary = []\<rparr>"

record CheckRunWrite =
  crwIdentity :: CheckRunIdentity
  crwID :: int
  crwStatus :: string
  crwConclusion :: string
  crwStartedAt :: time
  crwCompletedAt :: time
  crwOutput :: CheckRunOutput

definition zero_CheckRunWrite :: CheckRunWrite where
  "zero_CheckRunWrite = \<lparr>crwIdentity = zero_CheckRunIdentity, crwID = 0, crwStatus = [], crwConclusion = [],
     crwStartedAt = zero_time, crwCompletedAt = zero_time, crwOutput = zero_CheckRunOutput\<rparr>"

record CheckRunObservation =
  crbFound :: bool
  crbID :: int
  crbIdentity :: CheckRunIdentity
  crbStatus :: string
  crbConclusion :: string
  crbStartedAt :: time
  crbCompletedAt :: time
  crbOutput :: CheckRunOutput

definition zero_CheckRunObservation :: CheckRunObservation where
  "zero_CheckRunObservation = \<lparr>crbFound = False, crbID = 0, crbIdentity = zero_CheckRunIdentity, crbStatus = [], crbConclusion = [],
     crbStartedAt = zero_time, crbCompletedAt = zero_time, crbOutput = zero_CheckRunOutput\<rparr>"

record CheckPublication =
  cpJobID :: string
  cpWorkerOperationID :: string
  cpInputs :: WorkerInputs
  cpInputHash :: string
  cpSource :: RepositoryBinding
  cpConnection :: Connection
  cpProviderRepositoryID :: int
  cpIdentity :: CheckRunIdentity
  cpFinalizeDeadline :: time
  cpObservations :: int
  cpIntent :: "CheckRunWrite option"
  cpIntentHash :: string
  cpObserved :: "CheckRunObservation option"

definition zero_CheckPublication :: CheckPublication where
  "zero_CheckPublication = \<lparr>cpJobID = [], cpWorkerOperationID = [], cpInputs = zero_WorkerInputs, cpInputHash = [],
     cpSource = zero_RepositoryBinding, cpConnection = zero_Connection, cpProviderRepositoryID = 0,
     cpIdentity = zero_CheckRunIdentity, cpFinalizeDeadline = zero_time, cpObservations = 0,
     cpIntent = None, cpIntentHash = [], cpObserved = None\<rparr>"

record OperationStep =
  ostMeta :: Meta
  ostOperationID :: string
  ostPhase :: string
  ostStatus :: string
  ostDetail :: string
  ostEvidence :: "(string \<times> string) list"

definition zero_OperationStep :: OperationStep where
  "zero_OperationStep = \<lparr>ostMeta = zero_Meta, ostOperationID = [], ostPhase = [], ostStatus = [], ostDetail = [],
     ostEvidence = []\<rparr>"

record GitOpsPullRequest =
  gprNumber :: int
  gprURL :: string
  gprHeadSHA :: string
  gprState :: string
  gprMerged :: bool
  gprMergedAt :: "time option"

definition zero_GitOpsPullRequest :: GitOpsPullRequest where
  "zero_GitOpsPullRequest = \<lparr>gprNumber = 0, gprURL = [], gprHeadSHA = [], gprState = [], gprMerged = False, gprMergedAt = None\<rparr>"

record GitOpsResult =
  gorCommitSHA :: string
  gorBlobSHA :: string
  gorURL :: string
  gorAlreadyApplied :: bool

definition zero_GitOpsResult :: GitOpsResult where
  "zero_GitOpsResult = \<lparr>gorCommitSHA = [], gorBlobSHA = [], gorURL = [], gorAlreadyApplied = False\<rparr>"

record ExternalOperation =
  opReservationEpoch :: "64 word"
  opRegistryObservation :: "WorkerInputs option"
  opCheckPublication :: "CheckPublication option"
  opRequestKey :: string
  opRequestHash :: string
  opNative :: "NativeDelivery option"
  opGitOpsPR :: "GitOpsPullRequest option"
  opExistingArtifact :: "DeliveryArtifact option"
  opPreparedDeployments :: "DeliverySnapshot list"
  opParentID :: string
  opChildIDs :: "string list"
  opIntegrationIDs :: "string list"
  opBuildOnly :: bool
  opReleaseCandidateID :: string
  opDeploymentState :: string
  opRequestedBy :: string
  opStartedAt :: "time option"
  opCurrentStep :: string
  opError :: string
  opMeta :: Meta
  opKind :: string
  opIntegrationID :: string
  opRepositoryID :: string
  opEnvironmentID :: string
  opApplicationID :: string
  opStatus :: string
  opPhase :: string
  opDetail :: string
  opSnapshot :: "DeliverySnapshot option"
  opExpectedDigest :: string
  opArtifact :: "ArtifactResult option"
  opRun :: "RunResult option"
  opGitOpsBase :: "GitOpsSnapshot option"
  opGitOpsResult :: "GitOpsResult option"
  opAttempts :: int
  opNextAttemptAt :: time
  opLeaseOwner :: string
  opLeaseUntil :: time
  opFinishedAt :: "time option"
  opOther :: string

definition zero_ExternalOperation :: ExternalOperation where
  "zero_ExternalOperation = \<lparr>opReservationEpoch = 0, opRegistryObservation = None, opCheckPublication = None, opRequestKey = [],
     opRequestHash = [], opNative = None, opGitOpsPR = None, opExistingArtifact = None,
     opPreparedDeployments = [], opParentID = [], opChildIDs = [], opIntegrationIDs = [],
     opBuildOnly = False, opReleaseCandidateID = [], opDeploymentState = [], opRequestedBy = [],
     opStartedAt = None, opCurrentStep = [], opError = [], opMeta = zero_Meta, opKind = [],
     opIntegrationID = [], opRepositoryID = [], opEnvironmentID = [], opApplicationID = [], opStatus = [],
     opPhase = [], opDetail = [], opSnapshot = None, opExpectedDigest = [], opArtifact = None,
     opRun = None, opGitOpsBase = None, opGitOpsResult = None, opAttempts = 0,
     opNextAttemptAt = zero_time, opLeaseOwner = [], opLeaseUntil = zero_time, opFinishedAt = None,
     opOther = []\<rparr>"

record State =
  stRegistryInventories :: "RegistryInventory list"
  stArtifactPins :: "ArtifactPin list"
  stNativeQuarantines :: "NativeQuarantine list"
  stWorkerJobs :: "WorkerJob list"
  stWorkerAttempts :: "WorkerAttempt list"
  stRuntimeSnapshots :: "RuntimeSnapshot list"
  stRuntimeObservations :: "RuntimeObservation list"
  stDeliveryArtifacts :: "DeliveryArtifact list"
  stDeliveryBuildRuns :: "DeliveryBuildRun list"
  stExternalScopes :: "ExternalScope list"
  stRegisteredRepositories :: "RegisteredRepository list"
  stConnectionGrants :: "ConnectionGrant list"
  stGitHubConnections :: "GitHubConnection list"
  stRepositoryBindings :: "RepositoryBinding list"
  stComponentBuilds :: "ComponentBuild list"
  stEnvironmentBindings :: "EnvironmentBinding list"
  stOperations :: "ExternalOperation list"
  stOperationSteps :: "OperationStep list"
  stApplications :: "Application list"
  stIntegrationRevisions :: "IntegrationRevision list"
  stCompositions :: "Composition list"
  stProducts :: "Product list"
  stFeatures :: "Feature list"
  stIntegrations :: "Integration list"
  stGates :: "Gate list"
  stChecks :: "Check list"
  stResults :: "CheckResult list"
  stFindings :: "Finding list"
  stMemories :: "Memory list"
  stEnvironments :: "Environment list"
  stRepositories :: "Repository list"
  stReleases :: "Release list"
  stEvents :: "Event list"
  stOtherIDs :: "string list"

definition zero_State :: State where
  "zero_State = \<lparr>stRegistryInventories = [], stArtifactPins = [], stNativeQuarantines = [], stWorkerJobs = [],
     stWorkerAttempts = [], stRuntimeSnapshots = [], stRuntimeObservations = [], stDeliveryArtifacts = [],
     stDeliveryBuildRuns = [], stExternalScopes = [], stRegisteredRepositories = [],
     stConnectionGrants = [], stGitHubConnections = [], stRepositoryBindings = [], stComponentBuilds = [],
     stEnvironmentBindings = [], stOperations = [], stOperationSteps = [], stApplications = [],
     stIntegrationRevisions = [], stCompositions = [], stProducts = [], stFeatures = [],
     stIntegrations = [], stGates = [], stChecks = [], stResults = [], stFindings = [], stMemories = [],
     stEnvironments = [], stRepositories = [], stReleases = [], stEvents = [], stOtherIDs = []\<rparr>"

end
