(* ===== verification/StatusCatalog.thy ===== *)
theory StatusCatalog
  imports GoStrings
begin

text \<open>
  \<open>internal/domain/status.go\<close>: the catalog of status values and the command transitions of
  features and integrations. A Go map from a kind to its values is an association list with
  distinct keys; a missing key gives the nil slice.
\<close>

definition lookup_list :: "(string \<times> 'a list) list \<Rightarrow> string \<Rightarrow> 'a list" where
  "lookup_list m k = (case map_of m k of Some v \<Rightarrow> v | None \<Rightarrow> [])"

definition status_catalog :: "(string \<times> string list) list" where
  "status_catalog =
   [(''worker_job'', [''QUEUED'', ''CLAIMED'', ''RUNNING'', ''SUCCEEDED'', ''FAILED'', ''CANCELLED'',
       ''DEADLINE_EXCEEDED'', ''RECONCILIATION_REQUIRED'']),
    (''worker_attempt'', [''CLAIMED'', ''RUNNING'', ''SUCCEEDED'', ''FAILED'', ''CANCELLED'', ''EXPIRED'',
       ''RECONCILIATION_REQUIRED'']),
    (''runtime_comparison'', [''MATCH'', ''DRIFT'', ''UNKNOWN'']),
    (''runtime_health'', [''UNKNOWN'', ''NOT_READY'', ''HEALTHY'', ''SCALED_ZERO'']),
    (''composition_conflict'', [''requires_resolution'', ''claimed'', ''verification_required'', ''resolved'']),
    (''feature'', [''planned'', ''active'', ''blocked'', ''completed'', ''archived'']),
    (''integration'', [''planned'', ''working'', ''implemented'', ''verifying'', ''ready'', ''released'']),
    (''blocker'', [''open'', ''resolved'']), (''finding'', [''open'', ''resolved'']),
    (''check_result'', [''passed'', ''failed'', ''blocked'', ''skipped'']),
    (''gate_result'', [''pending'', ''passed'', ''failed'', ''blocked'', ''skipped'', ''stale'']),
    (''scenario_result'', [''passed'', ''failed'', ''blocked'']), (''composition'', [''planned'']),
    (''release'', [''planned'', ''released'']),
    (''operation'', [''PENDING'', ''RUNNING'', ''SUCCEEDED'', ''FAILED'', ''CANCELLED'']),
    (''operation_step'', [''PENDING'', ''RUNNING'', ''SUCCEEDED'', ''FAILED'', ''CANCELLED'']),
    (''deployment_state'', [''PENDING'', ''COMPOSING'', ''SOURCE_READY'', ''UPDATING_MAIN'',
       ''WAITING_FOR_COMPONENTS'', ''WAITING_FOR_ARTIFACT'', ''BUILDING'', ''ARTIFACT_READY'',
       ''GITOPS_PENDING'', ''GITOPS_APPLIED'', ''PENDING_RECONCILIATION'', ''BASELINE_CAPTURED'',
       ''BASELINE_UNVERIFIED'', ''RESTORATION_VERIFIED'', ''RESTORATION_UNVERIFIED'', ''RELEASED'',
       ''RUNTIME_VERIFIED'', ''RUNTIME_UNVERIFIED'', ''READY_FOR_VERIFICATION'', ''DEPLOYED'',
       ''SUCCEEDED'', ''FAILED'', ''BLOCKED'', ''CANCELLED'']),
    (''review_sync'', [''NO_FINDINGS_OBSERVED'', ''FINDINGS_OBSERVED'']),
    (''git_observation'', [''identical'', ''ahead'', ''behind'', ''diverged'', ''unknown'']),
    (''pull_request'', [''open'', ''draft'', ''closed'', ''merged'']),
    (''artifact_availability'', [''PRESENT'', ''MISSING''])]"

definition valid_status :: "string \<Rightarrow> string \<Rightarrow> bool" where
  "valid_status kind v \<longleftrightarrow> v \<in> set (lookup_list status_catalog kind)"

definition status_transitions :: "(string \<times> (string \<times> string list) list) list" where
  "status_transitions =
   [(''feature'',
      [(''planned'', [''active'', ''blocked'', ''archived'']),
       (''active'', [''blocked'', ''completed'', ''archived'']),
       (''blocked'', [''active'', ''planned'', ''archived'']),
       (''completed'', [''active'', ''archived'']),
       (''archived'', [''active'', ''planned''])]),
    (''integration'',
      [(''planned'', [''working'']),
       (''working'', [''planned'', ''implemented'', ''verifying'', ''ready'']),
       (''implemented'', [''planned'', ''working'', ''verifying'', ''ready'']),
       (''verifying'', [''planned'', ''working'', ''implemented'', ''ready'']),
       (''ready'', [''working'', ''verifying'']),
       (''released'', [])])]"

definition can_transition :: "string \<Rightarrow> string \<Rightarrow> string \<Rightarrow> bool" where
  "can_transition kind from to \<longleftrightarrow>
     (if \<not> valid_status kind from \<or> \<not> valid_status kind to then False
      else if from = to then True
      else to \<in> set (lookup_list (lookup_list status_transitions kind) from))"

section \<open>The two tables agree\<close>

text \<open>The statuses of a kind that has transitions, as membership in literal lists.\<close>

lemma valid_feature_status:
  "valid_status ''feature'' s \<longleftrightarrow> s \<in> {''planned'', ''active'', ''blocked'', ''completed'', ''archived''}"
  by (simp add: valid_status_def status_catalog_def lookup_list_def)

lemma valid_integration_status:
  "valid_status ''integration'' s \<longleftrightarrow>
     s \<in> {''planned'', ''working'', ''implemented'', ''verifying'', ''ready'', ''released''}"
  by (simp add: valid_status_def status_catalog_def lookup_list_def)

lemma valid_check_result:
  "valid_status ''check_result'' s \<longleftrightarrow> s \<in> {''passed'', ''failed'', ''blocked'', ''skipped''}"
  by (simp add: valid_status_def status_catalog_def lookup_list_def)

lemma integration_transition:
  "can_transition ''integration'' a b \<longleftrightarrow>
     valid_status ''integration'' a \<and> valid_status ''integration'' b \<and>
     (a = b \<or> (a, b) \<in> {(''planned'', ''working''), (''working'', ''planned''),
        (''working'', ''implemented''), (''working'', ''verifying''), (''working'', ''ready''),
        (''implemented'', ''planned''), (''implemented'', ''working''), (''implemented'', ''verifying''),
        (''implemented'', ''ready''), (''verifying'', ''planned''), (''verifying'', ''working''),
        (''verifying'', ''implemented''), (''verifying'', ''ready''), (''ready'', ''working''),
        (''ready'', ''verifying'')})"
  by (auto simp: can_transition_def valid_integration_status status_transitions_def lookup_list_def)

lemma feature_transition:
  "can_transition ''feature'' a b \<longleftrightarrow>
     valid_status ''feature'' a \<and> valid_status ''feature'' b \<and>
     (a = b \<or> (a, b) \<in> {(''planned'', ''active''), (''planned'', ''blocked''), (''planned'', ''archived''),
        (''active'', ''blocked''), (''active'', ''completed''), (''active'', ''archived''),
        (''blocked'', ''active''), (''blocked'', ''planned''), (''blocked'', ''archived''),
        (''completed'', ''active''), (''completed'', ''archived''), (''archived'', ''active''),
        (''archived'', ''planned'')})"
  by (auto simp: can_transition_def valid_feature_status status_transitions_def lookup_list_def)

section \<open>Sequences of command transitions\<close>

inductive transition_path :: "string \<Rightarrow> string \<Rightarrow> string \<Rightarrow> bool" where
  path_start: "valid_status kind s \<Longrightarrow> transition_path kind s s"
| path_step: "transition_path kind a b \<Longrightarrow> can_transition kind b c \<Longrightarrow> transition_path kind a c"

inductive_cases transition_path_cases: "transition_path kind a b"

lemma path_valid: "transition_path kind a b \<Longrightarrow> valid_status kind a \<and> valid_status kind b"
  by (induction rule: transition_path.induct) (auto simp: can_transition_def split: if_splits)

lemma path_append: "transition_path kind b c \<Longrightarrow> transition_path kind a b \<Longrightarrow> transition_path kind a c"
  by (induction rule: transition_path.induct) (auto intro: path_step)

lemma path_one: "can_transition kind a b \<Longrightarrow> transition_path kind a b"
  by (rule path_step [OF path_start]) (auto simp: can_transition_def split: if_splits)

lemma path_to_released: "transition_path kind a b \<Longrightarrow> kind = ''integration'' \<Longrightarrow> b = ''released'' \<Longrightarrow> a = ''released''"
  by (induction rule: transition_path.induct) (auto simp: integration_transition)

lemma path_from_released: "transition_path kind a b \<Longrightarrow> kind = ''integration'' \<Longrightarrow> a = ''released'' \<Longrightarrow> b = ''released''"
  by (induction rule: transition_path.induct) (auto simp: integration_transition)

text \<open>The planned statuses sit in the middle of every path: each one is left for it and reached
  from it.\<close>

lemma feature_to_active: "valid_status ''feature'' a \<Longrightarrow> transition_path ''feature'' a ''active''"
  by (rule path_one) (auto simp: valid_feature_status feature_transition)

lemma feature_from_active:
  assumes "valid_status ''feature'' b"
  shows "transition_path ''feature'' ''active'' b"
proof -
  have 1: "transition_path ''feature'' ''active'' ''blocked''"
    by (rule path_one) (simp add: feature_transition valid_feature_status)
  have 2: "transition_path ''feature'' ''active'' ''planned''"
    by (rule path_step [OF 1]) (simp add: feature_transition valid_feature_status)
  show ?thesis
  proof (cases "b = ''planned''")
    case False
    with assms show ?thesis by (intro path_one) (auto simp: feature_transition valid_feature_status)
  qed (simp add: 2)
qed

lemma integration_to_working:
  assumes "valid_status ''integration'' a" and "a \<noteq> ''released''"
  shows "transition_path ''integration'' a ''working''"
  using assms by (intro path_one) (auto simp: valid_integration_status integration_transition)

lemma integration_from_working:
  assumes "valid_status ''integration'' b" and "b \<noteq> ''released''"
  shows "transition_path ''integration'' ''working'' b"
  using assms by (intro path_one) (auto simp: valid_integration_status integration_transition)

section \<open>Properties\<close>

text \<open>An integration becomes released only by verified execution: along any sequence of
  command transitions an integration is released at the end exactly when it was at the start, and
  every two statuses that are not released reach one another.\<close>

theorem released_only_by_execution:
  assumes "valid_status ''integration'' a" and "valid_status ''integration'' b"
  shows "transition_path ''integration'' a b \<longleftrightarrow> (a = ''released'') = (b = ''released'')"
proof
  assume "transition_path ''integration'' a b"
  then show "(a = ''released'') = (b = ''released'')"
    using path_to_released path_from_released by blast
next
  assume same: "(a = ''released'') = (b = ''released'')"
  show "transition_path ''integration'' a b"
  proof (cases "a = ''released''")
    case True
    with same assms show ?thesis by (simp add: path_start)
  next
    case False
    with same assms show ?thesis
      by (meson integration_from_working integration_to_working path_append)
  qed
qed

theorem released_only_by_execution_witness:
  "transition_path ''integration'' ''ready'' ''planned'' \<and>
   \<not> transition_path ''integration'' ''ready'' ''released''"
proof -
  have v: "valid_status ''integration'' ''ready''" "valid_status ''integration'' ''planned''"
    "valid_status ''integration'' ''released''" by (simp_all add: valid_integration_status)
  show ?thesis
    using released_only_by_execution [OF v(1) v(2)] released_only_by_execution [OF v(1) v(3)] by simp
qed

text \<open>No feature is stuck: whatever status a feature has, a sequence of command transitions
  leads it to any other, but completion can only be entered from the active status.\<close>

theorem feature_never_stuck:
  assumes "valid_status ''feature'' a" and "valid_status ''feature'' b"
  shows "transition_path ''feature'' a b \<and>
    (can_transition ''feature'' a ''completed'' \<longrightarrow> a = ''active'' \<or> a = ''completed'')"
proof
  show "transition_path ''feature'' a b"
    using assms by (meson feature_from_active feature_to_active path_append)
  show "can_transition ''feature'' a ''completed'' \<longrightarrow> a = ''active'' \<or> a = ''completed''"
    by (auto simp: feature_transition)
qed

theorem feature_never_stuck_witness:
  "transition_path ''feature'' ''archived'' ''completed'' \<and>
   \<not> can_transition ''feature'' ''archived'' ''completed''"
  using feature_never_stuck [of "''archived''" "''completed''"] by (simp add: valid_feature_status)

end
