(* ===== verification/Readiness.thy ===== *)
theory Readiness
  imports StateModel StatusCatalog
begin

text \<open>
  The lookups and the rules of \<open>internal/application/service.go\<close> that decide over planning
  entities: the derived result of a gate, the readiness of an integration, and the validation of an
  integration with its search for dependency cycles; with \<open>externalGateEvidenceCurrent\<close> of
  \<open>external_systems.go\<close>. A lookup returns the first row with the ID.
\<close>

section \<open>Lookups\<close>

definition feature :: "State \<Rightarrow> string \<Rightarrow> Feature option" where
  "feature st i = find (\<lambda>v. mID (fMeta v) = i) (stFeatures st)"

definition integration :: "State \<Rightarrow> string \<Rightarrow> Integration option" where
  "integration st i = find (\<lambda>v. mID (iMeta v) = i) (stIntegrations st)"

definition gate :: "State \<Rightarrow> string \<Rightarrow> Gate option" where
  "gate st i = find (\<lambda>v. mID (gMeta v) = i) (stGates st)"

definition check :: "State \<Rightarrow> string \<Rightarrow> Check option" where
  "check st i = find (\<lambda>v. mID (chMeta v) = i) (stChecks st)"

definition check_result :: "State \<Rightarrow> string \<Rightarrow> CheckResult option" where
  "check_result st i = find (\<lambda>v. mID (rMeta v) = i) (stResults st)"

definition product_exists :: "State \<Rightarrow> string \<Rightarrow> bool" where
  "product_exists st i \<longleftrightarrow> list_ex (\<lambda>p. mID (pMeta p) = i) (stProducts st)"

definition repositories :: "State \<Rightarrow> string list \<Rightarrow> string \<Rightarrow> unit result" where
  "repositories st ids p =
     each (\<lambda>i. if list_ex (\<lambda>r. mID (repoMeta r) = i \<and> mProductID (repoMeta r) = p) (stRepositories st)
       then Inr () else Inl (invalid ''repository %q is not in product'' [i])) ids"

definition env :: "State \<Rightarrow> string \<Rightarrow> string \<Rightarrow> unit result" where
  "env st i p =
     (if i = [] then Inr ()
      else if list_ex (\<lambda>e. mID (eMeta e) = i \<and> mProductID (eMeta e) = p) (stEnvironments st) then Inr ()
      else Inl (invalid ''environment is not in product'' []))"

definition refs :: "State \<Rightarrow> string list \<Rightarrow> string \<Rightarrow> unit result" where
  "refs st ids f =
     each (\<lambda>i. case integration st i of
         None \<Rightarrow> Inl (invalid ''integration %q is not in feature'' [i])
       | Some v \<Rightarrow> (if mFeatureID (iMeta v) \<noteq> f
                   then Inl (invalid ''integration %q is not in feature'' [i]) else Inr ())) ids"

interpretation feature_table: keyed_table stFeatures "\<lambda>xs. stFeatures_update (\<lambda>_. xs)" "\<lambda>v. mID (fMeta v)"
  by unfold_locales simp_all

interpretation integration_table: keyed_table stIntegrations "\<lambda>xs. stIntegrations_update (\<lambda>_. xs)" "\<lambda>v. mID (iMeta v)"
  by unfold_locales simp_all

lemma refs_ok:
  "refs st ids f = Inr () \<longleftrightarrow> (\<forall>i\<in>set ids. \<exists>v. integration st i = Some v \<and> mFeatureID (iMeta v) = f)"
  by (force simp: refs_def each_ok split: option.splits)

section \<open>Results of checks and gates\<close>

fun latest_from :: "string \<Rightarrow> CheckResult option \<Rightarrow> CheckResult list \<Rightarrow> CheckResult option" where
  "latest_from c r [] = r"
| "latest_from c r (v # vs) =
     latest_from c
       (if rCheckID v = c \<and>
           (case r of None \<Rightarrow> True | Some w \<Rightarrow> \<not> mCreatedAt (rMeta v) < mCreatedAt (rMeta w))
        then Some v else r) vs"

definition latest :: "State \<Rightarrow> string \<Rightarrow> CheckResult option" where
  "latest st c = latest_from c None (stResults st)"

definition external_gate_evidence_current :: "State \<Rightarrow> Gate \<Rightarrow> bool" where
  "external_gate_evidence_current st g =
     (case find_last (\<lambda>s. esGateID s = mID (gMeta g)) (stExternalScopes st) of
        None \<Rightarrow> True
      | Some scope \<Rightarrow>
          list_all (\<lambda>c. chGateID c = mID (gMeta g) \<longrightarrow>
              (case latest st (mID (chMeta c)) of
                 None \<Rightarrow> False
               | Some r \<Rightarrow> \<not> mCreatedAt (rMeta r) < mCreatedAt (esMeta scope)))
            (stChecks st))"

text \<open>The loop over the checks of a gate: the left side is an early return, the right side the
  number of checks seen.\<close>

fun gate_checks :: "State \<Rightarrow> Gate \<Rightarrow> nat \<Rightarrow> Check list \<Rightarrow> string + nat" where
  "gate_checks st g n [] = Inr n"
| "gate_checks st g n (c # cs) =
     (if chGateID c \<noteq> mID (gMeta g) then gate_checks st g n cs
      else case latest st (mID (chMeta c)) of
        None \<Rightarrow> Inl ''pending''
      | Some r \<Rightarrow>
          (if rResult r \<noteq> ''passed'' then Inl (rResult r)
           else if gCommit g \<noteq> [] \<and> rCommit r \<noteq> gCommit g then Inl ''stale''
           else if gDeployment g \<noteq> [] \<and> rDeployment r \<noteq> gDeployment g then Inl ''stale''
           else if gEnvironmentID g \<noteq> [] \<and> rEnvironmentID r \<noteq> gEnvironmentID g then Inl ''stale''
           else gate_checks st g (Suc n) cs))"

definition gate_result :: "State \<Rightarrow> Gate \<Rightarrow> string" where
  "gate_result st g =
     (if \<not> external_gate_evidence_current st g then ''pending''
      else case gate_checks st g 0 (stChecks st) of
        Inl s \<Rightarrow> s
      | Inr n \<Rightarrow>
          (if n = 0 then ''pending''
           else if list_ex (\<lambda>f. fdStatus f = ''open'' \<and> mID (gMeta g) \<in> set (fdGateIDs f)) (stFindings st)
           then ''blocked'' else ''passed''))"

definition derive :: "State \<Rightarrow> State" where
  "derive st = st\<lparr>stGates := map (\<lambda>g. g\<lparr>gResult := gate_result st g\<rparr>) (stGates st)\<rparr>"

section \<open>Readiness\<close>

definition gate_commits_match :: "State \<Rightarrow> Integration \<Rightarrow> Gate \<Rightarrow> unit result" where
  "gate_commits_match st v g =
     (if length (iCommits v) > 0 then
        each (\<lambda>c. if chGateID c \<noteq> mID (gMeta g) then Inr ()
            else if list_ex (\<lambda>cm. case latest st (mID (chMeta c)) of
                     None \<Rightarrow> False | Some r \<Rightarrow> rCommit r = cmSHA cm) (iCommits v) then Inr ()
            else Inl (invalid ''check %s evidence does not match integration commits'' [mID (chMeta c)]))
          (stChecks st)
      else Inr ())"

definition readiness :: "State \<Rightarrow> Integration \<Rightarrow> unit result" where
  "readiness st v = chain
    [each (\<lambda>d. case integration st d of
         None \<Rightarrow> Inl (invalid ''dependency %s is not ready'' [d])
       | Some w \<Rightarrow> reject (iStatus w \<noteq> ''ready'' \<and> iStatus w \<noteq> ''released'')
           (invalid ''dependency %s is not ready'' [d])) (iDependencies v),
     each (\<lambda>m. reject (memKind m = ''blocker'' \<and> memStatus m = ''open'' \<and>
         mFeatureID (memMeta m) = mFeatureID (iMeta v) \<and>
         (memIntegrationID m = [] \<or> memIntegrationID m = mID (iMeta v)))
         (invalid ''open blocker %s'' [mID (memMeta m)])) (stMemories st),
     each (\<lambda>f. reject (fdStatus f = ''open'' \<and> mFeatureID (fdMeta f) = mFeatureID (iMeta v) \<and>
         (mID (iMeta v) \<in> set (fdIntegrationIDs f) \<or> (length (fdIntegrationIDs f) = 0 \<and> fdBlocksRelease f)))
         (invalid ''open finding %s'' [mID (fdMeta f)])) (stFindings st),
     each (\<lambda>g. if mFeatureID (gMeta g) \<noteq> mFeatureID (iMeta v) \<or> \<not> gBlocking g \<or>
           mID (iMeta v) \<notin> set (gIntegrationIDs g) then Inr ()
         else if gate_result st g \<noteq> ''passed'' then Inl (invalid ''gate %s is not passing'' [mID (gMeta g)])
         else gate_commits_match st v g) (stGates st)]"

section \<open>Dependencies\<close>

definition dependencies_of :: "State \<Rightarrow> string \<Rightarrow> string list" where
  "dependencies_of st i = (case integration st i of None \<Rightarrow> [] | Some v \<Rightarrow> iDependencies v)"

definition known_ids :: "State \<Rightarrow> string set" where
  "known_ids st = set (map (\<lambda>v. mID (iMeta v)) (stIntegrations st))"

lemma finite_known_ids [simp]: "finite (known_ids st)"
  by (simp add: known_ids_def)

lemma dependencies_known: "dependencies_of st i \<noteq> [] \<Longrightarrow> i \<in> known_ids st"
  by (auto simp: dependencies_of_def integration_def known_ids_def split: option.splits
      dest!: find_cong_map)

text \<open>
  The closure \<open>visit\<close> of \<open>validateIntegration\<close>, run over the list of dependencies still to
  visit; the map \<open>seen\<close>, which the closure mutates, is passed on and returned.
\<close>

function visit :: "State \<Rightarrow> string \<Rightarrow> string list \<Rightarrow> string list \<Rightarrow> bool \<times> string list" where
  "visit st target [] seen = (False, seen)"
| "visit st target (i # is) seen =
     (if i = target then (True, seen)
      else if i \<in> set seen then visit st target is seen
      else let below = visit st target (dependencies_of st i) (i # seen) in
        if fst below then (True, snd below) else visit st target is (snd below))"
  by pat_completeness auto

lemma visit_seen_grows:
  "visit_dom (st, target, is, seen) \<Longrightarrow> set seen \<subseteq> set (snd (visit st target is seen))"
proof (induction st target "is" seen rule: visit.pinduct)
  case (2 st target i "is" seen)
  show ?case
  proof (cases "i = target \<or> i \<in> set seen")
    case True
    then show ?thesis using 2 by (auto simp: visit.psimps)
  next
    case False
    let ?below = "visit st target (dependencies_of st i) (i # seen)"
    have sub: "set (i # seen) \<subseteq> set (snd ?below)" using 2(3) False by simp
    show ?thesis
    proof (cases "fst ?below")
      case True
      then show ?thesis using False sub 2(1) by (simp add: visit.psimps)
    next
      case nf: False
      then have "set (snd ?below) \<subseteq> set (snd (visit st target is (snd ?below)))"
        using 2(4) False by simp
      then show ?thesis using False sub nf 2(1) by (auto simp: visit.psimps)
    qed
  qed
qed (simp add: visit.psimps)

termination visit
proof (relation "measures [\<lambda>(st, target, is, seen). card (known_ids st - set seen),
      \<lambda>(st, target, is, seen). length is]", goal_cases)
  case 1
  show ?case by simp
next
  case (2 st target i "is" seen)
  then show ?case by simp
next
  case (3 st target i "is" seen)
  show ?case
  proof (cases "i \<in> known_ids st")
    case True
    then have "card (known_ids st - set (i # seen)) < card (known_ids st - set seen)"
      using 3 by (intro psubset_card_mono) auto
    then show ?thesis by simp
  next
    case False
    then have "dependencies_of st i = []" using dependencies_known by blast
    moreover have "known_ids st - set (i # seen) = known_ids st - set seen" using False by auto
    ultimately show ?thesis by simp
  qed
next
  case prems: (4 st target i "is" seen below)
  have "set (i # seen) \<subseteq> set (snd below)" using prems visit_seen_grows by fastforce
  then have "card (known_ids st - set (snd below)) \<le> card (known_ids st - set seen)"
    by (intro card_mono) auto
  then show ?case by auto
qed


definition dep_edge :: "State \<Rightarrow> (string \<times> string) set" where
  "dep_edge st = {(a, b). b \<in> set (dependencies_of st a)}"

lemma visit_found:
  "fst (visit st target is seen) \<Longrightarrow> \<exists>i\<in>set is. (i, target) \<in> (dep_edge st)\<^sup>*"
proof (induction st target "is" seen rule: visit.induct)
  case (2 st target i "is" seen)
  let ?below = "visit st target (dependencies_of st i) (i # seen)"
  consider "i = target" | "i \<noteq> target" "i \<in> set seen" | "i \<noteq> target" "i \<notin> set seen" "fst ?below"
    | "i \<noteq> target" "i \<notin> set seen" "\<not> fst ?below" by blast
  then show ?case
  proof cases
    case 3
    then obtain k where "k \<in> set (dependencies_of st i)" "(k, target) \<in> (dep_edge st)\<^sup>*"
      using "2.IH"(2) by blast
    then have "(i, target) \<in> (dep_edge st)\<^sup>*"
      by (auto simp: dep_edge_def intro: converse_rtrancl_into_rtrancl)
    then show ?thesis by auto
  qed (use 2 in \<open>auto simp: Let_def\<close>)
qed simp

lemma visit_not_found:
  assumes "\<not> fst (visit st target is seen)"
  shows "set is \<union> set seen \<subseteq> set (snd (visit st target is seen)) \<and>
    (target \<notin> set seen \<longrightarrow> target \<notin> set (snd (visit st target is seen))) \<and>
    (\<forall>x \<in> set (snd (visit st target is seen)) - set seen.
       set (dependencies_of st x) \<subseteq> set (snd (visit st target is seen)))"
  using assms
proof (induction st target "is" seen rule: visit.induct)
  case (2 st target i "is" seen)
  let ?below = "visit st target (dependencies_of st i) (i # seen)"
  have ne: "i \<noteq> target" using "2.prems" by auto
  show ?case
  proof (cases "i \<in> set seen")
    case True
    then show ?thesis using "2.IH"(1) "2.prems" ne by auto
  next
    case False
    then have nf: "\<not> fst ?below" and rest: "\<not> fst (visit st target is (snd ?below))"
      using "2.prems" ne by (auto simp: Let_def split: if_splits)
    note below = "2.IH"(2) [OF ne False nf]
    note after = "2.IH"(3) [OF ne False refl nf rest]
    have eq: "visit st target (i # is) seen = visit st target is (snd ?below)"
      using ne False nf by (simp add: Let_def)
    have closed: "set (dependencies_of st x) \<subseteq> set (snd (visit st target is (snd ?below)))"
      if "x \<in> set (snd (visit st target is (snd ?below)))" "x \<notin> set seen" for x
    proof (cases "x \<in> set (snd ?below)")
      case True
      have "set (dependencies_of st x) \<subseteq> set (snd ?below)"
        using below True that(2) by (cases "x = i") simp_all
      then show ?thesis using after by blast
    next
      case False
      then show ?thesis using after that(1) by simp
    qed
    have sub: "set (i # seen) \<subseteq> set (snd ?below)" using below by simp
    have "set (i # is) \<union> set seen \<subseteq> set (snd (visit st target is (snd ?below)))"
      using sub after by auto
    moreover have "target \<notin> set seen \<longrightarrow> target \<notin> set (snd (visit st target is (snd ?below)))"
      using below after ne by simp
    ultimately show ?thesis unfolding eq using closed by blast
  qed
qed simp

text \<open>The search from a fresh \<open>seen\<close> decides reachability in the dependency graph.\<close>

lemma visit_correct:
  "fst (visit st target is []) \<longleftrightarrow> (\<exists>i\<in>set is. (i, target) \<in> (dep_edge st)\<^sup>*)"
proof
  assume "\<exists>i\<in>set is. (i, target) \<in> (dep_edge st)\<^sup>*"
  then obtain i where i: "i \<in> set is" "(i, target) \<in> (dep_edge st)\<^sup>*" by blast
  show "fst (visit st target is [])"
  proof (rule ccontr)
    let ?S = "set (snd (visit st target is []))"
    assume "\<not> fst (visit st target is [])"
    note closed = visit_not_found [OF this]
    have "b \<in> ?S" if "(i, b) \<in> (dep_edge st)\<^sup>*" for b
      using that by (induction rule: rtrancl_induct) (use closed i(1) in \<open>auto simp: dep_edge_def\<close>)
    then show False using closed i(2) by auto
  qed
qed (rule visit_found)

declare visit.simps(2) [simp del]

section \<open>Validation of an integration\<close>

definition outside_feature :: "State \<Rightarrow> Integration \<Rightarrow> string \<Rightarrow> bool" where
  "outside_feature st v repo =
     (case feature st (mFeatureID (iMeta v)) of
        None \<Rightarrow> False
      | Some f \<Rightarrow> length (fRepositories f) > 0 \<and> repo \<notin> set (fRepositories f))"

definition allowed_repository :: "State \<Rightarrow> Integration \<Rightarrow> string \<Rightarrow> unit result" where
  "allowed_repository st v repo = chain
    [reject (length (iRepositories v) > 0 \<and> repo \<notin> set (iRepositories v))
       (invalid ''Git reference repository outside integration scope'' []),
     reject (outside_feature st v repo) (invalid ''Git reference repository outside feature scope'' [])]"

definition validate_integration :: "State \<Rightarrow> Integration \<Rightarrow> unit result" where
  "validate_integration st v = chain
    [reject (\<not> valid_status ''integration'' (iStatus v)) (invalid ''invalid integration status %q'' [iStatus v]),
     each (\<lambda>pr. reject (\<not> valid_status ''pull_request'' (prStatus pr))
       (invalid ''invalid pull request status %q'' [prStatus pr])) (iPullRequests v),
     reject (trim_space (iTitle v) = [] \<or> trim_space (iObjective v) = [])
       (invalid ''title and objective required'' []),
     refs st (iDependencies v) (mFeatureID (iMeta v)),
     each (\<lambda>repo. reject (outside_feature st v repo)
       (invalid ''integration repository outside feature scope'' [])) (iRepositories v),
     repositories st (iRepositories v) (mProductID (iMeta v)),
     each (\<lambda>b. chain [allowed_repository st v (bRepositoryID b),
       repositories st [bRepositoryID b] (mProductID (iMeta v))]) (iBranches v),
     each (\<lambda>c. chain [allowed_repository st v (cmRepositoryID c),
       reject (cmSHA c = []) (invalid ''commit sha required'' []),
       repositories st [cmRepositoryID c] (mProductID (iMeta v))]) (iCommits v),
     each (\<lambda>pr. chain [allowed_repository st v (prRepositoryID pr),
       repositories st [prRepositoryID pr] (mProductID (iMeta v))]) (iPullRequests v),
     each (\<lambda>d. reject (fst (visit st (mID (iMeta v)) [d] [])) (invalid ''dependency cycle'' []))
       (iDependencies v)]"

lemma validate_integration_status: "validate_integration st v = Inr () \<Longrightarrow> valid_status ''integration'' (iStatus v)"
  by (simp add: validate_integration_def chain_simps)

lemma validate_integration_refs:
  "validate_integration st v = Inr () \<Longrightarrow>
   (\<forall>d\<in>set (iDependencies v). \<exists>w. integration st d = Some w \<and> mFeatureID (iMeta w) = mFeatureID (iMeta v))"
  by (simp add: validate_integration_def chain_simps refs_ok)

lemma validate_integration_cycle_free:
  "validate_integration st v = Inr () \<Longrightarrow>
   (\<forall>d\<in>set (iDependencies v). (d, mID (iMeta v)) \<notin> (dep_edge st)\<^sup>*)"
  by (simp add: validate_integration_def chain_simps each_ok visit_correct)


section \<open>The dependency graph after a write\<close>

text \<open>Replacing the edges out of \<open>x\<close> by edges into nodes that do not reach \<open>x\<close> keeps a
  graph acyclic.\<close>

lemma acyclic_replace:
  assumes "acyclic R" and no: "\<And>d. d \<in> D \<Longrightarrow> (d, x) \<notin> R\<^sup>*"
    and new: "R' = {(a, b) \<in> R. a \<noteq> x} \<union> {x} \<times> D"
  shows "acyclic R'"
proof -
  have old: "(a, x) \<in> R\<^sup>*" if "(a, x) \<in> R'\<^sup>*" for a
    using that by (induction rule: converse_rtrancl_induct)
      (auto simp: new intro: converse_rtrancl_into_rtrancl)
  have nox: "(x, x) \<notin> R'\<^sup>+"
  proof
    assume "(x, x) \<in> R'\<^sup>+"
    then obtain d where "(x, d) \<in> R'" "(d, x) \<in> R'\<^sup>*" by (meson tranclD)
    then show False using no old by (auto simp: new)
  qed
  have split: "(a, b) \<in> R\<^sup>+ \<or> (a, x) \<in> R'\<^sup>* \<and> (x, b) \<in> R'\<^sup>+" if "(a, b) \<in> R'\<^sup>+" for a b
    using that
  proof (induction rule: trancl_induct)
    case (base b)
    then show ?case by (cases "a = x") (auto simp: new)
  next
    case (step b c)
    show ?case
    proof (cases "b = x")
      case True
      then show ?thesis using step by (auto intro: trancl_into_rtrancl)
    next
      case False
      then have "(b, c) \<in> R" using step(2) by (auto simp: new)
      then show ?thesis using step by (auto intro: trancl_into_trancl)
    qed
  qed
  show ?thesis
  proof (rule acyclicI, intro allI notI)
    fix y assume "(y, y) \<in> R'\<^sup>+"
    with split [of y y] assms(1) have "(y, x) \<in> R'\<^sup>*" "(x, y) \<in> R'\<^sup>+"
      by (auto simp: acyclic_def)
    then have "(x, x) \<in> R'\<^sup>+" by (meson trancl_rtrancl_trancl)
    then show False using nox by simp
  qed
qed

lemma dep_edge_cong:
  "stIntegrations st' = stIntegrations st \<Longrightarrow> dep_edge st' = dep_edge st"
  by (simp add: dep_edge_def dependencies_of_def integration_def)

lemma dep_edge_replace:
  assumes "\<And>j. j \<noteq> x \<Longrightarrow> integration st' j = integration st j"
    and "integration st' x = Some v"
  shows "dep_edge st' = {(a, b) \<in> dep_edge st. a \<noteq> x} \<union> {x} \<times> set (iDependencies v)"
proof -
  have "dependencies_of st' a = (if a = x then iDependencies v else dependencies_of st a)" for a
    using assms by (simp add: dependencies_of_def)
  then show ?thesis by (auto simp: dep_edge_def split: if_splits)
qed

lemma acyclic_after_write:
  assumes "acyclic (dep_edge st)" and "validate_integration st v = Inr ()"
    and "\<And>j. j \<noteq> mID (iMeta v) \<Longrightarrow> integration st' j = integration st j"
    and "integration st' (mID (iMeta v)) = Some w" and "iDependencies w = iDependencies v"
  shows "acyclic (dep_edge st')"
proof (rule acyclic_replace [OF assms(1)])
  show "dep_edge st' = {(a, b) \<in> dep_edge st. a \<noteq> mID (iMeta v)} \<union> {mID (iMeta v)} \<times> set (iDependencies w)"
    using assms(3,4) by (rule dep_edge_replace)
  show "(d, mID (iMeta v)) \<notin> (dep_edge st)\<^sup>*" if "d \<in> set (iDependencies w)" for d
    using validate_integration_cycle_free [OF assms(2)] that assms(5) by simp
qed

section \<open>What the latest result and a passing gate are\<close>

lemma latest_from_append:
  "latest_from c r (vs @ ws) = latest_from c (latest_from c r vs) ws"
  by (induction vs arbitrary: r) auto

lemma latest_from_Some:
  "latest_from c r vs = Some w \<Longrightarrow>
     (r = Some w \<or> w \<in> set vs \<and> rCheckID w = c) \<and>
     (\<forall>v\<in>set vs. rCheckID v = c \<longrightarrow> mCreatedAt (rMeta v) \<le> mCreatedAt (rMeta w)) \<and>
     (\<forall>v. r = Some v \<longrightarrow> mCreatedAt (rMeta v) \<le> mCreatedAt (rMeta w))"
proof (induction vs arbitrary: r)
  case (Cons v vs)
  let ?r = "if rCheckID v = c \<and>
      (case r of None \<Rightarrow> True | Some w \<Rightarrow> \<not> mCreatedAt (rMeta v) < mCreatedAt (rMeta w)) then Some v else r"
  have "latest_from c ?r vs = Some w" using Cons.prems by simp
  note IH = Cons.IH [OF this]
  show ?case
  proof (cases r)
    case None
    then show ?thesis using IH by (auto split: if_splits)
  next
    case (Some u)
    then show ?thesis using IH by (auto split: if_splits)
  qed
qed auto

lemma latest_Some:
  assumes "latest st c = Some w"
  shows "w \<in> set (stResults st)" "rCheckID w = c"
    "\<And>v. v \<in> set (stResults st) \<Longrightarrow> rCheckID v = c \<Longrightarrow> mCreatedAt (rMeta v) \<le> mCreatedAt (rMeta w)"
  using latest_from_Some [of c None "stResults st" w] assms by (auto simp: latest_def)

lemma gate_checks_iff:
  "gate_checks st g n cs = Inr m \<longleftrightarrow>
     m = n + length (filter (\<lambda>c. chGateID c = mID (gMeta g)) cs) \<and>
     (\<forall>c\<in>set cs. chGateID c = mID (gMeta g) \<longrightarrow>
        (\<exists>r. latest st (mID (chMeta c)) = Some r \<and> rResult r = ''passed'' \<and>
           (gCommit g = [] \<or> rCommit r = gCommit g) \<and>
           (gDeployment g = [] \<or> rDeployment r = gDeployment g) \<and>
           (gEnvironmentID g = [] \<or> rEnvironmentID r = gEnvironmentID g)))"
  by (induction cs arbitrary: n) (auto split: option.splits)

lemma gate_checks_early: "gate_checks st g n cs = Inl s \<Longrightarrow> s \<noteq> ''passed''"
  by (induction cs arbitrary: n) (auto split: if_splits option.splits)

lemma gate_passes_iff:
  "gate_result st g = ''passed'' \<longleftrightarrow>
     external_gate_evidence_current st g \<and>
     (\<exists>c\<in>set (stChecks st). chGateID c = mID (gMeta g)) \<and>
     (\<forall>c\<in>set (stChecks st). chGateID c = mID (gMeta g) \<longrightarrow>
        (\<exists>r. latest st (mID (chMeta c)) = Some r \<and> rResult r = ''passed'' \<and>
           (gCommit g = [] \<or> rCommit r = gCommit g) \<and>
           (gDeployment g = [] \<or> rDeployment r = gDeployment g) \<and>
           (gEnvironmentID g = [] \<or> rEnvironmentID r = gEnvironmentID g))) \<and>
     \<not> (\<exists>f\<in>set (stFindings st). fdStatus f = ''open'' \<and> mID (gMeta g) \<in> set (fdGateIDs f))"
proof (cases "gate_checks st g 0 (stChecks st)")
  case (Inl s)
  then have "s \<noteq> ''passed''" by (rule gate_checks_early)
  moreover have "\<And>m. gate_checks st g 0 (stChecks st) \<noteq> Inr m" using Inl by simp
  then have "\<not> (\<forall>c\<in>set (stChecks st). chGateID c = mID (gMeta g) \<longrightarrow>
        (\<exists>r. latest st (mID (chMeta c)) = Some r \<and> rResult r = ''passed'' \<and>
           (gCommit g = [] \<or> rCommit r = gCommit g) \<and>
           (gDeployment g = [] \<or> rDeployment r = gDeployment g) \<and>
           (gEnvironmentID g = [] \<or> rEnvironmentID r = gEnvironmentID g)))"
    by (simp add: gate_checks_iff)
  ultimately show ?thesis using Inl by (simp add: gate_result_def)
next
  case (Inr n)
  then have n: "n = length (filter (\<lambda>c. chGateID c = mID (gMeta g)) (stChecks st))"
    and all: "\<forall>c\<in>set (stChecks st). chGateID c = mID (gMeta g) \<longrightarrow>
        (\<exists>r. latest st (mID (chMeta c)) = Some r \<and> rResult r = ''passed'' \<and>
           (gCommit g = [] \<or> rCommit r = gCommit g) \<and>
           (gDeployment g = [] \<or> rDeployment r = gDeployment g) \<and>
           (gEnvironmentID g = [] \<or> rEnvironmentID r = gEnvironmentID g))"
    by (simp_all add: gate_checks_iff)
  have "n = 0 \<longleftrightarrow> \<not> (\<exists>c\<in>set (stChecks st). chGateID c = mID (gMeta g))"
    unfolding n by (simp add: filter_empty_conv)
  moreover have "gate_result st g = ''passed'' \<longleftrightarrow> external_gate_evidence_current st g \<and> n \<noteq> 0 \<and>
      \<not> (\<exists>f\<in>set (stFindings st). fdStatus f = ''open'' \<and> mID (gMeta g) \<in> set (fdGateIDs f))"
    using Inr by (simp add: gate_result_def list_ex_iff)
  ultimately show ?thesis using all by blast
qed

lemma readiness_iff:
  "readiness st v = Inr () \<longleftrightarrow>
     (\<forall>d\<in>set (iDependencies v). \<exists>w. integration st d = Some w \<and> iStatus w \<in> {''ready'', ''released''}) \<and>
     (\<forall>m\<in>set (stMemories st). \<not> (memKind m = ''blocker'' \<and> memStatus m = ''open'' \<and>
         mFeatureID (memMeta m) = mFeatureID (iMeta v) \<and>
         (memIntegrationID m = [] \<or> memIntegrationID m = mID (iMeta v)))) \<and>
     (\<forall>f\<in>set (stFindings st). \<not> (fdStatus f = ''open'' \<and> mFeatureID (fdMeta f) = mFeatureID (iMeta v) \<and>
         (mID (iMeta v) \<in> set (fdIntegrationIDs f) \<or> fdIntegrationIDs f = [] \<and> fdBlocksRelease f))) \<and>
     (\<forall>g\<in>set (stGates st). mFeatureID (gMeta g) = mFeatureID (iMeta v) \<and> gBlocking g \<and>
         mID (iMeta v) \<in> set (gIntegrationIDs g) \<longrightarrow>
         gate_result st g = ''passed'' \<and> gate_commits_match st v g = Inr ())"
  unfolding readiness_def chain_simps each_ok
  by (intro conj_cong refl ball_cong) (auto split: option.splits)

lemma list_ex_latest:
  "list_ex (\<lambda>cm. case l of None \<Rightarrow> False | Some r \<Rightarrow> rCommit r = cmSHA cm) cms \<longleftrightarrow>
     (\<exists>cm r. cm \<in> set cms \<and> l = Some r \<and> rCommit r = cmSHA cm)"
  by (cases l) (auto simp: list_ex_iff)

lemma gate_commits_match_iff:
  "gate_commits_match st v g = Inr () \<longleftrightarrow>
     (iCommits v \<noteq> [] \<longrightarrow>
       (\<forall>c\<in>set (stChecks st). chGateID c = mID (gMeta g) \<longrightarrow>
          (\<exists>cm r. cm \<in> set (iCommits v) \<and> latest st (mID (chMeta c)) = Some r \<and> rCommit r = cmSHA cm)))"
  unfolding gate_commits_match_def
  by (cases "iCommits v = []") (simp_all add: each_ok list_ex_latest, force)

text \<open>A failed result recorded later than all others shadows them.\<close>

lemma latest_after_append:
  assumes "\<And>v. v \<in> set (stResults st) \<Longrightarrow> mCreatedAt (rMeta v) \<le> mCreatedAt (rMeta w)"
  shows "latest (st\<lparr>stResults := stResults st @ [w]\<rparr>) c = (if rCheckID w = c then Some w else latest st c)"
proof (cases "latest st c")
  case None
  then show ?thesis by (simp add: latest_def latest_from_append)
next
  case (Some r)
  then have "mCreatedAt (rMeta r) \<le> mCreatedAt (rMeta w)" using assms latest_Some(1) by blast
  then show ?thesis using Some by (simp add: latest_def latest_from_append)
qed

end
