(* ===== verification/Commands.thy ===== *)
theory Commands
  imports Readiness
begin

text \<open>
  \<open>applyAuthorizedOrigin\<close> of \<open>internal/application/service.go\<close>: the envelope guards of a
  command, the resolution of its scope, the entity-ID guard, one definition per action that the
  file implements itself, and the audit event. A step takes the state, the command and the
  metadata \<open>m\<close> and returns the output, the metadata of the entity and the new state, or an error.
  The clock readings and the random IDs of one call are the fields of \<open>Ctx\<close>. Actions that the
  file hands to other files are the argument \<open>delegated\<close> of the dispatcher, with the reservation
  lookup of \<open>dev_reservation.go\<close> they and the guards share (\<open>Parts\<close>).
\<close>

section \<open>The environment of one call\<close>

record Ctx =
  ctxID :: string
  ctxBindingID :: string
  ctxEventID :: string
  ctxMetaNow :: time
  ctxStepNow :: time
  ctxEventNow :: time

datatype outcome =
    OutProduct Product | OutFeature Feature | OutIntegration Integration | OutMemory Memory
  | OutGate Gate | OutCheck Check | OutCheckResult CheckResult | OutFinding Finding
  | OutEnvironment Environment | OutRepository Repository | OutRelease Release
  | OutOperation ExternalOperation | OutOther json

type_synonym step_result = "(outcome \<times> Meta \<times> State) result"

text \<open>\<open>delegated\<close> also says whether the state changed: an exact replay returns before the event.\<close>

record Parts =
  reservation_free :: "State \<Rightarrow> string \<Rightarrow> unit result"
  composition_environment :: "State \<Rightarrow> string \<Rightarrow> string option"
  replay_feature_update :: "State \<Rightarrow> Command \<Rightarrow> ExternalOperation option result"
  delegated :: "State \<Rightarrow> Command \<Rightarrow> Meta \<Rightarrow> (outcome \<times> Meta \<times> State \<times> bool) result"

definition meta :: "Ctx \<Rightarrow> Command \<Rightarrow> Meta" where
  "meta x c = \<lparr>mID = (if cID c = [] then ctxID x else cID c), mProductID = cProductID c,
     mFeatureID = cFeatureID c, mActor = cActor c, mCreatedAt = ctxMetaNow x, mUpdatedAt = ctxMetaNow x\<rparr>"

definition repository_roles :: "string list" where
  "repository_roles = [''APPLICATION'', ''LIBRARY'', ''MIXED'', ''GITOPS'']"

definition component_kinds :: "string list" where
  "component_kinds = [''APPLICATION'', ''LIBRARY'']"

definition component_kind :: "Application \<Rightarrow> string" where
  "component_kind v = appKind v"

definition repository_allows :: "string \<Rightarrow> string \<Rightarrow> bool" where
  "repository_allows role kind =
     (if role = ''MIXED'' then kind \<in> set component_kinds
      else (role = ''APPLICATION'' \<and> kind = ''APPLICATION'') \<or> (role = ''LIBRARY'' \<and> kind = ''LIBRARY''))"

section \<open>Guards\<close>

definition actions :: "string list" where
  "actions =
     [''queue_intelligence_task'', ''cancel_intelligence_task'',
      ''request_candidate_dev_restoration'', ''confirm_candidate_dev_restoration'',
      ''verify_candidate_dev_restoration'', ''release_candidate_dev_after_restoration'',
      ''capture_candidate_dev_baseline'', ''verify_candidate_dev_runtime'',
      ''reserve_candidate_dev'', ''release_candidate_dev'', ''refresh_registry_inventory'',
      ''pin_artifact'', ''release_artifact_pin'', ''cancel_native_delivery'',
      ''queue_worker_publication'', ''reconcile_worker_publication'', ''queue_worker_job'',
      ''cancel_worker_job'', ''reconcile_worker_job'', ''refresh_environment_runtime'',
      ''create_integration_branch'', ''protect_integration_revision'',
      ''claim_composition_conflict'', ''record_conflict_resolution'', ''verify_conflict_resolution'',
      ''configure_artifact_retention'', ''delete_product'', ''classify_repository'',
      ''configure_publication'', ''record_package_artifact'', ''update_environment_feature'',
      ''assemble_environment'', ''reconcile_composition'', ''prepare_release_candidate'',
      ''promote_release_candidate'', ''create_hotfix'', ''record_runtime_observation'',
      ''create_test_scenario'', ''revise_test_scenario'', ''record_scenario_run'',
      ''create_external_system'', ''update_external_system'', ''create_system_relationship'',
      ''set_external_scope'', ''grant_connection'', ''create_github_connection'',
      ''import_repository'', ''configure_component'', ''configure_environment'',
      ''refresh_integration_git'', ''refresh_repository_git'', ''deploy_integration'',
      ''deploy_existing_artifact'', ''create_application'', ''record_integration_revision'',
      ''plan_composition'', ''select_composition'', ''create_product'', ''create_feature'',
      ''update_feature'', ''create_integration'', ''update_integration'', ''start_integration'',
      ''transition_integration'', ''complete_integration'', ''record_progress'', ''record_decision'',
      ''record_discovery'', ''add_blocker'', ''resolve_blocker'', ''handoff'', ''create_gate'',
      ''add_check'', ''record_check_result'', ''record_finding'', ''resolve_finding'',
      ''create_environment'', ''update_environment'', ''create_repository'', ''plan_release'',
      ''record_release'']"

definition server_keys :: "string list" where
  "server_keys =
     [''id'', ''product_id'', ''feature_id'', ''integration_id'', ''gate_id'', ''check_id'', ''result_id'',
      ''actor'', ''created_at'', ''updated_at'', ''resolution'', ''fix_commit'', ''desired_composition_id'',
      ''desired_operation_id'', ''selection_generation'', ''reservation_epoch'', ''dev_reservation'',
      ''reservation_quarantined'', ''reservation_mutation_intent'']"

definition envelope_guard :: "Command \<Rightarrow> unit result" where
  "envelope_guard c = chain
    [reject (trim_space (cActor c) = []) (invalid ''actor required'' []),
     reject (cAction c \<notin> set actions) (invalid ''unknown action'' []),
     each (\<lambda>k. reject (has_key (cData c) k) (invalid ''field %s cannot be supplied in data'' [k])) server_keys,
     each (\<lambda>kv. reject (fst kv \<noteq> to_lower (fst kv)) (invalid ''data field %s must use snake_case'' [fst kv]))
       (cData c),
     reject (has_key (cData c) ''status'' \<and>
         cAction c \<notin> {''create_feature'', ''update_feature'', ''transition_integration''})
       (invalid ''status is server-managed for %s'' [cAction c]),
     reject (has_key (cData c) ''result'' \<and> cAction c \<notin> {''record_check_result'', ''record_scenario_run''})
       (invalid ''result is server-managed for %s'' [cAction c])]"

definition operation_by_id :: "State \<Rightarrow> string \<Rightarrow> ExternalOperation option" where
  "operation_by_id st i = find (\<lambda>o'. mID (opMeta o') = i) (stOperations st)"

definition application_by_id :: "State \<Rightarrow> string \<Rightarrow> Application option" where
  "application_by_id st i = find (\<lambda>a. mID (appMeta a) = i) (stApplications st)"

definition environment_by_id :: "State \<Rightarrow> string \<Rightarrow> Environment option" where
  "environment_by_id st i = find (\<lambda>e. mID (eMeta e) = i) (stEnvironments st)"

definition reservation_command_allowed :: "Parts \<Rightarrow> State \<Rightarrow> Command \<Rightarrow> unit result" where
  "reservation_command_allowed p st c =
     (if cAction c = ''delete_product'' then
        each (\<lambda>e. if mProductID (eMeta e) = cProductID c then reservation_free p st (mID (eMeta e)) else Inr ())
          (stEnvironments st)
      else if cAction c \<in> {''select_composition'', ''reconcile_composition'', ''promote_release_candidate''} then
        reservation_free p st
          (case composition_environment p st (cID c) of
             Some e \<Rightarrow> e
           | None \<Rightarrow> (case operation_by_id st (cID c) of
                 Some o' \<Rightarrow> opEnvironmentID o'
               | None \<Rightarrow> data_string (cData c) ''environment_id''))
      else if cAction c = ''update_environment'' then reservation_free p st (cID c)
      else if cAction c \<in> {''configure_environment'', ''assemble_environment'', ''prepare_release_candidate'',
                           ''create_hotfix''} then
        reservation_free p st (data_string (cData c) ''environment_id'')
      else Inr ())"

definition resolve_scope :: "State \<Rightarrow> Command \<Rightarrow> Command result" where
  "resolve_scope st c =
     (case
        (if cIntegrationID c = [] then Inr c
         else case integration st (cIntegrationID c) of
           None \<Rightarrow> Inl (missing ''integration'' (cIntegrationID c))
         | Some v \<Rightarrow>
             (if cFeatureID c \<noteq> [] \<and> cFeatureID c \<noteq> mFeatureID (iMeta v)
              then Inl (invalid ''integration feature mismatch'' [])
              else Inr (c\<lparr>cFeatureID := mFeatureID (iMeta v)\<rparr>))) of
        Inl e \<Rightarrow> Inl e
      | Inr c \<Rightarrow>
          (if cFeatureID c = [] then Inr c
           else case feature st (cFeatureID c) of
             None \<Rightarrow> Inl (missing ''feature'' (cFeatureID c))
           | Some f \<Rightarrow>
               (if cProductID c \<noteq> [] \<and> cProductID c \<noteq> mProductID (fMeta f)
                then Inl (invalid ''feature product mismatch'' [])
                else Inr (c\<lparr>cProductID := mProductID (fMeta f)\<rparr>))))"

text \<open>The IDs of all entries of all tables, which the code collects through JSON.\<close>

definition state_ids :: "State \<Rightarrow> string list" where
  "state_ids st =
     map (mID \<circ> apnMeta) (stArtifactPins st) @ map (mID \<circ> daMeta) (stDeliveryArtifacts st) @
     map (mID \<circ> dbrMeta) (stDeliveryBuildRuns st) @ map (mID \<circ> cmpMeta) (stCompositions st) @
     map (mID \<circ> robMeta) (stRuntimeObservations st) @ map (mID \<circ> rsnMeta) (stRuntimeSnapshots st) @
     map (mID \<circ> riMeta) (stRegistryInventories st) @ map (mID \<circ> nqMeta) (stNativeQuarantines st) @
     map (mID \<circ> jMeta) (stWorkerJobs st) @ map (mID \<circ> aMeta) (stWorkerAttempts st) @
     map (mID \<circ> esMeta) (stExternalScopes st) @ map (mID \<circ> regMeta) (stRegisteredRepositories st) @
     map (mID \<circ> cgMeta) (stConnectionGrants st) @ map (mID \<circ> ghcMeta) (stGitHubConnections st) @
     map (mID \<circ> rbMeta) (stRepositoryBindings st) @ map (mID \<circ> cbMeta) (stComponentBuilds st) @
     map (mID \<circ> ostMeta) (stOperationSteps st) @
     map (mID \<circ> ebMeta) (stEnvironmentBindings st) @ map (mID \<circ> opMeta) (stOperations st) @
     map (mID \<circ> appMeta) (stApplications st) @ map (mID \<circ> revMeta) (stIntegrationRevisions st) @
     map (mID \<circ> pMeta) (stProducts st) @ map (mID \<circ> fMeta) (stFeatures st) @
     map (mID \<circ> iMeta) (stIntegrations st) @ map (mID \<circ> gMeta) (stGates st) @
     map (mID \<circ> chMeta) (stChecks st) @ map (mID \<circ> rMeta) (stResults st) @
     map (mID \<circ> fdMeta) (stFindings st) @ map (mID \<circ> memMeta) (stMemories st) @
     map (mID \<circ> eMeta) (stEnvironments st) @ map (mID \<circ> repoMeta) (stRepositories st) @
     map (mID \<circ> relMeta) (stReleases st) @ map evID (stEvents st) @ stOtherIDs st"

definition worker_request_key :: "string \<Rightarrow> bool" where
  "worker_request_key s = name_like ''_.:-'' 15 127 s"

definition same_delivery_retry :: "State \<Rightarrow> Command \<Rightarrow> bool" where
  "same_delivery_retry st c \<longleftrightarrow>
     cID c \<noteq> [] \<and> cAction c \<in> {''deploy_integration'', ''deploy_existing_artifact''} \<and>
     (let key = data_string (cData c) ''request_key'' in
      worker_request_key key \<and>
      list_ex (\<lambda>o'. mID (opMeta o') = cID c \<and> opKind o' = ''DEPLOY'' \<and>
          mProductID (opMeta o') = cProductID c \<and> opIntegrationID o' = cIntegrationID c \<and>
          opRequestKey o' = key) (stOperations st))"

definition id_guard :: "State \<Rightarrow> Command \<Rightarrow> unit result" where
  "id_guard st c = reject
     (cID c \<noteq> [] \<and> \<not> same_delivery_retry st c \<and>
      cAction c \<notin> {''release_artifact_pin'', ''update_feature'', ''update_integration'', ''start_integration'',
        ''complete_integration'', ''transition_integration'', ''resolve_blocker'', ''resolve_finding'',
        ''update_environment'', ''select_composition'', ''update_external_system'', ''reconcile_composition'',
        ''promote_release_candidate'', ''record_runtime_observation'', ''classify_repository''} \<and>
      cID c \<in> set (state_ids st))
     (invalid ''id already exists'' [])"

section \<open>Products and features\<close>

definition create_product :: "Command \<Rightarrow> Meta \<Rightarrow> State \<Rightarrow> step_result" where
  "create_product c m st =
     (case decode fields_Product (cData c) zero_Product of
        Inl e \<Rightarrow> Inl e
      | Inr v \<Rightarrow>
          (let v = v\<lparr>pMeta := m\<rparr> in
           if trim_space (pName v) = [] then Inl (invalid ''name required'' [])
           else Inr (OutProduct v, m, st\<lparr>stProducts := stProducts st @ [v]\<rparr>)))"

definition write_feature :: "Feature \<Rightarrow> State \<Rightarrow> State" where
  "write_feature v st =
     st\<lparr>stFeatures := update_first (\<lambda>r. mID (fMeta r) = mID (fMeta v)) (\<lambda>_. v) (stFeatures st)\<rparr>"

definition write_integration :: "Integration \<Rightarrow> State \<Rightarrow> State" where
  "write_integration v st =
     st\<lparr>stIntegrations := update_first (\<lambda>r. mID (iMeta r) = mID (iMeta v)) (\<lambda>_. v) (stIntegrations st)\<rparr>"

text \<open>\<open>if parent.Status == "completed" { parent.Status = "active"; parent.UpdatedAt = t }\<close>\<close>

definition reopen_parent :: "string \<Rightarrow> time \<Rightarrow> State \<Rightarrow> State" where
  "reopen_parent i t st =
     (case feature st i of
        None \<Rightarrow> st
      | Some f \<Rightarrow>
          (if fStatus f = ''completed''
           then write_feature (f\<lparr>fStatus := ''active'', fMeta := (fMeta f)\<lparr>mUpdatedAt := t\<rparr>\<rparr>) st
           else st))"

definition completion_allowed :: "State \<Rightarrow> Feature \<Rightarrow> unit result" where
  "completion_allowed st v =
     (if fStatus v = ''completed'' then chain
        [each (\<lambda>w. if mFeatureID (iMeta w) = mID (fMeta v) then chain
             [reject (iStatus w \<noteq> ''ready'' \<and> iStatus w \<noteq> ''released'')
                (invalid ''feature completion requires all integrations ready or released'' []),
              (if iStatus w = ''ready'' then readiness st w else Inr ())]
           else Inr ()) (stIntegrations st),
         reject (\<not> list_ex (\<lambda>w. mFeatureID (iMeta w) = mID (fMeta v)) (stIntegrations st))
           (invalid ''feature completion requires integrations'' [])]
      else Inr ())"

definition feature_fields_ok :: "State \<Rightarrow> Feature \<Rightarrow> unit result" where
  "feature_fields_ok st v = chain
     [reject (trim_space (fTitle v) = [] \<or> trim_space (fGoal v) = []) (invalid ''title and goal required'' []),
      repositories st (fRepositories v) (mProductID (fMeta v))]"

definition create_feature :: "Command \<Rightarrow> Meta \<Rightarrow> State \<Rightarrow> step_result" where
  "create_feature c m st =
     (if \<not> product_exists st (cProductID c) then Inl (missing ''product'' (cProductID c))
      else case decode fields_Feature (cData c) (zero_Feature\<lparr>fStatus := ''active''\<rparr>) of
        Inl e \<Rightarrow> Inl e
      | Inr v \<Rightarrow>
          (let v = v\<lparr>fMeta := m\<lparr>mFeatureID := []\<rparr>\<rparr> in
           case chain
             [reject (\<not> valid_status ''feature'' (fStatus v)) (invalid ''invalid feature status %q'' [fStatus v]),
              reject (fStatus v \<noteq> ''planned'' \<and> fStatus v \<noteq> ''active'')
                (invalid ''new feature must be planned or active'' []),
              completion_allowed st v,
              feature_fields_ok st v] of
             Inl e \<Rightarrow> Inl e
           | Inr _ \<Rightarrow> Inr (OutFeature v, m, st\<lparr>stFeatures := stFeatures st @ [v]\<rparr>)))"

definition update_feature :: "Ctx \<Rightarrow> Command \<Rightarrow> State \<Rightarrow> step_result" where
  "update_feature x c st =
     (case feature st (cFeatureID c) of
        None \<Rightarrow> Inl (missing ''feature'' (cFeatureID c))
      | Some old \<Rightarrow>
          (let m = (fMeta old)\<lparr>mActor := cActor c, mUpdatedAt := ctxStepNow x\<rparr> in
           case decode fields_Feature (cData c) old of
             Inl e \<Rightarrow> Inl e
           | Inr v \<Rightarrow>
               (let v = v\<lparr>fMeta := m\<lparr>mFeatureID := []\<rparr>\<rparr> in
                case chain
                  [reject (\<not> valid_status ''feature'' (fStatus v))
                     (invalid ''invalid feature status %q'' [fStatus v]),
                   reject (\<not> can_transition ''feature'' (fStatus old) (fStatus v))
                     (invalid ''feature transition %s -> %s is not allowed'' [fStatus old, fStatus v]),
                   completion_allowed st v,
                   feature_fields_ok st v] of
                  Inl e \<Rightarrow> Inl e
                | Inr _ \<Rightarrow>
                    (let st' = write_feature v st in
                     case each (\<lambda>w. if mFeatureID (iMeta w) = mID (fMeta v)
                         then validate_integration st' w else Inr ()) (stIntegrations st') of
                       Inl e \<Rightarrow> Inl e
                     | Inr _ \<Rightarrow> Inr (OutFeature v, m, st')))))"

section \<open>Integrations\<close>

definition create_integration :: "Command \<Rightarrow> Meta \<Rightarrow> State \<Rightarrow> step_result" where
  "create_integration c m st =
     (case feature st (cFeatureID c) of
        None \<Rightarrow> Inl (missing ''feature'' (cFeatureID c))
      | Some _ \<Rightarrow>
        (case decode fields_Integration (cData c) (zero_Integration\<lparr>iStatus := ''planned''\<rparr>) of
           Inl e \<Rightarrow> Inl e
         | Inr v \<Rightarrow>
             (let v = v\<lparr>iMeta := m\<rparr> in
              case chain [reject (iStatus v \<noteq> ''planned'') (invalid ''new integrations must be planned'' []),
                          validate_integration st v] of
                Inl e \<Rightarrow> Inl e
              | Inr _ \<Rightarrow>
                  Inr (OutIntegration v, m,
                    reopen_parent (mFeatureID (iMeta v)) (mUpdatedAt m)
                      (st\<lparr>stIntegrations := stIntegrations st @ [v]\<rparr>)))))"

definition update_integration :: "Ctx \<Rightarrow> Command \<Rightarrow> State \<Rightarrow> step_result" where
  "update_integration x c st =
     (case integration st (cIntegrationID c) of
        None \<Rightarrow> Inl (missing ''integration'' (cIntegrationID c))
      | Some old \<Rightarrow>
        (if iStatus old = ''released'' then Inl (invalid ''released integration is immutable'' [])
         else
           let m = (iMeta old)\<lparr>mActor := cActor c, mUpdatedAt := ctxStepNow x\<rparr> in
           if has_key (cData c) ''status'' then Inl (invalid ''use transition_integration for status'' [])
           else case decode fields_Integration (cData c) old of
             Inl e \<Rightarrow> Inl e
           | Inr v \<Rightarrow>
               (let v = v\<lparr>iMeta := m\<rparr> in
                case validate_integration st v of
                  Inl e \<Rightarrow> Inl e
                | Inr _ \<Rightarrow>
                    (if iStatus v = ''ready'' then
                       let v = v\<lparr>iStatus := ''working''\<rparr> in
                       Inr (OutIntegration v, m,
                         write_integration v (reopen_parent (mFeatureID (iMeta v)) (mUpdatedAt m) st))
                     else Inr (OutIntegration v, m, write_integration v st)))))"

text \<open>\<open>start_integration\<close>, \<open>complete_integration\<close> and \<open>transition_integration\<close>.\<close>

definition requested_status :: "Command \<Rightarrow> string" where
  "requested_status c =
     (if cAction c = ''complete_integration'' then ''ready''
      else if cAction c = ''start_integration'' then ''working''
      else data_string (cData c) ''status'')"

definition transition_integration :: "Ctx \<Rightarrow> Command \<Rightarrow> Meta \<Rightarrow> State \<Rightarrow> step_result" where
  "transition_integration x c m st =
     (case integration st (cIntegrationID c) of
        None \<Rightarrow> Inl (missing ''integration'' (cIntegrationID c))
      | Some v \<Rightarrow>
          (let status = requested_status c in
           case chain
             [reject (iStatus v = ''released'') (invalid ''released integration is immutable'' []),
              reject (\<not> can_transition ''integration'' (iStatus v) status \<or> status = ''released'')
                (invalid ''integration transition %s -> %s is not allowed'' [iStatus v, status]),
              (if status = ''ready'' then readiness st v else Inr ())] of
             Inl e \<Rightarrow> Inl e
           | Inr _ \<Rightarrow>
               (let v' = v\<lparr>iStatus := status,
                    iOwner := (if status = ''working'' then cActor c else iOwner v),
                    iMeta := (iMeta v)\<lparr>mActor := cActor c, mUpdatedAt := mUpdatedAt m\<rparr>\<rparr>;
                  st' = (if status \<noteq> ''ready'' then reopen_parent (mFeatureID (iMeta v)) (ctxStepNow x) st else st)
                in Inr (OutIntegration v', iMeta v', write_integration v' st'))))"

end
