(* ===== verification/Evidence.thy ===== *)
theory Evidence
  imports Commands
begin

text \<open>
  The actions of \<open>internal/application/service.go\<close> that write memories, gates, checks, check
  results and findings. Each is a step: from the command, the metadata of the call and the state
  to the output, the metadata of the audit event and the new state.
\<close>

section \<open>Memories\<close>

definition memory_kind :: "string \<Rightarrow> string" where
  "memory_kind a =
     (if a = ''record_progress'' then ''progress'' else if a = ''record_decision'' then ''decision''
      else if a = ''record_discovery'' then ''discovery'' else if a = ''add_blocker'' then ''blocker''
      else if a = ''handoff'' then ''handoff'' else [])"

definition memory_actions :: "string set" where
  "memory_actions = {''record_progress'', ''record_decision'', ''record_discovery'', ''add_blocker'', ''handoff''}"

text \<open>\<open>record_progress\<close> also copies the lists it was given to the integration.\<close>

definition progress :: "Command \<Rightarrow> Meta \<Rightarrow> Memory \<Rightarrow> State \<Rightarrow> State result" where
  "progress c m v st =
     (if cAction c = ''record_progress'' \<and> cIntegrationID c \<noteq> [] then
        case integration st (cIntegrationID c) of
          None \<Rightarrow> Inl (GoPanic ''nil integration'')
        | Some w \<Rightarrow>
            (if iStatus w = ''released'' then Inl (invalid ''released integration is immutable'' [])
             else Inr (write_integration
               (w\<lparr>iCompleted := (if has_key (cData c) ''completed'' then memCompleted v else iCompleted w),
                  iRemaining := (if has_key (cData c) ''remaining'' then memRemaining v else iRemaining w),
                  iMeta := (iMeta w)\<lparr>mUpdatedAt := mUpdatedAt m\<rparr>\<rparr>) st))
      else Inr st)"

definition record_memory :: "Command \<Rightarrow> Meta \<Rightarrow> State \<Rightarrow> step_result" where
  "record_memory c m st =
     (if feature st (cFeatureID c) = None then Inl (missing ''feature'' (cFeatureID c))
      else case decode fields_Memory (cData c) zero_Memory of
        Inl e \<Rightarrow> Inl e
      | Inr v \<Rightarrow>
          (let kind = memory_kind (cAction c);
               v = v\<lparr>memMeta := m, memIntegrationID := cIntegrationID c, memKind := kind,
                 memStatus := (if kind = ''blocker'' then ''open'' else []), memResolution := []\<rparr>
           in if memTitle v = [] \<and> memBody v = [] \<and> memCurrent v = [] \<and> memCompleted v = [] \<and> memNext v = []
           then Inl (invalid ''memory content required'' [])
           else if kind = ''decision'' \<and> memReason v = [] then Inl (invalid ''decision reason required'' [])
           else case progress c m v st of
             Inl e \<Rightarrow> Inl e
           | Inr st \<Rightarrow> Inr (OutMemory v, m, st\<lparr>stMemories := stMemories st @ [v]\<rparr>)))"

definition resolve_blocker :: "Command \<Rightarrow> Meta \<Rightarrow> State \<Rightarrow> step_result" where
  "resolve_blocker c m st =
     (let body = data_string (cData c) ''body'';
          hit = (\<lambda>v. mID (memMeta v) = cID c \<and> memKind v = ''blocker'');
          solve = (\<lambda>v. v\<lparr>memStatus := ''resolved'', memResolution := body,
                         memMeta := (memMeta v)\<lparr>mUpdatedAt := mUpdatedAt m\<rparr>\<rparr>)
      in case each (\<lambda>v. if hit v then chain
             [reject (memStatus v \<noteq> ''open'') (invalid ''blocker already resolved'' []),
              reject (body = []) (invalid ''resolution body required'' [])] else Inr ()) (stMemories st) of
           Inl e \<Rightarrow> Inl e
         | Inr _ \<Rightarrow>
             (case find_last hit (stMemories st) of
                None \<Rightarrow> Inl (missing ''blocker'' (cID c))
              | Some v \<Rightarrow>
                  Inr (OutMemory (solve v), memMeta (solve v),
                    st\<lparr>stMemories := map (\<lambda>v. if hit v then solve v else v) (stMemories st)\<rparr>)))"

section \<open>Gates, checks and results\<close>

definition create_gate :: "Command \<Rightarrow> Meta \<Rightarrow> State \<Rightarrow> step_result" where
  "create_gate c m st =
     (if feature st (cFeatureID c) = None then Inl (missing ''feature'' (cFeatureID c))
      else case decode fields_Gate (cData c) (zero_Gate\<lparr>gBlocking := True\<rparr>) of
        Inl e \<Rightarrow> Inl e
      | Inr v \<Rightarrow>
          (let v = v\<lparr>gMeta := m, gResult := ''pending''\<rparr> in
           case chain
             [reject (gTitle v = [] \<or> gReason v = [] \<or> gIntegrationIDs v = [])
                (invalid ''title, reason and integration_ids required'' []),
              refs st (gIntegrationIDs v) (mFeatureID (gMeta v)),
              env st (gEnvironmentID v) (mProductID (gMeta v))] of
             Inl e \<Rightarrow> Inl e
           | Inr _ \<Rightarrow> Inr (OutGate v, m, st\<lparr>stGates := stGates st @ [v]\<rparr>)))"

definition add_check :: "Command \<Rightarrow> Meta \<Rightarrow> State \<Rightarrow> step_result" where
  "add_check c m st =
     (case gate st (cGateID c) of
        None \<Rightarrow> Inl (missing ''gate'' (cGateID c))
      | Some g \<Rightarrow>
        (case decode fields_Check (cData c) zero_Check of
           Inl e \<Rightarrow> Inl e
         | Inr v \<Rightarrow>
             (let m = m\<lparr>mProductID := mProductID (gMeta g), mFeatureID := mFeatureID (gMeta g)\<rparr>;
                  v = v\<lparr>chMeta := m, chGateID := mID (gMeta g)\<rparr>
              in if chTitle v = [] \<or> chMechanism v = []
              then Inl (invalid ''title and mechanism required'' [])
              else Inr (OutCheck v, m, st\<lparr>stChecks := stChecks st @ [v]\<rparr>))))"

definition record_check_result :: "Command \<Rightarrow> Meta \<Rightarrow> State \<Rightarrow> step_result" where
  "record_check_result c m st =
     (case check st (cCheckID c) of
        None \<Rightarrow> Inl (missing ''check'' (cCheckID c))
      | Some ch \<Rightarrow>
        (case decode fields_CheckResult (cData c) zero_CheckResult of
           Inl e \<Rightarrow> Inl e
         | Inr v \<Rightarrow>
             (let m = m\<lparr>mProductID := mProductID (chMeta ch), mFeatureID := mFeatureID (chMeta ch)\<rparr>;
                  v = v\<lparr>rMeta := m, rCheckID := mID (chMeta ch)\<rparr>
              in case chain
                [reject (rCommit v = [] \<and> rDeployment v = [])
                   (invalid ''tested commit or deployment required'' []),
                 reject (\<not> valid_status ''check_result'' (rResult v)) (invalid ''invalid check result'' []),
                 env st (rEnvironmentID v) (mProductID (rMeta v))] of
                Inl e \<Rightarrow> Inl e
              | Inr _ \<Rightarrow> Inr (OutCheckResult v, m, st\<lparr>stResults := stResults st @ [v]\<rparr>))))"

section \<open>Findings\<close>

text \<open>Without gates in the data the finding gets the gate of the check that failed.\<close>

definition finding_gates :: "State \<Rightarrow> CheckResult \<Rightarrow> Finding \<Rightarrow> string list result" where
  "finding_gates st r v =
     (if fdGateIDs v \<noteq> [] then Inr (fdGateIDs v)
      else case check st (rCheckID r) of
        None \<Rightarrow> Inl (GoPanic ''nil check'')
      | Some ch \<Rightarrow> Inr [chGateID ch])"

definition record_finding :: "Command \<Rightarrow> Meta \<Rightarrow> State \<Rightarrow> step_result" where
  "record_finding c m st =
     (case check_result st (cResultID c) of
        None \<Rightarrow> Inl (missing ''result'' (cResultID c))
      | Some r \<Rightarrow>
        (if rResult r \<noteq> ''failed'' \<and> rResult r \<noteq> ''blocked''
         then Inl (invalid ''findings require failed or blocked result'' [])
         else case decode fields_Finding (cData c) (zero_Finding\<lparr>fdBlocksRelease := True\<rparr>) of
           Inl e \<Rightarrow> Inl e
         | Inr v \<Rightarrow>
             (let m = m\<lparr>mProductID := mProductID (rMeta r), mFeatureID := mFeatureID (rMeta r)\<rparr>;
                  v = v\<lparr>fdMeta := m, fdResultID := mID (rMeta r), fdReviewSource := None,
                        fdStatus := ''open'', fdResolution := [], fdFixCommit := []\<rparr>
              in case chain
                [reject (fdTitle v = [] \<or> fdSeverity v = []) (invalid ''title and severity required'' []),
                 refs st (fdIntegrationIDs v) (mFeatureID (fdMeta v))] of
                Inl e \<Rightarrow> Inl e
              | Inr _ \<Rightarrow>
                (case finding_gates st r v of
                   Inl e \<Rightarrow> Inl e
                 | Inr gs \<Rightarrow>
                   (let v = v\<lparr>fdGateIDs := gs\<rparr> in
                    case each (\<lambda>i. reject
                        (case gate st i of None \<Rightarrow> True | Some g \<Rightarrow> mFeatureID (gMeta g) \<noteq> mFeatureID (fdMeta v))
                        (invalid ''finding gate outside feature'' [])) (fdGateIDs v) of
                      Inl e \<Rightarrow> Inl e
                    | Inr _ \<Rightarrow> Inr (OutFinding v, m, st\<lparr>stFindings := stFindings st @ [v]\<rparr>))))))"

definition resolve_finding :: "Command \<Rightarrow> Meta \<Rightarrow> State \<Rightarrow> step_result" where
  "resolve_finding c m st =
     (let body = data_string (cData c) ''body'';
          hit = (\<lambda>v. mID (fdMeta v) = cID c);
          solve = (\<lambda>v. v\<lparr>fdStatus := ''resolved'', fdResolution := body,
                         fdFixCommit := data_string (cData c) ''commit'',
                         fdMeta := (fdMeta v)\<lparr>mUpdatedAt := mUpdatedAt m\<rparr>\<rparr>)
      in case each (\<lambda>v. if hit v then chain
             [reject (fdStatus v \<noteq> ''open'') (invalid ''finding already resolved'' []),
              reject (body = []) (invalid ''resolution body required'' [])] else Inr ()) (stFindings st) of
           Inl e \<Rightarrow> Inl e
         | Inr _ \<Rightarrow>
             (case find_last hit (stFindings st) of
                None \<Rightarrow> Inl (missing ''finding'' (cID c))
              | Some v \<Rightarrow>
                  Inr (OutFinding (solve v), fdMeta (solve v),
                    st\<lparr>stFindings := map (\<lambda>v. if hit v then solve v else v) (stFindings st)\<rparr>)))"

end
