(* ===== verification/Releases.thy ===== *)
theory Releases
  imports Commands
begin

text \<open>
  The actions of \<open>internal/application/service.go\<close> that write environments, repositories and
  release records, with the selection guard of \<open>flow_guard.go\<close> and \<open>feature_patch.go\<close> and
  \<open>repositoryBinding\<close> of \<open>external.go\<close>.
\<close>

section \<open>Environments\<close>

definition terminal_operation :: "string \<Rightarrow> bool" where
  "terminal_operation s \<longleftrightarrow> s \<in> {''GITOPS_APPLIED'', ''SUCCEEDED'', ''FAILED'', ''BLOCKED'', ''CANCELLED''}"

definition selection_allowed :: "Parts \<Rightarrow> time \<Rightarrow> State \<Rightarrow> string \<Rightarrow> unit result" where
  "selection_allowed p now st i = chain
     [reservation_free p st i,
      each (\<lambda>o'. reject (opEnvironmentID o' = i \<and> opPhase o' = ''APPLY_UNCERTAIN'' \<and> now < opLeaseUntil o' \<and>
             \<not> terminal_operation (opStatus o'))
           (invalid ''GitOps write in flight; retry composition selection after operation step completes'' []))
        (stOperations st)]"

text \<open>The counter is a \<open>uint64\<close>; the guard keeps it from wrapping round.\<close>

definition advance_selection :: "Environment \<Rightarrow> Environment result" where
  "advance_selection e =
     (if eSelectionGeneration e = - 1
      then Inl (invalid ''environment selection generation exhausted'' [])
      else Inr (e\<lparr>eSelectionGeneration := eSelectionGeneration e + 1\<rparr>))"

definition trim_environment :: "Environment \<Rightarrow> Environment" where
  "trim_environment v =
     v\<lparr>eName := trim_space (eName v), eCluster := trim_space (eCluster v), eNamespace := trim_space (eNamespace v)\<rparr>"

definition environment_named :: "State \<Rightarrow> Environment \<Rightarrow> unit result" where
  "environment_named st v = chain
     [reject (eName v = []) (invalid ''name required'' []),
      each (\<lambda>x. reject (mID (eMeta x) \<noteq> mID (eMeta v) \<and> mProductID (eMeta x) = mProductID (eMeta v) \<and>
             equal_fold (trim_space (eName x)) (eName v))
           (invalid ''environment name already exists in product'' [])) (stEnvironments st)]"

definition create_environment :: "Command \<Rightarrow> Meta \<Rightarrow> State \<Rightarrow> step_result" where
  "create_environment c m st =
     (if \<not> product_exists st (cProductID c) then Inl (missing ''product'' (cProductID c))
      else case decode fields_Environment (cData c) zero_Environment of
        Inl e \<Rightarrow> Inl e
      | Inr v \<Rightarrow>
          (let v = trim_environment (v\<lparr>eMeta := m\<rparr>) in
           case environment_named st v of
             Inl e \<Rightarrow> Inl e
           | Inr _ \<Rightarrow> Inr (OutEnvironment v, m, st\<lparr>stEnvironments := stEnvironments st @ [v]\<rparr>)))"

text \<open>A change of the cluster or the namespace withdraws the selection and advances its counter.\<close>

definition reselect :: "Parts \<Rightarrow> time \<Rightarrow> State \<Rightarrow> Environment \<Rightarrow> Environment \<Rightarrow> Environment result" where
  "reselect p now st old v =
     (if eCluster old \<noteq> eCluster v \<or> eNamespace old \<noteq> eNamespace v then
        (case selection_allowed p now st (mID (eMeta old)) of
           Inl e \<Rightarrow> Inl e
         | Inr _ \<Rightarrow>
             (case advance_selection v of
                Inl e \<Rightarrow> Inl e
              | Inr v \<Rightarrow> Inr (v\<lparr>eDesiredCompositionID := [], eDesiredOperationID := []\<rparr>)))
      else Inr v)"

definition update_environment :: "Parts \<Rightarrow> Ctx \<Rightarrow> Command \<Rightarrow> State \<Rightarrow> step_result" where
  "update_environment p x c st =
     (case find_last (\<lambda>e. mID (eMeta e) = cID c) (stEnvironments st) of
        None \<Rightarrow> Inl (missing ''environment'' (cID c))
      | Some old \<Rightarrow>
          (let m = (eMeta old)\<lparr>mActor := cActor c, mUpdatedAt := ctxStepNow x\<rparr> in
           case decode fields_Environment (cData c) old of
             Inl e \<Rightarrow> Inl e
           | Inr v \<Rightarrow>
               (let v = trim_environment (v\<lparr>eMeta := m\<rparr>) in
                case environment_named st v of
                  Inl e \<Rightarrow> Inl e
                | Inr _ \<Rightarrow>
                    (case reselect p (ctxStepNow x) st old v of
                       Inl e \<Rightarrow> Inl e
                     | Inr v \<Rightarrow> Inr (OutEnvironment v, m,
                         st\<lparr>stEnvironments :=
                              update_last (\<lambda>e. mID (eMeta e) = cID c) (\<lambda>_. v) (stEnvironments st)\<rparr>)))))"

section \<open>Repositories\<close>

definition create_repository :: "Command \<Rightarrow> Meta \<Rightarrow> State \<Rightarrow> step_result" where
  "create_repository c m st =
     (if \<not> product_exists st (cProductID c) then Inl (missing ''product'' (cProductID c))
      else case decode fields_Repository (cData c) (zero_Repository\<lparr>repoRole := ''APPLICATION''\<rparr>) of
        Inl e \<Rightarrow> Inl e
      | Inr v \<Rightarrow>
          (let v = v\<lparr>repoMeta := m\<rparr> in
           case chain
             [reject (repoRole v \<notin> set repository_roles) (invalid ''invalid repository role'' []),
              reject (repoName v = [] \<or> repoURL v = []) (invalid ''name and url required'' [])] of
             Inl e \<Rightarrow> Inl e
           | Inr _ \<Rightarrow> Inr (OutRepository v, m, st\<lparr>stRepositories := stRepositories st @ [v]\<rparr>)))"

definition repository_binding :: "State \<Rightarrow> string \<Rightarrow> RepositoryBinding option" where
  "repository_binding st i = find_last (\<lambda>b. rbRepositoryID b = i) (stRepositoryBindings st)"

text \<open>The input struct of \<open>classify_repository\<close>.\<close>

record RoleInput =
  inRole :: string

definition fields_RoleInput :: "RoleInput field list" where
  "fields_RoleInput = [field ''role'' inRole inRole_update dec_string]"

definition role_allowed :: "State \<Rightarrow> string \<Rightarrow> Repository \<Rightarrow> unit result" where
  "role_allowed st role repo = chain
     [each (\<lambda>a. reject (appRepositoryID a = mID (repoMeta repo) \<and> \<not> repository_allows role (component_kind a))
          (invalid ''role conflicts with existing component %s'' [mID (appMeta a)])) (stApplications st),
      each (\<lambda>b. reject (ebRepositoryID b = mID (repoMeta repo) \<and> role \<noteq> ''GITOPS'')
          (invalid ''repository has GitOps deployment mappings'' [])) (stEnvironmentBindings st)]"

definition classify_repository :: "Ctx \<Rightarrow> Command \<Rightarrow> Meta \<Rightarrow> State \<Rightarrow> step_result" where
  "classify_repository x c m st =
     (case decode fields_RoleInput (cData c) \<lparr>inRole = []\<rparr> of
        Inl e \<Rightarrow> Inl e
      | Inr input \<Rightarrow>
        (if inRole input \<notin> set repository_roles then Inl (invalid ''invalid repository role'' [])
         else case find_last (\<lambda>r. mID (repoMeta r) = cID c) (stRepositories st) of
           None \<Rightarrow> Inl (missing ''repository'' (cID c))
         | Some repo \<Rightarrow>
           (case chain
              [reject (cProductID c \<noteq> [] \<and> mProductID (repoMeta repo) \<noteq> cProductID c)
                 (invalid ''repository outside product'' []),
               role_allowed st (inRole input) repo] of
              Inl e \<Rightarrow> Inl e
            | Inr _ \<Rightarrow>
              (let repo' = repo\<lparr>repoRole := inRole input,
                     repoMeta := (repoMeta repo)\<lparr>mActor := cActor c, mUpdatedAt := mUpdatedAt m\<rparr>\<rparr>;
                   m' = m\<lparr>mProductID := mProductID (repoMeta repo)\<rparr>;
                   st' = st\<lparr>stRepositories :=
                       update_last (\<lambda>r. mID (repoMeta r) = cID c) (\<lambda>_. repo') (stRepositories st)\<rparr>
               in Inr (OutRepository repo', m',
                    case repository_binding st' (mID (repoMeta repo')) of
                      None \<Rightarrow> st'
                    | Some old \<Rightarrow>
                        st'\<lparr>stRepositoryBindings := stRepositoryBindings st' @
                           [old\<lparr>rbMeta := m'\<lparr>mID := ctxBindingID x\<rparr>, rbRole := inRole input\<rparr>]\<rparr>)))))"

section \<open>Releases\<close>

definition unreleased_excluded :: "State \<Rightarrow> string list \<Rightarrow> string \<Rightarrow> unit result" where
  "unreleased_excluded st ids dep =
     (case integration st dep of
        None \<Rightarrow> Inl (GoPanic ''nil integration'')
      | Some d \<Rightarrow> reject (iStatus d \<noteq> ''released'' \<and> dep \<notin> set ids)
          (invalid ''release excludes unreleased dependency %s'' [dep]))"

fun plan_snapshots :: "State \<Rightarrow> string \<Rightarrow> string list \<Rightarrow> string list \<Rightarrow> Integration list result" where
  "plan_snapshots st p ids [] = Inr []"
| "plan_snapshots st p ids (i # is) =
     (case integration st i of
        None \<Rightarrow> Inl (invalid ''integration outside product'' [])
      | Some w \<Rightarrow>
        (case chain
           [reject (mProductID (iMeta w) \<noteq> p) (invalid ''integration outside product'' []),
            reject (iStatus w \<noteq> ''ready'' \<and> iStatus w \<noteq> ''released'')
              (invalid ''release integration must be ready'' []),
            readiness st w,
            each (unreleased_excluded st ids) (iDependencies w)] of
           Inl e \<Rightarrow> Inl e
         | Inr _ \<Rightarrow>
             (case plan_snapshots st p ids is of Inl e \<Rightarrow> Inl e | Inr ws \<Rightarrow> Inr (w # ws))))"

definition excluded_ok :: "State \<Rightarrow> string \<Rightarrow> string list \<Rightarrow> string \<Rightarrow> unit result" where
  "excluded_ok st p ids i = reject
     ((case integration st i of None \<Rightarrow> True | Some w \<Rightarrow> mProductID (iMeta w) \<noteq> p) \<or> i \<in> set ids)
     (invalid ''invalid excluded integration'' [])"

definition plan_release :: "Command \<Rightarrow> Meta \<Rightarrow> State \<Rightarrow> step_result" where
  "plan_release c m st =
     (if \<not> product_exists st (cProductID c) then Inl (missing ''product'' (cProductID c))
      else case decode fields_Release (cData c) zero_Release of
        Inl e \<Rightarrow> Inl e
      | Inr v \<Rightarrow>
          (let v = v\<lparr>relMeta := m, relStatus := ''planned'', relSnapshots := []\<rparr>;
               p = mProductID (relMeta v); ids = relIntegrationIDs v
           in if relName v = [] \<or> ids = []
           then Inl (invalid ''name and integration_ids required'' [])
           else case plan_snapshots st p ids ids of
             Inl e \<Rightarrow> Inl e
           | Inr ws \<Rightarrow>
               (let v = v\<lparr>relSnapshots := ws\<rparr> in
                case each (excluded_ok st p ids) (relExcludedIntegrationIDs v) of
                  Inl e \<Rightarrow> Inl e
                | Inr _ \<Rightarrow> Inr (OutRelease v, m, st\<lparr>stReleases := stReleases st @ [v]\<rparr>))))"

fun record_snapshots :: "State \<Rightarrow> string \<Rightarrow> string list \<Rightarrow> string list \<Rightarrow> Integration list result" where
  "record_snapshots st p seen [] = Inr []"
| "record_snapshots st p seen (i # is) =
     (if i \<in> set seen then Inl (invalid ''duplicate release integration'' [])
      else case integration st i of
        None \<Rightarrow> Inl (invalid ''release integration outside product'' [])
      | Some w \<Rightarrow>
          (if mProductID (iMeta w) \<noteq> p then Inl (invalid ''release integration outside product'' [])
           else case record_snapshots st p (i # seen) is of Inl e \<Rightarrow> Inl e | Inr ws \<Rightarrow> Inr (w # ws)))"

definition release_environment :: "State \<Rightarrow> string \<Rightarrow> string \<Rightarrow> unit result" where
  "release_environment st i p =
     (case environment_by_id st i of
        None \<Rightarrow> Inl (missing ''environment'' i)
      | Some e \<Rightarrow> reject (mProductID (eMeta e) \<noteq> p) (invalid ''release environment outside product'' []))"

definition record_release :: "Command \<Rightarrow> Meta \<Rightarrow> State \<Rightarrow> step_result" where
  "record_release c m st =
     (if \<not> product_exists st (cProductID c) then Inl (missing ''product'' (cProductID c))
      else case decode fields_Release (cData c)
          (zero_Release\<lparr>relStatus := ''released'', relRecordedExternally := True\<rparr>) of
        Inl e \<Rightarrow> Inl e
      | Inr v \<Rightarrow>
        (case chain
           [reject (relName v = [] \<or> relIntegrationIDs v = [] \<or> relEnvironmentID v = [])
              (invalid ''name, environment_id and integration_ids required'' []),
            release_environment st (relEnvironmentID v) (cProductID c)] of
           Inl e \<Rightarrow> Inl e
         | Inr _ \<Rightarrow>
           (let v = v\<lparr>relMeta := m\<lparr>mProductID := cProductID c\<rparr>, relStatus := ''released'',
                      relRecordedExternally := True, relSnapshots := []\<rparr> in
            case record_snapshots st (cProductID c) [] (relIntegrationIDs v) of
              Inl e \<Rightarrow> Inl e
            | Inr ws \<Rightarrow>
                (let v = v\<lparr>relSnapshots := ws\<rparr> in
                 case each (excluded_ok st (cProductID c) (relIntegrationIDs v))
                     (relExcludedIntegrationIDs v) of
                   Inl e \<Rightarrow> Inl e
                 | Inr _ \<Rightarrow> Inr (OutRelease v, m, st\<lparr>stReleases := stReleases st @ [v]\<rparr>)))))"

end
