(* ===== verification/Dispatch.thy ===== *)
theory Dispatch
  imports Evidence Releases
begin

text \<open>
  The dispatcher \<open>applyAuthorizedOrigin\<close> of \<open>internal/application/service.go\<close>: guards, the
  handler of the action, the reservation epoch of new operations, the audit event and the
  derived gate results.
\<close>

section \<open>The dispatcher\<close>

definition core_actions :: "string set" where
  "core_actions =
     {''classify_repository'', ''create_product'', ''create_feature'', ''update_feature'', ''create_integration'',
      ''update_integration'', ''start_integration'', ''complete_integration'', ''transition_integration'',
      ''resolve_blocker'', ''create_gate'', ''add_check'', ''record_check_result'', ''record_finding'',
      ''resolve_finding'', ''create_environment'', ''update_environment'', ''create_repository'', ''plan_release'',
      ''record_release''} \<union> memory_actions"

definition core_step :: "Parts \<Rightarrow> Ctx \<Rightarrow> Command \<Rightarrow> Meta \<Rightarrow> State \<Rightarrow> step_result" where
  "core_step p x c m st =
     (let a = cAction c in
      if a = ''classify_repository'' then classify_repository x c m st
      else if a = ''create_product'' then create_product c m st
      else if a = ''create_feature'' then create_feature c m st
      else if a = ''update_feature'' then update_feature x c st
      else if a = ''create_integration'' then create_integration c m st
      else if a = ''update_integration'' then update_integration x c st
      else if a \<in> {''start_integration'', ''complete_integration'', ''transition_integration''}
        then transition_integration x c m st
      else if a \<in> memory_actions then record_memory c m st
      else if a = ''resolve_blocker'' then resolve_blocker c m st
      else if a = ''create_gate'' then create_gate c m st
      else if a = ''add_check'' then add_check c m st
      else if a = ''record_check_result'' then record_check_result c m st
      else if a = ''record_finding'' then record_finding c m st
      else if a = ''resolve_finding'' then resolve_finding c m st
      else if a = ''create_environment'' then create_environment c m st
      else if a = ''update_environment'' then update_environment p x c st
      else if a = ''create_repository'' then create_repository c m st
      else if a = ''plan_release'' then plan_release c m st
      else record_release c m st)"

text \<open>The flag is \<open>changed\<close>: an exact replay of a pin returns before the audit event.\<close>

definition step :: "Parts \<Rightarrow> Ctx \<Rightarrow> Command \<Rightarrow> Meta \<Rightarrow> State \<Rightarrow> (outcome \<times> Meta \<times> State \<times> bool) result" where
  "step p x c m st =
     (if cAction c \<in> core_actions then
        (case core_step p x c m st of Inl e \<Rightarrow> Inl e | Inr (out, m, st) \<Rightarrow> Inr (out, m, st, True))
      else delegated p st c m)"

text \<open>Operations appended by the step get the reservation epoch of their environment.\<close>

definition stamp_epoch :: "State \<Rightarrow> ExternalOperation \<Rightarrow> ExternalOperation" where
  "stamp_epoch st o' =
     (case environment_by_id st (opEnvironmentID o') of
        None \<Rightarrow> o'
      | Some e \<Rightarrow> o'\<lparr>opReservationEpoch := eReservationEpoch e\<rparr>)"

definition stamp_new :: "nat \<Rightarrow> State \<Rightarrow> State" where
  "stamp_new n st = st\<lparr>stOperations := take n (stOperations st) @ map (stamp_epoch st) (drop n (stOperations st))\<rparr>"

definition stamp_output :: "nat \<Rightarrow> State \<Rightarrow> outcome \<Rightarrow> outcome" where
  "stamp_output n st out =
     (case out of
        OutOperation r \<Rightarrow>
          (case find_last (\<lambda>o'. mID (opMeta o') = mID (opMeta r)) (drop n (stOperations (stamp_new n st))) of
             None \<Rightarrow> out
           | Some o' \<Rightarrow> OutOperation o')
      | _ \<Rightarrow> out)"

definition audit :: "Ctx \<Rightarrow> Command \<Rightarrow> Meta \<Rightarrow> Event" where
  "audit x c m =
     \<lparr>evID = ctxEventID x, evAction = cAction c, evActor = cActor c,
      evAt = (if cAction c = ''release_artifact_pin'' then mUpdatedAt m else ctxEventNow x),
      evEntityID = mID m, evProductID = mProductID m,
      evFeatureID = (if cAction c = ''create_feature'' \<or> cAction c = ''update_feature'' then mID m else mFeatureID m),
      evData = c\<rparr>"

definition finish :: "Ctx \<Rightarrow> nat \<Rightarrow> Command \<Rightarrow> outcome \<times> Meta \<times> State \<times> bool \<Rightarrow> outcome \<times> State" where
  "finish x n c r =
     (case r of (out, m, st, changed) \<Rightarrow>
        (if \<not> changed then (out, st)
         else (stamp_output n st out,
               let st' = stamp_new n st in derive (st'\<lparr>stEvents := stEvents st' @ [audit x c m]\<rparr>))))"

definition admit :: "Parts \<Rightarrow> Command \<Rightarrow> State \<Rightarrow> Command result" where
  "admit p c st =
     (case chain [envelope_guard c, reservation_command_allowed p st c] of
        Inl e \<Rightarrow> Inl e
      | Inr _ \<Rightarrow> resolve_scope st c)"

definition apply_command :: "Parts \<Rightarrow> Ctx \<times> Command \<Rightarrow> State \<Rightarrow> (outcome \<times> State) result" where
  "apply_command p xc st =
     (case xc of (x, c) \<Rightarrow>
      case admit p c st of
        Inl e \<Rightarrow> Inl e
      | Inr c \<Rightarrow>
        (case (if cAction c = ''update_environment_feature'' then replay_feature_update p st c else Inr None) of
           Inl e \<Rightarrow> Inl e
         | Inr (Some o') \<Rightarrow> Inr (OutOperation o', st)
         | Inr None \<Rightarrow>
             (case id_guard st c of
                Inl e \<Rightarrow> Inl e
              | Inr _ \<Rightarrow>
                  (case step p x c (meta x c) st of
                     Inl e \<Rightarrow> Inl e
                   | Inr r \<Rightarrow> Inr (finish x (length (stOperations st)) c r)))))"

section \<open>Inversion of the dispatcher\<close>

lemma resolve_scope_keeps:
  "resolve_scope st c = Inr c' \<Longrightarrow>
     cAction c' = cAction c \<and> cActor c' = cActor c \<and> cID c' = cID c \<and> cData c' = cData c \<and>
     cIntegrationID c' = cIntegrationID c"
  by (auto simp: resolve_scope_def split: if_splits option.splits)

lemma apply_core:
  assumes "apply_command p (x, c) st = Inr (out, st')" and "cAction c \<in> core_actions"
  obtains c' out' m' st1 where
    "envelope_guard c = Inr ()" "reservation_command_allowed p st c = Inr ()" "resolve_scope st c = Inr c'"
    "id_guard st c' = Inr ()" "core_step p x c' (meta x c') st = Inr (out', m', st1)"
    "st' = snd (finish x (length (stOperations st)) c' (out', m', st1, True))"
proof -
  have ne: "cAction c \<noteq> ''update_environment_feature''"
    using assms(2) by (auto simp: core_actions_def memory_actions_def)
  from assms(1) obtain c' where c': "admit p c st = Inr c'"
    by (auto simp: apply_command_def split: sum.splits)
  then have guards: "envelope_guard c = Inr ()" "reservation_command_allowed p st c = Inr ()"
      "resolve_scope st c = Inr c'"
    by (auto simp: admit_def chain_simps split: sum.splits)
  then have a: "cAction c' = cAction c" using resolve_scope_keeps by blast
  from assms(1) c' a ne obtain r where r: "id_guard st c' = Inr ()" "step p x c' (meta x c') st = Inr r"
      "(out, st') = finish x (length (stOperations st)) c' r"
    by (auto simp: apply_command_def split: sum.splits)
  from r(2) assms(2) a obtain out' m' st1 where s:
      "core_step p x c' (meta x c') st = Inr (out', m', st1)" "r = (out', m', st1, True)"
    by (auto simp: step_def split: sum.splits)
  show ?thesis using that [OF guards r(1) s(1)] r(3) s(2) by (metis snd_conv)
qed

lemma finish_tables [simp]:
  "stFeatures (snd (finish x n c (out, m, st, True))) = stFeatures st"
  "stIntegrations (snd (finish x n c (out, m, st, True))) = stIntegrations st"
  "stEnvironments (snd (finish x n c (out, m, st, True))) = stEnvironments st"
  "stChecks (snd (finish x n c (out, m, st, True))) = stChecks st"
  "stResults (snd (finish x n c (out, m, st, True))) = stResults st"
  "stFindings (snd (finish x n c (out, m, st, True))) = stFindings st"
  "stReleases (snd (finish x n c (out, m, st, True))) = stReleases st"
  "stEvents (snd (finish x n c (out, m, st, True))) = stEvents st @ [audit x c m]"
  by (simp_all add: finish_def stamp_new_def derive_def Let_def)

end
