(* ===== verification/Workflow.thy ===== *)
theory Workflow
  imports Dispatch
begin

text \<open>
  The contract of the commands on features and integrations: an abstract step relation
  \<open>effect\<close> that says which rows a command may add or replace, the proof that every command of
  \<open>service.go\<close> refines it, and the invariants that follow by cases of the relation.
\<close>

section \<open>The abstract steps\<close>

text \<open>
  \<open>plain\<close> says that the keys of the data are ASCII, so that the guards compare the names that
  decoding uses.
\<close>

definition plain_keys :: "Command \<Rightarrow> bool" where
  "plain_keys c \<longleftrightarrow> list_all ascii (map fst (cData c))"

definition reopened :: "string \<Rightarrow> time \<Rightarrow> State \<Rightarrow> Feature list" where
  "reopened i t st = stFeatures (reopen_parent i t st)"

definition same_place :: "Integration \<Rightarrow> Integration \<Rightarrow> bool" where
  "same_place v w \<longleftrightarrow> mID (iMeta v) = mID (iMeta w) \<and> mFeatureID (iMeta v) = mFeatureID (iMeta w)"

inductive effect :: "bool \<Rightarrow> State \<Rightarrow> State \<Rightarrow> bool" for plain :: bool and st :: State where
  other: "stFeatures st' = stFeatures st \<Longrightarrow> stIntegrations st' = stIntegrations st \<Longrightarrow> effect plain st st'"
| new_feature: "fStatus v = ''planned'' \<or> fStatus v = ''active'' \<Longrightarrow>
    mID (fMeta v) \<notin> set (map (mID \<circ> fMeta) (stFeatures st)) \<Longrightarrow>
    stFeatures st' = stFeatures st @ [v] \<Longrightarrow> stIntegrations st' = stIntegrations st \<Longrightarrow> effect plain st st'"
| edit_feature: "feature st (mID (fMeta v)) = Some old \<Longrightarrow>
    can_transition ''feature'' (fStatus old) (fStatus v) \<Longrightarrow> completion_allowed st v = Inr () \<Longrightarrow>
    stFeatures st' = stFeatures (write_feature v st) \<Longrightarrow> stIntegrations st' = stIntegrations st \<Longrightarrow>
    effect plain st st'"
| new_integration: "iStatus v = ''planned'' \<Longrightarrow> validate_integration st v = Inr () \<Longrightarrow>
    mID (iMeta v) \<notin> set (map (mID \<circ> iMeta) (stIntegrations st)) \<Longrightarrow>
    stIntegrations st' = stIntegrations st @ [v] \<Longrightarrow>
    stFeatures st' = reopened (mFeatureID (iMeta v)) t st \<Longrightarrow> effect plain st st'"
| edit_integration: "integration st (mID (iMeta v)) = Some old \<Longrightarrow> iStatus old \<noteq> ''released'' \<Longrightarrow>
    same_place v old \<Longrightarrow> validate_integration st v = Inr () \<Longrightarrow> plain \<longrightarrow> iStatus v = iStatus old \<Longrightarrow>
    stIntegrations st' = stIntegrations (write_integration
      (if iStatus v = ''ready'' then v\<lparr>iStatus := ''working''\<rparr> else v) st) \<Longrightarrow>
    stFeatures st' = (if iStatus v = ''ready'' then reopened (mFeatureID (iMeta v)) t st else stFeatures st) \<Longrightarrow>
    effect plain st st'"
| move: "integration st (mID (iMeta v)) = Some old \<Longrightarrow> iStatus old \<noteq> ''released'' \<Longrightarrow> same_place v old \<Longrightarrow>
    iDependencies v = iDependencies old \<Longrightarrow> can_transition ''integration'' (iStatus old) (iStatus v) \<Longrightarrow>
    iStatus v \<noteq> ''released'' \<Longrightarrow> iStatus v = ''ready'' \<longrightarrow> readiness st old = Inr () \<Longrightarrow>
    stIntegrations st' = stIntegrations (write_integration v st) \<Longrightarrow>
    stFeatures st' = (if iStatus v \<noteq> ''ready'' then reopened (mFeatureID (iMeta v)) t st else stFeatures st) \<Longrightarrow>
    effect plain st st'"
| progressed: "integration st (mID (iMeta v)) = Some old \<Longrightarrow> iStatus old \<noteq> ''released'' \<Longrightarrow> same_place v old \<Longrightarrow>
    iDependencies v = iDependencies old \<Longrightarrow> iStatus v = iStatus old \<Longrightarrow>
    stIntegrations st' = stIntegrations (write_integration v st) \<Longrightarrow> stFeatures st' = stFeatures st \<Longrightarrow>
    effect plain st st'"

lemma effect_tables:
  "effect plain st st' \<Longrightarrow> stFeatures st'' = stFeatures st' \<Longrightarrow> stIntegrations st'' = stIntegrations st' \<Longrightarrow>
   effect plain st st''"
  by (erule effect.cases) (blast intro: effect.intros dest: trans)+

section \<open>Every command is an abstract step\<close>

lemma feature_ID: "feature st i = Some f \<Longrightarrow> mID (fMeta f) = i"
  unfolding feature_def by (rule find_Some_prop)

lemma integration_ID: "integration st i = Some v \<Longrightarrow> mID (iMeta v) = i"
  unfolding integration_def by (rule find_Some_prop)

lemma write_tables [simp]:
  "stIntegrations (write_feature v st) = stIntegrations st"
  "stFeatures (write_integration w st) = stFeatures st"
  "stIntegrations (reopen_parent i t st) = stIntegrations st"
  "stEvents (write_feature v st) = stEvents st"
  "stEvents (write_integration w st) = stEvents st"
  "stEvents (reopen_parent i t st) = stEvents st"
  by (auto simp: write_feature_def write_integration_def reopen_parent_def split: option.splits)

lemma write_integration_cong:
  "stIntegrations s = stIntegrations t \<Longrightarrow>
   stIntegrations (write_integration v s) = stIntegrations (write_integration v t)"
  by (simp add: write_integration_def)

lemma reopen_cong:
  "stFeatures s = stFeatures t \<Longrightarrow> stFeatures (reopen_parent i u s) = stFeatures (reopen_parent i u t)"
  by (simp add: reopen_parent_def feature_def write_feature_def split: option.splits)

text \<open>No field of an integration other than \<open>status\<close> writes the status.\<close>

lemma status_fields:
  "(n, d) \<in> set fields_Integration \<Longrightarrow> n \<noteq> ''status'' \<Longrightarrow> keeps_part iStatus d"
  by (auto simp: fields_Integration_def lift_fields_def keeps_part_def field_def split: option.splits)

lemma integration_names: "(n, d) \<in> set fields_Integration \<Longrightarrow> fold_name n = n"
proof -
  have "list_all (\<lambda>n. fold_name n = n) (map fst fields_Integration)"
    by code_simp
  then show "(n, d) \<in> set fields_Integration \<Longrightarrow> fold_name n = n"
    by (force simp: list_all_iff)
qed

lemma plain_keys_fold:
  assumes "plain_keys c" "envelope_guard c = Inr ()" "k \<in> fst ` set (cData c)"
  shows "fold_name k = k"
proof -
  have "ascii k" using assms(1,3) by (force simp: plain_keys_def list_all_iff)
  moreover have "to_lower k = k"
    using assms(2,3) by (force simp: envelope_guard_def chain_simps each_ok)
  ultimately show ?thesis by (rule fold_name_plain)
qed

lemma decode_status:
  assumes "plain_keys c" "envelope_guard c = Inr ()" "\<not> has_key (cData c) ''status''"
    and "decode fields_Integration (cData c) old = Inr v"
  shows "iStatus v = iStatus old"
proof (rule decode_keeps [OF _ assms(4)])
  fix n d
  assume n: "(n, d) \<in> set fields_Integration" "fold_name n \<in> fold_name ` fst ` set (cData c)"
  then obtain k where k: "k \<in> fst ` set (cData c)" "fold_name n = fold_name k" by blast
  then have "n = k" using plain_keys_fold [OF assms(1,2)] integration_names n(1) by metis
  then have "n \<noteq> ''status''" using k(1) assms(3) has_key_iff by metis
  then show "keeps_part iStatus d" using n(1) status_fields by blast
qed

lemma update_feature_effect:
  assumes "update_feature x c st = Inr (out, m', st')"
  shows "effect plain st st'"
proof -
  from assms obtain old u v where old: "feature st (cFeatureID c) = Some old"
      "v = u\<lparr>fMeta := (fMeta old)\<lparr>mActor := cActor c, mUpdatedAt := ctxStepNow x, mFeatureID := []\<rparr>\<rparr>"
      "can_transition ''feature'' (fStatus old) (fStatus u)" "completion_allowed st v = Inr ()"
      "st' = write_feature v st"
    by (auto simp: update_feature_def Let_def chain_simps split: option.splits sum.splits)
  have "mID (fMeta v) = cFeatureID c" using old(2) feature_ID [OF old(1)] by simp
  with old(1) have "feature st (mID (fMeta v)) = Some old" by simp
  then show ?thesis by (rule effect.edit_feature) (use old in simp_all)
qed

lemma create_feature_effect:
  assumes "create_feature c m st = Inr (out, m', st')"
    and "mID m \<notin> set (map (mID \<circ> fMeta) (stFeatures st))"
  shows "effect plain st st'"
proof -
  from assms(1) obtain u v where v: "v = u\<lparr>fMeta := m\<lparr>mFeatureID := []\<rparr>\<rparr>"
      "fStatus u = ''planned'' \<or> fStatus u = ''active''" "st' = st\<lparr>stFeatures := stFeatures st @ [v]\<rparr>"
    by (auto simp: create_feature_def Let_def chain_simps split: if_splits sum.splits)
  show ?thesis by (rule effect.new_feature [of v]) (use v assms(2) in simp_all)
qed

lemma create_integration_effect:
  assumes "create_integration c m st = Inr (out, m', st')"
    and "mID m \<notin> set (map (mID \<circ> iMeta) (stIntegrations st))"
  shows "effect plain st st'"
proof -
  from assms(1) obtain u v where v: "iStatus u = ''planned''" "validate_integration st v = Inr ()"
      "v = u\<lparr>iMeta := m\<rparr>"
      "st' = reopen_parent (mFeatureID (iMeta v)) (mUpdatedAt m) (st\<lparr>stIntegrations := stIntegrations st @ [v]\<rparr>)"
    by (auto simp: create_integration_def Let_def chain_simps split: option.splits sum.splits)
  show ?thesis
    by (rule effect.new_integration [OF _ v(2), where t = "mUpdatedAt m"])
      (use v(1,3,4) assms(2) in \<open>auto simp: reopened_def intro: reopen_cong\<close>)
qed

lemma update_integration_effect:
  assumes "update_integration x c st = Inr (out, m', st')" and "envelope_guard c' = Inr ()"
    and "cData c' = cData c" and "plain \<longrightarrow> plain_keys c'"
  shows "effect plain st st'"
proof -
  from assms(1) obtain old u v where old: "integration st (cIntegrationID c) = Some old" "iStatus old \<noteq> ''released''"
    and nokey: "\<not> has_key (cData c) ''status''" and u: "decode fields_Integration (cData c) old = Inr u"
    and v: "v = u\<lparr>iMeta := (iMeta old)\<lparr>mActor := cActor c, mUpdatedAt := ctxStepNow x\<rparr>\<rparr>"
      "validate_integration st v = Inr ()"
    and st': "st' = (if iStatus v = ''ready''
        then write_integration (v\<lparr>iStatus := ''working''\<rparr>)
          (reopen_parent (mFeatureID (iMeta v)) (mUpdatedAt (iMeta v)) st)
        else write_integration v st)"
    by (auto simp: update_integration_def Let_def split: if_splits option.splits sum.splits)
  have ID: "mID (iMeta v) = cIntegrationID c" using v(1) integration_ID [OF old(1)] by simp
  have pl: "plain \<longrightarrow> iStatus v = iStatus old"
    using decode_status [of c' old u] assms(2,3,4) nokey u v(1) by simp
  have sp: "same_place v old" using v(1) by (simp add: same_place_def)
  show ?thesis
  proof (rule effect.edit_integration [OF old(1) [folded ID] old(2) sp v(2) pl, where t = "mUpdatedAt (iMeta v)"])
    show "stIntegrations st' = stIntegrations (write_integration
        (if iStatus v = ''ready'' then v\<lparr>iStatus := ''working''\<rparr> else v) st)"
      by (simp add: st' write_integration_cong [of "reopen_parent i t st" st for i t])
    show "stFeatures st' =
        (if iStatus v = ''ready'' then reopened (mFeatureID (iMeta v)) (mUpdatedAt (iMeta v)) st else stFeatures st)"
      by (simp add: st' reopened_def)
  qed
qed

lemma transition_integration_effect:
  assumes "transition_integration x c m st = Inr (out, m', st')"
  shows "effect plain st st'"
proof -
  define s where "s = requested_status c"
  from assms obtain old v where old: "integration st (cIntegrationID c) = Some old" "iStatus old \<noteq> ''released''"
      "can_transition ''integration'' (iStatus old) s" "s \<noteq> ''released''"
      "s = ''ready'' \<longrightarrow> readiness st old = Inr ()"
    and v: "v = old\<lparr>iStatus := s, iOwner := (if s = ''working'' then cActor c else iOwner old),
        iMeta := (iMeta old)\<lparr>mActor := cActor c, mUpdatedAt := mUpdatedAt m\<rparr>\<rparr>"
    and st': "st' = write_integration v
        (if s \<noteq> ''ready'' then reopen_parent (mFeatureID (iMeta old)) (ctxStepNow x) st else st)"
    by (auto simp: transition_integration_def s_def [symmetric] Let_def chain_simps
        split: option.splits sum.splits if_splits)
  have ID: "mID (iMeta v) = cIntegrationID c" using v integration_ID [OF old(1)] by simp
  have sp: "same_place v old" "iDependencies v = iDependencies old" "iStatus v = s"
    using v by (simp_all add: same_place_def)
  show ?thesis
  proof (rule effect.move [OF old(1) [folded ID] old(2) sp(1,2), where t = "ctxStepNow x"])
    show "stIntegrations st' = stIntegrations (write_integration v st)"
      by (simp add: st' write_integration_cong [of "reopen_parent i t st" st for i t])
    show "stFeatures st' = (if iStatus v \<noteq> ''ready'' then reopened (mFeatureID (iMeta v)) (ctxStepNow x) st
        else stFeatures st)"
      using sp by (simp add: st' reopened_def same_place_def)
  qed (use old(3-5) sp(3) in simp_all)
qed

lemma record_memory_effect:
  assumes "record_memory c m st = Inr (out, m', st')"
  shows "effect plain st st'"
proof -
  from assms obtain v s where s: "progress c m v st = Inr s" "stFeatures st' = stFeatures s"
      "stIntegrations st' = stIntegrations s"
    by (auto simp: record_memory_def Let_def split: if_splits option.splits sum.splits)
  show ?thesis
  proof (cases "cAction c = ''record_progress'' \<and> cIntegrationID c \<noteq> []")
    case True
    with s(1) obtain w w' where w: "integration st (cIntegrationID c) = Some w" "iStatus w \<noteq> ''released''"
        "s = write_integration w' st" "same_place w' w" "iDependencies w' = iDependencies w" "iStatus w' = iStatus w"
      by (auto simp: progress_def same_place_def split: option.splits if_splits)
    then have "integration st (mID (iMeta w')) = Some w"
      using integration_ID [OF w(1)] by (simp add: same_place_def)
    then show ?thesis by (rule effect.progressed) (use w s(2,3) in auto)
  next
    case False
    then have "s = st" using s(1) by (auto simp: progress_def split: if_splits)
    then show ?thesis using s(2,3) by (simp add: effect.other)
  qed
qed

text \<open>The commands that touch neither features nor integrations.\<close>

lemmas quiet_steps = classify_repository_def create_product_def resolve_blocker_def create_gate_def add_check_def
  record_check_result_def record_finding_def resolve_finding_def create_environment_def update_environment_def
  create_repository_def plan_release_def record_release_def

lemma quiet_tables:
  "classify_repository x c m st = Inr (out, m', st') \<Longrightarrow> stFeatures st' = stFeatures st \<and> stIntegrations st' = stIntegrations st"
  "create_product c m st = Inr (out, m', st') \<Longrightarrow> stFeatures st' = stFeatures st \<and> stIntegrations st' = stIntegrations st"
  "resolve_blocker c m st = Inr (out, m', st') \<Longrightarrow> stFeatures st' = stFeatures st \<and> stIntegrations st' = stIntegrations st"
  "create_gate c m st = Inr (out, m', st') \<Longrightarrow> stFeatures st' = stFeatures st \<and> stIntegrations st' = stIntegrations st"
  "add_check c m st = Inr (out, m', st') \<Longrightarrow> stFeatures st' = stFeatures st \<and> stIntegrations st' = stIntegrations st"
  "record_check_result c m st = Inr (out, m', st') \<Longrightarrow> stFeatures st' = stFeatures st \<and> stIntegrations st' = stIntegrations st"
  "record_finding c m st = Inr (out, m', st') \<Longrightarrow> stFeatures st' = stFeatures st \<and> stIntegrations st' = stIntegrations st"
  "resolve_finding c m st = Inr (out, m', st') \<Longrightarrow> stFeatures st' = stFeatures st \<and> stIntegrations st' = stIntegrations st"
  "create_environment c m st = Inr (out, m', st') \<Longrightarrow> stFeatures st' = stFeatures st \<and> stIntegrations st' = stIntegrations st"
  "update_environment p x c st = Inr (out, m', st') \<Longrightarrow> stFeatures st' = stFeatures st \<and> stIntegrations st' = stIntegrations st"
  "create_repository c m st = Inr (out, m', st') \<Longrightarrow> stFeatures st' = stFeatures st \<and> stIntegrations st' = stIntegrations st"
  "plan_release c m st = Inr (out, m', st') \<Longrightarrow> stFeatures st' = stFeatures st \<and> stIntegrations st' = stIntegrations st"
  "record_release c m st = Inr (out, m', st') \<Longrightarrow> stFeatures st' = stFeatures st \<and> stIntegrations st' = stIntegrations st"
  by (auto simp: quiet_steps Let_def split: if_splits option.splits sum.splits)

lemma core_step_effect:
  assumes "core_step p x c m st = Inr (out, m', st')" and "envelope_guard c' = Inr ()" "cData c' = cData c"
    and "plain \<longrightarrow> plain_keys c'"
    and "cAction c \<in> {''create_feature'', ''create_integration''} \<Longrightarrow> mID m \<notin> set (state_ids st)"
  shows "effect plain st st'"
proof -
  have fresh: "mID m \<notin> set (map (mID \<circ> fMeta) (stFeatures st)) \<and>
      mID m \<notin> set (map (mID \<circ> iMeta) (stIntegrations st))"
    if "cAction c = ''create_feature'' \<or> cAction c = ''create_integration''"
    using assms(5) that by (auto simp: state_ids_def)
  from assms(1) show ?thesis
    unfolding core_step_def Let_def
    by (auto split: if_splits dest: quiet_tables intro: effect.other create_feature_effect [OF _ conjunct1 [OF fresh]]
        create_integration_effect [OF _ conjunct2 [OF fresh]] update_feature_effect update_integration_effect [OF _ assms(2,3,4)]
        transition_integration_effect record_memory_effect)
qed

section \<open>Rows after a step\<close>

lemma update_first_keeps:
  "w \<in> set xs \<Longrightarrow> find P xs = Some old \<Longrightarrow> w \<noteq> old \<Longrightarrow> w \<in> set (update_first P f xs)"
  by (induction xs) (auto split: if_splits)

lemma written_rows:
  assumes "w \<in> set (stIntegrations (write_integration v st))"
  shows "w = v \<or> w \<in> set (stIntegrations st)"
  using set_update_first [OF assms [unfolded write_integration_def, simplified]] by auto

lemma written_keeps:
  assumes "integration st (mID (iMeta v)) = Some old" and "w \<in> set (stIntegrations st)" and "w \<noteq> old"
  shows "w \<in> set (stIntegrations (write_integration v st))"
  using assms by (auto simp: write_integration_def integration_def intro: update_first_keeps)

lemma written_ids [simp]:
  "map (mID \<circ> iMeta) (stIntegrations (write_integration v st)) = map (mID \<circ> iMeta) (stIntegrations st)"
  by (simp add: write_integration_def map_update_first)

lemma written_lookup:
  assumes "integration st (mID (iMeta v)) = Some old"
  shows "integration (write_integration v st) j = (if j = mID (iMeta v) then Some v else integration st j)"
  using assms integration_table.lookup_after_write [of "mID (iMeta v)" st old "\<lambda>_. v"]
    integration_table.lookup_other_after_write [of "mID (iMeta v)" "\<lambda>_. v" j st]
  by (auto simp: write_integration_def integration_def)

lemma lookup_in: "integration st i = Some w \<Longrightarrow> w \<in> set (stIntegrations st)"
  unfolding integration_def by (rule find_Some_in)

lemma feature_in: "feature st i = Some f \<Longrightarrow> f \<in> set (stFeatures st)"
  unfolding feature_def by (rule find_Some_in)

lemma lookup_cong: "stIntegrations s = stIntegrations t \<Longrightarrow> integration s i = integration t i"
  by (simp add: integration_def)

definition reopened_row :: "time \<Rightarrow> Feature \<Rightarrow> Feature" where
  "reopened_row t f =
     (if fStatus f = ''completed'' then f\<lparr>fStatus := ''active'', fMeta := (fMeta f)\<lparr>mUpdatedAt := t\<rparr>\<rparr> else f)"

lemma update_first_id: "(\<And>x. find P xs = Some x \<Longrightarrow> f x = x) \<Longrightarrow> update_first P f xs = xs"
  by (induction xs) auto

lemma update_first_found: "find P xs = Some x \<Longrightarrow> update_first P f xs = update_first P (\<lambda>_. f x) xs"
  by (induction xs) (auto split: if_splits)

lemma reopened_rows: "reopened i t st = update_first (\<lambda>r. mID (fMeta r) = i) (reopened_row t) (stFeatures st)"
proof (cases "feature st i")
  case None
  then show ?thesis by (simp add: reopened_def reopen_parent_def feature_def update_first_none)
next
  case (Some f)
  then have f: "find (\<lambda>r. mID (fMeta r) = i) (stFeatures st) = Some f" "mID (fMeta f) = i"
    using feature_ID [OF Some] by (simp_all add: feature_def)
  show ?thesis
  proof (cases "fStatus f = ''completed''")
    case True
    then show ?thesis using Some f update_first_found [OF f(1), of "reopened_row t"]
      by (simp add: reopened_def reopen_parent_def write_feature_def reopened_row_def)
  next
    case False
    then have "reopened_row t f = f" by (simp add: reopened_row_def)
    then have "update_first (\<lambda>r. mID (fMeta r) = i) (reopened_row t) (stFeatures st) = stFeatures st"
      using f(1) by (intro update_first_id) simp
    then show ?thesis using Some False by (simp add: reopened_def reopen_parent_def)
  qed
qed

lemma reopened_ids [simp]: "map (mID \<circ> fMeta) (reopened i t st) = map (mID \<circ> fMeta) (stFeatures st)"
  by (simp add: reopened_rows map_update_first reopened_row_def)

text \<open>With distinct IDs no row of the reopened feature is completed, and no row becomes completed.\<close>

lemma distinct_rewritten:
  "distinct (map key xs) \<Longrightarrow> y \<in> set (update_first (\<lambda>r. key r = i) f xs) \<Longrightarrow>
   (\<exists>x\<in>set xs. key x = i \<and> y = f x) \<or> y \<in> set xs \<and> key y \<noteq> i"
proof (induction xs)
  case (Cons a xs)
  show ?case
  proof (cases "key a = i")
    case True
    then have "y = f a \<or> y \<in> set xs" using Cons.prems(2) by auto
    moreover have "key b \<noteq> i" if "b \<in> set xs" for b using Cons.prems(1) True that by (auto simp: image_iff)
    ultimately show ?thesis using True by auto
  next
    case False
    then have "y = a \<or> y \<in> set (update_first (\<lambda>r. key r = i) f xs)" using Cons.prems(2) by auto
    then show ?thesis using False Cons by auto
  qed
qed simp

lemma reopened_row_status [simp]: "fStatus (reopened_row t f) \<noteq> ''completed''"
  by (simp add: reopened_row_def)

lemma reopened_completed:
  assumes "distinct (map (mID \<circ> fMeta) (stFeatures st))" and "f \<in> set (reopened i t st)" "fStatus f = ''completed''"
  shows "f \<in> set (stFeatures st) \<and> mID (fMeta f) \<noteq> i"
proof -
  have "(\<exists>x\<in>set (stFeatures st). (mID \<circ> fMeta) x = i \<and> f = reopened_row t x) \<or>
      f \<in> set (stFeatures st) \<and> (mID \<circ> fMeta) f \<noteq> i"
    using distinct_rewritten [OF assms(1), where f = "reopened_row t" and y = f and i = i] assms(2)
    by (simp add: reopened_rows reopened_row_def)
  then show ?thesis using assms(3) by auto
qed

section \<open>Invariants\<close>

definition dependencies_known :: "State \<Rightarrow> bool" where
  "dependencies_known st \<longleftrightarrow> (\<forall>w\<in>set (stIntegrations st). \<forall>d\<in>set (iDependencies w).
     \<exists>v. integration st d = Some v \<and> mFeatureID (iMeta v) = mFeatureID (iMeta w))"

definition finished :: "Integration \<Rightarrow> bool" where
  "finished w \<longleftrightarrow> iStatus w = ''ready'' \<or> iStatus w = ''released''"

definition completed_ok :: "State \<Rightarrow> bool" where
  "completed_ok st \<longleftrightarrow> (\<forall>f\<in>set (stFeatures st). fStatus f = ''completed'' \<longrightarrow>
     (\<exists>w\<in>set (stIntegrations st). mFeatureID (iMeta w) = mID (fMeta f)) \<and>
     (\<forall>w\<in>set (stIntegrations st). mFeatureID (iMeta w) = mID (fMeta f) \<longrightarrow> finished w))"

definition distinct_ids :: "State \<Rightarrow> bool" where
  "distinct_ids st \<longleftrightarrow> distinct (map (mID \<circ> fMeta) (stFeatures st)) \<and> distinct (map (mID \<circ> iMeta) (stIntegrations st))"

definition workflow_inv :: "State \<Rightarrow> bool" where
  "workflow_inv st \<longleftrightarrow> distinct_ids st \<and> dependencies_known st \<and> acyclic (dep_edge st) \<and> completed_ok st"

lemma write_feature_ids [simp]:
  "map (mID \<circ> fMeta) (stFeatures (write_feature v st)) = map (mID \<circ> fMeta) (stFeatures st)"
  by (simp add: write_feature_def map_update_first)

lemma effect_distinct: "effect plain st st' \<Longrightarrow> distinct_ids st \<Longrightarrow> distinct_ids st'"
  by (erule effect.cases) (auto simp: distinct_ids_def simp del: map_map set_map)

lemma lookup_appended:
  "integration st j = Some w \<Longrightarrow> stIntegrations st' = stIntegrations st @ [v] \<Longrightarrow> integration st' j = Some w"
  by (simp add: integration_def find_append)

lemma lookup_new:
  assumes "mID (iMeta v) \<notin> set (map (mID \<circ> iMeta) (stIntegrations st))"
    and "stIntegrations st' = stIntegrations st @ [v]"
  shows "integration st' j = (if j = mID (iMeta v) then Some v else integration st j)"
proof -
  have "integration st (mID (iMeta v)) = None"
    using assms(1) by (auto simp: integration_def find_None_iff image_iff)
  then show ?thesis using assms(2) by (auto simp: integration_def find_append split: option.splits)
qed

text \<open>Integrations keep their place: a row is new, or it has the ID and the feature of an old row.\<close>

lemma known_after_write:
  assumes "dependencies_known st" and "integration st (mID (iMeta v)) = Some old" and "same_place v old"
    and "\<forall>d\<in>set (iDependencies v). \<exists>w. integration st d = Some w \<and> mFeatureID (iMeta w) = mFeatureID (iMeta v)"
    and "stIntegrations st' = stIntegrations (write_integration v st)"
  shows "dependencies_known st'"
proof -
  have look: "integration st' j = (if j = mID (iMeta v) then Some v else integration st j)" for j
    using written_lookup [OF assms(2)] lookup_cong [OF assms(5)] by simp
  have place: "mFeatureID (iMeta old) = mFeatureID (iMeta v)" using assms(3) by (simp add: same_place_def)
  show ?thesis
    unfolding dependencies_known_def
  proof (intro ballI)
    fix w d assume w: "w \<in> set (stIntegrations st')" "d \<in> set (iDependencies w)"
    then have "w = v \<or> w \<in> set (stIntegrations st)" using written_rows assms(5) by simp
    then obtain u where u: "integration st d = Some u" "mFeatureID (iMeta u) = mFeatureID (iMeta w)"
      using w(2) assms(1,4) unfolding dependencies_known_def by blast
    show "\<exists>u. integration st' d = Some u \<and> mFeatureID (iMeta u) = mFeatureID (iMeta w)"
      using u look place assms(2) by (cases "d = mID (iMeta v)") auto
  qed
qed

lemma old_refs:
  "dependencies_known st \<Longrightarrow> integration st i = Some old \<Longrightarrow> same_place v old \<Longrightarrow>
   iDependencies v = iDependencies old \<Longrightarrow>
   \<forall>d\<in>set (iDependencies v). \<exists>w. integration st d = Some w \<and> mFeatureID (iMeta w) = mFeatureID (iMeta v)"
  by (auto simp: dependencies_known_def same_place_def dest: lookup_in)

lemma ready_row [simp]:
  "mFeatureID (iMeta (if b then v\<lparr>iStatus := s\<rparr> else v)) = mFeatureID (iMeta v)"
  "mID (iMeta (if b then v\<lparr>iStatus := s\<rparr> else v)) = mID (iMeta v)"
  "iDependencies (if b then v\<lparr>iStatus := s\<rparr> else v) = iDependencies v"
  "same_place (if b then v\<lparr>iStatus := s\<rparr> else v) w = same_place v w"
  by (simp_all add: same_place_def)

lemma effect_known: "effect plain st st' \<Longrightarrow> dependencies_known st \<Longrightarrow> dependencies_known st'"
proof (induction rule: effect.induct)
  case (new_integration v st' t)
  show ?case
    unfolding dependencies_known_def
  proof (intro ballI)
    fix w d assume w: "w \<in> set (stIntegrations st')" "d \<in> set (iDependencies w)"
    then have "w = v \<or> w \<in> set (stIntegrations st)" using new_integration.hyps(4) by auto
    then obtain u where "integration st d = Some u" "mFeatureID (iMeta u) = mFeatureID (iMeta w)"
      using w(2) new_integration.prems validate_integration_refs [OF new_integration.hyps(2)]
      unfolding dependencies_known_def by blast
    then show "\<exists>u. integration st' d = Some u \<and> mFeatureID (iMeta u) = mFeatureID (iMeta w)"
      using lookup_appended new_integration.hyps(4) by blast
  qed
next
  case (edit_integration v old st' t)
  show ?case
    by (rule known_after_write [OF edit_integration.prems _ _ _ edit_integration.hyps(6), of old])
      (use edit_integration.hyps(1,3) validate_integration_refs [OF edit_integration.hyps(4)] in simp_all)
next
  case (move v old st' t)
  show ?case
    by (rule known_after_write [OF move.prems move.hyps(1,3) _ move.hyps(8)])
      (rule old_refs [OF move.prems move.hyps(1,3,4)])
next
  case (progressed v old st')
  show ?case
    by (rule known_after_write [OF progressed.prems progressed.hyps(1,3) _ progressed.hyps(6)])
      (rule old_refs [OF progressed.prems progressed.hyps(1,3,4)])
qed (auto simp: dependencies_known_def integration_def)

lemma acyclic_same_edges:
  assumes "acyclic (dep_edge st)" and "integration st (mID (iMeta v)) = Some old"
    and "iDependencies v = iDependencies old" and "stIntegrations st' = stIntegrations (write_integration v st)"
  shows "acyclic (dep_edge st')"
proof -
  have "integration st' j = (if j = mID (iMeta v) then Some v else integration st j)" for j
    using written_lookup [OF assms(2)] lookup_cong [OF assms(4)] by simp
  then have "dependencies_of st' j = dependencies_of st j" for j
    using assms(2,3) by (simp add: dependencies_of_def)
  then show ?thesis using assms(1) by (simp add: dep_edge_def)
qed

lemma effect_acyclic: "effect plain st st' \<Longrightarrow> acyclic (dep_edge st) \<Longrightarrow> acyclic (dep_edge st')"
proof (induction rule: effect.induct)
  case (new_integration v st' t)
  have look: "integration st' j = (if j = mID (iMeta v) then Some v else integration st j)" for j
    by (rule lookup_new [OF new_integration.hyps(3,4)])
  show ?case
    by (rule acyclic_after_write [OF new_integration.prems new_integration.hyps(2), where w = v])
      (simp_all add: look)
next
  case (edit_integration v old st' t)
  let ?w = "if iStatus v = ''ready'' then v\<lparr>iStatus := ''working''\<rparr> else v"
  have "integration st (mID (iMeta ?w)) = Some old" using edit_integration.hyps(1) by simp
  then have look: "integration st' j = (if j = mID (iMeta v) then Some ?w else integration st j)" for j
    using written_lookup [of st ?w old] lookup_cong [OF edit_integration.hyps(6)] by simp
  show ?case
    by (rule acyclic_after_write [OF edit_integration.prems edit_integration.hyps(4), where w = ?w])
      (simp_all add: look)
next
  case (move v old st' t)
  then show ?case by (rule_tac acyclic_same_edges)
next
  case (progressed v old st')
  then show ?case by (rule_tac acyclic_same_edges)
qed (simp_all add: dep_edge_def dependencies_of_def integration_def)

lemma completed_after_write:
  assumes "completed_ok st" and "integration st (mID (iMeta v)) = Some old" and "same_place v old"
    and "stIntegrations st' = stIntegrations (write_integration v st)"
    and "\<And>f. f \<in> set (stFeatures st') \<Longrightarrow> fStatus f = ''completed'' \<Longrightarrow>
      f \<in> set (stFeatures st) \<and> (mFeatureID (iMeta v) = mID (fMeta f) \<longrightarrow> finished v)"
  shows "completed_ok st'"
  unfolding completed_ok_def
proof (intro ballI impI conjI)
  fix f assume f: "f \<in> set (stFeatures st')" "fStatus f = ''completed''"
  then have f0: "f \<in> set (stFeatures st)" and fin: "mFeatureID (iMeta v) = mID (fMeta f) \<longrightarrow> finished v"
    using assms(5) by blast+
  then obtain w where w: "w \<in> set (stIntegrations st)" "mFeatureID (iMeta w) = mID (fMeta f)"
    using f(2) assms(1) by (auto simp: completed_ok_def)
  have v: "v \<in> set (stIntegrations st')"
    using written_lookup [OF assms(2), of "mID (iMeta v)"] lookup_cong [OF assms(4)] lookup_in by simp
  show "\<exists>w\<in>set (stIntegrations st'). mFeatureID (iMeta w) = mID (fMeta f)"
  proof (cases "w = old")
    case True
    then show ?thesis using w(2) assms(3) v by (auto simp: same_place_def)
  next
    case False
    then show ?thesis using w written_keeps [OF assms(2) w(1)] assms(4) by auto
  qed
  fix u assume u: "u \<in> set (stIntegrations st')" "mFeatureID (iMeta u) = mID (fMeta f)"
  then have "u = v \<or> u \<in> set (stIntegrations st)" using written_rows assms(4) by simp
  then show "finished u" using u(2) fin f0 f(2) assms(1) by (auto simp: completed_ok_def)
qed

lemma completion_allowed_finished:
  "completion_allowed st v = Inr () \<Longrightarrow> fStatus v = ''completed'' \<Longrightarrow>
   (\<exists>w\<in>set (stIntegrations st). mFeatureID (iMeta w) = mID (fMeta v)) \<and>
   (\<forall>w\<in>set (stIntegrations st). mFeatureID (iMeta w) = mID (fMeta v) \<longrightarrow>
      finished w \<and> (iStatus w = ''ready'' \<longrightarrow> readiness st w = Inr ()))"
  by (auto simp: completion_allowed_def chain_simps each_ok list_ex_iff finished_def split: if_splits)

lemma effect_completed:
  "effect plain st st' \<Longrightarrow> distinct_ids st \<Longrightarrow> completed_ok st \<Longrightarrow> plain \<Longrightarrow> completed_ok st'"
proof (induction rule: effect.induct)
  case (edit_feature v old st')
  have "f = v \<or> f \<in> set (stFeatures st) \<and> mID (fMeta f) \<noteq> mID (fMeta v)" if "f \<in> set (stFeatures st')" for f
    using distinct_rewritten [of "mID \<circ> fMeta" "stFeatures st" f "mID (fMeta v)" "\<lambda>_. v"] that edit_feature
    by (auto simp: distinct_ids_def write_feature_def)
  then show ?case
    using completion_allowed_finished [OF edit_feature.hyps(3)] edit_feature.prems(2) edit_feature.hyps(5)
    unfolding completed_ok_def by metis
next
  case (new_integration v st' t)
  have "f \<in> set (stFeatures st) \<and> mID (fMeta f) \<noteq> mFeatureID (iMeta v)"
    if "f \<in> set (stFeatures st')" "fStatus f = ''completed''" for f
    using reopened_completed that new_integration by (auto simp: distinct_ids_def)
  then show ?case
    using new_integration.prems(2) new_integration.hyps(4) by (fastforce simp: completed_ok_def)
next
  case (edit_integration v old st' t)
  let ?w = "if iStatus v = ''ready'' then v\<lparr>iStatus := ''working''\<rparr> else v"
  show ?case
  proof (rule completed_after_write [OF edit_integration.prems(2) _ _ edit_integration.hyps(6)])
    show "integration st (mID (iMeta ?w)) = Some old" "same_place ?w old"
      using edit_integration.hyps(1,3) by simp_all
    fix f assume f: "f \<in> set (stFeatures st')" "fStatus f = ''completed''"
    show "f \<in> set (stFeatures st) \<and> (mFeatureID (iMeta ?w) = mID (fMeta f) \<longrightarrow> finished ?w)"
    proof (cases "iStatus v = ''ready''")
      case True
      then show ?thesis
        using reopened_completed [of st f "mFeatureID (iMeta v)" t] f edit_integration.hyps(7) edit_integration.prems(1)
        by (auto simp: distinct_ids_def)
    next
      case False
      then have "\<not> finished old"
        using edit_integration.hyps(2,5) edit_integration.prems(3) by (simp add: finished_def)
      then show ?thesis
        using f False edit_integration.hyps(3,7) edit_integration.prems(2) lookup_in [OF edit_integration.hyps(1)]
        by (auto simp: completed_ok_def same_place_def)
    qed
  qed
next
  case (move v old st' t)
  show ?case
  proof (rule completed_after_write [OF move.prems(2) move.hyps(1,3,8)])
    fix f assume f: "f \<in> set (stFeatures st')" "fStatus f = ''completed''"
    show "f \<in> set (stFeatures st) \<and> (mFeatureID (iMeta v) = mID (fMeta f) \<longrightarrow> finished v)"
      using reopened_completed [of st f "mFeatureID (iMeta v)" t] f move.hyps(9) move.prems(1)
      by (auto simp: distinct_ids_def finished_def split: if_splits)
  qed
next
  case (progressed v old st')
  show ?case
  proof (rule completed_after_write [OF progressed.prems(2) progressed.hyps(1,3,6)])
    fix f assume f: "f \<in> set (stFeatures st')" "fStatus f = ''completed''"
    show "f \<in> set (stFeatures st) \<and> (mFeatureID (iMeta v) = mID (fMeta f) \<longrightarrow> finished v)"
      using f progressed.hyps(3,5,7) progressed.prems(2) lookup_in [OF progressed.hyps(1)]
      by (auto simp: completed_ok_def same_place_def finished_def)
  qed
qed (auto simp: completed_ok_def)

lemma effect_workflow_inv: "effect True st st' \<Longrightarrow> workflow_inv st \<Longrightarrow> workflow_inv st'"
  using effect_distinct effect_known effect_acyclic effect_completed by (auto simp: workflow_inv_def)

lemma effect_released_kept:
  "effect plain st st' \<Longrightarrow> w \<in> set (stIntegrations st) \<Longrightarrow> iStatus w = ''released'' \<Longrightarrow>
   w \<in> set (stIntegrations st')"
  by (erule effect.cases) (auto intro!: written_keeps)

lemma effect_status:
  assumes "effect plain st st'" and "w \<in> set (stIntegrations st')" and plain
  shows "w \<in> set (stIntegrations st) \<or> iStatus w = ''planned'' \<and> integration st (mID (iMeta w)) = None \<or>
    (\<exists>u. integration st (mID (iMeta w)) = Some u \<and> same_place w u \<and>
       (iStatus w = iStatus u \<or> can_transition ''integration'' (iStatus u) (iStatus w)) \<and>
       iStatus w \<noteq> ''released'' \<and> (iStatus w = ''ready'' \<longrightarrow> iStatus u = ''ready'' \<or> readiness st u = Inr ()))"
  using assms
proof (induction rule: effect.induct)
  case (edit_integration v old st' t)
  let ?w = "if iStatus v = ''ready'' then v\<lparr>iStatus := ''working''\<rparr> else v"
  have st: "iStatus v = iStatus old" "valid_status ''integration'' (iStatus v)"
    using edit_integration.hyps(5) edit_integration.prems(2) validate_integration_status [OF edit_integration.hyps(4)]
    by simp_all
  then have tr: "can_transition ''integration'' (iStatus old) (iStatus ?w)" "iStatus ?w \<noteq> ''released''"
      "iStatus ?w \<noteq> ''ready''"
    using edit_integration.hyps(2) by (auto simp: integration_transition valid_integration_status)
  have "w = ?w \<or> w \<in> set (stIntegrations st)"
    using written_rows [of w ?w st] edit_integration.prems(1) edit_integration.hyps(6) by simp
  then show ?case
  proof
    assume "w = ?w"
    moreover have "same_place ?w old" "integration st (mID (iMeta ?w)) = Some old"
      using edit_integration.hyps(1,3) by simp_all
    ultimately show ?thesis using tr by blast
  qed simp
next
  case (move v old st' t)
  have "w = v \<or> w \<in> set (stIntegrations st)"
    using written_rows [of w v st] move.prems(1) move.hyps(8) by simp
  then show ?case using move.hyps by blast
next
  case (progressed v old st')
  have "w = v \<or> w \<in> set (stIntegrations st)"
    using written_rows [of w v st] progressed.prems(1) progressed.hyps(6) by simp
  then show ?case
  proof
    assume "w = v"
    then show ?thesis using progressed.hyps(1,2,3,5) by simp
  qed simp
next
  case (new_integration v st' t)
  have "integration st (mID (iMeta v)) = None" 
    using new_integration.hyps(3) by (auto simp: integration_def find_None_iff dest: imageI [of _ _ "mID \<circ> iMeta"])
  then show ?case using new_integration.hyps(1,4) new_integration.prems(1) by auto
qed auto

section \<open>Requests and runs\<close>

text \<open>
  \<open>id()\<close> draws 16 random bytes; that the ID is not in use is the hypothesis \<open>fresh_id\<close>.
\<close>

definition fresh_id :: "Ctx \<Rightarrow> State \<Rightarrow> bool" where
  "fresh_id x st \<longleftrightarrow> ctxID x \<notin> set (state_ids st)"

definition admissible :: "Ctx \<times> Command \<Rightarrow> State \<Rightarrow> bool" where
  "admissible xc st \<longleftrightarrow> cAction (snd xc) \<in> core_actions \<and> plain_keys (snd xc) \<and> fresh_id (fst xc) st"

lemma id_guard_fresh:
  "id_guard st c = Inr () \<Longrightarrow> cAction c \<in> {''create_feature'', ''create_integration''} \<Longrightarrow> fresh_id x st \<Longrightarrow>
   mID (meta x c) \<notin> set (state_ids st)"
  by (auto simp: id_guard_def meta_def fresh_id_def same_delivery_retry_def)

lemma apply_effect:
  assumes "apply_command p (x, c) st = Inr (out, st')" and "cAction c \<in> core_actions"
    and "plain \<longrightarrow> plain_keys c" and "fresh_id x st"
  shows "effect plain st st'"
proof -
  obtain c' out' m' st1 where
    c': "envelope_guard c = Inr ()" "reservation_command_allowed p st c = Inr ()" "resolve_scope st c = Inr c'"
      "id_guard st c' = Inr ()" "core_step p x c' (meta x c') st = Inr (out', m', st1)"
      "st' = snd (finish x (length (stOperations st)) c' (out', m', st1, True))"
    by (rule apply_core [OF assms(1,2)])
  have keep: "cData c' = cData c" using resolve_scope_keeps [OF c'(3)] by simp
  have "effect plain st st1"
    by (rule core_step_effect [OF c'(5,1) keep [symmetric] assms(3)]) (rule id_guard_fresh [OF c'(4) _ assms(4)])
  then show ?thesis by (rule effect_tables) (simp_all add: c'(6))
qed

interpretation workflow: transactional "apply_command p" admissible workflow_inv for p
proof
  fix s c out t
  assume "workflow_inv s" "admissible c s" "apply_command p c s = Inr (out, t)"
  then show "workflow_inv t"
    using apply_effect [of p "fst c" "snd c" s out t True] effect_workflow_inv by (simp add: admissible_def)
qed

text \<open>Released rows survive any run, whatever the keys of the data are.\<close>

definition core_request :: "Ctx \<times> Command \<Rightarrow> State \<Rightarrow> bool" where
  "core_request xc st \<longleftrightarrow> cAction (snd xc) \<in> core_actions \<and> fresh_id (fst xc) st"

definition holds_released :: "Integration set \<Rightarrow> State \<Rightarrow> bool" where
  "holds_released W st \<longleftrightarrow> (\<forall>w\<in>W. w \<in> set (stIntegrations st) \<and> iStatus w = ''released'')"

interpretation released: transactional "apply_command p" core_request "holds_released W" for p W
proof
  fix s c out t
  assume "holds_released W s" "core_request c s" "apply_command p c s = Inr (out, t)"
  then show "holds_released W t"
    using apply_effect [of p "fst c" "snd c" s out t False] effect_released_kept
    by (auto simp: core_request_def holds_released_def)
qed

text \<open>The derived gate results depend on tables that the end of a command leaves alone.\<close>

lemma gate_result_cong:
  assumes "stExternalScopes s = stExternalScopes t" "stChecks s = stChecks t" "stResults s = stResults t"
    and "stFindings s = stFindings t"
  shows "gate_result s (g\<lparr>gResult := r\<rparr>) = gate_result t g"
proof -
  have l: "latest s = latest t" by (rule ext) (simp add: latest_def assms)
  have "gate_checks s (g\<lparr>gResult := r\<rparr>) n cs = gate_checks t g n cs" for n cs
    by (induction cs arbitrary: n) (simp_all add: l split: option.splits)
  then show ?thesis
    by (simp add: gate_result_def external_gate_evidence_current_def l assms split: option.splits)
qed

lemma finish_gates:
  assumes "g \<in> set (stGates (snd (finish x n c (out, m, st, True))))"
  shows "gResult g = gate_result (snd (finish x n c (out, m, st, True))) g"
proof -
  define s where "s = (let st' = stamp_new n st in st'\<lparr>stEvents := stEvents st' @ [audit x c m]\<rparr>)"
  have d: "snd (finish x n c (out, m, st, True)) = derive s" by (simp add: finish_def s_def Let_def)
  with assms obtain g0 where "g = g0\<lparr>gResult := gate_result s g0\<rparr>" by (auto simp: derive_def)
  then show ?thesis
    using gate_result_cong [of "derive s" s, where g = g0 and r = "gate_result s g0"] by (simp add: d) (simp add: derive_def)
qed

end
