(* ===== verification/CommandProperties.thy ===== *)
theory CommandProperties
  imports Workflow
begin

text \<open>
  The properties of the command handler on features, integrations and the audit log, with the
  sample state and commands on which they are evaluated.
\<close>

section \<open>A sample workspace\<close>

definition sample_meta :: "string \<Rightarrow> Meta" where
  "sample_meta i = \<lparr>mID = i, mProductID = ''p1'', mFeatureID = [], mActor = ''ann'', mCreatedAt = 1, mUpdatedAt = 1\<rparr>"

definition sample_parts :: Parts where
  "sample_parts = \<lparr>reservation_free = \<lambda>st i. Inr (), composition_environment = \<lambda>st i. None,
     replay_feature_update = \<lambda>st c. Inr None, delegated = \<lambda>st c m. Inl (GoError [])\<rparr>"

definition sample_ctx :: "string \<Rightarrow> Ctx" where
  "sample_ctx i = \<lparr>ctxID = i, ctxBindingID = ''b'' @ i, ctxEventID = ''ev'' @ i, ctxMetaNow = 5, ctxStepNow = 6,
     ctxEventNow = 7\<rparr>"

definition sample_feature :: Feature where
  "sample_feature = zero_Feature\<lparr>fMeta := sample_meta ''f1'', fStatus := ''completed'', fTitle := ''t'', fGoal := ''g''\<rparr>"

definition sample_integration :: "string \<Rightarrow> string \<Rightarrow> string list \<Rightarrow> Integration" where
  "sample_integration i s ds = zero_Integration\<lparr>iMeta := (sample_meta i)\<lparr>mFeatureID := ''f1''\<rparr>, iStatus := s,
     iTitle := ''t'', iObjective := ''o'', iDependencies := ds\<rparr>"

definition sample_state :: State where
  "sample_state = zero_State\<lparr>stProducts := [zero_Product\<lparr>pMeta := sample_meta ''p1'', pName := ''P''\<rparr>],
     stFeatures := [sample_feature],
     stIntegrations := [sample_integration ''i1'' ''released'' [], sample_integration ''i2'' ''ready'' [''i1'']]\<rparr>"

definition sample_command :: "string \<Rightarrow> json_data \<Rightarrow> Command" where
  "sample_command a d = zero_Command\<lparr>cAction := a, cActor := ''ann'', cFeatureID := ''f1'', cData := d\<rparr>"

definition sample_edit :: Command where
  "sample_edit = (sample_command ''update_integration'' [(''dependencies'', JArr [])])\<lparr>cIntegrationID := ''i2''\<rparr>"

definition sample_new :: Command where
  "sample_new = sample_command ''create_integration''
     [(''title'', JStr ''n''), (''objective'', JStr ''o''), (''dependencies'', JArr [JStr ''i2''])]"

definition sample_run :: "(Ctx \<times> Command) list" where
  "sample_run = [(sample_ctx ''n1'', sample_edit), (sample_ctx ''n2'', sample_new)]"

lemma sample_integrations [simp]:
  "stIntegrations sample_state = [sample_integration ''i1'' ''released'' [], sample_integration ''i2'' ''ready'' [''i1'']]"
  "stFeatures sample_state = [sample_feature]"
  by (simp_all add: sample_state_def)

lemma sample_rows [simp]:
  "iStatus (sample_integration i s ds) = s" "iDependencies (sample_integration i s ds) = ds"
  "mID (iMeta (sample_integration i s ds)) = i" "mFeatureID (iMeta (sample_integration i s ds)) = ''f1''"
  "mID (fMeta sample_feature) = ''f1''" "fStatus sample_feature = ''completed''"
  by (simp_all add: sample_integration_def sample_feature_def sample_meta_def)

lemma sample_inv: "workflow_inv sample_state"
proof -
  have e: "dep_edge sample_state = {(''i2'', ''i1'')}"
    by (auto simp: dep_edge_def dependencies_of_def integration_def split: if_splits)
  have "acyclic (dep_edge sample_state)" unfolding e by (simp add: acyclic_def trancl_insert)
  then show ?thesis
    by (auto simp: workflow_inv_def distinct_ids_def dependencies_known_def completed_ok_def finished_def
        integration_def)
qed

section \<open>Invariants of the command log\<close>

text \<open>C1. From any state with these properties, along any run of the commands on products, features,
  integrations, blockers, gates, checks, findings, environments, repositories and releases and of the
  descriptive records (\<open>core_actions\<close>), each with ASCII keys in its data and with a generated ID that is not in
  use, whatever commands fail on the way: IDs of features and integrations stay unique, every dependency
  names an integration of the same feature, the dependency graph stays acyclic, and a completed feature has
  integrations that are all ready or released. Commands of other components are not in such a run:
  \<open>set_external_scope\<close> reopens a ready integration without its feature.\<close>

theorem workflow_invariant:
  assumes "workflow_inv st" and "run_ok (apply_command p) admissible st cs"
  shows "distinct_ids (run_all (apply_command p) st cs) \<and>
    dependencies_known (run_all (apply_command p) st cs) \<and>
    acyclic (dep_edge (run_all (apply_command p) st cs)) \<and>
    completed_ok (run_all (apply_command p) st cs)"
  using workflow.run_keeps [OF assms] by (simp add: workflow_inv_def)

theorem workflow_invariant_witness:
  "acyclic (dep_edge (run_all (apply_command sample_parts) sample_state sample_run)) \<and>
   map iStatus (stIntegrations (run_all (apply_command sample_parts) sample_state sample_run))
     = [''released'', ''working'', ''planned'']"
proof
  have ok: "run_ok (apply_command sample_parts) admissible sample_state sample_run" by code_simp
  show "acyclic (dep_edge (run_all (apply_command sample_parts) sample_state sample_run))"
    using workflow_invariant [OF sample_inv ok] by blast
  show "map iStatus (stIntegrations (run_all (apply_command sample_parts) sample_state sample_run))
     = [''released'', ''working'', ''planned'']"
    by code_simp
qed

text \<open>C5. A released integration is immutable: no run of core commands removes or changes its row,
  whatever data the commands carry.\<close>

theorem released_immutable:
  assumes "w \<in> set (stIntegrations st)" and "iStatus w = ''released''"
    and "run_ok (apply_command p) core_request st cs"
  shows "w \<in> set (stIntegrations (run_all (apply_command p) st cs))"
  using released.run_keeps [of "{w}" st p cs] assms by (simp add: holds_released_def)

definition sample_release_edit :: Command where
  "sample_release_edit = sample_edit\<lparr>cIntegrationID := ''i1''\<rparr>"

theorem released_immutable_witness:
  "sample_integration ''i1'' ''released'' []
     \<in> set (stIntegrations (run_all (apply_command sample_parts) sample_state
          ((sample_ctx ''n0'', sample_release_edit) # sample_run)))"
proof (rule released_immutable)
  show "run_ok (apply_command sample_parts) core_request sample_state
     ((sample_ctx ''n0'', sample_release_edit) # sample_run)" by code_simp
qed simp_all

text \<open>C15. A command of \<open>core_actions\<close> with ASCII keys in its data and a fresh generated ID changes the status of
  an existing integration only along a transition of the workflow table, never to released, and to ready
  only when the readiness evaluation of the integration succeeds, and keeps its feature; a row whose ID was
  not in the table is planned.\<close>

theorem status_by_transition:
  assumes "apply_command p (x, c) st = Inr (out, st')" and "admissible (x, c) st"
    and "w \<in> set (stIntegrations st')" and "w \<notin> set (stIntegrations st)"
  shows "integration st (mID (iMeta w)) = None \<and> iStatus w = ''planned'' \<or>
    (\<exists>u. integration st (mID (iMeta w)) = Some u \<and> mFeatureID (iMeta w) = mFeatureID (iMeta u) \<and>
       (iStatus w = iStatus u \<or> can_transition ''integration'' (iStatus u) (iStatus w)) \<and>
       iStatus w \<noteq> ''released'' \<and>
       (iStatus w = ''ready'' \<longrightarrow> iStatus u = ''ready'' \<or> readiness st u = Inr ()))"
  using effect_status [of True st st' w] apply_effect [of p x c st out st' True] assms
  by (auto simp: admissible_def same_place_def)

theorem status_by_transition_witness:
  "iStatus (stIntegrations (state_after
      (apply_command sample_parts (sample_ctx ''n1'', sample_edit) sample_state)) ! 1) = ''working'' \<and>
   can_transition ''integration'' ''ready'' ''working''"
proof -
  let ?r = "apply_command sample_parts (sample_ctx ''n1'', sample_edit) sample_state"
  define w where "w = stIntegrations (state_after ?r) ! 1"
  have "\<not> isl ?r" by code_simp
  note run = succeeds [OF this]
  have adm: "admissible (sample_ctx ''n1'', sample_edit) sample_state" by code_simp
  have len: "length (stIntegrations (state_after ?r)) = 2" by code_simp
  have w: "iStatus w = ''working''" "mID (iMeta w) = ''i2''" unfolding w_def by code_simp+
  have "w \<in> set (stIntegrations (state_after ?r))" unfolding w_def using len by (intro nth_mem) simp
  moreover have "w \<notin> set (stIntegrations sample_state)" using w(1) by auto
  ultimately have "\<exists>u. integration sample_state ''i2'' = Some u \<and>
      (iStatus w = iStatus u \<or> can_transition ''integration'' (iStatus u) (iStatus w))"
    using status_by_transition [OF run adm, of w] w by auto
  then show ?thesis using w(1) unfolding w_def by (auto simp: integration_def)
qed

lemma progress_events: "progress c m v st = Inr st' \<Longrightarrow> stEvents st' = stEvents st"
  by (auto simp: progress_def split: if_splits option.splits)

lemma handler_events:
  "classify_repository x c m st = Inr (out, m', st') \<Longrightarrow> stEvents st' = stEvents st"
  "create_product c m st = Inr (out, m', st') \<Longrightarrow> stEvents st' = stEvents st"
  "create_feature c m st = Inr (out, m', st') \<Longrightarrow> stEvents st' = stEvents st"
  "create_integration c m st = Inr (out, m', st') \<Longrightarrow> stEvents st' = stEvents st"
  "transition_integration x c m st = Inr (out, m', st') \<Longrightarrow> stEvents st' = stEvents st"
  "resolve_blocker c m st = Inr (out, m', st') \<Longrightarrow> stEvents st' = stEvents st"
  "create_gate c m st = Inr (out, m', st') \<Longrightarrow> stEvents st' = stEvents st"
  "add_check c m st = Inr (out, m', st') \<Longrightarrow> stEvents st' = stEvents st"
  "record_check_result c m st = Inr (out, m', st') \<Longrightarrow> stEvents st' = stEvents st"
  "record_finding c m st = Inr (out, m', st') \<Longrightarrow> stEvents st' = stEvents st"
  "resolve_finding c m st = Inr (out, m', st') \<Longrightarrow> stEvents st' = stEvents st"
  "create_environment c m st = Inr (out, m', st') \<Longrightarrow> stEvents st' = stEvents st"
  "update_environment p x c st = Inr (out, m', st') \<Longrightarrow> stEvents st' = stEvents st"
  "create_repository c m st = Inr (out, m', st') \<Longrightarrow> stEvents st' = stEvents st"
  "plan_release c m st = Inr (out, m', st') \<Longrightarrow> stEvents st' = stEvents st"
  "record_release c m st = Inr (out, m', st') \<Longrightarrow> stEvents st' = stEvents st"
  by (auto simp: quiet_steps create_feature_def create_integration_def transition_integration_def Let_def
      split: if_splits option.splits sum.splits)

lemma update_feature_events: "update_feature x c st = Inr (out, m', st') \<Longrightarrow> stEvents st' = stEvents st"
  by (auto simp: update_feature_def Let_def split: option.splits sum.splits)

lemma update_integration_events: "update_integration x c st = Inr (out, m', st') \<Longrightarrow> stEvents st' = stEvents st"
  by (auto simp: update_integration_def Let_def split: if_splits option.splits sum.splits)

lemma record_memory_events: "record_memory c m st = Inr (out, m', st') \<Longrightarrow> stEvents st' = stEvents st"
  by (auto simp: record_memory_def Let_def dest: progress_events split: if_splits sum.splits)

lemma core_step_events:
  "core_step p x c m st = Inr (out, m', st') \<Longrightarrow> stEvents st' = stEvents st"
  unfolding core_step_def Let_def
  by (auto split: if_splits dest: handler_events update_feature_events update_integration_events record_memory_events)

text \<open>Audit: a core command that succeeds appends exactly one event, under the command's action
  and a non-blank actor, at the entity and product it was applied to, with the command as its data;
  the earlier events stay as they are.\<close>

theorem audit_event:
  assumes "apply_command p (x, c) st = Inr (out, st')" and "cAction c \<in> core_actions"
  shows "\<exists>e. stEvents st' = stEvents st @ [e] \<and> evID e = ctxEventID x \<and> evAction e = cAction c \<and>
    evActor e = cActor c \<and> trim_space (evActor e) \<noteq> [] \<and> resolve_scope st c = Inr (evData e)"
proof -
  obtain c' out' m' st1 where
    c': "envelope_guard c = Inr ()" "reservation_command_allowed p st c = Inr ()" "resolve_scope st c = Inr c'"
      "id_guard st c' = Inr ()" "core_step p x c' (meta x c') st = Inr (out', m', st1)"
      "st' = snd (finish x (length (stOperations st)) c' (out', m', st1, True))"
    by (rule apply_core [OF assms])
  have "trim_space (cActor c) \<noteq> []" using c'(1) by (simp add: envelope_guard_def chain_simps)
  then show ?thesis
    using c'(3,6) core_step_events [OF c'(5)] resolve_scope_keeps [OF c'(3)] by (simp add: audit_def)
qed

theorem audit_event_witness:
  "\<exists>e. stEvents (state_after (apply_command sample_parts (sample_ctx ''n2'', sample_new) sample_state)) = [e] \<and>
     evAction e = ''create_integration'' \<and> evActor e = ''ann''"
proof -
  let ?r = "apply_command sample_parts (sample_ctx ''n2'', sample_new) sample_state"
  have "\<not> isl ?r" by code_simp
  note run = succeeds [OF this]
  have "cAction sample_new \<in> core_actions" "cAction sample_new = ''create_integration''"
    "cActor sample_new = ''ann''" "stEvents sample_state = []" by code_simp+
  then show ?thesis using audit_event [OF run] by auto
qed

end
