(* ===== verification/EvidenceProperties.thy ===== *)
theory EvidenceProperties
  imports CommandProperties
begin

text \<open>
  The properties of the command handler on gates, check results and findings, and the key that
  passes its guards and still writes the status.
\<close>

text \<open>C13. After every core command the stored result of each gate is its derived result: no gate
  shows a result that the evidence in the state does not support.\<close>

theorem gates_current:
  assumes "apply_command p (x, c) st = Inr (out, st')" and "cAction c \<in> core_actions"
    and "g \<in> set (stGates st')"
  shows "gResult g = gate_result st' g"
proof -
  obtain c' out' m' st1 where
    c': "envelope_guard c = Inr ()" "reservation_command_allowed p st c = Inr ()" "resolve_scope st c = Inr c'"
      "id_guard st c' = Inr ()" "core_step p x c' (meta x c') st = Inr (out', m', st1)"
      "st' = snd (finish x (length (stOperations st)) c' (out', m', st1, True))"
    by (rule apply_core [OF assms(1,2)])
  show ?thesis using finish_gates assms(3) unfolding c'(6) by blast
qed

definition sample_gate :: Gate where
  "sample_gate = zero_Gate\<lparr>gMeta := (sample_meta ''g1'')\<lparr>mFeatureID := ''f1''\<rparr>, gTitle := ''t'', gReason := ''r'',
     gIntegrationIDs := [''i2''], gBlocking := True, gResult := ''pending''\<rparr>"

definition sample_check :: Check where
  "sample_check = zero_Check\<lparr>chMeta := (sample_meta ''c1'')\<lparr>mFeatureID := ''f1''\<rparr>, chGateID := ''g1'',
     chTitle := ''t'', chMechanism := ''m''\<rparr>"

definition sample_pass :: CheckResult where
  "sample_pass = zero_CheckResult\<lparr>rMeta := (sample_meta ''r1'')\<lparr>mFeatureID := ''f1''\<rparr>, rCheckID := ''c1'',
     rResult := ''passed'', rCommit := ''abc''\<rparr>"

definition gated_state :: State where
  "gated_state = derive (sample_state\<lparr>stGates := [sample_gate], stChecks := [sample_check], stResults := [sample_pass]\<rparr>)"

definition fail_command :: Command where
  "fail_command = (sample_command ''record_check_result'' [(''result'', JStr ''failed''), (''commit'', JStr ''abd'')])
     \<lparr>cCheckID := ''c1''\<rparr>"

theorem gates_current_witness:
  "map gResult (stGates gated_state) = [''passed''] \<and>
   (\<exists>g. stGates (state_after (apply_command sample_parts (sample_ctx ''r2'', fail_command) gated_state)) = [g] \<and>
      gResult g = gate_result (state_after (apply_command sample_parts (sample_ctx ''r2'', fail_command) gated_state)) g \<and>
      gResult g = ''failed'')"
proof
  show "map gResult (stGates gated_state) = [''passed'']" by code_simp
  let ?r = "apply_command sample_parts (sample_ctx ''r2'', fail_command) gated_state"
  have "\<not> isl ?r" by code_simp
  note run = succeeds [OF this]
  have core: "cAction fail_command \<in> core_actions" by code_simp
  have g: "map gResult (stGates (state_after ?r)) = [''failed'']" by code_simp
  then obtain g where "stGates (state_after ?r) = [g]" "gResult g = ''failed''" by auto
  then show "\<exists>g. stGates (state_after ?r) = [g] \<and> gResult g = gate_result (state_after ?r) g \<and> gResult g = ''failed''"
    using gates_current [OF run core, of g] by simp
qed

section \<open>What readiness requires\<close>

definition evidence_ok :: "State \<Rightarrow> Integration \<Rightarrow> Gate \<Rightarrow> CheckResult \<Rightarrow> bool" where
  "evidence_ok st v g r \<longleftrightarrow> rResult r = ''passed'' \<and>
     (gCommit g = [] \<or> rCommit r = gCommit g) \<and> (gDeployment g = [] \<or> rDeployment r = gDeployment g) \<and>
     (gEnvironmentID g = [] \<or> rEnvironmentID r = gEnvironmentID g) \<and>
     (iCommits v = [] \<or> rCommit r \<in> set (map cmSHA (iCommits v)))"

definition gate_satisfied :: "State \<Rightarrow> Integration \<Rightarrow> Gate \<Rightarrow> bool" where
  "gate_satisfied st v g \<longleftrightarrow>
     (let cs = filter (\<lambda>c. chGateID c = mID (gMeta g)) (stChecks st) in
      external_gate_evidence_current st g \<and> cs \<noteq> [] \<and>
      list_all (\<lambda>c. case latest st (mID (chMeta c)) of None \<Rightarrow> False | Some r \<Rightarrow> evidence_ok st v g r) cs \<and>
      \<not> list_ex (\<lambda>f. fdStatus f = ''open'' \<and> mID (gMeta g) \<in> set (fdGateIDs f)) (stFindings st))"

lemma gate_satisfied_iff:
  "gate_satisfied st v g \<longleftrightarrow> gate_result st g = ''passed'' \<and> gate_commits_match st v g = Inr ()"
  unfolding gate_passes_iff gate_commits_match_iff gate_satisfied_def Let_def evidence_ok_def
  by (auto simp: list_all_iff list_ex_iff filter_empty_conv split: option.splits) force+

text \<open>C14. The readiness evaluation agrees with its specification: an integration is ready exactly
  when its dependencies are ready or released, no blocker is open for it, no open finding names it or
  blocks the release of its feature, and every blocking gate over it is satisfied: current external
  evidence, at least one check, for each check a latest result that passed on the pins of the gate and
  on a commit of the integration, and no open finding against the gate.\<close>

theorem readiness_specification:
  "readiness st v = Inr () \<longleftrightarrow>
     (\<forall>d\<in>set (iDependencies v). \<exists>w. integration st d = Some w \<and> iStatus w \<in> {''ready'', ''released''}) \<and>
     (\<forall>m\<in>set (stMemories st). \<not> (memKind m = ''blocker'' \<and> memStatus m = ''open'' \<and>
         mFeatureID (memMeta m) = mFeatureID (iMeta v) \<and>
         (memIntegrationID m = [] \<or> memIntegrationID m = mID (iMeta v)))) \<and>
     (\<forall>f\<in>set (stFindings st). \<not> (fdStatus f = ''open'' \<and> mFeatureID (fdMeta f) = mFeatureID (iMeta v) \<and>
         (mID (iMeta v) \<in> set (fdIntegrationIDs f) \<or> fdIntegrationIDs f = [] \<and> fdBlocksRelease f))) \<and>
     (\<forall>g\<in>set (stGates st). mFeatureID (gMeta g) = mFeatureID (iMeta v) \<and> gBlocking g \<and>
         mID (iMeta v) \<in> set (gIntegrationIDs g) \<longrightarrow> gate_satisfied st v g)"
  unfolding readiness_iff gate_satisfied_iff by blast

theorem readiness_specification_witness:
  "readiness gated_state (sample_integration ''i2'' ''ready'' [''i1'']) = Inr () \<and>
   list_all (gate_satisfied gated_state (sample_integration ''i2'' ''ready'' [''i1''])) (stGates gated_state)"
proof -
  have "\<not> isl (readiness gated_state (sample_integration ''i2'' ''ready'' [''i1'']))" by code_simp
  then have r: "readiness gated_state (sample_integration ''i2'' ''ready'' [''i1'']) = Inr ()"
    by (cases "readiness gated_state (sample_integration ''i2'' ''ready'' [''i1''])") auto
  have "list_all (\<lambda>g. mFeatureID (gMeta g) = ''f1'' \<and> gBlocking g \<and> ''i2'' \<in> set (gIntegrationIDs g)) (stGates gated_state)"
    by code_simp
  then show ?thesis
    using r readiness_specification [of gated_state "sample_integration ''i2'' ''ready'' [''i1'']"]
    by (simp add: list_all_iff)
qed

section \<open>A newer result revokes the gate\<close>

lemma record_check_result_state:
  assumes "record_check_result c m st = Inr (out, m', st')"
  obtains ch r where "check st (cCheckID c) = Some ch" "out = OutCheckResult r"
    "st' = st\<lparr>stResults := stResults st @ [r]\<rparr>" "rCheckID r = mID (chMeta ch)"
    "mCreatedAt (rMeta r) = mCreatedAt m"
  using assms that
  by (auto simp: record_check_result_def Let_def split: option.splits sum.splits)

lemma check_ID: "check st i = Some ch \<Longrightarrow> mID (chMeta ch) = i \<and> ch \<in> set (stChecks st)"
  unfolding check_def by (drule find_cong_map) auto

lemma apply_core_output:
  assumes "apply_command p (x, c) st = Inr (out, st')" and "cAction c \<in> core_actions"
    and "envelope_guard c = Inr ()" "reservation_command_allowed p st c = Inr ()" "resolve_scope st c = Inr c'"
    and "id_guard st c' = Inr ()" "core_step p x c' (meta x c') st = Inr (out', m', st1)"
  shows "out = stamp_output (length (stOperations st)) st1 out'"
proof -
  have "cAction c' = cAction c" using resolve_scope_keeps [OF assms(5)] by simp
  moreover have "cAction c \<noteq> ''update_environment_feature''"
    using assms(2) by (auto simp: core_actions_def memory_actions_def)
  moreover have "admit p c st = Inr c'" using assms(3-5) by (simp add: admit_def chain.simps)
  ultimately show ?thesis using assms(1,2,6,7) by (simp add: apply_command_def step_def finish_def)
qed

lemma finish_latest: "latest (snd (finish x n c (out, m, st, True))) = latest st"
  by (rule ext) (simp add: latest_def)

text \<open>A result that did not pass, recorded at a time not before the other results, revokes
  every gate of its check: the gate is no longer passed, and no integration the gate blocks is
  ready any more.\<close>

theorem failed_result_revokes:
  assumes "apply_command p (x, c) st = Inr (OutCheckResult r, st')" and "cAction c = ''record_check_result''"
    and "rResult r \<noteq> ''passed''"
    and "\<And>q. q \<in> set (stResults st) \<Longrightarrow> mCreatedAt (rMeta q) \<le> ctxMetaNow x"
    and "check st (cCheckID c) = Some ch" and "g \<in> set (stGates st')" and "mID (gMeta g) = chGateID ch"
  shows "gate_result st' g \<noteq> ''passed'' \<and>
    (gBlocking g \<and> mFeatureID (gMeta g) = mFeatureID (iMeta v) \<and> mID (iMeta v) \<in> set (gIntegrationIDs g) \<longrightarrow>
     readiness st' v \<noteq> Inr ())"
proof -
  have core: "cAction c \<in> core_actions" by (simp add: assms(2) core_actions_def)
  obtain c' out' m' st1 where
    c': "envelope_guard c = Inr ()" "reservation_command_allowed p st c = Inr ()" "resolve_scope st c = Inr c'"
      "id_guard st c' = Inr ()" "core_step p x c' (meta x c') st = Inr (out', m', st1)"
      "st' = snd (finish x (length (stOperations st)) c' (out', m', st1, True))"
    by (rule apply_core [OF assms(1) core])
  have a: "cAction c' = ''record_check_result''" "cCheckID c' = cCheckID c"
    using c'(3) assms(2) by (auto simp: resolve_scope_def split: if_splits option.splits)
  have "record_check_result c' (meta x c') st = Inr (out', m', st1)"
    using c'(5) a(1) by (simp add: core_step_def memory_actions_def)
  then obtain ch' w where w: "check st (cCheckID c') = Some ch'" "out' = OutCheckResult w"
      "st1 = st\<lparr>stResults := stResults st @ [w]\<rparr>" "rCheckID w = mID (chMeta ch')"
      "mCreatedAt (rMeta w) = mCreatedAt (meta x c')"
    by (rule record_check_result_state)
  have "OutCheckResult r = stamp_output (length (stOperations st)) st1 out'"
    by (rule apply_core_output [OF assms(1) core c'(1-5)])
  then have r: "w = r" using w(2) by (simp add: stamp_output_def)
  have ch: "ch' = ch" using w(1) a(2) assms(5) by simp
  have "latest st1 (mID (chMeta ch)) = Some r"
    using latest_after_append [of st w] assms(4) w r ch by (simp add: meta_def)
  then have l: "latest st' (mID (chMeta ch)) = Some r" using c'(6) finish_latest by simp
  have "ch \<in> set (stChecks st')" using check_ID [OF assms(5)] c'(6) w(3) by simp
  then have "\<not> gate_result st' g = ''passed''"
    using l assms(3,7) by (auto simp: gate_passes_iff)
  then show ?thesis using assms(6) by (auto simp: readiness_iff)
qed

theorem failed_result_revokes_witness:
  "\<exists>st' r. apply_command sample_parts (sample_ctx ''r2'', fail_command) gated_state = Inr (OutCheckResult r, st') \<and>
     readiness gated_state (sample_integration ''i2'' ''ready'' [''i1'']) = Inr () \<and>
     readiness st' (sample_integration ''i2'' ''ready'' [''i1'']) \<noteq> Inr ()"
proof -
  let ?r = "apply_command sample_parts (sample_ctx ''r2'', fail_command) gated_state"
  have "(case projr ?r of (OutCheckResult r, st') \<Rightarrow> rResult r = ''failed'' | _ \<Rightarrow> False)" "\<not> isl ?r" by code_simp+
  then obtain r st' where run: "?r = Inr (OutCheckResult r, st')" "rResult r \<noteq> ''passed''"
    by (cases ?r) (auto split: outcome.splits)
  have st': "st' = state_after ?r" using run(1) by (simp add: state_after_def)
  have act: "cAction fail_command = ''record_check_result''" by code_simp
  have old: "list_all (\<lambda>q. mCreatedAt (rMeta q) \<le> ctxMetaNow (sample_ctx ''r2'')) (stResults gated_state)" by code_simp
  have ch: "check gated_state (cCheckID fail_command) = Some sample_check" by code_simp
  have gs: "map (\<lambda>g. (mID (gMeta g), gBlocking g, mFeatureID (gMeta g), gIntegrationIDs g)) (stGates (state_after ?r))
      = [(chGateID sample_check, True, ''f1'', [''i2''])]" by code_simp
  then obtain g where g: "stGates st' = [g]" "mID (gMeta g) = chGateID sample_check" "gBlocking g"
      "mFeatureID (gMeta g) = ''f1''" "gIntegrationIDs g = [''i2'']" unfolding st' by auto
  have "readiness st' (sample_integration ''i2'' ''ready'' [''i1'']) \<noteq> Inr ()"
    using failed_result_revokes [OF run(1) act run(2) _ ch, of g "sample_integration ''i2'' ''ready'' [''i1'']"] old g
    by (auto simp: list_all_iff)
  moreover have "readiness gated_state (sample_integration ''i2'' ''ready'' [''i1'']) = Inr ()" by code_simp
  ultimately show ?thesis using run(1) by blast
qed

section \<open>Findings are resolved once\<close>

lemma each_same:
  "\<exists>x\<in>set xs. P x \<Longrightarrow> (\<And>x. x \<in> set xs \<Longrightarrow> P x \<Longrightarrow> f x = Inl e) \<Longrightarrow>
   (\<And>x. x \<in> set xs \<Longrightarrow> \<not> P x \<Longrightarrow> f x = Inr ()) \<Longrightarrow> each f xs = Inl e"
proof (induction xs)
  case (Cons a xs)
  show ?case
  proof (cases "P a")
    case True
    then show ?thesis using Cons.prems(2) [of a] by simp
  next
    case False
    then have "f a = Inr ()" using Cons.prems(3) [of a] by simp
    then show ?thesis using Cons False by auto
  qed
qed simp

text \<open>A finding is resolved once and with a text: a successful resolution needs a body, marks
  every row of that ID as resolved with it and leaves the others alone, and after it no command can
  resolve the ID again.\<close>

theorem finding_resolved_once:
  assumes "resolve_finding c m st = Inr (out, m', st')"
  shows "data_string (cData c) ''body'' \<noteq> [] \<and>
    (\<forall>f\<in>set (stFindings st'). if mID (fdMeta f) = cID c
        then fdStatus f = ''resolved'' \<and> fdResolution f = data_string (cData c) ''body''
        else f \<in> set (stFindings st)) \<and>
    (\<forall>c2 m2. cID c2 = cID c \<longrightarrow> resolve_finding c2 m2 st' = Inl (invalid ''finding already resolved'' []))"
proof -
  define hit where "hit = (\<lambda>f :: Finding. mID (fdMeta f) = cID c)"
  define solve where "solve = (\<lambda>v :: Finding. v\<lparr>fdStatus := ''resolved'', fdResolution := data_string (cData c) ''body'',
     fdFixCommit := data_string (cData c) ''commit'', fdMeta := (fdMeta v)\<lparr>mUpdatedAt := mUpdatedAt m\<rparr>\<rparr>)"
  from assms obtain v where v: "find_last hit (stFindings st) = Some v"
    and st': "stFindings st' = map (\<lambda>v. if hit v then solve v else v) (stFindings st)"
    by (auto simp: resolve_finding_def Let_def hit_def solve_def split: sum.splits option.splits)
  have body: "data_string (cData c) ''body'' \<noteq> []" if "u \<in> set (stFindings st)" "hit u" for u
    using assms that by (auto simp: resolve_finding_def Let_def each_ok chain_simps hit_def split: sum.splits)
  have hv: "hit v" "v \<in> set (stFindings st)" using find_last_Some_prop [OF v] find_last_Some_in [OF v] by simp_all
  have rows: "f \<in> set (stFindings st') \<Longrightarrow>
      if hit f then fdStatus f = ''resolved'' \<and> fdResolution f = data_string (cData c) ''body''
      else f \<in> set (stFindings st)" for f
    using st' by (auto simp: hit_def solve_def)
  have again: "resolve_finding c2 m2 st' = Inl (invalid ''finding already resolved'' [])" if "cID c2 = cID c" for c2 m2
  proof -
    have open_none: "\<forall>f\<in>set (stFindings st'). mID (fdMeta f) = cID c2 \<longrightarrow> fdStatus f \<noteq> ''open''"
      using rows that by (fastforce simp: hit_def)
    have "\<exists>f\<in>set (stFindings st'). mID (fdMeta f) = cID c2"
    proof (rule bexI [of _ "solve v"])
      show "mID (fdMeta (solve v)) = cID c2" using hv(1) that by (simp add: hit_def solve_def)
      show "solve v \<in> set (stFindings st')" using hv st' by force
    qed
    with open_none have "each (\<lambda>v. if mID (fdMeta v) = cID c2 then chain
             [reject (fdStatus v \<noteq> ''open'') (invalid ''finding already resolved'' []),
              reject (b = []) (invalid ''resolution body required'' [])] else Inr ()) (stFindings st') =
        Inl (invalid ''finding already resolved'' [])" for b :: string
      by (intro each_same [where P = "\<lambda>f. mID (fdMeta f) = cID c2"]) (auto simp: chain.simps reject_def)
    then show ?thesis by (simp add: resolve_finding_def Let_def)
  qed
  show ?thesis using body [OF hv(2,1)] rows again by (auto simp: hit_def)
qed

definition sample_finding :: Finding where
  "sample_finding = zero_Finding\<lparr>fdMeta := (sample_meta ''d1'')\<lparr>mFeatureID := ''f1''\<rparr>, fdTitle := ''t'',
     fdSeverity := ''high'', fdStatus := ''open'', fdGateIDs := [''g1'']\<rparr>"

definition finding_state :: State where
  "finding_state = gated_state\<lparr>stFindings := [sample_finding]\<rparr>"

definition resolve_command :: Command where
  "resolve_command = (sample_command ''resolve_finding'' [(''body'', JStr ''fixed'')])\<lparr>cID := ''d1''\<rparr>"

theorem finding_resolved_once_witness:
  "\<exists>out m' st'. resolve_finding resolve_command (sample_meta ''d1'') finding_state = Inr (out, m', st') \<and>
     gate_result finding_state sample_gate = ''blocked'' \<and> gate_result st' sample_gate = ''passed'' \<and>
     resolve_finding resolve_command (sample_meta ''d2'') st' = Inl (invalid ''finding already resolved'' [])"
proof -
  let ?r = "resolve_finding resolve_command (sample_meta ''d1'') finding_state"
  have "\<not> isl ?r" by code_simp
  then obtain out m' st' where run: "?r = Inr (out, m', st')" by (cases ?r) auto
  have "gate_result (snd (snd (projr ?r))) sample_gate = ''passed''" by code_simp
  moreover have "gate_result finding_state sample_gate = ''blocked''" by code_simp
  moreover have "resolve_finding resolve_command (sample_meta ''d2'') st' = Inl (invalid ''finding already resolved'' [])"
    using finding_resolved_once [OF run] by blast
  ultimately show ?thesis using run by auto
qed

section \<open>A key the guards do not see\<close>

text \<open>
  The guards compare the keys of the data as strings, while decoding matches them to the fields
  by case folding. The long s (U+017F) is not changed by \<open>ToLower\<close>, so a key \<open>status\<close>
  spelled with it passes both guards on \<open>status\<close> and is decoded into the field.
\<close>

definition blocked_integration :: Integration where
  "blocked_integration = sample_integration ''i3'' ''working'' []"

definition blocked_state :: State where
  "blocked_state = zero_State\<lparr>stProducts := stProducts sample_state,
     stFeatures := [sample_feature\<lparr>fStatus := ''active''\<rparr>], stIntegrations := [blocked_integration],
     stMemories := [zero_Memory\<lparr>memMeta := (sample_meta ''m1'')\<lparr>mFeatureID := ''f1''\<rparr>, memKind := ''blocker'',
       memStatus := ''open''\<rparr>]\<rparr>"

definition long_s_command :: Command where
  "long_s_command = (sample_command ''update_integration'' [(long_s @ ''tatus'', JStr ''released'')])
     \<lparr>cIntegrationID := ''i3''\<rparr>"

text \<open>The handler accepts an \<open>update_integration\<close> command whose only key is \<open>status\<close>
  written with the long s and sets the status to released: an integration with an open blocker,
  which is not ready and has no transition to released, is recorded as released.\<close>

theorem long_s_sets_status:
  "\<exists>out st'. apply_command sample_parts (sample_ctx ''e1'', long_s_command) blocked_state = Inr (out, st') \<and>
     map iStatus (stIntegrations blocked_state) = [''working''] \<and>
     map iStatus (stIntegrations st') = [''released''] \<and>
     readiness blocked_state blocked_integration \<noteq> Inr () \<and>
     \<not> can_transition ''integration'' ''working'' ''released''"
proof -
  let ?r = "apply_command sample_parts (sample_ctx ''e1'', long_s_command) blocked_state"
  have "\<not> isl ?r" by code_simp
  note run = succeeds [OF this]
  have "map iStatus (stIntegrations (state_after ?r)) = [''released'']"
    "map iStatus (stIntegrations blocked_state) = [''working'']"
    "isl (readiness blocked_state blocked_integration)"
    "\<not> can_transition ''integration'' ''working'' ''released''"
    by code_simp+
  then show ?thesis using run by fastforce
qed

end
