(* ===== verification/ReleaseProperties.thy ===== *)
theory ReleaseProperties
  imports CommandProperties
begin

text \<open>
  The properties of the commands on releases and environments: what a planned release may contain,
  what recording a release leaves alone, and the selection counter and names of environments.
\<close>

section \<open>Planned releases\<close>

lemma plan_snapshots_ok:
  "plan_snapshots st p ids is = Inr ws \<Longrightarrow>
     map (integration st) is = map Some ws \<and>
     (\<forall>w\<in>set ws. mProductID (iMeta w) = p \<and> finished w \<and> readiness st w = Inr () \<and>
        (\<forall>d\<in>set (iDependencies w). \<exists>u. integration st d = Some u \<and> (iStatus u = ''released'' \<or> d \<in> set ids)))"
proof (induction "is" arbitrary: ws)
  case (Cons i "is")
  from Cons.prems obtain w us where w: "integration st i = Some w" "plan_snapshots st p ids is = Inr us" "ws = w # us"
    and ok: "mProductID (iMeta w) = p" "finished w" "readiness st w = Inr ()"
      "each (unreleased_excluded st ids) (iDependencies w) = Inr ()"
    by (auto simp: chain_simps finished_def split: option.splits sum.splits)
  have "\<exists>u. integration st d = Some u \<and> (iStatus u = ''released'' \<or> d \<in> set ids)"
    if "d \<in> set (iDependencies w)" for d
    using ok(4) that by (auto simp: each_ok unreleased_excluded_def split: option.splits)
  then show ?case using w ok Cons.IH [OF w(2)] by simp
qed simp

lemma no_panic_readiness: "no_panic (readiness st v)"
  unfolding readiness_def gate_commits_match_def
  by (intro no_panic_chain ballI) (auto simp: reject_def chain.simps intro!: no_panic_each no_panic_chain
      split: option.splits if_splits sum.splits)

lemma no_panic_reject: "\<not> is_panic e \<Longrightarrow> no_panic (reject b e)"
  by (simp add: reject_def)

lemma ready_dependencies_no_panic:
  assumes "readiness st w = Inr ()"
  shows "no_panic (each (unreleased_excluded st ids) (iDependencies w))"
proof (intro no_panic_each ballI)
  fix d assume "d \<in> set (iDependencies w)"
  then obtain u where "integration st d = Some u" using assms by (auto simp: readiness_iff)
  then show "no_panic (unreleased_excluded st ids d)" by (simp add: unreleased_excluded_def no_panic_reject)
qed

lemma plan_snapshots_no_panic: "no_panic (plan_snapshots st p ids is)"
proof (induction "is")
  case (Cons i "is")
  show ?case
  proof (cases "integration st i")
    case (Some w)
    have "no_panic (chain
           [reject (mProductID (iMeta w) \<noteq> p) (invalid ''integration outside product'' []),
            reject (iStatus w \<noteq> ''ready'' \<and> iStatus w \<noteq> ''released'')
              (invalid ''release integration must be ready'' []),
            readiness st w, each (unreleased_excluded st ids) (iDependencies w)])"
    proof (cases "readiness st w")
      case (Inl e)
      then show ?thesis using no_panic_readiness [of st w] by (auto simp: chain.simps reject_def)
    next
      case (Inr u)
      then show ?thesis
        using ready_dependencies_no_panic [of st w ids]
        by (intro no_panic_chain) (simp add: no_panic_reject)
    qed
    then show ?thesis using Cons Some by (auto split: sum.splits)
  qed simp
qed simp

text \<open>A planned release is closed: its snapshots are the current rows of the integrations it
  names, all of its product, all ready or released with a readiness that holds, every dependency
  of each is released or part of the release, and the excluded integrations are not part of it.
  Planning changes no integration.\<close>

theorem planned_release_closed:
  assumes "plan_release c m st = Inr (OutRelease v, m', st')"
  shows "map (integration st) (relIntegrationIDs v) = map Some (relSnapshots v) \<and>
    (\<forall>w\<in>set (relSnapshots v). mProductID (iMeta w) = mProductID m \<and> finished w \<and> readiness st w = Inr () \<and>
       (\<forall>d\<in>set (iDependencies w). \<exists>u. integration st d = Some u \<and>
          (iStatus u = ''released'' \<or> d \<in> set (relIntegrationIDs v)))) \<and>
    set (relExcludedIntegrationIDs v) \<inter> set (relIntegrationIDs v) = {} \<and>
    stReleases st' = stReleases st @ [v] \<and> stIntegrations st' = stIntegrations st"
proof -
  from assms obtain u ws where u: "plan_snapshots st (mProductID m) (relIntegrationIDs u) (relIntegrationIDs u) = Inr ws"
      "each (excluded_ok st (mProductID m) (relIntegrationIDs u)) (relExcludedIntegrationIDs u) = Inr ()"
      "v = u\<lparr>relMeta := m, relStatus := ''planned'', relSnapshots := ws\<rparr>"
      "st' = st\<lparr>stReleases := stReleases st @ [v]\<rparr>"
    by (auto simp: plan_release_def Let_def split: if_splits sum.splits)
  have "set (relExcludedIntegrationIDs u) \<inter> set (relIntegrationIDs u) = {}"
    using u(2) by (auto simp: each_ok excluded_ok_def split: option.splits)
  then show ?thesis using plan_snapshots_ok [OF u(1)] u(3,4) by simp
qed

definition plan_command :: Command where
  "plan_command = (sample_command ''plan_release''
     [(''name'', JStr ''R1''), (''integration_ids'', JArr [JStr ''i2''])])\<lparr>cFeatureID := [], cProductID := ''p1''\<rparr>"

theorem planned_release_closed_witness:
  "\<exists>v m' st'. plan_release plan_command (sample_meta ''rel1'') sample_state = Inr (OutRelease v, m', st') \<and>
     relIntegrationIDs v = [''i2''] \<and> stReleases st' = [v] \<and>
     map Some (relSnapshots v) = [integration sample_state ''i2'']"
proof -
  let ?r = "plan_release plan_command (sample_meta ''rel1'') sample_state"
  have "(case ?r of Inr (OutRelease v, _) \<Rightarrow> relIntegrationIDs v = [''i2''] | _ \<Rightarrow> False)" by code_simp
  then obtain v m' st' where run: "?r = Inr (OutRelease v, m', st')" "relIntegrationIDs v = [''i2'']"
    by (auto split: sum.splits prod.splits outcome.splits)
  have "stReleases sample_state = []" by code_simp
  then show ?thesis using planned_release_closed [OF run(1)] run by auto
qed

text \<open>Planning dereferences the row of every dependency without a test for nil, and it never
  panics: the readiness evaluation before it has already rejected a missing dependency.\<close>

theorem plan_release_no_panic: "no_panic (plan_release c m st)"
proof -
  have ex: "no_panic (each (excluded_ok st p ids) is)" for p ids "is"
    by (intro no_panic_each) (simp add: excluded_ok_def no_panic_reject)
  have dec: "\<not> is_panic e" if "decode fields_Release (cData c) z = Inl e" for z e
    using that by (auto simp: decode_def split: option.splits)
  have snap: "\<not> is_panic e" if "plan_snapshots st p ids is = Inl e" for p ids "is" e
    using plan_snapshots_no_panic [of st p ids "is"] that by simp
  have excl: "\<not> is_panic e" if "each (excluded_ok st p ids) is = Inl e" for p ids "is" e
    using ex [of p ids "is"] that by simp
  show ?thesis
    by (auto simp: plan_release_def Let_def no_panic_def dec snap excl split: sum.splits)
qed

section \<open>Recorded releases\<close>

lemma record_snapshots_ok:
  "record_snapshots st p seen is = Inr ws \<Longrightarrow>
     distinct is \<and> set is \<inter> set seen = {} \<and> map (integration st) is = map Some ws \<and>
     (\<forall>w\<in>set ws. mProductID (iMeta w) = p)"
  by (induction "is" arbitrary: seen ws) (fastforce split: if_splits option.splits sum.splits)+

text \<open>Recording a release that was made elsewhere is a record only: it names distinct
  integrations and an environment of the product, snapshots their current rows, and is marked as
  recorded externally; no integration, feature, environment or operation changes.\<close>

theorem recorded_release_changes_nothing:
  assumes "record_release c m st = Inr (OutRelease v, m', st')"
  shows "distinct (relIntegrationIDs v) \<and> relRecordedExternally v \<and> relStatus v = ''released'' \<and>
    map (integration st) (relIntegrationIDs v) = map Some (relSnapshots v) \<and>
    (\<forall>w\<in>set (relSnapshots v). mProductID (iMeta w) = cProductID c) \<and>
    (\<exists>e. environment_by_id st (relEnvironmentID v) = Some e \<and> mProductID (eMeta e) = cProductID c) \<and>
    st' = st\<lparr>stReleases := stReleases st @ [v]\<rparr>"
proof -
  from assms obtain u ws where u: "record_snapshots st (cProductID c) [] (relIntegrationIDs u) = Inr ws"
      "release_environment st (relEnvironmentID u) (cProductID c) = Inr ()"
      "v = u\<lparr>relMeta := m\<lparr>mProductID := cProductID c\<rparr>, relStatus := ''released'', relRecordedExternally := True,
        relSnapshots := ws\<rparr>"
      "st' = st\<lparr>stReleases := stReleases st @ [v]\<rparr>"
    by (auto simp: record_release_def Let_def chain_simps split: if_splits sum.splits)
  moreover have "\<exists>e. environment_by_id st (relEnvironmentID u) = Some e \<and> mProductID (eMeta e) = cProductID c"
    using u(2) by (auto simp: release_environment_def split: option.splits)
  ultimately show ?thesis using record_snapshots_ok [OF u(1)] by simp
qed

definition sample_environment :: Environment where
  "sample_environment = zero_Environment\<lparr>eMeta := sample_meta ''e1'', eName := ''Prod'', eCluster := ''k1'',
     eNamespace := ''n1'', eDesiredCompositionID := ''comp'', eSelectionGeneration := 7\<rparr>"

definition deployed_state :: State where
  "deployed_state = sample_state\<lparr>stEnvironments := [sample_environment]\<rparr>"

definition record_command :: Command where
  "record_command = (sample_command ''record_release''
     [(''name'', JStr ''R1''), (''environment_id'', JStr ''e1''), (''integration_ids'', JArr [JStr ''i1'', JStr ''i2''])])
     \<lparr>cFeatureID := [], cProductID := ''p1''\<rparr>"

theorem recorded_release_changes_nothing_witness:
  "\<exists>v m' st'. record_release record_command (sample_meta ''rel1'') deployed_state = Inr (OutRelease v, m', st') \<and>
     map Some (relSnapshots v) = map (integration deployed_state) (relIntegrationIDs v) \<and>
     stIntegrations st' = stIntegrations deployed_state"
proof -
  let ?r = "record_release record_command (sample_meta ''rel1'') deployed_state"
  have "(case ?r of Inr (OutRelease v, _) \<Rightarrow> True | _ \<Rightarrow> False)" by code_simp
  then obtain v m' st' where run: "?r = Inr (OutRelease v, m', st')"
    by (auto split: sum.splits prod.splits outcome.splits)
  then show ?thesis using recorded_release_changes_nothing [OF run] by auto
qed

section \<open>The selection of an environment\<close>

text \<open>No field of an environment other than \<open>selection_generation\<close> writes the counter.\<close>

lemma generation_fields:
  "(n, d) \<in> set fields_Environment \<Longrightarrow> n \<noteq> ''selection_generation'' \<Longrightarrow> keeps_part eSelectionGeneration d"
  by (auto simp: fields_Environment_def lift_fields_def keeps_part_def field_def split: option.splits)

lemma environment_names: "(n, d) \<in> set fields_Environment \<Longrightarrow> fold_name n = n"
proof -
  have "list_all (\<lambda>n. fold_name n = n) (map fst fields_Environment)" by code_simp
  then show "(n, d) \<in> set fields_Environment \<Longrightarrow> fold_name n = n" by (force simp: list_all_iff)
qed

lemma guarded_key: "envelope_guard c = Inr () \<Longrightarrow> k \<in> set server_keys \<Longrightarrow> \<not> has_key (cData c) k"
  by (auto simp: envelope_guard_def chain_simps each_ok)

lemma decode_generation:
  assumes "plain_keys c" "envelope_guard c = Inr ()" "decode fields_Environment (cData c) old = Inr v"
  shows "eSelectionGeneration v = eSelectionGeneration old"
proof (rule decode_keeps [OF _ assms(3)])
  fix n d
  assume n: "(n, d) \<in> set fields_Environment" "fold_name n \<in> fold_name ` fst ` set (cData c)"
  then obtain k where k: "k \<in> fst ` set (cData c)" "fold_name n = fold_name k" by blast
  then have "n = k" using plain_keys_fold [OF assms(1,2)] environment_names n(1) by metis
  moreover have "\<not> has_key (cData c) ''selection_generation''"
    by (rule guarded_key [OF assms(2)]) (simp add: server_keys_def)
  ultimately have "n \<noteq> ''selection_generation''" using k(1) has_key_iff by metis
  then show "keeps_part eSelectionGeneration d" using n(1) generation_fields by blast
qed

text \<open>Moving an environment to another cluster or namespace withdraws its selection and
  advances the selection counter by exactly one, as an integer: the 64-bit counter never wraps, it
  is refused at its maximum. Without a move an update leaves the counter alone.\<close>

theorem selection_generation_advances:
  assumes "update_environment p x c st = Inr (OutEnvironment v, m', st')"
    and "find_last (\<lambda>e. mID (eMeta e) = cID c) (stEnvironments st) = Some old"
    and "plain_keys c" and "envelope_guard c = Inr ()"
  shows "uint (eSelectionGeneration v) = uint (eSelectionGeneration old) +
      (if eCluster v \<noteq> eCluster old \<or> eNamespace v \<noteq> eNamespace old then 1 else 0) \<and>
    (eCluster v \<noteq> eCluster old \<or> eNamespace v \<noteq> eNamespace old \<longrightarrow>
      eDesiredCompositionID v = [] \<and> eDesiredOperationID v = [] \<and>
      selection_allowed p (ctxStepNow x) st (mID (eMeta old)) = Inr ())"
proof -
  from assms(1,2) obtain u w m where u: "decode fields_Environment (cData c) old = Inr u"
      "w = trim_environment (u\<lparr>eMeta := m\<rparr>)" "reselect p (ctxStepNow x) st old w = Inr v"
    by (auto simp: update_environment_def Let_def split: sum.splits)
  have g: "eSelectionGeneration w = eSelectionGeneration old"
    using decode_generation [OF assms(3,4) u(1)] u(2) by (simp add: trim_environment_def)
  show ?thesis
    using u(3) g uint_Suc [of "eSelectionGeneration w"]
    by (auto simp: reselect_def advance_selection_def split: if_splits sum.splits)
qed

definition move_command :: Command where
  "move_command = (sample_command ''update_environment'' [(''cluster'', JStr ''k2'')])\<lparr>cID := ''e1''\<rparr>"

theorem selection_generation_advances_witness:
  "\<exists>v m' st'. update_environment sample_parts (sample_ctx ''z'') move_command deployed_state
       = Inr (OutEnvironment v, m', st') \<and>
     uint (eSelectionGeneration v) = 8 \<and> eDesiredCompositionID v = []"
proof -
  let ?r = "update_environment sample_parts (sample_ctx ''z'') move_command deployed_state"
  have "(case ?r of Inr (OutEnvironment v, _) \<Rightarrow> eCluster v = ''k2'' | _ \<Rightarrow> False)" by code_simp
  then obtain v m' st' where run: "?r = Inr (OutEnvironment v, m', st')" "eCluster v = ''k2''"
    by (auto split: sum.splits prod.splits outcome.splits)
  have look: "find_last (\<lambda>e. mID (eMeta e) = cID move_command) (stEnvironments deployed_state) = Some sample_environment"
    by code_simp
  have pl: "plain_keys move_command" by code_simp
  have "\<not> isl (envelope_guard move_command)" by code_simp
  then have guard: "envelope_guard move_command = Inr ()" by (cases "envelope_guard move_command") auto
  have "eCluster sample_environment = ''k1''" "eSelectionGeneration sample_environment = 7"
    by (simp_all add: sample_environment_def)
  then show ?thesis
    using selection_generation_advances [OF run(1) look pl guard] run by auto
qed

section \<open>Names of environments\<close>

definition names_unique :: "State \<Rightarrow> bool" where
  "names_unique st \<longleftrightarrow> (\<forall>a\<in>set (stEnvironments st). \<forall>b\<in>set (stEnvironments st).
     mID (eMeta a) \<noteq> mID (eMeta b) \<longrightarrow> mProductID (eMeta a) = mProductID (eMeta b) \<longrightarrow>
     \<not> equal_fold (trim_space (eName a)) (trim_space (eName b)))"

lemma environment_named_ok:
  assumes "environment_named st v = Inr ()" and "eName v = trim_space (eName v)"
    and "a \<in> set (stEnvironments st)" "mID (eMeta a) \<noteq> mID (eMeta v)" "mProductID (eMeta a) = mProductID (eMeta v)"
  shows "\<not> equal_fold (trim_space (eName a)) (trim_space (eName v))"
  using assms by (auto simp: environment_named_def chain_simps each_ok)

lemma names_unique_insert:
  assumes "names_unique st" and "environment_named st v = Inr ()" and "eName v = trim_space (eName v)"
    and "set (stEnvironments st') \<subseteq> insert w (set (stEnvironments st))"
    and "mID (eMeta w) = mID (eMeta v)" "mProductID (eMeta w) = mProductID (eMeta v)" "eName w = eName v"
  shows "names_unique st'"
  unfolding names_unique_def
proof (intro ballI impI)
  fix a b
  assume ab: "a \<in> set (stEnvironments st')" "b \<in> set (stEnvironments st')"
    "mID (eMeta a) \<noteq> mID (eMeta b)" "mProductID (eMeta a) = mProductID (eMeta b)"
  have new: "\<not> equal_fold (trim_space (eName y)) (trim_space (eName w))"
    if "y \<in> set (stEnvironments st)" "mID (eMeta y) \<noteq> mID (eMeta w)" "mProductID (eMeta y) = mProductID (eMeta w)" for y
    using environment_named_ok [OF assms(2,3) that(1)] that assms(5-7) by simp
  consider "a = w" "b = w" | "a = w" "b \<in> set (stEnvironments st)" | "b = w" "a \<in> set (stEnvironments st)"
    | "a \<in> set (stEnvironments st)" "b \<in> set (stEnvironments st)"
    using ab(1,2) assms(4) by blast
  then show "\<not> equal_fold (trim_space (eName a)) (trim_space (eName b))"
  proof cases
    case 2
    then show ?thesis using new [of b] ab(3,4) equal_fold_sym by metis
  next
    case 3
    then show ?thesis using new [of a] ab(3,4) by metis
  next
    case 4
    then show ?thesis using ab(3,4) assms(1) unfolding names_unique_def by blast
  qed (use ab in simp)
qed

lemma update_last_set: "y \<in> set (update_last P f xs) \<Longrightarrow> y \<in> set xs \<or> (\<exists>x. find_last P xs = Some x \<and> y = f x)"
  using set_update_first [of y P f "rev xs"] by (simp add: update_last_def find_last_def)

lemma create_environment_names:
  assumes "create_environment c m st = Inr (out, m', st')" and "names_unique st"
  shows "names_unique st'"
proof -
  from assms(1) obtain v where v: "environment_named st (trim_environment v) = Inr ()"
      "st' = st\<lparr>stEnvironments := stEnvironments st @ [trim_environment v]\<rparr>"
    by (auto simp: create_environment_def Let_def split: if_splits sum.splits)
  show ?thesis
    by (rule names_unique_insert [OF assms(2) v(1), where w = "trim_environment v"])
      (auto simp: v(2) trim_environment_def)
qed

lemma update_environment_names:
  assumes "update_environment p x c st = Inr (out, m', st')" and "names_unique st"
  shows "names_unique st'"
proof -
  from assms(1) obtain old u w where v: "environment_named st (trim_environment u) = Inr ()"
      "reselect p (ctxStepNow x) st old (trim_environment u) = Inr w"
      "st' = st\<lparr>stEnvironments := update_last (\<lambda>e. mID (eMeta e) = cID c) (\<lambda>_. w) (stEnvironments st)\<rparr>"
    by (auto simp: update_environment_def Let_def split: option.splits sum.splits)
  have w: "eMeta w = eMeta (trim_environment u)" "eName w = eName (trim_environment u)"
    using v(2) by (auto simp: reselect_def advance_selection_def split: if_splits sum.splits)
  show ?thesis
    by (rule names_unique_insert [OF assms(2) v(1), where w = w])
      (use w in \<open>auto simp: v(3) trim_environment_def dest!: update_last_set\<close>)
qed

lemma handler_environments:
  "classify_repository x c m st = Inr (out, m', st') \<Longrightarrow> stEnvironments st' = stEnvironments st"
  "create_product c m st = Inr (out, m', st') \<Longrightarrow> stEnvironments st' = stEnvironments st"
  "create_feature c m st = Inr (out, m', st') \<Longrightarrow> stEnvironments st' = stEnvironments st"
  "resolve_blocker c m st = Inr (out, m', st') \<Longrightarrow> stEnvironments st' = stEnvironments st"
  "create_gate c m st = Inr (out, m', st') \<Longrightarrow> stEnvironments st' = stEnvironments st"
  "add_check c m st = Inr (out, m', st') \<Longrightarrow> stEnvironments st' = stEnvironments st"
  "record_check_result c m st = Inr (out, m', st') \<Longrightarrow> stEnvironments st' = stEnvironments st"
  "record_finding c m st = Inr (out, m', st') \<Longrightarrow> stEnvironments st' = stEnvironments st"
  "resolve_finding c m st = Inr (out, m', st') \<Longrightarrow> stEnvironments st' = stEnvironments st"
  "create_repository c m st = Inr (out, m', st') \<Longrightarrow> stEnvironments st' = stEnvironments st"
  "plan_release c m st = Inr (out, m', st') \<Longrightarrow> stEnvironments st' = stEnvironments st"
  "record_release c m st = Inr (out, m', st') \<Longrightarrow> stEnvironments st' = stEnvironments st"
  by (auto simp: quiet_steps create_feature_def Let_def split: if_splits option.splits sum.splits)

lemma write_environments [simp]:
  "stEnvironments (write_feature v st) = stEnvironments st"
  "stEnvironments (write_integration w st) = stEnvironments st"
  "stEnvironments (reopen_parent i t st) = stEnvironments st"
  by (auto simp: write_feature_def write_integration_def reopen_parent_def split: option.splits)

lemma update_feature_environments:
  "update_feature x c st = Inr (out, m', st') \<Longrightarrow> stEnvironments st' = stEnvironments st"
  by (auto simp: update_feature_def Let_def split: option.splits sum.splits)

lemma integration_environments:
  "create_integration c m st = Inr (out, m', st') \<Longrightarrow> stEnvironments st' = stEnvironments st"
  "update_integration x c st = Inr (out, m', st') \<Longrightarrow> stEnvironments st' = stEnvironments st"
  "transition_integration x c m st = Inr (out, m', st') \<Longrightarrow> stEnvironments st' = stEnvironments st"
  by (auto simp: create_integration_def update_integration_def transition_integration_def Let_def
      split: if_splits option.splits sum.splits)

lemma progress_environments: "progress c m v st = Inr s \<Longrightarrow> stEnvironments s = stEnvironments st"
  by (auto simp: progress_def split: if_splits option.splits)

lemma memory_environments:
  "record_memory c m st = Inr (out, m', st') \<Longrightarrow> stEnvironments st' = stEnvironments st"
  by (auto simp: record_memory_def Let_def dest: progress_environments split: if_splits sum.splits)

lemma names_cong: "stEnvironments s = stEnvironments t \<Longrightarrow> names_unique s = names_unique t"
  by (simp add: names_unique_def)

lemma core_step_names:
  assumes "core_step p x c m st = Inr (out, m', st')" and "names_unique st"
  shows "names_unique st'"
proof -
  have "stEnvironments st' = stEnvironments st \<or> create_environment c m st = Inr (out, m', st') \<or>
      update_environment p x c st = Inr (out, m', st')"
    using assms(1) unfolding core_step_def Let_def
    by (auto split: if_splits dest: handler_environments update_feature_environments integration_environments
        memory_environments)
  then show ?thesis
    using assms(2) names_cong create_environment_names update_environment_names by blast
qed

definition any_core :: "Ctx \<times> Command \<Rightarrow> State \<Rightarrow> bool" where
  "any_core xc st \<longleftrightarrow> cAction (snd xc) \<in> core_actions"

interpretation names: transactional "apply_command p" any_core names_unique for p
proof
  fix s xc out t
  assume inv: "names_unique s" and core: "any_core xc s" and run: "apply_command p xc s = Inr (out, t)"
  obtain x c where xc: "xc = (x, c)" by force
  obtain c' out' m' st1 where
    c': "envelope_guard c = Inr ()" "reservation_command_allowed p s c = Inr ()" "resolve_scope s c = Inr c'"
      "id_guard s c' = Inr ()" "core_step p x c' (meta x c') s = Inr (out', m', st1)"
      "t = snd (finish x (length (stOperations s)) c' (out', m', st1, True))"
    by (rule apply_core [OF run [unfolded xc]]) (use core xc in \<open>auto simp: any_core_def\<close>)
  show "names_unique t" using core_step_names [OF c'(5) inv] c'(6) by (simp add: names_unique_def)
qed

text \<open>Names of environments stay unique in a product up to letter case and surrounding space,
  along every run of core commands, whatever data they carry.\<close>

theorem environment_names_unique:
  assumes "names_unique st" and "run_ok (apply_command p) any_core st cs"
  shows "names_unique (run_all (apply_command p) st cs)"
  using assms by (rule names.run_keeps)

definition name_run :: "(Ctx \<times> Command) list" where
  "name_run =
     [(sample_ctx ''x1'', (sample_command ''create_environment'' [(''name'', JStr '' prod '')])
         \<lparr>cFeatureID := [], cProductID := ''p1''\<rparr>),
      (sample_ctx ''x2'', (sample_command ''create_environment'' [(''name'', JStr ''Stage'')])
         \<lparr>cFeatureID := [], cProductID := ''p1''\<rparr>)]"

theorem environment_names_unique_witness:
  "names_unique (run_all (apply_command sample_parts) deployed_state name_run) \<and>
   map eName (stEnvironments (run_all (apply_command sample_parts) deployed_state name_run)) = [''Prod'', ''Stage'']"
proof
  have "names_unique deployed_state" by (simp add: names_unique_def deployed_state_def)
  moreover have "run_ok (apply_command sample_parts) any_core deployed_state name_run" by code_simp
  ultimately show "names_unique (run_all (apply_command sample_parts) deployed_state name_run)"
    by (rule environment_names_unique)
  show "map eName (stEnvironments (run_all (apply_command sample_parts) deployed_state name_run)) = [''Prod'', ''Stage'']"
    by code_simp
qed

end
