(* ===== verification/Lifecycle.thy ===== *)
theory Lifecycle
  imports DomainModel "HOL-Library.Multiset"
begin

text \<open>
  \<open>internal/domain/lifecycle.go\<close>: the target contracts of the incremental lifecycle, with the
  evidence they require. A Go string type with constants (\<open>DeploymentState\<close>,
  \<open>ArtifactAvailability\<close>, \<open>ConflictState\<close>) stays a string, since any string can be stored
  in such a field; the constants used by the functions are definitions.
\<close>

section \<open>Data\<close>

definition artifact_unknown :: string where "artifact_unknown = ''unknown''"

definition artifact_present :: string where "artifact_present = ''present''"

definition artifact_missing :: string where "artifact_missing = ''missing''"

definition artifact_deleted :: string where "artifact_deleted = ''deleted''"

definition conflict_verification_required :: string where
  "conflict_verification_required = ''verification_required''"

definition deployment_verifying :: string where "deployment_verifying = ''verifying''"

definition deployment_deployed :: string where "deployment_deployed = ''deployed''"

lemmas lifecycle_constants =
  artifact_unknown_def artifact_present_def artifact_missing_def artifact_deleted_def
  conflict_verification_required_def deployment_verifying_def deployment_deployed_def

record BranchState =
  bsProductID :: string
  bsRepositoryID :: string
  bsBranch :: string
  bsHeadCommit :: string
  bsMainBranch :: string
  bsMainCommit :: string
  bsBaseCommit :: string
  bsAhead :: int
  bsBehind :: int
  bsKnown :: bool
  bsFastForwardAncestryVerified :: bool
  bsObservedAt :: time


record ConflictSide =
  csRevisionID :: string
  csIntegrationID :: string
  csComponentID :: string
  csRepositoryID :: string
  csBaseCommit :: string
  csHeadCommit :: string


record ConflictHunkVersion =
  hvRevisionID :: string
  hvCommit :: string
  hvText :: string


record ConflictHunk =
  huPath :: string
  huBaseCommit :: string
  huBase :: string
  huVersions :: "ConflictHunkVersion list"


record ConflictSemanticSnapshot =
  cssBlockers :: "Memory list"
  cssFeatures :: "Feature list"
  cssIntegrations :: "Integration list"
  cssDecisions :: "Memory list"
  cssDiscoveries :: "Memory list"
  cssChecks :: "Check list"
  cssResults :: "CheckResult list"
  cssHunks :: "ConflictHunk list"


record ConflictResolution =
  crActor :: string
  crCommit :: string
  crRationale :: string
  crRecordedAt :: time
  crVerificationResultIDs :: "string list"
  crVerifiedCommit :: string
  crVerifiedAt :: "time option"


record IntegrationConflict =
  icConflictingPaths :: "string list"
  icID :: string
  icProductID :: string
  icCompositionID :: string
  icRepositoryID :: string
  icSides :: "ConflictSide list"
  icContext :: ConflictSemanticSnapshot
  icState :: string
  icClaimedBy :: string
  icClaimedAt :: "time option"
  icResolution :: "ConflictResolution option"
  icCreatedAt :: time


record DigestReference =
  drName :: string
  drDigest :: string


record SecretReference =
  srStore :: string
  srKey :: string
  srVersion :: string


record ArtifactProvenance =
  apProductID :: string
  apComponentID :: string
  apRepositoryID :: string
  apSourceCommit :: string
  apCompositionID :: string
  apBuildDefinitionID :: string
  apBuildDefinitionCommit :: string
  apCIConnectionID :: string
  apWorkflow :: string
  apBuildRunID :: string
  apParameters :: "(string \<times> string) list"
  apSecretReferences :: "SecretReference list"
  apBaseImages :: "DigestReference list"
  apLockfiles :: "DigestReference list"
  apOriginalDigest :: string


record ArtifactObservation =
  aoAvailability :: string
  aoObservedAt :: time
  aoConnectionID :: string
  aoDetail :: string


record RebuildAssessment =
  rasGuarantee :: string
  rasAssessedAt :: time
  rasEvidenceReferences :: "string list"


record ArtifactRecord =
  arecID :: string
  arecURI :: string
  arecDigest :: string
  arecProvenance :: ArtifactProvenance
  arecRebuiltFromArtifactID :: string
  arecCreatedAt :: time
  arecObservation :: ArtifactObservation
  arecRebuild :: RebuildAssessment


record DeploymentEvidence =
  deArtifactDigest :: string
  deGitOpsCommit :: string
  deFluxObservedCommit :: string
  deRuntimeDigest :: string
  deVerifiedDigest :: string
  deArtifactObservedAt :: time
  deFluxObservedAt :: time
  deRuntimeObservedAt :: time
  deVerifiedAt :: time
  deArtifactAvailability :: string
  deFluxReady :: bool
  deRuntimeHealthy :: bool
  deVerificationResultIDs :: "string list"


record ComponentDeploymentOutcome =
  cdComponentID :: string
  cdArtifactID :: string
  cdState :: string
  cdEvidence :: DeploymentEvidence
  cdFailureReason :: string


record DeploymentRun =
  dpRequiredComponentIDs :: "string list"
  dpID :: string
  dpProductID :: string
  dpEnvironmentID :: string
  dpCompositionID :: string
  dpOperationID :: string
  dpState :: string
  dpComponents :: "ComponentDeploymentOutcome list"
  dpCreatedAt :: time
  dpFinishedAt :: "time option"


record BranchPolicy =
  bpAllowAutomaticFastForward :: bool
  bpAllowAutomaticMerge :: bool
  bpAllowRebase :: bool
  bpAllowForceUpdate :: bool
  bpAllowDelete :: bool
  bpGeneratedPrefix :: string


record BuildPolicy =
  bpoRebuildMissingArtifact :: bool
  bpoRequirePinnedInputs :: bool
  bpoRequireDigest :: bool


record DeploymentPolicy =
  dpoAllowAutomaticNonProduction :: bool
  dpoAllowAutomaticProduction :: bool
  dpoRequireApproval :: bool
  dpoRequireFluxReady :: bool
  dpoRequireRuntimeHealthy :: bool
  dpoRequireVerification :: bool


record LifecyclePolicy =
  lpBranch :: BranchPolicy
  lpBuild :: BuildPolicy
  lpDeployment :: DeploymentPolicy


record RebuildReplacementApproval =
  rraProductID :: string
  rraOriginalArtifactID :: string
  rraRebuiltArtifactID :: string
  rraRequestedDigest :: string
  rraRebuiltDigest :: string
  rraPreviousPlanID :: string
  rraReplacementPlanID :: string
  rraApprovedBy :: string
  rraApprovedAt :: time


section \<open>Branches and artifacts\<close>

definition fast_forward_eligible :: "BranchState \<Rightarrow> bool" where
  "fast_forward_eligible b \<longleftrightarrow>
     bsKnown b \<and> bsFastForwardAncestryVerified b \<and> bsAhead b = 0 \<and> bsBehind b > 0 \<and>
     bsHeadCommit b \<noteq> [] \<and> bsMainCommit b \<noteq> [] \<and> bsObservedAt b \<noteq> zero_time"

definition valid_digest_identity :: "ArtifactRecord \<Rightarrow> bool" where
  "valid_digest_identity a \<longleftrightarrow>
     sha256_digest (arecDigest a) \<and> apOriginalDigest (arecProvenance a) = arecDigest a"

definition current_availability :: "ArtifactRecord \<Rightarrow> string" where
  "current_availability a =
     (if aoObservedAt (arecObservation a) = zero_time then artifact_unknown
      else if aoAvailability (arecObservation a) \<in> {artifact_present, artifact_missing, artifact_deleted}
      then aoAvailability (arecObservation a)
      else artifact_unknown)"

section \<open>Deployment\<close>

fun evidence_ids_from :: "string list \<Rightarrow> string list \<Rightarrow> bool" where
  "evidence_ids_from seen [] = True"
| "evidence_ids_from seen (i # ids) =
     (if trim_space i = [] \<or> i \<in> set seen then False else evidence_ids_from (i # seen) ids)"

definition valid_evidence_ids :: "string list \<Rightarrow> bool" where
  "valid_evidence_ids ids = (if length ids = 0 then False else evidence_ids_from [] ids)"

definition valid_for_deployment :: "DeploymentEvidence \<Rightarrow> bool" where
  "valid_for_deployment e \<longleftrightarrow>
     sha256_digest (deArtifactDigest e) \<and> deArtifactAvailability e = artifact_present \<and>
     deArtifactObservedAt e \<noteq> zero_time \<and> deGitOpsCommit e \<noteq> [] \<and>
     deFluxObservedCommit e = deGitOpsCommit e \<and> deFluxReady e \<and> deFluxObservedAt e \<noteq> zero_time \<and>
     deRuntimeDigest e = deArtifactDigest e \<and> deRuntimeHealthy e \<and> deRuntimeObservedAt e \<noteq> zero_time \<and>
     deVerifiedDigest e = deArtifactDigest e \<and> valid_evidence_ids (deVerificationResultIDs e) \<and>
     deVerifiedAt e \<noteq> zero_time"

fun required_ids :: "string list \<Rightarrow> string list \<Rightarrow> string list result" where
  "required_ids required [] = Inr required"
| "required_ids required (i # ids) =
     (if i = [] \<or> i \<in> set required then Inl (GoError ''required component IDs must be nonempty and unique'')
      else required_ids (i # required) ids)"

fun component_outcomes :: "string list \<Rightarrow> string list \<Rightarrow> ComponentDeploymentOutcome list \<Rightarrow> unit result" where
  "component_outcomes required seen [] = Inr ()"
| "component_outcomes required seen (c # cs) =
     (if cdComponentID c \<notin> set required \<or> cdComponentID c = [] \<or> cdArtifactID c = [] \<or>
         cdComponentID c \<in> set seen \<or>
         (cdState c \<noteq> deployment_verifying \<and> cdState c \<noteq> deployment_deployed) \<or>
         \<not> valid_for_deployment (cdEvidence c)
      then Inl (GoError
        ''every unique component requires pinned artifact, GitOps, Flux, runtime and verification evidence'')
      else component_outcomes required (cdComponentID c # seen) cs)"

definition validate_deployed_transition :: "DeploymentRun \<Rightarrow> unit result" where
  "validate_deployed_transition d =
     (if dpState d \<noteq> deployment_verifying \<or> length (dpRequiredComponentIDs d) = 0 \<or>
         length (dpComponents d) \<noteq> length (dpRequiredComponentIDs d)
      then Inl (GoError ''deployment must be verifying with component outcomes'')
      else case required_ids [] (dpRequiredComponentIDs d) of
        Inl e \<Rightarrow> Inl e
      | Inr required \<Rightarrow> component_outcomes required [] (dpComponents d))"

section \<open>Policies and conflicts\<close>

definition conservative_lifecycle_policy :: LifecyclePolicy where
  "conservative_lifecycle_policy =
     \<lparr>lpBranch = \<lparr>bpAllowAutomaticFastForward = False, bpAllowAutomaticMerge = False,
        bpAllowRebase = False, bpAllowForceUpdate = False, bpAllowDelete = False,
        bpGeneratedPrefix = ''generated/''\<rparr>,
      lpBuild = \<lparr>bpoRebuildMissingArtifact = False, bpoRequirePinnedInputs = True,
        bpoRequireDigest = True\<rparr>,
      lpDeployment = \<lparr>dpoAllowAutomaticNonProduction = False, dpoAllowAutomaticProduction = False,
        dpoRequireApproval = True, dpoRequireFluxReady = True, dpoRequireRuntimeHealthy = True,
        dpoRequireVerification = True\<rparr>\<rparr>"

definition valid_replacement :: "RebuildReplacementApproval \<Rightarrow> bool" where
  "valid_replacement r \<longleftrightarrow>
     sha256_digest (rraRequestedDigest r) \<and> sha256_digest (rraRebuiltDigest r) \<and>
     rraRequestedDigest r \<noteq> rraRebuiltDigest r \<and> rraProductID r \<noteq> [] \<and>
     rraOriginalArtifactID r \<noteq> [] \<and> rraRebuiltArtifactID r \<noteq> [] \<and>
     rraOriginalArtifactID r \<noteq> rraRebuiltArtifactID r \<and> rraPreviousPlanID r \<noteq> [] \<and>
     rraReplacementPlanID r \<noteq> [] \<and> rraPreviousPlanID r \<noteq> rraReplacementPlanID r \<and>
     rraApprovedBy r \<noteq> [] \<and> rraApprovedAt r \<noteq> zero_time"

text \<open>The inner loop of \<open>ValidateResolvedTransition\<close>.\<close>

definition passing_result :: "IntegrationConflict \<Rightarrow> ConflictResolution \<Rightarrow> string \<Rightarrow> CheckResult \<Rightarrow> bool" where
  "passing_result c res i v \<longleftrightarrow>
     mID (rMeta v) = i \<and> mProductID (rMeta v) = icProductID c \<and> rResult v = ''passed'' \<and>
     rCommit v = crCommit res"

definition validate_resolved_transition :: "IntegrationConflict \<Rightarrow> CheckResult list \<Rightarrow> unit result" where
  "validate_resolved_transition c results =
     (case icResolution c of
        None \<Rightarrow> Inl (GoError ''conflict resolution requires attributed commit and verification'')
      | Some res \<Rightarrow>
          (if icState c \<noteq> conflict_verification_required \<or> crActor res = [] \<or> crCommit res = [] \<or>
              crVerifiedCommit res \<noteq> crCommit res \<or> crVerifiedAt res = None \<or>
              crVerifiedAt res = Some zero_time \<or> \<not> valid_evidence_ids (crVerificationResultIDs res)
           then Inl (GoError ''conflict resolution requires attributed commit and verification'')
           else each (\<lambda>i. if list_ex (passing_result c res i) results then Inr ()
                 else Inl (GoError ''resolution check must pass on the exact resolution commit''))
               (crVerificationResultIDs res)))"

section \<open>What the loops compute\<close>

lemma evidence_ids_from_iff:
  "evidence_ids_from seen ids \<longleftrightarrow>
     distinct ids \<and> set ids \<inter> set seen = {} \<and> (\<forall>i\<in>set ids. trim_space i \<noteq> [])"
  by (induction ids arbitrary: seen) auto

lemma valid_evidence_ids_iff:
  "valid_evidence_ids ids \<longleftrightarrow> ids \<noteq> [] \<and> distinct ids \<and> (\<forall>i\<in>set ids. trim_space i \<noteq> [])"
  by (auto simp: valid_evidence_ids_def evidence_ids_from_iff)

lemma required_ids_iff:
  "required_ids required ids = Inr out \<longleftrightarrow>
     out = rev ids @ required \<and> distinct ids \<and> set ids \<inter> set required = {} \<and> [] \<notin> set ids"
  by (induction ids arbitrary: required) auto

definition outcome_ok :: "ComponentDeploymentOutcome \<Rightarrow> bool" where
  "outcome_ok c \<longleftrightarrow>
     cdArtifactID c \<noteq> [] \<and> (cdState c = deployment_verifying \<or> cdState c = deployment_deployed) \<and>
     valid_for_deployment (cdEvidence c)"

lemma component_outcomes_iff:
  "component_outcomes required seen cs = Inr u \<longleftrightarrow>
     set (map cdComponentID cs) \<subseteq> set required - {[]} - set seen \<and>
     distinct (map cdComponentID cs) \<and> list_all outcome_ok cs"
proof (induction cs arbitrary: seen)
  case (Cons c cs)
  have "set (map cdComponentID (c # cs)) \<subseteq> set required - {[]} - set seen \<and>
      distinct (map cdComponentID (c # cs)) \<longleftrightarrow>
      cdComponentID c \<in> set required - {[]} - set seen \<and> distinct (map cdComponentID cs) \<and>
      set (map cdComponentID cs) \<subseteq> set required - {[]} - set (cdComponentID c # seen)"
    by (simp add: subset_Diff_insert) blast
  then show ?case using Cons by (auto simp: outcome_ok_def)
qed simp

lemma same_ids_permutation:
  assumes "distinct xs" "distinct ys" "length xs = length ys" "set xs \<subseteq> set ys"
  shows "mset xs = mset ys"
proof -
  have "card (set xs) = card (set ys)" using assms by (simp add: distinct_card)
  then have "set xs = set ys" using assms(4) by (simp add: card_subset_eq)
  then show ?thesis using assms(1,2) by (metis set_eq_iff_mset_eq_distinct)
qed

section \<open>Properties\<close>

text \<open>The final step of a deployment is accepted exactly when the run is verifying, its
  required components are nonempty, distinct and named, every required component has exactly one
  outcome and no other component has one, and every outcome is pinned to one present digest that
  GitOps, Flux, the runtime and the verification all saw.\<close>

theorem deployed_transition_complete:
  "validate_deployed_transition d = Inr () \<longleftrightarrow>
     dpState d = deployment_verifying \<and> dpRequiredComponentIDs d \<noteq> [] \<and>
     distinct (dpRequiredComponentIDs d) \<and> [] \<notin> set (dpRequiredComponentIDs d) \<and>
     mset (map cdComponentID (dpComponents d)) = mset (dpRequiredComponentIDs d) \<and>
     list_all outcome_ok (dpComponents d)"
  (is "?ok \<longleftrightarrow> ?spec")
proof
  assume ok: ?ok
  then obtain req where st: "dpState d = deployment_verifying" "dpRequiredComponentIDs d \<noteq> []"
      "length (dpComponents d) = length (dpRequiredComponentIDs d)"
      and req: "required_ids [] (dpRequiredComponentIDs d) = Inr req"
      and comp: "component_outcomes req [] (dpComponents d) = Inr ()"
    by (auto simp: validate_deployed_transition_def split: if_splits sum.splits)
  have r: "req = rev (dpRequiredComponentIDs d)" "distinct (dpRequiredComponentIDs d)"
      "[] \<notin> set (dpRequiredComponentIDs d)"
    using req by (auto simp: required_ids_iff)
  have c: "set (map cdComponentID (dpComponents d)) \<subseteq> set (dpRequiredComponentIDs d)"
      "distinct (map cdComponentID (dpComponents d))" "list_all outcome_ok (dpComponents d)"
    using comp r(1) by (auto simp: component_outcomes_iff)
  have "mset (map cdComponentID (dpComponents d)) = mset (dpRequiredComponentIDs d)"
    by (rule same_ids_permutation) (use c r st in auto)
  then show ?spec using st r c by simp
next
  assume spec: ?spec
  then have len: "length (dpComponents d) = length (dpRequiredComponentIDs d)"
    by (metis length_map size_mset)
  have ids: "set (map cdComponentID (dpComponents d)) = set (dpRequiredComponentIDs d)"
      "distinct (map cdComponentID (dpComponents d))"
    using spec by (metis set_mset_mset, metis mset_eq_imp_distinct_iff)
  have "required_ids [] (dpRequiredComponentIDs d) = Inr (rev (dpRequiredComponentIDs d))"
    using spec by (simp add: required_ids_iff)
  moreover have "component_outcomes (rev (dpRequiredComponentIDs d)) [] (dpComponents d) = Inr ()"
    using spec ids by (auto simp: component_outcomes_iff)
  ultimately show ?ok using spec len by (simp add: validate_deployed_transition_def)
qed

text \<open>A conflict is marked resolved exactly when it waits for verification, its resolution is
  attributed to an actor, was verified on its own commit, and each of its distinct verification
  results passed in the conflict's product on exactly that commit.\<close>

theorem resolved_transition_complete:
  "validate_resolved_transition c results = Inr () \<longleftrightarrow>
     icState c = conflict_verification_required \<and>
     (\<exists>res t. icResolution c = Some res \<and> crActor res \<noteq> [] \<and> crCommit res \<noteq> [] \<and>
        crVerifiedCommit res = crCommit res \<and> crVerifiedAt res = Some t \<and> t \<noteq> zero_time \<and>
        valid_evidence_ids (crVerificationResultIDs res) \<and>
        set (crVerificationResultIDs res) \<subseteq>
          {mID (rMeta v) | v. v \<in> set results \<and> mProductID (rMeta v) = icProductID c \<and>
             rResult v = ''passed'' \<and> rCommit v = crCommit res})"
proof (cases "icResolution c")
  case None
  then show ?thesis by (simp add: validate_resolved_transition_def)
next
  case (Some res)
  have loop: "each (\<lambda>i. if list_ex (passing_result c res i) results then Inr () else Inl e) ids = Inr () \<longleftrightarrow>
      set ids \<subseteq> {mID (rMeta v) | v. v \<in> set results \<and> mProductID (rMeta v) = icProductID c \<and>
             rResult v = ''passed'' \<and> rCommit v = crCommit res}" for e ids
    by (auto simp: each_ok list_ex_iff passing_result_def)
  show ?thesis
    by (cases "crVerifiedAt res") (auto simp: validate_resolved_transition_def Some loop)
qed

text \<open>An artifact is present only on evidence: the availability reported for a record is one
  of the four known values, and it is \<open>present\<close>, \<open>missing\<close> or \<open>deleted\<close> exactly when an
  observation with a time says so.\<close>

theorem availability_needs_observation:
  "current_availability a \<in> {artifact_unknown, artifact_present, artifact_missing, artifact_deleted} \<and>
   (v \<in> {artifact_present, artifact_missing, artifact_deleted} \<longrightarrow>
     (current_availability a = v \<longleftrightarrow>
        aoObservedAt (arecObservation a) \<noteq> zero_time \<and> aoAvailability (arecObservation a) = v))"
  by (auto simp: current_availability_def lifecycle_constants)

definition example_artifact :: ArtifactRecord where
  "example_artifact =
     \<lparr>arecID = ''a1'', arecURI = ''oci://r/a'', arecDigest = ''sha256:0'',
      arecProvenance = \<lparr>apProductID = [], apComponentID = [], apRepositoryID = [], apSourceCommit = [],
        apCompositionID = [], apBuildDefinitionID = [], apBuildDefinitionCommit = [],
        apCIConnectionID = [], apWorkflow = [], apBuildRunID = [], apParameters = [],
        apSecretReferences = [], apBaseImages = [], apLockfiles = [], apOriginalDigest = []\<rparr>,
      arecRebuiltFromArtifactID = [], arecCreatedAt = 1,
      arecObservation = \<lparr>aoAvailability = ''missing'', aoObservedAt = 5, aoConnectionID = [], aoDetail = []\<rparr>,
      arecRebuild = \<lparr>rasGuarantee = [], rasAssessedAt = 0, rasEvidenceReferences = []\<rparr>\<rparr>"

theorem availability_needs_observation_witness:
  "current_availability example_artifact = artifact_missing"
  using availability_needs_observation [of example_artifact artifact_missing]
  by (simp add: example_artifact_def lifecycle_constants zero_time_def)

end
