(* ===== verification/WorkerConfig.thy ===== *)
theory WorkerConfig
  imports StateModel GoStrings JsonData
begin

text \<open>
  \<open>internal/workerconfig\<close>: the operator's configuration of external workers, its validation
  (\<open>New\<close>), and the authentication of workers against the secrets of the environment. What the
  package takes from outside is the record \<open>ConfigEnv\<close>: the environment variables, SHA-256,
  the hashes of JSON encodings, \<open>net/url\<close>, \<open>net.ParseIP\<close>, the patch path check of
  \<open>intelligencepatch\<close> and the image reference parser. The copies through JSON that \<open>New\<close> and
  \<open>Recipe\<close> make are the values themselves.
\<close>

section \<open>The configuration\<close>

record Parameter =
  pmType :: string
  pmEnum :: "string list"
  pmMin :: int
  pmMax :: int

record Recipe =
  recIntelligencePaths :: "string list"
  recCheck :: "WorkerCheckBinding option"
  recID :: string
  recRevision :: string
  recHash :: string
  recProductID :: string
  recRepositoryID :: string
  recRepositoryURL :: string
  recCapability :: string
  recTrust :: string
  recParameters :: "(string \<times> Parameter) list"
  recExecution :: "WorkerExecution option"

record Credential =
  crID :: string
  crPrincipal :: string
  crTokenEnv :: string
  crProductIDs :: "string list"
  crRepositoryIDs :: "string list"
  crCapabilities :: "string list"
  crExpiresAt :: time
  crRevoked :: bool

record RegistryRead =
  pullCAFile :: string
  pullUsernameEnv :: string
  pullPasswordEnv :: string
  pullBearerEnv :: string
  pullFixtureLoopbackHTTP :: bool

record PublicationRecipe =
  pubID :: string
  pubRevision :: string
  pubHash :: string
  pubProductID :: string
  pubRepositoryID :: string
  pubComponentID :: string
  pubProfile :: string
  pubBuildRecipeHash :: string
  pubOrigin :: string
  pubRepository :: string
  pubMaxBytes :: int
  pubTimeoutSeconds :: int
  pubPull :: RegistryRead

record RegistryObserveRecipe =
  roID :: string
  roRevision :: string
  roHash :: string
  roProductID :: string
  roRepositoryID :: string
  roComponentID :: string
  roOrigin :: string
  roRepository :: string
  roLimits :: RegistryObserveLimits
  roPull :: RegistryRead

record Config =
  cfObservations :: "RegistryObserveRecipe list"
  cfRevision :: string
  cfLeaseSeconds :: int
  cfPublications :: "PublicationRecipe list"
  cfRecipes :: "Recipe list"
  cfCredentials :: "Credential list"

text \<open>A parsed \<open>url.URL\<close>, with \<open>Hostname()\<close> and \<open>String()\<close> as fields.\<close>

record URL =
  uScheme :: string
  uOpaque :: string
  uUser :: bool
  uHost :: string
  uHostname :: string
  uPath :: string
  uRawPath :: string
  uForceQuery :: bool
  uRawQuery :: string
  uFragment :: string
  uString :: string

record ConfigEnv =
  ceLookup :: "string \<Rightarrow> string"
  ceSha :: "string \<Rightarrow> string"
  ceFingerprint :: "string \<Rightarrow> string"
  ceRecipeHash :: "Recipe \<Rightarrow> string"
  cePublicationHash :: "PublicationRecipe \<Rightarrow> string"
  ceObservationHash :: "RegistryObserveRecipe \<Rightarrow> string"
  ceParseURL :: "string \<Rightarrow> URL option"
  ceCanonicalURL :: "string \<Rightarrow> string"
  ceLoopback :: "string \<Rightarrow> bool"
  cePatchPaths :: "string list \<Rightarrow> bool"
  ceImage :: "string \<Rightarrow> string option"

record Authority =
  auConfig :: Config
  auControl :: string

record Principal =
  pcCredential :: Credential
  pcFingerprint :: string

section \<open>Names and bounds\<close>

definition ident :: "string \<Rightarrow> bool" where
  "ident s = name_like ''_.:/-'' 0 127 s"

definition env_name :: "string \<Rightarrow> bool" where
  "env_name s =
     (case s of [] \<Rightarrow> False
      | c # t \<Rightarrow> c \<in> set (CHR ''_'' # upper_letters) \<and>
          list_all (\<lambda>d. d \<in> set (CHR ''_'' # upper_letters @ digits)) t)"

definition check_name :: "string \<Rightarrow> bool" where
  "check_name s \<longleftrightarrow>
     has_prefix s ''RCP /'' \<and> 1 \<le> length (drop 5 s) \<and> length (drop 5 s) \<le> 96 \<and>
     list_all (\<lambda>c. alnum c \<or> c \<in> set '' ._/-'') (drop 5 s)"

text \<open>\<open>^[a-z0-9][a-z0-9./:_-]*@sha256:[0-9a-f]{64}$\<close>\<close>

definition pinned_image :: "string \<Rightarrow> bool" where
  "pinned_image s \<longleftrightarrow>
     (let n = length s - 72 in
      1 \<le> n \<and> 72 < length s \<and> s ! n = CHR ''@'' \<and> sha256_digest (drop (Suc n) s) \<and>
      hd s \<in> set (lower_letters @ digits) \<and>
      list_all (\<lambda>c. c \<in> set (lower_letters @ digits @ ''./:_-'')) (take n s))"

text \<open>Lower-case runs of letters and digits, separated by single separators.\<close>

fun separated :: "bool \<Rightarrow> string \<Rightarrow> bool" where
  "separated after [] = after"
| "separated after (c # s) =
     (if c \<in> set (lower_letters @ digits) then separated True s
      else after \<and> c \<in> set ''._-/'' \<and> separated False s)"

definition registry_repository :: "string \<Rightarrow> bool" where
  "registry_repository s \<longleftrightarrow> separated False s \<and> length s \<le> 255"

definition valid_argv :: "string list \<Rightarrow> bool" where
  "valid_argv argv \<longleftrightarrow>
     argv \<noteq> [] \<and> length argv \<le> 32 \<and>
     list_all (\<lambda>v. v \<noteq> [] \<and> length v \<le> 2048 \<and> \<not> contains_any v [CHR 0x00, CHR 0x0A, CHR 0x0D]) argv"

text \<open>\<open>path.Clean\<close>: the components of the path, with \<open>.\<close> and empty ones dropped and
  \<open>..\<close> taken back.\<close>

fun components :: "string \<Rightarrow> string list" where
  "components [] = [[]]"
| "components (c # s) =
     (case components s of
        [] \<Rightarrow> [[c]]
      | w # ws \<Rightarrow> (if c = CHR ''/'' then [] # w # ws else (c # w) # ws))"

fun clean_parts :: "bool \<Rightarrow> string list \<Rightarrow> string list \<Rightarrow> string list" where
  "clean_parts rooted out [] = out"
| "clean_parts rooted out (w # ws) =
     (if w = [] \<or> w = ''.'' then clean_parts rooted out ws
      else if w = ''..'' then
        (if out \<noteq> [] \<and> last out \<noteq> ''..'' then clean_parts rooted (butlast out) ws
         else if rooted then clean_parts rooted out ws
         else clean_parts rooted (out @ [w]) ws)
      else clean_parts rooted (out @ [w]) ws)"

fun join_path :: "string list \<Rightarrow> string" where
  "join_path [] = []"
| "join_path [w] = w"
| "join_path (w # ws) = w @ ''/'' @ join_path ws"

definition path_clean :: "string \<Rightarrow> string" where
  "path_clean s =
     (let rooted = has_prefix s ''/''; parts = clean_parts rooted [] (components s);
          body = join_path parts
      in if rooted then ''/'' @ body else if body = [] then ''.'' else body)"

definition clean_relative :: "string \<Rightarrow> bool" where
  "clean_relative s \<longleftrightarrow>
     s \<noteq> [] \<and> length s < 256 \<and> path_clean s = s \<and> s \<noteq> ''.'' \<and> \<not> has_prefix s ''/'' \<and>
     \<not> has_prefix s ''../'' \<and> \<not> contains_any s [CHR 0x00, CHR 0x0A, CHR 0x0D, CHR 0x5C, CHR 0x20]"

definition valid_grants :: "string list \<Rightarrow> bool" where
  "valid_grants v \<longleftrightarrow> v \<noteq> [] \<and> length v \<le> 100 \<and> list_all (\<lambda>s. ident s \<and> s \<noteq> ''*'') v"

definition valid_worker_source_fetch :: "WorkerSourceFetch \<Rightarrow> int \<Rightarrow> bool" where
  "valid_worker_source_fetch f source \<longleftrightarrow>
     wsfProvider f = ''github'' \<and> 0 < wsfRepositoryID f \<and>
     1 \<le> wsfTimeoutSeconds f \<and> wsfTimeoutSeconds f \<le> 120 \<and>
     1 \<le> wsfMaxDownloadBytes f \<and> wsfMaxDownloadBytes f \<le> 512 * 2 ^ 20 \<and>
     1 \<le> wsfMaxRequests f \<and> wsfMaxRequests f \<le> 4096 \<and> 1 \<le> wsfMaxEntries f \<and> wsfMaxEntries f \<le> 20000 \<and>
     1 \<le> wsfMaxDepth f \<and> wsfMaxDepth f \<le> 64 \<and> 1 \<le> source \<and> source \<le> 256 * 2 ^ 20"

definition valid_worker_check_binding :: "WorkerCheckBinding \<Rightarrow> bool" where
  "valid_worker_check_binding c \<longleftrightarrow>
     check_name (wcbName c) \<and> 0 < wcbExpectedAppID c \<and> 60 \<le> wcbFinalizeSeconds c \<and> wcbFinalizeSeconds c \<le> 600"

definition limits_ok :: "RegistryObserveLimits \<Rightarrow> bool" where
  "limits_ok l \<longleftrightarrow>
     1024 \<le> rlMaxResponseBytes l \<and> rlMaxResponseBytes l \<le> 2 ^ 30 \<and>
     rlMaxResponseBytes l \<le> rlMaxTotalBytes l \<and> rlMaxTotalBytes l \<le> 8 * 2 ^ 30 \<and>
     1 \<le> rlMaxNodes l \<and> rlMaxNodes l \<le> 1024 \<and> 1 \<le> rlMaxEdges l \<and> rlMaxEdges l \<le> 4096 \<and>
     1 \<le> rlMaxDepth l \<and> rlMaxDepth l \<le> 32 \<and> 1 \<le> rlMaxPages l \<and> rlMaxPages l \<le> 128 \<and>
     1 \<le> rlMaxRequests l \<and> rlMaxRequests l \<le> 8192 \<and> 1 \<le> rlTimeoutSeconds l \<and> rlTimeoutSeconds l \<le> 900"

definition github_source_url :: "ConfigEnv \<Rightarrow> string \<Rightarrow> bool" where
  "github_source_url env raw =
     (case ceParseURL env raw of
        None \<Rightarrow> False
      | Some u \<Rightarrow>
          uScheme u = ''https'' \<and> uHost u = ''github.com'' \<and> \<not> uUser u \<and> uRawQuery u = [] \<and> uFragment u = [] \<and>
          uRawPath u = [] \<and> uOpaque u = [] \<and> \<not> uForceQuery u \<and>
          (let parts = components (trim_prefix (uPath u) ''/'');
               part = (\<lambda>s. 1 \<le> length s \<and> length s \<le> 100 \<and> list_all (\<lambda>c. alnum c \<or> c \<in> set ''_.-'') s)
           in length parts = 2 \<and> has_prefix (uPath u) ''/'' \<and> part (parts ! 0) \<and> part (parts ! 1) \<and>
              parts ! 0 \<notin> {''.'', ''..''} \<and> parts ! 1 \<notin> {''.'', ''..''} \<and> \<not> has_suffix (parts ! 1) ''.git''))"

section \<open>Validation of the configuration\<close>

definition check_binding_ok :: "Recipe \<Rightarrow> bool" where
  "check_binding_ok r \<longleftrightarrow>
     (case recCheck r of
        None \<Rightarrow> True
      | Some c \<Rightarrow> valid_worker_check_binding c \<and> recCapability r = ''local_oci_build'' \<and>
          recTrust r = ''trusted_source'' \<and> recParameters r = [])"

definition isolated_ok :: "Recipe \<Rightarrow> WorkerExecution \<Rightarrow> bool" where
  "isolated_ok r e \<longleftrightarrow>
     recTrust r = ''trusted_source'' \<and> weKind e = recCapability r \<and> pinned_image (weToolchainImage e) \<and>
     weNetwork e = ''none'' \<and> (wePlatform e = ''linux/amd64'' \<or> wePlatform e = ''linux/arm64'') \<and>
     1 \<le> weTimeoutSeconds e \<and> weTimeoutSeconds e \<le> 1800 \<and> 64 \<le> weMemoryMB e \<and> weMemoryMB e \<le> 16384 \<and>
     16 \<le> weStorageMB e \<and> weStorageMB e \<le> 4096 \<and> 1 \<le> weCPUs e \<and> weCPUs e \<le> 16 \<and>
     16 \<le> wePIDs e \<and> wePIDs e \<le> 1024 \<and> 1 \<le> weSourceBytes e \<and> weSourceBytes e \<le> 256 * 2 ^ 20 \<and>
     1 \<le> weOutputBytes e \<and> weOutputBytes e \<le> 512 * 2 ^ 20 \<and> 1 \<le> weLogBytes e \<and> weLogBytes e \<le> 2 ^ 20 \<and>
     valid_argv (weCheckArgv e)"

definition rootfs_ok :: "WorkerRuntimeRootFS \<Rightarrow> bool" where
  "rootfs_ok f \<longleftrightarrow>
     sha256_digest (wrfHash f) \<and> sha256_digest (wrfInputsHash f) \<and>
     1 \<le> wrfArchiveBytes f \<and> wrfArchiveBytes f \<le> 128 * 2 ^ 20 \<and>
     1 \<le> wrfMaxExpandedBytes f \<and> wrfMaxExpandedBytes f \<le> 128 * 2 ^ 20 \<and>
     1 \<le> wrfMaxEntries f \<and> wrfMaxEntries f \<le> 20000"

definition oci_outputs_ok :: "WorkerExecution \<Rightarrow> bool" where
  "oci_outputs_ok e \<longleftrightarrow>
     pinned_image (weBuildKitImage e) \<and> valid_argv (weBuildArgv e) \<and> clean_relative (weOutputFile e) \<and>
     clean_relative (weImagePath e) \<and> weEntrypoint e \<noteq> [] \<and> valid_argv (weEntrypoint e)"

definition no_oci_outputs :: "WorkerExecution \<Rightarrow> bool" where
  "no_oci_outputs e \<longleftrightarrow>
     weRuntimeRootFS e = None \<and> weBuildKitImage e = [] \<and> weBuildArgv e = [] \<and> weOutputFile e = [] \<and>
     weImagePath e = [] \<and> weEntrypoint e = []"

definition validate_execution :: "ConfigEnv \<Rightarrow> Recipe \<Rightarrow> unit result" where
  "validate_execution env r =
     (if \<not> check_binding_ok r then Inl (GoError ''invalid operator check binding'')
      else case recExecution r of
        None \<Rightarrow> reject (recCapability r \<noteq> ''source_check'') (GoError ''execution definition required'')
      | Some e \<Rightarrow> chain
          [reject (\<not> isolated_ok r e) (GoError ''invalid trusted isolated execution definition''),
           reject (case weSourceFetch e of None \<Rightarrow> False
               | Some f \<Rightarrow> \<not> valid_worker_source_fetch f (weSourceBytes e) \<or>
                   \<not> github_source_url env (recRepositoryURL r))
             (GoError ''invalid pinned GitHub source fetch definition''),
           (if weKind e = ''local_oci_build'' then chain
              [reject (case weRuntimeRootFS e of None \<Rightarrow> False | Some f \<Rightarrow> \<not> rootfs_ok f)
                 (GoError ''invalid runtime rootfs pins or bounds''),
               reject (\<not> oci_outputs_ok e) (GoError ''invalid local OCI output contract'')]
            else reject (\<not> no_oci_outputs e) (GoError ''source check cannot declare OCI outputs''))])"

definition origin_bad :: "string \<Rightarrow> URL \<Rightarrow> bool" where
  "origin_bad origin u \<longleftrightarrow>
     uHost u = [] \<or> uUser u \<or> uPath u \<noteq> [] \<or> uRawQuery u \<noteq> [] \<or> uFragment u \<noteq> [] \<or> uOpaque u \<noteq> [] \<or>
     uString u \<noteq> origin"

definition plain_http_bad :: "ConfigEnv \<Rightarrow> bool \<Rightarrow> URL \<Rightarrow> bool" where
  "plain_http_bad env fixture u \<longleftrightarrow>
     uScheme u \<noteq> ''https'' \<and> (uScheme u \<noteq> ''http'' \<or> \<not> fixture \<or> \<not> ceLoopback env (uHostname u))"

definition pull_references_bad :: "RegistryRead \<Rightarrow> bool" where
  "pull_references_bad p \<longleftrightarrow>
     list_ex (\<lambda>v. v \<noteq> [] \<and> \<not> env_name v) [pullUsernameEnv p, pullPasswordEnv p, pullBearerEnv p]"

definition pull_combination_bad :: "RegistryRead \<Rightarrow> bool" where
  "pull_combination_bad p \<longleftrightarrow>
     (pullUsernameEnv p = []) \<noteq> (pullPasswordEnv p = []) \<or> pullBearerEnv p \<noteq> [] \<and> pullUsernameEnv p \<noteq> []"

definition validate_publication :: "ConfigEnv \<Rightarrow> PublicationRecipe \<Rightarrow> unit result" where
  "validate_publication env r =
     (case each (\<lambda>v. reject (\<not> ident v) (GoError ''invalid publication identity''))
         [pubID r, pubRevision r, pubProductID r, pubRepositoryID r, pubComponentID r, pubProfile r] of
        Inl e \<Rightarrow> Inl e
      | Inr _ \<Rightarrow>
          (case ceParseURL env (pubOrigin r) of
             None \<Rightarrow> Inl (GoError ''invalid registry origin'')
           | Some u \<Rightarrow> chain
               [reject (origin_bad (pubOrigin r) u) (GoError ''invalid registry origin''),
                reject (plain_http_bad env (pullFixtureLoopbackHTTP (pubPull r)) u)
                  (GoError ''registry TLS required''),
                reject (\<not> registry_repository (pubRepository r) \<or> \<not> sha256_digest (pubBuildRecipeHash r) \<or>
                    pubHash r \<noteq> cePublicationHash env r \<or> pubMaxBytes r < 1 \<or> 256 * 2 ^ 20 < pubMaxBytes r \<or>
                    pubTimeoutSeconds r < 1 \<or> 600 < pubTimeoutSeconds r)
                  (GoError ''invalid publication bounds or hash''),
                reject (pull_references_bad (pubPull r))
                  (GoError ''invalid registry credential reference''),
                reject (pull_combination_bad (pubPull r))
                  (GoError ''invalid registry credential combination'')]))"

definition validate_observation :: "ConfigEnv \<Rightarrow> RegistryObserveRecipe \<Rightarrow> unit result" where
  "validate_observation env r =
     (case each (\<lambda>v. reject (\<not> ident v) (GoError ''invalid registry observation identity''))
         [roID r, roRevision r, roProductID r, roRepositoryID r, roComponentID r] of
        Inl e \<Rightarrow> Inl e
      | Inr _ \<Rightarrow>
          (case ceParseURL env (roOrigin r) of
             None \<Rightarrow> Inl (GoError ''invalid registry observation origin'')
           | Some u \<Rightarrow> chain
               [reject (origin_bad (roOrigin r) u \<or> to_lower (uHost u) \<noteq> uHost u)
                  (GoError ''invalid registry observation origin''),
                reject (plain_http_bad env (pullFixtureLoopbackHTTP (roPull r)) u)
                  (GoError ''registry observation TLS required''),
                reject (\<not> registry_repository (roRepository r) \<or> roHash r \<noteq> ceObservationHash env r)
                  (GoError ''invalid registry observation repository or hash''),
                reject (ceImage env (uHost u @ ''/'' @ roRepository r) = None)
                  (GoError ''noncanonical registry observation image''),
                reject (\<not> limits_ok (roLimits r)) (GoError ''invalid registry observation limits''),
                reject (pull_references_bad (roPull r))
                  (GoError ''invalid registry observation credential reference''),
                reject (pull_combination_bad (roPull r))
                  (GoError ''invalid registry observation credentials'')]))"

text \<open>\<open>New\<close>: the credentials, with the fingerprints of the tokens seen so far.\<close>

definition has_cap :: "string \<Rightarrow> Credential \<Rightarrow> bool" where
  "has_cap c v \<longleftrightarrow> c \<in> set (crCapabilities v)"

definition principal_conflict :: "string \<Rightarrow> Credential \<Rightarrow> Credential \<Rightarrow> bool" where
  "principal_conflict cap v prior \<longleftrightarrow>
     crID prior \<noteq> crID v \<and> crPrincipal prior = crPrincipal v \<and> has_cap cap v \<noteq> has_cap cap prior"

definition credential_ok ::
  "ConfigEnv \<Rightarrow> Credential list \<Rightarrow> string list \<Rightarrow> string list \<Rightarrow> Credential \<Rightarrow> unit result" where
  "credential_ok env all seen tokens v =
     (let token = ceLookup env (crTokenEnv v) in chain
      [reject (\<not> ident (crID v) \<or> \<not> ident (crPrincipal v) \<or> \<not> env_name (crTokenEnv v) \<or> crID v \<in> set seen \<or>
           crExpiresAt v = zero_time \<or> length token < 32 \<or> ceFingerprint env token \<in> set tokens \<or>
           \<not> valid_grants (crProductIDs v) \<or> \<not> valid_grants (crRepositoryIDs v) \<or> \<not> valid_grants (crCapabilities v))
         (GoError ''invalid worker credential configuration''),
       reject (has_cap ''registry_observe'' v \<and> length (crCapabilities v) \<noteq> 1)
         (GoError ''registry observation credentials must be separate''),
       reject (has_cap ''registry_publish'' v \<and> (has_cap ''source_check'' v \<or> has_cap ''local_oci_build'' v))
         (GoError ''publication and source credentials must be separate''),
       each (\<lambda>prior. chain
         [reject (principal_conflict ''registry_observe'' v prior)
            (GoError ''registry observation principals must be separate''),
          reject (principal_conflict ''registry_publish'' v prior)
            (GoError ''publication and source principals must be separate'')]) all])"

fun credentials_ok ::
  "ConfigEnv \<Rightarrow> Credential list \<Rightarrow> string list \<Rightarrow> string list \<Rightarrow> Credential list \<Rightarrow> string list result" where
  "credentials_ok env all seen tokens [] = Inr tokens"
| "credentials_ok env all seen tokens (v # vs) =
     (case credential_ok env all seen tokens v of
        Inl e \<Rightarrow> Inl e
      | Inr _ \<Rightarrow>
          credentials_ok env all (crID v # seen) (ceFingerprint env (ceLookup env (crTokenEnv v)) # tokens) vs)"

definition same_check_owner :: "ConfigEnv \<Rightarrow> Recipe \<Rightarrow> WorkerCheckBinding \<Rightarrow> Recipe \<Rightarrow> bool" where
  "same_check_owner env r c other \<longleftrightarrow>
     (case recCheck other of
        None \<Rightarrow> False
      | Some d \<Rightarrow> (recID other \<noteq> recID r \<or> recProductID other \<noteq> recProductID r) \<and> wcbName d = wcbName c \<and>
          wcbExpectedAppID d = wcbExpectedAppID c \<and>
          ceCanonicalURL env (recRepositoryURL other) = ceCanonicalURL env (recRepositoryURL r))"

definition recipe_url_ok :: "ConfigEnv \<Rightarrow> string \<Rightarrow> bool" where
  "recipe_url_ok env raw =
     (case ceParseURL env raw of
        None \<Rightarrow> False
      | Some u \<Rightarrow> uScheme u = ''https'' \<and> uHost u \<noteq> [] \<and> \<not> uUser u \<and> uRawQuery u = [] \<and> uFragment u = [])"

definition parameter_ok :: "string \<times> Parameter \<Rightarrow> unit result" where
  "parameter_ok np =
     (case np of (name, p) \<Rightarrow> chain
      [reject (\<not> ident name \<or> pmType p \<notin> {''boolean'', ''integer'', ''enum''} \<or>
           pmType p = ''integer'' \<and> pmMax p < pmMin p \<or>
           pmType p = ''enum'' \<and> (pmEnum p = [] \<or> 32 < length (pmEnum p)))
         (GoError ''invalid recipe parameter''),
       each (\<lambda>v. reject (\<not> ident v) (GoError ''invalid enum'')) (pmEnum p)])"

definition recipe_ok :: "ConfigEnv \<Rightarrow> Recipe list \<Rightarrow> string list \<Rightarrow> Recipe \<Rightarrow> unit result" where
  "recipe_ok env all seen r = chain
     [reject (recIntelligencePaths r \<noteq> [] \<and>
          (recCapability r \<noteq> ''source_check'' \<or> recTrust r \<noteq> ''trusted_source'' \<or> recCheck r \<noteq> None \<or>
           \<not> cePatchPaths env (recIntelligencePaths r)))
        (GoError ''invalid intelligence source-check paths''),
      (case recCheck r of
         None \<Rightarrow> Inr ()
       | Some c \<Rightarrow> chain
           [reject (recCapability r \<noteq> ''local_oci_build'' \<or> recTrust r \<noteq> ''trusted_source'' \<or> recParameters r \<noteq> [] \<or>
                \<not> check_name (wcbName c) \<or> wcbExpectedAppID c < 1 \<or> wcbFinalizeSeconds c < 60 \<or>
                600 < wcbFinalizeSeconds c)
              (GoError ''invalid operator check binding''),
            each (\<lambda>other. reject (same_check_owner env r c other)
              (GoError ''conflicting physical repository check owner'')) all]),
      reject (\<not> ident (recID r) \<or> \<not> ident (recRevision r) \<or> \<not> ident (recProductID r) \<or> \<not> ident (recRepositoryID r) \<or>
          recCapability r \<notin> {''source_check'', ''local_oci_build''} \<or> recID r \<in> set seen \<or>
          \<not> recipe_url_ok env (recRepositoryURL r) \<or> recTrust r \<notin> {''trusted_source'', ''untrusted_source''} \<or>
          \<not> sha256_digest (recHash r) \<or> recHash r \<noteq> ceRecipeHash env r \<or> 32 < length (recParameters r))
        (GoError ''invalid immutable nonpublishing worker recipe''),
      validate_execution env r,
      each parameter_ok (recParameters r)]"

fun recipes_ok :: "ConfigEnv \<Rightarrow> Recipe list \<Rightarrow> string list \<Rightarrow> Recipe list \<Rightarrow> string list result" where
  "recipes_ok env all seen [] = Inr seen"
| "recipes_ok env all seen (r # rs) =
     (case recipe_ok env all seen r of Inl e \<Rightarrow> Inl e | Inr _ \<Rightarrow> recipes_ok env all (recID r # seen) rs)"

definition pull_refs :: "RegistryRead \<Rightarrow> string list" where
  "pull_refs p = filter (\<lambda>v. v \<noteq> []) [pullUsernameEnv p, pullPasswordEnv p, pullBearerEnv p]"

fun publications_ok :: "ConfigEnv \<Rightarrow> string list \<Rightarrow> string list \<Rightarrow> PublicationRecipe list \<Rightarrow> string list result" where
  "publications_ok env tokens seen [] = Inr seen"
| "publications_ok env tokens seen (r # rs) =
     (case chain
        [validate_publication env r,
         reject (pubID r \<in> set seen) (GoError ''duplicate recipe''),
         each (\<lambda>ref. reject (ceLookup env ref = [] \<or> ceFingerprint env (ceLookup env ref) \<in> set tokens)
           (GoError ''registry and control credentials must be separate'')) (pull_refs (pubPull r))] of
        Inl e \<Rightarrow> Inl e
      | Inr _ \<Rightarrow> publications_ok env tokens (pubID r # seen) rs)"

definition publication_refs :: "PublicationRecipe list \<Rightarrow> string list" where
  "publication_refs ps = concat (map (pull_refs \<circ> pubPull) ps)"

fun observations_ok ::
  "ConfigEnv \<Rightarrow> PublicationRecipe list \<Rightarrow> string list \<Rightarrow> string list \<Rightarrow> RegistryObserveRecipe list \<Rightarrow> unit result" where
  "observations_ok env pubs tokens seen [] = Inr ()"
| "observations_ok env pubs tokens seen (r # rs) =
     (case chain
        [reject (isl (validate_observation env r) \<or> roID r \<in> set seen)
           (GoError ''invalid or duplicate registry observation recipe''),
         each (\<lambda>ref. chain
           [reject (ceLookup env ref = [] \<or> ceFingerprint env (ceLookup env ref) \<in> set tokens)
              (GoError ''registry observation and control credentials must be separate''),
            each (\<lambda>other. reject (other = ref \<or> ceLookup env other = ceLookup env ref)
              (GoError ''registry observation and publication credentials must be separate''))
              (publication_refs pubs)]) (pull_refs (roPull r))] of
        Inl e \<Rightarrow> Inl e
      | Inr _ \<Rightarrow> observations_ok env pubs tokens (roID r # seen) rs)"

definition config_bounds :: "Config \<Rightarrow> bool" where
  "config_bounds c \<longleftrightarrow>
     ident (cfRevision c) \<and> 5 \<le> cfLeaseSeconds c \<and> cfLeaseSeconds c \<le> 300 \<and>
     length (cfRecipes c) + length (cfObservations c) \<noteq> 0 \<and> length (cfRecipes c) \<le> 100 \<and>
     length (cfObservations c) \<le> 100 \<and> length (cfPublications c) \<le> 100 \<and> cfCredentials c \<noteq> [] \<and>
     length (cfCredentials c) \<le> 100"

definition new_authority :: "ConfigEnv \<Rightarrow> Config \<Rightarrow> string \<Rightarrow> Authority result" where
  "new_authority env c control =
     (if trim_space control = [] then Inl (GoError ''worker protocol requires protected control plane'')
      else if \<not> config_bounds c then Inl (GoError ''invalid worker configuration bounds'')
      else case credentials_ok env (cfCredentials c) [] [ceFingerprint env control] (cfCredentials c) of
        Inl e \<Rightarrow> Inl e
      | Inr tokens \<Rightarrow>
        (case recipes_ok env (cfRecipes c) [] (cfRecipes c) of
           Inl e \<Rightarrow> Inl e
         | Inr seen \<Rightarrow>
           (case publications_ok env tokens seen (cfPublications c) of
              Inl e \<Rightarrow> Inl e
            | Inr seen \<Rightarrow>
              (case observations_ok env (cfPublications c) tokens seen (cfObservations c) of
                 Inl e \<Rightarrow> Inl e
               | Inr _ \<Rightarrow> Inr \<lparr>auConfig = c, auControl = ceSha env control\<rparr>))))"

section \<open>Lookups\<close>

definition find_recipe :: "Authority \<Rightarrow> string \<Rightarrow> Recipe option" where
  "find_recipe a i = find (\<lambda>v. recID v = i) (cfRecipes (auConfig a))"

definition find_publication :: "Authority \<Rightarrow> string \<Rightarrow> PublicationRecipe option" where
  "find_publication a i = find (\<lambda>r. pubID r = i) (cfPublications (auConfig a))"

definition find_observation :: "Authority \<Rightarrow> string \<Rightarrow> RegistryObserveRecipe option" where
  "find_observation a i = find (\<lambda>r. roID r = i) (cfObservations (auConfig a))"

definition lease :: "Authority \<Rightarrow> int" where
  "lease a = cfLeaseSeconds (auConfig a) * second"

definition allows_native_component :: "Authority \<Rightarrow> string \<Rightarrow> string \<Rightarrow> string \<Rightarrow> string \<Rightarrow> bool" where
  "allows_native_component a product component profile img \<longleftrightarrow>
     list_ex (\<lambda>r. pubProductID r = product \<and> pubComponentID r = component \<and> pubProfile r = profile \<and>
       trim_prefix (trim_prefix (pubOrigin r) ''https://'') ''http://'' @ ''/'' @ pubRepository r = img)
       (cfPublications (auConfig a))"

section \<open>Authentication\<close>

definition registry_credentials_separated :: "ConfigEnv \<Rightarrow> Authority \<Rightarrow> bool" where
  "registry_credentials_separated env a =
     (let c = auConfig a; pubs = publication_refs (cfPublications c);
          tokens = auControl a # map (\<lambda>v. ceSha env (ceLookup env (crTokenEnv v))) (cfCredentials c);
          free = (\<lambda>ref. ceLookup env ref \<noteq> [] \<and> ceSha env (ceLookup env ref) \<notin> set tokens)
      in list_all free pubs \<and>
         list_all (\<lambda>r. list_all (\<lambda>ref. free ref \<and>
             list_all (\<lambda>other. other \<noteq> ref \<and> ceLookup env other \<noteq> ceLookup env ref) pubs)
           (pull_refs (roPull r))) (cfObservations c))"

definition is_worker_token :: "ConfigEnv \<Rightarrow> Authority \<Rightarrow> string \<Rightarrow> bool" where
  "is_worker_token env a token \<longleftrightarrow>
     token \<noteq> [] \<and> list_ex (\<lambda>c. ceSha env (ceLookup env (crTokenEnv c)) = ceSha env token) (cfCredentials (auConfig a))"

definition matching :: "ConfigEnv \<Rightarrow> Authority \<Rightarrow> string \<Rightarrow> Credential list" where
  "matching env a token =
     filter (\<lambda>c. ceSha env (ceLookup env (crTokenEnv c)) = ceSha env token \<and> 32 \<le> length (ceLookup env (crTokenEnv c)))
       (cfCredentials (auConfig a))"

definition authenticate :: "ConfigEnv \<Rightarrow> Authority \<Rightarrow> string \<Rightarrow> time \<Rightarrow> Principal result" where
  "authenticate env a token now =
     (let refused = Inl (GoError ''worker authentication required'') in
      if token = [] \<or> \<not> registry_credentials_separated env a then refused
      else case matching env a token of
        [c] \<Rightarrow>
          (if ceSha env token = auControl a \<or> crRevoked c \<or> \<not> now < crExpiresAt c then refused
           else if list_ex (\<lambda>ref. ceSha env (ceLookup env ref) = ceSha env token)
               (publication_refs (cfPublications (auConfig a))) then refused
           else Inr \<lparr>pcCredential = c, pcFingerprint = ceSha env token\<rparr>)
      | _ \<Rightarrow> refused)"

definition principal_id :: "Principal \<Rightarrow> string" where
  "principal_id p = crPrincipal (pcCredential p)"

definition allows :: "Principal \<Rightarrow> string \<Rightarrow> string \<Rightarrow> string \<Rightarrow> time \<Rightarrow> bool" where
  "allows p product repo capability now \<longleftrightarrow>
     (let c = pcCredential p in
      crPrincipal c \<noteq> [] \<and> \<not> crRevoked c \<and> now < crExpiresAt c \<and> product \<in> set (crProductIDs c) \<and>
      repo \<in> set (crRepositoryIDs c) \<and> capability \<in> set (crCapabilities c))"

definition current :: "ConfigEnv \<Rightarrow> Authority \<Rightarrow> Principal \<Rightarrow> time \<Rightarrow> bool" where
  "current env a p now =
     (case find (\<lambda>c. crID c = crID (pcCredential p)) (cfCredentials (auConfig a)) of
        None \<Rightarrow> False
      | Some c \<Rightarrow>
          (let raw = ceLookup env (crTokenEnv c) in
           if ceSha env raw \<noteq> pcFingerprint p then False
           else case authenticate env a raw now of
             Inl _ \<Rightarrow> False
           | Inr fresh \<Rightarrow> pcCredential fresh = pcCredential p))"

section \<open>Parameters of a job\<close>

text \<open>The numbers of a command come as \<open>float64\<close>; an integer is modelled exactly, as it is up to
  2^53 in magnitude.\<close>

definition parameter_value :: "Parameter \<Rightarrow> json \<Rightarrow> unit result" where
  "parameter_value d v =
     (if pmType d = ''boolean'' then
        (case v of JBool _ \<Rightarrow> Inr () | _ \<Rightarrow> Inl (GoError ''expected boolean parameter''))
      else if pmType d = ''enum'' then
        (case v of JStr s \<Rightarrow> reject (s \<notin> set (pmEnum d)) (GoError ''invalid enum parameter'')
         | _ \<Rightarrow> Inl (GoError ''invalid enum parameter''))
      else if pmType d = ''integer'' then
        (case dec_int v 0 of
           None \<Rightarrow> Inl (GoError ''integer parameter outside bounds'')
         | Some n \<Rightarrow> reject (n < pmMin d \<or> pmMax d < n) (GoError ''integer parameter outside bounds''))
      else Inl (GoError ''invalid parameter definition''))"

definition validate_parameters :: "Recipe \<Rightarrow> json_data \<Rightarrow> unit result" where
  "validate_parameters r params =
     (if length params \<noteq> length (recParameters r) then Inl (GoError ''parameters must exactly match recipe'')
      else each (\<lambda>(name, d). case map_of params name of
          None \<Rightarrow> Inl (GoError ''missing parameter'')
        | Some v \<Rightarrow> parameter_value d v) (recParameters r))"

end
