(* ===== verification/WorkerConfigProperties.thy ===== *)
theory WorkerConfigProperties
  imports WorkerConfig
begin

text \<open>
  Properties of the worker configuration: what an accepted configuration guarantees for the
  secrets, what authentication concludes from a token, and the exactness of typed parameters.
\<close>

section \<open>What acceptance guarantees\<close>

definition token_of :: "ConfigEnv \<Rightarrow> Credential \<Rightarrow> string" where
  "token_of env c = ceLookup env (crTokenEnv c)"

lemma credential_okD:
  assumes "credential_ok env all seen tokens v = Inr ()"
  shows "crID v \<notin> set seen" "32 \<le> length (token_of env v)" "ceFingerprint env (token_of env v) \<notin> set tokens"
    "crPrincipal v \<noteq> []"
  using assms by (auto simp: credential_ok_def Let_def chain_simps token_of_def ident_def name_like_def)

lemma credentials_ok_all:
  "credentials_ok env all seen tokens vs = Inr ts \<Longrightarrow>
     distinct (map crID vs) \<and> set (map crID vs) \<inter> set seen = {} \<and>
     distinct (map (ceFingerprint env \<circ> token_of env) vs) \<and>
     set (map (ceFingerprint env \<circ> token_of env) vs) \<inter> set tokens = {} \<and>
     set ts = set (map (ceFingerprint env \<circ> token_of env) vs) \<union> set tokens \<and>
     (\<forall>v\<in>set vs. 32 \<le> length (token_of env v) \<and> crPrincipal v \<noteq> [])"
proof (induction vs arbitrary: seen tokens)
  case (Cons v vs)
  from Cons.prems have ok: "credential_ok env all seen tokens v = Inr ()"
    and rest: "credentials_ok env all (crID v # seen) (ceFingerprint env (token_of env v) # tokens) vs = Inr ts"
    by (auto simp: token_of_def split: sum.splits)
  show ?case using credential_okD [OF ok] Cons.IH [OF rest] by auto
qed simp

lemma publications_ok_refs:
  "publications_ok env tokens seen ps = Inr s \<Longrightarrow>
     \<forall>ref\<in>set (publication_refs ps). ceLookup env ref \<noteq> [] \<and> ceFingerprint env (ceLookup env ref) \<notin> set tokens"
proof (induction ps arbitrary: seen)
  case (Cons p ps)
  then show ?case by (auto simp: chain_simps each_ok publication_refs_def split: sum.splits)
qed (simp add: publication_refs_def)

lemma observations_ok_refs:
  "observations_ok env pubs tokens seen os = Inr u \<Longrightarrow>
     \<forall>r\<in>set os. \<forall>ref\<in>set (pull_refs (roPull r)).
       ceLookup env ref \<noteq> [] \<and> ceFingerprint env (ceLookup env ref) \<notin> set tokens \<and>
       (\<forall>other\<in>set (publication_refs pubs). other \<noteq> ref \<and> ceLookup env other \<noteq> ceLookup env ref)"
proof (induction os arbitrary: seen)
  case (Cons p ps)
  then show ?case by (auto simp: chain_simps each_ok split: sum.splits)
qed simp

text \<open>The secrets a configuration names, and the documented property of the hash on them.\<close>

definition secrets :: "ConfigEnv \<Rightarrow> Config \<Rightarrow> string \<Rightarrow> string set" where
  "secrets env c control =
     {control} \<union> token_of env ` set (cfCredentials c) \<union>
     ceLookup env ` set (publication_refs (cfPublications c)) \<union>
     ceLookup env ` (\<Union>r\<in>set (cfObservations c). set (pull_refs (roPull r)))"

definition collision_free :: "ConfigEnv \<Rightarrow> string set \<Rightarrow> bool" where
  "collision_free env S \<longleftrightarrow> (\<forall>x\<in>S. \<forall>y\<in>S. ceSha env x = ceSha env y \<longrightarrow> x = y)"

lemma collision_freeD: "collision_free env S \<Longrightarrow> x \<in> S \<Longrightarrow> y \<in> S \<Longrightarrow> ceSha env x = ceSha env y \<Longrightarrow> x = y"
  by (simp add: collision_free_def)

definition accepted :: "ConfigEnv \<Rightarrow> Config \<Rightarrow> string \<Rightarrow> Authority \<Rightarrow> bool" where
  "accepted env cfg control a \<longleftrightarrow>
     new_authority env cfg control = Inr a \<and> collision_free env (secrets env cfg control)"

lemma accepted_authority:
  "accepted env cfg control a \<Longrightarrow> auConfig a = cfg \<and> auControl a = ceSha env control"
  by (auto simp: accepted_def new_authority_def split: if_splits sum.splits)

lemma accepted_parts:
  assumes "accepted env cfg control a"
  obtains ts s1 s2 where
    "credentials_ok env (cfCredentials cfg) [] [ceFingerprint env control] (cfCredentials cfg) = Inr ts"
    "publications_ok env ts s1 (cfPublications cfg) = Inr s2"
    "observations_ok env (cfPublications cfg) ts s2 (cfObservations cfg) = Inr ()"
  using assms that by (auto simp: accepted_def new_authority_def split: if_splits sum.splits)

lemma map_distinct: "distinct (map f xs) \<Longrightarrow> distinct xs"
  by (simp add: distinct_map)

lemma accepted_credentials:
  assumes "accepted env cfg control a"
  shows "distinct (map crID (cfCredentials cfg)) \<and> distinct (map (token_of env) (cfCredentials cfg)) \<and>
    (\<forall>v\<in>set (cfCredentials cfg). 32 \<le> length (token_of env v) \<and> crPrincipal v \<noteq> [] \<and> token_of env v \<noteq> control)"
proof -
  obtain ts s1 s2 where p:
    "credentials_ok env (cfCredentials cfg) [] [ceFingerprint env control] (cfCredentials cfg) = Inr ts"
    "publications_ok env ts s1 (cfPublications cfg) = Inr s2"
    "observations_ok env (cfPublications cfg) ts s2 (cfObservations cfg) = Inr ()"
    by (rule accepted_parts [OF assms])
  note c = credentials_ok_all [OF p(1)]
  have "distinct (map (ceFingerprint env) (map (token_of env) (cfCredentials cfg)))" using c by simp
  then have "distinct (map (token_of env) (cfCredentials cfg))" by (rule map_distinct)
  then show ?thesis using c by auto
qed

definition pull_ref :: "Config \<Rightarrow> string \<Rightarrow> bool" where
  "pull_ref cfg ref \<longleftrightarrow> ref \<in> set (publication_refs (cfPublications cfg)) \<or>
     (\<exists>r\<in>set (cfObservations cfg). ref \<in> set (pull_refs (roPull r)))"

lemma pull_secret_fresh:
  assumes "accepted env cfg control a" and "pull_ref cfg ref"
  shows "ceLookup env ref \<noteq> [] \<and> ceLookup env ref \<noteq> control \<and>
    (\<forall>v\<in>set (cfCredentials cfg). ceLookup env ref \<noteq> token_of env v)"
proof -
  obtain ts s1 s2 where p:
    "credentials_ok env (cfCredentials cfg) [] [ceFingerprint env control] (cfCredentials cfg) = Inr ts"
    "publications_ok env ts s1 (cfPublications cfg) = Inr s2"
    "observations_ok env (cfPublications cfg) ts s2 (cfObservations cfg) = Inr ()"
    by (rule accepted_parts [OF assms(1)])
  have "ceLookup env ref \<noteq> [] \<and> ceFingerprint env (ceLookup env ref) \<notin> set ts"
    using assms(2) publications_ok_refs [OF p(2)] observations_ok_refs [OF p(3)] unfolding pull_ref_def by blast
  moreover have "set ts = set (map (ceFingerprint env \<circ> token_of env) (cfCredentials cfg)) \<union> {ceFingerprint env control}"
    using credentials_ok_all [OF p(1)] by simp
  ultimately show ?thesis by auto
qed

lemma observation_refs_apart:
  assumes "accepted env cfg control a" and "r \<in> set (cfObservations cfg)" "ref \<in> set (pull_refs (roPull r))"
    and "other \<in> set (publication_refs (cfPublications cfg))"
  shows "other \<noteq> ref \<and> ceLookup env other \<noteq> ceLookup env ref"
proof -
  obtain ts s1 s2 where p:
    "credentials_ok env (cfCredentials cfg) [] [ceFingerprint env control] (cfCredentials cfg) = Inr ts"
    "publications_ok env ts s1 (cfPublications cfg) = Inr s2"
    "observations_ok env (cfPublications cfg) ts s2 (cfObservations cfg) = Inr ()"
    by (rule accepted_parts [OF assms(1)])
  show ?thesis using observations_ok_refs [OF p(3)] assms by blast
qed

lemma known_secret:
  "control \<in> secrets env cfg control"
  "v \<in> set (cfCredentials cfg) \<Longrightarrow> token_of env v \<in> secrets env cfg control"
  "pull_ref cfg ref \<Longrightarrow> ceLookup env ref \<in> secrets env cfg control"
  by (auto simp: secrets_def pull_ref_def)

lemma accepted_sha:
  "accepted env cfg control a \<Longrightarrow> x \<in> secrets env cfg control \<Longrightarrow> y \<in> secrets env cfg control \<Longrightarrow>
   ceSha env x = ceSha env y \<longleftrightarrow> x = y"
  by (auto simp: accepted_def collision_free_def)

lemma pull_sha_free:
  assumes "accepted env cfg control a" and "pull_ref cfg ref"
  shows "ceSha env (ceLookup env ref) \<notin> set (auControl a # map (\<lambda>v. ceSha env (ceLookup env (crTokenEnv v))) (cfCredentials cfg))"
proof -
  note sha = accepted_sha [OF assms(1) known_secret(3) [OF assms(2)]] and fresh = pull_secret_fresh [OF assms]
  have "ceSha env (ceLookup env ref) \<noteq> ceSha env control" using sha [OF known_secret(1)] fresh by simp
  moreover have "ceSha env (ceLookup env ref) \<noteq> ceSha env (token_of env v)" if "v \<in> set (cfCredentials cfg)" for v
    using sha [OF known_secret(2) [OF that]] fresh that by simp
  ultimately show ?thesis using accepted_authority [OF assms(1)] by (auto simp: token_of_def)
qed

lemma accepted_separated:
  assumes "accepted env cfg control a"
  shows "registry_credentials_separated env a"
  using pull_secret_fresh [OF assms] pull_sha_free [OF assms] observation_refs_apart [OF assms]
    accepted_authority [OF assms]
  by (auto simp: registry_credentials_separated_def Let_def list_all_iff pull_ref_def)

lemma accepted_matches_once:
  assumes "accepted env cfg control a" and "c \<in> set (cfCredentials cfg)"
  shows "matching env a (token_of env c) = [c]"
proof -
  note creds = accepted_credentials [OF assms(1)]
  have eq: "(ceSha env (ceLookup env (crTokenEnv v)) = ceSha env (token_of env c) \<and>
      32 \<le> length (ceLookup env (crTokenEnv v))) = (v = c)" if v: "v \<in> set (cfCredentials cfg)" for v
  proof -
    have "ceSha env (token_of env v) = ceSha env (token_of env c) \<longleftrightarrow> token_of env v = token_of env c"
      by (rule accepted_sha [OF assms(1) known_secret(2) [OF v] known_secret(2) [OF assms(2)]])
    moreover have "token_of env v = token_of env c \<Longrightarrow> v = c"
      using creds v assms(2) by (simp add: distinct_map inj_on_def)
    ultimately show ?thesis using creds v by (auto simp: token_of_def)
  qed
  have "matching env a (token_of env c) = filter (\<lambda>v. v = c) (cfCredentials cfg)"
    unfolding matching_def using accepted_authority [OF assms(1)] eq by (auto intro: filter_cong)
  moreover have "distinct (cfCredentials cfg)" using creds map_distinct by blast
  moreover have "filter (\<lambda>v. v = x) xs = [x]" if "distinct xs" "x \<in> set xs" for x and xs :: "Credential list"
    using that by (induction xs) (auto simp: filter_empty_conv)
  ultimately show ?thesis using assms(2) by simp
qed

section \<open>Properties\<close>

text \<open>An accepted configuration serves its workers: each credential that is not revoked and not
  expired authenticates with its own token, as itself, and the principal stays current as long as
  that holds.\<close>

theorem accepted_credentials_authenticate:
  assumes "new_authority env cfg control = Inr a" and "collision_free env (secrets env cfg control)"
    and "c \<in> set (cfCredentials cfg)" and "\<not> crRevoked c" and "now < crExpiresAt c"
  shows "\<exists>p. authenticate env a (token_of env c) now = Inr p \<and> pcCredential p = c \<and> current env a p now"
proof -
  have acc: "accepted env cfg control a" using assms(1,2) by (simp add: accepted_def)
  note au = accepted_authority [OF acc] and creds = accepted_credentials [OF acc]
  have ne: "token_of env c \<noteq> []" using creds assms(3) by fastforce
  have nc: "ceSha env (token_of env c) \<noteq> auControl a"
    using accepted_sha [OF acc known_secret(2) [OF assms(3)] known_secret(1)] creds assms(3) au by simp
  have np: "\<not> list_ex (\<lambda>ref. ceSha env (ceLookup env ref) = ceSha env (token_of env c)) (publication_refs (cfPublications cfg))"
    using pull_sha_free [OF acc] assms(3) by (force simp: list_ex_iff pull_ref_def token_of_def)
  have auth: "authenticate env a (token_of env c) now =
      Inr \<lparr>pcCredential = c, pcFingerprint = ceSha env (token_of env c)\<rparr>"
    using accepted_separated [OF acc] accepted_matches_once [OF acc assms(3)] ne nc np assms(4,5) au
    by (simp add: authenticate_def)
  have "find (\<lambda>v. crID v = crID c) (cfCredentials cfg) = Some c"
    using creds assms(3) by (intro find_distinct_key) simp_all
  then show ?thesis using auth au by (simp add: current_def token_of_def [symmetric] Let_def)
qed

text \<open>C36. Authentication is sound: a token is accepted only when the secrets are still kept apart,
  exactly one credential has that secret with at least 32 bytes, it is neither revoked nor expired,
  and the token is neither the control token nor a registry secret.\<close>

theorem authentication_sound:
  assumes "authenticate env a token now = Inr p"
  shows "registry_credentials_separated env a \<and>
    (\<exists>xs ys. cfCredentials (auConfig a) = xs @ pcCredential p # ys \<and>
      (\<forall>c\<in>set xs \<union> set ys. ceSha env (token_of env c) = ceSha env token \<longrightarrow> length (token_of env c) < 32)) \<and>
    ceSha env (token_of env (pcCredential p)) = ceSha env token \<and> 32 \<le> length (token_of env (pcCredential p)) \<and>
    \<not> crRevoked (pcCredential p) \<and> now < crExpiresAt (pcCredential p) \<and> ceSha env token \<noteq> auControl a \<and>
    (\<forall>ref\<in>set (publication_refs (cfPublications (auConfig a))). ceSha env (ceLookup env ref) \<noteq> ceSha env token) \<and>
    pcFingerprint p = ceSha env token"
proof -
  from assms obtain c where c: "matching env a token = [c]" "registry_credentials_separated env a"
    "ceSha env token \<noteq> auControl a" "\<not> crRevoked c" "now < crExpiresAt c"
    "\<not> list_ex (\<lambda>ref. ceSha env (ceLookup env ref) = ceSha env token) (publication_refs (cfPublications (auConfig a)))"
    "p = \<lparr>pcCredential = c, pcFingerprint = ceSha env token\<rparr>"
    by (auto simp: authenticate_def Let_def split: if_splits list.splits)
  define P where "P = (\<lambda>v :: Credential. ceSha env (ceLookup env (crTokenEnv v)) = ceSha env token \<and>
      32 \<le> length (ceLookup env (crTokenEnv v)))"
  have "filter P (cfCredentials (auConfig a)) = [c]" using c(1) by (simp add: matching_def P_def)
  then obtain xs ys where split: "cfCredentials (auConfig a) = xs @ c # ys" "\<forall>v\<in>set xs. \<not> P v" "P c" "filter P ys = []"
    by (metis filter_eq_Cons_iff)
  then have "\<forall>v\<in>set xs \<union> set ys. \<not> P v" by (auto simp: filter_empty_conv)
  then have "\<forall>v\<in>set xs \<union> set ys. ceSha env (token_of env v) = ceSha env token \<longrightarrow> length (token_of env v) < 32"
    by (auto simp: P_def token_of_def)
  then show ?thesis using c split(1,3) by (auto simp: P_def token_of_def list_ex_iff)
qed

text \<open>A principal does not outlive its secret: it is current only while the environment still
  holds a secret with the hash it was authenticated with for a credential equal to its own that is
  neither revoked nor expired; rotating the secret, colliding it with another one or expiry ends it.\<close>

theorem current_needs_secret:
  assumes "current env a p now"
  shows "pcCredential p \<in> set (cfCredentials (auConfig a)) \<and>
    ceSha env (token_of env (pcCredential p)) = pcFingerprint p \<and>
    length (matching env a (token_of env (pcCredential p))) = 1 \<and>
    \<not> crRevoked (pcCredential p) \<and> now < crExpiresAt (pcCredential p) \<and> pcFingerprint p \<noteq> auControl a"
proof -
  from assms obtain c fresh where c: "find (\<lambda>c. crID c = crID (pcCredential p)) (cfCredentials (auConfig a)) = Some c"
      "ceSha env (ceLookup env (crTokenEnv c)) = pcFingerprint p"
      "authenticate env a (ceLookup env (crTokenEnv c)) now = Inr fresh" "pcCredential fresh = pcCredential p"
    by (auto simp: current_def Let_def split: option.splits if_splits sum.splits)
  from c(3) obtain d where d: "matching env a (ceLookup env (crTokenEnv c)) = [d]"
      "ceSha env (ceLookup env (crTokenEnv c)) \<noteq> auControl a" "\<not> crRevoked d" "now < crExpiresAt d" "pcCredential fresh = d"
    by (auto simp: authenticate_def Let_def split: if_splits list.splits)
  have mem: "v \<in> set (matching env a t) \<longleftrightarrow> v \<in> set (cfCredentials (auConfig a)) \<and>
      ceSha env (ceLookup env (crTokenEnv v)) = ceSha env t \<and> 32 \<le> length (ceLookup env (crTokenEnv v))" for v t
    by (auto simp: matching_def)
  have dd: "d \<in> set (cfCredentials (auConfig a))" "ceSha env (ceLookup env (crTokenEnv d)) = pcFingerprint p"
    using mem [of d "ceLookup env (crTokenEnv c)"] d(1) c(2) by auto
  have "matching env a (token_of env d) = matching env a (ceLookup env (crTokenEnv c))"
    using dd(2) c(2) by (simp add: matching_def token_of_def)
  then show ?thesis using d dd c(2,4) by (simp add: token_of_def)
qed

section \<open>A sample configuration\<close>

definition sample_digest :: string where
  "sample_digest = ''sha256:'' @ replicate 64 (CHR ''a'')"

definition sample_env :: ConfigEnv where
  "sample_env = \<lparr>ceLookup = (\<lambda>v. if v = ''WORKER_A'' then replicate 32 (CHR ''a'') else replicate 32 (CHR ''b'')),
     ceSha = (\<lambda>s. s), ceFingerprint = (\<lambda>s. s), ceRecipeHash = (\<lambda>r. sample_digest),
     cePublicationHash = (\<lambda>r. sample_digest), ceObservationHash = (\<lambda>r. sample_digest),
     ceParseURL = (\<lambda>s. Some \<lparr>uScheme = ''https'', uOpaque = [], uUser = False, uHost = ''github.com'',
        uHostname = ''github.com'', uPath = ''/o/r'', uRawPath = [], uForceQuery = False, uRawQuery = [],
        uFragment = [], uString = s\<rparr>),
     ceCanonicalURL = (\<lambda>s. s), ceLoopback = (\<lambda>s. False), cePatchPaths = (\<lambda>ps. True), ceImage = (\<lambda>s. Some s)\<rparr>"

definition sample_credential :: "string \<Rightarrow> string \<Rightarrow> Credential" where
  "sample_credential i v = \<lparr>crID = i, crPrincipal = i, crTokenEnv = v, crProductIDs = [''p1''], crRepositoryIDs = [''r1''],
     crCapabilities = [''source_check''], crExpiresAt = 1000, crRevoked = False\<rparr>"

definition sample_recipe :: Recipe where
  "sample_recipe = \<lparr>recIntelligencePaths = [], recCheck = None, recID = ''build'', recRevision = ''1'', recHash = sample_digest,
     recProductID = ''p1'', recRepositoryID = ''r1'', recRepositoryURL = ''https://github.com/o/r'',
     recCapability = ''source_check'', recTrust = ''trusted_source'',
     recParameters = [(''level'', \<lparr>pmType = ''integer'', pmEnum = [], pmMin = 0, pmMax = 9\<rparr>)], recExecution = None\<rparr>"

definition sample_config :: Config where
  "sample_config = \<lparr>cfObservations = [], cfRevision = ''rev1'', cfLeaseSeconds = 60, cfPublications = [],
     cfRecipes = [sample_recipe],
     cfCredentials = [sample_credential ''wa'' ''WORKER_A'', sample_credential ''wb'' ''WORKER_B'']\<rparr>"

definition sample_authority :: Authority where
  "sample_authority = \<lparr>auConfig = sample_config, auControl = ''control''\<rparr>"

definition sample_token :: string where
  "sample_token = replicate 32 (CHR ''a'')"

definition sample_principal :: Principal where
  "sample_principal = \<lparr>pcCredential = sample_credential ''wa'' ''WORKER_A'', pcFingerprint = sample_token\<rparr>"

theorem accepted_credentials_authenticate_witness:
  "\<exists>p. authenticate sample_env sample_authority sample_token 5 = Inr p \<and>
     principal_id p = ''wa'' \<and> current sample_env sample_authority p 5"
proof -
  have acc: "new_authority sample_env sample_config ''control'' = Inr sample_authority" by code_simp
  have col: "collision_free sample_env (secrets sample_env sample_config ''control'')"
    by (simp add: collision_free_def sample_env_def)
  have c: "sample_credential ''wa'' ''WORKER_A'' \<in> set (cfCredentials sample_config)"
    "\<not> crRevoked (sample_credential ''wa'' ''WORKER_A'')" "5 < crExpiresAt (sample_credential ''wa'' ''WORKER_A'')"
    by (simp_all add: sample_config_def sample_credential_def)
  have "token_of sample_env (sample_credential ''wa'' ''WORKER_A'') = sample_token"
    by (simp add: token_of_def sample_env_def sample_credential_def sample_token_def)
  then show ?thesis
    using accepted_credentials_authenticate [OF acc col c] by (auto simp: principal_id_def sample_credential_def)
qed

theorem authentication_sound_witness:
  "authenticate sample_env sample_authority sample_token 5 = Inr sample_principal \<and>
   registry_credentials_separated sample_env sample_authority \<and> \<not> crRevoked (pcCredential sample_principal)"
proof -
  have "authenticate sample_env sample_authority sample_token 5 = Inr sample_principal" by code_simp
  then show ?thesis using authentication_sound by blast
qed

text \<open>With the secret of worker A rotated to the one of worker B neither of them is current.\<close>

theorem current_needs_secret_witness:
  "current sample_env sample_authority sample_principal 5 \<and>
   pcFingerprint sample_principal \<noteq> auControl sample_authority \<and>
   \<not> current (sample_env\<lparr>ceLookup := \<lambda>v. replicate 32 (CHR ''b'')\<rparr>) sample_authority sample_principal 5"
proof -
  have "current sample_env sample_authority sample_principal 5" by code_simp
  moreover have "\<not> current (sample_env\<lparr>ceLookup := \<lambda>v. replicate 32 (CHR ''b'')\<rparr>) sample_authority sample_principal 5"
    by code_simp
  ultimately show ?thesis using current_needs_secret by blast
qed

section \<open>Parameters\<close>

lemma distinct_keys_subset:
  assumes "distinct (map fst ps)" "distinct (map fst qs)" "length ps = length qs" "set (map fst qs) \<subseteq> set (map fst ps)"
  shows "set (map fst ps) = set (map fst qs)"
proof -
  have "card (set (map fst ps)) = card (set (map fst qs))"
    using assms(1-3) by (simp add: distinct_card del: set_map)
  then show ?thesis using assms(4) by (metis List.finite_set card_subset_eq)
qed

text \<open>The parameters of a job match the recipe exactly: for maps (distinct names) they are
  accepted if and only if they have the names the recipe declares, no more and no fewer, and each
  value fits its declaration.\<close>

theorem parameters_exact:
  assumes "distinct (map fst params)" and "distinct (map fst (recParameters r))"
  shows "validate_parameters r params = Inr () \<longleftrightarrow>
    set (map fst params) = set (map fst (recParameters r)) \<and>
    (\<forall>(name, d)\<in>set (recParameters r). \<forall>v. map_of params name = Some v \<longrightarrow> parameter_value d v = Inr ())"
proof -
  have iff: "validate_parameters r params = Inr () \<longleftrightarrow> length params = length (recParameters r) \<and>
      (\<forall>(name, d)\<in>set (recParameters r). \<exists>v. map_of params name = Some v \<and> parameter_value d v = Inr ())"
    by (auto simp: validate_parameters_def each_ok split: option.splits prod.splits) fastforce+
  show ?thesis
  proof
    assume ok: "validate_parameters r params = Inr ()"
    have "set (map fst (recParameters r)) \<subseteq> set (map fst params)"
    proof
      fix n assume "n \<in> set (map fst (recParameters r))"
      then obtain d v where "map_of params n = Some v" using ok iff by fastforce
      then show "n \<in> set (map fst params)" by (metis image_eqI list.set_map map_of_SomeD fst_conv)
    qed
    then have "set (map fst params) = set (map fst (recParameters r))"
      using distinct_keys_subset assms ok iff by metis
    then show "set (map fst params) = set (map fst (recParameters r)) \<and>
        (\<forall>(name, d)\<in>set (recParameters r). \<forall>v. map_of params name = Some v \<longrightarrow> parameter_value d v = Inr ())"
      using ok iff by fastforce
  next
    assume ok: "set (map fst params) = set (map fst (recParameters r)) \<and>
        (\<forall>(name, d)\<in>set (recParameters r). \<forall>v. map_of params name = Some v \<longrightarrow> parameter_value d v = Inr ())"
    have "length params = length (recParameters r)"
      using ok assms distinct_card [of "map fst params"] distinct_card [of "map fst (recParameters r)"] by simp
    moreover have "\<exists>v. map_of params n = Some v" if "n \<in> set (map fst (recParameters r))" for n
      using ok that by (metis list.set_map map_of_eq_None_iff option.exhaust)
    ultimately show "validate_parameters r params = Inr ()"
      unfolding iff using ok by fastforce
  qed
qed

theorem parameters_exact_witness:
  "validate_parameters sample_recipe [(''level'', JInt 3)] = Inr () \<and>
   validate_parameters sample_recipe [(''level'', JInt 10)] \<noteq> Inr () \<and>
   validate_parameters sample_recipe [(''other'', JInt 3)] \<noteq> Inr ()"
  using parameters_exact [of "[(''level'', JInt 3)]" sample_recipe]
    parameters_exact [of "[(''level'', JInt 10)]" sample_recipe] parameters_exact [of "[(''other'', JInt 3)]" sample_recipe]
  by (simp add: sample_recipe_def parameter_value_def dec_int_def)

text \<open>An integer parameter accepts \<open>null\<close>: decoding \<open>null\<close> into an integer leaves its zero,
  so a recipe whose bounds contain 0 takes a parameter without a value.\<close>

theorem null_integer_parameter:
  "validate_parameters sample_recipe [(''level'', JNull)] = Inr ()"
  by (simp add: validate_parameters_def sample_recipe_def parameter_value_def dec_int_def reject_def)

end
