(* ===== verification/WorkerProtocol.thy ===== *)
theory WorkerProtocol
  imports WorkerConfig Commands
begin

text \<open>
  \<open>internal/application/worker_execution.go\<close>: the queue of external jobs, their leases and
  reports. A pointer to a row of \<open>st.WorkerJobs\<close> is its index. The authority is the model of
  \<open>WorkerConfig\<close>; the checks other files contribute (patches of conflict tasks, check
  publication, managed deliveries, the validation of registry reports) are the fields of
  \<open>WorkerParts\<close>. The clock readings and random IDs of one call are in \<open>WorkerCtx\<close>; the
  IDs of its audit events are a function of the length of the log.
\<close>

section \<open>Requests\<close>

record QueueInput =
  qiIntelligenceTaskID :: string
  qiRequestKey :: string
  qiRecipeID :: string
  qiRecipeRevision :: string
  qiRecipeHash :: string
  qiConfigRevision :: string
  qiRevisionID :: string
  qiSourceSHA :: string
  qiParameters :: json_data
  qiDeadline :: time
  qiMaxAttempts :: int

definition zero_QueueInput :: QueueInput where
  "zero_QueueInput = \<lparr>qiIntelligenceTaskID = [], qiRequestKey = [], qiRecipeID = [], qiRecipeRevision = [],
     qiRecipeHash = [], qiConfigRevision = [], qiRevisionID = [], qiSourceSHA = [], qiParameters = [],
     qiDeadline = zero_time, qiMaxAttempts = 0\<rparr>"

definition fields_QueueInput :: "QueueInput field list" where
  "fields_QueueInput =
     [field ''intelligence_task_id'' qiIntelligenceTaskID qiIntelligenceTaskID_update dec_string,
      field ''request_key'' qiRequestKey qiRequestKey_update dec_string,
      field ''recipe_id'' qiRecipeID qiRecipeID_update dec_string,
      field ''recipe_revision'' qiRecipeRevision qiRecipeRevision_update dec_string,
      field ''recipe_hash'' qiRecipeHash qiRecipeHash_update dec_string,
      field ''config_revision'' qiConfigRevision qiConfigRevision_update dec_string,
      field ''revision_id'' qiRevisionID qiRevisionID_update dec_string,
      field ''source_sha'' qiSourceSHA qiSourceSHA_update dec_string,
      field ''parameters'' qiParameters qiParameters_update (dec_map dec_any JNull),
      field ''deadline'' qiDeadline qiDeadline_update dec_time,
      field ''max_attempts'' qiMaxAttempts qiMaxAttempts_update dec_int]"

record WorkerParts =
  wkEnv :: ConfigEnv
  wkAuthority :: "Authority option"
  wkInputHash :: "WorkerInputs \<Rightarrow> string"
  wkRequestHash :: "string \<Rightarrow> string \<Rightarrow> string \<Rightarrow> QueueInput \<Rightarrow> string"
  wkBindPatch :: "State \<Rightarrow> Recipe \<Rightarrow> string \<Rightarrow> string \<Rightarrow> string \<Rightarrow> string \<Rightarrow> IntelligencePatchBinding option result"
  wkPatch :: "State \<Rightarrow> WorkerJob \<Rightarrow> json result"
  wkQueueCheck :: "State \<Rightarrow> string \<Rightarrow> State result"
  wkCheckAuthority :: "State \<Rightarrow> ExternalOperation option \<Rightarrow> unit result"
  wkCheckReady :: "State \<Rightarrow> WorkerJob \<Rightarrow> bool"
  wkManaged :: "State \<Rightarrow> WorkerJob \<Rightarrow> unit result"
  wkOrigin :: "State \<Rightarrow> WorkerJob \<Rightarrow> unit result"
  wkRegistryReport :: "WorkerJob \<Rightarrow> WorkerAttempt \<Rightarrow> WorkerReport \<Rightarrow> time \<Rightarrow> unit result"

record WorkerCtx =
  wxNow :: time
  wxID :: string
  wxOperationID :: string
  wxEventID :: "nat \<Rightarrow> string"

section \<open>Rows\<close>

definition job_at :: "State \<Rightarrow> nat \<Rightarrow> WorkerJob" where
  "job_at st n = stWorkerJobs st ! n"

definition set_job :: "nat \<Rightarrow> WorkerJob \<Rightarrow> State \<Rightarrow> State" where
  "set_job n j st = st\<lparr>stWorkerJobs := (stWorkerJobs st)[n := j]\<rparr>"

definition worker_job :: "State \<Rightarrow> string \<Rightarrow> nat option" where
  "worker_job st i = find (\<lambda>n. mID (jMeta (job_at st n)) = i) [0..<length (stWorkerJobs st)]"

definition worker_attempt :: "State \<Rightarrow> string \<Rightarrow> WorkerAttempt option" where
  "worker_attempt st i = find (\<lambda>a. mID (aMeta a) = i) (stWorkerAttempts st)"

definition of_job :: "WorkerJob \<Rightarrow> WorkerAttempt \<Rightarrow> bool" where
  "of_job j a \<longleftrightarrow> aJobID a = mID (jMeta j) \<and> aFence a = jFence j"

definition current_attempt :: "State \<Rightarrow> WorkerJob \<Rightarrow> WorkerAttempt option" where
  "current_attempt st j = find (of_job j) (stWorkerAttempts st)"

definition close_attempt :: "WorkerJob \<Rightarrow> string \<Rightarrow> time \<Rightarrow> State \<Rightarrow> State" where
  "close_attempt j s now st =
     st\<lparr>stWorkerAttempts := update_first (of_job j)
          (\<lambda>a. a\<lparr>aStatus := s, aMeta := (aMeta a)\<lparr>mUpdatedAt := now\<rparr>\<rparr>) (stWorkerAttempts st)\<rparr>"

definition native_quarantined :: "State \<Rightarrow> string \<Rightarrow> bool" where
  "native_quarantined st p \<longleftrightarrow> list_ex (\<lambda>q. mProductID (nqMeta q) = p) (stNativeQuarantines st)"

definition worker_terminal :: "string \<Rightarrow> bool" where
  "worker_terminal s \<longleftrightarrow> s = ''SUCCEEDED'' \<or> s = ''FAILED'' \<or> s = ''CANCELLED'' \<or> s = ''DEADLINE_EXCEEDED''"

section \<open>The audit event and the operation of a job\<close>

definition projected :: "WorkerJob \<Rightarrow> time \<Rightarrow> ExternalOperation \<Rightarrow> ExternalOperation" where
  "projected j now o' =
     o'\<lparr>opStatus := (if worker_terminal (jStatus j) then
            (if jStatus j = ''DEADLINE_EXCEEDED'' then ''FAILED'' else jStatus j)
          else if jStatus j = ''QUEUED'' then ''PENDING'' else ''RUNNING''),
        opAttempts := sint (jFence j),
        opPhase := ''EXTERNAL_'' @ jStatus j,
        opMeta := (opMeta o')\<lparr>mUpdatedAt := now\<rparr>,
        opLeaseOwner := [], opLeaseUntil := zero_time,
        opError := (if jStatus j = ''RECONCILIATION_REQUIRED'' then ''WORKER_RECONCILIATION_REQUIRED'' else []),
        opDetail := (if jStatus j = ''RECONCILIATION_REQUIRED''
          then ''External execution requires explicit reconciliation; automatic replay is disabled'' else []),
        opFinishedAt := (if worker_terminal (jStatus j) then Some now else None)\<rparr>"

definition worker_event :: "WorkerCtx \<Rightarrow> State \<Rightarrow> WorkerJob \<Rightarrow> string \<Rightarrow> string \<Rightarrow> time \<Rightarrow> Event" where
  "worker_event x st j actor action now =
     \<lparr>evID = wxEventID x (length (stEvents st)), evAction = action, evActor = actor, evAt = now,
      evEntityID = mID (jMeta j), evProductID = mProductID (jMeta j), evFeatureID = mFeatureID (jMeta j),
      evData = zero_Command\<lparr>cAction := action, cActor := actor, cID := mID (jMeta j),
        cProductID := mProductID (jMeta j), cFeatureID := mFeatureID (jMeta j),
        cData := [(''status'', JStr (jStatus j)), (''fence'', JInt (uint (jFence j))),
                  (''input_hash'', JStr (jInputHash j))]\<rparr>\<rparr>"

definition worker_audit :: "WorkerCtx \<Rightarrow> time \<Rightarrow> nat \<Rightarrow> string \<Rightarrow> string \<Rightarrow> State \<Rightarrow> State" where
  "worker_audit x now n actor action st =
     (let j = (job_at st n)\<lparr>jMeta := (jMeta (job_at st n))\<lparr>mUpdatedAt := now\<rparr>\<rparr>;
          st = set_job n j st;
          st = st\<lparr>stEvents := stEvents st @ [worker_event x st j actor action now]\<rparr>
      in st\<lparr>stOperations := update_first (\<lambda>o'. mID (opMeta o') = jOperationID j) (projected j now) (stOperations st)\<rparr>)"

section \<open>Cancellation and reconciliation\<close>

text \<open>The status of a job that is cancelled: an execution that may have started is not cancelled, it
  has to be reconciled.\<close>

definition cancelled_job :: "WorkerJob \<Rightarrow> WorkerJob" where
  "cancelled_job j =
     j\<lparr>jCancellationRequested := True,
        jStatus := (if jStatus j = ''RUNNING'' \<or> jStatus j = ''RECONCILIATION_REQUIRED''
          then ''RECONCILIATION_REQUIRED'' else ''CANCELLED'')\<rparr>"

definition stop_job :: "WorkerCtx \<Rightarrow> time \<Rightarrow> State \<Rightarrow> string \<Rightarrow> State" where
  "stop_job x now st i =
     (case worker_job st i of
        None \<Rightarrow> st
      | Some n \<Rightarrow>
          (if worker_terminal (jStatus (job_at st n)) then st
           else let j = cancelled_job (job_at st n) in
             worker_audit x now n ''system/native-delivery'' ''native_delivery_stopped''
               (close_attempt j (jStatus j) now (set_job n j st))))"

definition stopped_operation :: "string \<Rightarrow> string \<Rightarrow> time \<Rightarrow> ExternalOperation \<Rightarrow> ExternalOperation" where
  "stopped_operation status detail now o' =
     o'\<lparr>opStatus := (if status = ''BLOCKED'' then ''FAILED'' else status),
        opError := (if status = ''BLOCKED'' then detail else opError o'),
        opDeploymentState := status, opDetail := detail, opFinishedAt := Some now,
        opMeta := (opMeta o')\<lparr>mUpdatedAt := now\<rparr>, opLeaseOwner := [], opLeaseUntil := zero_time\<rparr>"

definition stop_native_delivery ::
  "WorkerCtx \<Rightarrow> time \<Rightarrow> string \<Rightarrow> string \<Rightarrow> string \<Rightarrow> State \<Rightarrow> State" where
  "stop_native_delivery x now i status detail st =
     (case operation_by_id st i of
        None \<Rightarrow> st
      | Some o' \<Rightarrow>
          (let st = st\<lparr>stOperations := update_first (\<lambda>p. mID (opMeta p) = i)
                 (stopped_operation status detail now) (stOperations st)\<rparr>
           in case opNative o' of
                None \<Rightarrow> st
              | Some d \<Rightarrow> foldl (stop_job x now) st [ndBuildJobID d, ndPublicationJobID d]))"

definition cancel_worker_job :: "WorkerCtx \<Rightarrow> Command \<Rightarrow> nat \<Rightarrow> State \<Rightarrow> (WorkerJob \<times> State) result" where
  "cancel_worker_job x c n st =
     (let j = job_at st n; now = wxNow x in
      case decode [] (cData c) () of
        Inl e \<Rightarrow> Inl e
      | Inr _ \<Rightarrow>
          (if worker_terminal (jStatus j) then Inl (invalid ''job already terminal'' [])
           else case wiSourceProof (jInputs j) of
             Some p \<Rightarrow>
               (if (case operation_by_id st (wspDeliveryID p) of
                      None \<Rightarrow> True
                    | Some o' \<Rightarrow> opPhase o' = ''APPLY_UNCERTAIN'' \<or> opGitOpsPR o' \<noteq> None \<or> opGitOpsResult o' \<noteq> None)
                then Inl (invalid ''managed delivery has external PR intent'' [])
                else let st = stop_native_delivery x now (wspDeliveryID p) ''CANCELLED'' ''managed worker job cancelled'' st
                     in Inr (job_at st n, st))
           | None \<Rightarrow>
               (let j = cancelled_job j;
                    st = worker_audit x now n (cActor c) (cAction c)
                      (close_attempt j (jStatus j) now (set_job n j st))
                in Inr (job_at st n, st))))"

record OutcomeInput =
  oiOutcome :: string

definition reconcile_worker_job :: "WorkerCtx \<Rightarrow> Command \<Rightarrow> nat \<Rightarrow> State \<Rightarrow> (WorkerJob \<times> State) result" where
  "reconcile_worker_job x c n st =
     (let j = job_at st n; now = wxNow x in
      case decode [field ''outcome'' oiOutcome oiOutcome_update dec_string] (cData c) \<lparr>oiOutcome = []\<rparr> of
        Inl e \<Rightarrow> Inl e
      | Inr input \<Rightarrow>
          (let s = oiOutcome input in
           if jStatus j \<noteq> ''RECONCILIATION_REQUIRED'' \<or> s \<noteq> ''FAILED'' \<and> s \<noteq> ''CANCELLED''
           then Inl (invalid ''explicit reconciliation requires FAILED or CANCELLED'' [])
           else let j = j\<lparr>jStatus := s\<rparr>;
                    st = worker_audit x now n (cActor c) (cAction c) (close_attempt j s now (set_job n j st))
                in Inr (job_at st n, st)))"

definition manage_worker_job :: "WorkerCtx \<Rightarrow> Command \<Rightarrow> State \<Rightarrow> (WorkerJob \<times> State) result" where
  "manage_worker_job x c st =
     (if cFeatureID c \<noteq> [] \<or> cIntegrationID c \<noteq> [] \<or> cGateID c \<noteq> [] \<or> cCheckID c \<noteq> [] \<or> cResultID c \<noteq> []
      then Inl (invalid ''unexpected worker command scope'' [])
      else case worker_job st (cID c) of
        None \<Rightarrow> Inl (missing ''worker job'' (cID c))
      | Some n \<Rightarrow>
          (if cProductID c \<noteq> mProductID (jMeta (job_at st n)) then Inl (invalid ''worker job outside product'' [])
           else if cAction c = ''cancel_worker_job'' then cancel_worker_job x c n st
           else if cAction c = ''reconcile_worker_job'' then reconcile_worker_job x c n st
           else Inl (invalid ''unknown worker action'' [])))"

section \<open>The queue\<close>

definition queue_input :: "Command \<Rightarrow> QueueInput result" where
  "queue_input c =
     (if cID c \<noteq> [] \<or> cFeatureID c \<noteq> [] \<or> cGateID c \<noteq> [] \<or> cCheckID c \<noteq> [] \<or> cResultID c \<noteq> []
      then Inl (invalid ''unexpected queue metadata'' [])
      else case decode fields_QueueInput (cData c) zero_QueueInput of
        Inl e \<Rightarrow> Inl e
      | Inr v \<Rightarrow>
          (if \<not> worker_request_key (qiRequestKey v) \<or> has_prefix (qiRequestKey v) ''native-build:'' \<or>
              has_prefix (qiRequestKey v) ''native-publish:''
           then Inl (invalid ''request_key must contain 16..128 identifier characters'' [])
           else Inr v))"

definition previous_job :: "State \<Rightarrow> string \<Rightarrow> string \<Rightarrow> WorkerJob option" where
  "previous_job st p key = find (\<lambda>j. mProductID (jMeta j) = p \<and> jRequestKey j = key) (stWorkerJobs st)"

definition captured_revision :: "State \<Rightarrow> string \<Rightarrow> IntegrationRevision option" where
  "captured_revision st i = find_last (\<lambda>r. mID (revMeta r) = i) (stIntegrationRevisions st)"

definition queue_checks ::
  "WorkerParts \<Rightarrow> Authority \<Rightarrow> time \<Rightarrow> Command \<Rightarrow> QueueInput \<Rightarrow> Recipe \<Rightarrow> State \<Rightarrow> unit result" where
  "queue_checks w a now c v r st = chain
     [reject (qiRecipeRevision v \<noteq> recRevision r \<or> qiRecipeHash v \<noteq> recHash r \<or>
          qiConfigRevision v \<noteq> cfRevision (auConfig a) \<or> recProductID r \<noteq> cProductID c)
        (invalid ''recipe or configuration identity mismatch'' []),
      (case validate_parameters r (qiParameters v) of
         Inl _ \<Rightarrow> Inl (invalid ''invalid typed recipe parameters'' []) | Inr _ \<Rightarrow> Inr ()),
      reject (qiMaxAttempts v < 1 \<or> 10 < qiMaxAttempts v \<or> \<not> now < qiDeadline v \<or> now + hour < qiDeadline v)
        (invalid ''worker bounds: deadline within one hour, attempts 1..10'' []),
      reject (case integration st (cIntegrationID c) of
          None \<Rightarrow> True | Some i \<Rightarrow> mProductID (iMeta i) \<noteq> cProductID c)
        (invalid ''integration outside product'' []),
      reject (case captured_revision st (qiRevisionID v) of
          None \<Rightarrow> True
        | Some v' \<Rightarrow> mProductID (revMeta v') \<noteq> cProductID c \<or> revIntegrationID v' \<noteq> cIntegrationID c \<or>
            revRepositoryID v' \<noteq> recRepositoryID r \<or> revHeadCommit v' \<noteq> qiSourceSHA v \<or> \<not> full_sha (qiSourceSHA v))
        (invalid ''captured source identity mismatch'' []),
      reject (\<not> list_ex (\<lambda>repo. mID (repoMeta repo) = recRepositoryID r \<and>
            mProductID (repoMeta repo) = cProductID c \<and> repoURL repo = recRepositoryURL r) (stRepositories st))
        (invalid ''configured repository identity mismatch'' [])]"

definition queued_inputs :: "QueueInput \<Rightarrow> Recipe \<Rightarrow> IntelligencePatchBinding option \<Rightarrow> WorkerInputs" where
  "queued_inputs v r patch = zero_WorkerInputs\<lparr>wiIntelligencePatch := patch, wiCheck := recCheck r, wiRecipeID := recID r,
     wiRecipeRevision := recRevision r, wiRecipeHash := recHash r, wiConfigRevision := qiConfigRevision v,
     wiRepositoryID := recRepositoryID r, wiRepositoryURL := recRepositoryURL r, wiRevisionID := qiRevisionID v,
     wiSourceSHA := qiSourceSHA v, wiTrust := recTrust r, wiParameters := qiParameters v, wiExecution := recExecution r\<rparr>"

definition queued_job ::
  "WorkerParts \<Rightarrow> WorkerCtx \<Rightarrow> Command \<Rightarrow> QueueInput \<Rightarrow> Recipe \<Rightarrow> string \<Rightarrow> WorkerInputs \<Rightarrow> WorkerJob" where
  "queued_job w x c v r f inputs = zero_WorkerJob\<lparr>
     jMeta := \<lparr>mID = wxID x, mProductID = cProductID c, mFeatureID = f, mActor = cActor c,
       mCreatedAt = wxNow x, mUpdatedAt = wxNow x\<rparr>,
     jOperationID := wxOperationID x, jRequestKey := qiRequestKey v,
     jRequestHash := wkRequestHash w (cProductID c) (cIntegrationID c) (cActor c) v,
     jIntegrationID := cIntegrationID c, jCapability := recCapability r, jInputs := inputs,
     jInputHash := wkInputHash w inputs, jStatus := ''QUEUED'', jDeadline := qiDeadline v,
     jMaxAttempts := qiMaxAttempts v\<rparr>"

definition queued_operation :: "WorkerCtx \<Rightarrow> Command \<Rightarrow> Recipe \<Rightarrow> string \<Rightarrow> ExternalOperation" where
  "queued_operation x c r f = zero_ExternalOperation\<lparr>
     opMeta := \<lparr>mID = wxOperationID x, mProductID = cProductID c, mFeatureID = f, mActor = cActor c,
       mCreatedAt = wxNow x, mUpdatedAt = wxNow x\<rparr>,
     opKind := ''WORKER_EXECUTION'', opIntegrationID := cIntegrationID c, opRepositoryID := recRepositoryID r,
     opRequestedBy := cActor c, opStatus := ''PENDING'', opPhase := ''EXTERNAL_QUEUED''\<rparr>"

definition append_job :: "ExternalOperation \<Rightarrow> WorkerJob \<Rightarrow> State \<Rightarrow> State" where
  "append_job o' j st =
     st\<lparr>stOperations := stOperations st @ [o'], stWorkerJobs := stWorkerJobs st @ [j]\<rparr>"

definition queue_worker_job ::
  "WorkerParts \<Rightarrow> Authority \<Rightarrow> WorkerCtx \<Rightarrow> Command \<Rightarrow> State \<Rightarrow> (WorkerJob \<times> State) result" where
  "queue_worker_job w a x c st =
     (case queue_input c of
        Inl e \<Rightarrow> Inl e
      | Inr v \<Rightarrow>
        (case previous_job st (cProductID c) (qiRequestKey v) of
           Some j \<Rightarrow>
             (if jRequestHash j \<noteq> wkRequestHash w (cProductID c) (cIntegrationID c) (cActor c) v
              then Inl (invalid ''request_key already names different immutable inputs'' [])
              else Inr (j, st))
         | None \<Rightarrow>
           (case find_recipe a (qiRecipeID v) of
              None \<Rightarrow> Inl (invalid ''recipe or configuration identity mismatch'' [])
            | Some r \<Rightarrow>
              (case queue_checks w a (wxNow x) c v r st of
                 Inl e \<Rightarrow> Inl e
               | Inr _ \<Rightarrow>
                 (case wkBindPatch w st r (qiIntelligenceTaskID v) (cProductID c) (qiSourceSHA v) (cIntegrationID c) of
                    Inl e \<Rightarrow> Inl e
                  | Inr patch \<Rightarrow>
                    (let f = (case integration st (cIntegrationID c) of None \<Rightarrow> [] | Some i \<Rightarrow> mFeatureID (iMeta i));
                         j = queued_job w x c v r f (queued_inputs v r patch)
                     in case wkQueueCheck w (append_job (queued_operation x c r f) j st) (mID (jMeta j)) of
                       Inl e \<Rightarrow> Inl e
                     | Inr st \<Rightarrow>
                         (let st = worker_audit x (wxNow x) (length (stWorkerJobs st) - 1) (cActor c) (cAction c) st in
                          case worker_job st (mID (jMeta j)) of
                            None \<Rightarrow> Inl (GoPanic ''nil worker job'')
                          | Some k \<Rightarrow> Inr (job_at st k, st))))))))"

definition execute_worker_command ::
  "WorkerParts \<Rightarrow> WorkerCtx \<times> Command \<Rightarrow> State \<Rightarrow> (WorkerJob \<times> State) result" where
  "execute_worker_command w xc st =
     (case xc of (x, c) \<Rightarrow>
      (case wkAuthority w of
         None \<Rightarrow> Inl (invalid ''external workers disabled'' [])
       | Some a \<Rightarrow>
           (if trim_space (cActor c) = [] then Inl (invalid ''actor required'' [])
            else if cAction c = ''queue_worker_job'' then
              (if native_quarantined st (cProductID c) \<and>
                  (case find_recipe a (data_string (cData c) ''recipe_id'') of
                     None \<Rightarrow> False | Some r \<Rightarrow> recCapability r = ''local_oci_build'')
               then Inl (invalid ''native product quarantined after restore'' [])
               else queue_worker_job w a x c st)
            else manage_worker_job x c st)))"

section \<open>Recovery\<close>

definition observation_scope :: "ConfigEnv \<Rightarrow> RegistryObserveRecipe \<Rightarrow> RegistryScope" where
  "observation_scope ce r =
     \<lparr>rscProductID = roProductID r, rscComponentID = roComponentID r, rscRepositoryID = roRepositoryID r,
      rscOrigin = roOrigin r, rscRepository = roRepository r,
      rscImageRepository = (case ceParseURL ce (roOrigin r) of
          None \<Rightarrow> []
        | Some u \<Rightarrow> (case ceImage ce (uHost u @ ''/'' @ roRepository r) of None \<Rightarrow> [] | Some s \<Rightarrow> s))\<rparr>"

definition registry_config_matches :: "WorkerParts \<Rightarrow> WorkerJob \<Rightarrow> bool" where
  "registry_config_matches w j =
     (case (wkAuthority w, wiRegistry (jInputs j)) of
        (Some a, Some p) \<Rightarrow>
          (case find_observation a (wiRecipeID (jInputs j)) of
             None \<Rightarrow> False
           | Some r \<Rightarrow>
               jCapability j = ''registry_observe'' \<and> roHash r = wiRecipeHash (jInputs j) \<and>
               roRevision r = wiRecipeRevision (jInputs j) \<and>
               cfRevision (auConfig a) = wiConfigRevision (jInputs j) \<and>
               wriScope p = observation_scope (wkEnv w) r \<and> wriLimits p = roLimits r \<and>
               jInputHash j = wkInputHash w (jInputs j))
      | _ \<Rightarrow> False)"

definition native_config_matches :: "WorkerParts \<Rightarrow> WorkerJob \<Rightarrow> bool" where
  "native_config_matches w j =
     (case (wkAuthority w, wiPublication (jInputs j)) of
        (Some a, Some p) \<Rightarrow>
          (case find_publication a (wiRecipeID (jInputs j)) of
             None \<Rightarrow> False
           | Some r \<Rightarrow>
               jCapability j = ''registry_publish'' \<and> pubProductID r = mProductID (jMeta j) \<and>
               pubRepositoryID r = wiRepositoryID (jInputs j) \<and> pubComponentID r = wpComponentID p \<and>
               pubProfile r = wpProfile p \<and> pubOrigin r = wpOrigin p \<and> pubRepository r = wpRepository p \<and>
               pubBuildRecipeHash r = ociRecipeHash (wpReceipt p) \<and> pubHash r = wiRecipeHash (jInputs j) \<and>
               pubRevision r = wiRecipeRevision (jInputs j) \<and>
               cfRevision (auConfig a) = wiConfigRevision (jInputs j) \<and> wkInputHash w (jInputs j) = jInputHash j)
      | _ \<Rightarrow> False)"

definition worker_config_matches :: "WorkerParts \<Rightarrow> WorkerJob \<Rightarrow> bool" where
  "worker_config_matches w j =
     (if jCapability j = ''registry_observe'' then registry_config_matches w j
      else if jCapability j = ''registry_publish'' then native_config_matches w j
      else case wkAuthority w of
        None \<Rightarrow> False
      | Some a \<Rightarrow>
          (case find_recipe a (wiRecipeID (jInputs j)) of
             None \<Rightarrow> False
           | Some r \<Rightarrow>
               recHash r = wiRecipeHash (jInputs j) \<and> recRevision r = wiRecipeRevision (jInputs j) \<and>
               recProductID r = mProductID (jMeta j) \<and> recRepositoryID r = wiRepositoryID (jInputs j) \<and>
               recRepositoryURL r = wiRepositoryURL (jInputs j) \<and> recTrust r = wiTrust (jInputs j) \<and>
               recCapability r = jCapability j \<and> recCheck r = wiCheck (jInputs j) \<and>
               cfRevision (auConfig a) = wiConfigRevision (jInputs j) \<and> wkInputHash w (jInputs j) = jInputHash j))"

definition more_attempts :: "WorkerJob \<Rightarrow> bool" where
  "more_attempts j \<longleftrightarrow> jFence j < word_of_int (jMaxAttempts j)"

definition recovered_status :: "time \<Rightarrow> WorkerJob \<Rightarrow> string" where
  "recovered_status now j =
     (if jStatus j = ''RUNNING'' then ''RECONCILIATION_REQUIRED''
      else if jStatus j = ''CLAIMED'' then (if now < jDeadline j \<and> more_attempts j then ''QUEUED'' else ''FAILED'')
      else if jStatus j = ''QUEUED'' then ''DEADLINE_EXCEEDED''
      else jStatus j)"

definition lease_expired :: "State \<Rightarrow> WorkerJob \<Rightarrow> time \<Rightarrow> bool" where
  "lease_expired st j now \<longleftrightarrow>
     (jStatus j = ''CLAIMED'' \<or> jStatus j = ''RUNNING'') \<and>
     (case current_attempt st j of None \<Rightarrow> False | Some a \<Rightarrow> \<not> now < aLeaseUntil a)"

definition recover_worker :: "WorkerCtx \<Rightarrow> time \<Rightarrow> nat \<Rightarrow> State \<Rightarrow> State" where
  "recover_worker x now n st =
     (let j = job_at st n in
      if worker_terminal (jStatus j) \<or> jStatus j = ''RECONCILIATION_REQUIRED'' then st
      else if \<not> now < jDeadline j \<or> lease_expired st j now then
        worker_audit x now n ''system/worker-recovery'' ''worker_expired''
          (close_attempt j ''EXPIRED'' now (set_job n (j\<lparr>jStatus := recovered_status now j\<rparr>) st))
      else st)"

section \<open>Claims\<close>

definition patch_of :: "WorkerParts \<Rightarrow> State \<Rightarrow> WorkerJob \<Rightarrow> json result" where
  "patch_of w st j =
     (case wiIntelligencePatch (jInputs j) of None \<Rightarrow> Inr JNull | Some _ \<Rightarrow> wkPatch w st j)"

definition attach_patch :: "WorkerParts \<Rightarrow> State \<Rightarrow> WorkerLease \<Rightarrow> WorkerLease result" where
  "attach_patch w st l =
     (case wiIntelligencePatch (jInputs (wlJob l)) of
        None \<Rightarrow> Inr l
      | Some _ \<Rightarrow>
          (case wkPatch w st (wlJob l) of Inl e \<Rightarrow> Inl e | Inr raw \<Rightarrow> Inr (l\<lparr>wlIntelligencePatch := raw\<rparr>)))"

definition registry_scope_current :: "State \<Rightarrow> RegistryScope \<Rightarrow> string \<Rightarrow> bool" where
  "registry_scope_current st s url \<longleftrightarrow>
     \<not> native_quarantined st (rscProductID s) \<and>
     (case find (\<lambda>v. mID (appMeta v) = rscComponentID s) (stApplications st) of
        None \<Rightarrow> False
      | Some v \<Rightarrow> mProductID (appMeta v) = rscProductID s \<and> appRepositoryID v = rscRepositoryID s \<and>
          component_kind v = ''APPLICATION'') \<and>
     list_ex (\<lambda>r. mID (repoMeta r) = rscRepositoryID s \<and> mProductID (repoMeta r) = rscProductID s \<and>
       (url = [] \<or> repoURL r = url)) (stRepositories st)"

definition registry_worker_allowed :: "WorkerParts \<Rightarrow> State \<Rightarrow> WorkerJob \<Rightarrow> unit result" where
  "registry_worker_allowed w st j = reject
     (\<not> registry_config_matches w j \<or>
      (case wiRegistry (jInputs j) of
         None \<Rightarrow> True | Some p \<Rightarrow> \<not> registry_scope_current st (wriScope p) (wiRepositoryURL (jInputs j))))
     (invalid ''registry observation authority changed or quarantined'' [])"

definition claim_filter :: "Authority \<Rightarrow> WorkerClaim \<Rightarrow> unit result" where
  "claim_filter a v =
     (if (wcRecipeID v = []) \<noteq> (wcRecipeHash v = []) then Inl (invalid ''exact recipe claim filter required'' [])
      else if wcRecipeID v = [] then Inr ()
      else if wcCapability v = ''registry_observe'' then reject
        (case find_observation a (wcRecipeID v) of
           None \<Rightarrow> True
         | Some r \<Rightarrow> roHash r \<noteq> wcRecipeHash v \<or> roProductID r \<noteq> wcProductID v \<or> roRepositoryID r \<noteq> wcRepositoryID v)
        (invalid ''invalid registry observation claim filter'' [])
      else if wcCapability v = ''registry_publish'' then reject
        (case find_publication a (wcRecipeID v) of
           None \<Rightarrow> True
         | Some r \<Rightarrow> pubHash r \<noteq> wcRecipeHash v \<or> pubProductID r \<noteq> wcProductID v \<or> pubRepositoryID r \<noteq> wcRepositoryID v)
        (invalid ''invalid publication claim filter'' [])
      else reject
        (case find_recipe a (wcRecipeID v) of
           None \<Rightarrow> True
         | Some r \<Rightarrow> recHash r \<noteq> wcRecipeHash v \<or> recCapability r \<noteq> wcCapability v \<or>
             recProductID r \<noteq> wcProductID v \<or> recRepositoryID r \<noteq> wcRepositoryID v)
        (invalid ''invalid recipe claim filter'' []))"

definition quarantine_bound :: "string set" where
  "quarantine_bound = {''registry_observe'', ''registry_publish'', ''local_oci_build''}"

definition claim_matches :: "WorkerClaim \<Rightarrow> State \<Rightarrow> WorkerJob \<Rightarrow> bool" where
  "claim_matches v st j \<longleftrightarrow>
     mProductID (jMeta j) = wcProductID v \<and> wiRepositoryID (jInputs j) = wcRepositoryID v \<and>
     jCapability j = wcCapability v \<and>
     (wcRecipeID v = [] \<or> wiRecipeID (jInputs j) = wcRecipeID v \<and> wiRecipeHash (jInputs j) = wcRecipeHash v) \<and>
     \<not> (jCapability j \<in> quarantine_bound \<and> native_quarantined st (mProductID (jMeta j)))"

definition claimable :: "WorkerParts \<Rightarrow> State \<Rightarrow> WorkerJob \<Rightarrow> bool" where
  "claimable w st j \<longleftrightarrow>
     worker_config_matches w j \<and>
     (jCapability j = ''registry_observe'' \<longrightarrow> registry_worker_allowed w st j = Inr ()) \<and>
     wkManaged w st j = Inr () \<and>
     (wiCheck (jInputs j) \<noteq> None \<longrightarrow> wkCheckAuthority w st (operation_by_id st (jCheckOperationID j)) = Inr ())"

definition settle :: "WorkerCtx \<Rightarrow> time \<Rightarrow> nat \<Rightarrow> string \<Rightarrow> string \<Rightarrow> State \<Rightarrow> State" where
  "settle x now n status action st =
     worker_audit x now n ''system/worker-recovery'' action (set_job n ((job_at st n)\<lparr>jStatus := status\<rparr>) st)"

definition lease_until :: "Authority \<Rightarrow> time \<Rightarrow> WorkerJob \<Rightarrow> time" where
  "lease_until a now j = (if jDeadline j < now + lease a then jDeadline j else now + lease a)"

definition new_attempt :: "Authority \<Rightarrow> WorkerCtx \<Rightarrow> Principal \<Rightarrow> time \<Rightarrow> WorkerJob \<Rightarrow> WorkerAttempt" where
  "new_attempt a x p now j =
     \<lparr>aMeta = \<lparr>mID = wxID x, mProductID = mProductID (jMeta j), mFeatureID = mFeatureID (jMeta j),
        mActor = principal_id p, mCreatedAt = now, mUpdatedAt = now\<rparr>,
      aJobID = mID (jMeta j), aPrincipal = principal_id p, aFence = jFence j, aInputHash = jInputHash j,
      aLeaseUntil = lease_until a now j, aStatus = ''CLAIMED'', aReport = None\<rparr>"

definition grant ::
  "WorkerParts \<Rightarrow> Authority \<Rightarrow> WorkerCtx \<Rightarrow> Principal \<Rightarrow> time \<Rightarrow> nat \<Rightarrow> State \<Rightarrow> (WorkerLease option \<times> State) result" where
  "grant w a x p now n st =
     (let j = (job_at st n)\<lparr>jFence := jFence (job_at st n) + 1, jStatus := ''CLAIMED''\<rparr>;
          at = new_attempt a x p now j;
          st = set_job n j st;
          st = st\<lparr>stWorkerAttempts := stWorkerAttempts st @ [at]\<rparr>;
          st = worker_audit x now n (principal_id p) ''worker_claimed'' st
      in case attach_patch w st \<lparr>wlIntelligencePatch = JNull, wlJob = job_at st n, wlAttempt = at\<rparr> of
           Inl e \<Rightarrow> Inl e
         | Inr l \<Rightarrow> Inr (Some l, st))"

definition claim_one ::
  "WorkerParts \<Rightarrow> Authority \<Rightarrow> WorkerCtx \<Rightarrow> Principal \<Rightarrow> WorkerClaim \<Rightarrow> nat \<Rightarrow> WorkerLease option \<times> State \<Rightarrow>
   (WorkerLease option \<times> State) result" where
  "claim_one w a x p v n os =
     (case os of (out, st) \<Rightarrow>
        let now = wxNow x in
        if \<not> claim_matches v st (job_at st n) then Inr (out, st)
        else let st = recover_worker x now n st; j = job_at st n in
          if jStatus j \<noteq> ''QUEUED'' \<or> out \<noteq> None then Inr (out, st)
          else if isl (patch_of w st j) then
            Inr (out, settle x now n ''RECONCILIATION_REQUIRED'' ''worker_patch_stale'' st)
          else if \<not> claimable w st j then
            Inr (out, settle x now n ''RECONCILIATION_REQUIRED'' ''worker_configuration_changed'' st)
          else if wiCheck (jInputs j) \<noteq> None \<and> \<not> wkCheckReady w st j then Inr (out, st)
          else if \<not> more_attempts j then Inr (out, settle x now n ''FAILED'' ''worker_attempts_exhausted'' st)
          else grant w a x p now n st)"

fun claim_loop ::
  "WorkerParts \<Rightarrow> Authority \<Rightarrow> WorkerCtx \<Rightarrow> Principal \<Rightarrow> WorkerClaim \<Rightarrow> nat list \<Rightarrow> WorkerLease option \<times> State \<Rightarrow>
   (WorkerLease option \<times> State) result" where
  "claim_loop w a x p v [] os = Inr os"
| "claim_loop w a x p v (n # ns) os =
     (case claim_one w a x p v n os of Inl e \<Rightarrow> Inl e | Inr os' \<Rightarrow> claim_loop w a x p v ns os')"

definition in_scope :: "WorkerParts \<Rightarrow> Authority \<Rightarrow> Principal \<Rightarrow> string \<Rightarrow> string \<Rightarrow> string \<Rightarrow> time \<Rightarrow> bool" where
  "in_scope w a p product repo capability now \<longleftrightarrow>
     current (wkEnv w) a p now \<and> allows p product repo capability now"

text \<open>The scope is checked before the transaction, at its own reading of the clock, and again inside.\<close>

definition claim_worker ::
  "WorkerParts \<Rightarrow> time \<Rightarrow> WorkerCtx \<times> Principal \<times> WorkerClaim \<Rightarrow> State \<Rightarrow> (WorkerLease option \<times> State) result" where
  "claim_worker w prior r st =
     (case r of (x, p, v) \<Rightarrow>
      (case wkAuthority w of
         None \<Rightarrow> Inl (invalid ''external workers disabled'' [])
       | Some a \<Rightarrow>
         (case claim_filter a v of
            Inl e \<Rightarrow> Inl e
          | Inr _ \<Rightarrow>
              (if \<not> in_scope w a p (wcProductID v) (wcRepositoryID v) (wcCapability v) prior
               then Inl (invalid ''worker scope denied'' [])
               else if \<not> in_scope w a p (wcProductID v) (wcRepositoryID v) (wcCapability v) (wxNow x)
               then Inl (invalid ''worker scope expired'' [])
               else claim_loop w a x p v [0..<length (stWorkerJobs st)] (None, st)))))"

section \<open>Start, heartbeat and report\<close>

definition same_rootfs :: "WorkerRuntimeRootFS option \<Rightarrow> WorkerRuntimeRootFS option \<Rightarrow> bool" where
  "same_rootfs v e \<longleftrightarrow> v = e"

definition validate_worker_local_oci :: "WorkerJob \<Rightarrow> WorkerAttempt \<Rightarrow> WorkerReport \<Rightarrow> unit result" where
  "validate_worker_local_oci j a r =
     (if repRegistry r \<noteq> None then Inl (invalid ''unexpected registry report kind'' [])
      else if repPublication r \<noteq> None then Inl (invalid ''unexpected publication result'' [])
      else if repResult r \<noteq> ''PASSED'' \<or> jCapability j \<noteq> ''local_oci_build'' then
        reject (repLocalOCI r \<noteq> None) (invalid ''unexpected local OCI result'' [])
      else case (repLocalOCI r, wiExecution (jInputs j)) of
        (Some v, Some e) \<Rightarrow> chain
          [reject (ociJobID v \<noteq> mID (jMeta j) \<or> ociAttemptID v \<noteq> mID (aMeta a) \<or> ociInputHash v \<noteq> jInputHash j \<or>
               ociSourceSHA v \<noteq> wiSourceSHA (jInputs j) \<or> ociRecipeHash v \<noteq> wiRecipeHash (jInputs j) \<or>
               ociConfigRevision v \<noteq> wiConfigRevision (jInputs j) \<or> ociToolchainImage v \<noteq> weToolchainImage e \<or>
               ociPlatform v \<noteq> wePlatform e \<or> ociArchiveBytes v < 1 \<or> weOutputBytes e < ociArchiveBytes v)
             (invalid ''local OCI provenance mismatch'' []),
           reject (\<not> same_rootfs (ociRuntimeRootFS v) (weRuntimeRootFS e))
             (invalid ''runtime rootfs provenance mismatch'' []),
           each (\<lambda>d. reject (\<not> sha256_digest d) (invalid ''invalid local OCI identity'' []))
             [ociArchiveHash v, ociLayoutHash v, ociIndexDigest v, ociManifestDigest v]]
      | _ \<Rightarrow> Inl (invalid ''local OCI provenance mismatch'' []))"

definition admit_registry_inventory ::
  "WorkerCtx \<Rightarrow> WorkerJob \<Rightarrow> WorkerAttempt \<Rightarrow> WorkerRegistryReport \<Rightarrow> time \<Rightarrow> State \<Rightarrow> State" where
  "admit_registry_inventory x j a r now st =
     st\<lparr>stRegistryInventories := stRegistryInventories st @
       [\<lparr>riMeta = \<lparr>mID = wxID x, mProductID = mProductID (jMeta j), mFeatureID = mFeatureID (jMeta j),
            mActor = aPrincipal a, mCreatedAt = now, mUpdatedAt = now\<rparr>,
         riJobID = mID (jMeta j), riAttemptID = mID (aMeta a), riFence = aFence a, riInputHash = jInputHash j,
         riInputs = jInputs j, riReport = r, riReceivedAt = now\<rparr>]\<rparr>"

text \<open>One of the three mutations of a lease. The result is the new job, the new attempt and the
  registry report to admit, or an answer that leaves the state as it is.\<close>

datatype mutation = Start | Heartbeat | Report WorkerReport

datatype answer =
    Same
  | Change WorkerJob WorkerAttempt "WorkerRegistryReport option"

definition report_checks :: "WorkerParts \<Rightarrow> time \<Rightarrow> WorkerJob \<Rightarrow> WorkerAttempt \<Rightarrow> WorkerReport \<Rightarrow> unit result" where
  "report_checks w now j a r = chain
     [reject (jStatus j \<noteq> ''RUNNING'') (invalid ''report requires RUNNING'' []),
      reject (case wiIntelligencePatch (jInputs j) of
          None \<Rightarrow> False
        | Some b \<Rightarrow> repEvidenceHash r \<noteq> ipbResultFingerprint b \<or> repLocalOCI r \<noteq> None)
        (invalid ''patch report must bind exact checked proposal and cannot publish an image'' []),
      reject (repResult r \<notin> {''PASSED'', ''CHECK_FAILED'', ''EXECUTOR_FAILED''} \<or>
          repEvidenceHash r \<noteq> [] \<and> \<not> sha256_digest (repEvidenceHash r))
        (invalid ''invalid bounded worker result'' []),
      (if jCapability j = ''registry_observe'' then
         (case wkRegistryReport w j a r now of
            Inl _ \<Rightarrow> Inl (invalid ''invalid registry observation report'' []) | Inr _ \<Rightarrow> Inr ())
       else validate_worker_local_oci j a r)]"

definition mutation_answer ::
  "WorkerParts \<Rightarrow> Authority \<Rightarrow> time \<Rightarrow> WorkerJob \<Rightarrow> WorkerAttempt \<Rightarrow> mutation \<Rightarrow> answer result" where
  "mutation_answer w au now j a m =
     (case m of
        Start \<Rightarrow>
          (if jStatus j = ''RUNNING'' \<and> aStatus a = ''RUNNING'' then Inr Same
           else if jStatus j \<noteq> ''CLAIMED'' then Inl (invalid ''start requires CLAIMED'' [])
           else Inr (Change (j\<lparr>jStatus := ''RUNNING''\<rparr>) (a\<lparr>aStatus := ''RUNNING''\<rparr>) None))
      | Heartbeat \<Rightarrow>
          (if jStatus j \<noteq> ''CLAIMED'' \<and> jStatus j \<noteq> ''RUNNING''
           then Inl (invalid ''heartbeat requires active attempt'' [])
           else Inr (Change j (a\<lparr>aLeaseUntil := lease_until au now j\<rparr>) None))
      | Report r \<Rightarrow>
          (case report_checks w now j a r of
             Inl e \<Rightarrow> Inl e
           | Inr _ \<Rightarrow>
               (let s = (if repResult r = ''PASSED'' then ''SUCCEEDED'' else ''FAILED'') in
                Inr (Change (j\<lparr>jStatus := s\<rparr>) (a\<lparr>aStatus := s, aReport := Some r\<rparr>)
                  (if jCapability j = ''registry_observe'' \<and> repResult r = ''PASSED'' then repRegistry r else None)))))"

definition mutation_name :: "mutation \<Rightarrow> string" where
  "mutation_name m = (case m of Start \<Rightarrow> ''start'' | Heartbeat \<Rightarrow> ''heartbeat'' | Report _ \<Rightarrow> ''report'')"

definition write_attempt :: "WorkerAttempt \<Rightarrow> State \<Rightarrow> State" where
  "write_attempt a st =
     st\<lparr>stWorkerAttempts := update_first (\<lambda>b. mID (aMeta b) = mID (aMeta a)) (\<lambda>_. a) (stWorkerAttempts st)\<rparr>"

definition owned :: "WorkerParts \<Rightarrow> Authority \<Rightarrow> time \<Rightarrow> Principal \<Rightarrow> WorkerAttemptRequest \<Rightarrow> WorkerJob \<Rightarrow> WorkerAttempt \<Rightarrow> bool" where
  "owned w au now p r j a \<longleftrightarrow>
     aJobID a = mID (jMeta j) \<and> aFence a = wrFence r \<and> jFence j = wrFence r \<and> aInputHash a = wrInputHash r \<and>
     jInputHash j = wrInputHash r \<and> aPrincipal a = principal_id p \<and>
     in_scope w au p (mProductID (jMeta j)) (wiRepositoryID (jInputs j)) (jCapability j) now"

definition apply_change ::
  "WorkerParts \<Rightarrow> WorkerCtx \<Rightarrow> Principal \<Rightarrow> mutation \<Rightarrow> nat \<Rightarrow> WorkerJob \<Rightarrow> WorkerAttempt \<Rightarrow>
   WorkerRegistryReport option \<Rightarrow> State \<Rightarrow> ((go_error + WorkerLease) \<times> State) result" where
  "apply_change w x p m n j a reg st =
     (let now = wxNow x;
          st = set_job n j st;
          st = (case reg of None \<Rightarrow> st | Some r \<Rightarrow> admit_registry_inventory x j a r now st);
          a = a\<lparr>aMeta := (aMeta a)\<lparr>mUpdatedAt := now\<rparr>\<rparr>;
          st = write_attempt a st;
          st = worker_audit x now n (principal_id p) (''worker_'' @ mutation_name m) st
      in case attach_patch w st \<lparr>wlIntelligencePatch = JNull, wlJob = job_at st n, wlAttempt = a\<rparr> of
           Inl e \<Rightarrow> Inl e
         | Inr l \<Rightarrow> Inr (Inr l, st))"

text \<open>After the recovery of the job a lease that no longer holds is rejected without an error of the
  transaction, so that the recovery stays.\<close>

definition lease_lost :: "WorkerParts \<Rightarrow> time \<Rightarrow> State \<Rightarrow> WorkerJob \<Rightarrow> WorkerAttempt \<Rightarrow> bool" where
  "lease_lost w now st j a \<longleftrightarrow>
     jCapability j = ''registry_publish'' \<and> native_quarantined st (mProductID (jMeta j)) \<or>
     \<not> worker_config_matches w j \<or> \<not> now < aLeaseUntil a \<or> \<not> now < jDeadline j \<or> jCancellationRequested j \<or>
     worker_terminal (jStatus j) \<or> jStatus j = ''RECONCILIATION_REQUIRED''"

definition recovered_mutation ::
  "WorkerParts \<Rightarrow> Authority \<Rightarrow> WorkerCtx \<Rightarrow> Principal \<Rightarrow> string \<Rightarrow> mutation \<Rightarrow> nat \<Rightarrow> State \<Rightarrow>
   ((go_error + WorkerLease) \<times> State) result" where
  "recovered_mutation w au x p i m n st =
     (let now = wxNow x; st = recover_worker x now n st; j = job_at st n in
      case worker_attempt st i of
        None \<Rightarrow> Inl (GoPanic ''nil attempt'')
      | Some a \<Rightarrow>
          (if lease_lost w now st j a then Inr (Inl (invalid ''worker lease or immutable inputs invalid'' []), st)
           else case mutation_answer w au now j a m of
             Inl e \<Rightarrow> Inl e
           | Inr Same \<Rightarrow> Inr (Inr \<lparr>wlIntelligencePatch = JNull, wlJob = j, wlAttempt = a\<rparr>, st)
           | Inr (Change j a reg) \<Rightarrow> apply_change w x p m n j a reg st))"

definition mutation_guards :: "WorkerParts \<Rightarrow> State \<Rightarrow> WorkerJob \<Rightarrow> unit result" where
  "mutation_guards w st j = chain
     [(if wiCheck (jInputs j) \<noteq> None
       then wkCheckAuthority w st (operation_by_id st (jCheckOperationID j)) else Inr ()),
      (case patch_of w st j of Inl e \<Rightarrow> Inl e | Inr _ \<Rightarrow> Inr ()),
      wkManaged w st j]"

definition replayed :: "mutation \<Rightarrow> WorkerAttempt \<Rightarrow> bool option" where
  "replayed m a =
     (case (m, aReport a) of (Report r, Some old) \<Rightarrow> Some (old = r) | _ \<Rightarrow> None)"

definition mutate_worker ::
  "WorkerParts \<Rightarrow> WorkerCtx \<times> Principal \<times> WorkerAttemptRequest \<times> mutation \<Rightarrow> State \<Rightarrow>
   ((go_error + WorkerLease) \<times> State) result" where
  "mutate_worker w r st =
     (case r of (x, p, req, m) \<Rightarrow>
      (case wkAuthority w of
         None \<Rightarrow> Inl (invalid ''external workers disabled'' [])
       | Some au \<Rightarrow>
         (case (worker_job st (wrJobID req), worker_attempt st (wrAttemptID req)) of
            (Some n, Some a) \<Rightarrow>
              (let j = job_at st n in
               if \<not> owned w au (wxNow x) p req j a then Inl (invalid ''worker ownership or scope denied'' [])
               else if jCapability j \<in> quarantine_bound \<and> native_quarantined st (mProductID (jMeta j))
               then Inl (invalid ''native product quarantined after restore'' [])
               else case (if jCapability j = ''registry_observe'' then registry_worker_allowed w st j else Inr ()) of
                 Inl e \<Rightarrow> Inl e
               | Inr _ \<Rightarrow>
                   (case replayed m a of
                      Some True \<Rightarrow>
                        (case wkOrigin w st j of
                           Inl e \<Rightarrow> Inl e
                         | Inr _ \<Rightarrow> Inr (Inr \<lparr>wlIntelligencePatch = JNull, wlJob = j, wlAttempt = a\<rparr>, st))
                    | Some False \<Rightarrow> Inl (invalid ''conflicting report replay'' [])
                    | None \<Rightarrow>
                        (case mutation_guards w st j of
                           Inl e \<Rightarrow> Inl e
                         | Inr _ \<Rightarrow> recovered_mutation w au x p (wrAttemptID req) m n st)))
          | _ \<Rightarrow> Inl (invalid ''worker ownership or scope denied'' []))))"

text \<open>\<open>StartWorker\<close>, \<open>HeartbeatWorker\<close> and \<open>ReportWorker\<close>; a passed report of a publication goes
  to \<open>reportPublication\<close> of \<open>native_publication.go\<close>, the argument \<open>publish\<close>.\<close>

definition start_worker ::
  "WorkerParts \<Rightarrow> WorkerCtx \<Rightarrow> Principal \<Rightarrow> WorkerAttemptRequest \<Rightarrow> State \<Rightarrow>
   ((go_error + WorkerLease) \<times> State) result" where
  "start_worker w x p req st = mutate_worker w (x, p, req, Start) st"

definition heartbeat_worker ::
  "WorkerParts \<Rightarrow> WorkerCtx \<Rightarrow> Principal \<Rightarrow> WorkerAttemptRequest \<Rightarrow> State \<Rightarrow>
   ((go_error + WorkerLease) \<times> State) result" where
  "heartbeat_worker w x p req st = mutate_worker w (x, p, req, Heartbeat) st"

definition report_worker ::
  "(WorkerCtx \<Rightarrow> Principal \<Rightarrow> WorkerReport \<Rightarrow> State \<Rightarrow> ((go_error + WorkerLease) \<times> State) result) \<Rightarrow>
   WorkerParts \<Rightarrow> WorkerCtx \<Rightarrow> Principal \<Rightarrow> WorkerReport \<Rightarrow> State \<Rightarrow> ((go_error + WorkerLease) \<times> State) result" where
  "report_worker publish w x p r st =
     (let req = repWorkerAttemptRequest r in
      if (case worker_job st (wrJobID req) of
            None \<Rightarrow> False | Some n \<Rightarrow> jCapability (job_at st n) = ''registry_publish'' \<and> repResult r = ''PASSED'')
      then publish x p r st
      else mutate_worker w (x, p, req, Report r) st)"

end
