(* ===== verification/WorkerLifecycle.thy ===== *)
theory WorkerLifecycle
  imports WorkerProtocol
begin

text \<open>
  The contract of the worker protocol: the steps a job may make, as an inductive relation, the
  proof that every operation of \<open>worker_execution.go\<close> moves each job along these steps, and
  the invariants of fences, attempts and leases.
\<close>

section \<open>The life of a job\<close>

definition job_edge :: "string \<Rightarrow> string \<Rightarrow> bool" where
  "job_edge s t \<longleftrightarrow>
     (s, t) \<in> {(''QUEUED'', ''DEADLINE_EXCEEDED''), (''QUEUED'', ''RECONCILIATION_REQUIRED''), (''QUEUED'', ''FAILED''),
       (''CLAIMED'', ''RUNNING''), (''CLAIMED'', ''QUEUED''), (''CLAIMED'', ''FAILED''),
       (''RUNNING'', ''RECONCILIATION_REQUIRED''), (''RUNNING'', ''SUCCEEDED''), (''RUNNING'', ''FAILED''),
       (''RECONCILIATION_REQUIRED'', ''FAILED'')} \<or>
     t = ''CANCELLED'' \<and> \<not> worker_terminal s \<and> s \<noteq> ''RUNNING''"

definition same_job :: "WorkerJob \<Rightarrow> WorkerJob \<Rightarrow> bool" where
  "same_job j k \<longleftrightarrow>
     mID (jMeta j) = mID (jMeta k) \<and> mProductID (jMeta j) = mProductID (jMeta k) \<and>
     mFeatureID (jMeta j) = mFeatureID (jMeta k) \<and> jOperationID j = jOperationID k \<and>
     jRequestKey j = jRequestKey k \<and> jRequestHash j = jRequestHash k \<and> jIntegrationID j = jIntegrationID k \<and>
     jCapability j = jCapability k \<and> jInputs j = jInputs k \<and> jInputHash j = jInputHash k \<and>
     jDeadline j = jDeadline k \<and> jMaxAttempts j = jMaxAttempts k \<and>
     (jCancellationRequested j \<longrightarrow> jCancellationRequested k)"

inductive job_step :: "WorkerJob \<Rightarrow> WorkerJob \<Rightarrow> bool" where
  step_claim: "same_job j k \<Longrightarrow> jStatus j = ''QUEUED'' \<Longrightarrow> more_attempts j \<Longrightarrow> jStatus k = ''CLAIMED'' \<Longrightarrow>
    jFence k = jFence j + 1 \<Longrightarrow> job_step j k"
| step_move: "same_job j k \<Longrightarrow> job_edge (jStatus j) (jStatus k) \<Longrightarrow> jFence k = jFence j \<Longrightarrow> job_step j k"
| step_touch: "same_job j k \<Longrightarrow> jStatus k = jStatus j \<Longrightarrow> jFence k = jFence j \<Longrightarrow> job_step j k"

inductive_cases job_stepE: "job_step j k"

abbreviation job_path :: "WorkerJob \<Rightarrow> WorkerJob \<Rightarrow> bool" where
  "job_path \<equiv> job_step\<^sup>*\<^sup>*"

lemma job_step_same: "job_step j k \<Longrightarrow> same_job j k"
  by (erule job_stepE)

lemma same_job_refl [simp]: "same_job j j"
  by (simp add: same_job_def)

lemma same_job_trans: "same_job i j \<Longrightarrow> same_job j k \<Longrightarrow> same_job i k"
  by (auto simp: same_job_def)

lemma job_path_same: "job_path j k \<Longrightarrow> same_job j k"
  by (induction rule: rtranclp_induct) (auto intro: same_job_trans job_step_same)

lemma more_attempts_cong: "same_job j k \<Longrightarrow> jFence j = jFence k \<Longrightarrow> more_attempts j = more_attempts k"
  by (simp add: more_attempts_def same_job_def)

text \<open>A fence that may still grow does not wrap.\<close>

lemma fence_grows: "more_attempts j \<Longrightarrow> jFence j < jFence j + 1"
  unfolding more_attempts_def
  by (metis uint_Suc word_below_not_max word_less_iff_unsigned zless_add1_eq)

section \<open>Facts of a path\<close>

lemma terminal_step: "job_step j k \<Longrightarrow> worker_terminal (jStatus j) \<Longrightarrow> jStatus k = jStatus j \<and> jFence k = jFence j"
  by (erule job_stepE) (auto simp: job_edge_def worker_terminal_def)

lemma terminal_path: "job_path j k \<Longrightarrow> worker_terminal (jStatus j) \<Longrightarrow> jStatus k = jStatus j \<and> jFence k = jFence j"
proof (induction rule: rtranclp_induct)
  case (step k l)
  then show ?case using terminal_step [of k l] by simp
qed simp

definition started :: "string \<Rightarrow> bool" where
  "started s \<longleftrightarrow> s \<in> {''RUNNING'', ''RECONCILIATION_REQUIRED'', ''SUCCEEDED'', ''FAILED'', ''CANCELLED''}"

lemma started_step: "job_step j k \<Longrightarrow> started (jStatus j) \<Longrightarrow> started (jStatus k) \<and> jFence k = jFence j"
  by (erule job_stepE) (auto simp: started_def job_edge_def worker_terminal_def)

lemma started_path: "job_path j k \<Longrightarrow> started (jStatus j) \<Longrightarrow> started (jStatus k) \<and> jFence k = jFence j"
proof (induction rule: rtranclp_induct)
  case (step k l)
  then show ?case using started_step [of k l] by simp
qed simp

definition fence_bounded :: "WorkerJob \<Rightarrow> bool" where
  "fence_bounded j \<longleftrightarrow> jFence j \<le> word_of_int (jMaxAttempts j)"

lemma bounded_step: "job_step j k \<Longrightarrow> fence_bounded j \<Longrightarrow> fence_bounded k \<and> jFence j \<le> jFence k"
proof (erule job_stepE)
  assume j: "same_job j k" "more_attempts j" "jFence k = jFence j + 1"
  then have "jFence j < word_of_int (jMaxAttempts j)" by (simp add: more_attempts_def)
  then have "jFence j + 1 \<le> word_of_int (jMaxAttempts j)" by (rule inc_le)
  then show "fence_bounded k \<and> jFence j \<le> jFence k"
    using j fence_grows [OF j(2)] by (simp add: fence_bounded_def same_job_def)
qed (simp_all add: fence_bounded_def same_job_def)

lemma bounded_path: "job_path j k \<Longrightarrow> fence_bounded j \<Longrightarrow> fence_bounded k \<and> jFence j \<le> jFence k"
proof (induction rule: rtranclp_induct)
  case (step k l)
  then show ?case using bounded_step [of k l] by force
qed simp

section \<open>Steps of all jobs\<close>

definition jobs_path :: "State \<Rightarrow> State \<Rightarrow> bool" where
  "jobs_path st t \<longleftrightarrow> length (stWorkerJobs st) \<le> length (stWorkerJobs t) \<and>
     (\<forall>n<length (stWorkerJobs st). job_path (job_at st n) (job_at t n))"

lemma jobs_path_refl [simp]: "jobs_path st st"
  by (simp add: jobs_path_def)

lemma jobs_path_trans [trans]: "jobs_path r st \<Longrightarrow> jobs_path st t \<Longrightarrow> jobs_path r t"
  unfolding jobs_path_def by (meson order.strict_trans2 order.trans rtranclp_trans)

lemma jobs_path_cong: "stWorkerJobs t = stWorkerJobs t' \<Longrightarrow> jobs_path st t = jobs_path st t'"
  by (simp add: jobs_path_def job_at_def)

lemma job_at_set: "n < length (stWorkerJobs st) \<Longrightarrow> job_at (set_job n j st) m = (if m = n then j else job_at st m)"
  by (simp add: job_at_def set_job_def)

lemma set_job_length [simp]: "length (stWorkerJobs (set_job n j st)) = length (stWorkerJobs st)"
  by (simp add: set_job_def)

lemma jobs_path_set:
  "n < length (stWorkerJobs st) \<Longrightarrow> job_path (job_at st n) j \<Longrightarrow> jobs_path st (set_job n j st)"
  by (simp add: jobs_path_def job_at_set)

lemma jobs_of_updates [simp]:
  "stWorkerJobs (close_attempt j s now st) = stWorkerJobs st"
  "stWorkerJobs (write_attempt a st) = stWorkerJobs st"
  "stWorkerJobs (admit_registry_inventory x j a r now st) = stWorkerJobs st"
  by (simp_all add: close_attempt_def write_attempt_def admit_registry_inventory_def)

lemma job_at_updates [simp]:
  "job_at (close_attempt j s now st) n = job_at st n"
  "job_at (write_attempt a st) n = job_at st n"
  "job_at (admit_registry_inventory x j a r now st) n = job_at st n"
  by (simp_all add: job_at_def)

definition touched :: "time \<Rightarrow> WorkerJob \<Rightarrow> WorkerJob" where
  "touched now j = j\<lparr>jMeta := (jMeta j)\<lparr>mUpdatedAt := now\<rparr>\<rparr>"

lemma touched_simps [simp]:
  "jStatus (touched now j) = jStatus j" "jFence (touched now j) = jFence j" "same_job j (touched now j)"
  "mID (jMeta (touched now j)) = mID (jMeta j)" "jDeadline (touched now j) = jDeadline j"
  "jInputHash (touched now j) = jInputHash j" "jMaxAttempts (touched now j) = jMaxAttempts j"
  "jCancellationRequested (touched now j) = jCancellationRequested j"
  by (simp_all add: touched_def same_job_def)

lemma worker_audit_jobs: "stWorkerJobs (worker_audit x now n actor action st)
    = (stWorkerJobs st)[n := touched now (job_at st n)]"
  by (simp add: worker_audit_def Let_def set_job_def touched_def)

lemma worker_audit_attempts [simp]:
  "stWorkerAttempts (worker_audit x now n actor action st) = stWorkerAttempts st"
  by (simp add: worker_audit_def Let_def set_job_def)

lemma worker_audit_length [simp]:
  "length (stWorkerJobs (worker_audit x now n actor action st)) = length (stWorkerJobs st)"
  by (simp add: worker_audit_jobs)

lemma job_at_audit: "n < length (stWorkerJobs st) \<Longrightarrow>
   job_at (worker_audit x now n actor action st) m = (if m = n then touched now (job_at st n) else job_at st m)"
  by (simp add: job_at_def worker_audit_jobs)

lemma jobs_path_audit: "n < length (stWorkerJobs st) \<Longrightarrow> jobs_path st (worker_audit x now n actor action st)"
  by (simp add: jobs_path_def job_at_audit r_into_rtranclp step_touch)

text \<open>The shape of all status changes: write the row, then audit it.\<close>

lemma jobs_path_write:
  assumes "n < length (stWorkerJobs st)" and "job_step (job_at st n) j" and "stWorkerJobs t = stWorkerJobs (set_job n j st)"
  shows "jobs_path st (worker_audit x now n actor action t)"
proof -
  have "jobs_path st t"
    using jobs_path_set [OF assms(1)] assms(2) jobs_path_cong [OF assms(3)] by blast
  moreover have "jobs_path t (worker_audit x now n actor action t)"
    using assms(1,3) by (intro jobs_path_audit) simp
  ultimately show ?thesis by (rule jobs_path_trans)
qed

lemma worker_job_bound: "worker_job st i = Some n \<Longrightarrow> n < length (stWorkerJobs st) \<and> mID (jMeta (job_at st n)) = i"
  unfolding worker_job_def by (drule find_cong_map) simp

lemma status_step:
  "job_edge (jStatus j) s \<Longrightarrow> job_step j (j\<lparr>jStatus := s\<rparr>)"
  by (rule step_move) (simp_all add: same_job_def)

lemma cancelled_step:
  assumes "\<not> worker_terminal (jStatus j)"
  shows "job_step j (cancelled_job j)"
proof -
  have same: "same_job j (cancelled_job j)" by (simp add: same_job_def cancelled_job_def)
  show ?thesis
  proof (cases "jStatus j = ''RECONCILIATION_REQUIRED''")
    case True
    then show ?thesis by (intro step_touch [OF same]) (simp_all add: cancelled_job_def)
  next
    case False
    then show ?thesis using assms by (intro step_move [OF same]) (simp_all add: cancelled_job_def job_edge_def)
  qed
qed

lemma stop_job_path: "jobs_path st (stop_job x now st i)"
proof (cases "worker_job st i")
  case (Some n)
  then have n: "n < length (stWorkerJobs st)" using worker_job_bound by blast
  show ?thesis
  proof (cases "worker_terminal (jStatus (job_at st n))")
    case False
    then show ?thesis
      using Some jobs_path_write [OF n cancelled_step [OF False]] by (simp add: stop_job_def Let_def)
  qed (simp add: stop_job_def Some)
qed (simp add: stop_job_def)

lemma stop_native_delivery_path: "jobs_path st (stop_native_delivery x now i status detail st)"
proof (cases "operation_by_id st i")
  case (Some o')
  define t where "t = st\<lparr>stOperations := update_first (\<lambda>p. mID (opMeta p) = i)
                 (stopped_operation status detail now) (stOperations st)\<rparr>"
  have t: "jobs_path st t" using jobs_path_cong [of t st st] by (simp add: t_def)
  show ?thesis
  proof (cases "opNative o'")
    case None
    then show ?thesis using Some t by (simp add: stop_native_delivery_def t_def Let_def)
  next
    case (Some d)
    have "jobs_path t (foldl (stop_job x now) t [ndBuildJobID d, ndPublicationJobID d])"
      by (auto intro: jobs_path_trans stop_job_path)
    then show ?thesis
      using Some \<open>operation_by_id st i = Some o'\<close> t jobs_path_trans
      by (simp add: stop_native_delivery_def t_def [symmetric] Let_def del: foldl.simps)
  qed
qed (simp add: stop_native_delivery_def)

lemma manage_worker_job_path:
  assumes "manage_worker_job x c st = Inr (out, t)"
  shows "jobs_path st t"
proof -
  from assms obtain n where n: "worker_job st (cID c) = Some n"
      "cancel_worker_job x c n st = Inr (out, t) \<or> reconcile_worker_job x c n st = Inr (out, t)"
    by (auto simp: manage_worker_job_def split: if_splits option.splits)
  have b: "n < length (stWorkerJobs st)" using worker_job_bound [OF n(1)] by simp
  from n(2) show ?thesis
  proof
    assume c: "cancel_worker_job x c n st = Inr (out, t)"
    then have nt: "\<not> worker_terminal (jStatus (job_at st n))"
      by (auto simp: cancel_worker_job_def Let_def split: sum.splits if_splits)
    show ?thesis
      using c nt jobs_path_write [OF b cancelled_step [OF nt]] stop_native_delivery_path
      by (auto simp: cancel_worker_job_def Let_def split: sum.splits option.splits if_splits)
  next
    assume r: "reconcile_worker_job x c n st = Inr (out, t)"
    then obtain s where s: "jStatus (job_at st n) = ''RECONCILIATION_REQUIRED''" "s = ''FAILED'' \<or> s = ''CANCELLED''"
        "t = worker_audit x (wxNow x) n (cActor c) (cAction c)
           (close_attempt ((job_at st n)\<lparr>jStatus := s\<rparr>) s (wxNow x) (set_job n ((job_at st n)\<lparr>jStatus := s\<rparr>) st))"
      by (auto simp: reconcile_worker_job_def Let_def split: sum.splits if_splits)
    have "job_edge (jStatus (job_at st n)) s" using s(1,2) by (auto simp: job_edge_def worker_terminal_def)
    then show ?thesis unfolding s(3) by (intro jobs_path_write [OF b status_step]) simp_all
  qed
qed

section \<open>Recovery, claims and reports as steps\<close>

lemma recovered_step:
  assumes "\<not> worker_terminal (jStatus j)" and "jStatus j \<noteq> ''RECONCILIATION_REQUIRED''"
  shows "job_step j (j\<lparr>jStatus := recovered_status now j\<rparr>)"
proof (cases "jStatus j \<in> {''RUNNING'', ''CLAIMED'', ''QUEUED''}")
  case True
  then show ?thesis by (intro status_step) (auto simp: recovered_status_def job_edge_def)
next
  case False
  then have "recovered_status now j = jStatus j" by (simp add: recovered_status_def)
  then show ?thesis by (intro step_touch) (simp_all add: same_job_def)
qed

lemma recover_worker_path:
  assumes "n < length (stWorkerJobs st)"
  shows "jobs_path st (recover_worker x now n st)"
  using jobs_path_write [OF assms recovered_step] by (simp add: recover_worker_def Let_def)

lemma settle_path:
  assumes "n < length (stWorkerJobs st)" and "job_edge (jStatus (job_at st n)) s"
  shows "jobs_path st (settle x now n s action st)"
  unfolding settle_def by (rule jobs_path_write [OF assms(1) status_step [OF assms(2)]]) simp

definition granted :: "Authority \<Rightarrow> WorkerCtx \<Rightarrow> Principal \<Rightarrow> time \<Rightarrow> nat \<Rightarrow> State \<Rightarrow> State" where
  "granted a x p now n st =
     (let j = (job_at st n)\<lparr>jFence := jFence (job_at st n) + 1, jStatus := ''CLAIMED''\<rparr> in
      (set_job n j st)\<lparr>stWorkerAttempts := stWorkerAttempts st @ [new_attempt a x p now j]\<rparr>)"

lemma grant_state:
  "grant w a x p now n st = Inr (out, t) \<Longrightarrow>
     t = worker_audit x now n (principal_id p) ''worker_claimed'' (granted a x p now n st)"
  by (auto simp: grant_def granted_def Let_def set_job_def split: sum.splits)

lemma claim_step:
  "jStatus j = ''QUEUED'' \<Longrightarrow> more_attempts j \<Longrightarrow> job_step j (j\<lparr>jFence := jFence j + 1, jStatus := ''CLAIMED''\<rparr>)"
  by (rule step_claim) (simp_all add: same_job_def)

lemma grant_path:
  assumes "n < length (stWorkerJobs st)" "jStatus (job_at st n) = ''QUEUED''" "more_attempts (job_at st n)"
    and "grant w a x p now n st = Inr (out, t)"
  shows "jobs_path st t"
  unfolding grant_state [OF assms(4)]
  by (rule jobs_path_write [OF assms(1) claim_step [OF assms(2,3)]]) (simp add: granted_def Let_def)

lemma recover_worker_length [simp]: "length (stWorkerJobs (recover_worker x now n st)) = length (stWorkerJobs st)"
  by (simp add: recover_worker_def Let_def)

lemma settle_length [simp]: "length (stWorkerJobs (settle x now n s action st)) = length (stWorkerJobs st)"
  by (simp add: settle_def)

lemma grant_length: "grant w a x p now n st = Inr (out, t) \<Longrightarrow> length (stWorkerJobs t) = length (stWorkerJobs st)"
  by (drule grant_state) (simp add: granted_def Let_def)

text \<open>The three ways a pass over one job can end.\<close>

lemma claim_one_cases:
  assumes "claim_one w a x p v n (out, st) = Inr (out', t)"
  obtains (keep) "out' = out" "t = st"
    | (recover) "out' = out" "t = recover_worker x (wxNow x) n st" "claim_matches v st (job_at st n)"
    | (settle) s action where "out' = out" "t = settle x (wxNow x) n s action (recover_worker x (wxNow x) n st)"
        "jStatus (job_at (recover_worker x (wxNow x) n st) n) = ''QUEUED''"
        "s = ''RECONCILIATION_REQUIRED'' \<or> s = ''FAILED''"
    | (grant) "out = None" "claim_matches v st (job_at st n)"
        "jStatus (job_at (recover_worker x (wxNow x) n st) n) = ''QUEUED''"
        "more_attempts (job_at (recover_worker x (wxNow x) n st) n)"
        "claimable w (recover_worker x (wxNow x) n st) (job_at (recover_worker x (wxNow x) n st) n)"
        "grant w a x p (wxNow x) n (recover_worker x (wxNow x) n st) = Inr (out', t)"
proof -
  define r where "r = recover_worker x (wxNow x) n st"
  note c = assms [unfolded claim_one_def Let_def prod.case, folded r_def]
  show ?thesis
  proof (cases "claim_matches v st (job_at st n)")
    case False
    then show ?thesis using c keep by simp
  next
    case m: True
    show ?thesis
    proof (cases "jStatus (job_at r n) \<noteq> ''QUEUED'' \<or> out \<noteq> None")
      case True
      then show ?thesis using c m recover by (simp add: r_def)
    next
      case False
      then have q: "jStatus (job_at r n) = ''QUEUED''" "out = None" by simp_all
      note c = c [simplified m q, simplified]
      have s: ?thesis if "None = out'" "settle x (wxNow x) n s action r = t"
          "s = ''RECONCILIATION_REQUIRED'' \<or> s = ''FAILED''" for s action
        using settle [of s action] that q by (simp add: r_def)
      show ?thesis
      proof (cases "isl (patch_of w r (job_at r n)) \<or> \<not> claimable w r (job_at r n)")
        case True
        then show ?thesis using c by (auto split: if_splits intro: s)
      next
        case p: False
        show ?thesis
        proof (cases "wiCheck (jInputs (job_at r n)) \<noteq> None \<and> \<not> wkCheckReady w r (job_at r n)")
          case True
          then show ?thesis using c p m q(2) recover by (simp add: r_def)
        next
          case d: False
          show ?thesis
          proof (cases "more_attempts (job_at r n)")
            case True
            then have "grant w a x p (wxNow x) n r = Inr (out', t)" using c p d by (auto split: if_splits)
            then show ?thesis using grant [folded r_def, OF q(2) m q(1) True] p by simp
          next
            case False
            then show ?thesis using c p d by (auto split: if_splits intro: s)
          qed
        qed
      qed
    qed
  qed
qed

lemma claim_one_path:
  assumes "claim_one w a x p v n (out, st) = Inr (out', t)" and n: "n < length (stWorkerJobs st)"
  shows "jobs_path st t \<and> length (stWorkerJobs t) = length (stWorkerJobs st)"
  using assms(1)
proof (cases rule: claim_one_cases)
  case keep
  then show ?thesis by simp
next
  case recover
  then show ?thesis using recover_worker_path [OF n] by simp
next
  case (settle s action)
  have "jobs_path (recover_worker x (wxNow x) n st) t"
    unfolding settle(2) by (rule settle_path) (use settle(3,4) n in \<open>auto simp: job_edge_def\<close>)
  then show ?thesis using recover_worker_path [OF n] jobs_path_trans settle(2) by simp blast
next
  case grant
  have "jobs_path (recover_worker x (wxNow x) n st) t"
    by (rule grant_path [OF _ grant(3,4,6)]) (use n in simp)
  then show ?thesis
    using recover_worker_path [OF n] jobs_path_trans grant_length [OF grant(6)] by simp blast
qed

lemma claim_loop_path:
  "claim_loop w a x p v ns (out, st) = Inr (out', t) \<Longrightarrow> \<forall>n\<in>set ns. n < length (stWorkerJobs st) \<Longrightarrow>
   jobs_path st t \<and> length (stWorkerJobs t) = length (stWorkerJobs st)"
proof (induction ns arbitrary: out st)
  case (Cons n ns)
  from Cons.prems(1) obtain o1 s1 where s1: "claim_one w a x p v n (out, st) = Inr (o1, s1)"
      "claim_loop w a x p v ns (o1, s1) = Inr (out', t)"
    by (auto split: sum.splits)
  have 1: "jobs_path st s1 \<and> length (stWorkerJobs s1) = length (stWorkerJobs st)"
    using claim_one_path [OF s1(1)] Cons.prems(2) by simp
  then have "jobs_path s1 t \<and> length (stWorkerJobs t) = length (stWorkerJobs s1)"
    using Cons.IH [OF s1(2)] Cons.prems(2) by simp
  then show ?case using 1 jobs_path_trans by auto
qed simp

lemma claim_worker_loop:
  assumes "claim_worker w prior (x, p, v) st = Inr (out, t)"
  obtains a where "wkAuthority w = Some a" "claim_filter a v = Inr ()"
    "in_scope w a p (wcProductID v) (wcRepositoryID v) (wcCapability v) (wxNow x)"
    "claim_loop w a x p v [0..<length (stWorkerJobs st)] (None, st) = Inr (out, t)"
  using assms that by (auto simp: claim_worker_def split: option.splits sum.splits if_splits)

lemma claim_worker_path:
  assumes "claim_worker w prior (x, p, v) st = Inr (out, t)"
  shows "jobs_path st t"
proof -
  obtain a where "claim_loop w a x p v [0..<length (stWorkerJobs st)] (None, st) = Inr (out, t)"
    by (rule claim_worker_loop [OF assms]) blast
  then show ?thesis using claim_loop_path by force
qed

text \<open>What one mutation does to its job.\<close>

definition answer_step :: "WorkerJob \<Rightarrow> answer \<Rightarrow> bool" where
  "answer_step j r = (case r of Same \<Rightarrow> True | Change k a reg \<Rightarrow> job_step j k)"

lemma mutation_answer_step:
  assumes "mutation_answer w au now j a m = Inr r"
  shows "answer_step j r"
proof (cases m)
  case Start
  have "job_step j (j\<lparr>jStatus := ''RUNNING''\<rparr>)" if "jStatus j = ''CLAIMED''"
    using that by (intro status_step) (simp add: job_edge_def)
  then show ?thesis using assms Start by (auto simp: mutation_answer_def answer_step_def split: if_splits)
next
  case Heartbeat
  then show ?thesis
    using assms step_touch [of j j] by (auto simp: mutation_answer_def answer_step_def split: if_splits)
next
  case (Report p)
  then have r: "jStatus j = ''RUNNING''"
    using assms by (auto simp: mutation_answer_def report_checks_def chain_simps split: sum.splits)
  have "job_step j (j\<lparr>jStatus := s\<rparr>)" if "s = ''SUCCEEDED'' \<or> s = ''FAILED''" for s
    using r that by (intro status_step) (auto simp: job_edge_def)
  then show ?thesis
    using assms Report by (auto simp: mutation_answer_def answer_step_def Let_def split: sum.splits)
qed

definition changed :: "WorkerCtx \<Rightarrow> Principal \<Rightarrow> mutation \<Rightarrow> nat \<Rightarrow> WorkerJob \<Rightarrow> WorkerAttempt \<Rightarrow>
    WorkerRegistryReport option \<Rightarrow> State \<Rightarrow> State" where
  "changed x p m n j a reg st =
     (let st = set_job n j st;
          st = (case reg of None \<Rightarrow> st | Some r \<Rightarrow> admit_registry_inventory x j a r (wxNow x) st)
      in write_attempt (a\<lparr>aMeta := (aMeta a)\<lparr>mUpdatedAt := wxNow x\<rparr>\<rparr>) st)"

lemma apply_change_state:
  "apply_change w x p m n j a reg st = Inr (out, t) \<Longrightarrow>
     t = worker_audit x (wxNow x) n (principal_id p) (''worker_'' @ mutation_name m) (changed x p m n j a reg st)"
  by (auto simp: apply_change_def changed_def Let_def split: sum.splits)

lemma changed_jobs [simp]: "stWorkerJobs (changed x p m n j a reg st) = stWorkerJobs (set_job n j st)"
  by (simp add: changed_def Let_def split: option.splits)

text \<open>What a mutation that succeeds did: nothing, or the recovery of its job, and then the change
  of a live lease.\<close>

lemma mutate_worker_cases:
  assumes "mutate_worker w (x, p, req, m) st = Inr (out, t)"
  obtains (replay) n a r where "worker_job st (wrJobID req) = Some n" "worker_attempt st (wrAttemptID req) = Some a"
      "m = Report r" "aReport a = Some r" "t = st"
      "out = Inr \<lparr>wlIntelligencePatch = JNull, wlJob = job_at st n, wlAttempt = a\<rparr>"
    | (lost) n e where "worker_job st (wrJobID req) = Some n" "t = recover_worker x (wxNow x) n st" "out = Inl e"
    | (same) au n a0 a where "worker_job st (wrJobID req) = Some n" "t = recover_worker x (wxNow x) n st"
        "worker_attempt st (wrAttemptID req) = Some a0" "owned w au (wxNow x) p req (job_at st n) a0"
        "worker_attempt t (wrAttemptID req) = Some a" "\<not> lease_lost w (wxNow x) t (job_at t n) a"
    | (change) au n a0 a j b reg where "wkAuthority w = Some au" "worker_job st (wrJobID req) = Some n"
        "worker_attempt st (wrAttemptID req) = Some a0"
        "owned w au (wxNow x) p req (job_at st n) a0" "replayed m a0 = None"
        "worker_attempt (recover_worker x (wxNow x) n st) (wrAttemptID req) = Some a"
        "\<not> lease_lost w (wxNow x) (recover_worker x (wxNow x) n st) (job_at (recover_worker x (wxNow x) n st) n) a"
        "mutation_answer w au (wxNow x) (job_at (recover_worker x (wxNow x) n st) n) a m = Inr (Change j b reg)"
        "apply_change w x p m n j b reg (recover_worker x (wxNow x) n st) = Inr (out, t)"
proof -
  from assms obtain au n a0 where base: "wkAuthority w = Some au" "worker_job st (wrJobID req) = Some n"
      "worker_attempt st (wrAttemptID req) = Some a0" "owned w au (wxNow x) p req (job_at st n) a0"
    by (auto simp: mutate_worker_def Let_def split: option.splits if_splits)
  note d = assms [unfolded mutate_worker_def, simplified base prod.case option.case Let_def, simplified base(4)]
  show ?thesis
  proof (cases "replayed m a0")
    case (Some b)
    then obtain r where "m = Report r" "aReport a0 = Some r" "b"
        "t = st" "out = Inr \<lparr>wlIntelligencePatch = JNull, wlJob = job_at st n, wlAttempt = a0\<rparr>"
      using d by (auto simp: replayed_def split: mutation.splits option.splits sum.splits if_splits bool.splits)
    then show ?thesis using replay base by blast
  next
    case None
    define s where "s = recover_worker x (wxNow x) n st"
    from d None have r: "recovered_mutation w au x p (wrAttemptID req) m n st = Inr (out, t)"
      by (auto split: sum.splits if_splits)
    then obtain a where a: "worker_attempt s (wrAttemptID req) = Some a"
      by (auto simp: recovered_mutation_def s_def Let_def split: option.splits)
    note r = r [unfolded recovered_mutation_def Let_def, folded s_def, unfolded a option.case]
    show ?thesis
    proof (cases "lease_lost w (wxNow x) s (job_at s n) a")
      case True
      then show ?thesis using r base lost by (auto simp: s_def)
    next
      case False
      then show ?thesis
        using r base None a same change unfolding s_def
        by (auto split: sum.splits answer.splits)
    qed
  qed
qed

lemma mutate_worker_path:
  assumes "mutate_worker w (x, p, req, m) st = Inr (out, t)"
  shows "jobs_path st t"
  using assms
proof (cases rule: mutate_worker_cases)
  case (change au n a0 a j b reg)
  have n: "n < length (stWorkerJobs st)" using worker_job_bound [OF change(2)] by simp
  have "job_step (job_at (recover_worker x (wxNow x) n st) n) j"
    using mutation_answer_step [OF change(8)] by (simp add: answer_step_def)
  then have "jobs_path (recover_worker x (wxNow x) n st) t"
    unfolding apply_change_state [OF change(9)] using n by (intro jobs_path_write) simp_all
  then show ?thesis using recover_worker_path [OF n] jobs_path_trans by blast
qed (use worker_job_bound recover_worker_path in \<open>auto\<close>)

end
