(* ===== verification/WorkerInvariants.thy ===== *)
theory WorkerInvariants
  imports WorkerLifecycle
begin

text \<open>
  The invariants of the queue: every attempt belongs to a job, holds a fence of its own that the
  job has reached, and a lease that ends with the job. \<open>check_queue\<close> is the interface of the
  check publication that the queue calls; \<open>Checks\<close> provides it.
\<close>

section \<open>The queue and the check publication\<close>

definition check_linked :: "State \<Rightarrow> State \<Rightarrow> bool" where
  "check_linked st t \<longleftrightarrow> stWorkerAttempts t = stWorkerAttempts st \<and>
     length (stWorkerJobs t) = length (stWorkerJobs st) \<and>
     (\<forall>n<length (stWorkerJobs st). \<exists>i. job_at t n = (job_at st n)\<lparr>jCheckOperationID := i\<rparr>)"

lemma check_linked_length: "check_linked st t \<Longrightarrow> length (stWorkerJobs t) = length (stWorkerJobs st)"
  by (simp add: check_linked_def)

lemma relink_step: "k = j\<lparr>jCheckOperationID := i\<rparr> \<Longrightarrow> job_step j k"
  by (rule step_touch) (simp_all add: same_job_def)

lemma check_linked_path: "check_linked st t \<Longrightarrow> jobs_path st t"
  unfolding check_linked_def jobs_path_def using relink_step by (metis order_refl r_into_rtranclp)

definition fresh_job :: "WorkerJob \<Rightarrow> bool" where
  "fresh_job j \<longleftrightarrow> jStatus j = ''QUEUED'' \<and> jFence j = 0 \<and> 1 \<le> jMaxAttempts j \<and> jMaxAttempts j \<le> 10"

definition queue_appends :: "string \<Rightarrow> State \<Rightarrow> State \<Rightarrow> bool" where
  "queue_appends i st t \<longleftrightarrow> stWorkerAttempts t = stWorkerAttempts st \<and> jobs_path st t \<and>
     length (stWorkerJobs t) = Suc (length (stWorkerJobs st)) \<and>
     fresh_job (job_at t (length (stWorkerJobs st))) \<and>
     mID (jMeta (job_at t (length (stWorkerJobs st)))) = i"

locale check_queue =
  fixes w :: WorkerParts
  assumes queue_check_links: "wkQueueCheck w st i = Inr t \<Longrightarrow> check_linked st t"
begin

lemma queue_worker_job_appends:
  assumes "queue_worker_job w a x c st = Inr (out, t)"
  shows "t = st \<or> queue_appends (wxID x) st t"
proof -
  from assms obtain v r f patch j q s where
      j: "j = queued_job w x c v r f (queued_inputs v r patch)" and
      v: "queue_checks w a (wxNow x) c v r st = Inr ()" and
      s: "wkQueueCheck w (append_job q j st) (mID (jMeta j)) = Inr s" and
      t: "t = worker_audit x (wxNow x) (length (stWorkerJobs s) - 1) (cActor c) (cAction c) s" if "t \<noteq> st"
    by (auto simp: queue_worker_job_def Let_def split: sum.splits option.splits if_splits)
  show ?thesis
  proof (cases "t = st")
    case False
    note s = s [OF False, THEN queue_check_links] and j = j [OF False] and v = v [OF False] and t = t [OF False]
    define n where "n = length (stWorkerJobs st)"
    have b: "fresh_job j" "mID (jMeta j) = wxID x"
      using v by (auto simp: j queued_job_def fresh_job_def queue_checks_def chain_simps zero_WorkerJob_def)
    have l: "length (stWorkerJobs s) = Suc n" using check_linked_length [OF s] by (simp add: append_job_def n_def)
    then have t: "t = worker_audit x (wxNow x) n (cActor c) (cAction c) s" using t by simp
    have sn: "fresh_job (job_at s n) \<and> mID (jMeta (job_at s n)) = wxID x"
    proof -
      have "job_at (append_job q j st) n = j" by (simp add: job_at_def append_job_def n_def)
      moreover obtain i where "job_at s n = (job_at (append_job q j st) n)\<lparr>jCheckOperationID := i\<rparr>"
        using s by (auto simp: check_linked_def append_job_def n_def)
      ultimately show ?thesis using b by (simp add: fresh_job_def)
    qed
    have "jobs_path st (append_job q j st)"
      by (simp add: jobs_path_def append_job_def job_at_def nth_append)
    then have "jobs_path st t"
      using check_linked_path [OF s] jobs_path_audit [of n s] jobs_path_trans l unfolding t by simp
    moreover have "stWorkerAttempts t = stWorkerAttempts st"
      using s by (simp add: t check_linked_def append_job_def)
    ultimately show ?thesis
      using l sn by (simp add: queue_appends_def t job_at_audit n_def fresh_job_def)
  qed simp
qed

end

section \<open>The invariant\<close>

definition attempt_row :: "WorkerAttempt \<Rightarrow> string \<times> 64 word \<times> time" where
  "attempt_row a = (aJobID a, aFence a, aLeaseUntil a)"

definition fits :: "WorkerJob \<Rightarrow> string \<times> 64 word \<times> time \<Rightarrow> bool" where
  "fits j r \<longleftrightarrow> (case r of (i, f, u) \<Rightarrow> mID (jMeta j) = i \<and> 0 < f \<and> f \<le> jFence j \<and> u \<le> jDeadline j)"

definition job_ids :: "State \<Rightarrow> string list" where
  "job_ids st = map (mID \<circ> jMeta) (stWorkerJobs st)"

definition job_ok :: "WorkerJob \<Rightarrow> bool" where
  "job_ok j \<longleftrightarrow> fence_bounded j \<and> 1 \<le> jMaxAttempts j \<and> jMaxAttempts j \<le> 10"

definition jobs_ok :: "State \<Rightarrow> bool" where
  "jobs_ok st \<longleftrightarrow> distinct (job_ids st) \<and> (\<forall>j\<in>set (stWorkerJobs st). job_ok j)"

lemma job_ok_path: "job_path j k \<Longrightarrow> job_ok j \<Longrightarrow> job_ok k"
  using bounded_path [of j k] job_path_same [of j k] by (auto simp: job_ok_def same_job_def)

definition attempts_ok :: "State \<Rightarrow> bool" where
  "attempts_ok st \<longleftrightarrow>
     distinct (map (\<lambda>a. (aJobID a, aFence a)) (stWorkerAttempts st)) \<and>
     (\<forall>a\<in>set (stWorkerAttempts st). \<exists>j\<in>set (stWorkerJobs st). fits j (attempt_row a))"

definition worker_inv :: "State \<Rightarrow> bool" where
  "worker_inv st \<longleftrightarrow> jobs_ok st \<and> attempts_ok st"

lemma jobs_path_nth:
  "jobs_path st t \<Longrightarrow> n < length (stWorkerJobs st) \<Longrightarrow> job_path (stWorkerJobs st ! n) (stWorkerJobs t ! n)"
  by (simp add: jobs_path_def job_at_def)

lemma jobs_path_ids: "jobs_path st t \<Longrightarrow> take (length (stWorkerJobs st)) (job_ids t) = job_ids st"
  unfolding job_ids_def
  by (rule nth_equalityI)
    (auto simp: jobs_path_def job_at_def dest!: spec job_path_same simp: same_job_def)

text \<open>The rows an operation leaves alone stay in order along any path.\<close>

lemma path_jobs_ok:
  assumes "jobs_path st t" and "jobs_ok st" and "length (stWorkerJobs t) = length (stWorkerJobs st)"
  shows "jobs_ok t"
proof -
  have "job_ids t = job_ids st" using jobs_path_ids [OF assms(1)] assms(3) by (simp add: job_ids_def)
  moreover have "job_ok j" if j: "j \<in> set (stWorkerJobs t)" for j
  proof -
    obtain n where n: "n < length (stWorkerJobs st)" "j = stWorkerJobs t ! n"
      using j assms(3) by (metis in_set_conv_nth)
    then have "job_ok (stWorkerJobs st ! n)" using assms(2) by (simp add: jobs_ok_def)
    then show ?thesis using job_ok_path jobs_path_nth [OF assms(1) n(1)] n(2) by blast
  qed
  ultimately show ?thesis using assms(2) by (simp add: jobs_ok_def)
qed

lemma fits_path: "job_path j k \<Longrightarrow> fence_bounded j \<Longrightarrow> fits j r \<Longrightarrow> fits k r"
  using bounded_path [of j k] job_path_same [of j k] by (auto simp: fits_def same_job_def split: prod.splits)

lemma path_fits:
  assumes "jobs_path st t" and "jobs_ok st" and "j \<in> set (stWorkerJobs st)" and "fits j r"
  shows "\<exists>k\<in>set (stWorkerJobs t). fits k r"
proof -
  obtain n where n: "n < length (stWorkerJobs st)" "j = stWorkerJobs st ! n"
    using assms(3) by (auto simp: in_set_conv_nth)
  have "fits (stWorkerJobs t ! n) r"
    using fits_path [OF jobs_path_nth [OF assms(1) n(1)]] assms n by (simp add: jobs_ok_def job_ok_def)
  moreover have "n < length (stWorkerJobs t)" using n assms(1) by (simp add: jobs_path_def)
  ultimately show ?thesis by force
qed

lemma attempts_ok_rows:
  "attempts_ok st \<longleftrightarrow>
     distinct (map (\<lambda>(i, f, u). (i, f)) (map attempt_row (stWorkerAttempts st))) \<and>
     (\<forall>r\<in>set (map attempt_row (stWorkerAttempts st)). \<exists>j\<in>set (stWorkerJobs st). fits j r)"
  by (simp add: attempts_ok_def attempt_row_def comp_def)

lemma path_worker_inv:
  assumes "jobs_path st t" and "worker_inv st" and "length (stWorkerJobs t) = length (stWorkerJobs st)"
    and "map attempt_row (stWorkerAttempts t) = map attempt_row (stWorkerAttempts st)"
  shows "worker_inv t"
proof -
  have st: "jobs_ok st" "attempts_ok st" using assms(2) by (simp_all add: worker_inv_def)
  have "jobs_ok t" by (rule path_jobs_ok [OF assms(1) st(1) assms(3)])
  moreover have "attempts_ok t"
    using st(2) path_fits [OF assms(1) st(1)] unfolding attempts_ok_rows assms(4) by blast
  ultimately show ?thesis by (simp add: worker_inv_def)
qed

lemma appends_worker_inv:
  assumes "queue_appends i st t" and "worker_inv st" and "i \<notin> set (job_ids st)"
  shows "worker_inv t"
proof -
  define k where "k = job_at t (length (stWorkerJobs st))"
  have t: "stWorkerJobs t = take (length (stWorkerJobs st)) (stWorkerJobs t) @ [k]"
    using assms(1) by (simp add: queue_appends_def k_def job_at_def take_Suc_conv_app_nth [symmetric])
  define u where "u = t\<lparr>stWorkerJobs := take (length (stWorkerJobs st)) (stWorkerJobs t)\<rparr>"
  have p: "jobs_path st u" "length (stWorkerJobs u) = length (stWorkerJobs st)"
    using assms(1) by (simp_all add: queue_appends_def u_def jobs_path_def job_at_def)
  have u: "worker_inv u"
    by (rule path_worker_inv [OF p(1) assms(2) p(2)]) (use assms(1) in \<open>simp add: queue_appends_def u_def\<close>)
  have ids: "job_ids u = job_ids st"
    using jobs_path_ids [OF p(1)] p(2) by (simp add: job_ids_def)
  have k: "mID (jMeta k) = i" "job_ok k"
    using assms(1) by (auto simp: queue_appends_def k_def fresh_job_def job_ok_def fence_bounded_def)
  have t': "stWorkerJobs t = stWorkerJobs u @ [k]" by (subst t) (simp add: u_def)
  have t'': "stWorkerAttempts t = stWorkerAttempts u" by (simp add: u_def)
  have "job_ids t = job_ids st @ [i]" using ids k(1) by (simp add: job_ids_def t')
  then have "jobs_ok t" using u k(2) assms(3) ids by (auto simp: worker_inv_def jobs_ok_def t')
  moreover have "attempts_ok t" using u by (auto simp: worker_inv_def attempts_ok_def t' t'')
  ultimately show ?thesis by (simp add: worker_inv_def)
qed

section \<open>Rows that keep their place\<close>

definition rows_kept :: "State \<Rightarrow> State \<Rightarrow> bool" where
  "rows_kept st t \<longleftrightarrow> jobs_path st t \<and> length (stWorkerJobs t) = length (stWorkerJobs st) \<and>
     map attempt_row (stWorkerAttempts t) = map attempt_row (stWorkerAttempts st)"

lemma rows_kept_refl [simp]: "rows_kept st st"
  by (simp add: rows_kept_def)

lemma rows_kept_trans: "rows_kept r st \<Longrightarrow> rows_kept st t \<Longrightarrow> rows_kept r t"
  using jobs_path_trans by (auto simp: rows_kept_def)

lemma rows_kept_inv: "rows_kept st t \<Longrightarrow> worker_inv st \<Longrightarrow> worker_inv t"
  unfolding rows_kept_def using path_worker_inv by blast

lemma close_attempt_rows [simp]:
  "map attempt_row (stWorkerAttempts (close_attempt j s now st)) = map attempt_row (stWorkerAttempts st)"
  by (simp add: close_attempt_def map_update_first attempt_row_def)

lemma set_job_attempts [simp]: "stWorkerAttempts (set_job n j st) = stWorkerAttempts st"
  by (simp add: set_job_def)

lemma stop_job_rows: "rows_kept st (stop_job x now st i)"
  unfolding rows_kept_def using stop_job_path
  by (simp add: stop_job_def Let_def split: option.splits)

lemma stop_native_delivery_rows: "rows_kept st (stop_native_delivery x now i status detail st)"
proof -
  have f: "rows_kept t (foldl (stop_job x now) t ids)" for t ids
    by (induction ids arbitrary: t) (auto intro: rows_kept_trans stop_job_rows)
  show ?thesis
    unfolding rows_kept_def using stop_native_delivery_path f [unfolded rows_kept_def]
    by (simp add: stop_native_delivery_def Let_def del: foldl.simps split: option.splits)
qed

lemma manage_worker_job_rows:
  assumes "manage_worker_job x c st = Inr (out, t)"
  shows "rows_kept st t"
proof -
  have "length (stWorkerJobs t) = length (stWorkerJobs st) \<and>
      map attempt_row (stWorkerAttempts t) = map attempt_row (stWorkerAttempts st)"
    using assms stop_native_delivery_rows [unfolded rows_kept_def]
    by (auto simp: manage_worker_job_def cancel_worker_job_def reconcile_worker_job_def Let_def
        split: if_splits option.splits sum.splits)
  then show ?thesis using manage_worker_job_path [OF assms] by (simp add: rows_kept_def)
qed

lemma recover_worker_rows: "n < length (stWorkerJobs st) \<Longrightarrow> rows_kept st (recover_worker x now n st)"
  unfolding rows_kept_def using recover_worker_path by (simp add: recover_worker_def Let_def)

lemma settle_rows:
  "n < length (stWorkerJobs st) \<Longrightarrow> job_edge (jStatus (job_at st n)) s \<Longrightarrow> rows_kept st (settle x now n s action st)"
  unfolding rows_kept_def using settle_path by (simp add: settle_def)

lemma audit_rows: "n < length (stWorkerJobs st) \<Longrightarrow> rows_kept st (worker_audit x now n actor action st)"
  unfolding rows_kept_def using jobs_path_audit by simp

lemma set_job_rows:
  "n < length (stWorkerJobs st) \<Longrightarrow> job_step (job_at st n) j \<Longrightarrow> rows_kept st (set_job n j st)"
  unfolding rows_kept_def using jobs_path_set r_into_rtranclp [of job_step] by simp

section \<open>New attempts and rewritten attempts\<close>

lemma add_attempt_inv:
  assumes "worker_inv st" and "\<forall>b\<in>set (stWorkerAttempts st). (aJobID b, aFence b) \<noteq> (aJobID a, aFence a)"
    and "j \<in> set (stWorkerJobs st)" and "fits j (attempt_row a)"
  shows "worker_inv (st\<lparr>stWorkerAttempts := stWorkerAttempts st @ [a]\<rparr>)"
  using assms by (auto simp: worker_inv_def jobs_ok_def attempts_ok_def job_ids_def)

lemma job_unique:
  assumes "jobs_ok st" and "j \<in> set (stWorkerJobs st)" and "k \<in> set (stWorkerJobs st)"
    and "mID (jMeta j) = mID (jMeta k)"
  shows "j = k"
proof -
  have "inj_on (mID \<circ> jMeta) (set (stWorkerJobs st))"
    using assms(1) by (simp add: jobs_ok_def job_ids_def distinct_map)
  then show ?thesis using assms(2-4) by (metis comp_apply inj_onD)
qed

lemma job_at_in: "n < length (stWorkerJobs st) \<Longrightarrow> job_at st n \<in> set (stWorkerJobs st)"
  by (simp add: job_at_def)

lemma claimed_fence_new:
  assumes "worker_inv st" and n: "n < length (stWorkerJobs st)" and more: "more_attempts (job_at st n)"
    and b: "b \<in> set (stWorkerAttempts st)" and i: "aJobID b = mID (jMeta (job_at st n))"
  shows "aFence b \<noteq> jFence (job_at st n) + 1"
proof -
  have inv: "jobs_ok st" "attempts_ok st" using assms(1) by (simp_all add: worker_inv_def)
  obtain j where j: "j \<in> set (stWorkerJobs st)" "fits j (attempt_row b)"
    using inv(2) b by (auto simp: attempts_ok_def)
  then have "mID (jMeta j) = aJobID b" "aFence b \<le> jFence j" by (auto simp: fits_def attempt_row_def)
  then have "aFence b \<le> jFence (job_at st n)" using job_unique [OF inv(1) j(1) job_at_in [OF n]] i by simp
  then show ?thesis using fence_grows [OF more] by auto
qed

lemma lease_until_deadline: "lease_until a now j \<le> jDeadline j"
  by (simp add: lease_until_def)

lemma grant_inv:
  assumes "worker_inv st" and n: "n < length (stWorkerJobs st)" and q: "jStatus (job_at st n) = ''QUEUED''"
    and more: "more_attempts (job_at st n)" and "grant w a x p now n st = Inr (out, t)"
  shows "worker_inv t"
proof -
  define j where "j = (job_at st n)\<lparr>jFence := jFence (job_at st n) + 1, jStatus := ''CLAIMED''\<rparr>"
  define u where "u = set_job n j st"
  have id: "mID (jMeta j) = mID (jMeta (job_at st n))" by (simp add: j_def)
  have u: "worker_inv u"
    using rows_kept_inv [OF set_job_rows [OF n claim_step [OF q more]] assms(1)] by (simp add: u_def j_def)
  have "j \<in> set (stWorkerJobs u)" using n by (simp add: u_def set_job_def set_update_memI)
  moreover have "fits j (attempt_row (new_attempt a x p now j))"
  proof -
    have "jFence j = jFence (job_at st n) + 1" by (simp add: j_def)
    then have "jFence (job_at st n) < jFence j" using fence_grows [OF more] by simp
    then have "jFence j \<noteq> 0" by (metis word_not_simps(1))
    then show ?thesis
      using lease_until_deadline by (simp add: fits_def attempt_row_def new_attempt_def word_gt_0)
  qed
  ultimately have "worker_inv (u\<lparr>stWorkerAttempts := stWorkerAttempts u @ [new_attempt a x p now j]\<rparr>)"
    using claimed_fence_new [OF assms(1) n more] id
    by (intro add_attempt_inv [OF u]) (auto simp: new_attempt_def u_def j_def)
  then have g: "worker_inv (granted a x p now n st)" by (simp add: granted_def u_def j_def Let_def)
  show ?thesis
    unfolding grant_state [OF assms(5)]
    by (rule rows_kept_inv [OF audit_rows g]) (use n in \<open>simp add: granted_def Let_def\<close>)
qed

section \<open>Claims\<close>

lemma claim_one_inv:
  assumes "claim_one w a x p v n (out, st) = Inr (out', t)" and n: "n < length (stWorkerJobs st)"
    and inv: "worker_inv st"
  shows "worker_inv t"
proof -
  define r where "r = recover_worker x (wxNow x) n st"
  have r: "worker_inv r" unfolding r_def by (rule rows_kept_inv [OF recover_worker_rows [OF n] inv])
  have nr: "n < length (stWorkerJobs r)" using n by (simp add: r_def)
  show ?thesis
    using assms(1)
  proof (cases rule: claim_one_cases)
    case (settle s action)
    then have "job_edge (jStatus (job_at r n)) s" by (auto simp: job_edge_def r_def)
    then show ?thesis using settle(2) rows_kept_inv [OF settle_rows [OF nr] r] by (simp add: r_def)
  next
    case grant
    then show ?thesis using grant_inv [OF r nr] by (simp add: r_def)
  qed (use inv r in \<open>simp_all add: r_def\<close>)
qed

lemma claim_loop_inv:
  "claim_loop w a x p v ns (out, st) = Inr (out', t) \<Longrightarrow> \<forall>n\<in>set ns. n < length (stWorkerJobs st) \<Longrightarrow>
   worker_inv st \<Longrightarrow> worker_inv t"
proof (induction ns arbitrary: out st)
  case (Cons n ns)
  from Cons.prems(1) obtain o1 s1 where s1: "claim_one w a x p v n (out, st) = Inr (o1, s1)"
      "claim_loop w a x p v ns (o1, s1) = Inr (out', t)"
    by (auto split: sum.splits)
  have "length (stWorkerJobs s1) = length (stWorkerJobs st)"
    using claim_one_path [OF s1(1)] Cons.prems(2) by simp
  moreover have "worker_inv s1" using claim_one_inv [OF s1(1)] Cons.prems(2,3) by simp
  ultimately show ?case using Cons.IH [OF s1(2)] Cons.prems(2) by simp
qed simp

lemma claim_worker_inv:
  assumes "claim_worker w prior (x, p, v) st = Inr (out, t)" and "worker_inv st"
  shows "worker_inv t"
  by (rule claim_worker_loop [OF assms(1)]) (use claim_loop_inv assms(2) in fastforce)

section \<open>Mutations\<close>

definition attempt_core :: "WorkerAttempt \<Rightarrow> string \<times> string \<times> string \<times> 64 word \<times> string \<times> time" where
  "attempt_core a = (mID (aMeta a), aJobID a, aPrincipal a, aFence a, aInputHash a, aLeaseUntil a)"

lemma recovered_attempt:
  "map_option attempt_core (worker_attempt (recover_worker x now n st) i) = map_option attempt_core (worker_attempt st i)"
proof -
  have "map_option attempt_core (worker_attempt (close_attempt j s now u) i) = map_option attempt_core (worker_attempt u i)"
    for j s u
    unfolding worker_attempt_def close_attempt_def
    by (simp, rule find_update_first_core) (auto simp: attempt_core_def)
  moreover have "worker_attempt (worker_audit x now n actor action u) i = worker_attempt u i" for actor action u
    by (simp add: worker_attempt_def)
  moreover have "worker_attempt (set_job n j u) i = worker_attempt u i" for j u
    by (simp add: worker_attempt_def)
  ultimately show ?thesis by (simp only: recover_worker_def Let_def split: if_split) simp
qed

lemma mutation_answer_attempt:
  "mutation_answer w au now j a m = Inr (Change k b reg) \<Longrightarrow>
     aMeta b = aMeta a \<and> aJobID b = aJobID a \<and> aFence b = aFence a \<and> aPrincipal b = aPrincipal a \<and>
     aInputHash b = aInputHash a \<and> (aLeaseUntil b = aLeaseUntil a \<or> aLeaseUntil b \<le> jDeadline j)"
  by (auto simp: mutation_answer_def Let_def lease_until_def split: mutation.splits if_splits sum.splits)

lemma write_attempt_inv:
  assumes inv: "worker_inv st" and a: "worker_attempt st i = Some a"
    and b: "mID (aMeta b) = i" "aJobID b = aJobID a" "aFence b = aFence a"
    and l: "aLeaseUntil b = aLeaseUntil a \<or> (\<exists>j\<in>set (stWorkerJobs st). mID (jMeta j) = aJobID a \<and> aLeaseUntil b \<le> jDeadline j)"
  shows "worker_inv (write_attempt b st)"
proof -
  define t where "t = write_attempt b st"
  have st: "jobs_ok st" "attempts_ok st" using inv by (simp_all add: worker_inv_def)
  have jobs: "stWorkerJobs t = stWorkerJobs st" by (simp add: t_def)
  have rows: "stWorkerAttempts t = update_first (\<lambda>c. mID (aMeta c) = i) (\<lambda>_. b) (stWorkerAttempts st)"
    by (simp add: t_def write_attempt_def b(1))
  have a': "find (\<lambda>c. mID (aMeta c) = i) (stWorkerAttempts st) = Some a" using a by (simp add: worker_attempt_def)
  have "map (\<lambda>a. (aJobID a, aFence a)) (stWorkerAttempts t) = map (\<lambda>a. (aJobID a, aFence a)) (stWorkerAttempts st)"
    unfolding rows by (rule map_update_first_found [OF a']) (simp add: b)
  moreover have "\<exists>j\<in>set (stWorkerJobs t). fits j (attempt_row c)" if c: "c \<in> set (stWorkerAttempts t)" for c
  proof -
    have "c \<in> set (stWorkerAttempts st) \<or> c = b" using c unfolding rows by (auto dest: set_update_first)
    then show ?thesis
    proof
      assume "c = b"
      obtain j where j: "j \<in> set (stWorkerJobs st)" "fits j (attempt_row a)"
        using st(2) find_Some_in [OF a'] by (auto simp: attempts_ok_def)
      then have ja: "mID (jMeta j) = aJobID a" by (simp add: fits_def attempt_row_def)
      have "aLeaseUntil b \<le> jDeadline j"
        using l
      proof
        assume "\<exists>j\<in>set (stWorkerJobs st). mID (jMeta j) = aJobID a \<and> aLeaseUntil b \<le> jDeadline j"
        then show ?thesis using job_unique [OF st(1) j(1)] ja by force
      qed (use j(2) in \<open>simp add: fits_def attempt_row_def\<close>)
      then have "fits j (attempt_row b)" using j(2) b by (simp add: fits_def attempt_row_def)
      then show ?thesis using j(1) \<open>c = b\<close> jobs by auto
    qed (use st(2) jobs in \<open>simp add: attempts_ok_def\<close>)
  qed
  ultimately have "attempts_ok t" using st(2) by (simp add: attempts_ok_def)
  moreover have "jobs_ok t" using st(1) by (simp add: jobs_ok_def job_ids_def jobs)
  ultimately show ?thesis by (simp add: worker_inv_def t_def)
qed

lemma mutate_worker_inv:
  assumes "mutate_worker w (x, p, req, m) st = Inr (out, t)" and inv: "worker_inv st"
  shows "worker_inv t"
  using assms(1)
proof (cases rule: mutate_worker_cases)
  case (change au n a0 a j b reg)
  define r where "r = recover_worker x (wxNow x) n st"
  have n: "n < length (stWorkerJobs st)" using worker_job_bound [OF change(2)] by simp
  have r: "worker_inv r" unfolding r_def by (rule rows_kept_inv [OF recover_worker_rows [OF n] inv])
  have same: "same_job (job_at st n) (job_at r n)"
    using recover_worker_path [OF n] n job_path_same by (simp add: r_def jobs_path_def)
  have "attempt_core a = attempt_core a0"
    using recovered_attempt [of x "wxNow x" n st "wrAttemptID req"] change(3,6) by simp
  then have a: "aJobID a = mID (jMeta (job_at r n))" "mID (aMeta a) = wrAttemptID req"
    using change(4,6) same by (auto simp: attempt_core_def owned_def same_job_def worker_attempt_def dest: find_Some_prop)
  note b = mutation_answer_attempt [OF change(8), folded r_def]
  have step: "job_step (job_at r n) j"
    using mutation_answer_step [OF change(8)] by (simp add: answer_step_def r_def)
  define s where "s = (let u = set_job n j r in
      case reg of None \<Rightarrow> u | Some v \<Rightarrow> admit_registry_inventory x j b v (wxNow x) u)"
  have s: "worker_inv s" "stWorkerJobs s = stWorkerJobs (set_job n j r)" "stWorkerAttempts s = stWorkerAttempts r"
  proof -
    have "rows_kept r (set_job n j r)" using n step by (intro set_job_rows) (simp_all add: r_def)
    then have "rows_kept r s"
      by (simp add: s_def Let_def rows_kept_def jobs_path_def job_at_def admit_registry_inventory_def split: option.splits)
    then show "worker_inv s" using r rows_kept_inv by blast
  qed (simp_all add: s_def Let_def admit_registry_inventory_def split: option.splits)
  have "worker_inv (changed x p m n j b reg r)"
    unfolding changed_def Let_def s_def [unfolded Let_def, symmetric]
  proof (rule write_attempt_inv [OF s(1)])
    show "worker_attempt s (wrAttemptID req) = Some a" using change(6) s(3) by (simp add: worker_attempt_def r_def)
    have "same_job (job_at r n) j" by (rule job_step_same [OF step])
    then have "j \<in> set (stWorkerJobs s)" "mID (jMeta j) = aJobID a" "jDeadline (job_at r n) = jDeadline j"
      using n a(1) s(2) by (simp_all add: same_job_def set_job_def r_def set_update_memI)
    then show "aLeaseUntil (b\<lparr>aMeta := (aMeta b)\<lparr>mUpdatedAt := wxNow x\<rparr>\<rparr>) = aLeaseUntil a \<or>
        (\<exists>j\<in>set (stWorkerJobs s). mID (jMeta j) = aJobID a \<and>
           aLeaseUntil (b\<lparr>aMeta := (aMeta b)\<lparr>mUpdatedAt := wxNow x\<rparr>\<rparr>) \<le> jDeadline j)"
      using b by auto
  qed (use b a(2) in simp_all)
  then show ?thesis
    unfolding apply_change_state [OF change(9)] r_def [symmetric]
    by (rule rows_kept_inv [OF audit_rows, rotated]) (use n in \<open>simp add: r_def\<close>)
qed (use inv rows_kept_inv [OF recover_worker_rows] worker_job_bound in \<open>auto\<close>)

end
