(* ===== verification/Checks.thy ===== *)
theory Checks
  imports WorkerInvariants Releases
begin

text \<open>
  \<open>internal/application/checks.go\<close> and \<open>internal/domain/worker_checks.go\<close>: the publication of a
  provider check for a worker job, and the validation of check publications that every update of
  the store repeats. A publication is an operation of its own. Its tick is two transactions around
  one provider call: \<open>check_prepare\<close> persists the intent and \<open>check_commit\<close> records what the
  provider answered; a pointer to the operation of a transaction is its index.

  \<open>CheckEnv\<close> holds what comes from elsewhere: the provider, the port and the string form of a
  URL, the hashes of JSON encodings, and the live fence of managed deliveries.
\<close>

record CheckEnv =
  ckProvider :: bool
  ckPort :: "URL \<Rightarrow> string"
  ckString :: "URL \<Rightarrow> string \<Rightarrow> string \<Rightarrow> string"
  ckWriteHash :: "CheckRunWrite \<Rightarrow> string"
  ckSnapshotHash :: "DeliverySnapshot option \<Rightarrow> string"
  ckParentHash :: "ExternalOperation \<Rightarrow> string"
  ckDeliveryAllowed :: "State \<Rightarrow> ExternalOperation option \<Rightarrow> unit result"

section \<open>Where a check is published\<close>

text \<open>\<open>u.String()\<close> is taken with the host and path replaced and the raw path empty.\<close>

definition drop_slashes :: "string \<Rightarrow> string" where
  "drop_slashes s = rev (dropWhile (\<lambda>c. c = CHR ''/'') (rev s))"

definition check_host :: "CheckEnv \<Rightarrow> URL \<Rightarrow> string" where
  "check_host k u =
     (let host = to_lower (uHostname u);
          port = (if ckPort k u = ''443'' \<and> uScheme u = ''https'' \<or> ckPort k u = ''80'' \<and> uScheme u = ''http'' then []
            else ckPort k u);
          bracketed = (if CHR '':'' \<in> set host then ''['' @ host @ '']'' else host)
      in if port \<noteq> [] then bracketed @ '':'' @ port else bracketed)"

definition check_api_identity :: "CheckEnv \<Rightarrow> ConfigEnv \<Rightarrow> string \<Rightarrow> string option" where
  "check_api_identity k ce raw =
     (case ceParseURL ce (if raw = [] then ''https://api.github.com'' else raw) of
        None \<Rightarrow> None
      | Some u \<Rightarrow>
          (if uHostname u = [] \<or> uUser u \<or> uRawQuery u \<noteq> [] \<or> uFragment u \<noteq> [] \<or>
              uScheme u \<noteq> ''https'' \<and> uScheme u \<noteq> ''http'' then None
           else Some (ckString k u (check_host k u) (drop_slashes (uPath u)))))"

definition check_api_same :: "CheckEnv \<Rightarrow> ConfigEnv \<Rightarrow> string \<Rightarrow> string \<Rightarrow> bool" where
  "check_api_same k ce a b =
     (case (check_api_identity k ce a, check_api_identity k ce b) of
        (Some x, Some y) \<Rightarrow> x = y | _ \<Rightarrow> False)"

definition check_registered_connection :: "RegisteredRepository \<Rightarrow> string \<Rightarrow> bool" where
  "check_registered_connection r i \<longleftrightarrow> regConnectionID r = i \<or> i \<in> set (regConnectionIDs r)"

definition repository_name :: "string \<Rightarrow> bool" where
  "repository_name s =
     (case components s of
        [a, b] \<Rightarrow> a \<noteq> [] \<and> b \<noteq> [] \<and> list_all (\<lambda>c. alnum c \<or> c \<in> set ''_.-'') (a @ b)
      | _ \<Rightarrow> False)"

definition github_connection :: "State \<Rightarrow> string \<Rightarrow> GitHubConnection option" where
  "github_connection st i = find (\<lambda>c. mID (ghcMeta c) = i) (stGitHubConnections st)"

definition scoped_connection :: "State \<Rightarrow> string \<Rightarrow> string \<Rightarrow> GitHubConnection result" where
  "scoped_connection st i product =
     (case github_connection st i of
        None \<Rightarrow> Inl (invalid ''product connection grant required'' [])
      | Some c \<Rightarrow>
          (if product = [] then Inl (invalid ''product connection grant required'' [])
           else if mProductID (ghcMeta c) = product \<or>
             list_ex (\<lambda>g. cgConnectionID g = i \<and> mProductID (cgMeta g) = product) (stConnectionGrants st) then Inr c
           else Inl (invalid ''product has no grant for instance connection'' [])))"

text \<open>The registered repositories behind a product's repository, in the order of the two loops.\<close>

definition registered_of :: "State \<Rightarrow> string \<Rightarrow> string \<Rightarrow> RegisteredRepository list" where
  "registered_of st product repo =
     concat (map (\<lambda>r. filter (\<lambda>g. mID (regMeta g) = repoRegisteredRepositoryID r) (stRegisteredRepositories st))
       (filter (\<lambda>r. mID (repoMeta r) = repo \<and> mProductID (repoMeta r) = product) (stRepositories st)))"

definition check_physical ::
  "CheckEnv \<Rightarrow> ConfigEnv \<Rightarrow> State \<Rightarrow> string \<Rightarrow> string \<Rightarrow> (RepositoryBinding \<times> GitHubConnection \<times> int) result" where
  "check_physical k ce st product repo =
     (case repository_binding st repo of
        None \<Rightarrow> Inl (invalid ''check source repository binding unavailable'' [])
      | Some source \<Rightarrow>
          (if mProductID (rbMeta source) \<noteq> product \<or> rbRole source \<noteq> ''APPLICATION'' \<or>
              \<not> repository_name (rbFullName source)
           then Inl (invalid ''check source repository binding unavailable'' [])
           else case scoped_connection st (rbConnectionID source) product of
             Inl e \<Rightarrow> Inl e
           | Inr conn \<Rightarrow>
               (case find (\<lambda>g. 0 < regProviderRepositoryID g \<and> equal_fold (regFullName g) (rbFullName source) \<and>
                     check_api_same k ce (regProviderAPIURL g) (cnnAPIURL (ghcConfig conn)) \<and>
                     check_registered_connection g (rbConnectionID source)) (registered_of st product repo) of
                  None \<Rightarrow> Inl (invalid ''check requires registered physical repository identity'' [])
                | Some g \<Rightarrow> Inr (source, conn, regProviderRepositoryID g))))"

definition check_recipes :: "Authority \<Rightarrow> Recipe list" where
  "check_recipes a =
     map (\<lambda>r. case find_recipe a (recID r) of None \<Rightarrow> r | Some copy \<Rightarrow> copy)
       (filter (\<lambda>r. recCheck r \<noteq> None) (cfRecipes (auConfig a)))"

text \<open>The provider's number of a repository: the last of the registered ones the loops pass.\<close>

definition physical_number :: "CheckEnv \<Rightarrow> ConfigEnv \<Rightarrow> State \<Rightarrow> string \<Rightarrow> string \<Rightarrow> string \<Rightarrow> int" where
  "physical_number k ce st product repo api =
     (case find_last (\<lambda>g. check_api_same k ce (regProviderAPIURL g) api) (registered_of st product repo) of
        None \<Rightarrow> 0 | Some g \<Rightarrow> regProviderRepositoryID g)"

definition owned_elsewhere ::
  "CheckEnv \<Rightarrow> ConfigEnv \<Rightarrow> State \<Rightarrow> RepositoryBinding \<Rightarrow> Connection \<Rightarrow> int \<Rightarrow> Recipe \<Rightarrow> bool" where
  "owned_elsewhere k ce st source conn physical r =
     (case repository_binding st (recRepositoryID r) of
        None \<Rightarrow> False
      | Some other \<Rightarrow>
          (case github_connection st (rbConnectionID other) of
             None \<Rightarrow> False
           | Some oc \<Rightarrow>
               check_api_same k ce (cnnAPIURL (ghcConfig oc)) (cnnAPIURL conn) \<and>
               (physical_number k ce st (recProductID r) (recRepositoryID r) (cnnAPIURL conn) = physical \<or>
                equal_fold (rbFullName other) (rbFullName source))))"

definition check_ownership ::
  "CheckEnv \<Rightarrow> ConfigEnv \<Rightarrow> Authority \<Rightarrow> State \<Rightarrow> WorkerJob \<Rightarrow> RepositoryBinding \<Rightarrow> Connection \<Rightarrow> int \<Rightarrow> unit result" where
  "check_ownership k ce a st j source conn physical =
     each (\<lambda>r.
       if recID r = wiRecipeID (jInputs j) \<and> recProductID r = mProductID (jMeta j) then Inr ()
       else case (recCheck r, wiCheck (jInputs j)) of
         (Some c, Some d) \<Rightarrow> reject (wcbName c = wcbName d \<and> wcbExpectedAppID c = wcbExpectedAppID d \<and>
             owned_elsewhere k ce st source conn physical r)
           (invalid ''physical repository check name owned by another configured recipe'' [])
       | _ \<Rightarrow> Inl (GoPanic ''nil check binding''))
     (check_recipes a)"

section \<open>The origin of a managed job\<close>

definition native_source_proof :: "CheckEnv \<Rightarrow> ExternalOperation \<Rightarrow> WorkerSourceProof" where
  "native_source_proof k o' =
     \<lparr>wspParentHash = (case opNative o' of None \<Rightarrow> [] | Some n \<Rightarrow> ndParentHash n),
      wspDeliveryID = mID (opMeta o'), wspParentID = opParentID o', wspSnapshotHash = ckSnapshotHash k (opSnapshot o')\<rparr>"

definition same_source :: "WorkerJob \<Rightarrow> ExternalOperation \<Rightarrow> DeliverySnapshot \<Rightarrow> bool" where
  "same_source j o' s \<longleftrightarrow>
     mProductID (jMeta j) = mProductID (opMeta o') \<and> jIntegrationID j = opIntegrationID o' \<and>
     wiSourceSHA (jInputs j) = revHeadCommit (dsRevision s) \<and>
     wiRevisionID (jInputs j) = mID (revMeta (dsRevision s)) \<and>
     wiRepositoryID (jInputs j) = revRepositoryID (dsRevision s)"

definition linked_job :: "NativeDelivery \<Rightarrow> WorkerJob \<Rightarrow> bool" where
  "linked_job n j \<longleftrightarrow>
     jCapability j = ''local_oci_build'' \<and> ndBuildJobID n = mID (jMeta j) \<or>
     jCapability j = ''registry_publish'' \<and> ndPublicationJobID n = mID (jMeta j)"

definition native_worker_origin :: "CheckEnv \<Rightarrow> State \<Rightarrow> WorkerJob \<Rightarrow> unit result" where
  "native_worker_origin k st j =
     (case wiSourceProof (jInputs j) of
        None \<Rightarrow> Inr ()
      | Some proof \<Rightarrow>
          (case operation_by_id st (wspDeliveryID proof) of
             None \<Rightarrow> Inl (invalid ''immutable native delivery origin mismatch'' [])
           | Some o' \<Rightarrow>
               (case (opNative o', opSnapshot o') of
                  (Some n, Some s) \<Rightarrow> chain
                    [reject (native_source_proof k o' \<noteq> proof \<or> \<not> same_source j o' s)
                       (invalid ''immutable native delivery origin mismatch'' []),
                     reject (opParentID o' \<noteq> [] \<and> (case operation_by_id st (opParentID o') of
                         None \<Rightarrow> True | Some p \<Rightarrow> ndParentHash n \<noteq> ckParentHash k p))
                       (invalid ''immutable native composition origin mismatch'' []),
                     reject (\<not> linked_job n j) (invalid ''immutable native job link mismatch'' [])]
                | _ \<Rightarrow> Inl (invalid ''immutable native delivery origin mismatch'' []))))"

definition managed_worker_allowed :: "CheckEnv \<Rightarrow> State \<Rightarrow> WorkerJob \<Rightarrow> unit result" where
  "managed_worker_allowed k st j =
     (case wiSourceProof (jInputs j) of
        None \<Rightarrow> Inr ()
      | Some proof \<Rightarrow>
          (case ckDeliveryAllowed k st (operation_by_id st (wspDeliveryID proof)) of
             Inl e \<Rightarrow> Inl e
           | Inr _ \<Rightarrow>
               (case operation_by_id st (wspDeliveryID proof) of
                  None \<Rightarrow> Inl (GoPanic ''nil delivery operation'')
                | Some o' \<Rightarrow>
                    (case opNative o' of
                       None \<Rightarrow> Inl (invalid ''managed worker source proof mismatch'' [])
                     | Some n \<Rightarrow>
                         (if native_source_proof k o' \<noteq> proof \<or> mProductID (jMeta j) \<noteq> mProductID (opMeta o') \<or>
                             jIntegrationID j \<noteq> opIntegrationID o'
                          then Inl (invalid ''managed worker source proof mismatch'' [])
                          else case opSnapshot o' of
                            None \<Rightarrow> Inl (GoPanic ''nil delivery snapshot'')
                          | Some s \<Rightarrow> chain
                              [reject (\<not> same_source j o' s) (invalid ''managed worker source proof mismatch'' []),
                               reject (\<not> linked_job n j) (invalid ''managed worker link mismatch'' [])])))))"

section \<open>The queue of a check\<close>

record CheckCtx =
  kxWorker :: WorkerCtx
  kxLease :: time
  kxStep :: time
  kxRetry :: time
  kxStepID :: string

definition check_child :: "time \<Rightarrow> string \<Rightarrow> WorkerJob \<Rightarrow> WorkerCheckBinding \<Rightarrow> RepositoryBinding \<Rightarrow> Connection \<Rightarrow> int \<Rightarrow>
    ExternalOperation \<Rightarrow> ExternalOperation" where
  "check_child now i j c source conn physical parent = zero_ExternalOperation\<lparr>
     opMeta := \<lparr>mID = i, mProductID = mProductID (jMeta j), mFeatureID = mFeatureID (jMeta j),
       mActor = ''system/check-publication'', mCreatedAt = now, mUpdatedAt = now\<rparr>,
     opKind := ''CHECK_PUBLICATION'', opParentID := mID (opMeta parent), opIntegrationID := jIntegrationID j,
     opRepositoryID := wiRepositoryID (jInputs j), opRequestedBy := opRequestedBy parent, opStatus := ''PENDING'',
     opPhase := ''CHECK_CREATE_READY'', opCurrentStep := ''CHECK_CREATE_READY'', opNextAttemptAt := now,
     opCheckPublication := Some \<lparr>cpJobID = mID (jMeta j), cpWorkerOperationID = jOperationID j, cpInputs = jInputs j,
       cpInputHash = jInputHash j, cpSource = source, cpConnection = conn, cpProviderRepositoryID = physical,
       cpIdentity = \<lparr>criRepositoryID = physical, criRepository = rbFullName source, criHeadSHA = wiSourceSHA (jInputs j),
         criName = wcbName c, criExternalID = ''rcp:'' @ i, criAppID = cnnAppID conn\<rparr>,
       cpFinalizeDeadline = jDeadline j + wcbFinalizeSeconds c * second, cpObservations = 0, cpIntent = None,
       cpIntentHash = [], cpObserved = None\<rparr>\<rparr>"

definition add_check_child :: "nat \<Rightarrow> ExternalOperation \<Rightarrow> State \<Rightarrow> State" where
  "add_check_child n child st =
     (let i = mID (opMeta child); j = (job_at st n)\<lparr>jCheckOperationID := i\<rparr> in
      (set_job n j st)\<lparr>stOperations :=
         update_first (\<lambda>p. mID (opMeta p) = jOperationID j) (\<lambda>p. p\<lparr>opChildIDs := opChildIDs p @ [i]\<rparr>) (stOperations st)
         @ [child]\<rparr>)"

definition queue_worker_check :: "CheckEnv \<Rightarrow> WorkerParts \<Rightarrow> time \<Rightarrow> string \<Rightarrow> State \<Rightarrow> string \<Rightarrow> State result" where
  "queue_worker_check k w now i st jobID =
     (let ce = wkEnv w in
      case worker_job st jobID of
        None \<Rightarrow> Inl (invalid ''check worker job missing'' [])
      | Some n \<Rightarrow>
        (let j = job_at st n in
         case (wiCheck (jInputs j), wkAuthority w) of
           (None, _) \<Rightarrow> Inr st
         | (Some _, None) \<Rightarrow> Inl (GoPanic ''nil authority'')
         | (Some c, Some a) \<Rightarrow>
           (if \<not> ckProvider k then Inl (invalid ''check publication provider unavailable'' [])
            else case check_physical k ce st (mProductID (jMeta j)) (wiRepositoryID (jInputs j)) of
              Inl e \<Rightarrow> Inl e
            | Inr (source, conn, physical) \<Rightarrow>
              (case chain
                 [reject (cnnAppID (ghcConfig conn) \<noteq> wcbExpectedAppID c)
                    (invalid ''check GitHub App identity mismatch'' []),
                  check_ownership k ce a st j source (ghcConfig conn) physical,
                  (case wiSourceProof (jInputs j) of
                     None \<Rightarrow> Inr ()
                   | Some proof \<Rightarrow> reject
                       (case operation_by_id st (wspDeliveryID proof) of
                          None \<Rightarrow> True
                        | Some o' \<Rightarrow> (case opSnapshot o' of None \<Rightarrow> True
                            | Some s \<Rightarrow> dsSource s \<noteq> source \<or> dsSourceConnection s \<noteq> ghcConfig conn))
                       (invalid ''check native source authority mismatch'' []))] of
                 Inl e \<Rightarrow> Inl e
               | Inr _ \<Rightarrow>
                 (case operation_by_id st (jOperationID j) of
                    None \<Rightarrow> Inl (invalid ''check worker operation missing'' [])
                  | Some parent \<Rightarrow>
                    (if opKind parent \<noteq> ''WORKER_EXECUTION'' \<or> mProductID (opMeta parent) \<noteq> mProductID (jMeta j)
                     then Inl (invalid ''check worker operation missing'' [])
                     else Inr (add_check_child n
                       (check_child now i j c source (ghcConfig conn) physical parent) st)))))))"

section \<open>The state of a check\<close>

definition check_observation_matches :: "CheckRunObservation \<Rightarrow> CheckRunWrite \<Rightarrow> bool" where
  "check_observation_matches o' w \<longleftrightarrow>
     crbFound o' \<and> 0 < crbID o' \<and> (crwID w = 0 \<or> crbID o' = crwID w) \<and> crbIdentity o' = crwIdentity w \<and>
     crbStatus o' = crwStatus w \<and> crbConclusion o' = crwConclusion w \<and> crbStartedAt o' = crwStartedAt w \<and>
     crbCompletedAt o' = crwCompletedAt w \<and> crbOutput o' = crwOutput w"

definition check_initial_ready :: "State \<Rightarrow> WorkerJob \<Rightarrow> bool" where
  "check_initial_ready st j \<longleftrightarrow>
     (wiCheck (jInputs j) = None \<or>
      (case operation_by_id st (jCheckOperationID j) of
         None \<Rightarrow> False
       | Some o' \<Rightarrow> opKind o' = ''CHECK_PUBLICATION'' \<and> opStatus o' \<noteq> ''FAILED'' \<and> opStatus o' \<noteq> ''CANCELLED'' \<and>
           (case opCheckPublication o' of
              None \<Rightarrow> False
            | Some p \<Rightarrow> cpJobID p = mID (jMeta j) \<and>
                (case cpObserved p of
                   None \<Rightarrow> False
                 | Some v \<Rightarrow> crbFound v \<and> (crbStatus v = ''queued'' \<or> crbStatus v = ''in_progress'') \<and>
                     crbIdentity v = cpIdentity p))))"

definition worker_check_succeeded :: "State \<Rightarrow> WorkerJob option \<Rightarrow> bool" where
  "worker_check_succeeded st jo =
     (case jo of
        None \<Rightarrow> False
      | Some j \<Rightarrow>
          (wiCheck (jInputs j) = None \<or>
           (case operation_by_id st (jCheckOperationID j) of
              None \<Rightarrow> False
            | Some o' \<Rightarrow> opStatus o' = ''SUCCEEDED'' \<and>
                (case opCheckPublication o' of
                   None \<Rightarrow> False
                 | Some p \<Rightarrow> cpJobID p = mID (jMeta j) \<and>
                     (case (cpIntent p, cpObserved p) of
                        (Some i, Some v) \<Rightarrow> crbStatus v = ''completed'' \<and> crbConclusion v = ''success'' \<and>
                          check_observation_matches v i
                      | _ \<Rightarrow> False)))))"

section \<open>The live authority of a check\<close>

text \<open>Without a worker configuration \<open>s.externalWorkers\<close> is nil; \<open>Recipe\<close> dereferences it, the
  lookups of the two other kinds of job test it first.\<close>

definition config_lookup_panics :: "WorkerParts \<Rightarrow> WorkerJob \<Rightarrow> bool" where
  "config_lookup_panics w j \<longleftrightarrow>
     wkAuthority w = None \<and> jCapability j \<noteq> ''registry_observe'' \<and> jCapability j \<noteq> ''registry_publish''"

definition check_authority :: "CheckEnv \<Rightarrow> WorkerParts \<Rightarrow> State \<Rightarrow> ExternalOperation option \<Rightarrow> bool \<Rightarrow> unit result" where
  "check_authority k w st oo success =
     (case oo of
        None \<Rightarrow> Inl (invalid ''check publication snapshot missing'' [])
      | Some o' \<Rightarrow>
        (case opCheckPublication o' of
           None \<Rightarrow> Inl (invalid ''check publication snapshot missing'' [])
         | Some p \<Rightarrow>
           (case worker_job st (cpJobID p) of
              Some n \<Rightarrow>
                (let j = job_at st n in
                 if jCheckOperationID j \<noteq> mID (opMeta o') \<or> jOperationID j \<noteq> cpWorkerOperationID p \<or>
                    mProductID (jMeta j) \<noteq> mProductID (opMeta o') \<or> jInputHash j \<noteq> cpInputHash p \<or>
                    jInputs j \<noteq> cpInputs p \<or> wiCheck (jInputs j) = None
                 then Inl (invalid ''check worker authority changed or quarantined'' [])
                 else if config_lookup_panics w j then Inl (GoPanic ''nil authority'')
                 else if \<not> worker_config_matches w j \<or> native_quarantined st (mProductID (jMeta j))
                 then Inl (invalid ''check worker authority changed or quarantined'' [])
                 else case check_physical k (wkEnv w) st (mProductID (jMeta j)) (wiRepositoryID (jInputs j)) of
                   Inl e \<Rightarrow> Inl e
                 | Inr (source, conn, physical) \<Rightarrow> chain
                     [reject (source \<noteq> cpSource p \<or> ghcConfig conn \<noteq> cpConnection p \<or>
                          physical \<noteq> cpProviderRepositoryID p \<or>
                          Some (cnnAppID (ghcConfig conn)) \<noteq> map_option wcbExpectedAppID (wiCheck (jInputs j)))
                        (invalid ''check source connection authority changed'' []),
                      check_ownership k (wkEnv w) (the (wkAuthority w)) st j source (ghcConfig conn) physical,
                      (if wiSourceProof (jInputs j) \<noteq> None then chain
                         [native_worker_origin k st j,
                          (if success then managed_worker_allowed k st j else Inr ())]
                       else reject (\<not> list_ex (\<lambda>r. mID (revMeta r) = wiRevisionID (jInputs j) \<and>
                           mProductID (revMeta r) = mProductID (jMeta j) \<and> revIntegrationID r = jIntegrationID j \<and>
                           revRepositoryID r = wiRepositoryID (jInputs j) \<and>
                           revHeadCommit r = wiSourceSHA (jInputs j)) (stIntegrationRevisions st))
                         (invalid ''check captured revision identity changed'' []))])
            | None \<Rightarrow> Inl (invalid ''check worker authority changed or quarantined'' []))))"

definition worker_check_gate :: "CheckEnv \<Rightarrow> WorkerParts \<Rightarrow> State \<Rightarrow> WorkerJob option \<Rightarrow> bool" where
  "worker_check_gate k w st jo \<longleftrightarrow>
     worker_check_succeeded st jo \<and>
     (case jo of
        None \<Rightarrow> False
      | Some j \<Rightarrow> wiCheck (jInputs j) = None \<or>
          check_authority k w st (operation_by_id st (jCheckOperationID j)) False = Inr ())"

section \<open>The write a check should have\<close>

definition summary_text :: "string \<Rightarrow> string \<Rightarrow> string \<Rightarrow> string \<Rightarrow> string \<Rightarrow> string" where
  "summary_text job sha hash recipe status =
     ''Worker '' @ job @ [CHR 0x0A] @ ''Source '' @ sha @ [CHR 0x0A] @ ''Inputs '' @ hash @ [CHR 0x0A] @
     ''Recipe '' @ recipe @ [CHR 0x0A] @ ''Result '' @ status"

definition title_text :: "string \<Rightarrow> string" where
  "title_text s = ''RCP checks/build: '' @ s"

definition truncate_second :: "time \<Rightarrow> time" where
  "truncate_second t = t - t mod second"

text \<open>The accepted report of the job: on time, passed, and with a valid build receipt.\<close>

definition accepted_on_time :: "State \<Rightarrow> WorkerJob \<Rightarrow> bool" where
  "accepted_on_time st j \<longleftrightarrow>
     (case current_attempt st j of
        None \<Rightarrow> False
      | Some a \<Rightarrow>
          (case aReport a of
             None \<Rightarrow> False
           | Some r \<Rightarrow> repResult r = ''PASSED'' \<and> \<not> jDeadline j < mUpdatedAt (aMeta a) \<and>
               validate_worker_local_oci j a r = Inr ()))"

definition expired_unreported :: "State \<Rightarrow> WorkerJob \<Rightarrow> time \<Rightarrow> bool" where
  "expired_unreported st j now \<longleftrightarrow>
     jStatus j = ''FAILED'' \<and> \<not> now < jDeadline j \<and> \<not> mUpdatedAt (jMeta j) < jDeadline j \<and>
     (case current_attempt st j of
        None \<Rightarrow> False | Some a \<Rightarrow> aStatus a = ''EXPIRED'' \<and> aReport a = None)"

text \<open>The outcome the code computes in \<open>terminal\<close> and \<open>conclusion\<close>: \<open>None\<close> while the job is not
  terminal. Later tests override earlier ones.\<close>

definition job_conclusion :: "string \<Rightarrow> string option" where
  "job_conclusion s =
     (if s = ''SUCCEEDED'' then Some ''success'' else if s = ''FAILED'' then Some ''failure''
      else if s = ''CANCELLED'' then Some ''cancelled'' else if s = ''DEADLINE_EXCEEDED'' then Some ''timed_out''
      else None)"

definition check_conclusion :: "CheckEnv \<Rightarrow> State \<Rightarrow> WorkerJob \<Rightarrow> time \<Rightarrow> string option" where
  "check_conclusion k st j now =
     (let c = job_conclusion (jStatus j);
          c = (if expired_unreported st j now then Some ''timed_out'' else c);
          c = (if \<not> now < jDeadline j \<and> c = None then Some ''timed_out'' else c);
          c = (if jCancellationRequested j then Some ''cancelled'' else c)
      in if wiSourceProof (jInputs j) \<noteq> None \<and> (c = None \<or> c = Some ''success'') \<and>
           managed_worker_allowed k st j \<noteq> Inr () then Some ''cancelled'' else c)"

definition running_status :: "WorkerJob \<Rightarrow> CheckPublication \<Rightarrow> string" where
  "running_status j p =
     (if jStatus j \<in> {''CLAIMED'', ''RUNNING'', ''RECONCILIATION_REQUIRED''} \<or>
         (case cpObserved p of None \<Rightarrow> False | Some v \<Rightarrow> crbStatus v = ''in_progress'')
      then ''in_progress'' else ''queued'')"

definition check_write :: "WorkerJob \<Rightarrow> CheckPublication \<Rightarrow> string option \<Rightarrow> CheckRunWrite" where
  "check_write j p c =
     (let status = (if c = None then running_status j p else ''completed'');
          conclusion = (case c of None \<Rightarrow> [] | Some s \<Rightarrow> s)
      in \<lparr>crwIdentity = cpIdentity p,
          crwID = (case cpObserved p of None \<Rightarrow> 0 | Some v \<Rightarrow> crbID v),
          crwStatus = status, crwConclusion = conclusion,
          crwStartedAt = (if status = ''queued'' then zero_time else truncate_second (mCreatedAt (jMeta j))),
          crwCompletedAt = (case c of None \<Rightarrow> zero_time
            | Some s \<Rightarrow> truncate_second (if s = ''timed_out'' then jDeadline j else mUpdatedAt (jMeta j))),
          crwOutput = \<lparr>croTitle = title_text (if conclusion = [] then status else conclusion),
            croSummary = summary_text (mID (jMeta j)) (wiSourceSHA (jInputs j)) (jInputHash j)
              (wiRecipeHash (jInputs j)) (jStatus j)\<rparr>\<rparr>)"

text \<open>\<open>desiredCheck\<close> recovers the job first; the state it leaves stays also when it fails.\<close>

definition desired_check ::
  "CheckEnv \<Rightarrow> WorkerCtx \<Rightarrow> State \<Rightarrow> CheckPublication \<Rightarrow> CheckRunWrite result \<times> State" where
  "desired_check k x st p =
     (case worker_job st (cpJobID p) of
        None \<Rightarrow> (Inl (GoPanic ''nil worker job''), st)
      | Some n \<Rightarrow>
          (let now = wxNow x; st = recover_worker x now n st; j = job_at st n in
           (if jStatus j = ''SUCCEEDED'' \<and> \<not> accepted_on_time st j
            then Inl (invalid ''check success requires accepted on-time typed build receipt'' [])
            else Inr (check_write j p (check_conclusion k st j now)), st)))"

section \<open>One tick of a check\<close>

definition op_index :: "State \<Rightarrow> string \<Rightarrow> nat option" where
  "op_index st i = find (\<lambda>n. mID (opMeta (stOperations st ! n)) = i) [0..<length (stOperations st)]"

definition op_at :: "State \<Rightarrow> nat \<Rightarrow> ExternalOperation" where
  "op_at st n = stOperations st ! n"

definition set_op :: "nat \<Rightarrow> ExternalOperation \<Rightarrow> State \<Rightarrow> State" where
  "set_op n o' st = st\<lparr>stOperations := (stOperations st)[n := o']\<rparr>"

definition set_publication :: "nat \<Rightarrow> CheckPublication \<Rightarrow> State \<Rightarrow> State" where
  "set_publication n p st = set_op n ((op_at st n)\<lparr>opCheckPublication := Some p\<rparr>) st"

text \<open>\<open>checkUpdate\<close>: the operation must still be leased to the caller.\<close>

definition leased_operation :: "CheckCtx \<Rightarrow> string \<Rightarrow> string \<Rightarrow> State \<Rightarrow> nat result" where
  "leased_operation x i token st =
     (case op_index st i of
        None \<Rightarrow> Inl (invalid ''check operation lease lost'' [])
      | Some n \<Rightarrow>
          (if opLeaseOwner (op_at st n) \<noteq> token \<or> \<not> kxLease x < opLeaseUntil (op_at st n)
           then Inl (invalid ''check operation lease lost'' []) else Inr n))"

definition operation_step :: "string \<Rightarrow> time \<Rightarrow> ExternalOperation \<Rightarrow> string \<Rightarrow> string \<Rightarrow> OperationStep" where
  "operation_step i now o' status detail =
     \<lparr>ostMeta = \<lparr>mID = i, mProductID = mProductID (opMeta o'), mFeatureID = mFeatureID (opMeta o'),
        mActor = ''system/check-publication'', mCreatedAt = now, mUpdatedAt = now\<rparr>,
      ostOperationID = mID (opMeta o'), ostPhase = opPhase o', ostStatus = status, ostDetail = detail, ostEvidence = []\<rparr>"

definition check_step :: "CheckCtx \<Rightarrow> nat \<Rightarrow> string \<Rightarrow> bool \<Rightarrow> State \<Rightarrow> State" where
  "check_step x n detail terminal st =
     (let now = kxStep x;
          o' = (op_at st n)\<lparr>opMeta := (opMeta (op_at st n))\<lparr>mUpdatedAt := now\<rparr>, opDetail := detail,
            opCurrentStep := opPhase (op_at st n), opNextAttemptAt := now + 2 * second,
            opLeaseOwner := [], opLeaseUntil := zero_time\<rparr>;
          o' = (if terminal then o'\<lparr>opFinishedAt := Some now\<rparr> else o')
      in (set_op n o' st)\<lparr>stOperationSteps :=
           stOperationSteps st @ [operation_step (kxStepID x) now o' (opStatus o') detail]\<rparr>)"

definition set_status :: "nat \<Rightarrow> string \<Rightarrow> State \<Rightarrow> State" where
  "set_status n s st = set_op n ((op_at st n)\<lparr>opStatus := s\<rparr>) st"

definition set_phase :: "nat \<Rightarrow> string \<Rightarrow> State \<Rightarrow> State" where
  "set_phase n s st = set_op n ((op_at st n)\<lparr>opPhase := s\<rparr>) st"

definition check_fail :: "CheckCtx \<Rightarrow> nat \<Rightarrow> string \<Rightarrow> string \<Rightarrow> State \<Rightarrow> State" where
  "check_fail x n reason detail st =
     check_step x n detail True (set_op n ((op_at st n)\<lparr>opStatus := ''FAILED'', opError := reason\<rparr>) st)"

text \<open>The provider call that follows the first transaction.\<close>

datatype check_action = Create | Find | Read | Update

definition observation_budget :: int where
  "observation_budget = 64"

definition provider_unavailable :: "CheckCtx \<Rightarrow> nat \<Rightarrow> State \<Rightarrow> State" where
  "provider_unavailable x n st =
     check_fail x n ''CHECK_PROVIDER_UNAVAILABLE'' ''Check provider unavailable'' st"

text \<open>The registration of a new check is always queued.\<close>

definition initial_write :: "CheckPublication \<Rightarrow> CheckRunWrite \<Rightarrow> CheckRunWrite" where
  "initial_write p w = w\<lparr>crwStatus := ''queued'', crwConclusion := [], crwStartedAt := zero_time,
     crwCompletedAt := zero_time, crwID := 0,
     crwOutput := \<lparr>croTitle = title_text ''queued'',
       croSummary = summary_text (cpJobID p) (wiSourceSHA (cpInputs p)) (cpInputHash p) (wiRecipeHash (cpInputs p)) ''QUEUED''\<rparr>\<rparr>"

definition with_intent :: "CheckEnv \<Rightarrow> CheckRunWrite \<Rightarrow> CheckPublication \<Rightarrow> CheckPublication" where
  "with_intent k w p = p\<lparr>cpIntent := Some w, cpIntentHash := ckWriteHash k w\<rparr>"

text \<open>The switch over the phase: an end of the transaction, or the intent to persist, the new phase and
  the call to make.\<close>

datatype check_move =
    Fail string
  | Wait
  | Go CheckPublication string check_action

definition check_move :: "CheckEnv \<Rightarrow> string \<Rightarrow> CheckPublication \<Rightarrow> CheckRunWrite \<Rightarrow> check_move" where
  "check_move k phase p w =
     (if phase = ''CHECK_CREATE_READY'' then
        Go (with_intent k (initial_write p w) p) ''CHECK_CREATE_UNCERTAIN'' Create
      else if phase = ''CHECK_CREATE_UNCERTAIN'' then Go p phase Find
      else if phase = ''CHECK_UPDATE_UNCERTAIN'' then Go p phase Read
      else if phase = ''CHECK_OBSERVE'' then
        (case cpObserved p of
           None \<Rightarrow> Fail ''CHECK_OBSERVATION_MISSING''
         | Some v \<Rightarrow>
             (if crbStatus v = ''completed'' then Fail ''CHECK_TERMINAL_OUTCOME_MISMATCH''
              else if check_observation_matches v w then Wait
              else Go (with_intent k w p) ''CHECK_UPDATE_UNCERTAIN'' Update))
      else Fail ''CHECK_PHASE_INVALID'')"

definition intent_valid :: "CheckEnv \<Rightarrow> CheckPublication \<Rightarrow> bool" where
  "intent_valid k p = (case cpIntent p of None \<Rightarrow> False | Some w \<Rightarrow> cpIntentHash p = ckWriteHash k w)"

definition check_intent ::
  "CheckCtx \<Rightarrow> nat \<Rightarrow> CheckPublication \<Rightarrow> State \<Rightarrow> CheckPublication \<times> State" where
  "check_intent x n p st =
     (let now = wxNow (kxWorker x);
          p = p\<lparr>cpObservations := cpObservations p + 1\<rparr>;
          o' = (op_at st n)\<lparr>opCheckPublication := Some p, opCurrentStep := opPhase (op_at st n),
            opMeta := (opMeta (op_at st n))\<lparr>mUpdatedAt := now\<rparr>\<rparr>
      in (p, (set_op n o' st)\<lparr>stOperationSteps := stOperationSteps st @
           [operation_step (kxStepID x) now o' ''RUNNING'' ''Durable bounded check intent/observation'']\<rparr>))"

definition check_moved ::
  "CheckEnv \<Rightarrow> CheckCtx \<Rightarrow> nat \<Rightarrow> CheckPublication \<Rightarrow> CheckRunWrite \<Rightarrow> State \<Rightarrow>
   (check_action \<times> CheckPublication) option \<times> State" where
  "check_moved k x n p w st =
     (case check_move k (opPhase (op_at st n)) p w of
        Fail reason \<Rightarrow> (None, check_fail x n reason reason st)
      | Wait \<Rightarrow> (None, check_step x n ''Check state observed; waiting for accepted worker result'' False
            (set_status n ''RUNNING'' st))
      | Go p phase action \<Rightarrow>
          (let st = set_publication n p (set_phase n phase st) in
           if \<not> intent_valid k p then (None, check_fail x n ''CHECK_INTENT_INVALID'' ''CHECK_INTENT_INVALID'' st)
           else case check_intent x n p st of (p, st) \<Rightarrow> (Some (action, p), st)))"

text \<open>A panic leaves the transaction; every other outcome is committed.\<close>

definition panics :: "'a result \<Rightarrow> bool" where
  "panics r = (case r of Inl e \<Rightarrow> is_panic e | Inr _ \<Rightarrow> False)"

definition budget_reason :: string where
  "budget_reason = ''CHECK_RECONCILIATION_REQUIRED: finalization deadline or observation budget exhausted''"

definition check_prepare ::
  "CheckEnv \<Rightarrow> WorkerParts \<Rightarrow> CheckCtx \<times> string \<times> string \<Rightarrow> State \<Rightarrow>
   ((check_action \<times> CheckPublication) option \<times> State) result" where
  "check_prepare k w r st =
     (case r of (x, i, token) \<Rightarrow>
      (case leased_operation x i token st of
         Inl e \<Rightarrow> Inl e
       | Inr n \<Rightarrow>
         (if \<not> ckProvider k then Inr (None, provider_unavailable x n st)
          else case opCheckPublication (op_at st n) of
            None \<Rightarrow> Inr (None, check_fail x n ''CHECK_SNAPSHOT_INVALID'' ''CHECK_SNAPSHOT_INVALID'' st)
          | Some p \<Rightarrow>
            (let now = wxNow (kxWorker x); auth = check_authority k w st (Some (op_at st n)) False in
             if \<not> now < cpFinalizeDeadline p \<or> observation_budget \<le> cpObservations p
             then Inr (None, check_fail x n budget_reason budget_reason st)
             else if panics auth then Inl (projl auth)
             else if isl auth
             then Inr (None, check_fail x n ''CHECK_AUTHORITY_CHANGED'' ''CHECK_AUTHORITY_CHANGED'' st)
             else case desired_check k (kxWorker x) st p of
               (Inl e, st) \<Rightarrow>
                 (if is_panic e then Inl e
                  else Inr (None, check_fail x n ''CHECK_RESULT_INVALID'' ''CHECK_RESULT_INVALID'' st))
             | (Inr d, st) \<Rightarrow>
                 (let again = check_authority k w st (Some (op_at st n)) True in
                  if crwConclusion d = ''success'' \<and> panics again then Inl (projl again)
                  else if crwConclusion d = ''success'' \<and> isl again
                  then Inr (None, check_fail x n ''CHECK_SUCCESS_AUTHORITY_CHANGED'' ''CHECK_SUCCESS_AUTHORITY_CHANGED'' st)
                  else Inr (check_moved k x n p d st))))))"

text \<open>After the call: the intent must be the one that was sent, and the authority is checked again.\<close>

definition check_observed :: "CheckCtx \<Rightarrow> nat \<Rightarrow> CheckPublication \<Rightarrow> CheckRunObservation \<Rightarrow> State \<Rightarrow> State" where
  "check_observed x n p v st =
     (let status = (if crbStatus v = ''completed'' then ''SUCCEEDED'' else ''RUNNING'');
          st = set_status n status (set_phase n ''CHECK_OBSERVE'' (set_publication n (p\<lparr>cpObserved := Some v\<rparr>) st))
      in check_step x n (''Exact check state observed: '' @ crbStatus v @ '' '' @ crbConclusion v)
           (status = ''SUCCEEDED'') st)"

definition check_uncertain :: "CheckCtx \<Rightarrow> nat \<Rightarrow> CheckPublication \<Rightarrow> State \<Rightarrow> State" where
  "check_uncertain x n p st =
     (let st = check_step x n ''Check write outcome uncertain; read-only reconciliation pending'' False
            (set_status n ''RUNNING'' st)
      in set_op n ((op_at st n)\<lparr>opNextAttemptAt := kxRetry x + (2 + cpObservations p div 4) * second\<rparr>) st)"

definition answer_matches :: "CheckRunObservation result \<Rightarrow> CheckPublication \<Rightarrow> CheckRunObservation option" where
  "answer_matches answer p =
     (case (answer, cpIntent p) of
        (Inr v, Some i) \<Rightarrow> (if check_observation_matches v i then Some v else None)
      | _ \<Rightarrow> None)"

definition sent_success :: "CheckPublication \<Rightarrow> bool" where
  "sent_success sent = (case cpIntent sent of None \<Rightarrow> False | Some i \<Rightarrow> crwConclusion i = ''success'')"

definition wrong_identity :: "CheckRunObservation result \<Rightarrow> CheckPublication \<Rightarrow> bool" where
  "wrong_identity answer p = (case answer of Inl _ \<Rightarrow> False | Inr v \<Rightarrow> crbFound v \<and> crbIdentity v \<noteq> cpIdentity p)"

definition check_commit ::
  "CheckEnv \<Rightarrow> WorkerParts \<Rightarrow> CheckCtx \<times> string \<times> string \<times> CheckPublication \<times> CheckRunObservation result \<Rightarrow>
   State \<Rightarrow> (unit \<times> State) result" where
  "check_commit k w r st =
     (case r of (x, i, token, sent, answer) \<Rightarrow>
      (case leased_operation x i token st of
         Inl e \<Rightarrow> Inl e
       | Inr n \<Rightarrow>
         (case opCheckPublication (op_at st n) of
            None \<Rightarrow> Inl (invalid ''check intent changed during provider I/O'' [])
          | Some p \<Rightarrow>
            (let auth = check_authority k w st (Some (op_at st n)) (sent_success sent);
                 fail = (\<lambda>reason. Inr ((), check_fail x n reason reason st)) in
             if cpIntentHash p \<noteq> cpIntentHash sent \<or> cpObservations p \<noteq> cpObservations sent
             then Inl (invalid ''check intent changed during provider I/O'' [])
             else if panics auth then Inl (projl auth)
             else if isl auth then fail ''CHECK_POST_IO_AUTHORITY_CHANGED''
             else if \<not> wxNow (kxWorker x) < cpFinalizeDeadline p then fail ''CHECK_FINALIZATION_EXPIRED''
             else if wrong_identity answer p then fail ''CHECK_PROVIDER_IDENTITY_MISMATCH''
             else case answer_matches answer p of
               None \<Rightarrow> Inr ((), check_uncertain x n p st)
             | Some v \<Rightarrow> Inr ((), check_observed x n p v st)))))"

text \<open>\<open>tickCheck\<close>: between the transactions the provider is called and others may change the
  state, as \<open>between\<close> does.\<close>

definition tick_check ::
  "CheckEnv \<Rightarrow> WorkerParts \<Rightarrow> (check_action \<Rightarrow> CheckPublication \<Rightarrow> CheckRunObservation result) \<Rightarrow> (State \<Rightarrow> State) \<Rightarrow>
   CheckCtx \<Rightarrow> CheckCtx \<Rightarrow> string \<Rightarrow> string \<Rightarrow> State \<Rightarrow> State result" where
  "tick_check k w provider between x y i token st =
     (case check_prepare k w (x, i, token) st of
        Inl e \<Rightarrow> Inl e
      | Inr (None, st) \<Rightarrow> Inr st
      | Inr (Some (action, sent), st) \<Rightarrow>
          (case check_commit k w (y, i, token, sent, provider action sent) (between st) of
             Inl e \<Rightarrow> (if is_panic e then Inl e else Inr (between st))
           | Inr (_, st) \<Rightarrow> Inr st))"

section \<open>What the store validates\<close>

definition whole_second :: "time \<Rightarrow> bool" where
  "whole_second t \<longleftrightarrow> t = zero_time \<or> t mod second = 0"

definition valid_check_payload :: "CheckRunWrite \<Rightarrow> bool" where
  "valid_check_payload w \<longleftrightarrow>
     crwStatus w \<in> {''queued'', ''in_progress'', ''completed''} \<and>
     length (croTitle (crwOutput w)) \<le> 256 \<and> length (croSummary (crwOutput w)) \<le> 4096 \<and>
     \<not> contains_any (croTitle (crwOutput w)) [CHR 0x0D, CHR 0x0A, CHR 0x00] \<and>
     \<not> contains_any (croSummary (crwOutput w)) [CHR 0x0D, CHR 0x00] \<and>
     whole_second (crwStartedAt w) \<and> whole_second (crwCompletedAt w) \<and>
     (if crwStatus w = ''queued'' then
        crwConclusion w = [] \<and> crwStartedAt w = zero_time \<and> crwCompletedAt w = zero_time
      else if crwStatus w = ''in_progress'' then
        crwConclusion w = [] \<and> crwStartedAt w \<noteq> zero_time \<and> crwCompletedAt w = zero_time
      else crwConclusion w \<in> {''success'', ''failure'', ''cancelled'', ''timed_out''} \<and>
        crwStartedAt w \<noteq> zero_time \<and> crwCompletedAt w \<noteq> zero_time \<and> \<not> crwCompletedAt w < crwStartedAt w)"

definition job_statuses :: "string list" where
  "job_statuses = [''QUEUED'', ''CLAIMED'', ''RUNNING'', ''RECONCILIATION_REQUIRED'', ''SUCCEEDED'', ''FAILED'',
     ''CANCELLED'', ''DEADLINE_EXCEEDED'']"

definition safe_check_output :: "string \<Rightarrow> string \<Rightarrow> CheckRunOutput \<Rightarrow> CheckPublication \<Rightarrow> bool" where
  "safe_check_output status conclusion out p \<longleftrightarrow>
     croTitle out = title_text (if conclusion \<noteq> [] then conclusion else status) \<and>
     list_ex (\<lambda>s. croSummary out = summary_text (cpJobID p) (wiSourceSHA (cpInputs p)) (cpInputHash p)
       (wiRecipeHash (cpInputs p)) s) job_statuses"

definition receipt_matches :: "WorkerJob \<Rightarrow> WorkerAttempt \<Rightarrow> WorkerLocalOCI \<Rightarrow> WorkerExecution \<Rightarrow> bool" where
  "receipt_matches j a v e \<longleftrightarrow>
     ociJobID v = mID (jMeta j) \<and> ociAttemptID v = mID (aMeta a) \<and> ociInputHash v = jInputHash j \<and>
     ociSourceSHA v = wiSourceSHA (jInputs j) \<and> ociRecipeHash v = wiRecipeHash (jInputs j) \<and>
     ociConfigRevision v = wiConfigRevision (jInputs j) \<and> ociToolchainImage v = weToolchainImage e \<and>
     ociPlatform v = wePlatform e \<and> 1 \<le> ociArchiveBytes v \<and> ociArchiveBytes v \<le> weOutputBytes e \<and>
     ociRuntimeRootFS v = weRuntimeRootFS e \<and>
     list_all sha256_digest [ociArchiveHash v, ociLayoutHash v, ociIndexDigest v, ociManifestDigest v]"

definition accepted_receipt :: "WorkerJob \<Rightarrow> WorkerAttempt \<Rightarrow> bool" where
  "accepted_receipt j a \<longleftrightarrow>
     aStatus a = ''SUCCEEDED'' \<and> aInputHash a = jInputHash j \<and> \<not> jDeadline j < mUpdatedAt (aMeta a) \<and>
     (case (aReport a, wiExecution (jInputs j)) of
        (Some r, Some e) \<Rightarrow>
          repResult r = ''PASSED'' \<and> wrJobID (repWorkerAttemptRequest r) = mID (jMeta j) \<and>
          wrAttemptID (repWorkerAttemptRequest r) = mID (aMeta a) \<and> wrFence (repWorkerAttemptRequest r) = aFence a \<and>
          wrInputHash (repWorkerAttemptRequest r) = jInputHash j \<and> repPublication r = None \<and>
          (case repLocalOCI r of None \<Rightarrow> False | Some v \<Rightarrow> receipt_matches j a v e)
      | _ \<Rightarrow> False)"

definition check_success_provenance :: "State \<Rightarrow> WorkerJob \<Rightarrow> bool" where
  "check_success_provenance st j \<longleftrightarrow>
     jStatus j = ''SUCCEEDED'' \<and> \<not> jCancellationRequested j \<and>
     (case current_attempt st j of None \<Rightarrow> False | Some a \<Rightarrow> accepted_receipt j a)"

text \<open>The maps \<open>jobs\<close> and \<open>ops\<close> keep the last row of an ID.\<close>

definition last_job :: "State \<Rightarrow> string \<Rightarrow> WorkerJob option" where
  "last_job st i = find_last (\<lambda>j. mID (jMeta j) = i) (stWorkerJobs st)"

definition last_op :: "State \<Rightarrow> string \<Rightarrow> ExternalOperation option" where
  "last_op st i = find_last (\<lambda>o'. mID (opMeta o') = i) (stOperations st)"

definition valid_job_check :: "State \<Rightarrow> WorkerJob \<Rightarrow> bool" where
  "valid_job_check st j \<longleftrightarrow>
     (if wiCheck (jInputs j) = None then jCheckOperationID j = []
      else (case wiCheck (jInputs j) of None \<Rightarrow> False | Some c \<Rightarrow> valid_worker_check_binding c) \<and>
        jCapability j = ''local_oci_build'' \<and> wiTrust (jInputs j) = ''trusted_source'' \<and>
        wiParameters (jInputs j) = [] \<and> jCheckOperationID j \<noteq> [] \<and>
        (case last_op st (jCheckOperationID j) of
           None \<Rightarrow> False
         | Some o' \<Rightarrow> opKind o' = ''CHECK_PUBLICATION'' \<and>
             (case opCheckPublication o' of None \<Rightarrow> False | Some p \<Rightarrow> cpJobID p = mID (jMeta j))))"

definition valid_links :: "WorkerParts \<Rightarrow> State \<Rightarrow> ExternalOperation \<Rightarrow> CheckPublication \<Rightarrow> WorkerJob \<Rightarrow> bool" where
  "valid_links w st o' p j \<longleftrightarrow>
     jCheckOperationID j = mID (opMeta o') \<and> jOperationID j = cpWorkerOperationID p \<and>
     opParentID o' = cpWorkerOperationID p \<and> mProductID (jMeta j) = mProductID (opMeta o') \<and>
     mFeatureID (jMeta j) = mFeatureID (opMeta o') \<and> jInputHash j = cpInputHash p \<and>
     wkInputHash w (cpInputs p) = cpInputHash p \<and> jInputs j = cpInputs p \<and>
     (case wiCheck (cpInputs p) of None \<Rightarrow> False | Some c \<Rightarrow> valid_worker_check_binding c) \<and>
     (case last_op st (cpWorkerOperationID p) of
        None \<Rightarrow> False
      | Some parent \<Rightarrow> opKind parent = ''WORKER_EXECUTION'' \<and> mProductID (opMeta parent) = mProductID (opMeta o') \<and>
          mID (opMeta o') \<in> set (opChildIDs parent))"

definition valid_identity :: "ExternalOperation \<Rightarrow> CheckPublication \<Rightarrow> WorkerJob \<Rightarrow> bool" where
  "valid_identity o' p j \<longleftrightarrow>
     (let d = cpIdentity p in
      full_sha (criHeadSHA d) \<and> 1 \<le> criRepositoryID d \<and> cpProviderRepositoryID p = criRepositoryID d \<and>
      criRepository d = rbFullName (cpSource p) \<and> criAppID d = cnnAppID (cpConnection p) \<and>
      Some (criAppID d) = map_option wcbExpectedAppID (wiCheck (cpInputs p)) \<and>
      criHeadSHA d = wiSourceSHA (cpInputs p) \<and> Some (criName d) = map_option wcbName (wiCheck (cpInputs p)) \<and>
      criExternalID d = ''rcp:'' @ mID (opMeta o') \<and> mProductID (rbMeta (cpSource p)) = mProductID (opMeta o') \<and>
      rbRepositoryID (cpSource p) = wiRepositoryID (cpInputs p) \<and>
      rbConnectionID (cpSource p) = cnnID (cpConnection p) \<and> 0 \<le> cpObservations p \<and> cpObservations p \<le> 64 \<and>
      Some (cpFinalizeDeadline p) =
        map_option (\<lambda>c. jDeadline j + wcbFinalizeSeconds c * second) (wiCheck (cpInputs p)))"

definition observed_write :: "CheckRunObservation \<Rightarrow> CheckRunWrite" where
  "observed_write v = \<lparr>crwIdentity = crbIdentity v, crwID = crbID v, crwStatus = crbStatus v,
     crwConclusion = crbConclusion v, crwStartedAt = crbStartedAt v, crwCompletedAt = crbCompletedAt v,
     crwOutput = crbOutput v\<rparr>"

definition valid_intent :: "CheckEnv \<Rightarrow> ExternalOperation \<Rightarrow> CheckPublication \<Rightarrow> bool" where
  "valid_intent k o' p =
     (case cpIntent p of
        Some w \<Rightarrow> cpIntentHash p = ckWriteHash k w \<and> crwIdentity w = cpIdentity p \<and> valid_check_payload w \<and>
          safe_check_output (crwStatus w) (crwConclusion w) (crwOutput w) p
      | None \<Rightarrow> cpIntentHash p = [] \<and> opPhase o' = ''CHECK_CREATE_READY'')"

definition valid_observed :: "CheckPublication \<Rightarrow> bool" where
  "valid_observed p =
     (case cpObserved p of
        None \<Rightarrow> True
      | Some v \<Rightarrow> safe_check_output (crbStatus v) (crbConclusion v) (crbOutput v) p \<and> crbFound v \<and> 1 \<le> crbID v \<and>
          crbIdentity v = cpIdentity p \<and> valid_check_payload (observed_write v))"

definition claims_success :: "CheckPublication \<Rightarrow> bool" where
  "claims_success p \<longleftrightarrow> sent_success p \<or>
     (case cpObserved p of None \<Rightarrow> False | Some v \<Rightarrow> crbConclusion v = ''success'')"

definition valid_phase :: "string \<Rightarrow> CheckPublication \<Rightarrow> bool" where
  "valid_phase phase p =
     (if phase = ''CHECK_CREATE_READY'' then cpIntent p = None \<and> cpObserved p = None \<and> cpObservations p = 0
      else if phase = ''CHECK_CREATE_UNCERTAIN'' then
        (case cpIntent p of None \<Rightarrow> False | Some w \<Rightarrow> crwStatus w = ''queued'' \<and> crwID w = 0) \<and> cpObserved p = None
      else if phase = ''CHECK_OBSERVE'' then cpIntent p \<noteq> None \<and> cpObserved p \<noteq> None
      else if phase = ''CHECK_UPDATE_UNCERTAIN'' then
        (case (cpIntent p, cpObserved p) of (Some w, Some v) \<Rightarrow> crwID w = crbID v | _ \<Rightarrow> False)
      else False)"

definition valid_outcome :: "CheckPublication \<Rightarrow> bool" where
  "valid_outcome p =
     (case (cpObserved p, cpIntent p) of
        (Some v, Some w) \<Rightarrow> crbStatus v = ''completed'' \<and> crwStatus w = ''completed'' \<and>
          crbConclusion v = crwConclusion w \<and> crbOutput v = crwOutput w \<and> crbStartedAt v = crwStartedAt w \<and>
          crbCompletedAt v = crwCompletedAt w
      | _ \<Rightarrow> False)"

definition valid_publication :: "CheckEnv \<Rightarrow> WorkerParts \<Rightarrow> State \<Rightarrow> ExternalOperation \<Rightarrow> bool" where
  "valid_publication k w st o' =
     (case opCheckPublication o' of
        None \<Rightarrow> opKind o' \<noteq> ''CHECK_PUBLICATION''
      | Some p \<Rightarrow> opKind o' = ''CHECK_PUBLICATION'' \<and>
          (case last_job st (cpJobID p) of
             None \<Rightarrow> False
           | Some j \<Rightarrow> valid_links w st o' p j \<and> valid_identity o' p j \<and>
               (claims_success p \<longrightarrow> check_success_provenance st j)) \<and>
          valid_intent k o' p \<and> valid_observed p \<and> valid_phase (opPhase o') p \<and>
          (opStatus o' = ''SUCCEEDED'' \<longrightarrow> valid_outcome p))"

definition valid_worker_checks :: "CheckEnv \<Rightarrow> WorkerParts \<Rightarrow> State \<Rightarrow> bool" where
  "valid_worker_checks k w st \<longleftrightarrow>
     list_all (valid_job_check st) (stWorkerJobs st) \<and> list_all (valid_publication k w st) (stOperations st)"

end
