(* ===== verification/CheckValidity.thy ===== *)
theory CheckValidity
  imports Checks
begin

text \<open>
  What the validation of check publications depends on, and that the recovery of a job and a write
  of one operation keep it. The queue's interface \<open>check_queue\<close> is interpreted here on the code's
  \<open>queueWorkerCheck\<close>.
\<close>

section \<open>The queue of a check\<close>

definition with_checks :: "CheckEnv \<Rightarrow> time \<Rightarrow> string \<Rightarrow> WorkerParts \<Rightarrow> WorkerParts" where
  "with_checks k now i w = w\<lparr>wkQueueCheck := queue_worker_check k w now i,
     wkCheckAuthority := (\<lambda>st o'. check_authority k w st o' False), wkCheckReady := check_initial_ready,
     wkManaged := managed_worker_allowed k, wkOrigin := native_worker_origin k\<rparr>"

lemma add_check_child_links: "check_linked st (add_check_child n child st)"
proof -
  have "\<exists>i. job_at (add_check_child n child st) m = (job_at st m)\<lparr>jCheckOperationID := i\<rparr>"
    if "m < length (stWorkerJobs st)" for m
  proof (cases "m = n")
    case True
    then show ?thesis
      using that by (auto simp: add_check_child_def Let_def job_at_def set_job_def)
  next
    case False
    then have "job_at (add_check_child n child st) m = (job_at st m)\<lparr>jCheckOperationID := jCheckOperationID (job_at st m)\<rparr>"
      by (simp add: add_check_child_def Let_def job_at_def set_job_def)
    then show ?thesis by blast
  qed
  then show ?thesis by (simp add: check_linked_def add_check_child_def Let_def set_job_def)
qed

lemma check_linked_refl: "check_linked st st"
proof -
  have "j = j\<lparr>jCheckOperationID := jCheckOperationID j\<rparr>" for j :: WorkerJob by simp
  then show ?thesis unfolding check_linked_def by blast
qed

lemma queue_worker_check_links:
  "queue_worker_check k w now i st j = Inr t \<Longrightarrow> check_linked st t"
  using add_check_child_links check_linked_refl
  by (auto simp: queue_worker_check_def Let_def split: option.splits sum.splits if_splits prod.splits)

interpretation checks: check_queue "with_checks k now i w" for k now i w
  by unfold_locales (simp add: with_checks_def queue_worker_check_links)

section \<open>What validation reads\<close>

definition op_link :: "ExternalOperation \<Rightarrow> string \<times> string \<times> string \<times> string list \<times> string option" where
  "op_link o' = (mID (opMeta o'), opKind o', mProductID (opMeta o'), opChildIDs o', map_option cpJobID (opCheckPublication o'))"

definition job_core :: "WorkerJob \<Rightarrow> string \<times> string \<times> string \<times> string \<times> string \<times> WorkerInputs \<times> string \<times> time \<times> string" where
  "job_core j = (mID (jMeta j), mProductID (jMeta j), mFeatureID (jMeta j), jCheckOperationID j, jOperationID j,
     jInputs j, jInputHash j, jDeadline j, jCapability j)"

lemma job_core_fields:
  assumes e: "job_core j = job_core k"
  shows "mID (jMeta j) = mID (jMeta k)" "mProductID (jMeta j) = mProductID (jMeta k)"
    "mFeatureID (jMeta j) = mFeatureID (jMeta k)" "jCheckOperationID j = jCheckOperationID k"
    "jOperationID j = jOperationID k" "jInputs j = jInputs k" "jInputHash j = jInputHash k"
    "jDeadline j = jDeadline k" "jCapability j = jCapability k"
  using e by (simp_all add: job_core_def)

lemma find_map_core:
  assumes "\<And>x y. g x = g y \<Longrightarrow> P x = P y" and "map g xs = map g ys"
  shows "map_option g (find P xs) = map_option g (find P ys)"
  using assms(2)
proof (induction xs arbitrary: ys)
  case (Cons x xs)
  then obtain z zs where ys: "ys = z # zs" "g x = g z" "map g xs = map g zs" by auto
  have "P x = P z" by (rule assms(1) [OF ys(2)])
  then show ?case using Cons.IH [OF ys(3)] ys(1,2) by simp
qed simp

lemma last_op_link:
  assumes "map op_link (stOperations t) = map op_link (stOperations st)"
  shows "map_option op_link (last_op t i) = map_option op_link (last_op st i)"
  unfolding last_op_def find_last_def
proof (rule find_map_core [rotated])
  show "map op_link (rev (stOperations t)) = map op_link (rev (stOperations st))"
    by (simp only: rev_map [symmetric] assms)
qed (simp add: op_link_def)

lemma last_job_core:
  assumes "map job_core (stWorkerJobs t) = map job_core (stWorkerJobs st)"
  shows "map_option job_core (last_job t i) = map_option job_core (last_job st i)"
  unfolding last_job_def find_last_def
proof (rule find_map_core [rotated])
  show "map job_core (rev (stWorkerJobs t)) = map job_core (rev (stWorkerJobs st))"
    by (simp only: rev_map [symmetric] assms)
qed (simp add: job_core_def)

lemma check_child_read:
  "(case last_op st i of None \<Rightarrow> False | Some o' \<Rightarrow> opKind o' = x \<and>
      (case opCheckPublication o' of None \<Rightarrow> False | Some p \<Rightarrow> cpJobID p = m)) \<longleftrightarrow>
   (\<exists>i' pr cs. map_option op_link (last_op st i) = Some (i', x, pr, cs, Some m))"
  by (auto simp: op_link_def split: option.splits)

lemma check_parent_read:
  "(case last_op st i of None \<Rightarrow> False | Some o' \<Rightarrow> opKind o' = x \<and> mProductID (opMeta o') = pr \<and>
      c \<in> set (opChildIDs o')) \<longleftrightarrow>
   (\<exists>i' cs jo. map_option op_link (last_op st i) = Some (i', x, pr, cs, jo) \<and> c \<in> set cs)"
  by (auto simp: op_link_def split: option.splits)

lemma valid_job_check_cong:
  assumes "map op_link (stOperations t) = map op_link (stOperations st)" and "job_core j = job_core k"
  shows "valid_job_check t j = valid_job_check st k"
  by (simp only: valid_job_check_def check_child_read last_op_link [OF assms(1)] job_core_fields [OF assms(2)])

lemma valid_links_cong:
  assumes "map op_link (stOperations t) = map op_link (stOperations st)" and "job_core j = job_core k"
    and "op_link q = op_link o'" "opParentID q = opParentID o'" "mFeatureID (opMeta q) = mFeatureID (opMeta o')"
  shows "valid_links w t q p j = valid_links w st o' p k"
proof -
  have "mID (opMeta q) = mID (opMeta o')" "mProductID (opMeta q) = mProductID (opMeta o')"
    using assms(3) by (simp_all add: op_link_def)
  then show ?thesis
    by (simp only: valid_links_def check_parent_read last_op_link [OF assms(1)] job_core_fields [OF assms(2)] assms(4,5))
qed

lemma valid_identity_cong:
  "job_core j = job_core k \<Longrightarrow> valid_identity o' p j = valid_identity o' p k"
  by (simp add: valid_identity_def job_core_def)

text \<open>An operation read through the fields its own validation uses.\<close>

definition op_view :: "ExternalOperation \<Rightarrow>
    (string \<times> string \<times> string \<times> string list \<times> string option) \<times> string \<times> string \<times> string \<times> CheckPublication option" where
  "op_view o' = (op_link o', opParentID o', mFeatureID (opMeta o'), opPhase o', opCheckPublication o')"

definition kept_op :: "ExternalOperation \<Rightarrow> ExternalOperation \<Rightarrow> bool" where
  "kept_op o' q \<longleftrightarrow> op_view q = op_view o' \<and> (opStatus q = ''SUCCEEDED'' \<longrightarrow> opStatus o' = ''SUCCEEDED'')"

definition provenance_kept :: "State \<Rightarrow> State \<Rightarrow> bool" where
  "provenance_kept st t \<longleftrightarrow>
     (\<forall>i j. last_job st i = Some j \<longrightarrow> check_success_provenance st j \<longrightarrow>
        (\<exists>k. last_job t i = Some k \<and> check_success_provenance t k))"

lemma valid_publication_kept:
  assumes links: "map op_link (stOperations t) = map op_link (stOperations st)"
    and core: "map job_core (stWorkerJobs t) = map job_core (stWorkerJobs st)"
    and prov: "provenance_kept st t" and o': "kept_op o' q" and valid: "valid_publication k w st o'"
  shows "valid_publication k w t q"
proof -
  have v: "opCheckPublication q = opCheckPublication o'" "opPhase q = opPhase o'" "opParentID q = opParentID o'"
      "opKind q = opKind o'" "mID (opMeta q) = mID (opMeta o')" "mProductID (opMeta q) = mProductID (opMeta o')"
      "mFeatureID (opMeta q) = mFeatureID (opMeta o')"
    using o' by (auto simp: kept_op_def op_view_def op_link_def)
  show ?thesis
  proof (cases "opCheckPublication o'")
    case None
    then show ?thesis using valid v by (simp add: valid_publication_def)
  next
    case (Some p)
    then obtain j where j: "last_job st (cpJobID p) = Some j" "valid_links w st o' p j" "valid_identity o' p j"
        "claims_success p \<longrightarrow> check_success_provenance st j"
      using valid by (auto simp: valid_publication_def split: option.splits)
    obtain k' where k: "last_job t (cpJobID p) = Some k'" "job_core k' = job_core j"
      using last_job_core [OF core, of "cpJobID p"] j(1) by auto
    have "valid_links w t q p k'"
      using j(2) valid_links_cong [OF links k(2), of q o' w p] v o' by (simp add: kept_op_def op_view_def)
    moreover have "valid_identity q p k'" using valid_identity_cong [OF k(2), of q p] j(3) v by (simp add: valid_identity_def)
    moreover have "claims_success p \<longrightarrow> check_success_provenance t k'"
      using prov j(1,4) k(1) unfolding provenance_kept_def by fastforce
    moreover have "valid_intent k q p" "valid_observed p" "valid_phase (opPhase q) p" "opKind q = ''CHECK_PUBLICATION''"
      using valid Some v by (simp_all add: valid_publication_def valid_intent_def split: option.splits)
    moreover have "opStatus q = ''SUCCEEDED'' \<longrightarrow> valid_outcome p"
      using valid Some o' by (simp add: valid_publication_def kept_op_def)
    ultimately show ?thesis using k(1) v Some by (simp add: valid_publication_def)
  qed
qed

lemma list_all2_links: "list_all2 kept_op xs ys \<Longrightarrow> map op_link ys = map op_link xs"
  by (induction rule: list_all2_induct) (simp_all add: kept_op_def op_view_def)

theorem valid_checks_kept:
  assumes "valid_worker_checks k w st" and ops: "list_all2 kept_op (stOperations st) (stOperations t)"
    and core: "map job_core (stWorkerJobs t) = map job_core (stWorkerJobs st)" and prov: "provenance_kept st t"
  shows "valid_worker_checks k w t"
proof -
  note links = list_all2_links [OF ops]
  have "valid_job_check t j" if "j \<in> set (stWorkerJobs t)" for j
  proof -
    have "job_core j \<in> set (map job_core (stWorkerJobs st))" using that core [symmetric] by simp
    then obtain k where "k \<in> set (stWorkerJobs st)" "job_core j = job_core k" by auto
    then show ?thesis
      using assms(1) valid_job_check_cong [OF links] by (simp add: valid_worker_checks_def list_all_iff)
  qed
  moreover have "valid_publication k w t (stOperations t ! n)" if "n < length (stOperations t)" for n
  proof (rule valid_publication_kept [OF links core prov])
    show "kept_op (stOperations st ! n) (stOperations t ! n)"
      using ops list_all2_lengthD [OF ops] that by (simp add: list_all2_nthD)
    show "valid_publication k w st (stOperations st ! n)"
      using assms(1) that list_all2_lengthD [OF ops] by (simp add: valid_worker_checks_def list_all_length)
  qed
  ultimately show ?thesis by (simp add: valid_worker_checks_def list_all_iff all_set_conv_all_nth)
qed

end
