(* ===== verification/CheckSteps.thy ===== *)
theory CheckSteps
  imports CheckValidity
begin

text \<open>
  The two transactions of a check tick, taken apart: what each changes of the state, the ways the
  first one can end and what the second one can write.
\<close>

section \<open>Frames\<close>

named_theorems check_frames

lemma set_op_frame [check_frames]:
  "stWorkerJobs (set_op n o' st) = stWorkerJobs st" "stWorkerAttempts (set_op n o' st) = stWorkerAttempts st"
  "length (stOperations (set_op n o' st)) = length (stOperations st)"
  "m \<noteq> n \<Longrightarrow> op_at (set_op n o' st) m = op_at st m"
  "n < length (stOperations st) \<Longrightarrow> op_at (set_op n o' st) n = o'"
  by (simp_all add: set_op_def op_at_def)

lemma check_step_frame [check_frames]:
  "stWorkerJobs (check_step x n d b st) = stWorkerJobs st"
  "stWorkerAttempts (check_step x n d b st) = stWorkerAttempts st"
  "length (stOperations (check_step x n d b st)) = length (stOperations st)"
  "m \<noteq> n \<Longrightarrow> op_at (check_step x n d b st) m = op_at st m"
  by (simp_all add: check_step_def Let_def set_op_def op_at_def)

lemma check_fail_frame [check_frames]:
  "stWorkerJobs (check_fail x n r d st) = stWorkerJobs st"
  "stWorkerAttempts (check_fail x n r d st) = stWorkerAttempts st"
  "length (stOperations (check_fail x n r d st)) = length (stOperations st)"
  "m \<noteq> n \<Longrightarrow> op_at (check_fail x n r d st) m = op_at st m"
  by (simp_all add: check_fail_def check_frames)

text \<open>The row a step leaves behind, read field by field.\<close>

lemma check_step_op:
  assumes "n < length (stOperations st)"
  shows "op_link (op_at (check_step x n d b st) n) = op_link (op_at st n)"
    "opParentID (op_at (check_step x n d b st) n) = opParentID (op_at st n)"
    "mFeatureID (opMeta (op_at (check_step x n d b st) n)) = mFeatureID (opMeta (op_at st n))"
    "opPhase (op_at (check_step x n d b st) n) = opPhase (op_at st n)"
    "opStatus (op_at (check_step x n d b st) n) = opStatus (op_at st n)"
    "opCheckPublication (op_at (check_step x n d b st) n) = opCheckPublication (op_at st n)"
    "opError (op_at (check_step x n d b st) n) = opError (op_at st n)"
    "opLeaseOwner (op_at (check_step x n d b st) n) = []"
  using assms by (simp_all add: check_step_def Let_def set_op_def op_at_def op_link_def)

lemma check_fail_op:
  assumes "n < length (stOperations st)"
  shows "op_view (op_at (check_fail x n r d st) n) = op_view (op_at st n)"
    "opStatus (op_at (check_fail x n r d st) n) = ''FAILED''"
    "opError (op_at (check_fail x n r d st) n) = r"
    "opLeaseOwner (op_at (check_fail x n r d st) n) = []"
    "opCheckPublication (op_at (check_fail x n r d st) n) = opCheckPublication (op_at st n)"
    "opPhase (op_at (check_fail x n r d st) n) = opPhase (op_at st n)"
  using assms
  by (simp_all add: check_fail_def check_step_def Let_def set_op_def op_at_def op_view_def op_link_def)

lemma leased_operation_bound:
  assumes "leased_operation x i token st = Inr n"
  shows "n < length (stOperations st) \<and> mID (opMeta (op_at st n)) = i \<and> opLeaseOwner (op_at st n) = token \<and>
    kxLease x < opLeaseUntil (op_at st n)"
proof -
  have "op_index st i = Some n" using assms by (auto simp: leased_operation_def split: option.splits if_splits)
  then have f: "find (\<lambda>n. mID (opMeta (stOperations st ! n)) = i) [0..<length (stOperations st)] = Some n"
    by (simp add: op_index_def)
  show ?thesis
    using find_Some_in [OF f] find_Some_prop [OF f] assms
    by (auto simp: leased_operation_def op_at_def split: option.splits if_splits)
qed

section \<open>The first transaction\<close>

lemma isl_unit: "\<not> isl (r :: unit result) \<longleftrightarrow> r = Inr ()"
  by (cases r) auto

definition recovered :: "CheckCtx \<Rightarrow> CheckPublication \<Rightarrow> State \<Rightarrow> State" where
  "recovered x p st =
     (case worker_job st (cpJobID p) of
        None \<Rightarrow> st
      | Some m \<Rightarrow> recover_worker (kxWorker x) (wxNow (kxWorker x)) m st)"

lemma desired_check_state: "snd (desired_check k (kxWorker x) st p) = recovered x p st"
  by (simp add: desired_check_def recovered_def Let_def split: option.splits)

definition desired_ok :: "CheckEnv \<Rightarrow> WorkerParts \<Rightarrow> CheckCtx \<Rightarrow> nat \<Rightarrow> State \<Rightarrow> CheckPublication \<Rightarrow> CheckRunWrite \<Rightarrow> bool" where
  "desired_ok k w x n st p d \<longleftrightarrow>
     opCheckPublication (op_at st n) = Some p \<and> wxNow (kxWorker x) < cpFinalizeDeadline p \<and>
     cpObservations p < observation_budget \<and> check_authority k w st (Some (op_at st n)) False = Inr () \<and>
     desired_check k (kxWorker x) st p = (Inr d, recovered x p st) \<and>
     (crwConclusion d = ''success'' \<longrightarrow>
        check_authority k w (recovered x p st) (Some (op_at (recovered x p st) n)) True = Inr ())"

lemma check_prepare_cases:
  assumes "check_prepare k w (x, i, token) st = Inr (out, t)"
  obtains (early) n reason detail where "leased_operation x i token st = Inr n" "out = None"
      "t = check_fail x n reason detail st"
    | (late) n p reason where "leased_operation x i token st = Inr n" "out = None"
      "opCheckPublication (op_at st n) = Some p"
      "t = check_fail x n reason reason (recovered x p st)"
    | (moved) n p d where "leased_operation x i token st = Inr n" "ckProvider k" "desired_ok k w x n st p d"
      "check_moved k x n p d (recovered x p st) = (out, t)"
proof -
  from assms obtain n where n: "leased_operation x i token st = Inr n"
    by (auto simp: check_prepare_def split: sum.splits)
  note c = assms [unfolded check_prepare_def prod.case n sum.case Let_def]
  show ?thesis
  proof (cases "ckProvider k")
    case False
    then show ?thesis using c n early by (auto simp: provider_unavailable_def)
  next
    case prov: True
    show ?thesis
    proof (cases "opCheckPublication (op_at st n)")
      case None
      then show ?thesis using c n prov early by auto
    next
      case (Some p)
      note c = c [simplified Some prov option.case, simplified]
      show ?thesis
      proof (cases "wxNow (kxWorker x) < cpFinalizeDeadline p \<and> cpObservations p < observation_budget")
        case False
        then have "t = check_fail x n budget_reason budget_reason st" "out = None" using c by (auto split: if_splits)
        then show ?thesis using n early by blast
      next
        case b: True
        show ?thesis
        proof (cases "check_authority k w st (Some (op_at st n)) False")
          case (Inl e)
          then show ?thesis using c b n early by (auto split: if_splits)
        next
          case (Inr u)
          then have a: "check_authority k w st (Some (op_at st n)) False = Inr ()" by simp
          define r where "r = recovered x p st"
          obtain d where d: "desired_check k (kxWorker x) st p = (d, r)"
            using desired_check_state [of k x st p] unfolding r_def by (metis surjective_pairing)
          have c: "(case d of
               Inl e \<Rightarrow> (if is_panic e then Inl e
                  else Inr (None, check_fail x n ''CHECK_RESULT_INVALID'' ''CHECK_RESULT_INVALID'' r))
             | Inr d \<Rightarrow>
                 (let again = check_authority k w r (Some (op_at r n)) True in
                  if crwConclusion d = ''success'' \<and> panics again then Inl (projl again)
                  else if crwConclusion d = ''success'' \<and> isl again
                  then Inr (None, check_fail x n ''CHECK_SUCCESS_AUTHORITY_CHANGED'' ''CHECK_SUCCESS_AUTHORITY_CHANGED'' r)
                  else Inr (check_moved k x n p d r))) = Inr (out, t)"
            unfolding Let_def using c b a d by (simp add: panics_def)
          show ?thesis
          proof (cases d)
            case (Inl e)
            then show ?thesis using c late [OF n _ Some] by (auto simp: r_def split: if_splits)
          next
            case (Inr v)
            then show ?thesis
              using c late [OF n _ Some] moved [OF n prov, of p v] Some b a d
              by (auto simp: r_def desired_ok_def Let_def isl_unit split: if_splits)
          qed
        qed
      qed
    qed
  qed
qed

text \<open>The move itself: the end of the check, a wait, or an intent persisted before its call.\<close>

definition persisted :: "CheckCtx \<Rightarrow> nat \<Rightarrow> CheckPublication \<Rightarrow> string \<Rightarrow> State \<Rightarrow> State" where
  "persisted x n p phase st = snd (check_intent x n p (set_publication n p (set_phase n phase st)))"

lemma check_moved_cases:
  assumes "check_moved k x n p d st = (out, t)"
  obtains (stop) reason where "out = None" "t = check_fail x n reason reason st"
    | (wait) "out = None" "check_move k (opPhase (op_at st n)) p d = Wait"
      "t = check_step x n ''Check state observed; waiting for accepted worker result'' False (set_status n ''RUNNING'' st)"
    | (broken) q phase action where "check_move k (opPhase (op_at st n)) p d = Go q phase action" "out = None"
      "\<not> intent_valid k q"
      "t = check_fail x n ''CHECK_INTENT_INVALID'' ''CHECK_INTENT_INVALID'' (set_publication n q (set_phase n phase st))"
    | (send) q phase action where "check_move k (opPhase (op_at st n)) p d = Go q phase action" "intent_valid k q"
      "out = Some (action, q\<lparr>cpObservations := cpObservations q + 1\<rparr>)" "t = persisted x n q phase st"
proof (cases "check_move k (opPhase (op_at st n)) p d")
  case (Go q phase action)
  then show ?thesis
    using assms broken [OF Go] send [OF Go]
    by (auto simp: check_moved_def persisted_def check_intent_def Let_def split: if_splits)
qed (use assms stop wait in \<open>auto simp: check_moved_def\<close>)

text \<open>A move that is sent keeps the identity of the publication; its intent is the old one, the first
  registration or the write that is wanted now.\<close>

lemma check_move_go:
  assumes "check_move k phase p d = Go q phase' action"
  shows "(phase = ''CHECK_CREATE_READY'' \<and> phase' = ''CHECK_CREATE_UNCERTAIN'' \<and> action = Create \<and>
          q = with_intent k (initial_write p d) p) \<or>
     (phase = ''CHECK_CREATE_UNCERTAIN'' \<and> phase' = phase \<and> action = Find \<and> q = p) \<or>
     (phase = ''CHECK_UPDATE_UNCERTAIN'' \<and> phase' = phase \<and> action = Read \<and> q = p) \<or>
     (phase = ''CHECK_OBSERVE'' \<and> phase' = ''CHECK_UPDATE_UNCERTAIN'' \<and> action = Update \<and> q = with_intent k d p \<and>
        (\<exists>v. cpObserved p = Some v \<and> crbStatus v \<noteq> ''completed'' \<and> \<not> check_observation_matches v d))"
  using assms by (auto simp: check_move_def split: if_splits option.splits)

lemma persisted_frame [check_frames]:
  "stWorkerJobs (persisted x n p phase st) = stWorkerJobs st"
  "stWorkerAttempts (persisted x n p phase st) = stWorkerAttempts st"
  "length (stOperations (persisted x n p phase st)) = length (stOperations st)"
  "m \<noteq> n \<Longrightarrow> op_at (persisted x n p phase st) m = op_at st m"
  by (simp_all add: persisted_def check_intent_def Let_def set_publication_def set_phase_def set_op_def op_at_def)

lemma persisted_op:
  assumes "n < length (stOperations st)"
  shows "opPhase (op_at (persisted x n p phase st) n) = phase"
    "opCheckPublication (op_at (persisted x n p phase st) n) = Some (p\<lparr>cpObservations := cpObservations p + 1\<rparr>)"
    "opKind (op_at (persisted x n p phase st) n) = opKind (op_at st n)"
    "opParentID (op_at (persisted x n p phase st) n) = opParentID (op_at st n)"
    "opChildIDs (op_at (persisted x n p phase st) n) = opChildIDs (op_at st n)"
    "opStatus (op_at (persisted x n p phase st) n) = opStatus (op_at st n)"
    "mID (opMeta (op_at (persisted x n p phase st) n)) = mID (opMeta (op_at st n))"
    "mProductID (opMeta (op_at (persisted x n p phase st) n)) = mProductID (opMeta (op_at st n))"
    "mFeatureID (opMeta (op_at (persisted x n p phase st) n)) = mFeatureID (opMeta (op_at st n))"
  using assms
  by (simp_all add: persisted_def check_intent_def Let_def set_publication_def set_phase_def set_op_def op_at_def)

section \<open>The second transaction\<close>

lemma check_commit_cases:
  assumes "check_commit k w (x, i, token, sent, answer) st = Inr (u, t)"
  obtains (fail) n reason where "leased_operation x i token st = Inr n" "t = check_fail x n reason reason st"
    | (uncertain) n p where "leased_operation x i token st = Inr n" "opCheckPublication (op_at st n) = Some p"
      "t = check_uncertain x n p st"
    | (observed) n p v where "leased_operation x i token st = Inr n" "opCheckPublication (op_at st n) = Some p"
      "cpIntentHash p = cpIntentHash sent" "cpObservations p = cpObservations sent"
      "check_authority k w st (Some (op_at st n)) (sent_success sent) = Inr ()"
      "wxNow (kxWorker x) < cpFinalizeDeadline p"
      "answer = Inr v" "\<not> wrong_identity answer p" "answer_matches answer p = Some v"
      "t = check_observed x n p v st"
proof -
  from assms obtain n p where n: "leased_operation x i token st = Inr n" "opCheckPublication (op_at st n) = Some p"
    by (auto simp: check_commit_def split: sum.splits option.splits)
  note c = assms [unfolded check_commit_def prod.case n sum.case option.case Let_def]
  show ?thesis
  proof (cases "cpIntentHash p = cpIntentHash sent \<and> cpObservations p = cpObservations sent \<and>
      check_authority k w st (Some (op_at st n)) (sent_success sent) = Inr () \<and>
      wxNow (kxWorker x) < cpFinalizeDeadline p \<and> \<not> wrong_identity answer p")
    case False
    then show ?thesis using c fail [OF n(1)] by (auto simp: isl_unit split: if_splits)
  next
    case True
    show ?thesis
    proof (cases "answer_matches answer p")
      case None
      then show ?thesis using c True uncertain [OF n] by (simp add: panics_def)
    next
      case (Some v)
      then have "answer = Inr v" by (auto simp: answer_matches_def split: sum.splits option.splits if_splits)
      then show ?thesis using c True Some observed [OF n, of v] by (simp add: panics_def)
    qed
  qed
qed

lemma check_outcome_frames [check_frames]:
  "stWorkerJobs (check_uncertain x n p st) = stWorkerJobs st"
  "stWorkerAttempts (check_uncertain x n p st) = stWorkerAttempts st"
  "stWorkerJobs (check_observed x n p v st) = stWorkerJobs st"
  "stWorkerAttempts (check_observed x n p v st) = stWorkerAttempts st"
  by (simp_all add: check_uncertain_def check_observed_def set_status_def set_phase_def set_publication_def
      Let_def check_frames)

end
