(* ===== verification/Scheduler.thy ===== *)
theory Scheduler
  imports Checks Releases
begin

text \<open>
  The first transaction of \<open>Tick\<close> (\<open>internal/application/worker.go\<close>): the choice of the next durable
  operation and its lease. \<open>TickParts\<close> says which providers the process was started with.
\<close>

section \<open>The choice\<close>

record TickParts =
  tpProvider :: bool
  tpObservers :: bool
  tpIntelligence :: "time option"

definition operation_priority :: "string \<Rightarrow> int" where
  "operation_priority kind =
     (if kind = ''REFRESH_GIT'' \<or> kind = ''REFRESH_REPOSITORY_GIT'' \<or> kind = ''REFRESH_RUNTIME'' then 10 else 0)"

definition runnable :: "TickParts \<Rightarrow> time \<Rightarrow> ExternalOperation \<Rightarrow> bool" where
  "runnable p now v \<longleftrightarrow>
     \<not> (opKind v = ''WORKER_EXECUTION'' \<or> opKind v = ''REFRESH_REGISTRY_INVENTORY'') \<and>
     \<not> (opKind v = ''INTELLIGENCE'' \<and> tpIntelligence p = None) \<and>
     \<not> (\<not> tpProvider p \<and> opKind v \<noteq> ''REFRESH_RUNTIME'' \<and> opKind v \<noteq> ''INTELLIGENCE'') \<and>
     \<not> (terminal_operation (opStatus v) \<or> now < opNextAttemptAt v \<or> now < opLeaseUntil v)"

text \<open>When a runnable operation replaces the candidate found so far.\<close>

definition preferred :: "ExternalOperation \<Rightarrow> ExternalOperation \<Rightarrow> bool" where
  "preferred v c \<longleftrightarrow>
     operation_priority (opKind v) < operation_priority (opKind c) \<or>
     operation_priority (opKind v) = operation_priority (opKind c) \<and>
       (opNextAttemptAt v < opNextAttemptAt c \<or>
        opNextAttemptAt v = opNextAttemptAt c \<and> mID (opMeta v) < mID (opMeta c))"

fun candidate_from :: "TickParts \<Rightarrow> time \<Rightarrow> (nat \<times> ExternalOperation) option \<Rightarrow> nat \<Rightarrow> ExternalOperation list \<Rightarrow>
    (nat \<times> ExternalOperation) option" where
  "candidate_from p now c n [] = c"
| "candidate_from p now c n (v # vs) =
     candidate_from p now
       (if runnable p now v \<and> (case c of None \<Rightarrow> True | Some (_, w) \<Rightarrow> preferred v w) then Some (n, v) else c)
       (Suc n) vs"

definition candidate :: "TickParts \<Rightarrow> time \<Rightarrow> State \<Rightarrow> nat option" where
  "candidate p now st = map_option fst (candidate_from p now None 0 (stOperations st))"

section \<open>The lease\<close>

definition lease_end :: "TickParts \<Rightarrow> time \<Rightarrow> string \<Rightarrow> time" where
  "lease_end p now kind =
     (if kind = ''REFRESH_RUNTIME'' then now + 10 * minute
      else case (kind = ''INTELLIGENCE'', tpIntelligence p) of
          (True, Some timeout) \<Rightarrow> now + (timeout + 10 * second)
        | _ \<Rightarrow> now + 45 * second)"

definition lease_op :: "TickParts \<Rightarrow> time \<Rightarrow> string \<Rightarrow> ExternalOperation \<Rightarrow> ExternalOperation" where
  "lease_op p now token v =
     v\<lparr>opLeaseOwner := token, opLeaseUntil := lease_end p now (opKind v), opAttempts := opAttempts v + 1,
       opStartedAt := (case opStartedAt v of None \<Rightarrow> Some now | s \<Rightarrow> s), opStatus := ''RUNNING''\<rparr>"

definition lease_operation :: "TickParts \<Rightarrow> time \<times> string \<Rightarrow> State \<Rightarrow> (ExternalOperation option \<times> State) result" where
  "lease_operation p r st =
     (case r of (now, token) \<Rightarrow>
      if \<not> tpProvider p \<and> \<not> tpObservers p \<and> tpIntelligence p = None then Inr (None, st)
      else case candidate p now st of
        None \<Rightarrow> Inr (None, st)
      | Some n \<Rightarrow> (let v = lease_op p now token (op_at st n) in Inr (Some v, set_op n v st)))"

section \<open>The candidate is the least runnable operation\<close>

text \<open>The order of the candidates: priority, next attempt, ID.\<close>

definition before_or_same :: "ExternalOperation \<Rightarrow> ExternalOperation \<Rightarrow> bool" where
  "before_or_same v w \<longleftrightarrow>
     operation_priority (opKind v) < operation_priority (opKind w) \<or>
     operation_priority (opKind v) = operation_priority (opKind w) \<and>
       (opNextAttemptAt v < opNextAttemptAt w \<or>
        opNextAttemptAt v = opNextAttemptAt w \<and> mID (opMeta v) \<le> mID (opMeta w))"

lemma before_or_same_refl [simp]: "before_or_same v v"
  by (simp add: before_or_same_def)

lemma before_or_same_trans: "before_or_same u v \<Longrightarrow> before_or_same v w \<Longrightarrow> before_or_same u w"
  by (auto simp: before_or_same_def)

lemma preferred_before: "preferred v w \<Longrightarrow> before_or_same v w"
  by (auto simp: preferred_def before_or_same_def)

lemma not_preferred: "\<not> preferred v w \<Longrightarrow> before_or_same w v"
  by (auto simp: preferred_def before_or_same_def)

lemma candidate_from_least:
  "candidate_from p now c n vs = Some (m, w) \<Longrightarrow>
     (c = Some (m, w) \<or> n \<le> m \<and> m - n < length vs \<and> vs ! (m - n) = w \<and> runnable p now w) \<and>
     (\<forall>v\<in>set vs. runnable p now v \<longrightarrow> before_or_same w v) \<and>
     (case c of None \<Rightarrow> True | Some (_, u) \<Rightarrow> before_or_same w u)"
proof (induction vs arbitrary: c n)
  case (Cons v vs)
  define d where "d = (if runnable p now v \<and> (case c of None \<Rightarrow> True | Some (_, w) \<Rightarrow> preferred v w) then Some (n, v) else c)"
  have "candidate_from p now d (Suc n) vs = Some (m, w)" using Cons.prems by (simp add: d_def)
  note ih = Cons.IH [OF this]
  have place: "c = Some (m, w) \<or> n \<le> m \<and> m - n < length (v # vs) \<and> (v # vs) ! (m - n) = w \<and> runnable p now w"
  proof (cases "d = Some (m, w)")
    case True
    then show ?thesis by (auto simp: d_def split: if_splits)
  next
    case False
    then have "Suc n \<le> m" "m - Suc n < length vs" "vs ! (m - Suc n) = w" "runnable p now w" using ih by auto
    moreover from this have "m - n = Suc (m - Suc n)" by simp
    ultimately show ?thesis by simp
  qed
  have d: "case d of None \<Rightarrow> True | Some (_, u) \<Rightarrow> before_or_same w u" using ih by blast
  have "before_or_same w v" if "runnable p now v"
    using that d by (cases c) (auto simp: d_def split: if_splits intro: before_or_same_trans dest: not_preferred)
  moreover have "case c of None \<Rightarrow> True | Some (_, u) \<Rightarrow> before_or_same w u"
    using d by (cases c) (auto simp: d_def split: if_splits intro: before_or_same_trans preferred_before)
  ultimately show ?case using place ih by auto
qed simp

lemma candidate_from_none:
  "candidate_from p now c n vs = None \<longleftrightarrow> c = None \<and> (\<forall>v\<in>set vs. \<not> runnable p now v)"
  by (induction vs arbitrary: c n) (auto split: option.splits)

lemma candidate_least:
  assumes "candidate p now st = Some n"
  shows "n < length (stOperations st) \<and> runnable p now (op_at st n) \<and>
    (\<forall>v\<in>set (stOperations st). runnable p now v \<longrightarrow> before_or_same (op_at st n) v)"
proof -
  obtain w where c: "candidate_from p now None 0 (stOperations st) = Some (n, w)"
    using assms by (auto simp: candidate_def)
  have "n < length (stOperations st)" "op_at st n = w" "runnable p now w"
    using candidate_from_least [OF c] by (simp_all add: op_at_def)
  then show ?thesis using candidate_from_least [OF c] by blast
qed

lemma candidate_none: "candidate p now st = None \<longleftrightarrow> (\<forall>v\<in>set (stOperations st). \<not> runnable p now v)"
  by (simp add: candidate_def candidate_from_none)

end
