(* ===== verification/WorkerService.thy ===== *)
theory WorkerService
  imports CheckSteps Scheduler WorkerConfigProperties
begin

text \<open>
  The operations of the worker protocol and of the check tick as one transactional interface over
  the shared state, its invariant, and the properties of any run of them.
\<close>

section \<open>Requests\<close>

text \<open>The transactions of the worker protocol and of the check ticks: a command of a user (with the ID and the
  clock of the check operation it may add), a claim, a mutation of a lease, the transaction of \<open>Tick\<close>
  that leases the next operation, and the two transactions of a check tick. The other transactions that
  write jobs are not among them: those of native deliveries and publications
  (\<open>internal/application/native_delivery.go\<close>, \<open>native_publication.go\<close>), which queue, report and reconcile
  publication jobs.\<close>

datatype worker_request =
    UserCommand WorkerCtx Command string
  | ClaimWork time WorkerCtx Principal WorkerClaim
  | MutateLease WorkerCtx Principal WorkerAttemptRequest mutation
  | PrepareCheck CheckCtx string string
  | CommitCheck CheckCtx string string CheckPublication "CheckRunObservation result"
  | LeaseTick TickParts time string

definition worker_parts :: "CheckEnv \<Rightarrow> WorkerParts \<Rightarrow> worker_request \<Rightarrow> WorkerParts" where
  "worker_parts k w r =
     (case r of
        UserCommand x c i \<Rightarrow> with_checks k (wxNow x) i w
      | ClaimWork prior x p v \<Rightarrow> with_checks k (wxNow x) [] w
      | MutateLease x p req m \<Rightarrow> with_checks k (wxNow x) [] w
      | _ \<Rightarrow> w)"

definition forget :: "('o \<times> State) result \<Rightarrow> (unit \<times> State) result" where
  "forget r = (case r of Inl e \<Rightarrow> Inl e | Inr (out, st) \<Rightarrow> Inr ((), st))"

definition serve :: "CheckEnv \<Rightarrow> WorkerParts \<Rightarrow> worker_request \<Rightarrow> State \<Rightarrow> (unit \<times> State) result" where
  "serve k w r st =
     (let w' = worker_parts k w r in
      case r of
        UserCommand x c i \<Rightarrow> forget (execute_worker_command w' (x, c) st)
      | ClaimWork prior x p v \<Rightarrow> forget (claim_worker w' prior (x, p, v) st)
      | MutateLease x p req m \<Rightarrow> forget (mutate_worker w' (x, p, req, m) st)
      | PrepareCheck x i token \<Rightarrow> forget (check_prepare k w (x, i, token) st)
      | CommitCheck x i token sent answer \<Rightarrow> forget (check_commit k w (x, i, token, sent, answer) st)
      | LeaseTick p now token \<Rightarrow> forget (lease_operation p (now, token) st))"

text \<open>\<open>newID\<close> draws 128 random bits: the ID of a new job is not one in use.\<close>

definition fresh_ids :: "worker_request \<Rightarrow> State \<Rightarrow> bool" where
  "fresh_ids r st = (case r of UserCommand x c i \<Rightarrow> wxID x \<notin> set (job_ids st) | _ \<Rightarrow> True)"

lemma forget_Inr: "forget r = Inr (u, t) \<longleftrightarrow> (\<exists>out. r = Inr (out, t))"
  by (auto simp: forget_def split: sum.splits prod.splits)

section \<open>Jobs and attempts across a request\<close>

lemma recovered_rows: "rows_kept st (recovered x p st)"
  by (auto simp: recovered_def intro: recover_worker_rows split: option.splits dest: worker_job_bound)

lemma rows_kept_frame:
  "stWorkerJobs t = stWorkerJobs s \<Longrightarrow> stWorkerAttempts t = stWorkerAttempts s \<Longrightarrow> rows_kept st s \<Longrightarrow> rows_kept st t"
  by (simp add: rows_kept_def jobs_path_def job_at_def)

lemma check_moved_rows:
  assumes "check_moved k x n p d st = (out, t)"
  shows "stWorkerJobs t = stWorkerJobs st \<and> stWorkerAttempts t = stWorkerAttempts st"
  using assms
  by (cases rule: check_moved_cases) (simp_all add: check_frames set_status_def set_publication_def set_phase_def)

lemma check_prepare_rows:
  assumes "check_prepare k w (x, i, token) st = Inr (out, t)"
  shows "rows_kept st t"
  using assms
proof (cases rule: check_prepare_cases)
  case (early n reason detail)
  then show ?thesis using rows_kept_frame [of t st st] by (simp add: check_frames)
next
  case (late n p reason)
  then show ?thesis using rows_kept_frame [OF _ _ recovered_rows, of t x p st] by (simp add: check_frames)
next
  case (moved n p d)
  then show ?thesis using check_moved_rows [OF moved(4)] rows_kept_frame [OF _ _ recovered_rows, of t x p st] by simp
qed

lemma check_commit_rows:
  assumes "check_commit k w (x, i, token, sent, answer) st = Inr (u, t)"
  shows "rows_kept st t"
proof -
  have "stWorkerJobs t = stWorkerJobs st \<and> stWorkerAttempts t = stWorkerAttempts st"
    using assms by (cases rule: check_commit_cases) (simp_all add: check_frames)
  then show ?thesis using rows_kept_frame [of t st st] by simp
qed

lemma lease_operation_rows:
  assumes "lease_operation p r st = Inr (out, t)"
  shows "rows_kept st t"
proof -
  have "stWorkerJobs t = stWorkerJobs st \<and> stWorkerAttempts t = stWorkerAttempts st"
    using assms by (auto simp: lease_operation_def Let_def check_frames split: prod.splits if_splits option.splits)
  then show ?thesis using rows_kept_frame [of t st st] by simp
qed

lemma execute_worker_command_cases:
  assumes "execute_worker_command (with_checks k now i w) (x, c) st = Inr (out, t)"
  shows "rows_kept st t \<or> queue_appends (wxID x) st t"
proof -
  from assms obtain a where "queue_worker_job (with_checks k now i w) a x c st = Inr (out, t) \<or>
      manage_worker_job x c st = Inr (out, t)"
    by (auto simp: execute_worker_command_def split: option.splits if_splits)
  then show ?thesis
    using checks.queue_worker_job_appends manage_worker_job_rows by fastforce
qed

text \<open>Every request is a step of every job.\<close>

lemma serve_path:
  assumes "serve k w r st = Inr (u, t)"
  shows "jobs_path st t"
proof (cases r)
  case (UserCommand x c i)
  then obtain out where "execute_worker_command (with_checks k (wxNow x) i w) (x, c) st = Inr (out, t)"
    using assms by (auto simp: serve_def worker_parts_def forget_Inr)
  then show ?thesis using execute_worker_command_cases by (fastforce simp: rows_kept_def queue_appends_def)
qed (use assms claim_worker_path mutate_worker_path check_prepare_rows check_commit_rows lease_operation_rows in
    \<open>auto simp: serve_def worker_parts_def forget_Inr rows_kept_def\<close>)

lemmas request_inv = claim_worker_inv mutate_worker_inv
  rows_kept_inv [OF check_prepare_rows] rows_kept_inv [OF check_commit_rows] rows_kept_inv [OF lease_operation_rows]

lemma serve_inv:
  assumes "worker_inv st" and "fresh_ids r st" and "serve k w r st = Inr (u, t)"
  shows "worker_inv t"
proof (cases r)
  case (UserCommand x c i)
  then obtain out where "execute_worker_command (with_checks k (wxNow x) i w) (x, c) st = Inr (out, t)"
    using assms(3) by (auto simp: serve_def worker_parts_def forget_Inr)
  then show ?thesis
    using execute_worker_command_cases rows_kept_inv appends_worker_inv assms(1,2) UserCommand
    by (fastforce simp: fresh_ids_def)
qed (use assms request_inv in \<open>auto simp: serve_def worker_parts_def forget_Inr\<close>)

interpretation service: transactional "serve k w" fresh_ids worker_inv for k w
  by unfold_locales (rule serve_inv)

interpretation steps: transactional "serve k w" "\<lambda>r st. True" "jobs_path s" for k w s
  by unfold_locales (rule jobs_path_trans [OF _ serve_path])

lemma run_ok_True: "run_ok op (\<lambda>r st. True) s rs"
  by (induction rs arbitrary: s) simp_all

lemma run_path: "jobs_path st (run_all (serve k w) st rs)"
  using steps.run_keeps [OF jobs_path_refl run_ok_True] .

end
