(* ===== verification/WorkerLeases.thy ===== *)
theory WorkerLeases
  imports WorkerService
begin

text \<open>
  What a claim hands out and what a mutation requires: the pass over the other jobs leaves a claimed
  job and its attempt alone, a lease that is still live was not recovered, and an attempt keeps its
  identity and its report.
\<close>

section \<open>Other jobs\<close>

lemma worker_audit_other:
  "m \<noteq> n \<Longrightarrow> m < length (stWorkerJobs st) \<Longrightarrow> job_at (worker_audit x now m actor action st) n = job_at st n"
  by (simp add: job_at_audit)

lemma jobs_ok_other:
  assumes "jobs_ok st" and "m < length (stWorkerJobs st)" "n < length (stWorkerJobs st)" "m \<noteq> n"
  shows "mID (jMeta (job_at st m)) \<noteq> mID (jMeta (job_at st n))"
  using assms by (auto simp: jobs_ok_def job_ids_def job_at_def distinct_conv_nth)

definition other_kept :: "nat \<Rightarrow> State \<Rightarrow> State \<Rightarrow> bool" where
  "other_kept n st t \<longleftrightarrow> job_at t n = job_at st n \<and>
     current_attempt t (job_at st n) = current_attempt st (job_at st n)"

lemma other_kept_refl [simp]: "other_kept n st st"
  by (simp add: other_kept_def)

lemma other_kept_trans: "other_kept n r st \<Longrightarrow> other_kept n st t \<Longrightarrow> other_kept n r t"
  by (simp add: other_kept_def)

lemma current_attempt_cong: "stWorkerAttempts t = stWorkerAttempts st \<Longrightarrow> current_attempt t j = current_attempt st j"
  by (simp add: current_attempt_def)

lemma close_attempt_other:
  "mID (jMeta j) \<noteq> mID (jMeta k) \<Longrightarrow> current_attempt (close_attempt j s now st) k = current_attempt st k"
  by (auto simp: current_attempt_def close_attempt_def of_job_def intro!: find_update_first_other)

lemma recover_worker_other:
  assumes "jobs_ok st" and mn: "m < length (stWorkerJobs st)" "n < length (stWorkerJobs st)" "m \<noteq> n"
  shows "other_kept n st (recover_worker x now m st)"
proof -
  define j where "j = (job_at st m)\<lparr>jStatus := recovered_status now (job_at st m)\<rparr>"
  define t where "t = close_attempt (job_at st m) ''EXPIRED'' now (set_job m j st)"
  have "job_at t n = job_at st n" using mn by (simp add: t_def job_at_set)
  moreover have "current_attempt t (job_at st n) = current_attempt st (job_at st n)"
    using jobs_ok_other [OF assms] unfolding t_def
    by (simp add: close_attempt_other current_attempt_cong [OF set_job_attempts])
  ultimately have "other_kept n st (worker_audit x now m a b t)" for a b
    using mn worker_audit_other [of m n t] by (simp add: other_kept_def t_def current_attempt_cong [OF worker_audit_attempts])
  then show ?thesis by (auto simp: recover_worker_def Let_def t_def j_def)
qed

lemma settle_other:
  assumes "m < length (stWorkerJobs st)" "m \<noteq> n"
  shows "other_kept n st (settle x now m s action st)"
proof -
  define t where "t = set_job m ((job_at st m)\<lparr>jStatus := s\<rparr>) st"
  have "job_at t n = job_at st n" using assms by (simp add: t_def job_at_set)
  moreover have "job_at (worker_audit x now m a b t) n = job_at t n" for a b
    by (rule worker_audit_other) (use assms in \<open>simp_all add: t_def\<close>)
  ultimately show ?thesis by (simp add: other_kept_def settle_def t_def current_attempt_def)
qed

lemma recover_worker_jobs_ok: "n < length (stWorkerJobs st) \<Longrightarrow> jobs_ok st \<Longrightarrow> jobs_ok (recover_worker x now n st)"
  using path_jobs_ok [OF recover_worker_path] by simp

text \<open>Passes over other jobs, before and after the claim.\<close>

lemma claim_one_other:
  assumes "claim_one w a x p v m (out, st) = Inr (out, t)" and ok: "jobs_ok st"
    and mn: "m < length (stWorkerJobs st)" "n < length (stWorkerJobs st)" "m \<noteq> n"
  shows "other_kept n st t"
  using assms(1)
proof (cases rule: claim_one_cases)
  case recover
  then show ?thesis using recover_worker_other [OF ok mn] by simp
next
  case (settle s action)
  have "other_kept n (recover_worker x (wxNow x) m st) t"
    unfolding settle(2) by (rule settle_other) (use mn in simp_all)
  then show ?thesis using other_kept_trans [OF recover_worker_other [OF ok mn]] by blast
next
  case grant
  then show ?thesis by (auto simp: grant_def Let_def split: sum.splits)
qed simp

lemma claim_one_some:
  "claim_one w a x p v m (Some l, st) = Inr (out, t) \<Longrightarrow> out = Some l"
  by (auto simp: claim_one_def Let_def split: if_splits)

lemma claim_one_ok:
  "claim_one w a x p v m (out, st) = Inr (out', t) \<Longrightarrow> m < length (stWorkerJobs st) \<Longrightarrow> jobs_ok st \<Longrightarrow>
     jobs_ok t \<and> length (stWorkerJobs t) = length (stWorkerJobs st)"
  using claim_one_path path_jobs_ok by blast

lemma claim_loop_some:
  "claim_loop w a x p v ns (Some l, st) = Inr (out, t) \<Longrightarrow> n \<notin> set ns \<Longrightarrow>
     \<forall>m\<in>set (n # ns). m < length (stWorkerJobs st) \<Longrightarrow> jobs_ok st \<Longrightarrow> out = Some l \<and> other_kept n st t"
proof (induction ns arbitrary: st)
  case (Cons m ns)
  from Cons.prems(1) obtain o1 s where s: "claim_one w a x p v m (Some l, st) = Inr (o1, s)"
      "claim_loop w a x p v ns (o1, s) = Inr (out, t)"
    by (auto split: sum.splits)
  have o1: "o1 = Some l" using claim_one_some [OF s(1)] .
  have "jobs_ok s \<and> length (stWorkerJobs s) = length (stWorkerJobs st)"
    using claim_one_ok [OF s(1)] Cons.prems by simp
  then have "out = Some l \<and> other_kept n s t"
    using Cons.IH [of s] s(2) o1 Cons.prems by simp
  moreover have "other_kept n st s"
    using claim_one_other [of w a x p v m "Some l" st s n] s(1) o1 Cons.prems by simp
  ultimately show ?case using other_kept_trans by blast
qed simp

lemma settle_fields:
  "n < length (stWorkerJobs st) \<Longrightarrow> jFence (job_at (settle x now n s action st) n) = jFence (job_at st n)"
  "n < length (stWorkerJobs st) \<Longrightarrow> same_job (job_at st n) (job_at (settle x now n s action st) n)"
  by (simp_all add: settle_def job_at_audit job_at_set same_job_def touched_def)

section \<open>The lease of a claim\<close>

text \<open>What a pass that grants a lease returns.\<close>

definition leased :: "WorkerParts \<Rightarrow> Authority \<Rightarrow> WorkerCtx \<Rightarrow> Principal \<Rightarrow> WorkerClaim \<Rightarrow> WorkerLease \<Rightarrow> WorkerJob \<Rightarrow> bool" where
  "leased w a x p v l j \<longleftrightarrow>
     mID (jMeta (wlJob l)) = mID (jMeta j) \<and> mProductID (jMeta (wlJob l)) = wcProductID v \<and>
     wiRepositoryID (jInputs (wlJob l)) = wcRepositoryID v \<and> jCapability (wlJob l) = wcCapability v \<and>
     jInputs (wlJob l) = jInputs j \<and> jInputHash (wlJob l) = jInputHash j \<and>
     jStatus (wlJob l) = ''CLAIMED'' \<and> jFence j < jFence (wlJob l) \<and> jFence (wlJob l) = jFence j + 1 \<and>
     wxNow x < jDeadline (wlJob l) \<and> worker_config_matches w (wlJob l) \<and>
     aJobID (wlAttempt l) = mID (jMeta j) \<and> aFence (wlAttempt l) = jFence (wlJob l) \<and>
     aInputHash (wlAttempt l) = jInputHash j \<and> aPrincipal (wlAttempt l) = principal_id p \<and>
     aLeaseUntil (wlAttempt l) = min (wxNow x + lease a) (jDeadline j) \<and> aReport (wlAttempt l) = None"

lemma leased_cong:
  "same_job j k \<Longrightarrow> jFence k = jFence j \<Longrightarrow> leased w a x p v l k \<Longrightarrow> leased w a x p v l j"
  by (auto simp: leased_def same_job_def)

lemma recovered_fields:
  assumes "n < length (stWorkerJobs st)"
  shows "jFence (job_at (recover_worker x now n st) n) = jFence (job_at st n)"
    "same_job (job_at st n) (job_at (recover_worker x now n st) n)"
    "jStatus (job_at (recover_worker x now n st) n) = ''QUEUED'' \<Longrightarrow> now < jDeadline (job_at st n)"
  using assms recover_worker_path [OF assms, of x now] job_path_same
  by (auto simp: recover_worker_def Let_def job_at_audit job_at_set recovered_status_def jobs_path_def
      worker_terminal_def more_attempts_def split: if_splits)

lemma worker_config_matches_cong:
  "mProductID (jMeta j) = mProductID (jMeta k) \<Longrightarrow> jInputs j = jInputs k \<Longrightarrow> jCapability j = jCapability k \<Longrightarrow>
   jInputHash j = jInputHash k \<Longrightarrow> worker_config_matches w j = worker_config_matches w k"
  by (simp only: worker_config_matches_def registry_config_matches_def native_config_matches_def)

lemma grant_lease:
  assumes "grant w a x p (wxNow x) n st = Inr (out, t)" and inv: "worker_inv st"
    and n: "n < length (stWorkerJobs st)" and q: "jStatus (job_at st n) = ''QUEUED''" and more: "more_attempts (job_at st n)"
    and c: "claim_matches v r (job_at st n)" and d: "wxNow x < jDeadline (job_at st n)"
    and cfg: "worker_config_matches w (job_at st n)"
  shows "\<exists>l. out = Some l \<and> wlJob l = job_at t n \<and> leased w a x p v l (job_at st n) \<and>
    current_attempt t (job_at t n) = Some (wlAttempt l)"
proof -
  define j where "j = (job_at st n)\<lparr>jFence := jFence (job_at st n) + 1, jStatus := ''CLAIMED''\<rparr>"
  define b where "b = new_attempt a x p (wxNow x) j"
  have t: "t = worker_audit x (wxNow x) n (principal_id p) ''worker_claimed'' (granted a x p (wxNow x) n st)"
    by (rule grant_state [OF assms(1)])
  have tj: "job_at t n = touched (wxNow x) j" using n by (simp add: t job_at_audit granted_def Let_def j_def) (simp add: job_at_def set_job_def)
  obtain l where l: "out = Some l" "wlJob l = job_at t n" "wlAttempt l = b"
    using assms(1) n
    by (auto simp: grant_def Let_def t granted_def b_def j_def set_job_def attach_patch_def split: sum.splits option.splits)
  have att: "stWorkerAttempts t = stWorkerAttempts st @ [b]" by (simp add: t granted_def Let_def b_def j_def)
  have "\<not> of_job j b'" if "b' \<in> set (stWorkerAttempts st)" for b'
    using claimed_fence_new [OF inv n more that] by (auto simp: of_job_def j_def)
  then have "find (of_job j) (stWorkerAttempts st) = None" by (simp add: find_None_iff)
  moreover have "of_job j b" by (simp add: of_job_def b_def new_attempt_def)
  ultimately have "find (of_job j) (stWorkerAttempts t) = Some b" by (simp add: att find_append)
  moreover have "of_job (job_at t n) = of_job j" by (rule ext) (simp add: of_job_def tj)
  ultimately have cur: "current_attempt t (job_at t n) = Some b" by (simp add: current_attempt_def)
  have "leased w a x p v l (job_at st n)"
    using l tj c d q cfg fence_grows [OF more] worker_config_matches_cong [of "touched (wxNow x) j" "job_at st n" w]
    by (auto simp: leased_def j_def b_def new_attempt_def lease_until_def claim_matches_def min_def touched_def)
  then show ?thesis using l cur by auto
qed

lemma claim_one_grants:
  assumes "claim_one w a x p v n (None, st) = Inr (Some l, t)" and inv: "worker_inv st" and n: "n < length (stWorkerJobs st)"
  shows "wlJob l = job_at t n \<and> leased w a x p v l (job_at st n) \<and> current_attempt t (job_at t n) = Some (wlAttempt l)"
  using assms(1)
proof (cases rule: claim_one_cases)
  case grant
  define r where "r = recover_worker x (wxNow x) n st"
  note f = recovered_fields [OF n, of x "wxNow x", folded r_def]
  have g: "worker_inv r" "n < length (stWorkerJobs r)"
    using rows_kept_inv [OF recover_worker_rows [OF n] inv] n by (simp_all add: r_def)
  have "claim_matches v st (job_at r n)" using grant(2) f(2) unfolding claim_matches_def same_job_def by metis
  moreover have "wxNow x < jDeadline (job_at r n)" using f(2,3) grant(3) by (simp add: same_job_def r_def)
  moreover have "worker_config_matches w (job_at r n)" using grant(5) by (simp add: claimable_def r_def)
  ultimately have "wlJob l = job_at t n \<and> leased w a x p v l (job_at r n) \<and> current_attempt t (job_at t n) = Some (wlAttempt l)"
    using grant_lease [OF grant(6) [folded r_def] g] grant(3,4) by (simp add: r_def)
  then show ?thesis using f(1,2) leased_cong by blast
qed simp_all

section \<open>A live lease\<close>

lemma worker_attempt_in: "worker_attempt st i = Some a \<Longrightarrow> a \<in> set (stWorkerAttempts st) \<and> mID (aMeta a) = i"
  unfolding worker_attempt_def by (auto dest: find_Some_in find_Some_prop)

lemma current_attempt_unique:
  assumes "attempts_ok st" and "a \<in> set (stWorkerAttempts st)" and "of_job j a"
  shows "current_attempt st j = Some a"
proof -
  obtain b where b: "current_attempt st j = Some b"
    using assms(2,3) unfolding current_attempt_def by (cases "find (of_job j) (stWorkerAttempts st)") (auto simp: find_None_iff)
  then have "b \<in> set (stWorkerAttempts st)" "of_job j b"
    unfolding current_attempt_def by (auto dest: find_Some_in find_Some_prop)
  moreover have "inj_on (\<lambda>a. (aJobID a, aFence a)) (set (stWorkerAttempts st))"
    using assms(1) by (simp add: attempts_ok_def distinct_map)
  ultimately have "b = a" using assms(2,3) by (auto simp: of_job_def inj_on_def)
  then show ?thesis using b by simp
qed

text \<open>A lease that is not lost belongs to a job the recovery left alone.\<close>

lemma live_not_recovered:
  assumes inv: "worker_inv st" and n: "worker_job st (wrJobID req) = Some n" and a0: "worker_attempt st i = Some a0"
    and own: "owned w au (wxNow x) p req (job_at st n) a0"
    and a: "worker_attempt (recover_worker x now n st) i = Some a"
    and live: "\<not> lease_lost w now (recover_worker x now n st) (job_at (recover_worker x now n st) n) a"
  shows "recover_worker x now n st = st"
proof (rule ccontr)
  define r where "r = recover_worker x now n st"
  assume "recover_worker x now n st \<noteq> st"
  then have c: "\<not> now < jDeadline (job_at st n) \<or> lease_expired st (job_at st n) now"
    by (auto simp: recover_worker_def Let_def split: if_splits)
  have nl: "n < length (stWorkerJobs st)" using worker_job_bound [OF n] by simp
  have "jDeadline (job_at r n) = jDeadline (job_at st n)" using recovered_fields(2) [OF nl] by (simp add: same_job_def r_def)
  then have d: "now < jDeadline (job_at st n)" "now < aLeaseUntil a"
    using live by (auto simp: lease_lost_def r_def)
  have "attempt_core a = attempt_core a0" using recovered_attempt [of x now n st i] a a0 by simp
  then have l: "now < aLeaseUntil a0" using d(2) by (simp add: attempt_core_def)
  have "current_attempt st (job_at st n) = Some a0"
    using current_attempt_unique [of st a0] inv worker_attempt_in [OF a0] own
    by (simp add: worker_inv_def of_job_def owned_def)
  then show False using c d(1) l by (simp add: lease_expired_def)
qed

section \<open>The identity and the report of an attempt\<close>

definition attempt_view :: "WorkerAttempt \<Rightarrow> string \<times> string \<times> string \<times> 64 word \<times> string \<times> WorkerReport option" where
  "attempt_view a = (mID (aMeta a), aJobID a, aPrincipal a, aFence a, aInputHash a, aReport a)"

definition attempt_kept :: "WorkerAttempt \<Rightarrow> WorkerAttempt \<Rightarrow> bool" where
  "attempt_kept a b \<longleftrightarrow> mID (aMeta b) = mID (aMeta a) \<and> aJobID b = aJobID a \<and> aPrincipal b = aPrincipal a \<and>
     aFence b = aFence a \<and> aInputHash b = aInputHash a \<and> (aReport a = None \<or> aReport b = aReport a)"

definition attempts_kept :: "State \<Rightarrow> State \<Rightarrow> bool" where
  "attempts_kept st t \<longleftrightarrow>
     length (stWorkerAttempts st) \<le> length (stWorkerAttempts t) \<and>
     (\<forall>n<length (stWorkerAttempts st). attempt_kept (stWorkerAttempts st ! n) (stWorkerAttempts t ! n))"

lemma attempt_kept_refl [simp]: "attempt_kept a a"
  by (simp add: attempt_kept_def)

lemma attempt_kept_trans: "attempt_kept a b \<Longrightarrow> attempt_kept b c \<Longrightarrow> attempt_kept a c"
  by (auto simp: attempt_kept_def)

lemma attempts_kept_refl [simp]: "attempts_kept st st"
  by (simp add: attempts_kept_def)

lemma attempts_kept_trans: "attempts_kept r st \<Longrightarrow> attempts_kept st t \<Longrightarrow> attempts_kept r t"
  unfolding attempts_kept_def using attempt_kept_trans by (meson order.strict_trans2 order.trans)

lemma attempts_kept_same: "stWorkerAttempts t = stWorkerAttempts st \<Longrightarrow> attempts_kept st t"
  by (simp add: attempts_kept_def)

lemma attempts_kept_update:
  assumes "\<And>a. find P (stWorkerAttempts st) = Some a \<Longrightarrow> attempt_kept a (f a)"
    and "stWorkerAttempts t = update_first P f (stWorkerAttempts st)"
  shows "attempts_kept st t"
proof -
  have "attempt_kept (xs ! n) (update_first P f xs ! n)"
    if "\<And>a. find P xs = Some a \<Longrightarrow> attempt_kept a (f a)" "n < length xs" for xs n
    using that by (induction xs arbitrary: n) (auto simp: nth_Cons split: nat.splits if_splits)
  then show ?thesis using assms by (simp add: attempts_kept_def)
qed

lemma attempts_kept_close:
  "stWorkerAttempts t = stWorkerAttempts (close_attempt j s now st) \<Longrightarrow> attempts_kept st t"
  by (rule attempts_kept_update) (auto simp: close_attempt_def attempt_kept_def)

lemma recover_attempts_kept: "attempts_kept st (recover_worker x now n st)"
  using attempts_kept_close by (auto simp: recover_worker_def Let_def close_attempt_def)

lemma settle_attempts_kept: "attempts_kept st (settle x now n s action st)"
  by (rule attempts_kept_same) (simp add: settle_def)

lemma stop_job_attempts_kept: "attempts_kept st (stop_job x now st i)"
  by (auto simp: stop_job_def Let_def close_attempt_def split: option.splits intro!: attempts_kept_close)

lemma stop_native_attempts_kept: "attempts_kept st (stop_native_delivery x now i status detail st)"
proof -
  have f: "attempts_kept t (foldl (stop_job x now) t ids)" for t ids
    by (induction ids arbitrary: t) (auto intro: attempts_kept_trans stop_job_attempts_kept)
  have o': "attempts_kept st (st\<lparr>stOperations := os\<rparr>)" for os by (rule attempts_kept_same) simp
  have g: "attempts_kept st (foldl (stop_job x now) (st\<lparr>stOperations := os\<rparr>) ids)" for os ids
    by (rule attempts_kept_trans [OF o' f])
  show ?thesis using o' g by (simp add: stop_native_delivery_def Let_def del: foldl.simps split: option.splits)
qed

lemma manage_attempts_kept:
  assumes "manage_worker_job x c st = Inr (out, t)"
  shows "attempts_kept st t"
proof -
  have "(\<exists>i status detail. t = stop_native_delivery x (wxNow x) i status detail st) \<or>
      (\<exists>j s. stWorkerAttempts t = stWorkerAttempts (close_attempt j s (wxNow x) st))"
    using assms
    by (auto simp: manage_worker_job_def cancel_worker_job_def reconcile_worker_job_def Let_def close_attempt_def
        split: if_splits option.splits sum.splits) blast+
  then show ?thesis using stop_native_attempts_kept attempts_kept_close by blast
qed

lemma grant_attempts_kept: "grant w a x p now n st = Inr (out, t) \<Longrightarrow> attempts_kept st t"
  by (drule grant_state) (simp add: attempts_kept_def granted_def Let_def nth_append)

lemma claim_one_attempts_kept:
  assumes "claim_one w a x p v n (out, st) = Inr (out', t)"
  shows "attempts_kept st t"
  using assms
  by (cases rule: claim_one_cases)
    (auto intro: attempts_kept_trans [OF recover_attempts_kept] recover_attempts_kept settle_attempts_kept grant_attempts_kept)

lemma claim_loop_attempts_kept:
  "claim_loop w a x p v ns (out, st) = Inr (out', t) \<Longrightarrow> attempts_kept st t"
proof (induction ns arbitrary: out st)
  case (Cons n ns)
  then show ?case
    using attempts_kept_trans [OF claim_one_attempts_kept] by (fastforce split: sum.splits)
qed simp

lemma mutate_attempts_kept:
  assumes "mutate_worker w (x, p, req, m) st = Inr (out, t)"
  shows "attempts_kept st t"
  using assms
proof (cases rule: mutate_worker_cases)
  case (change au n a0 a j b reg)
  define r where "r = recover_worker x (wxNow x) n st"
  have "map_option attempt_view (worker_attempt r (wrAttemptID req)) = map_option attempt_view (worker_attempt st (wrAttemptID req))"
  proof -
    have "map_option attempt_view (worker_attempt (close_attempt j s now u) i) = map_option attempt_view (worker_attempt u i)"
      for j s u now i
      unfolding worker_attempt_def close_attempt_def
      by (simp, rule find_update_first_core) (auto simp: attempt_view_def)
    moreover have "worker_attempt (worker_audit x now n actor action u) i = worker_attempt u i" for actor action u now i
      by (simp add: worker_attempt_def)
    moreover have "worker_attempt (set_job n j u) i = worker_attempt u i" for j u i
      by (simp add: worker_attempt_def)
    ultimately show ?thesis by (simp only: r_def recover_worker_def Let_def split: if_split) simp
  qed
  then have v: "attempt_view a = attempt_view a0" using change(3,6) by (simp add: r_def)
  define b' where "b' = b\<lparr>aMeta := (aMeta b)\<lparr>mUpdatedAt := wxNow x\<rparr>\<rparr>"
  have "aReport b = aReport a \<or> aReport a = None"
  proof (cases m)
    case (Report rep)
    then have "aReport a0 = None" using change(5) by (auto simp: replayed_def split: option.splits)
    then show ?thesis using v by (simp add: attempt_view_def)
  qed (use change(8) in \<open>auto simp: mutation_answer_def split: if_splits\<close>)
  then have k: "attempt_kept a b'" using mutation_answer_attempt [OF change(8)] by (auto simp: attempt_kept_def b'_def)
  have "mID (aMeta b') = mID (aMeta a)" using mutation_answer_attempt [OF change(8)] by (simp add: b'_def)
  then have i: "mID (aMeta b') = wrAttemptID req" using worker_attempt_in [OF change(6)] by simp
  have "attempts_kept r t"
  proof (rule attempts_kept_update)
    show "stWorkerAttempts t = update_first (\<lambda>c. mID (aMeta c) = wrAttemptID req) (\<lambda>_. b') (stWorkerAttempts r)"
      unfolding apply_change_state [OF change(9)]
      by (simp add: changed_def Let_def write_attempt_def i [unfolded b'_def, simplified] b'_def r_def
          admit_registry_inventory_def split: option.splits)
  qed (use change(6) k in \<open>auto simp: worker_attempt_def r_def\<close>)
  then show ?thesis using attempts_kept_trans recover_attempts_kept unfolding r_def by blast
qed (use recover_attempts_kept in auto)

lemma recovered_attempts_kept: "attempts_kept st (recovered x p st)"
  by (auto simp: recovered_def recover_attempts_kept split: option.splits)

lemma check_prepare_attempts:
  assumes "check_prepare k w (x, i, token) st = Inr (out, t)"
  shows "attempts_kept st t"
  using assms
proof (cases rule: check_prepare_cases)
  case (moved n p d)
  then have "attempts_kept (recovered x p st) t" using check_moved_rows attempts_kept_same by blast
  then show ?thesis using attempts_kept_trans recovered_attempts_kept by blast
next
  case (late n p reason)
  then have "attempts_kept (recovered x p st) t" by (intro attempts_kept_same) (simp add: check_frames)
  then show ?thesis using attempts_kept_trans recovered_attempts_kept by blast
qed (auto intro!: attempts_kept_same simp: check_frames)

lemma check_commit_attempts:
  assumes "check_commit k w (x, i, token, sent, answer) st = Inr (u, t)"
  shows "attempts_kept st t"
  using assms by (cases rule: check_commit_cases) (auto intro!: attempts_kept_same simp: check_frames)

lemma lease_operation_attempts:
  "lease_operation p r st = Inr (out, t) \<Longrightarrow> attempts_kept st t"
  by (rule attempts_kept_same)
    (auto simp: lease_operation_def Let_def check_frames split: prod.splits if_splits option.splits)

lemma serve_attempts_kept:
  assumes "serve k w r st = Inr (u, t)"
  shows "attempts_kept st t"
proof (cases r)
  case (UserCommand x c i)
  then obtain out a where "queue_worker_job (with_checks k (wxNow x) i w) a x c st = Inr (out, t) \<or>
      manage_worker_job x c st = Inr (out, t)"
    using assms by (auto simp: serve_def worker_parts_def forget_Inr execute_worker_command_def Let_def split: option.splits if_splits)
  then show ?thesis
    using checks.queue_worker_job_appends manage_attempts_kept attempts_kept_same [of t st]
    by (fastforce simp: queue_appends_def)
next
  case (ClaimWork prior x p v)
  then show ?thesis
    using assms claim_loop_attempts_kept claim_worker_loop
    by (auto simp: serve_def worker_parts_def forget_Inr elim!: claim_worker_loop)
qed (use assms mutate_attempts_kept check_prepare_attempts check_commit_attempts lease_operation_attempts in
    \<open>auto simp: serve_def worker_parts_def forget_Inr\<close>)

interpretation reports: transactional "serve k w" "\<lambda>r st. True" "attempts_kept s" for k w s
  by unfold_locales (rule attempts_kept_trans [OF _ serve_attempts_kept])

lemma run_attempts_kept: "attempts_kept st (run_all (serve k w) st rs)"
  using reports.run_keeps [OF attempts_kept_refl run_ok_True] .

section \<open>The request key\<close>

context check_queue
begin

lemma queue_new_job:
  assumes "queue_worker_job w a x c st = Inr (out, t)" and v: "queue_input c = Inr v"
    and "previous_job st (cProductID c) (qiRequestKey v) = None"
  obtains r f inp where "jobs_path st t" "length (stWorkerJobs t) = Suc (length (stWorkerJobs st))"
    "same_job (queued_job w x c v r f inp) (job_at t (length (stWorkerJobs st)))" "mID (jMeta out) = wxID x"
proof -
  define n where "n = length (stWorkerJobs st)"
  from assms obtain r f patch q s k where
      s: "wkQueueCheck w (append_job q (queued_job w x c v r f (queued_inputs v r patch)) st) (wxID x) = Inr s" and
      t: "t = worker_audit x (wxNow x) (length (stWorkerJobs s) - 1) (cActor c) (cAction c) s" and
      o': "out = job_at t k" "worker_job t (wxID x) = Some k"
    by (auto simp: queue_worker_job_def queued_job_def Let_def split: sum.splits option.splits if_splits)
  define j where "j = queued_job w x c v r f (queued_inputs v r patch)"
  have l: "length (stWorkerJobs s) = Suc n"
    using check_linked_length [OF queue_check_links [OF s]] by (simp add: append_job_def n_def)
  have "job_at (append_job q j st) n = j" by (simp add: job_at_def append_job_def n_def)
  moreover obtain i where "job_at s n = (job_at (append_job q j st) n)\<lparr>jCheckOperationID := i\<rparr>"
    using queue_check_links [OF s] by (auto simp: check_linked_def append_job_def n_def j_def)
  ultimately have "same_job j (job_at t n)"
    using l by (simp add: t job_at_audit same_job_def touched_def)
  moreover have "jobs_path st (append_job q j st)" by (simp add: jobs_path_def append_job_def job_at_def nth_append)
  then have "jobs_path st t"
    using check_linked_path [OF queue_check_links [OF s]] jobs_path_audit [of n s] jobs_path_trans l unfolding t j_def by simp
  ultimately show thesis
    using that [of r f "queued_inputs v r patch"] l o' worker_job_bound [OF o'(2)] by (simp add: t j_def n_def)
qed

end

lemma previous_job_appended:
  assumes "jobs_path st t" and len: "length (stWorkerJobs t) = Suc (length (stWorkerJobs st))"
    and none: "previous_job st p key = None" and new: "same_job j (job_at t (length (stWorkerJobs st)))"
    and j: "mProductID (jMeta j) = p" "jRequestKey j = key"
  shows "previous_job t p key = Some (job_at t (length (stWorkerJobs st)))"
proof -
  define n where "n = length (stWorkerJobs st)"
  have t: "stWorkerJobs t = take n (stWorkerJobs t) @ [job_at t n]"
    using len by (simp add: job_at_def n_def take_Suc_conv_app_nth [symmetric])
  have "\<not> (mProductID (jMeta (job_at t m)) = p \<and> jRequestKey (job_at t m) = key)" if "m < n" for m
  proof -
    have "same_job (job_at st m) (job_at t m)" using assms(1) that job_path_same by (simp add: jobs_path_def n_def)
    moreover have "job_at st m \<in> set (stWorkerJobs st)" using that by (simp add: job_at_def n_def)
    ultimately show ?thesis using none by (auto simp: previous_job_def find_None_iff same_job_def)
  qed
  then have "find (\<lambda>j. mProductID (jMeta j) = p \<and> jRequestKey j = key) (take n (stWorkerJobs t)) = None"
    using len by (auto simp: find_None_iff in_set_conv_nth job_at_def n_def)
  then show ?thesis
    unfolding previous_job_def by (subst t) (use new j in \<open>simp add: find_append n_def same_job_def\<close>)
qed

lemma queue_quarantines:
  assumes "queue_worker_job (with_checks k now i w) a x c st = Inr (out, t)"
  shows "stNativeQuarantines t = stNativeQuarantines st"
proof -
  have "queue_worker_check k w now i st j = Inr t \<Longrightarrow> stNativeQuarantines t = stNativeQuarantines st" for st t j
    by (auto simp: queue_worker_check_def add_check_child_def set_job_def Let_def
        split: option.splits sum.splits if_splits prod.splits)
  then show ?thesis
    using assms
    by (auto simp: queue_worker_job_def with_checks_def Let_def worker_audit_def set_job_def append_job_def
        split: sum.splits option.splits if_splits)
qed

end
