(* ===== verification/CheckRuns.thy ===== *)
theory CheckRuns
  imports WorkerLeases
begin

text \<open>
  What any request may do to the operations: an operation keeps its ID, a check publication keeps what
  it was admitted with, its phase never returns to the one that sends the registration, and its counted
  observations grow up to the budget.
\<close>

section \<open>Steps of operations\<close>

definition publication_step :: "CheckPublication option \<Rightarrow> CheckPublication option \<Rightarrow> bool" where
  "publication_step a b =
     (case (a, b) of
        (None, None) \<Rightarrow> True
      | (Some p, Some q) \<Rightarrow> cpJobID q = cpJobID p \<and> cpInputs q = cpInputs p \<and> cpInputHash q = cpInputHash p \<and>
          cpConnection q = cpConnection p \<and> cpIdentity q = cpIdentity p \<and>
          cpFinalizeDeadline q = cpFinalizeDeadline p \<and> cpObservations p \<le> cpObservations q
      | _ \<Rightarrow> False)"

definition op_step :: "string set \<Rightarrow> ExternalOperation \<Rightarrow> ExternalOperation \<Rightarrow> bool" where
  "op_step T o' q \<longleftrightarrow> mID (opMeta q) = mID (opMeta o') \<and>
     (opPhase o' \<noteq> ''CHECK_CREATE_READY'' \<longrightarrow> opPhase q \<noteq> ''CHECK_CREATE_READY'') \<and>
     publication_step (opCheckPublication o') (opCheckPublication q) \<and>
     opLeaseOwner q \<in> {opLeaseOwner o', []} \<union> T"

definition within_budget :: "ExternalOperation \<Rightarrow> bool" where
  "within_budget o' \<longleftrightarrow> (case opCheckPublication o' of None \<Rightarrow> True
     | Some p \<Rightarrow> 0 \<le> cpObservations p \<and> cpObservations p \<le> observation_budget)"

definition budget_ok :: "State \<Rightarrow> bool" where
  "budget_ok st \<longleftrightarrow> list_all within_budget (stOperations st)"

definition ops_step :: "string set \<Rightarrow> State \<Rightarrow> State \<Rightarrow> bool" where
  "ops_step T st t \<longleftrightarrow> length (stOperations st) \<le> length (stOperations t) \<and>
     (\<forall>n<length (stOperations st). op_step T (op_at st n) (op_at t n)) \<and> (budget_ok st \<longrightarrow> budget_ok t)"

lemma publication_step_refl [simp]: "publication_step a a"
  by (cases a) (simp_all add: publication_step_def)

lemma publication_step_trans: "publication_step a b \<Longrightarrow> publication_step b c \<Longrightarrow> publication_step a c"
  by (auto simp: publication_step_def split: option.splits)

lemma op_step_refl [simp]: "op_step T o' o'"
  by (simp add: op_step_def)

lemma op_step_trans:
  assumes "op_step T a b" "op_step T b c"
  shows "op_step T a c"
proof -
  have "publication_step (opCheckPublication a) (opCheckPublication c)"
    using assms publication_step_trans unfolding op_step_def by blast
  then show ?thesis using assms unfolding op_step_def by auto
qed

lemma ops_step_refl [simp]: "ops_step T st st"
  by (simp add: ops_step_def)

lemma ops_step_trans [trans]: "ops_step T r st \<Longrightarrow> ops_step T st t \<Longrightarrow> ops_step T r t"
  unfolding ops_step_def using op_step_trans by (meson order.strict_trans2 order.trans)

lemma ops_step_same: "stOperations t = stOperations st \<Longrightarrow> ops_step T st t"
  by (simp add: ops_step_def op_at_def budget_ok_def)

text \<open>A rewritten row that keeps its ID and publication.\<close>

definition mild :: "string set \<Rightarrow> (ExternalOperation \<Rightarrow> ExternalOperation) \<Rightarrow> bool" where
  "mild T f \<longleftrightarrow> (\<forall>o'. op_step T o' (f o') \<and> opCheckPublication (f o') = opCheckPublication o')"

lemma mild_row: "mild T f \<Longrightarrow> op_step T o' (f o') \<and> (within_budget o' \<longrightarrow> within_budget (f o'))"
  by (auto simp: mild_def within_budget_def)

lemma ops_step_update:
  assumes "mild T f" and "stOperations t = update_first P f (stOperations st)"
  shows "ops_step T st t"
proof -
  have "n < length xs \<Longrightarrow> op_step T (xs ! n) (update_first P f xs ! n)" for xs n
    using mild_row [OF assms(1)] by (induction xs arbitrary: n) (auto simp: nth_Cons split: nat.splits)
  moreover have "list_all within_budget xs \<Longrightarrow> list_all within_budget (update_first P f xs)" for xs
    using mild_row [OF assms(1)] by (induction xs) auto
  ultimately show ?thesis using assms(2) by (simp add: ops_step_def op_at_def budget_ok_def)
qed

lemma ops_step_append:
  "within_budget o' \<Longrightarrow> stOperations t = stOperations st @ [o'] \<Longrightarrow> ops_step T st t"
  by (simp add: ops_step_def op_at_def budget_ok_def nth_append)

lemma ops_step_set:
  assumes "n < length (stOperations st)" and "op_step T (op_at st n) o'" and "within_budget (op_at st n) \<longrightarrow> within_budget o'"
    and "stOperations t = (stOperations st)[n := o']"
  shows "ops_step T st t"
  using assms by (auto simp: ops_step_def op_at_def nth_list_update budget_ok_def list_all_length)

section \<open>The worker protocol\<close>

lemma worker_audit_ops: "ops_step T st (worker_audit x now n actor action st)"
  by (rule ops_step_update [of T "projected (touched now (job_at st n)) now" _ "\<lambda>o'. mID (opMeta o') = jOperationID (job_at st n)"])
    (simp_all add: mild_def op_step_def projected_def worker_audit_def set_job_def Let_def touched_def)

lemma ops_audited: "stOperations s = stOperations st \<Longrightarrow> ops_step T st (worker_audit x now n actor action s)"
  using ops_step_trans [OF ops_step_same worker_audit_ops] .

lemma recover_worker_ops: "ops_step T st (recover_worker x now n st)"
  by (auto simp: recover_worker_def Let_def close_attempt_def set_job_def intro: ops_audited)

lemma settle_ops: "ops_step T st (settle x now n s action st)"
  by (simp add: settle_def set_job_def ops_audited)

lemma stop_job_ops: "ops_step T st (stop_job x now st i)"
  by (auto simp: stop_job_def Let_def close_attempt_def set_job_def split: option.splits intro: ops_audited)

lemma stop_native_delivery_ops: "ops_step T st (stop_native_delivery x now i status detail st)"
proof -
  have f: "ops_step T t (foldl (stop_job x now) t ids)" for t ids
    by (induction ids arbitrary: t) (auto intro: ops_step_trans stop_job_ops)
  define t where "t = st\<lparr>stOperations := update_first (\<lambda>p. mID (opMeta p) = i)
    (stopped_operation status detail now) (stOperations st)\<rparr>"
  have t: "ops_step T st t"
    by (rule ops_step_update [of T "stopped_operation status detail now"])
      (simp_all add: mild_def op_step_def stopped_operation_def t_def)
  then have "ops_step T st (foldl (stop_job x now) t ids)" for ids using ops_step_trans f by blast
  then show ?thesis
    using t by (simp add: stop_native_delivery_def Let_def t_def [symmetric] del: foldl.simps split: option.splits)
qed

lemma manage_worker_job_ops:
  assumes "manage_worker_job x c st = Inr (out, t)"
  shows "ops_step T st t"
  using assms stop_native_delivery_ops
  by (auto simp: manage_worker_job_def cancel_worker_job_def reconcile_worker_job_def Let_def close_attempt_def set_job_def
      intro!: ops_audited split: if_splits option.splits sum.splits)

lemma add_check_child_ops:
  assumes "within_budget child"
  shows "ops_step T st (add_check_child n child st)"
proof -
  define u where "u = update_first (\<lambda>p. mID (opMeta p) = jOperationID (job_at st n))
    (\<lambda>p. p\<lparr>opChildIDs := opChildIDs p @ [mID (opMeta child)]\<rparr>) (stOperations st)"
  have "ops_step T st (st\<lparr>stOperations := u\<rparr>)"
    by (rule ops_step_update [of T "\<lambda>p. p\<lparr>opChildIDs := opChildIDs p @ [mID (opMeta child)]\<rparr>"])
      (simp_all add: mild_def op_step_def u_def)
  also have "ops_step T (st\<lparr>stOperations := u\<rparr>) (add_check_child n child st)"
    by (rule ops_step_append [OF assms]) (simp add: add_check_child_def Let_def u_def)
  finally show ?thesis .
qed

lemma queue_worker_check_ops:
  assumes "queue_worker_check k w now i st j = Inr t"
  shows "ops_step T st t"
proof -
  have "within_budget (check_child now i j' c source conn physical parent)" for j' c source conn physical parent
    by (simp add: within_budget_def check_child_def observation_budget_def)
  then show ?thesis
    using assms add_check_child_ops
    by (auto simp: queue_worker_check_def Let_def split: option.splits sum.splits if_splits prod.splits)
qed

lemma queue_worker_job_ops:
  assumes "queue_worker_job (with_checks k now i w) a x c st = Inr (out, t)"
  shows "ops_step T st t"
proof (cases "t = st")
  case False
  with assms obtain q j s n where s: "queue_worker_check k w now i (append_job (queued_operation x c q n) j st) (mID (jMeta j)) = Inr s"
      "t = worker_audit x (wxNow x) (length (stWorkerJobs s) - 1) (cActor c) (cAction c) s"
    by (auto simp: queue_worker_job_def with_checks_def Let_def split: sum.splits option.splits if_splits)
  have "ops_step T st (append_job (queued_operation x c q n) j st)"
    by (rule ops_step_append [of "queued_operation x c q n"])
      (simp_all add: append_job_def within_budget_def queued_operation_def zero_ExternalOperation_def)
  also note queue_worker_check_ops [OF s(1)]
  also have "ops_step T s t" unfolding s(2) by (rule worker_audit_ops)
  finally show ?thesis .
qed simp

lemma grant_ops: "grant w a x p now n st = Inr (out, t) \<Longrightarrow> ops_step T st t"
  by (drule grant_state) (simp add: granted_def Let_def set_job_def ops_audited)

lemma claim_one_ops:
  assumes "claim_one w a x p v n (out, st) = Inr (out', t)"
  shows "ops_step T st t"
  using assms
proof (cases rule: claim_one_cases)
  case (settle s action)
  then show ?thesis using ops_step_trans [OF recover_worker_ops settle_ops] by simp
next
  case grant
  then show ?thesis using ops_step_trans [OF recover_worker_ops grant_ops] by blast
qed (simp_all add: recover_worker_ops)

lemma claim_loop_ops: "claim_loop w a x p v ns (out, st) = Inr (out', t) \<Longrightarrow> ops_step T st t"
proof (induction ns arbitrary: out st)
  case (Cons n ns)
  then show ?case using ops_step_trans [OF claim_one_ops] by (fastforce split: sum.splits)
qed simp

lemma mutate_worker_ops:
  assumes "mutate_worker w (x, p, req, m) st = Inr (out, t)"
  shows "ops_step T st t"
  using assms
proof (cases rule: mutate_worker_cases)
  case (change au n a0 a j b reg)
  have "stOperations (changed x p m n j b reg s) = stOperations s" for s
    by (simp add: changed_def Let_def write_attempt_def set_job_def admit_registry_inventory_def split: option.splits)
  then have "ops_step T (recover_worker x (wxNow x) n st) t"
    unfolding apply_change_state [OF change(9)] by (rule ops_audited)
  then show ?thesis using ops_step_trans recover_worker_ops by blast
qed (simp_all add: recover_worker_ops)

section \<open>The two transactions of a tick\<close>

lemma recovered_ops: "ops_step T st (recovered x p st)"
  by (simp add: recovered_def recover_worker_ops split: option.splits)

lemma ops_step_length: "ops_step T st t \<Longrightarrow> n < length (stOperations st) \<Longrightarrow> n < length (stOperations t)"
  by (simp add: ops_step_def)

lemma check_step_ops: "n < length (stOperations st) \<Longrightarrow> ops_step T st (check_step x n d b st)"
  by (rule ops_step_set [of n st T "op_at (check_step x n d b st) n"])
    (simp_all add: op_step_def within_budget_def check_step_def Let_def set_op_def op_at_def)

lemma check_fail_ops: "n < length (stOperations st) \<Longrightarrow> ops_step T st (check_fail x n r d st)"
  by (rule ops_step_set [of n st T "op_at (check_fail x n r d st) n"])
    (simp_all add: op_step_def within_budget_def check_fail_def check_step_def Let_def set_op_def op_at_def)

lemma set_status_ops: "n < length (stOperations st) \<Longrightarrow> ops_step T st (set_status n s st)"
  by (rule ops_step_set [of n st T "op_at (set_status n s st) n"])
    (simp_all add: op_step_def within_budget_def set_status_def set_op_def op_at_def)

lemma op_at_ops: "ops_step T st t \<Longrightarrow> n < length (stOperations st) \<Longrightarrow> op_step T (op_at st n) (op_at t n)"
  by (simp add: ops_step_def)

lemma persisted_owner:
  "n < length (stOperations st) \<Longrightarrow> opLeaseOwner (op_at (persisted x n p phase st) n) = opLeaseOwner (op_at st n)"
  by (simp add: persisted_def check_intent_def Let_def set_publication_def set_phase_def set_op_def op_at_def)

lemma persisted_ops:
  assumes n: "n < length (stOperations st)" and p: "opCheckPublication (op_at st n) = Some p"
    and q: "publication_step (Some p) (Some q)" "cpObservations q = cpObservations p" "cpObservations p < observation_budget"
    and phase: "phase \<noteq> ''CHECK_CREATE_READY''"
  shows "ops_step T st (persisted x n q phase st)"
proof (rule ops_step_set [OF n])
  show "stOperations (persisted x n q phase st) = (stOperations st)[n := op_at (persisted x n q phase st) n]"
    using n by (simp add: persisted_def check_intent_def Let_def set_publication_def set_phase_def set_op_def op_at_def)
  show "op_step T (op_at st n) (op_at (persisted x n q phase st) n)"
    using p q phase n by (simp add: op_step_def persisted_op persisted_owner publication_step_def)
  show "within_budget (op_at st n) \<longrightarrow> within_budget (op_at (persisted x n q phase st) n)"
    using p q n by (simp add: within_budget_def persisted_op)
qed

lemma recovered_publication:
  assumes "n < length (stOperations st)"
  shows "opCheckPublication (op_at (recovered x p st) n) = opCheckPublication (op_at st n)"
proof -
  have "opCheckPublication (op_at (worker_audit y now m a b u) n) = opCheckPublication (op_at u n)"
    if "n < length (stOperations u)" for y now m a b u
  proof -
    have "opCheckPublication (update_first P (projected j now) xs ! i) = opCheckPublication (xs ! i)"
      if "i < length xs" for P j xs i
      using that by (induction xs arbitrary: i) (auto simp: nth_Cons projected_def split: nat.splits)
    then show ?thesis using that by (simp add: worker_audit_def op_at_def set_job_def Let_def)
  qed
  then show ?thesis
    using assms
    by (simp add: recovered_def recover_worker_def Let_def op_at_def close_attempt_def set_job_def split: option.splits)
qed

lemma check_moved_ops:
  assumes n: "n < length (stOperations st)" and p: "opCheckPublication (op_at st n) = Some p"
    and b: "cpObservations p < observation_budget" and m: "check_moved k x n p d st = (out, t)"
  shows "ops_step T st t"
  using m
proof (cases rule: check_moved_cases)
  case (stop reason)
  then show ?thesis using check_fail_ops [OF n] by simp
next
  case wait
  then show ?thesis
    using ops_step_trans [OF set_status_ops [OF n] check_step_ops] n by (simp add: set_status_def check_frames)
next
  case (broken q phase action)
  have "publication_step (Some p) (Some q)" "cpObservations q = cpObservations p" "phase \<noteq> ''CHECK_CREATE_READY''"
    using check_move_go [OF broken(1)] by (auto simp: with_intent_def publication_step_def)
  then have "ops_step T st (set_publication n q (set_phase n phase st))"
    using p n by (intro ops_step_set [OF n, of T "(op_at st n)\<lparr>opPhase := phase, opCheckPublication := Some q\<rparr>"])
      (simp_all add: op_step_def within_budget_def publication_step_def set_publication_def set_phase_def set_op_def op_at_def)
  then show ?thesis
    using ops_step_trans [OF _ check_fail_ops] n broken(4)
    by (simp add: set_publication_def set_phase_def check_frames)
next
  case (send q phase action)
  have "publication_step (Some p) (Some q)" "cpObservations q = cpObservations p" "phase \<noteq> ''CHECK_CREATE_READY''"
    using check_move_go [OF send(1)] by (auto simp: with_intent_def publication_step_def)
  then show ?thesis using persisted_ops [OF n p _ _ b] send(4) by simp
qed

lemma check_prepare_ops:
  assumes "check_prepare k w (x, i, token) st = Inr (out, t)"
  shows "ops_step T st t"
  using assms
proof (cases rule: check_prepare_cases)
  case (early n reason detail)
  then show ?thesis using check_fail_ops leased_operation_bound by blast
next
  case (late n p reason)
  then have n: "n < length (stOperations st)" using leased_operation_bound by blast
  have "ops_step T (recovered x p st) t"
    unfolding late(4) by (rule check_fail_ops [OF ops_step_length [OF recovered_ops n]])
  then show ?thesis using ops_step_trans recovered_ops by blast
next
  case (moved n p d)
  then have n: "n < length (stOperations st)" using leased_operation_bound by blast
  have d: "opCheckPublication (op_at st n) = Some p" "cpObservations p < observation_budget"
    using moved(3) by (simp_all add: desired_ok_def)
  have "ops_step T (recovered x p st) t"
    by (rule check_moved_ops [OF ops_step_length [OF recovered_ops n] _ d(2) moved(4)])
      (use d(1) recovered_publication [OF n] in simp)
  then show ?thesis using ops_step_trans recovered_ops by blast
qed

lemma check_commit_ops:
  assumes "check_commit k w (x, i, token, sent, answer) st = Inr (u, t)"
  shows "ops_step T st t"
  using assms
proof (cases rule: check_commit_cases)
  case (fail n reason)
  then show ?thesis using check_fail_ops leased_operation_bound by blast
next
  case (uncertain n p)
  then have n: "n < length (stOperations st)" using leased_operation_bound by blast
  show ?thesis
    unfolding uncertain(3)
    by (rule ops_step_set [OF n, of T "op_at (check_uncertain x n p st) n"])
      (use n in \<open>simp_all add: op_step_def within_budget_def check_uncertain_def check_step_def set_status_def Let_def set_op_def op_at_def\<close>)
next
  case (observed n p v)
  then have n: "n < length (stOperations st)" using leased_operation_bound by blast
  show ?thesis
    unfolding observed(10)
    by (rule ops_step_set [OF n, of T "op_at (check_observed x n p v st) n"])
      (use n observed(2) in \<open>simp_all add: op_step_def within_budget_def publication_step_def check_observed_def check_step_def
        set_status_def set_phase_def set_publication_def Let_def set_op_def op_at_def\<close>)
qed

section \<open>Any run\<close>

lemma lease_operation_ops:
  assumes "lease_operation p (now, token) st = Inr (out, t)" and "token \<in> T"
  shows "ops_step T st t"
proof (cases "candidate p now st")
  case None
  then show ?thesis using assms by (auto simp: lease_operation_def split: if_splits)
next
  case (Some n)
  then have n: "n < length (stOperations st)" using candidate_least by blast
  show ?thesis
    using assms Some n
    by (auto simp: lease_operation_def Let_def op_step_def within_budget_def lease_op_def set_op_def
        intro!: ops_step_set [OF n, of _ "lease_op p now token (op_at st n)"] split: if_splits)
qed

text \<open>The token of a tick, the only new owner an operation can get.\<close>

definition token_in :: "string set \<Rightarrow> worker_request \<Rightarrow> State \<Rightarrow> bool" where
  "token_in T r st \<longleftrightarrow> (case r of LeaseTick p now token \<Rightarrow> token \<in> T | _ \<Rightarrow> True)"

lemma token_in_UNIV [simp]: "token_in UNIV r st"
  by (simp add: token_in_def split: worker_request.splits)

lemma serve_ops:
  assumes "serve k w r st = Inr (u, t)" and "token_in T r st"
  shows "ops_step T st t"
proof (cases r)
  case (UserCommand x c i)
  then obtain out a where "queue_worker_job (with_checks k (wxNow x) i w) a x c st = Inr (out, t) \<or>
      manage_worker_job x c st = Inr (out, t)"
    using assms
    by (auto simp: serve_def worker_parts_def forget_Inr execute_worker_command_def Let_def split: option.splits if_splits)
  then show ?thesis using queue_worker_job_ops manage_worker_job_ops by blast
next
  case (ClaimWork prior x p v)
  then show ?thesis
    using assms claim_loop_ops by (auto simp: serve_def worker_parts_def forget_Inr elim!: claim_worker_loop)
qed (use assms mutate_worker_ops check_prepare_ops check_commit_ops lease_operation_ops in
    \<open>auto simp: serve_def worker_parts_def forget_Inr token_in_def\<close>)

interpretation checks_run: transactional "serve k w" "token_in T" "ops_step T s" for k w T s
  by unfold_locales (rule ops_step_trans [OF _ serve_ops])

lemma run_ops_in: "run_ok (serve k w) (token_in T) st rs \<Longrightarrow> ops_step T st (run_all (serve k w) st rs)"
  using checks_run.run_keeps [OF ops_step_refl] .

lemma run_ok_UNIV: "run_ok (serve k w) (token_in UNIV) st rs"
  by (induction rs arbitrary: st) simp_all

lemmas run_ops = run_ops_in [OF run_ok_UNIV]

text \<open>The index of an operation does not move.\<close>

lemma op_index_Some:
  "op_index st i = Some n \<longleftrightarrow> n < length (stOperations st) \<and> mID (opMeta (op_at st n)) = i \<and>
     (\<forall>m<n. mID (opMeta (op_at st m)) \<noteq> i)"
  unfolding op_index_def op_at_def find_Some_iff
  by (auto simp: nth_append)

lemma ops_step_index: "ops_step T st t \<Longrightarrow> op_index st i = Some n \<Longrightarrow> op_index t i = Some n"
  unfolding op_index_Some by (auto simp: ops_step_def op_step_def)

lemma leased_index: "leased_operation x i token st = Inr n \<Longrightarrow> op_index st i = Some n"
  by (auto simp: leased_operation_def split: option.splits if_splits)

end
