(* ===== verification/WorkerClaims.thy ===== *)
theory WorkerClaims
  imports WorkerLeases
begin

text \<open>
  The pass of a claim over the queue: which job it takes, from which status, and what it does to the jobs
  it passes over.
\<close>

section \<open>Jobs that can be taken\<close>

text \<open>A queued job, or one whose lease has expired before it was started.\<close>

definition takeable :: "State \<Rightarrow> WorkerJob \<Rightarrow> time \<Rightarrow> bool" where
  "takeable st j now \<longleftrightarrow> jStatus j = ''QUEUED'' \<or> jStatus j = ''CLAIMED'' \<and> lease_expired st j now"

lemma recovered_queued:
  assumes "n < length (stWorkerJobs st)" and "jStatus (job_at (recover_worker x now n st) n) = ''QUEUED''"
  shows "takeable st (job_at st n) now"
  using assms
  by (auto simp: takeable_def recover_worker_def Let_def job_at_audit job_at_set recovered_status_def split: if_splits)

lemma takeable_kept: "other_kept n st t \<Longrightarrow> takeable t (job_at t n) now = takeable st (job_at st n) now"
  by (simp add: other_kept_def takeable_def lease_expired_def)

lemma claim_loop_grants:
  "claim_loop w a x p v ns (None, st) = Inr (Some l, t) \<Longrightarrow> distinct ns \<Longrightarrow>
     \<forall>m\<in>set ns. m < length (stWorkerJobs st) \<Longrightarrow> worker_inv st \<Longrightarrow>
   \<exists>n\<in>set ns. wlJob l = job_at t n \<and> leased w a x p v l (job_at st n) \<and>
     current_attempt t (job_at t n) = Some (wlAttempt l) \<and> takeable st (job_at st n) (wxNow x)"
proof (induction ns arbitrary: st)
  case (Cons m ns)
  from Cons.prems(1) obtain o1 s where s: "claim_one w a x p v m (None, st) = Inr (o1, s)"
      "claim_loop w a x p v ns (o1, s) = Inr (Some l, t)"
    by (auto split: sum.splits)
  have m: "m < length (stWorkerJobs st)" and jo: "jobs_ok st" using Cons.prems by (simp_all add: worker_inv_def)
  have inv: "worker_inv s" and len: "length (stWorkerJobs s) = length (stWorkerJobs st)"
    using claim_one_inv [OF s(1) m Cons.prems(4)] claim_one_ok [OF s(1) m jo] by simp_all
  show ?case
  proof (cases o1)
    case None
    then obtain n where n: "n \<in> set ns" "wlJob l = job_at t n" "leased w a x p v l (job_at s n)"
        "current_attempt t (job_at t n) = Some (wlAttempt l)" "takeable s (job_at s n) (wxNow x)"
      using Cons.IH [of s] s(2) inv len Cons.prems by auto
    have k: "other_kept n st s"
      by (rule claim_one_other [OF s(1) [unfolded None] jo m]) (use n(1) Cons.prems(2,3) in auto)
    then have "job_at s n = job_at st n" by (simp add: other_kept_def)
    then have "leased w a x p v l (job_at st n)" "takeable st (job_at st n) (wxNow x)"
      using n(3,5) takeable_kept [OF k] by simp_all
    then show ?thesis using n(1,2,4) by (intro bexI [of _ n]) simp_all
  next
    case (Some l')
    have "Some l = Some l' \<and> other_kept m s t"
      by (rule claim_loop_some [of w a x p v ns])
        (use s(2) Some Cons.prems inv len in \<open>auto simp: worker_inv_def\<close>)
    moreover have "wlJob l' = job_at s m \<and> leased w a x p v l' (job_at st m) \<and> current_attempt s (job_at s m) = Some (wlAttempt l')"
      by (rule claim_one_grants [OF s(1) [unfolded Some] Cons.prems(4) m])
    moreover have "takeable st (job_at st m) (wxNow x)"
      using s(1) [unfolded Some] by (cases rule: claim_one_cases) (auto intro: recovered_queued [OF m])
    ultimately show ?thesis by (auto simp: other_kept_def)
  qed
qed simp

section \<open>Jobs that are passed over\<close>

definition passed_over :: "WorkerClaim \<Rightarrow> WorkerJob \<Rightarrow> WorkerJob \<Rightarrow> bool" where
  "passed_over v j k \<longleftrightarrow> k = j \<or>
     mProductID (jMeta j) = wcProductID v \<and> wiRepositoryID (jInputs j) = wcRepositoryID v \<and> jCapability j = wcCapability v \<and>
     \<not> worker_terminal (jStatus j) \<and> same_job j k \<and> jFence k = jFence j \<and> jStatus k \<noteq> ''CLAIMED''"

lemma recover_passed:
  assumes "n < length (stWorkerJobs st)"
  shows "job_at (recover_worker x now n st) n = job_at st n \<or>
    \<not> worker_terminal (jStatus (job_at st n)) \<and> jStatus (job_at (recover_worker x now n st) n) \<noteq> ''CLAIMED''"
  using assms by (auto simp: recover_worker_def Let_def job_at_audit job_at_set recovered_status_def)

lemma recover_terminal: "worker_terminal (jStatus (job_at st n)) \<Longrightarrow> recover_worker x now n st = st"
  by (simp add: recover_worker_def Let_def)

lemma claim_one_quiet: "claim_one w a x p v n (out, st) = Inr (out', t) \<Longrightarrow> \<not> claim_matches v st (job_at st n) \<Longrightarrow> t = st"
  by (simp add: claim_one_def)

lemma claim_one_passed:
  assumes "claim_one w a x p v n (out, st) = Inr (out', t)" and n: "n < length (stWorkerJobs st)"
  shows "passed_over v (job_at st n) (job_at t n) \<or>
    (\<exists>l. out = None \<and> out' = Some l \<and> mID (jMeta (wlJob l)) = mID (jMeta (job_at st n)))"
proof (cases "claim_matches v st (job_at st n)")
  case False
  then show ?thesis using claim_one_quiet [OF assms(1)] by (simp add: passed_over_def)
next
  case True
  define r where "r = recover_worker x (wxNow x) n st"
  note f = recovered_fields [OF n, of x "wxNow x", folded r_def]
  have nr: "n < length (stWorkerJobs r)" using n by (simp add: r_def)
  show ?thesis
    using assms(1)
  proof (cases rule: claim_one_cases)
    case recover
    then show ?thesis using True f recover_passed [OF n, of x "wxNow x"] unfolding passed_over_def claim_matches_def r_def by auto
  next
    case (settle s action)
    have t: "t = settle x (wxNow x) n s action r" using settle(2) by (simp add: r_def)
    have "jStatus (job_at t n) = s" using nr by (simp add: t settle_def job_at_audit job_at_set)
    moreover have "same_job (job_at st n) (job_at t n)" "jFence (job_at t n) = jFence (job_at st n)"
      using f settle_fields [OF nr, of x "wxNow x" s action] by (auto simp: t same_job_def)
    moreover have "\<not> worker_terminal (jStatus (job_at st n))"
      using settle(3) recover_terminal [of st n x "wxNow x"] by (auto simp: worker_terminal_def)
    ultimately show ?thesis using True settle(4) unfolding passed_over_def claim_matches_def by auto
  next
    case grant
    obtain l where l: "out' = Some l" "wlJob l = job_at t n"
      using grant(6) grant_state [OF grant(6)] by (auto simp: grant_def Let_def attach_patch_def job_at_def worker_audit_jobs split: sum.splits option.splits)
    have "mID (jMeta (job_at t n)) = mID (jMeta (job_at st n))"
      using f(2) nr unfolding grant_state [OF grant(6)] r_def [symmetric]
      by (simp add: job_at_audit granted_def Let_def same_job_def) (simp add: job_at_def set_job_def)
    then show ?thesis using l grant(1) by auto
  qed (simp add: passed_over_def)
qed

text \<open>A pass changes no other job, also when it grants.\<close>

lemma claim_one_apart:
  assumes "claim_one w a x p v m (out, st) = Inr (out', t)" and m: "m < length (stWorkerJobs st)" "m \<noteq> n"
  shows "job_at t n = job_at st n"
proof -
  have r: "job_at (recover_worker x now m st) n = job_at st n" for now
    using m by (auto simp: recover_worker_def Let_def job_at_audit job_at_set)
  have len: "m < length (stWorkerJobs (recover_worker x now m st))" for now using m by simp
  show ?thesis
    using assms(1)
  proof (cases rule: claim_one_cases)
    case (settle s action)
    then show ?thesis using m(2) len r by (simp add: settle_def job_at_audit job_at_set)
  next
    case grant
    show ?thesis using m(2) len [of "wxNow x"] r unfolding grant_state [OF grant(6)]
      by (simp add: job_at_audit granted_def Let_def) (simp add: job_at_def set_job_def)
  qed (simp_all add: r)
qed

lemma claim_loop_apart:
  "claim_loop w a x p v ns (out, st) = Inr (out', t) \<Longrightarrow> \<forall>m\<in>set ns. m < length (stWorkerJobs st) \<Longrightarrow> jobs_ok st \<Longrightarrow>
   (n \<notin> set ns \<longrightarrow> job_at t n = job_at st n) \<and> (out \<noteq> None \<longrightarrow> out' = out)"
proof (induction ns arbitrary: out st)
  case (Cons m ns)
  from Cons.prems(1) obtain o1 s where s: "claim_one w a x p v m (out, st) = Inr (o1, s)"
      "claim_loop w a x p v ns (o1, s) = Inr (out', t)"
    by (auto split: sum.splits)
  have ok: "jobs_ok s \<and> length (stWorkerJobs s) = length (stWorkerJobs st)"
    using claim_one_ok [OF s(1)] Cons.prems by simp
  have "out \<noteq> None \<longrightarrow> o1 = out" using s(1) by (cases out) (auto dest: claim_one_some)
  then show ?case using Cons.IH [OF s(2)] ok Cons.prems(2) claim_one_apart [OF s(1), of n] by auto
qed simp

lemma claim_loop_passed:
  "claim_loop w a x p v ns (out, st) = Inr (out', t) \<Longrightarrow> distinct ns \<Longrightarrow> \<forall>m\<in>set ns. m < length (stWorkerJobs st) \<Longrightarrow>
     jobs_ok st \<Longrightarrow>
   passed_over v (job_at st n) (job_at t n) \<or>
     (\<exists>l. out = None \<and> out' = Some l \<and> mID (jMeta (wlJob l)) = mID (jMeta (job_at st n)))"
proof (induction ns arbitrary: out st)
  case (Cons m ns)
  from Cons.prems(1) obtain o1 s where s: "claim_one w a x p v m (out, st) = Inr (o1, s)"
      "claim_loop w a x p v ns (o1, s) = Inr (out', t)"
    by (auto split: sum.splits)
  have m: "m < length (stWorkerJobs st)" using Cons.prems by simp
  have ok: "jobs_ok s" "\<forall>k\<in>set ns. k < length (stWorkerJobs s)"
    using claim_one_ok [OF s(1) m] Cons.prems by simp_all
  note rest = claim_loop_apart [OF s(2) ok(2,1), of n]
  show ?case
  proof (cases "n = m")
    case True
    then have "job_at t n = job_at s n" using rest Cons.prems(2) by simp
    then show ?thesis using claim_one_passed [OF s(1) m] rest True by auto
  next
    case False
    then have "job_at s n = job_at st n" using claim_one_apart [OF s(1) m] by simp
    moreover have "out \<noteq> None \<longrightarrow> o1 \<noteq> None" using s(1) by (cases out) (auto dest: claim_one_some)
    ultimately show ?thesis using Cons.IH [OF s(2) _ ok(2,1)] Cons.prems(2) by auto
  qed
qed (simp add: passed_over_def)

lemma claim_worker_grants:
  assumes "claim_worker w prior (x, p, v) st = Inr (Some l, t)" and "worker_inv st"
  obtains n a where "wkAuthority w = Some a" "n < length (stWorkerJobs st)" "wlJob l = job_at t n"
    "leased w a x p v l (job_at st n)" "current_attempt t (job_at t n) = Some (wlAttempt l)"
    "in_scope w a p (wcProductID v) (wcRepositoryID v) (wcCapability v) (wxNow x)"
    "takeable st (job_at st n) (wxNow x)"
    "\<And>k. k < length (stWorkerJobs st) \<Longrightarrow> k \<noteq> n \<Longrightarrow> passed_over v (job_at st k) (job_at t k)"
proof (rule claim_worker_loop [OF assms(1)])
  fix a
  assume a: "wkAuthority w = Some a" "in_scope w a p (wcProductID v) (wcRepositoryID v) (wcCapability v) (wxNow x)"
    "claim_loop w a x p v [0..<length (stWorkerJobs st)] (None, st) = Inr (Some l, t)"
  obtain n where n: "n < length (stWorkerJobs st)" "wlJob l = job_at t n" "leased w a x p v l (job_at st n)"
      "current_attempt t (job_at t n) = Some (wlAttempt l)" "takeable st (job_at st n) (wxNow x)"
    using claim_loop_grants [OF a(3) _ _ assms(2)] by auto
  have "passed_over v (job_at st k) (job_at t k)" if k: "k < length (stWorkerJobs st)" "k \<noteq> n" for k
  proof -
    have jo: "jobs_ok st" using assms(2) by (simp add: worker_inv_def)
    have "mID (jMeta (wlJob l)) \<noteq> mID (jMeta (job_at st k))"
      using n(3) jobs_ok_other [OF jo n(1) k(1)] k(2) by (auto simp: leased_def)
    then show ?thesis using claim_loop_passed [OF a(3) _ _ jo, of k] by auto
  qed
  then show thesis using that a(1,2) n by blast
qed

end
