(* ===== verification/WorkerProperties.thy ===== *)
theory WorkerProperties
  imports WorkerClaims
begin

text \<open>
  Properties of any run of worker requests and check ticks: fences, final states, leases, reports and
  the idempotence of the queue, with a sample run from an empty queue to an accepted report.
\<close>

section \<open>A sample run\<close>

definition sample_checks :: CheckEnv where
  "sample_checks = \<lparr>ckProvider = True, ckPort = (\<lambda>u. []), ckString = (\<lambda>u h p. uScheme u @ ''://'' @ h @ p),
     ckWriteHash = (\<lambda>w. crwStatus w @ crwConclusion w), ckSnapshotHash = (\<lambda>s. []), ckParentHash = (\<lambda>o'. []),
     ckDeliveryAllowed = (\<lambda>st o'. Inr ())\<rparr>"

definition sample_parts :: WorkerParts where
  "sample_parts = \<lparr>wkEnv = sample_env, wkAuthority = Some sample_authority, wkInputHash = wiSourceSHA,
     wkRequestHash = (\<lambda>p i a v. p @ i @ a @ qiSourceSHA v), wkBindPatch = (\<lambda>st r t p s i. Inr None),
     wkPatch = (\<lambda>st j. Inr JNull), wkQueueCheck = (\<lambda>st i. Inr st), wkCheckAuthority = (\<lambda>st o'. Inr ()),
     wkCheckReady = (\<lambda>st j. True), wkManaged = (\<lambda>st j. Inr ()), wkOrigin = (\<lambda>st j. Inr ()),
     wkRegistryReport = (\<lambda>j a r now. Inr ())\<rparr>"

definition worker_meta :: "string \<Rightarrow> Meta" where
  "worker_meta i = \<lparr>mID = i, mProductID = ''p1'', mFeatureID = ''f1'', mActor = ''ann'', mCreatedAt = 0, mUpdatedAt = 0\<rparr>"

definition sample_sha :: string where
  "sample_sha = replicate 40 (CHR ''a'')"

definition worker_state :: State where
  "worker_state = zero_State\<lparr>
     stIntegrations := [zero_Integration\<lparr>iMeta := worker_meta ''i1''\<rparr>],
     stIntegrationRevisions := [zero_IntegrationRevision\<lparr>revMeta := worker_meta ''v1'', revIntegrationID := ''i1'',
       revRepositoryID := ''r1'', revHeadCommit := sample_sha\<rparr>],
     stRepositories := [zero_Repository\<lparr>repoMeta := worker_meta ''r1'', repoURL := ''https://github.com/o/r''\<rparr>]\<rparr>"

definition worker_ctx :: "string \<Rightarrow> time \<Rightarrow> WorkerCtx" where
  "worker_ctx i now = \<lparr>wxNow = now, wxID = i, wxOperationID = ''op-'' @ i, wxEventID = (\<lambda>n. ''e'')\<rparr>"

definition queue_command :: Command where
  "queue_command = zero_Command\<lparr>cAction := ''queue_worker_job'', cActor := ''ann'', cProductID := ''p1'',
     cIntegrationID := ''i1'', cData := [(''request_key'', JStr ''request-0000000001''), (''recipe_id'', JStr ''build''),
       (''recipe_revision'', JStr ''1''), (''recipe_hash'', JStr sample_digest), (''config_revision'', JStr ''rev1''),
       (''revision_id'', JStr ''v1''), (''source_sha'', JStr sample_sha), (''parameters'', JObj [(''level'', JInt 3)]),
       (''deadline'', JStr ''0001-01-01T00:10:00Z''), (''max_attempts'', JInt 2)]\<rparr>"

definition claim_request :: WorkerClaim where
  "claim_request = zero_WorkerClaim\<lparr>wcProductID := ''p1'', wcRepositoryID := ''r1'', wcCapability := ''source_check''\<rparr>"

definition attempt_request :: WorkerAttemptRequest where
  "attempt_request = \<lparr>wrJobID = ''j1'', wrAttemptID = ''a1'', wrFence = 1, wrInputHash = sample_sha\<rparr>"

definition sample_report :: "string \<Rightarrow> WorkerReport" where
  "sample_report s = zero_WorkerReport\<lparr>repWorkerAttemptRequest := attempt_request, repResult := s\<rparr>"

definition worker_requests :: "worker_request list" where
  "worker_requests =
     [UserCommand (worker_ctx ''j1'' 5) queue_command [],
      ClaimWork 6 (worker_ctx ''a1'' 6) sample_principal claim_request,
      MutateLease (worker_ctx ''m1'' 7) sample_principal attempt_request Start,
      MutateLease (worker_ctx ''m2'' 8) sample_principal attempt_request (Report (sample_report ''PASSED''))]"

lemma run_worker_inv:
  "worker_inv st \<Longrightarrow> run_ok (serve k w) fresh_ids st rs \<Longrightarrow> worker_inv (run_all (serve k w) st rs)"
  by (rule service.run_keeps)

lemma empty_worker_inv: "stWorkerJobs st = [] \<Longrightarrow> stWorkerAttempts st = [] \<Longrightarrow> worker_inv st"
  by (simp add: worker_inv_def jobs_ok_def attempts_ok_def job_ids_def)

lemma worker_run_ok: "run_ok (serve sample_checks sample_parts) fresh_ids worker_state (take 2 worker_requests)"
  by code_simp

text \<open>A state with one job, of a given status.\<close>

definition one_job :: "string \<Rightarrow> State" where
  "one_job s = worker_state\<lparr>stWorkerJobs := [zero_WorkerJob\<lparr>jMeta := worker_meta ''j1'', jStatus := s, jFence := 1,
     jMaxAttempts := 2, jDeadline := 100\<rparr>]\<rparr>"

lemma one_job_simps [simp]:
  "length (stWorkerJobs (one_job s)) = 1" "jStatus (job_at (one_job s) 0) = s" "jFence (job_at (one_job s) 0) = 1"
  by (simp_all add: one_job_def job_at_def)

section \<open>Fences\<close>

text \<open>C16. In any run of commands, claims, lease mutations and check ticks, IDs of jobs stay unique and
  no two attempts of a job hold the same fence; the fence of an attempt lies between 1 and the fence of
  its job, which never passes the job's \<open>MaxAttempts\<close>, and its lease ends no later than the job's
  deadline.\<close>

theorem attempts_fenced:
  assumes "worker_inv st" and "run_ok (serve k w) fresh_ids st rs" and t: "t = run_all (serve k w) st rs"
  shows "distinct (job_ids t) \<and> distinct (map (\<lambda>a. (aJobID a, aFence a)) (stWorkerAttempts t)) \<and>
    list_all (\<lambda>a. list_ex (\<lambda>j. mID (jMeta j) = aJobID a \<and> 0 < uint (aFence a) \<and> uint (aFence a) \<le> uint (jFence j) \<and>
      uint (jFence j) \<le> jMaxAttempts j \<and> aLeaseUntil a \<le> jDeadline j) (stWorkerJobs t)) (stWorkerAttempts t)"
proof -
  have inv: "jobs_ok t" "attempts_ok t" using run_worker_inv [OF assms(1,2)] t by (simp_all add: worker_inv_def)
  have "\<exists>j\<in>set (stWorkerJobs t). mID (jMeta j) = aJobID a \<and> 0 < uint (aFence a) \<and> uint (aFence a) \<le> uint (jFence j) \<and>
      uint (jFence j) \<le> jMaxAttempts j \<and> aLeaseUntil a \<le> jDeadline j" if a: "a \<in> set (stWorkerAttempts t)" for a
  proof -
    obtain j where j: "j \<in> set (stWorkerJobs t)" "fits j (attempt_row a)"
      using inv(2) a by (auto simp: attempts_ok_def)
    have "job_ok j" using inv(1) j(1) by (simp add: jobs_ok_def)
    then have "uint (jFence j) \<le> jMaxAttempts j"
      by (auto simp: job_ok_def fence_bounded_def word_le_def uint_word_of_int)
    then show ?thesis using j by (auto simp: fits_def attempt_row_def word_less_def word_le_def)
  qed
  then show ?thesis using inv by (auto simp: jobs_ok_def attempts_ok_def list_all_iff list_ex_iff)
qed

theorem attempts_fenced_witness:
  "distinct (job_ids (run_all (serve sample_checks sample_parts) worker_state (take 2 worker_requests)))"
  using attempts_fenced [OF empty_worker_inv worker_run_ok refl] by (simp add: worker_state_def zero_State_def)

section \<open>Final states\<close>

text \<open>C17. The outcome of a job is final: whatever requests of the worker protocol and check ticks
  follow, a job that has succeeded, failed, been cancelled or passed its deadline keeps its status and fence
  and everything it was queued with.\<close>

theorem terminal_job_final:
  assumes "n < length (stWorkerJobs st)" and "worker_terminal (jStatus (job_at st n))"
  shows "jStatus (job_at (run_all (serve k w) st rs) n) = jStatus (job_at st n) \<and>
    jFence (job_at (run_all (serve k w) st rs) n) = jFence (job_at st n) \<and>
    same_job (job_at st n) (job_at (run_all (serve k w) st rs) n)"
  using run_path [of st k w rs] assms terminal_path job_path_same unfolding jobs_path_def by blast

theorem terminal_job_final_witness:
  "jStatus (job_at (run_all (serve sample_checks sample_parts) (one_job ''FAILED'') worker_requests) 0) = ''FAILED''"
  using terminal_job_final [of 0 "one_job ''FAILED''" sample_checks sample_parts worker_requests]
  by (simp add: worker_terminal_def)

text \<open>C18. An execution that may have started is never handed out again: once a job runs or waits for
  reconciliation, no later request of the worker protocol or check tick queues or claims it, its fence stays the one of that execution, and
  its inputs are the ones it started with.\<close>

theorem started_job_not_replayed:
  assumes "n < length (stWorkerJobs st)" and "jStatus (job_at st n) \<in> {''RUNNING'', ''RECONCILIATION_REQUIRED''}"
  shows "jStatus (job_at (run_all (serve k w) st rs) n) \<notin> {''QUEUED'', ''CLAIMED'', ''DEADLINE_EXCEEDED''} \<and>
    jFence (job_at (run_all (serve k w) st rs) n) = jFence (job_at st n) \<and>
    jInputs (job_at (run_all (serve k w) st rs) n) = jInputs (job_at st n)"
proof -
  have p: "job_path (job_at st n) (job_at (run_all (serve k w) st rs) n)"
    using run_path [of st k w rs] assms(1) by (simp add: jobs_path_def)
  have "started (jStatus (job_at st n))" using assms(2) by (auto simp: started_def)
  then show ?thesis using started_path [OF p] job_path_same [OF p] by (auto simp: started_def same_job_def)
qed

theorem started_job_not_replayed_witness:
  "jFence (job_at (run_all (serve sample_checks sample_parts) (one_job ''RUNNING'') worker_requests) 0) = 1"
  using started_job_not_replayed [of 0 "one_job ''RUNNING''" sample_checks sample_parts worker_requests] by simp

section \<open>Claims and leases\<close>


text \<open>A job of the sample recipe, in a given state, and its attempt.\<close>

definition recipe_job :: "string \<Rightarrow> WorkerJob" where
  "recipe_job s = zero_WorkerJob\<lparr>jMeta := worker_meta ''j1'', jCapability := ''source_check'', jStatus := s, jFence := 1,
     jInputHash := sample_sha, jMaxAttempts := 2, jDeadline := 100,
     jInputs := zero_WorkerInputs\<lparr>wiRecipeID := ''build'', wiRecipeRevision := ''1'', wiRecipeHash := sample_digest,
       wiConfigRevision := ''rev1'', wiRepositoryID := ''r1'', wiRepositoryURL := ''https://github.com/o/r'',
       wiSourceSHA := sample_sha, wiTrust := ''trusted_source''\<rparr>\<rparr>"

definition recipe_state :: "string \<Rightarrow> WorkerReport option \<Rightarrow> State" where
  "recipe_state s rep = worker_state\<lparr>stWorkerJobs := [recipe_job s],
     stWorkerAttempts := [\<lparr>aMeta = worker_meta ''a1'', aJobID = ''j1'', aPrincipal = ''wa'', aFence = 1,
       aInputHash = sample_sha, aLeaseUntil = 50, aStatus = s, aReport = rep\<rparr>]\<rparr>"

lemma recipe_state_inv: "worker_inv (recipe_state s rep)"
  by (simp add: worker_inv_def jobs_ok_def attempts_ok_def job_ids_def recipe_state_def recipe_job_def fits_def
      attempt_row_def job_ok_def fence_bounded_def worker_meta_def word_le_def)



text \<open>C20. A start, heartbeat or report that is accepted and changes anything is made by the worker that holds
  the lease: the caller, the fence and the input hash of the request are those of the attempt, the fence is
  the current one of the job, the credential is valid for the job's scope, the lease and the deadline have
  not passed and the job is neither cancelled nor settled; no other job changes. One that is refused and
  stored leaves exactly the state after the recovery of the job it names (an expired lease or deadline is
  recorded), which changes no other job.\<close>

theorem mutation_needs_live_lease:
  assumes "worker_inv st" and "mutate_worker w (x, p, req, m) st = Inr (out, t)" and "t \<noteq> st"
  shows "\<exists>n. worker_job st (wrJobID req) = Some n \<and> (\<forall>k. k \<noteq> n \<longrightarrow> job_at t k = job_at st k) \<and>
    (case out of
       Inl e \<Rightarrow> t = recover_worker x (wxNow x) n st
     | Inr l \<Rightarrow> \<exists>au a. wkAuthority w = Some au \<and>
         worker_attempt st (wrAttemptID req) = Some a \<and> aJobID a = mID (jMeta (job_at st n)) \<and>
         aPrincipal a = principal_id p \<and> aFence a = wrFence req \<and> jFence (job_at st n) = wrFence req \<and>
         aInputHash a = wrInputHash req \<and> jInputHash (job_at st n) = wrInputHash req \<and>
         in_scope w au p (mProductID (jMeta (job_at st n))) (wiRepositoryID (jInputs (job_at st n)))
           (jCapability (job_at st n)) (wxNow x) \<and>
         wxNow x < aLeaseUntil a \<and> wxNow x < jDeadline (job_at st n) \<and> \<not> jCancellationRequested (job_at st n) \<and>
         \<not> worker_terminal (jStatus (job_at st n)) \<and> jStatus (job_at st n) \<noteq> ''RECONCILIATION_REQUIRED'')"
  using assms(2)
proof (cases rule: mutate_worker_cases)
  case (lost n e)
  have "job_at t k = job_at st k" if "k \<noteq> n" for k
    using that worker_job_bound [OF lost(1)] by (auto simp: lost(2) recover_worker_def Let_def job_at_audit job_at_set)
  then show ?thesis using lost by simp
next
  case (same au n a0 a)
  then show ?thesis using live_not_recovered [OF assms(1) same(1,3,4)] assms(3) by simp
next
  case (change au n a0 a j b reg)
  have r: "recover_worker x (wxNow x) n st = st"
    by (rule live_not_recovered [OF assms(1) change(2,3,4,6,7)])
  have a: "a = a0" using change(3,6) r by simp
  have n: "n < length (stWorkerJobs st)" using worker_job_bound [OF change(2)] by simp
  have k: "job_at t k = job_at st k" if "k \<noteq> n" for k
    using n that unfolding apply_change_state [OF change(9)] r
    by (simp add: job_at_audit) (simp add: job_at_def set_job_def)
  have live: "\<not> lease_lost w (wxNow x) st (job_at st n) a0" using change(7) r a by simp
  obtain l where "out = Inr l" using change(9) unfolding apply_change_def Let_def by (simp split: sum.split_asm) metis
  then show ?thesis using change(1-4) k live by (auto simp: owned_def lease_lost_def)
qed (use assms(3) in simp_all)

definition beat :: "((go_error + WorkerLease) \<times> State) result" where
  "beat = mutate_worker sample_parts (worker_ctx ''m1'' 7, sample_principal, attempt_request, Heartbeat)
     (recipe_state ''CLAIMED'' None)"

text \<open>The same heartbeat after the lease has expired.\<close>

definition late_beat :: "((go_error + WorkerLease) \<times> State) result" where
  "late_beat = mutate_worker sample_parts (worker_ctx ''m1'' 60, sample_principal, attempt_request, Heartbeat)
     (recipe_state ''CLAIMED'' None)"

lemma recipe_state_quiet: "stEvents t \<noteq> [] \<Longrightarrow> t \<noteq> recipe_state s rep"
  by (auto simp: recipe_state_def worker_state_def zero_State_def)

theorem mutation_needs_live_lease_witness:
  "(\<exists>a. worker_attempt (recipe_state ''CLAIMED'' None) (wrAttemptID attempt_request) = Some a \<and>
     aPrincipal a = principal_id sample_principal \<and> wxNow (worker_ctx ''m1'' 7) < aLeaseUntil a) \<and>
   snd (projr late_beat) = recover_worker (worker_ctx ''m1'' 60) 60 0 (recipe_state ''CLAIMED'' None) \<and>
   snd (projr late_beat) \<noteq> recipe_state ''CLAIMED'' None"
proof -
  have "\<not> isl beat" "\<not> isl (fst (projr beat))" "stEvents (snd (projr beat)) \<noteq> []" by code_simp+
  then obtain l t where b: "beat = Inr (Inr l, t)" "stEvents t \<noteq> []" by (metis prod.collapse snd_conv sum.collapse(2) sum.sel(2))
  have "\<not> isl late_beat" "isl (fst (projr late_beat))" "stEvents (snd (projr late_beat)) \<noteq> []" by code_simp+
  then obtain e u where c: "late_beat = Inr (Inl e, u)" "stEvents u \<noteq> []"
    by (metis prod.collapse snd_conv sum.collapse(1,2) sum.sel(2))
  have n: "worker_job (recipe_state ''CLAIMED'' None) (wrJobID attempt_request) = Some 0" "wxNow (worker_ctx ''m1'' 60) = 60"
    by code_simp+
  from mutation_needs_live_lease [OF recipe_state_inv b(1) [unfolded beat_def] recipe_state_quiet [OF b(2)]]
    mutation_needs_live_lease [OF recipe_state_inv c(1) [unfolded late_beat_def] recipe_state_quiet [OF c(2)]] n
  show ?thesis using recipe_state_quiet [OF c(2)] by (auto simp: c(1))
qed

text \<open>C21. A report is accepted once: whatever requests of the worker protocol and check ticks follow, the attempt
  keeps the report it was given,
  with the caller, the fence and the input hash it was made under.\<close>

theorem report_accepted_once:
  assumes "n < length (stWorkerAttempts st)" and "aReport (stWorkerAttempts st ! n) = Some rep"
  shows "aReport (stWorkerAttempts (run_all (serve k w) st rs) ! n) = Some rep \<and>
    aJobID (stWorkerAttempts (run_all (serve k w) st rs) ! n) = aJobID (stWorkerAttempts st ! n) \<and>
    aPrincipal (stWorkerAttempts (run_all (serve k w) st rs) ! n) = aPrincipal (stWorkerAttempts st ! n) \<and>
    aFence (stWorkerAttempts (run_all (serve k w) st rs) ! n) = aFence (stWorkerAttempts st ! n) \<and>
    aInputHash (stWorkerAttempts (run_all (serve k w) st rs) ! n) = aInputHash (stWorkerAttempts st ! n)"
  using run_attempts_kept [of st k w rs] assms unfolding attempts_kept_def attempt_kept_def by force

theorem report_accepted_once_witness:
  "aReport (stWorkerAttempts (run_all (serve sample_checks sample_parts)
     (recipe_state ''FAILED'' (Some (sample_report ''CHECK_FAILED''))) worker_requests) ! 0) = Some (sample_report ''CHECK_FAILED'')"
  using report_accepted_once [of 0 "recipe_state ''FAILED'' (Some (sample_report ''CHECK_FAILED''))"
      "sample_report ''CHECK_FAILED''" sample_checks sample_parts worker_requests]
  by (simp add: recipe_state_def)

text \<open>A second report for an attempt that has one changes nothing: the same report is answered as
  before, a different one is an error.\<close>

theorem report_replay:
  assumes "worker_attempt st (wrAttemptID req) = Some a" and "aReport a = Some old"
    and "mutate_worker w (x, p, req, Report rep) st = Inr (out, t)"
  shows "rep = old \<and> t = st \<and> (\<exists>l. out = Inr l \<and> wlAttempt l = a)"
  using assms
  by (auto simp: mutate_worker_def Let_def replayed_def split: option.splits if_splits sum.splits bool.splits)

definition replayed_report :: "((go_error + WorkerLease) \<times> State) result" where
  "replayed_report = mutate_worker sample_parts
     (worker_ctx ''m1'' 7, sample_principal, attempt_request, Report (sample_report ''PASSED''))
     (recipe_state ''SUCCEEDED'' (Some (sample_report ''PASSED'')))"

theorem report_replay_witness:
  "snd (projr replayed_report) = recipe_state ''SUCCEEDED'' (Some (sample_report ''PASSED''))"
proof -
  have "\<not> isl replayed_report" by code_simp
  then obtain out t where r: "replayed_report = Inr (out, t)" by (metis prod.collapse sum.collapse(2))
  have "worker_attempt (recipe_state ''SUCCEEDED'' (Some (sample_report ''PASSED''))) (wrAttemptID attempt_request) =
      Some (hd (stWorkerAttempts (recipe_state ''SUCCEEDED'' (Some (sample_report ''PASSED'')))))"
    by (simp add: worker_attempt_def recipe_state_def attempt_request_def worker_meta_def)
  then have "t = recipe_state ''SUCCEEDED'' (Some (sample_report ''PASSED''))"
    using report_replay [OF _ _ r [unfolded replayed_report_def]] by (simp add: recipe_state_def)
  then show ?thesis by (simp add: r)
qed

section \<open>The queue\<close>

lemma job_request_hash: "same_job j k \<Longrightarrow> jRequestHash k = jRequestHash j"
  by (simp add: same_job_def)

text \<open>Queueing is idempotent in the request key: the same command sent again, at another time and
  with other fresh IDs, returns the job that the first one made and leaves the state as it is.\<close>

theorem queue_idempotent:
  assumes "execute_worker_command (with_checks k now i w) (x, c) st = Inr (j, t)" and q: "cAction c = ''queue_worker_job''"
  shows "\<exists>j'. execute_worker_command (with_checks k now' i' w) (x', c) t = Inr (j', t) \<and> mID (jMeta j') = mID (jMeta j)"
proof -
  from assms obtain a where a: "wkAuthority w = Some a" "trim_space (cActor c) \<noteq> []"
      "\<not> (native_quarantined st (cProductID c) \<and> (case find_recipe a (data_string (cData c) ''recipe_id'') of
           None \<Rightarrow> False | Some r \<Rightarrow> recCapability r = ''local_oci_build''))"
      "queue_worker_job (with_checks k now i w) a x c st = Inr (j, t)"
    by (auto simp: execute_worker_command_def with_checks_def split: option.splits if_splits)
  then obtain v where v: "queue_input c = Inr v" by (auto simp: queue_worker_job_def split: sum.splits)
  have nq: "native_quarantined t p = native_quarantined st p" for p
    by (simp add: native_quarantined_def queue_quarantines [OF a(4)])
  have old: "\<exists>j0. previous_job t (cProductID c) (qiRequestKey v) = Some j0 \<and> mID (jMeta j0) = mID (jMeta j) \<and>
      jRequestHash j0 = wkRequestHash w (cProductID c) (cIntegrationID c) (cActor c) v"
  proof (cases "previous_job st (cProductID c) (qiRequestKey v)")
    case None
    show ?thesis
    proof (rule checks.queue_new_job [OF a(4) v None])
      fix r f inp
      assume n: "jobs_path st t" "length (stWorkerJobs t) = Suc (length (stWorkerJobs st))"
        "same_job (queued_job (with_checks k now i w) x c v r f inp) (job_at t (length (stWorkerJobs st)))"
        "mID (jMeta j) = wxID x"
      have "previous_job t (cProductID c) (qiRequestKey v) = Some (job_at t (length (stWorkerJobs st)))"
        by (rule previous_job_appended [OF n(1,2) None n(3)]) (simp_all add: queued_job_def)
      moreover have "jRequestHash (job_at t (length (stWorkerJobs st))) = wkRequestHash w (cProductID c) (cIntegrationID c) (cActor c) v"
        using job_request_hash [OF n(3)] by (simp add: queued_job_def with_checks_def)
      ultimately show ?thesis using n(3,4) by (auto simp: same_job_def queued_job_def)
    qed
  next
    case (Some j0)
    then show ?thesis using a(4) v by (auto simp: queue_worker_job_def with_checks_def split: if_splits)
  qed
  then obtain j0 where j0: "previous_job t (cProductID c) (qiRequestKey v) = Some j0" "mID (jMeta j0) = mID (jMeta j)"
      "jRequestHash j0 = wkRequestHash w (cProductID c) (cIntegrationID c) (cActor c) v" by blast
  have "execute_worker_command (with_checks k now' i' w) (x', c) t = queue_worker_job (with_checks k now' i' w) a x' c t"
    using a(1-3) q nq by (auto simp: execute_worker_command_def with_checks_def)
  also have "\<dots> = Inr (j0, t)" using v j0 by (simp add: queue_worker_job_def with_checks_def)
  finally show ?thesis using j0(2) by blast
qed

definition queued :: "(WorkerJob \<times> State) result" where
  "queued = execute_worker_command (with_checks sample_checks 5 [] sample_parts) (worker_ctx ''j1'' 5, queue_command) worker_state"

theorem queue_idempotent_witness:
  "\<exists>j. execute_worker_command (with_checks sample_checks 9 [] sample_parts) (worker_ctx ''j9'' 9, queue_command)
     (snd (projr queued)) = Inr (j, snd (projr queued)) \<and> mID (jMeta j) = ''j1''"
proof -
  have "\<not> isl queued" "mID (jMeta (fst (projr queued))) = ''j1''" by code_simp+
  then obtain j t where r: "queued = Inr (j, t)" "mID (jMeta j) = ''j1''" by (metis prod.collapse sum.collapse(2))
  show ?thesis using queue_idempotent [OF r(1) [unfolded queued_def]] r(2) by (simp add: r(1) queue_command_def)
qed

section \<open>A settled delivery rewritten\<close>

text \<open>No job is projected into the operation.\<close>

definition apart :: "string \<Rightarrow> State \<Rightarrow> bool" where
  "apart i st \<longleftrightarrow> list_all (\<lambda>j. jOperationID j \<noteq> i) (stWorkerJobs st)"

lemma apart_path: "jobs_path st t \<Longrightarrow> length (stWorkerJobs t) = length (stWorkerJobs st) \<Longrightarrow> apart i st \<Longrightarrow> apart i t"
  using job_path_same unfolding apart_def jobs_path_def list_all_length same_job_def job_at_def by metis

lemma audit_operations:
  "stOperations (worker_audit x now n actor action st) =
     update_first (\<lambda>o'. mID (opMeta o') = jOperationID (job_at st n)) (projected (touched now (job_at st n)) now) (stOperations st)"
  by (simp add: worker_audit_def Let_def set_job_def touched_def)

lemma audit_operation:
  "jOperationID (job_at st n) \<noteq> i \<Longrightarrow> operation_by_id (worker_audit x now n actor action st) i = operation_by_id st i"
  using audit_operations [of x now n actor action st]
  by (simp add: operation_by_id_def) (rule find_update_first_other; auto simp: projected_def)

lemma stop_job_length [simp]: "length (stWorkerJobs (stop_job x now st k)) = length (stWorkerJobs st)"
  by (simp add: stop_job_def Let_def worker_audit_jobs worker_job_bound close_attempt_def split: option.splits)

lemma stop_job_operation:
  assumes "apart i st"
  shows "operation_by_id (stop_job x now st k) i = operation_by_id st i"
proof (cases "worker_job st k")
  case (Some n)
  have n: "n < length (stWorkerJobs st)" using worker_job_bound [OF Some] by simp
  then have "jOperationID (job_at st n) \<noteq> i" using assms by (simp add: apart_def list_all_length job_at_def)
  then show ?thesis using n
    by (simp add: stop_job_def Some Let_def audit_operation job_at_set job_at_def close_attempt_def set_job_def cancelled_job_def)
      (simp add: operation_by_id_def)
qed (simp add: stop_job_def)

lemma stop_job_job:
  assumes "worker_job st k = Some n" and "jStatus (job_at st n) = ''RUNNING''"
  shows "jStatus (job_at (stop_job x now st k) n) = ''RECONCILIATION_REQUIRED''"
  using assms worker_job_bound [OF assms(1)]
  by (simp add: stop_job_def Let_def worker_terminal_def job_at_audit) (simp add: job_at_def set_job_def close_attempt_def cancelled_job_def)

lemma stop_job_other:
  assumes "worker_job st k \<noteq> Some n"
  shows "job_at (stop_job x now st k) n = job_at st n"
proof (cases "worker_job st k")
  case (Some m)
  then have "m < length (stWorkerJobs st)" "m \<noteq> n" using worker_job_bound [OF Some] assms by auto
  then show ?thesis by (simp add: stop_job_def Some Let_def job_at_audit) (simp add: job_at_def set_job_def close_attempt_def)
qed (simp add: stop_job_def)

lemma stop_native_operation:
  assumes "operation_by_id st i = Some o'" and "apart i st"
  shows "operation_by_id (stop_native_delivery x now i status detail st) i = Some (stopped_operation status detail now o')"
proof -
  define s where "s = st\<lparr>stOperations := update_first (\<lambda>p. mID (opMeta p) = i) (stopped_operation status detail now) (stOperations st)\<rparr>"
  have "mID (opMeta o') = i" using find_Some_prop [OF assms(1) [unfolded operation_by_id_def]] .
  then have s: "operation_by_id s i = Some (stopped_operation status detail now o')"
    using assms(1) unfolding operation_by_id_def s_def by (simp add: find_update_first stopped_operation_def)
  have "apart i s" using assms(2) by (simp add: apart_def s_def)
  then have "operation_by_id (stop_job x now (stop_job x now s k) l) i = operation_by_id s i" for k l
    using stop_job_operation apart_path [OF stop_job_path stop_job_length] by metis
  then show ?thesis using s by (simp add: stop_native_delivery_def assms(1) s_def Let_def split: option.splits)
qed

lemma stop_native_job:
  assumes "worker_job st k = Some n" and "jStatus (job_at st n) = ''RUNNING''" and "operation_by_id st i = Some o'"
    and "opNative o' = Some d" and "ndBuildJobID d = k" and "ndPublicationJobID d \<noteq> k"
  shows "jStatus (job_at (stop_native_delivery x now i status detail st) n) = ''RECONCILIATION_REQUIRED''"
proof -
  define s where "s = st\<lparr>stOperations := update_first (\<lambda>p. mID (opMeta p) = i) (stopped_operation status detail now) (stOperations st)\<rparr>"
  have same: "worker_job s = worker_job st" "job_at s = job_at st" by (simp_all add: s_def worker_job_def job_at_def fun_eq_iff)
  have n: "n < length (stWorkerJobs s)" "mID (jMeta (job_at st n)) = k" using worker_job_bound [OF assms(1)] by (simp_all add: s_def)
  define r where "r = stop_job x now s k"
  have r: "jStatus (job_at r n) = ''RECONCILIATION_REQUIRED''" using stop_job_job assms(1,2) by (simp add: r_def same)
  have "mID (jMeta (job_at r n)) = k"
    using stop_job_path [of s x now k] n same job_path_same unfolding r_def jobs_path_def same_job_def by metis
  then have "worker_job r (ndPublicationJobID d) \<noteq> Some n" using worker_job_bound [of r "ndPublicationJobID d" n] assms(6) by auto
  then have "job_at (stop_job x now r (ndPublicationJobID d)) n = job_at r n" by (rule stop_job_other)
  then show ?thesis using r by (simp add: stop_native_delivery_def assms(3-5) s_def [symmetric] r_def)
qed

definition cancels :: "Command \<Rightarrow> WorkerJob \<Rightarrow> bool" where
  "cancels c j \<longleftrightarrow> cAction c = ''cancel_worker_job'' \<and> trim_space (cActor c) \<noteq> [] \<and> cData c = [] \<and>
     cProductID c = mProductID (jMeta j) \<and> cID c = mID (jMeta j) \<and>
     cFeatureID c = [] \<and> cIntegrationID c = [] \<and> cGateID c = [] \<and> cCheckID c = [] \<and> cResultID c = []"

text \<open>C37. A delivery that was blocked while its build ran is settled as \<open>FAILED\<close> and leaves the build job to be
  reconciled; cancelling that job is accepted and settles the delivery once more, as \<open>CANCELLED\<close> with a new
  finishing time. This holds in every state in which the delivery has no external pull request, is not being
  applied, and is not itself the operation that shows a job.\<close>

theorem cancel_rewrites_failed_delivery:
  assumes job: "worker_job st (cID c) = Some n" "jStatus (job_at st n) = ''RUNNING''" "wiSourceProof (jInputs (job_at st n)) = Some pr"
    and delivery: "operation_by_id st (wspDeliveryID pr) = Some o'" "opNative o' = Some d" "ndBuildJobID d = cID c" "ndPublicationJobID d \<noteq> cID c"
    and quiet: "opPhase o' \<noteq> ''APPLY_UNCERTAIN''" "opGitOpsPR o' = None" "opGitOpsResult o' = None" "apart (wspDeliveryID pr) st"
    and command: "wkAuthority w \<noteq> None" "cancels c (job_at st n)"
    and blocked: "blocked = stop_native_delivery y now (wspDeliveryID pr) ''BLOCKED'' detail st"
  shows "\<exists>v j t u. operation_by_id blocked (wspDeliveryID pr) = Some v \<and> opStatus v = ''FAILED'' \<and> opFinishedAt v = Some now \<and>
    jStatus (job_at blocked n) = ''RECONCILIATION_REQUIRED'' \<and>
    execute_worker_command w (x, c) blocked = Inr (j, t) \<and>
    operation_by_id t (wspDeliveryID pr) = Some u \<and> opStatus u = ''CANCELLED'' \<and> opFinishedAt u = Some (wxNow x)"
proof -
  let ?i = "wspDeliveryID pr"
  note op = stop_native_operation [OF delivery(1) quiet(4), of y now "''BLOCKED''" detail, folded blocked]
  have path: "jobs_path st blocked" unfolding blocked by (rule stop_native_delivery_path)
  have len: "length (stWorkerJobs blocked) = length (stWorkerJobs st)"
    by (simp add: blocked stop_native_delivery_def Let_def split: option.splits)
  have apart: "apart ?i blocked" by (rule apart_path [OF path len quiet(4)])
  have same: "same_job (job_at st m) (job_at blocked m)" if "m < length (stWorkerJobs st)" for m
    using path that job_path_same by (auto simp: jobs_path_def)
  have n: "n < length (stWorkerJobs st)" using worker_job_bound [OF job(1)] by simp
  have "\<forall>m<length (stWorkerJobs st). mID (jMeta (job_at blocked m)) = mID (jMeta (job_at st m))" using same by (simp add: same_job_def)
  then have wj: "worker_job blocked (cID c) = Some n"
    using job(1) unfolding worker_job_def len by (metis (mono_tags, lifting) find_cong atLeastLessThan_iff set_upt)
  have recon: "jStatus (job_at blocked n) = ''RECONCILIATION_REQUIRED''"
    unfolding blocked by (rule stop_native_job [OF job(1,2) delivery])
  have fields: "wiSourceProof (jInputs (job_at blocked n)) = Some pr" "mProductID (jMeta (job_at blocked n)) = mProductID (jMeta (job_at st n))"
    using same [OF n] job(3) by (simp_all add: same_job_def)
  obtain a where "wkAuthority w = Some a" using command(1) by blast
  then have "execute_worker_command w (x, c) blocked =
      Inr (job_at (stop_native_delivery x (wxNow x) ?i ''CANCELLED'' ''managed worker job cancelled'' blocked) n,
        stop_native_delivery x (wxNow x) ?i ''CANCELLED'' ''managed worker job cancelled'' blocked)"
    using command(2) wj recon fields op quiet
    by (simp add: execute_worker_command_def manage_worker_job_def cancel_worker_job_def cancels_def Let_def
        worker_terminal_def stopped_operation_def decode_def)
  then show ?thesis using op recon stop_native_operation [OF op apart, of x "wxNow x" "''CANCELLED''" "''managed worker job cancelled''"]
    by (simp add: stopped_operation_def)
qed

text \<open>A delivery whose build runs.\<close>

definition building_delivery :: State where
  "building_delivery = worker_state\<lparr>stWorkerJobs := [(recipe_job ''RUNNING'')\<lparr>jInputs := (jInputs (recipe_job ''RUNNING''))\<lparr>wiSourceProof :=
          Some \<lparr>wspParentHash = [], wspDeliveryID = ''d1'', wspParentID = [], wspSnapshotHash = []\<rparr>\<rparr>\<rparr>],
        stOperations := [zero_ExternalOperation\<lparr>opMeta := worker_meta ''d1'', opKind := ''DELIVERY'', opStatus := ''RUNNING'',
          opNative := Some (zero_NativeDelivery\<lparr>ndBuildJobID := ''j1''\<rparr>)\<rparr>]\<rparr>"

definition cancel_command :: Command where
  "cancel_command = zero_Command\<lparr>cAction := ''cancel_worker_job'', cActor := ''ann'', cProductID := ''p1'', cID := ''j1''\<rparr>"

theorem cancel_rewrites_failed_delivery_witness:
  "\<exists>v j t u blocked. blocked = stop_native_delivery (worker_ctx ''x'' 5) 5 ''d1'' ''BLOCKED'' ''release authority revoked'' building_delivery \<and>
    operation_by_id blocked ''d1'' = Some v \<and> opStatus v = ''FAILED'' \<and> opFinishedAt v = Some 5 \<and>
    execute_worker_command sample_parts (worker_ctx ''y'' 9, cancel_command) blocked = Inr (j, t) \<and>
    operation_by_id t ''d1'' = Some u \<and> opStatus u = ''CANCELLED'' \<and> opFinishedAt u = Some 9"
proof -
  let ?pr = "\<lparr>wspParentHash = [], wspDeliveryID = ''d1'', wspParentID = [], wspSnapshotHash = []\<rparr>"
  have job: "worker_job building_delivery (cID cancel_command) = Some 0" "jStatus (job_at building_delivery 0) = ''RUNNING''"
    "wiSourceProof (jInputs (job_at building_delivery 0)) = Some ?pr" by code_simp+
  let ?d = "zero_NativeDelivery\<lparr>ndBuildJobID := ''j1''\<rparr>"
  have op: "operation_by_id building_delivery (wspDeliveryID ?pr) = Some (hd (stOperations building_delivery))"
    by (simp add: operation_by_id_def building_delivery_def worker_meta_def)
  have d: "opNative (hd (stOperations building_delivery)) = Some ?d" "ndBuildJobID ?d = cID cancel_command"
    "ndPublicationJobID ?d \<noteq> cID cancel_command" by code_simp+
  have q: "opPhase (hd (stOperations building_delivery)) \<noteq> ''APPLY_UNCERTAIN''" "opGitOpsPR (hd (stOperations building_delivery)) = None"
    "opGitOpsResult (hd (stOperations building_delivery)) = None" "apart (wspDeliveryID ?pr) building_delivery" by code_simp+
  have c: "wkAuthority sample_parts \<noteq> None" "cancels cancel_command (job_at building_delivery 0)" by code_simp+
  note r = cancel_rewrites_failed_delivery [OF job op d q c refl, of "worker_ctx ''x'' 5" 5 "''release authority revoked''" "worker_ctx ''y'' 9"]
  have "wxNow (worker_ctx ''y'' 9) = 9" by code_simp
  then show ?thesis using r by auto
qed

end
