(* ===== verification/CheckProperties.thy ===== *)
theory CheckProperties
  imports CheckRuns WorkerProperties
begin

text \<open>
  Properties of the check publication: what is sent to the provider and how often, the evidence behind
  a success, and what happens without a worker configuration.
\<close>

section \<open>A sample check\<close>

text \<open>A build whose check is admitted, and the start of its publication.\<close>

definition check_binding :: WorkerCheckBinding where
  "check_binding = \<lparr>wcbName = ''RCP /build'', wcbExpectedAppID = 7, wcbFinalizeSeconds = 60\<rparr>"

definition check_parts :: WorkerParts where
  "check_parts = sample_parts\<lparr>wkAuthority := Some (sample_authority\<lparr>auConfig := sample_config\<lparr>cfRecipes :=
     [sample_recipe\<lparr>recCheck := Some check_binding, recCapability := ''local_oci_build''\<rparr>]\<rparr>\<rparr>)\<rparr>"

definition check_job :: "string \<Rightarrow> WorkerJob" where
  "check_job s = (recipe_job s)\<lparr>jCapability := ''local_oci_build'', jOperationID := ''o1'', jIntegrationID := ''i1'',
     jDeadline := 100 * second,
     jInputs := (jInputs (recipe_job s))\<lparr>wiCheck := Some check_binding, wiRevisionID := ''v1'',
       wiExecution := Some (zero_WorkerExecution\<lparr>weOutputBytes := 10\<rparr>)\<rparr>\<rparr>"

definition admission_state :: "string \<Rightarrow> State" where
  "admission_state s = worker_state\<lparr>stWorkerJobs := [check_job s],
     stRepositories := [zero_Repository\<lparr>repoMeta := worker_meta ''r1'', repoURL := ''https://github.com/o/r'',
       repoRegisteredRepositoryID := ''g1''\<rparr>],
     stRepositoryBindings := [zero_RepositoryBinding\<lparr>rbMeta := worker_meta ''b1'', rbRepositoryID := ''r1'',
       rbConnectionID := ''n1'', rbFullName := ''o/r'', rbRole := ''APPLICATION''\<rparr>],
     stGitHubConnections := [zero_GitHubConnection\<lparr>ghcMeta := worker_meta ''n1'',
       ghcConfig := zero_Connection\<lparr>cnnID := ''n1'', cnnAppID := 7\<rparr>\<rparr>],
     stRegisteredRepositories := [zero_RegisteredRepository\<lparr>regMeta := worker_meta ''g1'', regConnectionID := ''n1'',
       regProviderRepositoryID := 42, regFullName := ''o/r''\<rparr>],
     stOperations := [zero_ExternalOperation\<lparr>opMeta := worker_meta ''o1'', opKind := ''WORKER_EXECUTION'',
       opStatus := ''PENDING''\<rparr>]\<rparr>"

definition admitted :: "string \<Rightarrow> State" where
  "admitted s = projr (queue_worker_check sample_checks check_parts 5 ''c1'' (admission_state s) ''j1'')"

definition tick_parts :: TickParts where
  "tick_parts = \<lparr>tpProvider = True, tpObservers = False, tpIntelligence = None\<rparr>"

definition tick_ctx :: "time \<Rightarrow> CheckCtx" where
  "tick_ctx now = \<lparr>kxWorker = worker_ctx ''s1'' now, kxLease = now, kxStep = now, kxRetry = now, kxStepID = ''s1''\<rparr>"

definition leased_check :: State where
  "leased_check = state_after (lease_operation tick_parts (6, ''t1'') (admitted ''QUEUED''))"

definition first_tick :: "((check_action \<times> CheckPublication) option \<times> State) result" where
  "first_tick = check_prepare sample_checks check_parts (tick_ctx 7, ''c1'', ''t1'') leased_check"

section \<open>Calls of the provider\<close>

lemma sent_state:
  assumes "check_prepare k w (x, i, token) st = Inr (Some (action, p), t)"
  obtains n p0 d q phase where "leased_operation x i token st = Inr n" "desired_ok k w x n st p0 d"
    "check_move k (opPhase (op_at (recovered x p0 st) n)) p0 d = Go q phase action"
    "p = q\<lparr>cpObservations := cpObservations q + 1\<rparr>" "t = persisted x n q phase (recovered x p0 st)"
    "n < length (stOperations (recovered x p0 st))"
  using assms
proof (cases rule: check_prepare_cases)
  case (moved n p0 d)
  have n: "n < length (stOperations (recovered x p0 st))"
    using ops_step_length [OF recovered_ops] leased_operation_bound [OF moved(1)] by blast
  show ?thesis
    using moved(4)
  proof (cases rule: check_moved_cases)
    case (send q phase action')
    then show ?thesis using that [OF moved(1,3) _ _ _ n] by simp
  qed simp_all
qed simp_all

lemma sent_phase:
  assumes "check_prepare k w (x, i, token) st = Inr (Some (action, p), t)"
  obtains n where "op_index st i = Some n" "opPhase (op_at t n) \<noteq> ''CHECK_CREATE_READY''"
    "action = Create \<Longrightarrow> opPhase (op_at st n) = ''CHECK_CREATE_READY''"
    "opCheckPublication (op_at t n) = Some p"
proof (rule sent_state [OF assms])
  fix n p0 d q phase
  assume a: "leased_operation x i token st = Inr n" "desired_ok k w x n st p0 d"
    "check_move k (opPhase (op_at (recovered x p0 st) n)) p0 d = Go q phase action"
    "p = q\<lparr>cpObservations := cpObservations q + 1\<rparr>" "t = persisted x n q phase (recovered x p0 st)"
    "n < length (stOperations (recovered x p0 st))"
  have n: "n < length (stOperations st)" using leased_operation_bound [OF a(1)] by simp
  have "op_step UNIV (op_at st n) (op_at (recovered x p0 st) n)" by (rule op_at_ops [OF recovered_ops n])
  then have "opPhase (op_at st n) = ''CHECK_CREATE_READY''"
    if "opPhase (op_at (recovered x p0 st) n) = ''CHECK_CREATE_READY''"
    using that by (auto simp: op_step_def)
  then show thesis
    using that [OF leased_index [OF a(1)]] check_move_go [OF a(3)] a(4-6) by (auto simp: persisted_op)
qed

text \<open>C29. The registration of a check is sent at most once: after the tick that let any call of the
  provider through, whatever requests, ticks, failures or lost answers follow, no later tick of the same
  check sends a create again. An uncertain create is looked up, never repeated.\<close>

theorem create_sent_once:
  assumes "check_prepare k w (x, i, token) st = Inr (Some (action, p), t)"
    and "check_prepare k w (x', i, token') (run_all (serve k w) t rs) = Inr (Some (action', p'), u)"
  shows "action' \<noteq> Create"
proof (rule sent_phase [OF assms(1)])
  fix n
  assume n: "op_index st i = Some n" "opPhase (op_at t n) \<noteq> ''CHECK_CREATE_READY''"
  define s where "s = run_all (serve k w) t rs"
  have "ops_step UNIV st t" by (rule check_prepare_ops [OF assms(1)])
  then have i: "op_index t i = Some n" using ops_step_index n(1) by blast
  then have "op_step UNIV (op_at t n) (op_at s n)" using op_at_ops run_ops by (simp add: s_def op_index_Some)
  then have "opPhase (op_at s n) \<noteq> ''CHECK_CREATE_READY''" using n(2) by (simp add: op_step_def)
  moreover have "op_index s i = Some n" using ops_step_index [OF run_ops i] by (simp add: s_def)
  ultimately show ?thesis by (rule_tac sent_phase [OF assms(2)]) (auto simp: s_def)
qed

definition uncertain_tick :: "((check_action \<times> CheckPublication) option \<times> State) result" where
  "uncertain_tick = check_prepare sample_checks check_parts (tick_ctx 9, ''c1'', ''t1'')
     (run_all (serve sample_checks check_parts) (state_after first_tick) [])"

lemma ticks_sent:
  "\<not> isl first_tick" "fst (projr first_tick) \<noteq> None" "\<not> isl uncertain_tick" "fst (projr uncertain_tick) \<noteq> None"
  by code_simp+

lemma sent_of: "\<not> isl r \<Longrightarrow> fst (projr r) \<noteq> None \<Longrightarrow> \<exists>a p. r = Inr (Some (a, p), state_after r)"
  by (cases r) (auto simp: state_after_def)

theorem create_sent_once_witness:
  "\<exists>a p. uncertain_tick = Inr (Some (a, p), state_after uncertain_tick) \<and> a \<noteq> Create"
proof -
  obtain a p where f: "first_tick = Inr (Some (a, p), state_after first_tick)" using sent_of ticks_sent by blast
  obtain b q where u: "uncertain_tick = Inr (Some (b, q), state_after uncertain_tick)" using sent_of ticks_sent by blast
  have f: "check_prepare sample_checks check_parts (tick_ctx 7, ''c1'', ''t1'') leased_check = Inr (Some (a, p), state_after first_tick)"
    unfolding first_tick_def [symmetric] by (rule f)
  have v: "check_prepare sample_checks check_parts (tick_ctx 9, ''c1'', ''t1'')
      (run_all (serve sample_checks check_parts) (state_after first_tick) []) = Inr (Some (b, q), state_after uncertain_tick)"
    unfolding uncertain_tick_def [symmetric] by (rule u)
  show ?thesis using create_sent_once [OF f v] u by blast
qed

text \<open>The calls that a run of requests makes for one check.\<close>

definition calls_provider :: "CheckEnv \<Rightarrow> WorkerParts \<Rightarrow> string \<Rightarrow> State \<Rightarrow> worker_request \<Rightarrow> bool" where
  "calls_provider k w i st r =
     (case r of PrepareCheck x j token \<Rightarrow> j = i \<and> (case check_prepare k w (x, j, token) st of
          Inr (Some _, _) \<Rightarrow> True | _ \<Rightarrow> False)
      | _ \<Rightarrow> False)"

fun provider_calls :: "CheckEnv \<Rightarrow> WorkerParts \<Rightarrow> string \<Rightarrow> State \<Rightarrow> worker_request list \<Rightarrow> int" where
  "provider_calls k w i st [] = 0"
| "provider_calls k w i st (r # rs) =
     (if calls_provider k w i st r then 1 else 0) + provider_calls k w i (commit (serve k w) st r) rs"

definition observations :: "State \<Rightarrow> string \<Rightarrow> int" where
  "observations st i =
     (case op_index st i of
        None \<Rightarrow> 0
      | Some n \<Rightarrow> (case opCheckPublication (op_at st n) of None \<Rightarrow> 0 | Some p \<Rightarrow> cpObservations p))"

lemma observations_bounds: "budget_ok st \<Longrightarrow> 0 \<le> observations st i \<and> observations st i \<le> observation_budget"
  by (auto simp: observations_def budget_ok_def list_all_length op_index_Some op_at_def within_budget_def
      observation_budget_def split: option.splits)

lemma observations_grow:
  assumes "ops_step UNIV st t" and "budget_ok st"
  shows "observations st i \<le> observations t i"
proof (cases "op_index st i")
  case None
  have "budget_ok t" using assms by (simp add: ops_step_def)
  then show ?thesis using None observations_bounds [of t i] by (simp add: observations_def)
next
  case (Some n)
  then have "op_step UNIV (op_at st n) (op_at t n)" using op_at_ops [OF assms(1)] by (simp add: op_index_Some)
  then show ?thesis
    using Some ops_step_index [OF assms(1) Some]
    by (auto simp: observations_def op_step_def publication_step_def split: option.splits)
qed

lemma call_counts:
  assumes "calls_provider k w i st r"
  shows "observations (commit (serve k w) st r) i = observations st i + 1"
proof -
  obtain x token action p t where r: "r = PrepareCheck x i token"
      "check_prepare k w (x, i, token) st = Inr (Some (action, p), t)"
    using assms by (auto simp: calls_provider_def split: worker_request.splits sum.splits option.splits prod.splits)
  have c: "commit (serve k w) st r = t" by (simp add: commit_def serve_def r forget_def)
  show ?thesis
  proof (rule sent_state [OF r(2)])
    fix n p0 d q phase
    assume a: "leased_operation x i token st = Inr n" "desired_ok k w x n st p0 d"
      "check_move k (opPhase (op_at (recovered x p0 st) n)) p0 d = Go q phase action"
      "p = q\<lparr>cpObservations := cpObservations q + 1\<rparr>" "t = persisted x n q phase (recovered x p0 st)"
      "n < length (stOperations (recovered x p0 st))"
    have i: "op_index st i = Some n" by (rule leased_index [OF a(1)])
    have "op_index t i = Some n" by (rule ops_step_index [OF check_prepare_ops [OF r(2)] i])
    moreover have "opCheckPublication (op_at t n) = Some p" using a by (simp add: persisted_op)
    moreover have "cpObservations q = cpObservations p0" using check_move_go [OF a(3)] by (auto simp: with_intent_def)
    ultimately show ?thesis using i a(2,4) by (simp add: observations_def desired_ok_def c)
  qed
qed

lemma commit_ops: "ops_step UNIV st (commit (serve k w) st r)"
  by (auto simp: commit_def split: sum.splits intro!: serve_ops)

lemma calls_within: "budget_ok st \<Longrightarrow> provider_calls k w i st rs + observations st i \<le> observation_budget"
proof (induction rs arbitrary: st)
  case (Cons r rs)
  define t where "t = commit (serve k w) st r"
  have "budget_ok t" using commit_ops [of st k w r] Cons.prems by (simp add: ops_step_def t_def)
  then have "provider_calls k w i t rs + observations t i \<le> observation_budget" by (rule Cons.IH)
  moreover have "observations st i \<le> observations t i"
    unfolding t_def by (rule observations_grow [OF commit_ops Cons.prems])
  ultimately show ?case using call_counts [of k w i st r] by (auto simp: t_def)
qed (use observations_bounds in force)

text \<open>C30. A check calls the provider at most 64 times in its life, counting what it has used already,
  however its ticks are interleaved with other requests and whatever the provider answers, from any state
  whose stored counts lie between 0 and 64.\<close>

theorem provider_calls_bounded:
  assumes "budget_ok st"
  shows "provider_calls k w i st rs \<le> 64 - observations st i \<and> provider_calls k w i st rs \<le> 64"
  using calls_within [OF assms, of k w i rs] observations_bounds [OF assms, of i] by (simp add: observation_budget_def)

text \<open>Two ticks of a check that has used 62 of its calls: both call the provider, a third one does not.\<close>

definition nearly_spent :: State where
  "nearly_spent = set_op 1 ((op_at leased_check 1)\<lparr>opCheckPublication :=
     map_option (\<lambda>p. p\<lparr>cpObservations := 62\<rparr>) (opCheckPublication (op_at leased_check 1))\<rparr>) leased_check"

definition three_ticks :: "worker_request list" where
  "three_ticks = map (\<lambda>now. PrepareCheck (tick_ctx now) ''c1'' ''t1'') [7, 9, 11]"

theorem provider_calls_bounded_witness:
  "provider_calls sample_checks check_parts ''c1'' nearly_spent three_ticks = 2 \<and>
   provider_calls sample_checks check_parts ''c1'' nearly_spent three_ticks \<le> 64 - observations nearly_spent ''c1'' \<and>
   observations nearly_spent ''c1'' = 62"
proof -
  have "budget_ok nearly_spent" "observations nearly_spent ''c1'' = 62"
    "provider_calls sample_checks check_parts ''c1'' nearly_spent three_ticks = 2" by code_simp+
  then show ?thesis using provider_calls_bounded [of nearly_spent sample_checks check_parts "''c1''" three_ticks] by blast
qed

section \<open>The evidence behind a success\<close>

lemma check_conclusion_success:
  "check_conclusion k st j now = Some ''success'' \<Longrightarrow> jStatus j = ''SUCCEEDED'' \<and> \<not> jCancellationRequested j \<and>
     (wiSourceProof (jInputs j) \<noteq> None \<longrightarrow> managed_worker_allowed k st j = Inr ())"
  by (auto simp: check_conclusion_def job_conclusion_def Let_def split: if_splits)

lemma recovered_job:
  assumes "worker_job st (cpJobID p) = Some m"
  shows "worker_job (recovered x p st) (cpJobID p) = Some m"
proof -
  have m: "m < length (stWorkerJobs st)" using worker_job_bound [OF assms] by simp
  have len: "length (stWorkerJobs (recovered x p st)) = length (stWorkerJobs st)" by (simp add: recovered_def assms)
  have "mID (jMeta (job_at (recovered x p st) l)) = mID (jMeta (job_at st l))" if "l < length (stWorkerJobs st)" for l
    using recovered_rows [of st x p] that job_path_same by (fastforce simp: rows_kept_def jobs_path_def same_job_def)
  then show ?thesis
    using assms len unfolding worker_job_def by (metis (mono_tags, lifting) atLeastLessThan_iff atLeastLessThan_upt find_cong)
qed

text \<open>What a report of a build must carry, field by field: a receipt of this job and attempt, with the source,
  recipe, configuration, toolchain and platform of the job's inputs, and well-formed hashes of a nonempty
  archive within the limit. Other capabilities carry no receipt.\<close>

definition receipt_bound :: "WorkerJob \<Rightarrow> WorkerAttempt \<Rightarrow> WorkerReport \<Rightarrow> bool" where
  "receipt_bound j a r \<longleftrightarrow> repRegistry r = None \<and> repPublication r = None \<and>
     (if jCapability j \<noteq> ''local_oci_build'' then repLocalOCI r = None
      else \<exists>v e. repLocalOCI r = Some v \<and> wiExecution (jInputs j) = Some e \<and>
        ociJobID v = mID (jMeta j) \<and> ociAttemptID v = mID (aMeta a) \<and> ociInputHash v = jInputHash j \<and>
        ociSourceSHA v = wiSourceSHA (jInputs j) \<and> ociRecipeHash v = wiRecipeHash (jInputs j) \<and>
        ociConfigRevision v = wiConfigRevision (jInputs j) \<and> ociToolchainImage v = weToolchainImage e \<and>
        ociPlatform v = wePlatform e \<and> 1 \<le> ociArchiveBytes v \<and> ociArchiveBytes v \<le> weOutputBytes e \<and>
        same_rootfs (ociRuntimeRootFS v) (weRuntimeRootFS e) \<and>
        list_all sha256_digest [ociArchiveHash v, ociLayoutHash v, ociIndexDigest v, ociManifestDigest v])"

lemma validated_receipt:
  "validate_worker_local_oci j a r = Inr () \<Longrightarrow> repResult r = ''PASSED'' \<Longrightarrow> receipt_bound j a r"
  by (auto simp: validate_worker_local_oci_def receipt_bound_def reject_def chain_simps not_less split: if_splits option.splits)

text \<open>What the publication froze about its job when it was admitted.\<close>

definition frozen_for :: "CheckPublication \<Rightarrow> ExternalOperation \<Rightarrow> WorkerJob \<Rightarrow> bool" where
  "frozen_for p o' j \<longleftrightarrow> jCheckOperationID j = mID (opMeta o') \<and> jOperationID j = cpWorkerOperationID p \<and>
     mProductID (jMeta j) = mProductID (opMeta o') \<and> jInputHash j = cpInputHash p \<and> jInputs j = cpInputs p \<and>
     wiCheck (jInputs j) \<noteq> None"

lemma authority_frozen:
  assumes "check_authority k w st (Some o') b = Inr ()"
  obtains p n where "opCheckPublication o' = Some p" "worker_job st (cpJobID p) = Some n" "frozen_for p o' (job_at st n)"
    "worker_config_matches w (job_at st n)" "\<not> native_quarantined st (mProductID (jMeta (job_at st n)))"
  using assms by (auto simp: check_authority_def frozen_for_def Let_def split: option.splits if_splits)

lemma update_first_same: "(\<And>y. g (f y) = g y) \<Longrightarrow> map g (update_first P f xs) = map g xs"
  by (induction xs) auto

lemma recovered_publications: "map opCheckPublication (stOperations (recovered x p st)) = map opCheckPublication (stOperations st)"
  by (simp add: recovered_def recover_worker_def Let_def audit_operations update_first_same projected_def close_attempt_def
      set_job_def split: option.splits)

text \<open>C31. A check is set to success only on evidence: when a tick sends an update whose conclusion is
  \<open>success\<close>, the job has succeeded and was not cancelled, its current attempt carries an accepted
  \<open>PASSED\<close> report made before the deadline, and the job still has the inputs, the hash, the product and the
  operation that the sent publication froze, under a configuration that matches and outside quarantine. The
  report of a build (\<open>local_oci_build\<close>) carries a receipt with the IDs of this job and attempt, the job's input
  hash, source, recipe, configuration, toolchain, platform and root file system, and well-formed hashes; the
  report of any other capability carries none. The live authority for a success (\<open>checkAuthority\<close>) holds.\<close>

theorem success_needs_evidence:
  assumes "check_prepare k w (x, i, token) st = Inr (Some (Update, p), t)"
    and "cpIntent p = Some d" and "crwConclusion d = ''success''"
  shows "\<exists>n m a rep. op_index st i = Some n \<and> worker_job t (cpJobID p) = Some m \<and>
    jStatus (job_at t m) = ''SUCCEEDED'' \<and> \<not> jCancellationRequested (job_at t m) \<and>
    current_attempt t (job_at t m) = Some a \<and> aReport a = Some rep \<and> repResult rep = ''PASSED'' \<and>
    mUpdatedAt (aMeta a) \<le> jDeadline (job_at t m) \<and> receipt_bound (job_at t m) a rep \<and>
    frozen_for p (op_at (recovered x p st) n) (job_at t m) \<and> worker_config_matches w (job_at t m) \<and>
    \<not> native_quarantined (recovered x p st) (mProductID (jMeta (job_at t m))) \<and>
    check_authority k w (recovered x p st) (Some (op_at (recovered x p st) n)) True = Inr ()"
proof (rule sent_state [OF assms(1)])
  fix n p0 d' q phase
  assume a: "leased_operation x i token st = Inr n" "desired_ok k w x n st p0 d'"
    "check_move k (opPhase (op_at (recovered x p0 st) n)) p0 d' = Go q phase Update"
    "p = q\<lparr>cpObservations := cpObservations q + 1\<rparr>" "t = persisted x n q phase (recovered x p0 st)"
  define r where "r = recovered x p0 st"
  have q: "q = with_intent k d' p0" using check_move_go [OF a(3)] by auto
  then have p: "cpJobID p = cpJobID p0" "d' = d" using a(4) assms(2) by (simp_all add: with_intent_def)
  have rp: "recovered x p st = r" by (simp add: recovered_def r_def p(1))
  obtain m where m: "worker_job st (cpJobID p0) = Some m"
    using a(2) by (auto simp: desired_ok_def desired_check_def split: option.splits)
  define j where "j = job_at r m"
  have r: "r = recover_worker (kxWorker x) (wxNow (kxWorker x)) m st" by (simp add: r_def recovered_def m)
  then have d: "d = check_write j p0 (check_conclusion k r j (wxNow (kxWorker x)))"
      "jStatus j = ''SUCCEEDED'' \<longrightarrow> accepted_on_time r j"
    using a(2) p(2) m by (auto simp: desired_ok_def desired_check_def Let_def j_def split: if_splits)
  have "check_conclusion k r j (wxNow (kxWorker x)) = Some ''success''"
    using d(1) assms(3) by (auto simp: check_write_def Let_def split: option.splits)
  then have s: "jStatus j = ''SUCCEEDED''" "\<not> jCancellationRequested j" "accepted_on_time r j"
    using check_conclusion_success d(2) by blast+
  have t: "stWorkerJobs t = stWorkerJobs r" "stWorkerAttempts t = stWorkerAttempts r"
    by (simp_all add: a(5) check_frames r_def)
  have "worker_job t (cpJobID p) = Some m"
    using recovered_job [OF m, of x] t(1) by (simp add: worker_job_def job_at_def p(1) r_def)
  moreover have j: "job_at t m = j" using t(1) by (simp add: job_at_def j_def)
  moreover have auth: "check_authority k w r (Some (op_at r n)) True = Inr ()"
    using a(2) assms(3) p(2) by (simp add: desired_ok_def r_def)
  moreover have "frozen_for p (op_at r n) j \<and> worker_config_matches w j \<and> \<not> native_quarantined r (mProductID (jMeta j))"
  proof (rule authority_frozen [OF auth])
    fix p1 n1
    assume f: "opCheckPublication (op_at r n) = Some p1" "worker_job r (cpJobID p1) = Some n1" "frozen_for p1 (op_at r n) (job_at r n1)"
      "worker_config_matches w (job_at r n1)" "\<not> native_quarantined r (mProductID (jMeta (job_at r n1)))"
    have "n < length (stOperations st)" using leased_operation_bound [OF a(1)] by simp
    then have "opCheckPublication (op_at r n) = opCheckPublication (op_at st n)"
      using recovered_publications [of x p0 st] unfolding r_def op_at_def by (metis length_map nth_map)
    then have "p1 = p0" using f(1) a(2) by (simp add: desired_ok_def)
    moreover have "n1 = m" using f(2) recovered_job [OF m, of x] by (simp add: r_def \<open>p1 = p0\<close>)
    moreover have "frozen_for p o1 j1 = frozen_for p0 o1 j1" for o1 j1
      by (simp add: frozen_for_def a(4) q with_intent_def)
    ultimately show ?thesis using f(3-5) by (simp add: j_def)
  qed
  moreover have "current_attempt t j = current_attempt r j" using t(2) by (simp add: current_attempt_def)
  ultimately show ?thesis
    using s leased_index [OF a(1)] validated_receipt unfolding rp
    by (auto simp: accepted_on_time_def split: option.splits)
qed

text \<open>The check after its registration was observed, leased again, when the job has succeeded.\<close>

definition build_receipt :: WorkerLocalOCI where
  "build_receipt = zero_WorkerLocalOCI\<lparr>ociJobID := ''j1'', ociAttemptID := ''a1'', ociInputHash := sample_sha,
     ociSourceSHA := sample_sha, ociRecipeHash := sample_digest, ociConfigRevision := ''rev1'',
     ociArchiveHash := sample_digest, ociLayoutHash := sample_digest, ociIndexDigest := sample_digest,
     ociManifestDigest := sample_digest, ociArchiveBytes := 1\<rparr>"

definition build_attempt :: WorkerAttempt where
  "build_attempt = zero_WorkerAttempt\<lparr>aMeta := worker_meta ''a1'', aJobID := ''j1'', aPrincipal := ''wa'', aFence := 1,
     aInputHash := sample_sha, aStatus := ''SUCCEEDED'',
     aReport := Some ((sample_report ''PASSED'')\<lparr>repLocalOCI := Some build_receipt\<rparr>)\<rparr>"

definition success_state :: State where
  "success_state =
     (let st = state_after (lease_operation tick_parts (6, ''t1'') (admitted ''SUCCEEDED''));
          p = the (opCheckPublication (op_at st 1));
          v = (zero_CheckRunObservation\<lparr>crbFound := True, crbID := 9, crbIdentity := cpIdentity p, crbStatus := ''queued''\<rparr>)
      in set_op 1 ((op_at st 1)\<lparr>opPhase := ''CHECK_OBSERVE'', opCheckPublication := Some (p\<lparr>cpObserved := Some v\<rparr>)\<rparr>)
           (st\<lparr>stWorkerAttempts := [build_attempt]\<rparr>))"

definition success_tick :: "((check_action \<times> CheckPublication) option \<times> State) result" where
  "success_tick = check_prepare sample_checks check_parts (tick_ctx 7, ''c1'', ''t1'') success_state"

definition sent_conclusion :: "((check_action \<times> CheckPublication) option \<times> State) result \<Rightarrow> string option" where
  "sent_conclusion r = (case r of Inr (Some (Update, p), t) \<Rightarrow> map_option crwConclusion (cpIntent p) | _ \<Rightarrow> None)"

theorem success_needs_evidence_witness:
  "\<exists>m a rep. jStatus (job_at (state_after success_tick) m) = ''SUCCEEDED'' \<and>
     current_attempt (state_after success_tick) (job_at (state_after success_tick) m) = Some a \<and>
     aReport a = Some rep \<and> repResult rep = ''PASSED''"
proof -
  have "sent_conclusion success_tick = Some ''success''" by code_simp
  then obtain p t d where s: "success_tick = Inr (Some (Update, p), t)" "cpIntent p = Some d" "crwConclusion d = ''success''"
    by (auto simp: sent_conclusion_def split: sum.splits prod.splits option.splits check_action.splits)
  have "state_after success_tick = t" by (simp add: s(1) state_after_def)
  then show ?thesis using success_needs_evidence [OF s(1) [unfolded success_tick_def] s(2,3)] by blast
qed

section \<open>The lease of an operation\<close>

text \<open>C33. The scheduler leases the least runnable operation in the order of priority, next attempt and ID,
  and nothing exactly when nothing is runnable: no operation that is settled, waits for its next attempt
  or is leased to someone is chosen, and no runnable operation before the chosen one is passed over.\<close>

theorem scheduler_takes_least:
  assumes "tpProvider p \<or> tpObservers p \<or> tpIntelligence p \<noteq> None"
    and "lease_operation p (now, token) st = Inr (out, t)"
  shows "(case out of
      None \<Rightarrow> t = st \<and> list_all (\<lambda>v. \<not> runnable p now v) (stOperations st)
    | Some v \<Rightarrow> \<exists>n<length (stOperations st). v = lease_op p now token (op_at st n) \<and> t = set_op n v st \<and>
        runnable p now (op_at st n) \<and> \<not> now < opLeaseUntil (op_at st n) \<and>
        list_all (\<lambda>u. runnable p now u \<longrightarrow> before_or_same (op_at st n) u) (stOperations st))"
proof (cases "candidate p now st")
  case None
  then have "out = None \<and> t = st" using assms by (auto simp: lease_operation_def split: if_splits)
  moreover have "list_all (\<lambda>v. \<not> runnable p now v) (stOperations st)"
    using None candidate_none by (simp add: list_all_iff)
  ultimately show ?thesis by simp
next
  case (Some n)
  then have o': "out = Some (lease_op p now token (op_at st n))" "t = set_op n (lease_op p now token (op_at st n)) st"
    using assms by (auto simp: lease_operation_def Let_def split: if_splits)
  have l: "\<not> now < opLeaseUntil (op_at st n)" using candidate_least [OF Some] by (simp add: runnable_def)
  show ?thesis unfolding o' option.case by (rule exI [of _ n]) (use candidate_least [OF Some] l in \<open>simp add: list_all_iff\<close>)
qed

theorem scheduler_takes_least_witness:
  "\<exists>t v. lease_operation tick_parts (6, ''t1'') (admitted ''QUEUED'') = Inr (Some v, t) \<and> \<not> 6 < opLeaseUntil (op_at (admitted ''QUEUED'') 1)"
proof -
  define r where "r = lease_operation tick_parts (6, ''t1'') (admitted ''QUEUED'')"
  have "\<not> isl r" "fst (projr r) \<noteq> None" unfolding r_def by code_simp+
  then obtain v t where r: "lease_operation tick_parts (6, ''t1'') (admitted ''QUEUED'') = Inr (Some v, t)"
    unfolding r_def by (metis option.exhaust prod.collapse sum.collapse(2))
  have n: "candidate tick_parts 6 (admitted ''QUEUED'') = Some 1" by code_simp
  show ?thesis using scheduler_takes_least [OF _ r] r candidate_least [OF n] by (auto simp: tick_parts_def runnable_def)
qed

text \<open>C32. A tick that lost its lease writes nothing any more: once the operation is owned by another token,
  both transactions of a tick with the old token fail with an error in every later state, as long as no
  lease is taken with that token again.\<close>

theorem stale_tick_rejected:
  assumes "op_index st i = Some n" and "opLeaseOwner (op_at st n) \<noteq> token" and "token \<noteq> []"
    and "run_ok (serve k w) (token_in (- {token})) st rs"
  shows "isl (check_prepare k w (x, i, token) (run_all (serve k w) st rs)) \<and>
    isl (check_commit k w (x, i, token, sent, answer) (run_all (serve k w) st rs))"
proof -
  define t where "t = run_all (serve k w) st rs"
  have s: "ops_step (- {token}) st t" unfolding t_def by (rule run_ops_in [OF assms(4)])
  have i: "op_index t i = Some n" by (rule ops_step_index [OF s assms(1)])
  have "op_step (- {token}) (op_at st n) (op_at t n)"
    using op_at_ops [OF s] assms(1) by (simp add: op_index_Some)
  then have "opLeaseOwner (op_at t n) \<noteq> token" using assms(2,3) by (auto simp: op_step_def)
  then have "isl (leased_operation x i token t)" using i by (simp add: leased_operation_def)
  then show ?thesis by (auto simp: check_prepare_def check_commit_def t_def split: sum.splits)
qed

theorem stale_tick_rejected_witness:
  "isl (check_prepare sample_checks check_parts (tick_ctx 9, ''c1'', ''t0'')
     (run_all (serve sample_checks check_parts) leased_check [LeaseTick tick_parts 8 ''t2'']))"
proof -
  have i: "op_index leased_check ''c1'' = Some 1" and o': "opLeaseOwner (op_at leased_check 1) = ''t1''" by code_simp+
  have "run_ok (serve sample_checks check_parts) (token_in (- {''t0''})) leased_check [LeaseTick tick_parts 8 ''t2'']"
    by (simp add: token_in_def)
  moreover have "opLeaseOwner (op_at leased_check 1) \<noteq> ''t0''" unfolding o' by simp
  ultimately show ?thesis using stale_tick_rejected [OF i] by blast
qed

section \<open>Without a worker configuration\<close>

text \<open>C38. With no worker configuration a tick of a check that was admitted under an earlier one does not
  fail the operation: looking up the recipe dereferences the nil authority and the tick panics, before
  the deadline and within the budget, whatever the state of the job.\<close>

theorem check_without_configuration:
  assumes "wkAuthority w = None" and "ckProvider k" and "leased_operation x i token st = Inr n"
    and "opCheckPublication (op_at st n) = Some p" and "wxNow (kxWorker x) < cpFinalizeDeadline p"
    and "cpObservations p < observation_budget" and "worker_job st (cpJobID p) = Some m"
    and "valid_links w' st (op_at st n) p (job_at st m)" and "valid_job_check st (job_at st m)"
  shows "check_prepare k w (x, i, token) st = Inl (GoPanic ''nil authority'')"
proof -
  have "wiCheck (jInputs (job_at st m)) \<noteq> None" using assms(8) by (auto simp: valid_links_def split: option.splits)
  then have c: "jCapability (job_at st m) = ''local_oci_build''" "wiCheck (jInputs (job_at st m)) \<noteq> None"
    using assms(9) by (auto simp: valid_job_check_def)
  then have "check_authority k w st (Some (op_at st n)) False = Inl (GoPanic ''nil authority'')"
    using assms(1,4,7,8) by (auto simp: check_authority_def Let_def config_lookup_panics_def valid_links_def)
  then show ?thesis using assms(2-6) by (simp add: check_prepare_def Let_def panics_def)
qed

theorem check_without_configuration_witness:
  "check_prepare sample_checks (check_parts\<lparr>wkAuthority := None\<rparr>) (tick_ctx 7, ''c1'', ''t1'') leased_check =
     Inl (GoPanic ''nil authority'')"
proof (rule check_without_configuration)
  show "leased_operation (tick_ctx 7) ''c1'' ''t1'' leased_check = Inr 1" by code_simp
  show "opCheckPublication (op_at leased_check 1) = Some (the (opCheckPublication (op_at leased_check 1)))" by code_simp
  show "wxNow (kxWorker (tick_ctx 7)) < cpFinalizeDeadline (the (opCheckPublication (op_at leased_check 1)))" by code_simp
  show "cpObservations (the (opCheckPublication (op_at leased_check 1))) < observation_budget" by code_simp
  show "worker_job leased_check (cpJobID (the (opCheckPublication (op_at leased_check 1)))) = Some 0" by code_simp
  show "valid_links check_parts leased_check (op_at leased_check 1) (the (opCheckPublication (op_at leased_check 1)))
      (job_at leased_check 0)" by code_simp
  show "valid_job_check leased_check (job_at leased_check 0)" by code_simp
qed (simp_all add: sample_checks_def)

end
