(* ===== verification/ImageNames.thy ===== *)
theory ImageNames
  imports StateModel GoTime
begin

text \<open>
  Image repositories and digests, \<open>internal/domain/artifact_pins.go\<close>: \<open>CanonicalImageRepository\<close>
  with the parts of \<open>net/url\<close> and \<open>net.ParseIP\<close> it reaches (as of Go 1.25.0), and the small
  helpers of \<open>retention.go\<close> on sets of strings and the age of evidence.
\<close>

section \<open>Splitting\<close>

definition before_char :: "char \<Rightarrow> string \<Rightarrow> string" where
  "before_char c s = takeWhile (\<lambda>d. d \<noteq> c) s"

definition after_char :: "char \<Rightarrow> string \<Rightarrow> string" where
  "after_char c s = tl (dropWhile (\<lambda>d. d \<noteq> c) s)"

text \<open>\<open>strings.LastIndex\<close> of a character: what comes before and after it.\<close>

definition before_last :: "char \<Rightarrow> string \<Rightarrow> string" where
  "before_last c s = rev (after_char c (rev s))"

definition after_last :: "char \<Rightarrow> string \<Rightarrow> string" where
  "after_last c s = rev (before_char c (rev s))"

fun split_char :: "char \<Rightarrow> string \<Rightarrow> string list" where
  "split_char c [] = [[]]"
| "split_char c (d # s) =
     (if d = c then [] # split_char c s
      else (case split_char c s of [] \<Rightarrow> [[d]] | w # ws \<Rightarrow> (d # w) # ws))"

lemma split_char_nonempty [simp]: "split_char c s \<noteq> []"
  by (cases s) (auto split: list.splits)

lemma split_parts: "w \<in> set (split_char c s) \<Longrightarrow> d \<in> set w \<Longrightarrow> d \<in> set s"
  by (induction s arbitrary: w) (auto split: if_splits list.splits, metis list.set_intros(1) split_char_nonempty)

definition contains :: "string \<Rightarrow> string \<Rightarrow> bool" where
  "contains s t \<longleftrightarrow> list_ex (\<lambda>n. has_prefix (drop n s) t) [0..<Suc (length s)]"

section \<open>IP addresses\<close>

text \<open>\<open>net.ParseIP(s) != nil\<close>: the first of the characters point, colon and percent decides.\<close>

definition ipv4_field :: "string \<Rightarrow> bool" where
  "ipv4_field f \<longleftrightarrow>
     f \<noteq> [] \<and> list_all is_digit f \<and> (length f = 1 \<or> hd f \<noteq> CHR ''0'') \<and> length f \<le> 3 \<and>
     (case number_from 0 f of None \<Rightarrow> False | Some n \<Rightarrow> n \<le> 255)"

definition is_ipv4 :: "string \<Rightarrow> bool" where
  "is_ipv4 s \<longleftrightarrow> length (split_char CHR ''.'' s) = 4 \<and> list_all ipv4_field (split_char CHR ''.'' s)"

definition hextet :: "string \<Rightarrow> bool" where
  "hextet g \<longleftrightarrow> g \<noteq> [] \<and> length g \<le> 4 \<and> list_all (\<lambda>c. c \<in> set ''0123456789abcdefABCDEF'') g"

text \<open>The 16-bit fields of a run of groups, of which only the last may be an IPv4 address.\<close>

fun group_fields :: "bool \<Rightarrow> string list \<Rightarrow> nat option" where
  "group_fields v4 [] = Some 0"
| "group_fields v4 [g] = (if hextet g then Some 1 else if v4 \<and> is_ipv4 g then Some 2 else None)"
| "group_fields v4 (g # gs) = (if hextet g then map_option Suc (group_fields v4 gs) else None)"

definition side_fields :: "bool \<Rightarrow> string \<Rightarrow> nat option" where
  "side_fields v4 s = (if s = [] then Some 0 else group_fields v4 (split_char CHR '':'' s))"

text \<open>Position of the first \<open>::\<close>.\<close>

fun double_colon :: "string \<Rightarrow> nat option" where
  "double_colon (a # b # s) =
     (if a = CHR '':'' \<and> b = CHR '':'' then Some 0 else map_option Suc (double_colon (b # s)))"
| "double_colon _ = None"

definition is_ipv6 :: "string \<Rightarrow> bool" where
  "is_ipv6 s \<longleftrightarrow>
     (case double_colon s of
        None \<Rightarrow> group_fields True (split_char CHR '':'' s) = Some 8
      | Some n \<Rightarrow>
          (case (side_fields False (take n s), side_fields True (drop (n + 2) s)) of
             (Some a, Some b) \<Rightarrow> a + b \<le> 7 | _ \<Rightarrow> False))"

definition is_ip :: "string \<Rightarrow> bool" where
  "is_ip s =
     (case find (\<lambda>c. c \<in> set ''.:%'') s of
        None \<Rightarrow> False
      | Some c \<Rightarrow> if c = CHR ''.'' then is_ipv4 s else if c = CHR '':'' then is_ipv6 s else False)"

section \<open>Hosts\<close>

text \<open>\<open>unescape\<close> of \<open>net/url\<close> in a host: only bytes outside ASCII and the percent sign may be escaped.\<close>

definition hex_value :: "char \<Rightarrow> nat option" where
  "hex_value c = map_of (zip ''0123456789abcdefABCDEF''
     [0, 1, 2, 3, 4, 5, 6, 7, 8, 9, 10, 11, 12, 13, 14, 15, 10, 11, 12, 13, 14, 15]) c"

fun unescape_host :: "string \<Rightarrow> string option" where
  "unescape_host [] = Some []"
| "unescape_host (c # s) =
     (if c \<noteq> CHR ''%'' then map_option ((#) c) (unescape_host s)
      else (case s of
        a # b # t \<Rightarrow>
          (case (hex_value a, hex_value b) of
             (Some x, Some y) \<Rightarrow>
               (if x < 8 \<and> \<not> (a = CHR ''2'' \<and> b = CHR ''5'') then None
                else map_option ((#) (char_of (16 * x + y))) (unescape_host t))
           | _ \<Rightarrow> None)
      | _ \<Rightarrow> None))"

definition optional_port :: "string \<Rightarrow> bool" where
  "optional_port s \<longleftrightarrow> s = [] \<or> hd s = CHR '':'' \<and> list_all is_digit (tl s)"

text \<open>\<open>parseHost\<close>: what follows the last colon, or the last bracket, must be a port.\<close>

definition parse_host :: "string \<Rightarrow> string option" where
  "parse_host h =
     (if has_prefix h ''['' then
        (if CHR '']'' \<in> set h \<and> optional_port (after_last CHR '']'' h) then unescape_host h else None)
      else if CHR '':'' \<in> set h \<and> \<not> list_all is_digit (after_last CHR '':'' h) then None
      else unescape_host h)"

text \<open>\<open>splitHostPort\<close>, behind \<open>Hostname()\<close> and \<open>Port()\<close>.\<close>

definition split_host_port :: "string \<Rightarrow> string \<times> string" where
  "split_host_port h =
     (let (host, port) =
        (if CHR '':'' \<in> set h \<and> list_all is_digit (after_last CHR '':'' h)
         then (before_last CHR '':'' h, after_last CHR '':'' h) else (h, []))
      in (if has_prefix host ''['' \<and> has_suffix host '']'' then butlast (tl host) else host, port))"

section \<open>Canonical image repositories\<close>

text \<open>\<open>^[a-z0-9]+(?:[._-][a-z0-9]+)*(?:/[a-z0-9]+(?:[._-][a-z0-9]+)*)*$\<close>: runs of lower-case letters and
  digits separated by single separators.\<close>

fun separated_by :: "string \<Rightarrow> bool \<Rightarrow> string \<Rightarrow> bool" where
  "separated_by seps after [] = after"
| "separated_by seps after (c # s) =
     (if c \<in> set (lower_letters @ digits) then separated_by seps True s
      else after \<and> c \<in> set seps \<and> separated_by seps False s)"

definition image_path :: "string \<Rightarrow> bool" where
  "image_path s = separated_by ''._-/'' False s"

text \<open>\<open>^[a-z0-9](?:[a-z0-9-]{0,61}[a-z0-9])?$\<close>\<close>

definition host_label :: "string \<Rightarrow> bool" where
  "host_label l \<longleftrightarrow>
     l \<noteq> [] \<and> length l \<le> 63 \<and> hd l \<in> set (lower_letters @ digits) \<and> last l \<in> set (lower_letters @ digits) \<and>
     list_all (\<lambda>c. c \<in> set (lower_letters @ digits @ ''-'')) l"

text \<open>\<open>strconv.Itoa\<close> of a port.\<close>

fun decimal :: "nat \<Rightarrow> string" where
  "decimal n = (if n < 10 then [digits ! n] else decimal (n div 10) @ [digits ! (n mod 10)])"

definition canonical_port :: "string \<Rightarrow> string option" where
  "canonical_port p =
     (if p = [] then Some []
      else case number_from 0 p of
        None \<Rightarrow> None
      | Some n \<Rightarrow> (if n < 1 \<or> 65535 < n then None else if n = 443 then Some [] else Some (decimal (nat n))))"

definition join_host :: "string \<Rightarrow> string \<Rightarrow> string" where
  "join_host name port =
     (let host = (if CHR '':'' \<in> set name then ''['' @ name @ '']'' else name)
      in if port = [] then host else host @ '':'' @ port)"

definition canonical_host :: "string \<Rightarrow> string option" where
  "canonical_host h =
     (case parse_host h of
        None \<Rightarrow> None
      | Some u \<Rightarrow>
          (let name = to_lower (fst (split_host_port u)) in
           if name = [] \<or> \<not> is_ip name \<and> \<not> list_all host_label (split_char CHR ''.'' name) then None
           else map_option (join_host name) (canonical_port (snd (split_host_port u)))))"

text \<open>\<open>CanonicalImageRepository\<close>. A control character in the host is an error of \<open>url.Parse\<close>; no host
  with one passes the test of its labels, and neither does one with another character that a host may
  not hold, so the model leaves those tests out.\<close>

definition canonical_image :: "string \<Rightarrow> string option" where
  "canonical_image raw =
     (if raw = [] \<or> 512 < length raw \<or> trim_space raw \<noteq> raw \<or>
         contains_any raw [CHR ''@'', CHR ''?'', CHR ''#'', CHR 0x5C, CHR 0x00, CHR 0x0D, CHR 0x0A, CHR 0x09] \<or>
         contains raw ''://'' then None
      else if CHR ''/'' \<notin> set raw \<or> \<not> image_path (after_char CHR ''/'' raw) then None
      else let host = before_char CHR ''/'' raw in
        if \<not> contains_any host ''.:'' \<and> host \<noteq> ''localhost'' then None
        else map_option (\<lambda>h. h @ ''/'' @ after_char CHR ''/'' raw) (canonical_host host))"

section \<open>Sets of strings and the age of evidence\<close>

text \<open>\<open>sortedUnique\<close> of \<open>retention.go\<close>.\<close>

definition sorted_unique :: "string list \<Rightarrow> string list" where
  "sorted_unique v = drop_repeats [] (sort v)"

lemma sorted_unique_set [simp]: "set (sorted_unique v) = set v"
  by (simp add: sorted_unique_def drop_repeats_set)

lemma sorted_unique_sorted: "sorted_wrt (<) (sorted_unique v)"
  unfolding sorted_unique_def by (rule drop_repeats_sorted) auto

lemma sorted_wrt_less_unique:
  fixes xs ys :: "'a :: linorder list"
  assumes "sorted_wrt (<) xs" and "sorted_wrt (<) ys" and "set xs = set ys"
  shows "xs = ys"
  using assms sorted_distinct_set_unique strict_sorted_iff by blast

text \<open>The result depends on the set of elements only.\<close>

lemma sorted_unique_cong: "set v = set w \<Longrightarrow> sorted_unique v = sorted_unique w"
  by (rule sorted_wrt_less_unique) (simp_all add: sorted_unique_sorted)

lemma sorted_unique_idem: "sorted_wrt (<) v \<Longrightarrow> sorted_unique v = v"
  by (rule sorted_wrt_less_unique) (simp_all add: sorted_unique_sorted)

lemma sorted_unique_idem' [simp]: "sorted_unique (sorted_unique v) = sorted_unique v"
  by (simp add: sorted_unique_idem sorted_unique_sorted)

definition evidence_freshness :: "time \<Rightarrow> time \<Rightarrow> string" where
  "evidence_freshness at now =
     (if at = zero_time \<or> now < at then ''UNKNOWN''
      else if now - at \<le> 5 * minute then ''FRESH'' else ''STALE'')"

definition has_code :: "string list \<Rightarrow> string \<Rightarrow> bool" where
  "has_code codes want \<longleftrightarrow> list_ex (\<lambda>c. c = want) codes"

end
