(* ===== verification/ArtifactPins.thy ===== *)
theory ArtifactPins
  imports Commands ImageNames
begin

text \<open>
  Pins of artifacts: the commands of \<open>internal/application/artifact_pins.go\<close> and the validation of the
  stored pins in \<open>internal/domain/artifact_pins.go\<close>. The fingerprint of a request (\<open>checkHash\<close> of the
  JSON of its six strings) is the argument \<open>hash\<close>.
\<close>

type_synonym pin_hash = "string \<Rightarrow> string \<Rightarrow> string \<Rightarrow> string \<Rightarrow> string \<Rightarrow> string \<Rightarrow> string"

type_synonym pin_result = "(ArtifactPin \<times> Meta \<times> State \<times> bool) result"

section \<open>Inputs\<close>

record PinReleaseInput =
  pliApplicationID :: string

definition fields_PinReleaseInput :: "PinReleaseInput field list" where
  "fields_PinReleaseInput = [field ''application_id'' pliApplicationID pliApplicationID_update dec_string]"

record PinInput =
  pinApplicationID :: string
  pinImageRepository :: string
  pinDigest :: string
  pinPurpose :: string
  pinRequestKey :: string

definition fields_PinInput :: "PinInput field list" where
  "fields_PinInput =
     [field ''application_id'' pinApplicationID pinApplicationID_update dec_string,
      field ''image_repository'' pinImageRepository pinImageRepository_update dec_string,
      field ''digest'' pinDigest pinDigest_update dec_string,
      field ''purpose'' pinPurpose pinPurpose_update dec_string,
      field ''request_key'' pinRequestKey pinRequestKey_update dec_string]"

definition pin_request_key :: "string \<Rightarrow> bool" where
  "pin_request_key key = name_like ''._:/-'' 0 127 key"

definition pin_purpose :: "string \<Rightarrow> bool" where
  "pin_purpose p \<longleftrightarrow> p = ''manual'' \<or> p = ''rollback''"

section \<open>Commands\<close>

definition component_of :: "State \<Rightarrow> string \<Rightarrow> string \<Rightarrow> bool" where
  "component_of st product i \<longleftrightarrow>
     (case application_by_id st i of None \<Rightarrow> False | Some a \<Rightarrow> mProductID (appMeta a) = product)"

definition release_pin :: "Ctx \<Rightarrow> Command \<Rightarrow> State \<Rightarrow> pin_result" where
  "release_pin x c st =
     (case decode fields_PinReleaseInput (cData c) \<lparr>pliApplicationID = []\<rparr> of
        Inl e \<Rightarrow> Inl e
      | Inr v \<Rightarrow>
          (if cID c = [] \<or> \<not> component_of st (cProductID c) (pliApplicationID v)
           then Inl (invalid ''pin release requires exact product/component/ID'' [])
           else case find (\<lambda>p. mID (apnMeta p) = cID c) (stArtifactPins st) of
             None \<Rightarrow> Inl (missing ''artifact pin'' (cID c))
           | Some p \<Rightarrow>
               (if mProductID (apnMeta p) \<noteq> cProductID c \<or> apnApplicationID p \<noteq> pliApplicationID v
                then Inl (invalid ''artifact pin outside requested scope'' [])
                else if apnReleasedAt p \<noteq> None then Inr (p, apnMeta p, st, False)
                else let p' = p\<lparr>apnReleasedAt := Some (ctxStepNow x),
                       apnMeta := (apnMeta p)\<lparr>mUpdatedAt := ctxStepNow x, mActor := cActor c\<rparr>\<rparr>
                  in Inr (p', apnMeta p', st\<lparr>stArtifactPins :=
                       update_first (\<lambda>p. mID (apnMeta p) = cID c) (\<lambda>_. p') (stArtifactPins st)\<rparr>, True))))"

definition pin_input_ok :: "Command \<Rightarrow> PinInput \<Rightarrow> bool" where
  "pin_input_ok c v \<longleftrightarrow>
     cID c = [] \<and> pin_request_key (pinRequestKey v) \<and> sha256_digest (pinDigest v) \<and> pin_purpose (pinPurpose v)"

definition pin_of :: "pin_hash \<Rightarrow> Command \<Rightarrow> PinInput \<Rightarrow> string \<Rightarrow> Meta \<Rightarrow> ArtifactPin" where
  "pin_of hash c v repo m =
     \<lparr>apnMeta = m, apnApplicationID = pinApplicationID v, apnImageRepository = repo, apnDigest = pinDigest v,
      apnPurpose = pinPurpose v, apnRequestKey = pinRequestKey v,
      apnRequestHash = hash (cProductID c) (pinApplicationID v) repo (pinDigest v) (pinPurpose v) (pinRequestKey v),
      apnReleasedAt = None\<rparr>"

text \<open>The recorded intent agrees with the request.\<close>

definition same_intent :: "ArtifactPin \<Rightarrow> ArtifactPin \<Rightarrow> bool" where
  "same_intent p q \<longleftrightarrow>
     apnRequestHash q = apnRequestHash p \<and> apnApplicationID q = apnApplicationID p \<and>
     apnImageRepository q = apnImageRepository p \<and> apnDigest q = apnDigest p \<and> apnPurpose q = apnPurpose p"

definition new_pin :: "pin_hash \<Rightarrow> Command \<Rightarrow> Meta \<Rightarrow> State \<Rightarrow> pin_result" where
  "new_pin hash c m st =
     (case decode fields_PinInput (cData c) \<lparr>pinApplicationID = [], pinImageRepository = [], pinDigest = [],
          pinPurpose = [], pinRequestKey = []\<rparr> of
        Inl e \<Rightarrow> Inl e
      | Inr v \<Rightarrow>
          (if \<not> pin_input_ok c v then Inl (invalid ''invalid immutable artifact pin request'' [])
           else if \<not> component_of st (cProductID c) (pinApplicationID v)
           then Inl (invalid ''component must belong to pin product'' [])
           else case canonical_image (pinImageRepository v) of
             None \<Rightarrow> Inl (invalid ''invalid explicit image repository'' [])
           | Some repo \<Rightarrow>
               (let pin = pin_of hash c v repo m in
                case find (\<lambda>p. mProductID (apnMeta p) = cProductID c \<and> apnRequestKey p = pinRequestKey v)
                    (stArtifactPins st) of
                  Some p \<Rightarrow>
                    (if same_intent pin p then Inr (p, apnMeta p, st, False)
                     else Inl (invalid ''artifact pin request_key conflicts with original intent'' []))
                | None \<Rightarrow> Inr (pin, m, st\<lparr>stArtifactPins := stArtifactPins st @ [pin]\<rparr>, True))))"

text \<open>\<open>applyArtifactPin\<close>; the flag says whether the state changed.\<close>

definition apply_artifact_pin :: "pin_hash \<Rightarrow> Ctx \<Rightarrow> Command \<Rightarrow> Meta \<Rightarrow> State \<Rightarrow> pin_result" where
  "apply_artifact_pin hash x c m st =
     (if cProductID c = [] \<or> cFeatureID c \<noteq> [] \<or> cIntegrationID c \<noteq> [] \<or> cGateID c \<noteq> [] \<or> cCheckID c \<noteq> [] \<or>
         cResultID c \<noteq> [] then Inl (invalid ''artifact pin requires exact product/component scope'' [])
      else if \<not> product_exists st (cProductID c) then Inl (missing ''product'' (cProductID c))
      else if cAction c = ''release_artifact_pin'' then release_pin x c st
      else new_pin hash c m st)"

section \<open>Validation\<close>

definition pin_fields_ok :: "pin_hash \<Rightarrow> State \<Rightarrow> ArtifactPin \<Rightarrow> bool" where
  "pin_fields_ok hash st p \<longleftrightarrow>
     (let m = apnMeta p in
      canonical_image (apnImageRepository p) = Some (apnImageRepository p) \<and> sha256_digest (apnDigest p) \<and>
      pin_request_key (apnRequestKey p) \<and> pin_purpose (apnPurpose p) \<and> mID m \<noteq> [] \<and>
      length (filter (\<lambda>i. i = mID m) (state_ids st)) = 1 \<and> mProductID m \<noteq> [] \<and> mFeatureID m = [] \<and>
      mCreatedAt m \<noteq> zero_time \<and> \<not> mUpdatedAt m < mCreatedAt m \<and>
      (case apnReleasedAt p of None \<Rightarrow> True
       | Some at \<Rightarrow> at \<noteq> zero_time \<and> \<not> at < mCreatedAt m \<and> at = mUpdatedAt m) \<and>
      apnRequestHash p = hash (mProductID m) (apnApplicationID p) (apnImageRepository p) (apnDigest p)
        (apnPurpose p) (apnRequestKey p))"

definition names_release :: "ArtifactPin \<Rightarrow> Event \<Rightarrow> bool" where
  "names_release p e \<longleftrightarrow>
     (evAction e = ''release_artifact_pin'' \<or> cAction (evData e) = ''release_artifact_pin'') \<and>
     (evEntityID e = mID (apnMeta p) \<or> cID (evData e) = mID (apnMeta p))"

definition release_event_ok :: "State \<Rightarrow> ArtifactPin \<Rightarrow> Event \<Rightarrow> bool" where
  "release_event_ok st p e \<longleftrightarrow>
     (let c = evData e; m = apnMeta p in
      apnReleasedAt p = Some (evAt e) \<and> evID e \<noteq> [] \<and> length (filter (\<lambda>i. i = evID e) (state_ids st)) = 1 \<and>
      evAction e = ''release_artifact_pin'' \<and> cAction c = ''release_artifact_pin'' \<and> evEntityID e = mID m \<and>
      cID c = mID m \<and> evProductID e = mProductID m \<and> cProductID c = mProductID m \<and> evFeatureID e = [] \<and>
      cFeatureID c = [] \<and> cIntegrationID c = [] \<and> cGateID c = [] \<and> cCheckID c = [] \<and> cResultID c = [] \<and>
      trim_space (mActor m) \<noteq> [] \<and> evActor e = mActor m \<and> cActor c = mActor m \<and>
      map_of (cData c) ''application_id'' = Some (JStr (apnApplicationID p)) \<and> length (cData c) = 1)"

definition release_events :: "State \<Rightarrow> ArtifactPin \<Rightarrow> Event list" where
  "release_events st p = filter (names_release p) (stEvents st)"

definition pin_valid :: "pin_hash \<Rightarrow> State \<Rightarrow> ArtifactPin \<Rightarrow> bool" where
  "pin_valid hash st p \<longleftrightarrow>
     pin_fields_ok hash st p \<and> list_all (release_event_ok st p) (release_events st p) \<and>
     length (release_events st p) = (if apnReleasedAt p = None then 0 else 1) \<and>
     product_exists st (mProductID (apnMeta p)) \<and>
     list_ex (\<lambda>a. mID (appMeta a) = apnApplicationID p \<and> mProductID (appMeta a) = mProductID (apnMeta p)) (stApplications st)"

definition pin_key :: "ArtifactPin \<Rightarrow> string" where
  "pin_key p = mProductID (apnMeta p) @ [CHR 0x00] @ apnRequestKey p"

definition validate_artifact_pins :: "pin_hash \<Rightarrow> State \<Rightarrow> unit result" where
  "validate_artifact_pins hash st =
     reject (\<not> (list_all (pin_valid hash st) (stArtifactPins st) \<and> distinct (map pin_key (stArtifactPins st))))
       (GoError ''invalid artifact pin identity, references or fingerprint'')"

end
