(* ===== verification/PinLemmas.thy ===== *)
theory PinLemmas
  imports ArtifactPins Dispatch
begin

text \<open>The pin commands on the table of pins: what a command finds, writes and leaves alone.\<close>

section \<open>Tables\<close>

lemma find_snoc: "find P (xs @ [y]) = (case find P xs of None \<Rightarrow> if P y then Some y else None | r \<Rightarrow> r)"
  by (induction xs) auto

lemma find_replaced: "find P xs = Some y \<Longrightarrow> P z \<Longrightarrow> find P (update_first P (\<lambda>_. z) xs) = Some z"
  by (induction xs) auto

lemma update_first_pairs:
  "(\<And>y. find P xs = Some y \<Longrightarrow> R y z) \<Longrightarrow> (\<And>y. R y y) \<Longrightarrow> list_all2 R xs (update_first P (\<lambda>_. z) xs)"
  by (induction xs) (auto simp: list.rel_refl)

lemma update_first_split:
  "find P xs = Some y \<Longrightarrow> \<exists>us vs. xs = us @ y # vs \<and> update_first P (\<lambda>_. z) xs = us @ z # vs"
proof (induction xs)
  case (Cons w xs)
  show ?case
  proof (cases "P w")
    case True
    then show ?thesis using Cons.prems by (intro exI [of _ "[]"] exI [of _ xs]) auto
  next
    case False
    then obtain us vs where "xs = us @ y # vs" "update_first P (\<lambda>_. z) xs = us @ z # vs" using Cons by auto
    then show ?thesis using False by (intro exI [of _ "w # us"] exI [of _ vs]) auto
  qed
qed simp

section \<open>The outcome of a command\<close>

definition pin_scope :: "Command \<Rightarrow> State \<Rightarrow> bool" where
  "pin_scope c st \<longleftrightarrow> cProductID c \<noteq> [] \<and> cFeatureID c = [] \<and> cIntegrationID c = [] \<and> cGateID c = [] \<and>
     cCheckID c = [] \<and> cResultID c = [] \<and> product_exists st (cProductID c)"

lemma apply_pin_scope:
  assumes "apply_artifact_pin hash x c m st = Inr r"
  shows "pin_scope c st" and "(if cAction c = ''release_artifact_pin'' then release_pin x c st else new_pin hash c m st) = Inr r"
  using assms by (auto simp: apply_artifact_pin_def pin_scope_def split: if_splits)

lemma apply_pin_in_scope:
  "pin_scope c st \<Longrightarrow> apply_artifact_pin hash x c m st =
     (if cAction c = ''release_artifact_pin'' then release_pin x c st else new_pin hash c m st)"
  by (simp add: apply_artifact_pin_def pin_scope_def)

lemma release_pin_cases:
  assumes "release_pin x c st = Inr (p, m, st', changed)"
  obtains
    (replay) q where "find (\<lambda>p. mID (apnMeta p) = cID c) (stArtifactPins st) = Some q" "apnReleasedAt q \<noteq> None"
      "p = q" "m = apnMeta q" "st' = st" "\<not> changed"
  | (released) q v where "find (\<lambda>p. mID (apnMeta p) = cID c) (stArtifactPins st) = Some q" "apnReleasedAt q = None"
      "p = q\<lparr>apnReleasedAt := Some (ctxStepNow x), apnMeta := (apnMeta q)\<lparr>mUpdatedAt := ctxStepNow x, mActor := cActor c\<rparr>\<rparr>"
      "m = apnMeta p" "changed" "mProductID (apnMeta q) = cProductID c"
      "st' = st\<lparr>stArtifactPins := update_first (\<lambda>p. mID (apnMeta p) = cID c) (\<lambda>_. p) (stArtifactPins st)\<rparr>"
      "decode fields_PinReleaseInput (cData c) \<lparr>pliApplicationID = []\<rparr> = Inr v" "apnApplicationID q = pliApplicationID v"
  using assms by (auto simp: release_pin_def Let_def split: sum.splits if_splits option.splits)

abbreviation same_request :: "Command \<Rightarrow> PinInput \<Rightarrow> ArtifactPin \<Rightarrow> bool" where
  "same_request c v p \<equiv> mProductID (apnMeta p) = cProductID c \<and> apnRequestKey p = pinRequestKey v"

definition pin_request :: "Command \<Rightarrow> State \<Rightarrow> (PinInput \<times> string) option" where
  "pin_request c st =
     (case decode fields_PinInput (cData c) \<lparr>pinApplicationID = [], pinImageRepository = [], pinDigest = [],
          pinPurpose = [], pinRequestKey = []\<rparr> of
        Inl e \<Rightarrow> None
      | Inr v \<Rightarrow> (if pin_input_ok c v \<and> component_of st (cProductID c) (pinApplicationID v)
          then map_option (Pair v) (canonical_image (pinImageRepository v)) else None))"

lemma new_pin_request:
  "new_pin hash c m st = Inr r \<Longrightarrow> \<exists>v repo. pin_request c st = Some (v, repo)"
  by (auto simp: new_pin_def pin_request_def split: sum.splits if_splits option.splits)

lemma new_pin_requested:
  assumes "pin_request c st = Some (v, repo)"
  shows "new_pin hash c m st =
    (case find (same_request c v) (stArtifactPins st) of
       Some p \<Rightarrow> (if same_intent (pin_of hash c v repo m) p then Inr (p, apnMeta p, st, False)
          else Inl (invalid ''artifact pin request_key conflicts with original intent'' []))
     | None \<Rightarrow> Inr (pin_of hash c v repo m, m, st\<lparr>stArtifactPins := stArtifactPins st @ [pin_of hash c v repo m]\<rparr>, True))"
  using assms by (auto simp: new_pin_def pin_request_def Let_def split: sum.splits if_splits)

lemma new_pin_cases:
  assumes "new_pin hash c m st = Inr (p, m', st', changed)"
  obtains
    (replay) "st' = st" "\<not> changed" "m' = apnMeta p"
  | (pinned) v repo where "pin_request c st = Some (v, repo)" "p = pin_of hash c v repo m" "m' = m" "changed"
      "find (same_request c v) (stArtifactPins st) = None"
      "st' = st\<lparr>stArtifactPins := stArtifactPins st @ [p]\<rparr>"
proof -
  obtain v repo where v: "pin_request c st = Some (v, repo)" using new_pin_request [OF assms] by blast
  show thesis
  proof (cases "find (same_request c v) (stArtifactPins st)")
    case None
    note e = assms [unfolded new_pin_requested [OF v] None option.case, simplified]
    show thesis by (rule that(2) [OF v _ _ _ None]) (use e in auto)
  next
    case (Some q)
    note e = assms [unfolded new_pin_requested [OF v] Some option.case]
    show thesis by (rule that(1)) (use e in \<open>auto split: if_splits\<close>)
  qed
qed

section \<open>Replay\<close>

lemma pin_scope_pins [simp]: "pin_scope c (st\<lparr>stArtifactPins := ps\<rparr>) = pin_scope c st"
  by (simp add: pin_scope_def product_exists_def)

lemma component_of_pins [simp]: "component_of (st\<lparr>stArtifactPins := ps\<rparr>) prd i = component_of st prd i"
  by (simp add: component_of_def application_by_id_def)

lemma pin_of_same: "same_intent (pin_of hash c v repo m) (pin_of hash c v repo m')"
  by (simp add: same_intent_def pin_of_def)

lemma pin_request_pins [simp]: "pin_request c (st\<lparr>stArtifactPins := ps\<rparr>) = pin_request c st"
  by (simp add: pin_request_def split: sum.split)

lemma new_pin_replay:
  assumes "new_pin hash c m st = Inr (p, m', st', changed)" and "mProductID m = cProductID c"
  shows "new_pin hash c n st' = Inr (p, m', st', False)"
proof -
  obtain v repo where v: "pin_request c st = Some (v, repo)" using new_pin_request [OF assms(1)] by blast
  note new = new_pin_requested [OF v]
  show ?thesis
  proof (cases "find (same_request c v) (stArtifactPins st)")
    case (Some q)
    have "same_intent (pin_of hash c v repo n) q \<longleftrightarrow> same_intent (pin_of hash c v repo m) q"
      by (simp add: same_intent_def pin_of_def)
    then show ?thesis using assms(1) new Some by (auto split: if_splits)
  next
    case None
    then have p: "p = pin_of hash c v repo m" "m' = m" "st' = st\<lparr>stArtifactPins := stArtifactPins st @ [p]\<rparr>"
      using assms(1) new by auto
    have "same_request c v p" "apnMeta p = m" using assms(2) by (simp_all add: p(1) pin_of_def)
    then have "find (same_request c v) (stArtifactPins st') = Some p" using None by (simp add: p(3) find_snoc)
    moreover have "pin_request c st' = Some (v, repo)" using v by (simp add: p(3))
    ultimately show ?thesis
      using new_pin_requested [of c st' v repo hash n] pin_of_same [of hash c v repo n m] p \<open>apnMeta p = m\<close> by simp
  qed
qed

lemma release_pin_replay:
  assumes "release_pin x c st = Inr (p, m, st', changed)"
  shows "release_pin y c st' = Inr (p, m, st', False)"
  using assms
proof (cases rule: release_pin_cases)
  case (replay q)
  then show ?thesis using assms by (auto simp: release_pin_def Let_def split: sum.splits if_splits)
next
  case (released q v)
  have "mID (apnMeta p) = cID c" using released(1,3) by (auto dest: find_Some_prop)
  then have f: "find (\<lambda>p. mID (apnMeta p) = cID c) (stArtifactPins st') = Some p"
    using released(1,7) find_replaced by simp
  have "cID c \<noteq> [] \<and> component_of st (cProductID c) (pliApplicationID v)"
    using assms released(8) by (auto simp: release_pin_def split: if_splits)
  then show ?thesis using released f by (simp add: release_pin_def)
qed

section \<open>What a command changes\<close>

text \<open>A pin keeps its identity and intent, and once released it does not change.\<close>

definition pin_kept :: "ArtifactPin \<Rightarrow> ArtifactPin \<Rightarrow> bool" where
  "pin_kept p q \<longleftrightarrow>
     mID (apnMeta q) = mID (apnMeta p) \<and> mProductID (apnMeta q) = mProductID (apnMeta p) \<and>
     mCreatedAt (apnMeta q) = mCreatedAt (apnMeta p) \<and> apnApplicationID q = apnApplicationID p \<and>
     apnImageRepository q = apnImageRepository p \<and> apnDigest q = apnDigest p \<and> apnPurpose q = apnPurpose p \<and>
     apnRequestKey q = apnRequestKey p \<and> apnRequestHash q = apnRequestHash p \<and>
     (apnReleasedAt p \<noteq> None \<longrightarrow> q = p)"

lemma pin_kept_refl [simp]: "pin_kept p p"
  by (simp add: pin_kept_def)

lemma apply_pin_kept:
  assumes "apply_artifact_pin hash x c m st = Inr (p, m', st', changed)"
  shows "list_all2 pin_kept (stArtifactPins st) (take (length (stArtifactPins st)) (stArtifactPins st'))"
proof (cases "cAction c = ''release_artifact_pin''")
  case True
  then have "release_pin x c st = Inr (p, m', st', changed)" using apply_pin_scope(2) [OF assms] by simp
  then show ?thesis
  proof (cases rule: release_pin_cases)
    case (released q v)
    have "list_all2 pin_kept (stArtifactPins st) (stArtifactPins st')"
      using released(1-3) unfolding released(7) by (auto intro!: update_first_pairs simp: pin_kept_def)
    then show ?thesis using list_all2_lengthD by fastforce
  qed (simp add: list.rel_refl)
next
  case False
  then have "new_pin hash c m st = Inr (p, m', st', changed)" using apply_pin_scope(2) [OF assms] by simp
  then show ?thesis by (cases rule: new_pin_cases) (simp_all add: list.rel_refl)
qed

end
