(* ===== verification/Retention.thy ===== *)
theory Retention
  imports Checks ImageNames "HOL-Library.AList"
begin

text \<open>
  The retention evaluator \<open>internal/domain/retention.go\<close>: which images of a product are protected and
  why. It collects images into a map from identity (repository and digest) to a row; the map is an
  association list in the order of creation, and a pointer to a row is its identity. The evaluator
  ranges over Go maps in random order; here that order is the one of the list, and the report sorts
  what depends on it.

  \<open>RetentionCtx\<close> holds the state and the product that are evaluated, the reading of the clock, the hashes,
  \<open>time.Parse\<close>, and the roots of development baselines and restorations
  (\<open>dev_baseline_retention.go\<close>, \<open>dev_restoration.go\<close>), which reach the collector only through \<open>image\<close>
  and \<open>block\<close>. The fingerprint \<open>InputHash\<close> of the report and the evidence it hashes are not modelled.
\<close>

section \<open>Reports\<close>

record EffectiveRetentionPolicy =
  polApplicationID :: string
  polConfiguredKeepLast :: int
  polEffectiveKeepLast :: int
  polKeepCurrent :: bool
  polKeepPrevious :: int

record RetentionImage =
  imIdentity :: string
  imImageRepository :: string
  imDigest :: string
  imApplicationIDs :: "string list"
  imProfiles :: "string list"
  imArtifactIDs :: "string list"
  imReasons :: "string list"
  imBlockers :: "string list"
  imProtected :: bool
  imAvailability :: string
  imFreshness :: string
  imPublishedAt :: "time option"

section \<open>The collector\<close>

datatype root_action =
    RootImage string string string string "string list"
  | RootBlock string

record RetentionCtx =
  rxState :: State
  rxProduct :: string
  rxNow :: time
  rxInputHash :: "WorkerInputs \<Rightarrow> string"
  rxScopeHash :: "string list \<Rightarrow> string"
  rxParseTime :: "string \<Rightarrow> time option"
  rxBaselineRoots :: "State \<Rightarrow> string \<Rightarrow> time \<Rightarrow> root_action list"
  rxRestorationRoots :: "State \<Rightarrow> string \<Rightarrow> time \<Rightarrow> root_action list"

record Collector =
  clImages :: "(string \<times> RetentionImage) list"
  clObserved :: "(string \<times> time) list"
  clAvailability :: "(string \<times> string list) list"
  clPolicies :: "EffectiveRetentionPolicy list"
  clBlockers :: "string list"

definition empty_collector :: Collector where
  "empty_collector = \<lparr>clImages = [], clObserved = [], clAvailability = [], clPolicies = [], clBlockers = []\<rparr>"

definition block :: "string \<Rightarrow> Collector \<Rightarrow> Collector" where
  "block code c = c\<lparr>clBlockers := clBlockers c @ [code]\<rparr>"

text \<open>A write through the pointer to an image.\<close>

definition on_image :: "string \<Rightarrow> (RetentionImage \<Rightarrow> RetentionImage) \<Rightarrow> Collector \<Rightarrow> Collector" where
  "on_image key f c = c\<lparr>clImages := map (\<lambda>(k, v). (k, if k = key then f v else v)) (clImages c)\<rparr>"

definition image_at :: "Collector \<Rightarrow> string \<Rightarrow> RetentionImage option" where
  "image_at c key = map_of (clImages c) key"

definition new_image :: "string \<Rightarrow> string \<Rightarrow> RetentionImage" where
  "new_image r digest = \<lparr>imIdentity = r @ ''@'' @ digest, imImageRepository = r, imDigest = digest,
     imApplicationIDs = [], imProfiles = [], imArtifactIDs = [], imReasons = [], imBlockers = [],
     imProtected = False, imAvailability = ''UNKNOWN'', imFreshness = ''UNKNOWN'', imPublishedAt = None\<rparr>"

definition image_key :: "string \<Rightarrow> string \<Rightarrow> (string \<times> string) option" where
  "image_key repo digest =
     (case canonical_image repo of
        None \<Rightarrow> None
      | Some r \<Rightarrow> (if sha256_digest digest then Some (r @ ''@'' @ digest, r) else None))"

definition tag_image :: "string \<Rightarrow> string \<Rightarrow> RetentionImage \<Rightarrow> RetentionImage" where
  "tag_image app reason v =
     v\<lparr>imApplicationIDs := imApplicationIDs v @ (if app = [] then [] else [app]),
       imProtected := imProtected v \<or> reason \<noteq> [],
       imReasons := imReasons v @ (if reason = [] then [] else [reason])\<rparr>"

text \<open>\<open>image\<close>: the pointer it returns, nil when the reference does not name an image.\<close>

definition image :: "string \<Rightarrow> string \<Rightarrow> string \<Rightarrow> string \<Rightarrow> Collector \<Rightarrow> string option \<times> Collector" where
  "image repo digest app reason c =
     (case image_key repo digest of
        None \<Rightarrow> (None, block ''unresolved_image_reference'' c)
      | Some (key, r) \<Rightarrow>
          (let c = (if image_at c key = None then c\<lparr>clImages := clImages c @ [(key, new_image r digest)]\<rparr> else c)
           in (Some key, on_image key (tag_image app reason) c)))"

definition add_image :: "string \<Rightarrow> string \<Rightarrow> string \<Rightarrow> string \<Rightarrow> Collector \<Rightarrow> Collector" where
  "add_image repo digest app reason c = snd (image repo digest app reason c)"

definition image_found :: "string \<Rightarrow> string \<Rightarrow> bool" where
  "image_found repo digest \<longleftrightarrow> image_key repo digest \<noteq> None"

definition op_of :: "RetentionCtx \<Rightarrow> string \<Rightarrow> ExternalOperation option" where
  "op_of x i = last_op (rxState x) i"

section \<open>Where an artifact was published\<close>

definition github_api :: "string \<Rightarrow> bool" where
  "github_api raw \<longleftrightarrow>
     raw = [] \<or> equal_fold (drop_slashes raw) ''https://api.github.com'' \<or>
     equal_fold (drop_slashes raw) ''https://api.github.com:443''"

definition origin_matches :: "RetentionCtx \<Rightarrow> DeliveryArtifact \<Rightarrow> ExternalOperation \<Rightarrow> DeliverySnapshot \<Rightarrow> bool" where
  "origin_matches x a o' s \<longleftrightarrow>
     (cbMode (dsBuild s) = [] \<or> cbMode (dsBuild s) = ''GITHUB_ACTIONS'') \<and>
     mID (appMeta (dsApplication s)) = daApplicationID a \<and>
     mProductID (appMeta (dsApplication s)) = mProductID (daMeta a) \<and>
     cbApplicationID (dsBuild s) = daApplicationID a \<and> mProductID (cbMeta (dsBuild s)) = mProductID (daMeta a) \<and>
     mProductID (revMeta (dsRevision s)) = mProductID (daMeta a) \<and>
     revRepositoryID (dsRevision s) = daRepositoryID a \<and> revHeadCommit (dsRevision s) = daSourceCommit a \<and>
     mProductID (rbMeta (dsSource s)) = mProductID (daMeta a) \<and> rbRepositoryID (dsSource s) = daRepositoryID a \<and>
     dsBuildRequest s = daBuildRequest a \<and> brqOperationID (daBuildRequest a) = mID (opMeta o') \<and>
     brqSourceSHA (daBuildRequest a) = daSourceCommit a \<and> brqRepository (daBuildRequest a) \<noteq> [] \<and>
     cbImageRepository (dsBuild s) = daImageRepository a \<and>
     (CHR ''/'' \<in> set (brqRepository (daBuildRequest a)) \<longrightarrow>
        equal_fold (brqRepository (daBuildRequest a)) (rbFullName (dsSource s)))"

text \<open>\<open>ghaOrigin\<close>: the operation, with its snapshot, whose frozen request built the artifact.\<close>

definition gha_origin :: "RetentionCtx \<Rightarrow> DeliveryArtifact \<Rightarrow> (ExternalOperation \<times> DeliverySnapshot) option" where
  "gha_origin x a =
     (case op_of x (brqOperationID (daBuildRequest a)) of
        None \<Rightarrow> None
      | Some o' \<Rightarrow>
          (if mProductID (daMeta a) \<noteq> rxProduct x \<or> mProductID (opMeta o') \<noteq> mProductID (daMeta a) \<or>
              opApplicationID o' \<noteq> daApplicationID a \<or> opKind o' \<noteq> ''DEPLOY'' then None
           else case opSnapshot o' of
             None \<Rightarrow> None
           | Some s \<Rightarrow> (if origin_matches x a o' s then Some (o', s) else None)))"

definition artifact_repo :: "RetentionCtx \<Rightarrow> DeliveryArtifact \<Rightarrow> string" where
  "artifact_repo x a =
     (case canonical_image (daImageRepository a) of
        Some r \<Rightarrow> r
      | None \<Rightarrow>
          (case gha_origin x a of
             Some (o', s) \<Rightarrow>
               (if 0 < cnnAppID (dsSourceConnection s) \<and> github_api (cnnAPIURL (dsSourceConnection s))
                then (case canonical_image (''ghcr.io/'' @ daImageRepository a) of
                        Some r \<Rightarrow> r | None \<Rightarrow> daImageRepository a)
                else daImageRepository a)
           | None \<Rightarrow> daImageRepository a))"

definition observe :: "string \<Rightarrow> time \<Rightarrow> string \<Rightarrow> Collector \<Rightarrow> Collector" where
  "observe key at availability c =
     (case map_of (clObserved c) key of
        None \<Rightarrow> c\<lparr>clObserved := AList.update key at (clObserved c),
                  clAvailability := AList.update key [availability] (clAvailability c)\<rparr>
      | Some old \<Rightarrow>
          (if old < at then c\<lparr>clObserved := AList.update key at (clObserved c),
                  clAvailability := AList.update key [availability] (clAvailability c)\<rparr>
           else if at = old then c\<lparr>clAvailability := AList.update key
                  ((case map_of (clAvailability c) key of None \<Rightarrow> [] | Some v \<Rightarrow> v) @ [availability])
                  (clAvailability c)\<rparr>
           else c))"

definition valid_retention_profile :: "string \<Rightarrow> bool" where
  "valid_retention_profile p = name_like ''_.:/-'' 0 127 p"

definition trim_origin :: "string \<Rightarrow> string" where
  "trim_origin s = trim_prefix (trim_prefix s ''https://'') ''http://''"

definition publication_repo :: "WorkerPublication \<Rightarrow> string" where
  "publication_repo p = trim_origin (wpOrigin p) @ ''/'' @ wpRepository p"

section \<open>The chronology of an artifact\<close>

definition publication_job_ok ::
  "RetentionCtx \<Rightarrow> DeliveryArtifact \<Rightarrow> NativeArtifact \<Rightarrow> WorkerJob \<Rightarrow> WorkerAttempt \<Rightarrow> bool" where
  "publication_job_ok x a n j b \<longleftrightarrow>
     mProductID (jMeta j) = mProductID (daMeta a) \<and> jCapability j = ''registry_publish'' \<and>
     daOperationID a = jOperationID j \<and> jStatus j = ''SUCCEEDED'' \<and> \<not> jCancellationRequested j \<and>
     jInputHash j = rxInputHash x (jInputs j) \<and> jInputHash j = natPublicationInputHash n \<and>
     wiRepositoryID (jInputs j) = daRepositoryID a \<and> wiSourceSHA (jInputs j) = daSourceCommit a \<and>
     aJobID b = mID (jMeta j) \<and> mProductID (aMeta b) = mProductID (jMeta j) \<and> aFence b = jFence j \<and>
     aInputHash b = jInputHash j \<and> aStatus b = ''SUCCEEDED'' \<and> \<not> jDeadline j < mUpdatedAt (aMeta b)"

definition publication_report_ok ::
  "DeliveryArtifact \<Rightarrow> NativeArtifact \<Rightarrow> WorkerJob \<Rightarrow> WorkerAttempt \<Rightarrow> WorkerPublication \<Rightarrow> WorkerReport \<Rightarrow> bool" where
  "publication_report_ok a n j b p r \<longleftrightarrow>
     canonical_image (publication_repo p) \<noteq> None \<and>
     canonical_image (publication_repo p) = canonical_image (daImageRepository a) \<and>
     wpComponentID p = daApplicationID a \<and> wpProfile p = natProfile n \<and> wpReceipt p = natReceipt n \<and>
     ociManifestDigest (natReceipt n) = daDigest a \<and> nobManifestDigest (natObservation n) = daDigest a \<and>
     repResult r = ''PASSED'' \<and> wrJobID (repWorkerAttemptRequest r) = mID (jMeta j) \<and>
     wrAttemptID (repWorkerAttemptRequest r) = mID (aMeta b) \<and> wrFence (repWorkerAttemptRequest r) = aFence b \<and>
     wrInputHash (repWorkerAttemptRequest r) = jInputHash j \<and> repLocalOCI r = None \<and>
     (case repPublication r of None \<Rightarrow> False | Some q \<Rightarrow> wprManifestDigest q = daDigest a)"

text \<open>The build whose receipt was published, accepted no later than the publication.\<close>

definition build_attempt_ok :: "WorkerPublication \<Rightarrow> WorkerJob \<Rightarrow> WorkerAttempt \<Rightarrow> WorkerAttempt \<Rightarrow> bool" where
  "build_attempt_ok p b pub a \<longleftrightarrow>
     mID (aMeta a) = ociAttemptID (wpReceipt p) \<and> aJobID a = mID (jMeta b) \<and>
     mProductID (aMeta a) = mProductID (jMeta b) \<and> mUpdatedAt (aMeta a) \<noteq> zero_time \<and>
     \<not> mUpdatedAt (aMeta pub) < mUpdatedAt (aMeta a) \<and>
     (case aReport a of None \<Rightarrow> False | Some r \<Rightarrow> repLocalOCI r = Some (wpReceipt p))"

definition publication_build_ok :: "RetentionCtx \<Rightarrow> WorkerJob \<Rightarrow> WorkerAttempt \<Rightarrow> WorkerPublication \<Rightarrow> bool" where
  "publication_build_ok x j pub p \<longleftrightarrow>
     list_ex (\<lambda>b. mID (jMeta b) = ociJobID (wpReceipt p) \<and> jInputHash b = rxInputHash x (jInputs b) \<and>
         mProductID (jMeta b) = mProductID (jMeta j) \<and>
         wiRepositoryID (jInputs b) = wiRepositoryID (jInputs j) \<and>
         wiSourceSHA (jInputs b) = wiSourceSHA (jInputs j) \<and> check_success_provenance (rxState x) b \<and>
         list_ex (build_attempt_ok p b pub) (stWorkerAttempts (rxState x)))
       (stWorkerJobs (rxState x))"

definition native_chronology :: "RetentionCtx \<Rightarrow> DeliveryArtifact \<Rightarrow> NativeArtifact \<Rightarrow> (string \<times> time) option" where
  "native_chronology x a n =
     (if daProvenance a \<noteq> ''NATIVE_WORKER'' \<or> natReconciliation n \<noteq> None \<or>
         \<not> valid_retention_profile (natProfile n) then None
      else case (last_job (rxState x) (natPublicationJobID n),
                 find_last (\<lambda>b. mID (aMeta b) = natPublicationAttemptID n) (stWorkerAttempts (rxState x))) of
        (Some j, Some b) \<Rightarrow>
          (case (wiPublication (jInputs j), aReport b) of
             (Some p, Some r) \<Rightarrow>
               (if publication_job_ok x a n j b \<and> publication_report_ok a n j b p r \<and>
                   publication_build_ok x j b p \<and> mUpdatedAt (aMeta b) \<noteq> zero_time \<and>
                   \<not> rxNow x < mUpdatedAt (aMeta b)
                then Some (natProfile n, mUpdatedAt (aMeta b)) else None)
           | _ \<Rightarrow> None)
      | _ \<Rightarrow> None)"

definition run_field :: "RunResult \<Rightarrow> string \<Rightarrow> string" where
  "run_field r k = (case map_of (rurArtifacts r) k of None \<Rightarrow> [] | Some v \<Rightarrow> v)"

definition run_matches :: "DeliveryArtifact \<Rightarrow> ExternalOperation \<Rightarrow> DeliveryBuildRun \<Rightarrow> bool" where
  "run_matches a o' run \<longleftrightarrow>
     (let r = dbrResult run in
      mProductID (dbrMeta run) = mProductID (daMeta a) \<and> dbrOperationID run = mID (opMeta o') \<and>
      dbrApplicationID run = daApplicationID a \<and> dbrRequest run = daBuildRequest a \<and> rurFound r \<and>
      rurID r = daBuildRunID a \<and> rurStatus r = ''completed'' \<and> rurConclusion r = ''success'' \<and>
      rurHeadSHA r = daSourceCommit a \<and> run_field r ''operation_id'' = mID (opMeta o') \<and>
      run_field r ''source_sha'' = daSourceCommit a \<and> run_field r ''image_repository'' = daImageRepository a \<and>
      run_field r ''image_tag'' = brqImageTag (daBuildRequest a) \<and> run_field r ''digest'' = daDigest a \<and>
      run_field r ''available'' = ''true'')"

text \<open>The earliest observation of a matching run; the zero time while there is none.\<close>

definition earlier_run :: "RetentionCtx \<Rightarrow> DeliveryArtifact \<Rightarrow> ExternalOperation \<Rightarrow> DeliveryBuildRun \<Rightarrow> time \<Rightarrow> time" where
  "earlier_run x a o' run earliest =
     (if \<not> run_matches a o' run then earliest
      else case rxParseTime x (run_field (dbrResult run) ''observed_at'') of
        None \<Rightarrow> earliest
      | Some at \<Rightarrow>
          (if at \<noteq> zero_time \<and> \<not> rxNow x < at \<and> (earliest = zero_time \<or> at < earliest) then at else earliest))"

definition run_chronology :: "RetentionCtx \<Rightarrow> DeliveryArtifact \<Rightarrow> (string \<times> time) option" where
  "run_chronology x a =
     (case gha_origin x a of
        None \<Rightarrow> None
      | Some (o', s) \<Rightarrow>
          (let profile = (if cbProfile (dsBuild s) = [] then ''default'' else cbProfile (dsBuild s));
               earliest = fold (earlier_run x a o') (stDeliveryBuildRuns (rxState x)) zero_time
           in if daBuildRunID a \<le> 0 \<or> \<not> valid_retention_profile profile \<or> earliest = zero_time then None
              else Some (profile, earliest)))"

text \<open>\<open>chronology\<close>: profile and time of the publication, when they are known.\<close>

definition chronology :: "RetentionCtx \<Rightarrow> DeliveryArtifact \<Rightarrow> (string \<times> time) option" where
  "chronology x a = (case daNative a of Some n \<Rightarrow> native_chronology x a n | None \<Rightarrow> run_chronology x a)"

end
