(* ===== verification/RetentionRoots.thy ===== *)
theory RetentionRoots
  imports Retention
begin

text \<open>
  The roots of the evaluator of \<open>internal/domain/retention.go\<close>: published artifacts and the last ones to
  keep, operations and workers in flight, environments and what runs in them, releases and pins; and
  the evaluation of one product.
\<close>

section \<open>Published artifacts\<close>

text \<open>A row of \<open>pubs\<close>: image, application, profile and time. The key is application, profile and image; a
  profile and an image hold no NUL, so the joined string of the code is as good as the triple.\<close>

record publication =
  pbImage :: string
  pbApp :: string
  pbProfile :: string
  pbAt :: time

definition unknown_chronology :: "RetentionImage \<Rightarrow> RetentionImage" where
  "unknown_chronology v = v\<lparr>imProtected := True, imProfiles := imProfiles v @ [''unknown''],
     imReasons := imReasons v @ [''unknown_publication_chronology''],
     imBlockers := imBlockers v @ [''unknown_publication_chronology'']\<rparr>"

definition known_chronology :: "string \<Rightarrow> time \<Rightarrow> RetentionImage \<Rightarrow> RetentionImage" where
  "known_chronology profile at v = v\<lparr>imProfiles := imProfiles v @ [profile],
     imPublishedAt := (case imPublishedAt v of None \<Rightarrow> Some at | Some old \<Rightarrow> Some (if at < old then at else old))\<rparr>"

fun add_publication :: "publication \<Rightarrow> publication list \<Rightarrow> publication list" where
  "add_publication p [] = [p]"
| "add_publication p (q # qs) =
     (if pbApp q = pbApp p \<and> pbProfile q = pbProfile p \<and> pbImage q = pbImage p
      then (if pbAt p < pbAt q then p else q) # qs else q # add_publication p qs)"

definition artifact_row ::
  "RetentionCtx \<Rightarrow> DeliveryArtifact \<Rightarrow> publication list \<times> Collector \<Rightarrow> publication list \<times> Collector" where
  "artifact_row x a pc =
     (case pc of (pubs, c) \<Rightarrow>
      if mProductID (daMeta a) \<noteq> rxProduct x then (pubs, c)
      else case image (artifact_repo x a) (daDigest a) (daApplicationID a) [] c of
        (None, c) \<Rightarrow> (pubs, c)
      | (Some key, c) \<Rightarrow>
          (let c = on_image key (\<lambda>v. v\<lparr>imArtifactIDs := imArtifactIDs v @ [mID (daMeta a)]\<rparr>) c;
               c = observe key (daObservedAt a) (daAvailability a) c
           in case chronology x a of
             None \<Rightarrow> (pubs, block ''unknown_publication_chronology'' (on_image key unknown_chronology c))
           | Some (profile, at) \<Rightarrow>
               (add_publication \<lparr>pbImage = key, pbApp = daApplicationID a, pbProfile = profile, pbAt = at\<rparr> pubs,
                on_image key (known_chronology profile at) c)))"

definition keep_of :: "EffectiveRetentionPolicy list \<Rightarrow> string \<Rightarrow> int" where
  "keep_of ps app =
     (case find_last (\<lambda>p. polApplicationID p = app) ps of None \<Rightarrow> 10 | Some p \<Rightarrow> polEffectiveKeepLast p)"

text \<open>The newest first, equal times by image; \<open>sort_key\<close> is stable.\<close>

definition newest_first :: "publication list \<Rightarrow> publication list" where
  "newest_first ps = sort_key (\<lambda>p. - pbAt p) (sort_key pbImage ps)"

definition keep_reason :: "publication \<Rightarrow> string" where
  "keep_reason p = ''keep_last:'' @ pbApp p @ '':'' @ pbProfile p"

definition protect :: "string \<Rightarrow> string \<Rightarrow> Collector \<Rightarrow> Collector" where
  "protect key reason =
     on_image key (\<lambda>v. v\<lparr>imProtected := True, imReasons := imReasons v @ [reason]\<rparr>)"

definition kept :: "EffectiveRetentionPolicy list \<Rightarrow> publication list \<Rightarrow> string \<times> string \<Rightarrow> publication list" where
  "kept ps pubs g =
     take (nat (keep_of ps (fst g))) (newest_first (filter (\<lambda>p. pbApp p = fst g \<and> pbProfile p = snd g) pubs))"

definition pub_groups :: "publication list \<Rightarrow> (string \<times> string) list" where
  "pub_groups pubs = remdups (map (\<lambda>p. (pbApp p, pbProfile p)) pubs)"

definition artifact_rows :: "RetentionCtx \<Rightarrow> Collector \<Rightarrow> publication list \<times> Collector" where
  "artifact_rows x c = fold (artifact_row x) (stDeliveryArtifacts (rxState x)) ([], c)"

definition artifacts :: "RetentionCtx \<Rightarrow> Collector \<Rightarrow> Collector" where
  "artifacts x c =
     (case artifact_rows x c of (pubs, c) \<Rightarrow>
        fold (\<lambda>p. protect (pbImage p) (keep_reason p))
          (concat (map (kept (clPolicies c) pubs) (pub_groups pubs))) c)"

section \<open>References to images\<close>

definition frozen_repo :: "RetentionCtx \<Rightarrow> DeliverySnapshot \<Rightarrow> string" where
  "frozen_repo x s = artifact_repo x (zero_DeliveryArtifact\<lparr>daMeta := zero_Meta\<lparr>mProductID := rxProduct x\<rparr>,
     daApplicationID := mID (appMeta (dsApplication s)), daRepositoryID := revRepositoryID (dsRevision s),
     daSourceCommit := revHeadCommit (dsRevision s), daImageRepository := cbImageRepository (dsBuild s),
     daBuildRequest := dsBuildRequest s\<rparr>)"

definition strip_runtime :: "string \<Rightarrow> string" where
  "strip_runtime v = trim_prefix (trim_prefix (trim_prefix v ''docker-pullable://'') ''docker://'') ''containerd://''"

text \<open>The repository of a hint: without digest, and without the tag after the last slash.\<close>

definition strip_tag :: "string \<Rightarrow> string" where
  "strip_tag s = (if CHR '':'' \<in> set s \<and> CHR ''/'' \<notin> set (after_last CHR '':'' s) then before_last CHR '':'' s else s)"

text \<open>The candidates for a bare digest of an application, each a repository.\<close>

definition lineage_repos :: "RetentionCtx \<Rightarrow> string \<Rightarrow> string list" where
  "lineage_repos x app =
     map (\<lambda>o'. frozen_repo x (the (opSnapshot o')))
       (filter (\<lambda>o'. mProductID (opMeta o') = rxProduct x \<and>
          (case opSnapshot o' of None \<Rightarrow> False | Some s \<Rightarrow> mID (appMeta (dsApplication s)) = app))
         (stOperations (rxState x))) @
     map cbImageRepository
       (filter (\<lambda>b. mProductID (cbMeta b) = rxProduct x \<and> cbApplicationID b = app) (stComponentBuilds (rxState x)))"

definition bare_digest :: "RetentionCtx \<Rightarrow> string \<Rightarrow> string \<Rightarrow> string \<Rightarrow> Collector \<Rightarrow> Collector" where
  "bare_digest x value app reason c =
     (let as = filter (\<lambda>a. mProductID (daMeta a) = rxProduct x \<and> daDigest a = value \<and>
                 (app = [] \<or> daApplicationID a = app)) (stDeliveryArtifacts (rxState x));
          repos = (if as = [] \<and> app \<noteq> [] then lineage_repos x app else []);
          c = fold (\<lambda>a. add_image (artifact_repo x a) value app reason) as c;
          c = fold (\<lambda>r. add_image r value app reason) repos c
      in if as = [] \<and> \<not> list_ex (\<lambda>r. image_found r value) repos then block ''unresolved_image_repository'' c else c)"

definition ref :: "RetentionCtx \<Rightarrow> string \<Rightarrow> string \<Rightarrow> string \<Rightarrow> string \<Rightarrow> Collector \<Rightarrow> Collector" where
  "ref x raw hint app reason c =
     (let value = strip_runtime raw in
      if CHR ''@'' \<in> set value
      then add_image (before_char CHR ''@'' value) (after_char CHR ''@'' value) app reason c
      else if sha256_digest value then
        (if hint \<noteq> [] then add_image (strip_tag (before_char CHR ''@'' hint)) value app reason c
         else bare_digest x value app reason c)
      else if value \<noteq> [] then block ''mutable_or_unresolved_image_reference'' c else c)"

definition snapshot :: "RetentionCtx \<Rightarrow> DeliverySnapshot \<Rightarrow> string \<Rightarrow> string \<Rightarrow> Collector \<Rightarrow> Collector" where
  "snapshot x s digest reason c =
     (let app = mID (appMeta (dsApplication s));
          c = (if digest \<noteq> [] then add_image (frozen_repo x s) digest app reason c else c)
      in if grqImageRepository (dsGitOpsRequest s) \<noteq> [] \<and> digest \<noteq> []
         then add_image (grqImageRepository (dsGitOpsRequest s)) digest app reason c else c)"

section \<open>Operations\<close>

definition terminal_retention :: "string \<Rightarrow> bool" where
  "terminal_retention s \<longleftrightarrow> s = ''SUCCEEDED'' \<or> s = ''FAILED'' \<or> s = ''CANCELLED''"

definition reconciled :: "RetentionCtx \<Rightarrow> ExternalOperation \<Rightarrow> bool" where
  "reconciled x o' \<longleftrightarrow>
     (case (opGitOpsResult o', opArtifact o') of
        (Some g, Some a) \<Rightarrow>
          list_ex (\<lambda>r. mProductID (robMeta r) = rxProduct x \<and> robOperationID r = mID (opMeta o') \<and>
              robEnvironmentID r = opEnvironmentID o' \<and> robHealthy r \<and> robGitOpsCommit r = gorCommitSHA g \<and>
              robArtifactDigest r = arrDigest a \<and> \<not> mCreatedAt (robMeta r) < mUpdatedAt (opMeta o') \<and>
              mCreatedAt (robMeta r) \<noteq> zero_time \<and> \<not> rxNow x < mCreatedAt (robMeta r))
            (stRuntimeObservations (rxState x))
      | _ \<Rightarrow> False)"

text \<open>The digests an operation pins for its own snapshot.\<close>

definition own_digests :: "ExternalOperation \<Rightarrow> (DeliverySnapshot \<times> string) list" where
  "own_digests o' =
     (case opSnapshot o' of
        None \<Rightarrow> []
      | Some s \<Rightarrow> (case opArtifact o' of None \<Rightarrow> [] | Some a \<Rightarrow> [(s, arrDigest a)]) @
          (if opExpectedDigest o' \<noteq> [] then [(s, opExpectedDigest o')] else []))"

definition snapshots :: "RetentionCtx \<Rightarrow> (DeliverySnapshot \<times> string) list \<Rightarrow> string \<Rightarrow> Collector \<Rightarrow> Collector" where
  "snapshots x sds reason c = fold (\<lambda>(s, d). snapshot x s d reason) sds c"

definition prepared_artifacts :: "RetentionCtx \<Rightarrow> DeliverySnapshot \<Rightarrow> DeliveryArtifact list" where
  "prepared_artifacts x s =
     filter (\<lambda>a. mProductID (daMeta a) = rxProduct x \<and> daApplicationID a = mID (appMeta (dsApplication s)) \<and>
       daSourceCommit a = revHeadCommit (dsRevision s)) (stDeliveryArtifacts (rxState x))"

definition prepared :: "RetentionCtx \<Rightarrow> string \<Rightarrow> DeliverySnapshot \<Rightarrow> Collector \<Rightarrow> Collector" where
  "prepared x reason s c =
     (let as = prepared_artifacts x s;
          c = fold (\<lambda>a. add_image (artifact_repo x a) (daDigest a) (daApplicationID a) reason) as c
      in if as = [] \<or> daDigest (last as) = [] then block ''prepared_deployment_artifact_unresolved'' c else c)"

definition child_roots :: "RetentionCtx \<Rightarrow> string \<Rightarrow> string \<Rightarrow> Collector \<Rightarrow> Collector" where
  "child_roots x reason i c =
     (case op_of x i of
        Some child \<Rightarrow>
          (if mProductID (opMeta child) = rxProduct x then snapshots x (own_digests child) reason c
           else block ''operation_child_unresolved'' c)
      | None \<Rightarrow> block ''operation_child_unresolved'' c)"

definition operation :: "RetentionCtx \<Rightarrow> ExternalOperation \<Rightarrow> string \<Rightarrow> Collector \<Rightarrow> Collector" where
  "operation x o' reason c =
     (let c = snapshots x (own_digests o') reason c;
          c = (case opExistingArtifact o' of None \<Rightarrow> c
               | Some a \<Rightarrow> add_image (artifact_repo x a) (daDigest a) (daApplicationID a) reason c);
          c = (case opGitOpsBase o' of None \<Rightarrow> c
               | Some b \<Rightarrow> add_image (gsnImageRepository b) (gsnDigest b) (opApplicationID o') ''gitops_observed'' c);
          c = fold (prepared x reason) (opPreparedDeployments o') c
      in fold (child_roots x reason) (opChildIDs o') c)"

definition operation_reason :: "RetentionCtx \<Rightarrow> ExternalOperation \<Rightarrow> string" where
  "operation_reason x o' =
     (let possible = opStartedAt o' \<noteq> None \<or> opRun o' \<noteq> None \<or> opGitOpsPR o' \<noteq> None \<or> opGitOpsResult o' \<noteq> None \<or>
                     opNative o' \<noteq> None \<or> 0 < opAttempts o'
      in if (opStatus o' = ''FAILED'' \<or> opStatus o' = ''CANCELLED'') \<and> possible \<and> \<not> reconciled x o'
         then ''uncertain_external_intent''
         else if \<not> terminal_retention (opStatus o') \<or> opKind o' = ''RELEASE_CANDIDATE'' \<or> opGitOpsPR o' \<noteq> None
         then ''operation_inflight'' else [])"

definition operation_row :: "RetentionCtx \<Rightarrow> ExternalOperation \<Rightarrow> Collector \<Rightarrow> Collector" where
  "operation_row x o' c =
     (if mProductID (opMeta o') \<noteq> rxProduct x then c
      else let reason = operation_reason x o';
               c = (if reason = ''uncertain_external_intent'' then block reason c else c);
               c = (if reason \<noteq> [] then operation x o' reason c else c)
        in case opGitOpsBase o' of
             None \<Rightarrow> c
           | Some b \<Rightarrow> (if gsnDigest b \<noteq> []
               then add_image (gsnImageRepository b) (gsnDigest b) (opApplicationID o') ''gitops_observed'' c else c))"

section \<open>Workers\<close>

definition admitted_artifact :: "RetentionCtx \<Rightarrow> (NativeArtifact \<Rightarrow> bool) \<Rightarrow> bool" where
  "admitted_artifact x P \<longleftrightarrow>
     list_ex (\<lambda>a. mProductID (daMeta a) = rxProduct x \<and> (case daNative a of None \<Rightarrow> False | Some n \<Rightarrow> P n) \<and>
       chronology x a \<noteq> None) (stDeliveryArtifacts (rxState x))"

definition publication_intent :: "RetentionCtx \<Rightarrow> WorkerJob \<Rightarrow> WorkerPublication \<Rightarrow> Collector \<Rightarrow> Collector" where
  "publication_intent x j p c =
     (let repo = publication_repo p;
          c = add_image repo (ociManifestDigest (wpReceipt p)) (wpComponentID p) ''worker_publication_intent'' c;
          c = (if jStatus j = ''SUCCEEDED'' then block ''publication_admission_missing_or_invalid'' c
               else if jStatus j \<in> {''FAILED'', ''CANCELLED'', ''RECONCILIATION_REQUIRED''}
               then block ''uncertain_publication_intent'' c else c)
      in fold (\<lambda>a c. case aReport a of
             None \<Rightarrow> c
           | Some r \<Rightarrow> (case repPublication r of
               None \<Rightarrow> c
             | Some q \<Rightarrow> (if aJobID a = mID (jMeta j)
                 then add_image repo (wprManifestDigest q) (wpComponentID p) ''worker_publication_receipt'' c else c)))
           (stWorkerAttempts (rxState x)) c)"

text \<open>The destinations of an accepted build: its managed delivery and its publications.\<close>

definition delivery_root :: "RetentionCtx \<Rightarrow> WorkerJob \<Rightarrow> DeliverySnapshot option" where
  "delivery_root x j =
     (case wiSourceProof (jInputs j) of
        None \<Rightarrow> None
      | Some proof \<Rightarrow>
          (case op_of x (wspDeliveryID proof) of
             None \<Rightarrow> None
           | Some o' \<Rightarrow> (if mProductID (opMeta o') = rxProduct x then opSnapshot o' else None)))"

definition publications_of :: "RetentionCtx \<Rightarrow> WorkerJob \<Rightarrow> WorkerPublication list" where
  "publications_of x j =
     filter (\<lambda>p. ociJobID (wpReceipt p) = mID (jMeta j))
       (List.map_filter (\<lambda>k. if mProductID (jMeta k) = rxProduct x then wiPublication (jInputs k) else None)
         (stWorkerJobs (rxState x)))"

definition receipts_of :: "RetentionCtx \<Rightarrow> WorkerJob \<Rightarrow> WorkerLocalOCI list" where
  "receipts_of x j = List.map_filter
     (\<lambda>a. if aJobID a = mID (jMeta j) \<and> aFence a = jFence j
          then (case aReport a of None \<Rightarrow> None | Some r \<Rightarrow> repLocalOCI r) else None)
     (stWorkerAttempts (rxState x))"

definition build_receipt_roots :: "RetentionCtx \<Rightarrow> WorkerJob \<Rightarrow> WorkerLocalOCI \<Rightarrow> Collector \<Rightarrow> Collector" where
  "build_receipt_roots x j r c =
     (let c = (case delivery_root x j of None \<Rightarrow> c
               | Some s \<Rightarrow> snapshot x s (ociManifestDigest r) ''accepted_build_receipt'' c)
      in fold (\<lambda>p. add_image (publication_repo p) (ociManifestDigest r) (wpComponentID p) ''accepted_build_receipt'')
           (publications_of x j) c)"

definition worker_row :: "RetentionCtx \<Rightarrow> WorkerJob \<Rightarrow> Collector \<Rightarrow> Collector" where
  "worker_row x j c =
     (if mProductID (jMeta j) \<noteq> rxProduct x then c
      else case wiPublication (jInputs j) of
        Some p \<Rightarrow>
          (if jStatus j \<noteq> ''SUCCEEDED'' \<or> \<not> admitted_artifact x (\<lambda>n. natPublicationJobID n = mID (jMeta j))
           then publication_intent x j p c else c)
      | None \<Rightarrow>
          (if jCapability j = ''local_oci_build'' \<and> check_success_provenance (rxState x) j \<and>
              \<not> admitted_artifact x (\<lambda>n. ociJobID (natReceipt n) = mID (jMeta j))
           then (let c' = fold (build_receipt_roots x j) (receipts_of x j) c in
                 if receipts_of x j = [] \<or> delivery_root x j = None \<and> publications_of x j = []
                 then block ''build_receipt_destination_unknown'' c' else c')
           else c))"

definition operations :: "RetentionCtx \<Rightarrow> Collector \<Rightarrow> Collector" where
  "operations x c =
     fold (worker_row x) (stWorkerJobs (rxState x)) (fold (operation_row x) (stOperations (rxState x)) c)"

section \<open>Environments and what runs in them\<close>

definition part_artifacts :: "RetentionCtx \<Rightarrow> Composition \<Rightarrow> CompositionComponent \<Rightarrow> DeliveryArtifact list" where
  "part_artifacts x co prt =
     filter (\<lambda>a. mProductID (daMeta a) = rxProduct x \<and> daApplicationID a = cmcApplicationID prt \<and>
         (daSourceCommit a = cmcBaseCommit prt \<or>
          list_ex (\<lambda>r. mID (revMeta r) \<in> set (cmcRevisionIDs prt) \<and> revHeadCommit r = daSourceCommit a)
            (cmpRevisionSnapshots co)))
       (stDeliveryArtifacts (rxState x))"

definition composition_part :: "RetentionCtx \<Rightarrow> Composition \<Rightarrow> CompositionComponent \<Rightarrow> Collector \<Rightarrow> Collector" where
  "composition_part x co prt c =
     (let as = part_artifacts x co prt;
          c = fold (\<lambda>a. add_image (artifact_repo x a) (daDigest a) (daApplicationID a) ''desired_composition'') as c
      in if as = [] then block ''desired_composition_artifact_unresolved'' c else c)"

definition composition :: "RetentionCtx \<Rightarrow> Composition \<Rightarrow> Collector \<Rightarrow> Collector" where
  "composition x co c = fold (composition_part x co) (cmpComponents co) c"

text \<open>\<open>environmentMap\<close> recurses into nested maps: the map and all non-empty maps below it.\<close>

fun nested_maps :: "json \<Rightarrow> json_data list" where
  "nested_maps (JObj m) = (if m = [] then [] else m # concat (map (\<lambda>kv. nested_maps (snd kv)) m))"
| "nested_maps _ = []"

definition image_fields :: "json_data \<Rightarrow> string list" where
  "image_fields m = List.map_filter
     (\<lambda>(k, v). case v of JStr s \<Rightarrow> if k \<in> {''image'', ''workload_image'', ''image_id''} then Some s else None
       | _ \<Rightarrow> None) m"

definition map_refs :: "RetentionCtx \<Rightarrow> string \<Rightarrow> json_data \<Rightarrow> Collector \<Rightarrow> Collector" where
  "map_refs x reason m c =
     (let c = block ''untyped_environment_evidence'' c;
          repo = data_string m ''image_repository'';
          c = (case map_of m ''digest'' of Some (JStr d) \<Rightarrow> ref x d repo [] reason c | _ \<Rightarrow> c)
      in fold (\<lambda>s. ref x s repo [] reason) (image_fields m) c)"

definition environment_map :: "RetentionCtx \<Rightarrow> json_data \<Rightarrow> string \<Rightarrow> Collector \<Rightarrow> Collector" where
  "environment_map x m reason c = fold (map_refs x reason) (nested_maps (JObj m)) c"

definition desired_operation :: "RetentionCtx \<Rightarrow> Environment \<Rightarrow> Collector \<Rightarrow> Collector" where
  "desired_operation x e c =
     (if eDesiredOperationID e = [] then c
      else case op_of x (eDesiredOperationID e) of
        None \<Rightarrow> block ''desired_operation_unresolved'' c
      | Some o' \<Rightarrow> (if mProductID (opMeta o') = rxProduct x then operation x o' ''desired_operation'' c
                   else block ''desired_operation_unresolved'' c))"

definition desired_composition :: "RetentionCtx \<Rightarrow> Environment \<Rightarrow> Collector \<Rightarrow> Collector" where
  "desired_composition x e c =
     (if eDesiredCompositionID e = [] then c
      else let comps = filter (\<lambda>v. mID (cmpMeta v) = eDesiredCompositionID e \<and> mProductID (cmpMeta v) = rxProduct x)
                         (stCompositions (rxState x))
        in if comps = [] then block ''desired_composition_unresolved'' c else fold (composition x) comps c)"

definition environment_row :: "RetentionCtx \<Rightarrow> Environment \<Rightarrow> Collector \<Rightarrow> Collector" where
  "environment_row x e c =
     (if mProductID (eMeta e) \<noteq> rxProduct x then c
      else (environment_map x (eRuntime e) ''runtime_observed'' \<circ>
            environment_map x (eReconciled e) ''flux_reconciled'' \<circ>
            environment_map x (eDesired e) ''desired_state'' \<circ>
            desired_composition x e \<circ> desired_operation x e) c)"

text \<open>The operations whose commit a Flux revision names, with the digest they applied.\<close>

definition flux_roots :: "RetentionCtx \<Rightarrow> RuntimeSnapshot \<Rightarrow> RuntimeFluxSnapshot \<Rightarrow> (DeliverySnapshot \<times> string) list" where
  "flux_roots x r f = List.map_filter
     (\<lambda>o'. case (opGitOpsResult o', opSnapshot o') of
        (Some g, Some s) \<Rightarrow>
          (let digest = (case opArtifact o' of None \<Rightarrow> opExpectedDigest o' | Some a \<Rightarrow> arrDigest a) in
           if mProductID (opMeta o') = rxProduct x \<and> opEnvironmentID o' = rsnEnvironmentID r \<and>
              opApplicationID o' = rsnApplicationID r \<and> gorCommitSHA g \<noteq> [] \<and>
              (flxRevision f = gorCommitSHA g \<or> has_suffix (flxRevision f) (CHR '':'' # gorCommitSHA g)) \<and>
              digest \<noteq> []
           then Some (s, digest) else None)
      | _ \<Rightarrow> None) (stOperations (rxState x))"

definition flux_row :: "RetentionCtx \<Rightarrow> RuntimeSnapshot \<Rightarrow> Collector \<Rightarrow> Collector" where
  "flux_row x r c =
     (case rrdFlux (rsnRuntime r) of
        None \<Rightarrow> block ''flux_evidence_missing'' c
      | Some f \<Rightarrow>
          (let c = (if flxError f \<noteq> [] then block ''flux_observation_error'' c else c) in
           if flxRevision f = [] then c
           else if flux_roots x r f = [] then block ''flux_image_lineage_unresolved'' c
           else snapshots x (flux_roots x r f) ''flux_reconciled'' c))"

definition runtime_row :: "RetentionCtx \<Rightarrow> RuntimeSnapshot \<Rightarrow> Collector \<Rightarrow> Collector" where
  "runtime_row x r c =
     (if mProductID (rsnMeta r) \<noteq> rxProduct x then c
      else let fresh = evidence_freshness (rrdObservedAt (rsnRuntime r)) (rxNow x); app = rsnApplicationID r;
               c = (if fresh \<noteq> ''FRESH'' then block (''runtime_evidence_'' @ to_lower fresh) c else c);
               c = (if rrdErrors (rsnRuntime r) \<noteq> [] \<or> rexError (rsnExpected r) \<noteq> []
                    then block ''runtime_observation_error'' c else c);
               c = flux_row x r c;
               c = ref x (rexValue (rsnExpected r)) (rexImageRepository (rsnExpected r)) app ''gitops_expected'' c;
               c = ref x (rrdWorkloadImage (rsnRuntime r)) [] app ''runtime_workload'' c
        in fold (\<lambda>p c. ref x (podImageID p) (podImage p) app ''runtime_pod'' (ref x (podImage p) [] app ''runtime_pod'' c))
             (rrdPods (rsnRuntime r)) c)"

definition attestation_row :: "RetentionCtx \<Rightarrow> RuntimeObservation \<Rightarrow> Collector \<Rightarrow> Collector" where
  "attestation_row x r c =
     (if mProductID (robMeta r) \<noteq> rxProduct x then c
      else let unknown = block ''runtime_lineage_unresolved'' (ref x (robArtifactDigest r) [] [] ''runtime_attestation'' c);
               c = (case op_of x (robOperationID r) of
                      None \<Rightarrow> unknown
                    | Some o' \<Rightarrow>
                        (case opSnapshot o' of
                           None \<Rightarrow> unknown
                         | Some s \<Rightarrow> (if mProductID (opMeta o') = rxProduct x
                             then add_image (frozen_repo x s) (robArtifactDigest r) (opApplicationID o') ''runtime_attestation'' c
                             else unknown)))
        in if evidence_freshness (mCreatedAt (robMeta r)) (rxNow x) \<noteq> ''FRESH''
           then block ''runtime_attestation_stale_or_unknown'' c else c)"

definition environments :: "RetentionCtx \<Rightarrow> Collector \<Rightarrow> Collector" where
  "environments x c =
     fold (attestation_row x) (stRuntimeObservations (rxState x))
       (fold (runtime_row x) (stRuntimeSnapshots (rxState x)) (fold (environment_row x) (stEnvironments (rxState x)) c))"

section \<open>Releases\<close>

record retained_release =
  rrAt :: time
  rrID :: string
  rrScope :: string
  rrChildren :: "ExternalOperation list"
  rrExtra :: int

definition release_field :: "(string \<times> string) list \<Rightarrow> string \<Rightarrow> string" where
  "release_field m k = (case map_of m k of None \<Rightarrow> [] | Some v \<Rightarrow> v)"

text \<open>The operations of a release for one application, whatever their outcome.\<close>

definition release_children :: "RetentionCtx \<Rightarrow> Release \<Rightarrow> string \<Rightarrow> ExternalOperation list" where
  "release_children x r app =
     filter (\<lambda>o'. relExecutionOperationID r \<noteq> [] \<and> mProductID (opMeta o') = rxProduct x \<and>
         opParentID o' = relExecutionOperationID r \<and> opApplicationID o' = app \<and> opSnapshot o' \<noteq> None)
       (stOperations (rxState x))"

definition child_unproven :: "string \<Rightarrow> ExternalOperation \<Rightarrow> (DeliverySnapshot \<times> string) list" where
  "child_unproven digest o' =
     (case opSnapshot o' of
        None \<Rightarrow> []
      | Some s \<Rightarrow> (s, digest) # (case opArtifact o' of None \<Rightarrow> [] | Some a \<Rightarrow> [(s, arrDigest a)]))"

definition unproven_roots :: "RetentionCtx \<Rightarrow> Release \<Rightarrow> (DeliverySnapshot \<times> string) list" where
  "unproven_roots x r =
     concat (map (\<lambda>(app, digest). concat (map (child_unproven digest) (release_children x r app)))
       (relArtifactDigests r))"

definition matched_children :: "RetentionCtx \<Rightarrow> ExternalOperation \<Rightarrow> Release \<Rightarrow> string \<times> string \<Rightarrow> ExternalOperation list" where
  "matched_children x parent r ad =
     filter (\<lambda>o'. mID (opMeta o') \<in> set (opChildIDs parent) \<and>
         (case opArtifact o' of None \<Rightarrow> False | Some a \<Rightarrow> arrDigest a = snd ad))
       (release_children x r (fst ad))"

definition healthy_child :: "RetentionCtx \<Rightarrow> Release \<Rightarrow> string \<Rightarrow> ExternalOperation \<Rightarrow> bool" where
  "healthy_child x r digest o' \<longleftrightarrow>
     (case opGitOpsResult o' of
        None \<Rightarrow> False
      | Some g \<Rightarrow>
          list_ex (\<lambda>b. mProductID (robMeta b) = rxProduct x \<and> robOperationID b = mID (opMeta o') \<and>
              robEnvironmentID b = opEnvironmentID o' \<and> robHealthy b \<and> robGitOpsCommit b = gorCommitSHA g \<and>
              robArtifactDigest b = digest \<and> mCreatedAt (robMeta b) \<noteq> zero_time \<and>
              \<not> mCreatedAt (relMeta r) < mCreatedAt (robMeta b))
            (stRuntimeObservations (rxState x)))"

definition proven_child :: "RetentionCtx \<Rightarrow> Release \<Rightarrow> string \<times> string \<Rightarrow> ExternalOperation \<Rightarrow> DeliverySnapshot \<Rightarrow> bool" where
  "proven_child x r ad o' s \<longleftrightarrow>
     opStatus o' = ''SUCCEEDED'' \<and>
     (case opGitOpsResult o' of None \<Rightarrow> False
      | Some g \<Rightarrow> gorCommitSHA g \<noteq> [] \<and> gorCommitSHA g = release_field (relGitOpsCommits r) (fst ad)) \<and>
     ebPurpose (dsTarget s) = ''PROD'' \<and> ebEnvironmentID (dsTarget s) = opEnvironmentID o' \<and>
     mID (eMeta (dsEnvironment s)) = opEnvironmentID o' \<and> mID (appMeta (dsApplication s)) = fst ad \<and>
     release_field (relSourceCommits r) (fst ad) = revHeadCommit (dsRevision s) \<and>
     ebRepositoryID (dsTarget s) \<noteq> [] \<and> ebRef (dsTarget s) \<noteq> [] \<and> ebPath (dsTarget s) \<noteq> [] \<and>
     cbImageRepository (dsBuild s) \<noteq> [] \<and> healthy_child x r (snd ad) o'"

definition child_scope :: "RetentionCtx \<Rightarrow> string \<Rightarrow> DeliverySnapshot \<Rightarrow> string" where
  "child_scope x app s = rxScopeHash x
     [app, ebPurpose (dsTarget s), ebRepositoryID (dsTarget s) @ ''|'' @ rbFullName (dsGitOps s), ebRef (dsTarget s),
      ebPath (dsTarget s), mID (eMeta (dsEnvironment s)), eCluster (dsEnvironment s), eNamespace (dsEnvironment s),
      frozen_repo x s]"

text \<open>The only listed child of each application, if there is exactly one, with the pair it proves.\<close>

definition single_children ::
  "RetentionCtx \<Rightarrow> ExternalOperation \<Rightarrow> Release \<Rightarrow> ((string \<times> string) \<times> ExternalOperation \<times> DeliverySnapshot) list" where
  "single_children x parent r = List.map_filter
     (\<lambda>ad. case matched_children x parent r ad of
        [o'] \<Rightarrow> map_option (\<lambda>s. (ad, o', s)) (opSnapshot o') | _ \<Rightarrow> None) (relArtifactDigests r)"

definition release_complete :: "RetentionCtx \<Rightarrow> ExternalOperation \<Rightarrow> Release \<Rightarrow> bool" where
  "release_complete x parent r \<longleftrightarrow>
     mProductID (opMeta parent) = rxProduct x \<and> opStatus parent = ''SUCCEEDED'' \<and>
     opKind parent = ''RELEASE_PROMOTION'' \<and> \<not> relRecordedExternally r \<and> relStatus r = ''released'' \<and>
     relArtifactDigests r \<noteq> [] \<and> length (opChildIDs parent) = length (relArtifactDigests r) \<and>
     mCreatedAt (relMeta r) \<noteq> zero_time \<and> \<not> rxNow x < mCreatedAt (relMeta r) \<and>
     length (single_children x parent r) = length (relArtifactDigests r) \<and>
     list_all (\<lambda>(ad, o', s). proven_child x r ad o' s) (single_children x parent r)"

definition release_extra :: "EffectiveRetentionPolicy list \<Rightarrow> ExternalOperation list \<Rightarrow> int" where
  "release_extra ps os =
     fold (\<lambda>p extra. if list_ex (\<lambda>o'. opApplicationID o' = polApplicationID p) os \<and> extra < polKeepPrevious p
                     then polKeepPrevious p else extra) ps 1"

definition retained :: "RetentionCtx \<Rightarrow> EffectiveRetentionPolicy list \<Rightarrow> Release \<Rightarrow> retained_release option" where
  "retained x ps r =
     (case op_of x (relExecutionOperationID r) of
        None \<Rightarrow> None
      | Some parent \<Rightarrow>
          (if \<not> release_complete x parent r then None
           else let cs = single_children x parent r; os = map (fst \<circ> snd) cs in
             Some \<lparr>rrAt = mCreatedAt (relMeta r), rrID = mID (relMeta r),
               rrScope = rxScopeHash x (sort (map (\<lambda>(ad, o', s). child_scope x (fst ad) s) cs)),
               rrChildren = os, rrExtra = release_extra ps os\<rparr>))"

definition unproven_release :: "RetentionCtx \<Rightarrow> Release \<Rightarrow> Collector \<Rightarrow> Collector" where
  "unproven_release x r c =
     (let roots = unproven_roots x r;
          c = snapshots x roots ''release_unproven'' (block ''release_lineage_incomplete_or_external'' c)
      in fold (\<lambda>(app, digest) c.
           if list_ex (\<lambda>(s, d). mID (appMeta (dsApplication s)) = app \<and> d = digest) roots then c
           else ref x digest [] app ''release_unproven'' c) (relArtifactDigests r) c)"

text \<open>Releases of one scope, the newest first, equal times by ID.\<close>

definition newest_releases :: "retained_release list \<Rightarrow> retained_release list" where
  "newest_releases rs = sort_key (\<lambda>r. - rrAt r) (sort_key rrID rs)"

definition release_reason :: "nat \<Rightarrow> string" where
  "release_reason n = (if n = 0 then ''production_current'' else ''production_previous'')"

definition release_group :: "RetentionCtx \<Rightarrow> retained_release list \<Rightarrow> Collector \<Rightarrow> Collector" where
  "release_group x rs c =
     fold (\<lambda>(n, r) c. if int n \<le> rrExtra r
        then snapshots x (concat (map (\<lambda>o'. case (opSnapshot o', opArtifact o') of
               (Some s, Some a) \<Rightarrow> [(s, arrDigest a)] | _ \<Rightarrow> []) (rrChildren r))) (release_reason n) c
        else c) (enumerate 0 (newest_releases rs)) c"

definition product_releases :: "RetentionCtx \<Rightarrow> Release list" where
  "product_releases x = filter (\<lambda>r. mProductID (relMeta r) = rxProduct x) (stReleases (rxState x))"

definition retained_releases :: "RetentionCtx \<Rightarrow> EffectiveRetentionPolicy list \<Rightarrow> retained_release list" where
  "retained_releases x ps = List.map_filter (retained x ps) (product_releases x)"

definition releases :: "RetentionCtx \<Rightarrow> Collector \<Rightarrow> Collector" where
  "releases x c =
     (let rs = retained_releases x (clPolicies c);
          c = fold (\<lambda>r. if retained x (clPolicies c) r = None then unproven_release x r else id) (product_releases x) c
      in fold (\<lambda>s. release_group x (filter (\<lambda>r. rrScope r = s) rs)) (remdups (map rrScope rs)) c)"

end
