(* ===== verification/RegistryGraphs.thy ===== *)
theory RegistryGraphs
  imports ImageNames
begin

text \<open>
  The graph of a registry repository as a worker attests it, \<open>internal/domain/registry_inventory.go\<close>
  and \<open>registry_image_content.go\<close>: normal form, validation, the closure search and the proof that
  the content of an image is complete. A slice that is nil and one that is empty are the same list.

  \<open>GraphEnv\<close> holds the hashes and sizes of JSON encodings.
\<close>

record GraphEnv =
  gePlatformHash :: "RegistryPlatform option \<Rightarrow> string"
  geGraphHash :: "RegistryGraph \<Rightarrow> string"
  geGraphSize :: "RegistryGraph \<Rightarrow> int"
  geDescriptorHash :: "RegistryImageContentDescriptor list \<Rightarrow> string"
  geContentHash :: "RegistryImageContentRoot \<Rightarrow> string"
  geReportSize :: "WorkerReport \<Rightarrow> int"
  geRootSetHash :: "RegistryScope \<Rightarrow> string \<Rightarrow> string \<Rightarrow> string \<Rightarrow> string \<Rightarrow> string list \<Rightarrow> string"

definition report_max_bytes :: int where
  "report_max_bytes = 256 * 1024"

section \<open>The closure search\<close>

text \<open>The queue of both closure loops; an item is a digest with its depth, and what was seen is kept in
  the order of the visits.\<close>

type_synonym arcs = "(string \<times> string) list"

definition arcs_from :: "arcs \<Rightarrow> string \<Rightarrow> string list" where
  "arcs_from es d = map snd (filter (\<lambda>e. fst e = d) es)"

lemma arcs_from_set: "t \<in> set (arcs_from es d) \<longleftrightarrow> (d, t) \<in> set es"
  by (force simp: arcs_from_def)

lemma arcs_from_none: "d \<notin> fst ` set es \<Longrightarrow> arcs_from es d = []"
  by (force simp: arcs_from_def filter_empty_conv)

function closure :: "arcs \<Rightarrow> (string \<times> nat) list \<Rightarrow> (string \<times> nat) list \<Rightarrow> (string \<times> nat) list" where
  "closure es [] seen = seen"
| "closure es ((d, n) # q) seen =
     (if d \<in> fst ` set seen then closure es q seen
      else closure es (q @ map (\<lambda>t. (t, Suc n)) (arcs_from es d)) (seen @ [(d, n)]))"
  by pat_completeness auto

text \<open>A digest is expanded once; one that no arc leaves adds nothing to the queue.\<close>

termination
proof (relation "measures [\<lambda>(es, q, seen). card (fst ` set es - fst ` set seen), \<lambda>(es, q, seen). length q]",
    goal_cases)
  case (3 es d n q seen)
  show ?case
  proof (cases "d \<in> fst ` set es")
    case True
    have "fst ` set es - fst ` set (seen @ [(d, n)]) \<subset> fst ` set es - fst ` set seen" using True 3 by auto
    then show ?thesis by (simp add: psubset_card_mono)
  next
    case False
    then have "fst ` set es - insert d (fst ` set seen) = fst ` set es - fst ` set seen" by auto
    then show ?thesis using arcs_from_none [OF False] by simp
  qed
qed auto

definition reachable :: "arcs \<Rightarrow> string \<Rightarrow> string list" where
  "reachable es root = map fst (closure es [(root, 0)] [])"

lemma closure_seen: "set seen \<subseteq> set (closure es q seen)"
  by (induction es q seen rule: closure.induct) auto

lemma closure_queue: "fst ` set q \<subseteq> fst ` set (closure es q seen)"
proof (induction es q seen rule: closure.induct)
  case (2 es d n q seen)
  show ?case
  proof (cases "d \<in> fst ` set seen")
    case True
    then show ?thesis using 2(1) closure_seen [of seen es q] by (auto simp: image_subset_iff subset_iff)
  next
    case False
    have "(d, n) \<in> set (closure es (q @ map (\<lambda>t. (t, Suc n)) (arcs_from es d)) (seen @ [(d, n)]))"
      using closure_seen [of "seen @ [(d, n)]"] by auto
    then have "d \<in> fst ` set (closure es ((d, n) # q) seen)" using False by (force simp del: map_append)
    moreover have "fst ` set q \<subseteq> fst ` set (closure es ((d, n) # q) seen)"
      using False 2(2) [OF False] by (simp add: image_Un)
    ultimately show ?thesis by simp
  qed
qed simp

lemma image_step: "E `` S \<subseteq> insert d (S \<union> Q) \<Longrightarrow> E `` insert d S \<subseteq> insert d S \<union> (Q \<union> E `` {d})"
  by blast

text \<open>What the search has seen is closed under the arcs, once the queue holds the successors.\<close>

lemma closure_closed:
  assumes "set es `` (fst ` set seen) \<subseteq> fst ` set seen \<union> fst ` set q"
  shows "set es `` (fst ` set (closure es q seen)) \<subseteq> fst ` set (closure es q seen)"
  using assms
proof (induction es q seen rule: closure.induct)
  case (2 es d n q seen)
  show ?case
  proof (cases "d \<in> fst ` set seen")
    case True
    then show ?thesis using 2 by (simp add: insert_absorb)
  next
    case False
    have "fst ` set (q @ map (\<lambda>t. (t, Suc n)) (arcs_from es d)) = fst ` set q \<union> set es `` {d}"
      by (auto simp: arcs_from_set image_Un image_image)
    then have "set es `` (fst ` set (seen @ [(d, n)])) \<subseteq>
        fst ` set (seen @ [(d, n)]) \<union> fst ` set (q @ map (\<lambda>t. (t, Suc n)) (arcs_from es d))"
      using 2(3) image_step [of "set es" "fst ` set seen" d "fst ` set q"] by simp
    then show ?thesis using False 2(2) by simp
  qed
qed simp

text \<open>Everything seen is reached by as many arcs as its depth says.\<close>

lemma closure_paths:
  assumes "\<And>x k. (x, k) \<in> set seen \<union> set q \<Longrightarrow> (r, x) \<in> set es ^^ k"
  shows "(x, k) \<in> set (closure es q seen) \<Longrightarrow> (r, x) \<in> set es ^^ k"
  using assms
proof (induction es q seen rule: closure.induct)
  case (2 es d n q seen)
  show ?case
  proof (cases "d \<in> fst ` set seen")
    case True
    then show ?thesis using 2(1) [OF True] 2(3,4) by simp
  next
    case False
    have e: "(r, t) \<in> set es ^^ Suc n" if "(d, t) \<in> set es" for t using 2(4) [of d n] that by auto
    have "(x, k) \<in> set (closure es (q @ map (\<lambda>t. (t, Suc n)) (arcs_from es d)) (seen @ [(d, n)]))"
      using 2(3) False by simp
    then show ?thesis by (rule 2(2) [OF False]) (use 2(4) e in \<open>auto simp: arcs_from_set simp del: relpow.simps\<close>)
  qed
qed simp

lemma reachable_closure: "set (reachable es root) = {d. (root, d) \<in> (set es)\<^sup>*}"
proof (intro set_eqI iffI)
  fix d
  assume "d \<in> set (reachable es root)"
  then obtain k where "(d, k) \<in> set (closure es [(root, 0)] [])" by (auto simp: reachable_def)
  then have "(root, d) \<in> set es ^^ k" by (rule closure_paths [rotated]) auto
  then show "d \<in> {d. (root, d) \<in> (set es)\<^sup>*}" by (auto intro: relpow_imp_rtrancl)
next
  fix d
  assume "d \<in> {d. (root, d) \<in> (set es)\<^sup>*}"
  then have "(root, d) \<in> (set es)\<^sup>*" by simp
  then show "d \<in> set (reachable es root)"
  proof (induction rule: rtrancl_induct)
    case base
    show ?case using closure_queue [of "[(root, 0)]" es "[]"] by (auto simp: reachable_def)
  next
    case (step y z)
    show ?case using closure_closed [of es "[]" "[(root, 0)]"] step by (auto simp: reachable_def)
  qed
qed

lemma closure_within:
  assumes "list_all (\<lambda>(d, n). n \<le> m) (closure es [(root, 0)] [])" and "(root, d) \<in> (set es)\<^sup>*"
  shows "\<exists>n\<le>m. (root, d) \<in> set es ^^ n"
proof -
  have "d \<in> set (reachable es root)" using assms(2) by (simp add: reachable_closure)
  then obtain k where "(d, k) \<in> set (closure es [(root, 0)] [])" by (auto simp: reachable_def)
  moreover from this have "(root, d) \<in> set es ^^ k" by (rule closure_paths [rotated]) auto
  ultimately show ?thesis using assms(1) by (auto simp: list_all_iff)
qed

lemma closure_distinct: "distinct (map fst seen) \<Longrightarrow> distinct (map fst (closure es q seen))"
  by (induction es q seen rule: closure.induct) auto

lemma reachable_distinct: "distinct (reachable es root)"
  by (simp add: reachable_def closure_distinct)

section \<open>Normal form\<close>

definition edge_key :: "GraphEnv \<Rightarrow> RegistryEdge \<Rightarrow> string" where
  "edge_key g e = reFrom e @ [CHR 0x00] @ reTo e @ [CHR 0x00] @ reKind e @ [CHR 0x00] @ gePlatformHash g (rePlatform e)"

definition normalize_content :: "RegistryImageContentRoot list \<Rightarrow> RegistryImageContentRoot list" where
  "normalize_content rs =
     sort_key icrDigest (map (\<lambda>r. r\<lparr>icrManifests := sort_key icmDigest (icrManifests r)\<rparr>) rs)"

definition sorted_graph :: "GraphEnv \<Rightarrow> RegistryGraph \<Rightarrow> RegistryGraph" where
  "sorted_graph g v = v\<lparr>
     rgImageContentRoots := normalize_content (rgImageContentRoots v),
     rgNodes := sort_key rnDigest (rgNodes v),
     rgEdges := sort_key (edge_key g) (rgEdges v),
     rgRoots := map (\<lambda>r. r\<lparr>rrBlockers := sorted_unique (rrBlockers r)\<rparr>) (sort_key rrDigest (rgRoots v)),
     rgBlockers := sorted_unique (rgBlockers v)\<rparr>"

text \<open>\<open>NormalizeRegistryGraph\<close>: adjacent equal keys after sorting are duplicates.\<close>

definition normalize_graph :: "GraphEnv \<Rightarrow> RegistryGraph \<Rightarrow> RegistryGraph result" where
  "normalize_graph g v =
     (case chain
        [reject (\<not> distinct (map rnDigest (rgNodes v))) (GoError ''duplicate registry object identity''),
         reject (\<not> distinct (map (edge_key g) (rgEdges v))) (GoError ''duplicate registry edge''),
         reject (\<not> distinct (map rrDigest (rgRoots v))) (GoError ''duplicate registry root'')] of
        Inl e \<Rightarrow> Inl e
      | Inr _ \<Rightarrow> Inr (sorted_graph g v))"

definition graph_hash :: "GraphEnv \<Rightarrow> RegistryGraph \<Rightarrow> string" where
  "graph_hash g v =
     (case normalize_graph g v of Inl _ \<Rightarrow> [] | Inr n \<Rightarrow> geGraphHash g (n\<lparr>rgGraphHash := []\<rparr>))"

section \<open>Bounds, codes and identities\<close>

definition valid_limits :: "RegistryObserveLimits \<Rightarrow> bool" where
  "valid_limits l \<longleftrightarrow>
     1024 \<le> rlMaxResponseBytes l \<and> rlMaxResponseBytes l \<le> 2 ^ 30 \<and> rlMaxResponseBytes l \<le> rlMaxTotalBytes l \<and>
     rlMaxTotalBytes l \<le> 8 * 2 ^ 30 \<and> 1 \<le> rlMaxNodes l \<and> rlMaxNodes l \<le> 1024 \<and> 1 \<le> rlMaxEdges l \<and>
     rlMaxEdges l \<le> 4096 \<and> 1 \<le> rlMaxDepth l \<and> rlMaxDepth l \<le> 32 \<and> 1 \<le> rlMaxPages l \<and> rlMaxPages l \<le> 128 \<and>
     1 \<le> rlMaxRequests l \<and> rlMaxRequests l \<le> 8192 \<and> 1 \<le> rlTimeoutSeconds l \<and> rlTimeoutSeconds l \<le> 900"

definition registry_codes :: "string list" where
  "registry_codes =
     [''registry_global_inventory_unproven'', ''registry_request_failed'', ''registry_unauthorized'',
      ''registry_missing'', ''registry_malformed'', ''registry_digest_mismatch'', ''registry_descriptor_conflict'',
      ''registry_unsupported'', ''registry_limit'', ''registry_pagination'', ''registry_discovery_changed'',
      ''registry_referrers_unknown'', ''registry_filtered_referrers'', ''registry_cancelled'']"

definition registry_status :: "string \<Rightarrow> bool" where
  "registry_status s \<longleftrightarrow> s = ''COMPLETE'' \<or> s = ''PARTIAL'' \<or> s = ''UNKNOWN''"

definition registry_blockers :: "string list \<Rightarrow> bool" where
  "registry_blockers v \<longleftrightarrow> length v \<le> length registry_codes \<and> list_all (\<lambda>c. c \<in> set registry_codes) v"

text \<open>\<open>^[a-z0-9!#$&^_.+-]+/[a-z0-9!#$&^_.+-]+$\<close>\<close>

definition media_part :: "string \<Rightarrow> bool" where
  "media_part s \<longleftrightarrow> s \<noteq> [] \<and> list_all (\<lambda>c. c \<in> set (lower_letters @ digits @ ''!#$&^_.+-'')) s"

definition media_type :: "string \<Rightarrow> bool" where
  "media_type s \<longleftrightarrow> CHR ''/'' \<in> set s \<and> media_part (before_char CHR ''/'' s) \<and> media_part (after_char CHR ''/'' s)"

text \<open>\<open>^[A-Za-z0-9_.-]{1,32}$\<close>\<close>

definition platform_part :: "string \<Rightarrow> bool" where
  "platform_part s \<longleftrightarrow> s \<noteq> [] \<and> length s \<le> 32 \<and> list_all (\<lambda>c. alnum c \<or> c \<in> set ''_.-'') s"

definition valid_node :: "RegistryObserveLimits \<Rightarrow> RegistryNode \<Rightarrow> bool" where
  "valid_node l n \<longleftrightarrow>
     sha256_digest (rnDigest n) \<and> rnKind n \<in> {''INDEX'', ''MANIFEST'', ''BLOB'', ''UNKNOWN''} \<and>
     rnAvailability n \<in> {''PRESENT'', ''MISSING'', ''UNKNOWN''} \<and> 0 \<le> rnSize n \<and> rnSize n \<le> rlMaxResponseBytes l \<and>
     length (rnMediaType n) \<le> 128 \<and> (rnMediaType n = [] \<or> media_type (rnMediaType n)) \<and>
     (rnAvailability n = ''PRESENT'' \<longrightarrow>
        (rnSize n \<noteq> 0 \<or> rnKind n = ''BLOB'') \<and> rnKind n \<noteq> ''UNKNOWN'' \<and> rnMediaType n \<noteq> [])"

definition node_at :: "RegistryGraph \<Rightarrow> string \<Rightarrow> RegistryNode option" where
  "node_at v d = find_last (\<lambda>n. rnDigest n = d) (rgNodes v)"

text \<open>The kinds an edge may connect; the test is the one of the observer's \<open>edge\<close>, too.\<close>

definition edge_kinds_ok :: "string \<Rightarrow> string \<Rightarrow> string \<Rightarrow> bool" where
  "edge_kinds_ok kind from to \<longleftrightarrow>
     \<not> (kind = ''CHILD'' \<and> (from \<noteq> ''INDEX'' \<or> to = ''BLOB'') \<or>
        (kind = ''CONFIG'' \<or> kind = ''LAYER'') \<and> (from \<noteq> ''MANIFEST'' \<or> to \<noteq> ''BLOB'' \<and> to \<noteq> ''UNKNOWN'') \<or>
        (kind = ''SUBJECT'' \<or> kind = ''REFERRER'' \<or> kind = ''REFERRERS_INDEX'') \<and> (from = ''BLOB'' \<or> to = ''BLOB''))"

definition valid_platform :: "RegistryEdge \<Rightarrow> bool" where
  "valid_platform e \<longleftrightarrow>
     (case rePlatform e of
        None \<Rightarrow> True
      | Some p \<Rightarrow> reKind e = ''CHILD'' \<and>
          list_all (\<lambda>s. s = [] \<or> platform_part s) [rpOS p, rpArchitecture p, rpVariant p])"

definition valid_edge :: "RegistryGraph \<Rightarrow> RegistryEdge \<Rightarrow> bool" where
  "valid_edge v e \<longleftrightarrow>
     (case (node_at v (reFrom e), node_at v (reTo e)) of
        (Some from, Some to) \<Rightarrow>
          reKind e \<in> {''CHILD'', ''CONFIG'', ''LAYER'', ''SUBJECT'', ''REFERRER'', ''REFERRERS_INDEX''} \<and>
          valid_platform e \<and> edge_kinds_ok (reKind e) (rnKind from) (rnKind to)
      | _ \<Rightarrow> False)"

definition graph_arcs :: "RegistryGraph \<Rightarrow> arcs" where
  "graph_arcs v = map (\<lambda>e. (reFrom e, reTo e)) (rgEdges v)"

definition config_edges :: "RegistryGraph \<Rightarrow> string \<Rightarrow> nat" where
  "config_edges v d = length (filter (\<lambda>e. reKind e = ''CONFIG'' \<and> reFrom e = d) (rgEdges v))"

definition manifest_media :: "string \<Rightarrow> bool" where
  "manifest_media m \<longleftrightarrow>
     m = ''application/vnd.oci.image.manifest.v1+json'' \<or> m = ''application/vnd.docker.distribution.manifest.v2+json''"

definition index_media :: "string \<Rightarrow> bool" where
  "index_media m \<longleftrightarrow>
     m = ''application/vnd.oci.image.index.v1+json'' \<or> m = ''application/vnd.docker.distribution.manifest.list.v2+json''"

text \<open>What the closure loop of a root demands of an item it visits; the zero node stands for a digest
  that is not in the graph.\<close>

definition closure_item_ok :: "RegistryObserveLimits \<Rightarrow> RegistryGraph \<Rightarrow> RegistryRoot \<Rightarrow> string \<times> nat \<Rightarrow> bool" where
  "closure_item_ok l v r item =
     (case item of (d, n) \<Rightarrow>
        let x = (case node_at v d of None \<Rightarrow> zero_RegistryNode | Some x \<Rightarrow> x) in
        int n \<le> rlMaxDepth l \<and>
        (rrClosure r = ''COMPLETE'' \<longrightarrow>
           rnAvailability x = ''PRESENT'' \<and>
           (rnKind x = ''MANIFEST'' \<and> manifest_media (rnMediaType x) \<longrightarrow> config_edges v d = 1)))"

definition valid_root :: "RegistryObserveLimits \<Rightarrow> RegistryGraph \<Rightarrow> RegistryRoot \<Rightarrow> bool" where
  "valid_root l v r \<longleftrightarrow>
     (case node_at v (rrDigest r) of
        None \<Rightarrow> False
      | Some n \<Rightarrow>
          rnKind n \<noteq> ''BLOB'' \<and> registry_status (rrClosure r) \<and> registry_blockers (rrBlockers r) \<and>
          (rrClosure r = ''COMPLETE'' \<longrightarrow> rrBlockers r = [] \<and> rnAvailability n = ''PRESENT'')) \<and>
     list_all (closure_item_ok l v r) (closure (graph_arcs v) [(rrDigest r, 0)] [])"

section \<open>The content of an image\<close>

definition platform_bounded :: "RegistryPlatform option \<Rightarrow> bool" where
  "platform_bounded p \<longleftrightarrow>
     (case p of
        None \<Rightarrow> True
      | Some p \<Rightarrow> length (rpOS p) \<le> 32 \<and> length (rpArchitecture p) \<le> 32 \<and> length (rpVariant p) \<le> 32)"

definition manifest_bounded :: "RegistryObserveLimits \<Rightarrow> RegistryImageContentManifest \<Rightarrow> bool" where
  "manifest_bounded l m \<longleftrightarrow>
     length (icmDigest m) \<le> 71 \<and> length (icmKind m) \<le> 8 \<and> length (icmMediaType m) \<le> 128 \<and>
     length (icmDescriptorHash m) \<le> 71 \<and> int (length (icmDescriptors m)) \<le> rlMaxEdges l \<and>
     list_all (\<lambda>d. length (icdDigest d) \<le> 71 \<and> length (icdKind d) \<le> 8 \<and> length (icdMediaType d) \<le> 128 \<and>
       platform_bounded (icdPlatform d)) (icmDescriptors m)"

text \<open>The running totals of \<open>boundedImageContent\<close> only grow, so the last ones decide.\<close>

definition bounded_content :: "RegistryImageContentRoot list \<Rightarrow> RegistryObserveLimits \<Rightarrow> bool" where
  "bounded_content rs l \<longleftrightarrow>
     length rs \<le> 256 \<and>
     list_all (\<lambda>r. length (icrDigest r) \<le> 71 \<and> length (icrClosure r) \<le> 8 \<and> length (icrHash r) \<le> 71 \<and>
       int (length (icrManifests r)) \<le> rlMaxNodes l \<and> list_all (manifest_bounded l) (icrManifests r)) rs \<and>
     int (sum_list (map (\<lambda>r. length (icrManifests r)) rs)) \<le> report_max_bytes div 64 \<and>
     int (sum_list (map (\<lambda>r. sum_list (map (\<lambda>m. length (icmDescriptors m)) (icrManifests r))) rs)) \<le>
       report_max_bytes div 64"

definition content_kinds :: "string list" where
  "content_kinds = [''CHILD'', ''CONFIG'', ''LAYER'']"

text \<open>The keys of the pull edges of the graph, and of those leaving a digest.\<close>

definition content_keys :: "GraphEnv \<Rightarrow> RegistryGraph \<Rightarrow> string list" where
  "content_keys g v = map (edge_key g) (filter (\<lambda>e. reKind e \<in> set content_kinds) (rgEdges v))"

definition outgoing_keys :: "GraphEnv \<Rightarrow> RegistryGraph \<Rightarrow> string \<Rightarrow> string list" where
  "outgoing_keys g v d =
     map (edge_key g) (filter (\<lambda>e. reKind e \<in> set content_kinds \<and> reFrom e = d) (rgEdges v))"

definition descriptor_key :: "GraphEnv \<Rightarrow> RegistryImageContentManifest \<Rightarrow> RegistryImageContentDescriptor \<Rightarrow> string" where
  "descriptor_key g m d = edge_key g
     \<lparr>reFrom = icmDigest m, reTo = icdDigest d, reKind = icdKind d, rePlatform = icdPlatform d\<rparr>"

definition descriptor_ok ::
  "GraphEnv \<Rightarrow> RegistryGraph \<Rightarrow> RegistryImageContentManifest \<Rightarrow> RegistryImageContentDescriptor \<Rightarrow> bool" where
  "descriptor_ok g v m d \<longleftrightarrow>
     (case node_at v (icdDigest d) of
        None \<Rightarrow> False
      | Some t \<Rightarrow>
          rnAvailability t = ''PRESENT'' \<and> rnMediaType t = icdMediaType d \<and> rnSize t = icdSize d \<and>
          sha256_digest (icdDigest d) \<and> 0 \<le> icdSize d \<and>
          (if icmKind m = ''INDEX'' then icdKind d = ''CHILD'' \<and> (rnKind t = ''MANIFEST'' \<or> rnKind t = ''INDEX'')
           else (icdKind d = ''CONFIG'' \<or> icdKind d = ''LAYER'') \<and> rnKind t = ''BLOB'' \<and> icdPlatform d = None) \<and>
          descriptor_key g m d \<in> set (content_keys g v))"

text \<open>The descriptors of a manifest are exactly the pull edges that leave it. Comparing the map \<open>wanted\<close>
  with the nil map of a digest without edges fails, and so does the model: a manifest without descriptors
  is an empty index, or has no configuration.\<close>

definition content_manifest_ok ::
  "GraphEnv \<Rightarrow> RegistryObserveLimits \<Rightarrow> RegistryGraph \<Rightarrow> RegistryImageContentManifest \<Rightarrow> bool" where
  "content_manifest_ok g l v m \<longleftrightarrow>
     (case node_at v (icmDigest m) of
        None \<Rightarrow> False
      | Some n \<Rightarrow>
          rnAvailability n = ''PRESENT'' \<and> rnKind n = icmKind m \<and> rnMediaType n = icmMediaType m \<and>
          rnSize n = icmSize m \<and> 1 \<le> icmSize m \<and> icmDescriptorCount m = int (length (icmDescriptors m)) \<and>
          icmDescriptorCount m \<le> rlMaxEdges l \<and> icmDescriptorHash m = geDescriptorHash g (icmDescriptors m)) \<and>
     (icmKind m = ''INDEX'' \<and> index_media (icmMediaType m) \<or> icmKind m = ''MANIFEST'' \<and> manifest_media (icmMediaType m)) \<and>
     list_all (descriptor_ok g v m) (icmDescriptors m) \<and>
     (icmKind m = ''INDEX'' \<longrightarrow> icmDescriptors m \<noteq> []) \<and>
     (icmKind m = ''MANIFEST'' \<longrightarrow> length (filter (\<lambda>d. icdKind d = ''CONFIG'') (icmDescriptors m)) = 1) \<and>
     set (map (descriptor_key g m) (icmDescriptors m)) = set (outgoing_keys g v (icmDigest m))"

text \<open>The walk over the manifests: the first argument counts the depths left, \<open>active\<close> is the path to
  the manifest, and the result is what was seen.\<close>

fun fold_option :: "('a \<Rightarrow> 's \<Rightarrow> 's option) \<Rightarrow> 'a list \<Rightarrow> 's \<Rightarrow> 's option" where
  "fold_option f [] s = Some s"
| "fold_option f (x # xs) s = (case f x s of None \<Rightarrow> None | Some t \<Rightarrow> fold_option f xs t)"

definition manifest_of :: "RegistryImageContentManifest list \<Rightarrow> string \<Rightarrow> RegistryImageContentManifest option" where
  "manifest_of ms d = find (\<lambda>m. icmDigest m = d) ms"

definition manifest_children :: "RegistryImageContentManifest \<Rightarrow> string list" where
  "manifest_children m = map icdDigest (filter (\<lambda>d. icdKind d = ''CHILD'') (icmDescriptors m))"

primrec content_walk ::
  "nat \<Rightarrow> RegistryImageContentManifest list \<Rightarrow> string list \<Rightarrow> string \<Rightarrow> string list \<Rightarrow> string list option" where
  "content_walk 0 ms active d seen = None"
| "content_walk (Suc n) ms active d seen =
     (if d \<in> set active then None
      else if d \<in> set seen then Some seen
      else case manifest_of ms d of
        None \<Rightarrow> None
      | Some m \<Rightarrow>
          map_option ((#) d) (fold_option (content_walk n ms (d # active)) (manifest_children m) seen))"

definition allowed_code :: "string \<Rightarrow> bool" where
  "allowed_code c \<longleftrightarrow>
     c = ''registry_global_inventory_unproven'' \<or> c = ''registry_referrers_unknown'' \<or> c = ''registry_missing''"

definition complete_content_ok ::
  "GraphEnv \<Rightarrow> RegistryObserveLimits \<Rightarrow> RegistryGraph \<Rightarrow> RegistryImageContentRoot \<Rightarrow> bool" where
  "complete_content_ok g l v r \<longleftrightarrow>
     list_all allowed_code (rgBlockers v) \<and> list_all (\<lambda>m. list_all allowed_code (rrBlockers m)) (rgRoots v) \<and>
     icrManifests r \<noteq> [] \<and> int (length (icrManifests r)) \<le> rlMaxNodes l \<and>
     distinct (map icmDigest (icrManifests r)) \<and> list_all (content_manifest_ok g l v) (icrManifests r) \<and>
     (case content_walk (nat (rlMaxDepth l) + 1) (icrManifests r) [] (icrDigest r) [] of
        None \<Rightarrow> False
      | Some seen \<Rightarrow> length seen = length (icrManifests r))"

definition content_root_ok ::
  "GraphEnv \<Rightarrow> RegistryObserveLimits \<Rightarrow> RegistryGraph \<Rightarrow> string \<times> RegistryImageContentRoot \<Rightarrow> bool" where
  "content_root_ok g l v er \<longleftrightarrow>
     (case er of (expected, r) \<Rightarrow>
        icrDigest r = expected \<and> icrHash r = geContentHash g (r\<lparr>icrHash := []\<rparr>) \<and>
        (if icrClosure r = ''COMPLETE'' then complete_content_ok g l v r
         else icrClosure r = ''PARTIAL'' \<and> icrManifests r = []))"

definition valid_content :: "GraphEnv \<Rightarrow> RegistryObserveLimits \<Rightarrow> RegistryGraph \<Rightarrow> string list \<Rightarrow> bool" where
  "valid_content g l v requested \<longleftrightarrow>
     rgImageContentRoots v = [] \<or>
     (let expected = sorted_unique requested in
      length (rgImageContentRoots v) = length expected \<and> length expected \<le> 256 \<and>
      rgImageContentRoots v = normalize_content (rgImageContentRoots v) \<and>
      list_all (content_root_ok g l v) (zip expected (rgImageContentRoots v)))"

section \<open>Validation of a graph\<close>

definition valid_graph :: "GraphEnv \<Rightarrow> RegistryGraph \<Rightarrow> RegistryObserveLimits \<Rightarrow> string list \<Rightarrow> bool" where
  "valid_graph g v l known \<longleftrightarrow>
     valid_limits l \<and> int (length (rgNodes v)) \<le> rlMaxNodes l \<and> int (length (rgEdges v)) \<le> rlMaxEdges l \<and>
     int (length (rgRoots v)) \<le> rlMaxNodes l \<and> 0 \<le> rgTagCount v \<and> rgTagCount v \<le> rlMaxNodes l * rlMaxPages l \<and>
     \<not> rgGlobalInventoryComplete v \<and> registry_status (rgDiscovery v) \<and> registry_blockers (rgBlockers v) \<and>
     sha256_digest (rgTagSetHash v) \<and> bounded_content (rgImageContentRoots v) l \<and>
     normalize_graph g v = Inr v \<and> rgGraphHash v = graph_hash g v \<and>
     list_all (valid_node l) (rgNodes v) \<and> list_all (valid_edge v) (rgEdges v) \<and>
     (rgDiscovery v = ''COMPLETE'' \<longrightarrow> list_all (\<lambda>c. c = ''registry_global_inventory_unproven'') (rgBlockers v)) \<and>
     list_all (valid_root l v) (rgRoots v) \<and>
     list_all (\<lambda>d. sha256_digest d \<and> d \<in> set (map rrDigest (rgRoots v))) known \<and>
     has_code (rgBlockers v) ''registry_global_inventory_unproven'' \<and>
     valid_content g l v known \<and> geGraphSize g v \<le> report_max_bytes"

text \<open>\<open>RegistryImageContentProofHash\<close>\<close>

definition content_proof_hash ::
  "GraphEnv \<Rightarrow> RegistryGraph \<Rightarrow> RegistryObserveLimits \<Rightarrow> string list \<Rightarrow> string \<Rightarrow> string result" where
  "content_proof_hash g v l requested d =
     (if \<not> valid_graph g v l requested then Inl (GoError ''invalid image content graph'')
      else case find (\<lambda>r. icrDigest r = d \<and> icrClosure r = ''COMPLETE'') (rgImageContentRoots v) of
        None \<Rightarrow> Inl (GoError ''complete requested image content proof unavailable'')
      | Some r \<Rightarrow> Inr (icrHash r))"

section \<open>Reports of a worker\<close>

definition registry_report_fields_ok :: "WorkerJob \<Rightarrow> WorkerAttempt \<Rightarrow> WorkerReport \<Rightarrow> bool" where
  "registry_report_fields_ok j a r \<longleftrightarrow>
     jCapability j = ''registry_observe'' \<and> wiRegistry (jInputs j) \<noteq> None \<and> repLocalOCI r = None \<and>
     repPublication r = None \<and> wrJobID (repWorkerAttemptRequest r) = mID (jMeta j) \<and>
     wrAttemptID (repWorkerAttemptRequest r) = mID (aMeta a) \<and> wrFence (repWorkerAttemptRequest r) = aFence a \<and>
     wrInputHash (repWorkerAttemptRequest r) = jInputHash j"

definition present_bytes :: "RegistryGraph \<Rightarrow> int" where
  "present_bytes v = sum_list (map rnSize (filter (\<lambda>n. rnAvailability n = ''PRESENT'') (rgNodes v)))"

definition observation_ok ::
  "GraphEnv \<Rightarrow> WorkerJob \<Rightarrow> WorkerAttempt \<Rightarrow> WorkerRegistryInputs \<Rightarrow> WorkerRegistryReport \<Rightarrow> time \<Rightarrow> bool" where
  "observation_ok g j a p v received \<longleftrightarrow>
     wrrKind v = ''WORKER_ATTESTED_REGISTRY_READ'' \<and> wrrScope v = wriScope p \<and>
     wrrRecipeID v = wiRecipeID (jInputs j) \<and> wrrRecipeRevision v = wiRecipeRevision (jInputs j) \<and>
     wrrRecipeHash v = wiRecipeHash (jInputs j) \<and> wrrConfigRevision v = wiConfigRevision (jInputs j) \<and>
     wrrRootSetHash v = wriRootSetHash p \<and> 0 \<le> wrrRequests v \<and> wrrRequests v \<le> rlMaxRequests (wriLimits p) \<and>
     0 \<le> wrrBytes v \<and> wrrBytes v \<le> rlMaxTotalBytes (wriLimits p) \<and> wrrStartedAt v \<noteq> zero_time \<and>
     wrrFinishedAt v \<noteq> zero_time \<and> \<not> wrrStartedAt v < mCreatedAt (aMeta a) \<and> \<not> wrrFinishedAt v < wrrStartedAt v \<and>
     \<not> received < wrrFinishedAt v \<and> \<not> received < mCreatedAt (aMeta a) \<and>
     wrrFinishedAt v - wrrStartedAt v \<le> rlTimeoutSeconds (wriLimits p) * second \<and>
     valid_graph g (wrrGraph v) (wriLimits p) (wriRoots p) \<and> present_bytes (wrrGraph v) \<le> wrrBytes v"

text \<open>\<open>ValidateRegistryWorkerReport\<close>\<close>

definition valid_registry_report ::
  "GraphEnv \<Rightarrow> WorkerJob \<Rightarrow> WorkerAttempt \<Rightarrow> WorkerReport \<Rightarrow> time \<Rightarrow> unit result" where
  "valid_registry_report g j a r received = reject
     (\<not> (registry_report_fields_ok j a r \<and> (repResult r = ''PASSED'' \<or> repResult r = ''EXECUTOR_FAILED'') \<and>
         (if repResult r \<noteq> ''PASSED'' then repRegistry r = None
          else (case (repRegistry r, wiRegistry (jInputs j)) of
              (Some v, Some p) \<Rightarrow> observation_ok g j a p v received | _ \<Rightarrow> False) \<and>
            geReportSize g r \<le> report_max_bytes)))
     (GoError ''invalid scoped registry observation report'')"

end
