(* ===== verification/RegistryRetention.thy ===== *)
theory RegistryRetention
  imports Retention RegistryGraphs
begin

text \<open>
  What the admitted inventories of a registry say about the images of a retention report,
  \<open>internal/domain/registry_retention.go\<close>: a summary per observation authority, the objects reachable
  from the protected images over the union of all historical edges, and the blockers of the report.
  Maps are association lists with the joined strings of the code as keys. The fingerprint of the report
  and the evidence it hashes are not modelled.
\<close>

section \<open>Reports\<close>

record RegistryCoverageSummary =
  rcsRecipeRevision :: string
  rcsApplicationID :: string
  rcsImageRepository :: string
  rcsRecipeID :: string
  rcsRecipeHash :: string
  rcsConfigRevision :: string
  rcsInventoryID :: string
  rcsStatus :: string
  rcsFreshness :: string
  rcsAttestation :: string
  rcsRootSetHash :: string
  rcsGraphHash :: string
  rcsStartedAt :: "time option"
  rcsFinishedAt :: "time option"
  rcsReceivedAt :: "time option"
  rcsRequiredRoots :: int
  rcsCoveredRoots :: int
  rcsNodes :: int
  rcsEdges :: int
  rcsBlockers :: "string list"
  rcsGlobalInventoryComplete :: bool

record RegistryProtectedObject =
  rpoImageRepository :: string
  rpoDigest :: string
  rpoKind :: string
  rpoMediaType :: string
  rpoAvailability :: string
  rpoSize :: int
  rpoProtected :: bool
  rpoRootDigests :: "string list"
  rpoReasons :: "string list"
  rpoBlockers :: "string list"

record RegistryProtectedEdge =
  rpeImageRepository :: string
  rpeRegistryEdge :: RegistryEdge

record RetentionReport =
  rptRegistry :: "RegistryCoverageSummary list"
  rptProtectedObjects :: "RegistryProtectedObject list"
  rptProtectedEdges :: "RegistryProtectedEdge list"
  rptGlobalInventoryComplete :: bool
  rptProductID :: string
  rptEvaluatedAt :: time
  rptDeletionAllowed :: bool
  rptPolicies :: "EffectiveRetentionPolicy list"
  rptImages :: "RetentionImage list"
  rptBlockers :: "string list"

definition zero_RegistryCoverageSummary :: RegistryCoverageSummary where
  "zero_RegistryCoverageSummary = \<lparr>rcsRecipeRevision = [], rcsApplicationID = [], rcsImageRepository = [], rcsRecipeID = [],
     rcsRecipeHash = [], rcsConfigRevision = [], rcsInventoryID = [], rcsStatus = [], rcsFreshness = [],
     rcsAttestation = [], rcsRootSetHash = [], rcsGraphHash = [], rcsStartedAt = None,
     rcsFinishedAt = None, rcsReceivedAt = None, rcsRequiredRoots = 0, rcsCoveredRoots = 0, rcsNodes = 0,
     rcsEdges = 0, rcsBlockers = [], rcsGlobalInventoryComplete = False\<rparr>"

section \<open>What an inventory covers\<close>

definition known_roots :: "RetentionReport \<Rightarrow> string \<Rightarrow> string list" where
  "known_roots rep img = sorted_unique (map imDigest (filter (\<lambda>v. imImageRepository v = img) (rptImages rep)))"

definition root_set_hash ::
  "GraphEnv \<Rightarrow> RegistryScope \<Rightarrow> string \<Rightarrow> string \<Rightarrow> string \<Rightarrow> string \<Rightarrow> string list \<Rightarrow> string" where
  "root_set_hash g scope i revision hash conf roots = geRootSetHash g scope i revision hash conf (sorted_unique roots)"

definition inventory_freshness :: "RegistryInventory \<Rightarrow> time \<Rightarrow> string" where
  "inventory_freshness v now =
     (let fs = map (\<lambda>at. evidence_freshness at now) [wrrStartedAt (riReport v), wrrFinishedAt (riReport v), riReceivedAt v]
      in if ''UNKNOWN'' \<in> set fs then ''UNKNOWN'' else if ''STALE'' \<in> set fs then ''STALE'' else ''FRESH'')"

definition inventory_matches :: "RegistryInventory \<Rightarrow> RegistryObservationAuthority \<Rightarrow> bool" where
  "inventory_matches v a \<longleftrightarrow>
     mProductID (riMeta v) = rscProductID (raScope a) \<and> wrrScope (riReport v) = raScope a \<and>
     (case wiRegistry (riInputs v) of None \<Rightarrow> False
      | Some r \<Rightarrow> wriScope r = raScope a \<and> wriLimits r = raLimits a) \<and>
     wiRecipeID (riInputs v) = raRecipeID a \<and> wiRecipeRevision (riInputs v) = raRecipeRevision a \<and>
     wiRecipeHash (riInputs v) = raRecipeHash a \<and> wiConfigRevision (riInputs v) = raConfigRevision a"

definition registry_covered :: "RegistryGraph \<Rightarrow> string \<Rightarrow> bool" where
  "registry_covered gr digest \<longleftrightarrow>
     list_ex (\<lambda>root. rrClosure root = ''COMPLETE'' \<and> digest \<in> set (reachable (graph_arcs gr) (rrDigest root)) \<and>
         list_ex (\<lambda>n. rnDigest n = digest \<and> rnAvailability n = ''PRESENT'' \<and> rnKind n \<noteq> ''BLOB'' \<and>
             rnKind n \<noteq> ''UNKNOWN'') (rgNodes gr))
       (rgRoots gr)"

text \<open>The latest matching inventory; equal times are decided by the ID.\<close>

definition later_inventory ::
  "RegistryObservationAuthority \<Rightarrow> RegistryInventory \<Rightarrow> RegistryInventory option \<Rightarrow> RegistryInventory option" where
  "later_inventory a v last' =
     (if \<not> inventory_matches v a then last'
      else case last' of
        None \<Rightarrow> Some v
      | Some l \<Rightarrow> (if riReceivedAt l < riReceivedAt v \<or>
                      riReceivedAt v = riReceivedAt l \<and> mID (riMeta v) < mID (riMeta l) then Some v else last'))"

definition registry_latest :: "RegistryInventory list \<Rightarrow> RegistryObservationAuthority \<Rightarrow> RegistryInventory option" where
  "registry_latest vs a = fold (later_inventory a) vs None"

definition latest_ambiguous ::
  "RegistryInventory list \<Rightarrow> RegistryObservationAuthority \<Rightarrow> RegistryInventory option \<Rightarrow> bool" where
  "latest_ambiguous vs a last' \<longleftrightarrow>
     (case last' of
        None \<Rightarrow> False
      | Some l \<Rightarrow> list_ex (\<lambda>v. inventory_matches v a \<and> riReceivedAt v = riReceivedAt l \<and> riReport v \<noteq> riReport l) vs)"

section \<open>The summary of an authority\<close>

definition also_blocked :: "string \<Rightarrow> RegistryCoverageSummary \<Rightarrow> RegistryCoverageSummary" where
  "also_blocked b s = s\<lparr>rcsBlockers := rcsBlockers s @ [b]\<rparr>"

definition downgraded :: "string \<Rightarrow> string \<Rightarrow> RegistryCoverageSummary \<Rightarrow> RegistryCoverageSummary" where
  "downgraded st b s = also_blocked b (s\<lparr>rcsStatus := st\<rparr>)"

definition empty_summary ::
  "GraphEnv \<Rightarrow> RegistryObservationAuthority \<Rightarrow> string list \<Rightarrow> RegistryCoverageSummary" where
  "empty_summary g a roots = zero_RegistryCoverageSummary\<lparr>
     rcsApplicationID := rscComponentID (raScope a), rcsImageRepository := rscImageRepository (raScope a),
     rcsRecipeID := raRecipeID a, rcsRecipeRevision := raRecipeRevision a, rcsRecipeHash := raRecipeHash a,
     rcsConfigRevision := raConfigRevision a, rcsStatus := ''MISSING'', rcsFreshness := ''UNKNOWN'',
     rcsRequiredRoots := int (length roots),
     rcsRootSetHash := root_set_hash g (raScope a) (raRecipeID a) (raRecipeRevision a) (raRecipeHash a) (raConfigRevision a) roots,
     rcsBlockers := [''registry_global_inventory_unproven'']\<rparr>"

definition observed_summary ::
  "RegistryInventory \<Rightarrow> string list \<Rightarrow> time \<Rightarrow> RegistryCoverageSummary \<Rightarrow> RegistryCoverageSummary" where
  "observed_summary l roots now s =
     (let r = riReport l; gr = wrrGraph r;
          covered = int (length (filter (registry_covered gr) roots));
          s = s\<lparr>rcsInventoryID := mID (riMeta l), rcsAttestation := wrrKind r, rcsGraphHash := rgGraphHash gr,
            rcsStartedAt := Some (wrrStartedAt r), rcsFinishedAt := Some (wrrFinishedAt r),
            rcsReceivedAt := Some (riReceivedAt l), rcsNodes := int (length (rgNodes gr)),
            rcsEdges := int (length (rgEdges gr)), rcsFreshness := inventory_freshness l now,
            rcsCoveredRoots := covered, rcsBlockers := rcsBlockers s @ rgBlockers gr, rcsStatus := ''CURRENT''\<rparr>;
          s = (if covered \<noteq> rcsRequiredRoots s \<or> rgDiscovery gr \<noteq> ''COMPLETE''
               then downgraded ''PARTIAL'' ''registry_current_roots_uncovered'' s else s);
          s = (if rcsFreshness s = ''STALE'' then downgraded ''STALE'' ''registry_observation_stale'' s else s)
      in if rcsFreshness s = ''UNKNOWN'' then downgraded ''UNKNOWN'' ''registry_observation_window_unknown'' s else s)"

text \<open>An execution of the observer that failed after the latest observation.\<close>

definition execution_unknown ::
  "string \<Rightarrow> RegistryObservationAuthority \<Rightarrow> RegistryInventory option \<Rightarrow> WorkerJob \<Rightarrow> bool" where
  "execution_unknown product a last' j \<longleftrightarrow>
     mProductID (jMeta j) = product \<and>
     (case wiRegistry (jInputs j) of None \<Rightarrow> False | Some r \<Rightarrow> wriScope r = raScope a) \<and>
     wiRecipeHash (jInputs j) = raRecipeHash a \<and> wiConfigRevision (jInputs j) = raConfigRevision a \<and>
     jStatus j \<in> {''FAILED'', ''RECONCILIATION_REQUIRED'', ''DEADLINE_EXCEEDED''} \<and>
     (case last' of None \<Rightarrow> True | Some l \<Rightarrow> riReceivedAt l < mUpdatedAt (jMeta j))"

definition registry_summary ::
  "GraphEnv \<Rightarrow> State \<Rightarrow> RetentionReport \<Rightarrow> RegistryObservationAuthority \<Rightarrow> time \<Rightarrow> RegistryCoverageSummary" where
  "registry_summary g st rep a now =
     (let roots = known_roots rep (rscImageRepository (raScope a));
          last' = registry_latest (stRegistryInventories st) a;
          s = (case last' of
                 None \<Rightarrow> also_blocked ''registry_observation_missing'' (empty_summary g a roots)
               | Some l \<Rightarrow> observed_summary l roots now (empty_summary g a roots));
          s = (if latest_ambiguous (stRegistryInventories st) a last'
               then downgraded ''UNKNOWN'' ''registry_observation_order_ambiguous'' s else s);
          s = fold (\<lambda>j s. if execution_unknown (rptProductID rep) a last' j
                then downgraded ''UNKNOWN'' ''registry_observer_execution_unknown'' s else s) (stWorkerJobs st) s;
          s = (if raCurrent a then s else downgraded ''AUTHORITY_UNKNOWN'' ''registry_authority_unavailable'' s);
          s = fold (\<lambda>q s. if mProductID (nqMeta q) = rptProductID rep
                then downgraded ''QUARANTINED'' ''restore_quarantine'' s else s) (stNativeQuarantines st) s
      in s\<lparr>rcsBlockers := sorted_unique (rcsBlockers s)\<rparr>)"

section \<open>The summaries of a report\<close>

definition scope_repos :: "RetentionReport \<Rightarrow> RegistryObservationAuthority list \<Rightarrow> string list" where
  "scope_repos rep as = map imImageRepository (rptImages rep) @
     map (\<lambda>a. rscImageRepository (raScope a)) (filter (\<lambda>a. rscProductID (raScope a) = rptProductID rep) as)"

definition joined_key :: "string \<Rightarrow> string \<Rightarrow> string \<Rightarrow> string" where
  "joined_key a b c = a @ [CHR 0x00] @ b @ [CHR 0x00] @ c"

definition authority_key :: "RegistryObservationAuthority \<Rightarrow> string" where
  "authority_key a = joined_key (rscComponentID (raScope a)) (rscImageRepository (raScope a)) (raRecipeID a)"

text \<open>The authority that an inventory was observed under, when none is configured any more.\<close>

definition past_authority :: "RegistryInventory \<Rightarrow> RegistryObservationAuthority" where
  "past_authority v = \<lparr>raScope = wrrScope (riReport v), raRecipeID = wrrRecipeID (riReport v),
     raRecipeRevision = wrrRecipeRevision (riReport v), raRecipeHash = wrrRecipeHash (riReport v),
     raConfigRevision = wrrConfigRevision (riReport v),
     raLimits = (case wiRegistry (riInputs v) of None \<Rightarrow> zero_RegistryObserveLimits | Some r \<Rightarrow> wriLimits r),
     raCurrent = False\<rparr>"

definition inventory_history :: "RegistryInventory list \<Rightarrow> RegistryInventory list" where
  "inventory_history vs = sort_key (\<lambda>v. - riReceivedAt v) (sort_key (mID \<circ> riMeta) vs)"

text \<open>The authorities summarised: those of the product, and the past ones with another key.\<close>

definition summarised ::
  "State \<Rightarrow> RetentionReport \<Rightarrow> RegistryObservationAuthority list \<Rightarrow> RegistryObservationAuthority list" where
  "summarised st rep as =
     (let own = filter (\<lambda>a. rscProductID (raScope a) = rptProductID rep) as in
      fold (\<lambda>v done. if rscImageRepository (wrrScope (riReport v)) \<in> set (scope_repos rep as) \<and>
             mProductID (riMeta v) = rptProductID rep \<and>
             authority_key (past_authority v) \<notin> set (map authority_key done)
           then done @ [past_authority v] else done)
        (inventory_history (stRegistryInventories st)) own)"

definition summary_key :: "RegistryCoverageSummary \<Rightarrow> string" where
  "summary_key s = joined_key (rcsApplicationID s) (rcsImageRepository s) (rcsRecipeID s)"

definition registry_summaries ::
  "GraphEnv \<Rightarrow> State \<Rightarrow> RetentionReport \<Rightarrow> time \<Rightarrow> RegistryObservationAuthority list \<Rightarrow> RegistryCoverageSummary list" where
  "registry_summaries g st rep now as =
     sort_key summary_key (map (\<lambda>a. registry_summary g st rep a now) (summarised st rep as))"

section \<open>The union of the admitted graphs\<close>

record historical_node =
  hnNode :: RegistryNode
  hnAt :: time
  hnID :: string
  hnConflict :: bool

definition object_key :: "string \<Rightarrow> string \<Rightarrow> string" where
  "object_key repo digest = repo @ ''@'' @ digest"

definition same_descriptor :: "RegistryNode \<Rightarrow> RegistryNode \<Rightarrow> bool" where
  "same_descriptor a b \<longleftrightarrow> rnKind a = rnKind b \<and> rnMediaType a = rnMediaType b \<and> rnSize a = rnSize b"

definition add_node ::
  "RegistryInventory \<Rightarrow> RegistryNode \<Rightarrow> (string \<times> historical_node) list \<Rightarrow> (string \<times> historical_node) list" where
  "add_node v n ns =
     (let key = object_key (rscImageRepository (wrrScope (riReport v))) (rnDigest n);
          fresh = \<lparr>hnNode = n, hnAt = riReceivedAt v, hnID = mID (riMeta v), hnConflict = False\<rparr>
      in case map_of ns key of
        None \<Rightarrow> AList.update key fresh ns
      | Some old \<Rightarrow>
          (let conflict = (\<not> same_descriptor (hnNode old) n) in
           if hnAt old < riReceivedAt v \<or> riReceivedAt v = hnAt old \<and> mID (riMeta v) < hnID old
           then AList.update key (fresh\<lparr>hnConflict := hnConflict old \<or> conflict\<rparr>) ns
           else if conflict then AList.update key (old\<lparr>hnConflict := True\<rparr>) ns else ns))"

definition scoped_inventories :: "string list \<Rightarrow> State \<Rightarrow> RegistryInventory list" where
  "scoped_inventories repos st =
     filter (\<lambda>v. rscImageRepository (wrrScope (riReport v)) \<in> set repos) (stRegistryInventories st)"

definition historical_nodes :: "RegistryInventory list \<Rightarrow> (string \<times> historical_node) list" where
  "historical_nodes vs = fold (\<lambda>v. fold (add_node v) (rgNodes (wrrGraph (riReport v)))) vs []"

definition protected_edge_key :: "GraphEnv \<Rightarrow> RegistryProtectedEdge \<Rightarrow> string" where
  "protected_edge_key g e = rpeImageRepository e @ [CHR 0x00] @ edge_key g (rpeRegistryEdge e)"

definition inventory_edges :: "RegistryInventory \<Rightarrow> RegistryProtectedEdge list" where
  "inventory_edges v = map (\<lambda>e. \<lparr>rpeImageRepository = rscImageRepository (wrrScope (riReport v)), rpeRegistryEdge = e\<rparr>)
     (rgEdges (wrrGraph (riReport v)))"

definition historical_edges ::
  "GraphEnv \<Rightarrow> RegistryInventory list \<Rightarrow> (string \<times> RegistryProtectedEdge) list" where
  "historical_edges g vs =
     fold (\<lambda>e. AList.update (protected_edge_key g e) e) (concat (map inventory_edges vs)) []"

definition degraded_repos :: "RegistryInventory list \<Rightarrow> time \<Rightarrow> string list" where
  "degraded_repos vs now = map (\<lambda>v. rscImageRepository (wrrScope (riReport v)))
     (filter (\<lambda>v. rgDiscovery (wrrGraph (riReport v)) \<noteq> ''COMPLETE'' \<or> inventory_freshness v now \<noteq> ''FRESH'') vs)"

section \<open>Protected objects and edges\<close>

definition repo_arcs :: "(string \<times> RegistryProtectedEdge) list \<Rightarrow> string \<Rightarrow> arcs" where
  "repo_arcs es repo = map (\<lambda>(k, e). (reFrom (rpeRegistryEdge e), reTo (rpeRegistryEdge e)))
     (filter (\<lambda>(k, e). rpeImageRepository e = repo) es)"

text \<open>What the traversal from a protected image visits.\<close>

definition root_closure :: "(string \<times> RegistryProtectedEdge) list \<Rightarrow> RetentionImage \<Rightarrow> string list" where
  "root_closure es v = reachable (repo_arcs es (imImageRepository v)) (imDigest v)"

definition new_object ::
  "(string \<times> historical_node) list \<Rightarrow> string list \<Rightarrow> string \<Rightarrow> string \<Rightarrow> RegistryProtectedObject" where
  "new_object ns degraded repo digest =
     (let ob = (case map_of ns (object_key repo digest) of
            None \<Rightarrow> \<lparr>rpoImageRepository = repo, rpoDigest = digest, rpoKind = ''UNKNOWN'', rpoMediaType = [],
              rpoAvailability = ''UNKNOWN'', rpoSize = 0, rpoProtected = True, rpoRootDigests = [], rpoReasons = [],
              rpoBlockers = [''registry_object_unknown'']\<rparr>
          | Some h \<Rightarrow> \<lparr>rpoImageRepository = repo, rpoDigest = digest, rpoKind = rnKind (hnNode h),
              rpoMediaType = rnMediaType (hnNode h), rpoAvailability = rnAvailability (hnNode h),
              rpoSize = rnSize (hnNode h), rpoProtected = True, rpoRootDigests = [], rpoReasons = [],
              rpoBlockers = (if hnConflict h then [''registry_historical_descriptor_conflict''] else [])\<rparr>)
      in if repo \<in> set degraded then ob\<lparr>rpoBlockers := rpoBlockers ob @ [''registry_historical_coverage_degraded'']\<rparr> else ob)"

definition closure_reason :: "RetentionImage \<Rightarrow> string" where
  "closure_reason v =
     (if has_code (imReasons v) ''shared_product_root'' then ''shared_product_root'' else ''registry_historical_closure'')"

definition visit_object ::
  "(string \<times> historical_node) list \<Rightarrow> string list \<Rightarrow> RetentionImage \<Rightarrow> string \<Rightarrow>
   (string \<times> RegistryProtectedObject) list \<Rightarrow> (string \<times> RegistryProtectedObject) list" where
  "visit_object ns degraded v digest obs =
     (let key = object_key (imImageRepository v) digest;
          ob = (case map_of obs key of Some ob \<Rightarrow> ob | None \<Rightarrow> new_object ns degraded (imImageRepository v) digest)
      in AList.update key (ob\<lparr>rpoRootDigests := rpoRootDigests ob @ [imDigest v],
           rpoReasons := rpoReasons ob @ [closure_reason v]\<rparr>) obs)"

definition protected_roots :: "RetentionReport \<Rightarrow> RetentionImage list" where
  "protected_roots rep = filter imProtected (rptImages rep)"

definition visited_objects ::
  "(string \<times> historical_node) list \<Rightarrow> (string \<times> RegistryProtectedEdge) list \<Rightarrow> string list \<Rightarrow> RetentionReport \<Rightarrow>
   (string \<times> RegistryProtectedObject) list" where
  "visited_objects ns es degraded rep =
     fold (\<lambda>v. fold (visit_object ns degraded v) (root_closure es v)) (protected_roots rep) []"

definition tidy_object :: "RegistryProtectedObject \<Rightarrow> RegistryProtectedObject" where
  "tidy_object ob = ob\<lparr>rpoRootDigests := sorted_unique (rpoRootDigests ob), rpoReasons := sorted_unique (rpoReasons ob),
     rpoBlockers := sorted_unique (rpoBlockers ob)\<rparr>"

definition edge_used :: "(string \<times> RegistryProtectedEdge) list \<Rightarrow> RetentionReport \<Rightarrow> RegistryProtectedEdge \<Rightarrow> bool" where
  "edge_used es rep e \<longleftrightarrow>
     list_ex (\<lambda>v. rpeImageRepository e = imImageRepository v \<and> reFrom (rpeRegistryEdge e) \<in> set (root_closure es v))
       (protected_roots rep)"

definition summary_blockers :: "RegistryCoverageSummary list \<Rightarrow> string list" where
  "summary_blockers ss = filter (\<lambda>b. has_prefix b ''registry_'' \<and> b \<noteq> ''registry_global_inventory_unproven'')
     (concat (map rcsBlockers ss))"

definition registry_retention ::
  "GraphEnv \<Rightarrow> State \<Rightarrow> RetentionReport \<Rightarrow> time \<Rightarrow> RegistryObservationAuthority list \<Rightarrow> RetentionReport" where
  "registry_retention g st rep now as =
     (let vs = scoped_inventories (scope_repos rep as) st; es = historical_edges g vs;
          ss = registry_summaries g st rep now as
      in rep\<lparr>rptRegistry := ss,
          rptProtectedObjects := sort_key (\<lambda>ob. object_key (rpoImageRepository ob) (rpoDigest ob))
            (map (tidy_object \<circ> snd) (visited_objects (historical_nodes vs) es (degraded_repos vs now) rep)),
          rptProtectedEdges := sort_key (\<lambda>e. rpeImageRepository e @ edge_key g (rpeRegistryEdge e))
            (filter (edge_used es rep) (map snd es)),
          rptBlockers := sorted_unique (rptBlockers rep @ summary_blockers ss @
            [''registry_global_inventory_unproven'', ''deletion_fence_unavailable''])\<rparr>)"

end
