(* ===== verification/RetentionReports.thy ===== *)
theory RetentionReports
  imports RetentionRoots RegistryRetention
begin

text \<open>
  The evaluation of one product and the report over all of them, \<open>evaluate\<close> and \<open>EvaluateRetention\<close> of
  \<open>internal/domain/retention.go\<close>, and what the attention list shows of it,
  \<open>internal/application/retention.go\<close>.
\<close>

section \<open>The evaluation of one product\<close>

definition effective_policy :: "Application \<Rightarrow> EffectiveRetentionPolicy" where
  "effective_policy a =
     (case appRetention a of
        None \<Rightarrow> \<lparr>polApplicationID = mID (appMeta a), polConfiguredKeepLast = 0, polEffectiveKeepLast = 10,
          polKeepCurrent = True, polKeepPrevious = 1\<rparr>
      | Some r \<Rightarrow> \<lparr>polApplicationID = mID (appMeta a), polConfiguredKeepLast = arKeepLast r,
          polEffectiveKeepLast = (if 10 < arKeepLast r then arKeepLast r else 10), polKeepCurrent = True,
          polKeepPrevious = (if 1 < arKeepPrevious r then arKeepPrevious r else 1)\<rparr>)"

definition effective_policies :: "RetentionCtx \<Rightarrow> EffectiveRetentionPolicy list" where
  "effective_policies x = sort_key polApplicationID
     (map effective_policy (filter (\<lambda>a. mProductID (appMeta a) = rxProduct x) (stApplications (rxState x))))"

text \<open>A root of a development baseline or a restoration: an image with blockers of its own, or a blocker.\<close>

definition root_step :: "root_action \<Rightarrow> Collector \<Rightarrow> Collector" where
  "root_step r c =
     (case r of
        RootBlock code \<Rightarrow> block code c
      | RootImage repo digest app reason bs \<Rightarrow>
          (case image repo digest app reason c of
             (None, c) \<Rightarrow> c
           | (Some key, c) \<Rightarrow> on_image key (\<lambda>v. v\<lparr>imBlockers := imBlockers v @ bs\<rparr>) c))"

definition baseline_roots :: "RetentionCtx \<Rightarrow> Collector \<Rightarrow> Collector" where
  "baseline_roots x = fold root_step (rxBaselineRoots x (rxState x) (rxProduct x) (rxNow x))"

definition restoration_roots :: "RetentionCtx \<Rightarrow> Collector \<Rightarrow> Collector" where
  "restoration_roots x = fold root_step (rxRestorationRoots x (rxState x) (rxProduct x) (rxNow x))"

definition pin_root :: "RetentionCtx \<Rightarrow> ArtifactPin \<Rightarrow> Collector \<Rightarrow> Collector" where
  "pin_root x p c =
     (if mProductID (apnMeta p) = rxProduct x \<and> apnReleasedAt p = None
      then add_image (apnImageRepository p) (apnDigest p) (apnApplicationID p) (''pin:'' @ apnPurpose p) c else c)"

definition pin_roots :: "RetentionCtx \<Rightarrow> Collector \<Rightarrow> Collector" where
  "pin_roots x = fold (pin_root x) (stArtifactPins (rxState x))"

definition quarantines :: "RetentionCtx \<Rightarrow> Collector \<Rightarrow> Collector" where
  "quarantines x = fold (\<lambda>q. if mProductID (nqMeta q) = rxProduct x then block ''restore_quarantine'' else id)
     (stNativeQuarantines (rxState x))"

definition observed_image :: "time \<Rightarrow> string list \<Rightarrow> time \<Rightarrow> RetentionImage \<Rightarrow> RetentionImage" where
  "observed_image at av now v =
     (let f = evidence_freshness at now; v = v\<lparr>imFreshness := f\<rparr> in
      if f \<noteq> ''UNKNOWN'' \<and> length av = 1 \<and> hd av \<in> {''PRESENT'', ''MISSING''} then v\<lparr>imAvailability := hd av\<rparr> else v)"

definition image_blocked :: "string \<Rightarrow> string \<Rightarrow> Collector \<Rightarrow> Collector" where
  "image_blocked key code c = block code (on_image key (\<lambda>v. v\<lparr>imBlockers := imBlockers v @ [code]\<rparr>) c)"

definition evidence_blockers :: "RetentionImage \<Rightarrow> string list" where
  "evidence_blockers v =
     (if imAvailability v = ''UNKNOWN'' then [''availability_evidence_unknown_or_conflicting''] else []) @
     (if imFreshness v \<noteq> ''FRESH'' then [''registry_evidence_'' @ to_lower (imFreshness v)] else [])"

text \<open>The judgement of one image, after all roots are in.\<close>

definition judge_image :: "RetentionCtx \<Rightarrow> string \<Rightarrow> Collector \<Rightarrow> Collector" where
  "judge_image x key c =
     (let c = (case map_of (clObserved c) key of
                 None \<Rightarrow> c
               | Some at \<Rightarrow> on_image key (observed_image at
                   (sorted_unique (case map_of (clAvailability c) key of None \<Rightarrow> [] | Some v \<Rightarrow> v)) (rxNow x)) c)
      in case image_at c key of
        None \<Rightarrow> c
      | Some v \<Rightarrow> fold (image_blocked key) (evidence_blockers v) c)"

definition judge_images :: "RetentionCtx \<Rightarrow> Collector \<Rightarrow> Collector" where
  "judge_images x c = fold (judge_image x) (map fst (clImages c)) c"

definition evaluate :: "RetentionCtx \<Rightarrow> Collector" where
  "evaluate x =
     (judge_images x \<circ> quarantines x \<circ> pin_roots x \<circ> releases x \<circ> environments x \<circ> restoration_roots x \<circ>
      baseline_roots x \<circ> operations x \<circ> artifacts x) (empty_collector\<lparr>clPolicies := effective_policies x\<rparr>)"

section \<open>Roots of other products\<close>

text \<open>The products that may share a repository.\<close>

definition known_products :: "State \<Rightarrow> string list" where
  "known_products st = remdups (map (mID \<circ> pMeta) (stProducts st) @
     map (mProductID \<circ> daMeta) (stDeliveryArtifacts st) @ map (mProductID \<circ> apnMeta) (stArtifactPins st))"

definition local_repositories :: "RetentionCtx \<Rightarrow> Collector \<Rightarrow> string list" where
  "local_repositories x c = map (imImageRepository \<circ> snd) (clImages c) @
     List.map_filter (\<lambda>b. if mProductID (cbMeta b) = rxProduct x then canonical_image (cbImageRepository b) else None)
       (stComponentBuilds (rxState x))"

text \<open>An image of another product. The identity of an image may be one that \<open>image\<close> refuses, and then the
  code writes through a nil pointer.\<close>

definition share_image :: "string list \<Rightarrow> string \<times> RetentionImage \<Rightarrow> Collector \<Rightarrow> Collector result" where
  "share_image repos kf c =
     (case kf of (key, f) \<Rightarrow>
      if \<not> imProtected f \<or> imImageRepository f \<notin> set repos then Inr c
      else if image_at c key \<noteq> None then Inr (protect key ''shared_product_root'' c)
      else case image (imImageRepository f) (imDigest f) [] ''shared_product_root'' c of
        (None, c) \<Rightarrow> Inl (GoPanic ''nil image'')
      | (Some k, c) \<Rightarrow> Inr (image_blocked k ''registry_evidence_unknown'' c))"

fun fold_result :: "('a \<Rightarrow> 's \<Rightarrow> 's result) \<Rightarrow> 'a list \<Rightarrow> 's \<Rightarrow> 's result" where
  "fold_result f [] s = Inr s"
| "fold_result f (y # ys) s = (case f y s of Inl e \<Rightarrow> Inl e | Inr t \<Rightarrow> fold_result f ys t)"

definition share_product :: "RetentionCtx \<Rightarrow> string \<Rightarrow> Collector \<Rightarrow> Collector result" where
  "share_product x other c =
     fold_result (share_image (local_repositories x c)) (clImages (evaluate (x\<lparr>rxProduct := other\<rparr>))) c"

definition collected :: "RetentionCtx \<Rightarrow> Collector result" where
  "collected x =
     fold_result (share_product x) (filter (\<lambda>p. p \<noteq> rxProduct x) (known_products (rxState x))) (evaluate x)"

section \<open>The report\<close>

definition tidy_image :: "RetentionImage \<Rightarrow> RetentionImage" where
  "tidy_image v = v\<lparr>imApplicationIDs := sorted_unique (imApplicationIDs v), imProfiles := sorted_unique (imProfiles v),
     imArtifactIDs := sorted_unique (imArtifactIDs v), imReasons := sorted_unique (imReasons v),
     imBlockers := sorted_unique (imBlockers v)\<rparr>"

definition base_report :: "RetentionCtx \<Rightarrow> Collector \<Rightarrow> RetentionReport" where
  "base_report x c =
     \<lparr>rptRegistry = [], rptProtectedObjects = [], rptProtectedEdges = [], rptGlobalInventoryComplete = False,
      rptProductID = rxProduct x, rptEvaluatedAt = rxNow x, rptDeletionAllowed = False, rptPolicies = clPolicies c,
      rptImages = sort_key imIdentity (map (tidy_image \<circ> snd) (clImages c)),
      rptBlockers = sorted_unique (clBlockers c @ [''registry_completeness_unavailable'',
        ''oci_closure_unavailable'', ''workload_coverage_unavailable''])\<rparr>"

definition evaluate_retention ::
  "GraphEnv \<Rightarrow> RetentionCtx \<Rightarrow> RegistryObservationAuthority list \<Rightarrow> RetentionReport result" where
  "evaluate_retention g x as =
     map_sum id (\<lambda>c. registry_retention g (rxState x) (base_report x c) (rxNow x) as) (collected x)"

section \<open>The attention list\<close>

text \<open>An entry holds the image, its reason and its ID; the fixed texts and the fingerprint are left out.\<close>

definition needs_attention :: "RetentionImage \<Rightarrow> bool" where
  "needs_attention v \<longleftrightarrow>
     imProtected v \<and> \<not> (imAvailability v = ''PRESENT'' \<and> imFreshness v = ''FRESH'' \<and> imBlockers v = [])"

definition attention_reason :: "RetentionImage \<Rightarrow> string" where
  "attention_reason v =
     (if imAvailability v = ''MISSING'' then ''RETENTION_ARTIFACT_MISSING'' else ''RETENTION_AVAILABILITY_UNKNOWN'')"

definition retention_attention :: "RetentionReport \<Rightarrow> (string \<times> string \<times> RetentionImage) list" where
  "retention_attention rep =
     map (\<lambda>v. (''retention:'' @ imIdentity v, attention_reason v, v)) (filter needs_attention (rptImages rep))"

end
