(* ===== verification/RetentionSteps.thy ===== *)
theory RetentionSteps
  imports RetentionReports
begin

text \<open>
  The evaluator only collects: no step of it removes an image, a reason or a protection. The steps of the
  collector as a relation, what every sequence of them keeps, and the fact that every operation of the
  evaluator is one. \<open>root_source\<close> is the interface between the evaluator and the tables it ranges over.
\<close>

named_theorems collecting

section \<open>Steps\<close>

definition row_ok :: "RetentionImage \<Rightarrow> bool" where
  "row_ok v \<longleftrightarrow> (imProtected v \<longleftrightarrow> imReasons v \<noteq> [])"

definition grows :: "RetentionImage \<Rightarrow> RetentionImage \<Rightarrow> bool" where
  "grows v w \<longleftrightarrow> imIdentity w = imIdentity v \<and> imImageRepository w = imImageRepository v \<and> imDigest w = imDigest v \<and>
     (imProtected v \<longrightarrow> imProtected w) \<and> set (imReasons v) \<subseteq> set (imReasons w) \<and>
     set (imArtifactIDs v) \<subseteq> set (imArtifactIDs w) \<and> set (imProfiles v) \<subseteq> set (imProfiles w) \<and>
     (row_ok v \<longrightarrow> row_ok w)"

lemma grows_refl [simp]: "grows v v"
  by (simp add: grows_def)

lemma grows_trans: "grows u v \<Longrightarrow> grows v w \<Longrightarrow> grows u w"
  by (auto simp: grows_def)

inductive collect :: "Collector \<Rightarrow> Collector \<Rightarrow> bool" where
  collect_other: "clImages c' = clImages c \<Longrightarrow> clPolicies c' = clPolicies c \<Longrightarrow>
    set (clBlockers c) \<subseteq> set (clBlockers c') \<Longrightarrow> collect c c'"
| collect_row: "(\<And>v. grows v (f v)) \<Longrightarrow> collect c (on_image key f c)"
| collect_new: "image_at c (r @ ''@'' @ d) = None \<Longrightarrow> canonical_image repo = Some r \<Longrightarrow> sha256_digest d \<Longrightarrow>
    collect c (c\<lparr>clImages := clImages c @ [(r @ ''@'' @ d, new_image r d)]\<rparr>)"

inductive_cases collectE: "collect c c'"

abbreviation collects :: "Collector \<Rightarrow> Collector \<Rightarrow> bool" where
  "collects \<equiv> collect\<^sup>*\<^sup>*"

lemma collects_refl [collecting]: "collects c c"
  by simp

lemma collects_step: "collects a b \<Longrightarrow> collect b c \<Longrightarrow> collects a c"
  by (rule rtranclp.rtrancl_into_rtrancl)

lemma collects_trans: "collects a b \<Longrightarrow> collects b c \<Longrightarrow> collects a c"
  by (rule rtranclp_trans)

section \<open>What the steps keep\<close>

definition key_ok :: "string \<times> RetentionImage \<Rightarrow> bool" where
  "key_ok kv \<longleftrightarrow> (case kv of (k, v) \<Rightarrow> imIdentity v = k \<and> k = imImageRepository v @ ''@'' @ imDigest v \<and>
     (\<exists>raw. canonical_image raw = Some (imImageRepository v)) \<and> sha256_digest (imDigest v) \<and> row_ok v)"

definition well_kept :: "Collector \<Rightarrow> bool" where
  "well_kept c \<longleftrightarrow> distinct (map fst (clImages c)) \<and> list_all key_ok (clImages c)"

lemma grows_key_ok: "key_ok (k, v) \<Longrightarrow> grows v w \<Longrightarrow> key_ok (k, w)"
  by (simp add: key_ok_def grows_def)

lemma image_at_on_image: "image_at (on_image key f c) k = map_option (\<lambda>v. if k = key then f v else v) (image_at c k)"
proof -
  have "map_of (map (\<lambda>(k, v). (k, if k = key then f v else v)) vs) k =
      map_option (\<lambda>v. if k = key then f v else v) (map_of vs k)" for vs
    by (induction vs) auto
  then show ?thesis by (simp add: image_at_def on_image_def)
qed

lemma image_at_new:
  "image_at (c\<lparr>clImages := clImages c @ [(key, w)]\<rparr>) k =
     (case image_at c k of None \<Rightarrow> if k = key then Some w else None | r \<Rightarrow> r)"
  by (simp add: image_at_def map_add_def split: option.splits)

lemma collect_image: "collect c c' \<Longrightarrow> image_at c k = Some v \<Longrightarrow> \<exists>w. image_at c' k = Some w \<and> grows v w"
proof (induction rule: collect.induct)
  case (collect_other c' c)
  then show ?case by (simp add: image_at_def)
next
  case (collect_row f c key)
  have "grows v (f v)" by (rule collect_row(1))
  then show ?case using collect_row(2) by (cases "k = key") (simp_all add: image_at_on_image)
next
  case (collect_new c r d repo)
  then show ?case by (simp add: image_at_new)
qed

lemma collects_image: "collects c c' \<Longrightarrow> image_at c k = Some v \<Longrightarrow> \<exists>w. image_at c' k = Some w \<and> grows v w"
proof (induction rule: rtranclp_induct)
  case (step b c)
  then show ?case using collect_image grows_trans by metis
qed auto

lemma map_fst_on_image: "map fst (clImages (on_image key f c)) = map fst (clImages c)"
  by (simp add: on_image_def comp_def case_prod_unfold)

lemma collect_well_kept: "collect c c' \<Longrightarrow> well_kept c \<Longrightarrow> well_kept c'"
proof (induction rule: collect.induct)
  case (collect_other c' c)
  then show ?case by (simp add: well_kept_def)
next
  case (collect_row f c key)
  have "key_ok (k, if k = key then f v else v)" if "key_ok (k, v)" for k v
    using that grows_key_ok [OF that collect_row(1)] by auto
  then have "list_all key_ok (clImages (on_image key f c))"
    using collect_row(2) by (auto simp: well_kept_def on_image_def list_all_iff)
  then show ?case using collect_row(2) by (simp add: well_kept_def map_fst_on_image)
next
  case (collect_new c r d repo)
  then have "r @ ''@'' @ d \<notin> fst ` set (clImages c)" by (simp add: image_at_def map_of_eq_None_iff)
  moreover have "key_ok (r @ ''@'' @ d, new_image r d)"
    using collect_new(2,3) by (auto simp: key_ok_def new_image_def row_ok_def)
  ultimately show ?case using collect_new(4) by (simp add: well_kept_def)
qed

lemma collects_well_kept: "collects c c' \<Longrightarrow> well_kept c \<Longrightarrow> well_kept c'"
  by (induction rule: rtranclp_induct) (auto intro: collect_well_kept)

lemma collects_policies: "collects c c' \<Longrightarrow> clPolicies c' = clPolicies c"
  by (induction rule: rtranclp_induct) (auto elim!: collectE simp: on_image_def)

lemma collects_blockers: "collects c c' \<Longrightarrow> set (clBlockers c) \<subseteq> set (clBlockers c')"
  by (induction rule: rtranclp_induct) (auto elim!: collectE simp: on_image_def)

section \<open>The basic operations\<close>

lemma collects_block [collecting]: "collects a b \<Longrightarrow> collects a (block code b)"
  by (erule collects_step) (auto intro: collect_other simp: block_def)

lemma collects_row [collecting]: "(\<And>v. grows v (f v)) \<Longrightarrow> collects a b \<Longrightarrow> collects a (on_image key f b)"
  by (auto intro: collects_step collect_row)

lemma collects_observe [collecting]: "collects a b \<Longrightarrow> collects a (observe key at av b)"
  by (erule collects_step) (auto intro!: collect_other simp: observe_def split: option.splits)

lemma grows_tag [simp]: "grows v (tag_image app reason v)"
  by (auto simp: grows_def tag_image_def row_ok_def)

lemma image_key_Some: "image_key repo d = Some (key, r) \<longleftrightarrow>
    canonical_image repo = Some r \<and> sha256_digest d \<and> key = r @ ''@'' @ d"
  by (auto simp: image_key_def split: option.splits if_splits)

lemma image_None: "fst (image repo d app reason c) = None \<longleftrightarrow> image_key repo d = None"
  by (auto simp: image_def Let_def split: option.splits)

lemma collects_image_row [collecting]: "collects a b \<Longrightarrow> collects a (snd (image repo d app reason b))"
proof (cases "image_key repo d")
  case None
  assume "collects a b"
  then show ?thesis using None by (simp add: image_def collects_block)
next
  case (Some kr)
  assume ab: "collects a b"
  obtain key r where kr: "image_key repo d = Some (key, r)" using Some by (cases kr) auto
  then have k: "canonical_image repo = Some r" "sha256_digest d" "key = r @ ''@'' @ d" by (simp_all add: image_key_Some)
  have "collects a (if image_at b key = None then b\<lparr>clImages := clImages b @ [(key, new_image r d)]\<rparr> else b)"
    using ab k collects_step [OF ab collect_new] by simp
  then show ?thesis by (simp add: image_def kr Let_def collects_row)
qed

lemma collects_add [collecting]: "collects a b \<Longrightarrow> collects a (add_image repo d app reason b)"
  by (simp add: add_image_def collects_image_row)

lemma collects_fold [collecting]:
  "(\<And>y c. y \<in> set ys \<Longrightarrow> collects a c \<Longrightarrow> collects a (f y c)) \<Longrightarrow> collects a b \<Longrightarrow> collects a (fold f ys b)"
  by (induction ys arbitrary: b) auto

lemma collects_if [collecting]: "(P \<Longrightarrow> collects a b) \<Longrightarrow> (\<not> P \<Longrightarrow> collects a c) \<Longrightarrow> collects a (if P then b else c)"
  by simp

lemma collects_option [collecting]:
  "(y = None \<Longrightarrow> collects a b) \<Longrightarrow> (\<And>z. y = Some z \<Longrightarrow> collects a (f z)) \<Longrightarrow>
   collects a (case y of None \<Rightarrow> b | Some z \<Rightarrow> f z)"
  by (cases y) auto

lemma collects_pair [collecting]: "(\<And>u v. y = (u, v) \<Longrightarrow> collects a (f u v)) \<Longrightarrow> collects a (case y of (u, v) \<Rightarrow> f u v)"
  by (cases y) auto

lemma collects_pair_fun [collecting]:
  "(\<And>u v. y = (u, v) \<Longrightarrow> collects a (f u v c)) \<Longrightarrow> collects a ((case y of (u, v) \<Rightarrow> f u v) c)"
  by (cases y) auto

text \<open>What \<open>image\<close> leaves: the row, tagged with the reason.\<close>

definition guarded :: "string \<Rightarrow> string \<Rightarrow> Collector \<Rightarrow> bool" where
  "guarded key reason c \<longleftrightarrow>
     (case image_at c key of None \<Rightarrow> False | Some v \<Rightarrow> imProtected v \<and> reason \<in> set (imReasons v))"

lemma collects_guarded: "collects c c' \<Longrightarrow> guarded key reason c \<Longrightarrow> guarded key reason c'"
  using collects_image [of c c' key] by (fastforce simp: guarded_def grows_def split: option.splits)

lemma image_at_simps [simp]:
  "image_at (block code c) k = image_at c k" "image_at (observe key at av c) k = image_at c k"
  by (simp_all add: image_at_def block_def observe_def split: option.splits)

lemma collects_present: "collects c c' \<Longrightarrow> image_at c k \<noteq> None \<Longrightarrow> image_at c' k \<noteq> None"
  using collects_image by fastforce

lemma image_present:
  assumes "image_key repo d = Some (key, r)"
  shows "image_at (add_image repo d app reason c) key \<noteq> None"
  using assms by (simp add: add_image_def image_def Let_def image_at_on_image image_at_new split: option.splits)

lemma protect_guarded: "image_at c key \<noteq> None \<Longrightarrow> guarded key reason (protect key reason c)"
  by (auto simp: guarded_def protect_def image_at_on_image)

lemma image_guarded:
  assumes "image_key repo d = Some (key, r)" and "reason \<noteq> []"
  shows "guarded key reason (add_image repo d app reason c)"
proof -
  obtain c' v where c': "add_image repo d app reason c = on_image key (tag_image app reason) c'" "image_at c' key = Some v"
  proof (cases "image_at c key")
    case None
    have "image_at (c\<lparr>clImages := clImages c @ [(key, new_image r d)]\<rparr>) key = Some (new_image r d)"
      using None by (simp add: image_at_new)
    then show ?thesis using that None assms(1) by (simp add: add_image_def image_def Let_def)
  next
    case (Some v)
    then show ?thesis using that assms(1) by (simp add: add_image_def image_def Let_def)
  qed
  then show ?thesis using assms(2) by (simp add: guarded_def image_at_on_image tag_image_def)
qed

lemma fold_guard:
  assumes "y \<in> set ys" and "\<And>y c. collects c (f y c)" and "\<And>c. guarded key reason (f y c)"
  shows "guarded key reason (fold f ys b)"
proof -
  obtain us vs where ys: "ys = us @ y # vs" using assms(1) by (meson split_list)
  have "collects c (fold f vs c)" for c by (rule collects_fold) (auto intro: collects_trans assms(2))
  then have "guarded key reason (fold f vs (f y (fold f us b)))" by (rule collects_guarded) (rule assms(3))
  then show ?thesis by (simp add: ys)
qed

section \<open>The interface of the tables\<close>

locale root_source =
  fixes row :: "'a \<Rightarrow> Collector \<Rightarrow> Collector"
  assumes row_collects: "collects c (row y c)"
begin

lemma rows_collect: "collects a b \<Longrightarrow> collects a (fold row ys b)"
  by (rule collects_fold) (auto intro: collects_trans row_collects)

lemma rows_guard:
  assumes "y \<in> set ys" and "\<And>c. guarded key reason (row y c)"
  shows "guarded key reason (fold row ys b)"
  using assms(1) row_collects assms(2) by (rule fold_guard [where f = row])

end

end
