(* ===== verification/RetentionSources.thy ===== *)
theory RetentionSources
  imports RetentionSteps
begin

text \<open>
  Every operation of the evaluator is a sequence of steps of the collector. The rows of each table are
  interpreted as a \<open>root_source\<close>.
\<close>

section \<open>Artifacts\<close>

lemma grows_protect [simp, collecting]:
  "grows v (v\<lparr>imProtected := True, imReasons := imReasons v @ [reason]\<rparr>)"
  "grows v (unknown_chronology v)" "grows v (known_chronology profile at v)"
  "grows v (v\<lparr>imArtifactIDs := imArtifactIDs v @ xs\<rparr>)" "grows v (v\<lparr>imBlockers := bs\<rparr>)"
  "grows v (observed_image at av now v)"
  by (auto simp: grows_def row_ok_def unknown_chronology_def known_chronology_def observed_image_def Let_def)

lemma collects_protect [collecting]: "collects a b \<Longrightarrow> collects a (protect key reason b)"
  by (simp add: protect_def collects_row)

lemma image_split: "image repo d app reason c = (fst (image repo d app reason c), add_image repo d app reason c)"
  by (simp add: add_image_def)

lemma collects_artifact_row [collecting]: "collects a c \<Longrightarrow> collects a (snd (artifact_row x r (pubs, c)))"
  unfolding artifact_row_def
  by (subst image_split) (auto simp: Let_def split: option.splits intro!: collecting)

lemma collects_artifact_rows: "collects a (snd pc) \<Longrightarrow> collects a (snd (fold (artifact_row x) as pc))"
proof (induction as arbitrary: pc)
  case (Cons r as)
  then show ?case using collects_artifact_row [of a "snd pc" x r "fst pc"] by simp
qed simp

lemma collects_artifacts [collecting]: "collects a c \<Longrightarrow> collects a (artifacts x c)"
  unfolding artifacts_def artifact_rows_def
  using collects_artifact_rows [of a "([], c)"]
  by (cases "fold (artifact_row x) (stDeliveryArtifacts (rxState x)) ([], c)")
    (auto intro!: collecting, metis snd_conv)

section \<open>References\<close>

lemma collects_bare_digest [collecting]: "collects a c \<Longrightarrow> collects a (bare_digest x value app reason c)"
  unfolding bare_digest_def Let_def by (intro collecting)

lemma collects_ref [collecting]: "collects a c \<Longrightarrow> collects a (ref x raw hint app reason c)"
  unfolding ref_def Let_def by (intro collecting)

lemma collects_snapshot [collecting]: "collects a c \<Longrightarrow> collects a (snapshot x s digest reason c)"
  unfolding snapshot_def Let_def by (intro collecting)

lemma collects_snapshots [collecting]: "collects a c \<Longrightarrow> collects a (snapshots x sds reason c)"
  unfolding snapshots_def by (intro collecting)

section \<open>Operations and workers\<close>

lemma collects_prepared [collecting]: "collects a c \<Longrightarrow> collects a (prepared x reason s c)"
  unfolding prepared_def Let_def by (intro collecting)

lemma collects_child_roots [collecting]: "collects a c \<Longrightarrow> collects a (child_roots x reason i c)"
  unfolding child_roots_def by (intro collecting)

lemma collects_operation [collecting]: "collects a c \<Longrightarrow> collects a (operation x o' reason c)"
  unfolding operation_def Let_def by (intro collecting)

lemma collects_operation_row [collecting]: "collects a c \<Longrightarrow> collects a (operation_row x o' c)"
  unfolding operation_row_def Let_def by (intro collecting)

lemma collects_publication_intent [collecting]: "collects a c \<Longrightarrow> collects a (publication_intent x j p c)"
  unfolding publication_intent_def Let_def by (intro collecting)

lemma collects_build_receipt_roots [collecting]: "collects a c \<Longrightarrow> collects a (build_receipt_roots x j r c)"
  unfolding build_receipt_roots_def Let_def by (intro collecting)

lemma collects_worker_row [collecting]: "collects a c \<Longrightarrow> collects a (worker_row x j c)"
  unfolding worker_row_def Let_def by (intro collecting)

interpretation operation_source: root_source "operation_row x" for x
  by unfold_locales (intro collecting)

interpretation worker_source: root_source "worker_row x" for x
  by unfold_locales (intro collecting)

lemma collects_operations [collecting]: "collects a c \<Longrightarrow> collects a (operations x c)"
  unfolding operations_def by (intro operation_source.rows_collect worker_source.rows_collect)

section \<open>Environments\<close>

lemma collects_composition [collecting]: "collects a c \<Longrightarrow> collects a (composition x co c)"
  unfolding composition_def composition_part_def Let_def by (intro collecting)

lemma collects_environment_map [collecting]: "collects a c \<Longrightarrow> collects a (environment_map x m reason c)"
  unfolding environment_map_def map_refs_def Let_def
  by (intro collecting) (auto split: json.splits intro!: collecting)

lemma collects_environment_row [collecting]: "collects a c \<Longrightarrow> collects a (environment_row x e c)"
  unfolding environment_row_def desired_composition_def desired_operation_def Let_def comp_def
  by (intro collecting)

lemma collects_flux_row [collecting]: "collects a c \<Longrightarrow> collects a (flux_row x r c)"
  unfolding flux_row_def Let_def by (intro collecting)

lemma collects_runtime_row [collecting]: "collects a c \<Longrightarrow> collects a (runtime_row x r c)"
  unfolding runtime_row_def Let_def by (intro collecting)

lemma collects_attestation_row [collecting]: "collects a c \<Longrightarrow> collects a (attestation_row x r c)"
  unfolding attestation_row_def Let_def by (intro collecting)

interpretation environment_source: root_source "environment_row x" for x
  by unfold_locales (intro collecting)

interpretation runtime_source: root_source "runtime_row x" for x
  by unfold_locales (intro collecting)

interpretation attestation_source: root_source "attestation_row x" for x
  by unfold_locales (intro collecting)

lemma collects_environments [collecting]: "collects a c \<Longrightarrow> collects a (environments x c)"
  unfolding environments_def
  by (intro environment_source.rows_collect runtime_source.rows_collect attestation_source.rows_collect)

section \<open>Releases, pins and the other roots\<close>

lemma collects_unproven_release [collecting]: "collects a c \<Longrightarrow> collects a (unproven_release x r c)"
  unfolding unproven_release_def Let_def by (intro collecting)

lemma collects_release_group [collecting]: "collects a c \<Longrightarrow> collects a (release_group x rs c)"
  unfolding release_group_def by (intro collecting)

interpretation release_source: root_source "\<lambda>s. release_group x (filter (\<lambda>r. rrScope r = s) rs)" for x rs
  by unfold_locales (intro collecting)

lemma collects_releases [collecting]: "collects a c \<Longrightarrow> collects a (releases x c)"
  unfolding releases_def Let_def by (intro release_source.rows_collect) (auto intro!: collecting)

lemma collects_root_step [collecting]:
  assumes "collects a c"
  shows "collects a (root_step r c)"
proof (cases r)
  case (RootImage repo d app reason bs)
  obtain k c' where i: "image repo d app reason c = (k, c')" by (cases "image repo d app reason c")
  then have "collects a c'" using collects_image_row [OF assms, of repo d app reason] by simp
  then show ?thesis by (cases k) (simp_all add: root_step_def RootImage i collects_row)
next
  case (RootBlock code)
  then show ?thesis using assms by (simp add: root_step_def collects_block)
qed

lemma collects_pin_root [collecting]: "collects a c \<Longrightarrow> collects a (pin_root x p c)"
  unfolding pin_root_def by (intro collecting)

interpretation other_source: root_source root_step
  by unfold_locales (intro collecting)

interpretation pin_source: root_source "pin_root x" for x
  by unfold_locales (intro collecting)

lemma collects_image_blocked [collecting]: "collects a c \<Longrightarrow> collects a (image_blocked key code c)"
  unfolding image_blocked_def by (intro collecting) simp

lemma collects_judge_image [collecting]: "collects a c \<Longrightarrow> collects a (judge_image x key c)"
  unfolding judge_image_def Let_def by (intro collecting)

interpretation judgement_source: root_source "judge_image x" for x
  by unfold_locales (intro collecting)

lemma collects_quarantines [collecting]: "collects a c \<Longrightarrow> collects a (quarantines x c)"
  unfolding quarantines_def by (rule collects_fold) (auto intro: collecting)

section \<open>The evaluation\<close>

lemma collects_baseline_roots [collecting]: "collects a c \<Longrightarrow> collects a (baseline_roots x c)"
  unfolding baseline_roots_def by (rule other_source.rows_collect)

lemma collects_restoration_roots [collecting]: "collects a c \<Longrightarrow> collects a (restoration_roots x c)"
  unfolding restoration_roots_def by (rule other_source.rows_collect)

lemma collects_pin_roots [collecting]: "collects a c \<Longrightarrow> collects a (pin_roots x c)"
  unfolding pin_roots_def by (rule pin_source.rows_collect)

lemma collects_judge_images [collecting]: "collects a c \<Longrightarrow> collects a (judge_images x c)"
  unfolding judge_images_def by (rule judgement_source.rows_collect)

definition first_collector :: "RetentionCtx \<Rightarrow> Collector" where
  "first_collector x = empty_collector\<lparr>clPolicies := effective_policies x\<rparr>"

lemma collects_evaluate: "collects (first_collector x) (evaluate x)"
  unfolding evaluate_def comp_def first_collector_def by (intro collecting)

lemma first_well_kept: "well_kept (first_collector x)"
  by (simp add: first_collector_def empty_collector_def well_kept_def)

lemma evaluate_policies: "clPolicies (evaluate x) = effective_policies x"
  using collects_policies [OF collects_evaluate] by (simp add: first_collector_def)

section \<open>Other products\<close>

lemma share_image_collects: "share_image repos kf c = Inr c' \<Longrightarrow> collects c c'"
proof -
  assume s: "share_image repos kf c = Inr c'"
  obtain key f where kf: "kf = (key, f)" by (cases kf)
  obtain k d where i: "image (imImageRepository f) (imDigest f) [] ''shared_product_root'' c = (k, d)"
    by (cases "image (imImageRepository f) (imDigest f) [] ''shared_product_root'' c")
  then have "collects c d"
    using collects_image_row [OF collects_refl, of c "imImageRepository f" "imDigest f" "[]" "''shared_product_root''"] by simp
  then show "collects c c'" using s i
    by (auto simp: share_image_def kf collects_protect collects_image_blocked split: if_splits option.splits)
qed

lemma fold_result_collects:
  assumes "\<And>y c c'. f y c = Inr c' \<Longrightarrow> collects c c'"
  shows "fold_result f ys c = Inr c' \<Longrightarrow> collects c c'"
proof (induction ys arbitrary: c)
  case (Cons y ys)
  then obtain d where d: "f y c = Inr d" "fold_result f ys d = Inr c'" by (auto split: sum.splits)
  then show ?case using assms Cons.IH collects_trans by blast
qed simp

lemma share_product_collects: "share_product x other c = Inr c' \<Longrightarrow> collects c c'"
  unfolding share_product_def by (rule fold_result_collects [OF share_image_collects])

lemma collected_collects: "collected x = Inr c \<Longrightarrow> collects (evaluate x) c"
  unfolding collected_def by (rule fold_result_collects [OF share_product_collects])

lemma collected_well_kept: "collected x = Inr c \<Longrightarrow> well_kept c"
  using collected_collects collects_evaluate first_well_kept collects_well_kept by blast

end
