(* ===== verification/RetentionRanks.thy ===== *)
theory RetentionRanks
  imports RetentionSources
begin

text \<open>
  Which publications and releases the evaluator keeps: the rows it ranks, their order, and the image each
  kept row protects. \<open>kept_rank\<close> and \<open>exact_rank\<close> turn a count of newer rows into a place in the order.
\<close>

section \<open>Orders by two keys\<close>

lemma sort_key_twice:
  "sorted_wrt (\<lambda>p q. f p < f q \<or> f p = f q \<and> g p \<le> g q) (sort_key f (sort_key g xs))"
proof -
  define ys where "ys = sort_key f (sort_key g xs)"
  have "f (ys ! i) < f (ys ! j) \<or> f (ys ! i) = f (ys ! j) \<and> g (ys ! i) \<le> g (ys ! j)"
    if ij: "i < j" "j < length ys" for i j
  proof (cases "f (ys ! i) = f (ys ! j)")
    case False
    have "sorted (map f ys)" by (simp add: ys_def)
    then have "f (ys ! i) \<le> f (ys ! j)" using ij sorted_nth_mono [of "map f ys" i j] by simp
    then show ?thesis using False by simp
  next
    case True
    define k where "k = f (ys ! i)"
    have "filter (\<lambda>y. f y = k) ys = filter (\<lambda>y. f y = k) (sort_key g xs)" by (simp add: ys_def sort_key_stable)
    then have s: "sorted (map g (filter (\<lambda>y. f y = k) ys))" by (simp add: sorted_filter)
    have "ys = take i ys @ ys ! i # drop (Suc i) ys" using ij by (simp add: id_take_nth_drop)
    then have "filter (\<lambda>y. f y = k) ys =
        filter (\<lambda>y. f y = k) (take i ys) @ ys ! i # filter (\<lambda>y. f y = k) (drop (Suc i) ys)"
      using k_def by (metis (mono_tags, lifting) filter.simps(2) filter_append)
    then have "\<forall>y\<in>set (filter (\<lambda>y. f y = k) (drop (Suc i) ys)). g (ys ! i) \<le> g y" using s by (simp add: sorted_append)
    moreover have "drop (Suc i) ys ! (j - Suc i) = ys ! j" "j - Suc i < length (drop (Suc i) ys)" using ij by simp_all
    then have "ys ! j \<in> set (drop (Suc i) ys)" by (metis nth_mem)
    ultimately show ?thesis using True k_def by simp
  qed
  then show ?thesis unfolding ys_def [symmetric] by (simp add: sorted_wrt_iff_nth_less)
qed

text \<open>In a list ordered by \<open>R\<close> without repetitions, what stands before a row is newer.\<close>

lemma kept_rank:
  assumes "sorted_wrt R xs" and "p \<in> set xs" and "distinct xs"
    and "\<And>q. q \<in> set xs \<Longrightarrow> q \<noteq> p \<Longrightarrow> R q p \<Longrightarrow> N q"
    and "length (filter N xs) < n"
  shows "p \<in> set (take n xs)"
proof -
  obtain us vs where xs: "xs = us @ p # vs" using assms(2) by (meson split_list)
  have "N q" if "q \<in> set us" for q
    using that assms(1,3,4) by (auto simp: xs sorted_wrt_append)
  then have "length us \<le> length (filter N xs)" by (simp add: xs filter_True)
  then have "length us < n" using assms(5) by simp
  then show ?thesis by (cases "n - length us") (simp_all add: xs)
qed

text \<open>A row stands exactly where the count of newer rows says.\<close>

lemma exact_rank:
  assumes "sorted_wrt R xs" and "p \<in> set xs" and "distinct xs"
    and "\<And>q. q \<in> set xs \<Longrightarrow> q \<noteq> p \<Longrightarrow> R q p \<Longrightarrow> N q" and "\<And>q. q \<in> set xs \<Longrightarrow> q = p \<or> R p q \<Longrightarrow> \<not> N q"
  shows "length (filter N xs) < length xs \<and> xs ! length (filter N xs) = p"
proof -
  obtain us vs where xs: "xs = us @ p # vs" using assms(2) by (meson split_list)
  have "N q" if "q \<in> set us" for q using that assms(1,3,4) by (auto simp: xs sorted_wrt_append)
  moreover have "\<not> N q" if "q \<in> set (p # vs)" for q using that assms(1,5) by (auto simp: xs sorted_wrt_append)
  ultimately have "length (filter N xs) = length us" by (simp add: xs filter_True filter_False)
  then show ?thesis by (simp add: xs)
qed

section \<open>Publications\<close>

definition same_publication :: "publication \<Rightarrow> publication \<Rightarrow> bool" where
  "same_publication p q \<longleftrightarrow> pbApp q = pbApp p \<and> pbProfile q = pbProfile p \<and> pbImage q = pbImage p"

definition publication_of :: "RetentionCtx \<Rightarrow> DeliveryArtifact \<Rightarrow> publication option" where
  "publication_of x a =
     (if mProductID (daMeta a) \<noteq> rxProduct x then None
      else case image_key (artifact_repo x a) (daDigest a) of
        None \<Rightarrow> None
      | Some (key, r) \<Rightarrow> map_option (\<lambda>(profile, at).
          \<lparr>pbImage = key, pbApp = daApplicationID a, pbProfile = profile, pbAt = at\<rparr>) (chronology x a))"

definition publications :: "RetentionCtx \<Rightarrow> publication list" where
  "publications x = fold add_publication (List.map_filter (publication_of x) (stDeliveryArtifacts (rxState x))) []"

lemma artifact_row_publications:
  "fst (artifact_row x a (pubs, c)) = (case publication_of x a of None \<Rightarrow> pubs | Some p \<Rightarrow> add_publication p pubs)"
  by (auto simp: artifact_row_def publication_of_def image_def Let_def split: option.splits prod.splits)

lemma fold_artifact_rows:
  "fst (fold (artifact_row x) as pc) = fold add_publication (List.map_filter (publication_of x) as) (fst pc)"
proof (induction as arbitrary: pc)
  case (Cons a as)
  show ?case using Cons [of "artifact_row x a pc"] artifact_row_publications [of x a "fst pc" "snd pc"]
    by (simp add: map_filter_simps split: option.splits)
qed (simp add: map_filter_simps)

lemma artifact_rows_publications: "fst (artifact_rows x c) = publications x"
  by (simp add: artifact_rows_def publications_def fold_artifact_rows)

lemma add_publication_set: "set (add_publication p qs) \<subseteq> insert p (set qs)"
  by (induction qs) auto

lemma add_publication_new: "\<exists>q\<in>set (add_publication p qs). same_publication p q \<and> pbAt q \<le> pbAt p"
  by (induction qs) (auto simp: same_publication_def)

lemma add_publication_keeps:
  "r \<in> set qs \<Longrightarrow> \<exists>q\<in>set (add_publication p qs). same_publication r q \<and> pbAt q \<le> pbAt r"
  by (induction qs) (auto simp: same_publication_def)

definition publication_key :: "publication \<Rightarrow> string \<times> string \<times> string" where
  "publication_key p = (pbApp p, pbProfile p, pbImage p)"

lemma add_publication_keys: "set (map publication_key (add_publication p qs)) = insert (publication_key p) (set (map publication_key qs))"
  by (induction qs) (auto simp: publication_key_def)

lemma add_publication_distinct:
  "distinct (map publication_key qs) \<Longrightarrow> distinct (map publication_key (add_publication p qs))"
proof (induction qs)
  case (Cons q qs)
  then show ?case using add_publication_keys [of p qs] by (auto simp: publication_key_def)
qed simp

lemma publications_distinct: "distinct (map publication_key (publications x))"
proof -
  have "distinct (map publication_key qs) \<Longrightarrow> distinct (map publication_key (fold add_publication ps qs))" for ps qs
    by (induction ps arbitrary: qs) (auto simp: add_publication_distinct)
  then show ?thesis by (simp add: publications_def)
qed

text \<open>Every artifact with a known publication has a row, at its own time or an earlier one.\<close>

lemma publications_complete:
  assumes "a \<in> set (stDeliveryArtifacts (rxState x))" and "publication_of x a = Some p"
  shows "\<exists>q\<in>set (publications x). same_publication p q \<and> pbAt q \<le> pbAt p"
proof -
  have keep: "\<exists>q\<in>set qs. same_publication p q \<and> pbAt q \<le> pbAt p \<Longrightarrow>
      \<exists>q\<in>set (fold add_publication ps qs). same_publication p q \<and> pbAt q \<le> pbAt p" for ps qs
  proof (induction ps arbitrary: qs)
    case (Cons r ps)
    then obtain q where q: "q \<in> set qs" "same_publication p q" "pbAt q \<le> pbAt p" by blast
    obtain s where "s \<in> set (add_publication r qs)" "same_publication q s" "pbAt s \<le> pbAt q"
      using add_publication_keeps [OF q(1), of r] by blast
    then show ?case using q Cons.IH [of "add_publication r qs"] by (fastforce simp: same_publication_def)
  qed simp
  have "p \<in> set ps \<Longrightarrow> \<exists>q\<in>set (fold add_publication ps qs). same_publication p q \<and> pbAt q \<le> pbAt p" for ps qs
  proof (induction ps arbitrary: qs)
    case (Cons r ps)
    then show ?case using keep [OF add_publication_new [of p qs], of ps] by auto
  qed simp
  moreover have "p \<in> set (List.map_filter (publication_of x) (stDeliveryArtifacts (rxState x)))"
    using assms by (force simp: map_filter_def)
  ultimately show ?thesis by (simp add: publications_def)
qed

definition newer_publication :: "publication \<Rightarrow> publication \<Rightarrow> bool" where
  "newer_publication p q \<longleftrightarrow> pbApp q = pbApp p \<and> pbProfile q = pbProfile p \<and>
     (pbAt p < pbAt q \<or> pbAt q = pbAt p \<and> pbImage q < pbImage p)"

lemma kept_publication:
  assumes "distinct (map publication_key pubs)" and "p \<in> set pubs"
    and "length (filter (newer_publication p) pubs) < nat (keep_of ps (pbApp p))"
  shows "p \<in> set (kept ps pubs (pbApp p, pbProfile p))"
proof -
  let ?G = "filter (\<lambda>q. pbApp q = pbApp p \<and> pbProfile q = pbProfile p) pubs"
  have d: "distinct ?G" using assms(1) by (simp add: distinct_map)
  have "p \<in> set (take (nat (keep_of ps (pbApp p))) (newest_first ?G))"
  proof (rule kept_rank)
    show "sorted_wrt (\<lambda>p q. - pbAt p < - pbAt q \<or> - pbAt p = - pbAt q \<and> pbImage p \<le> pbImage q) (newest_first ?G)"
      unfolding newest_first_def by (rule sort_key_twice)
    show "p \<in> set (newest_first ?G)" using assms(2) by (simp add: newest_first_def)
    show "distinct (newest_first ?G)" using d by (simp add: newest_first_def)
    fix q assume q: "q \<in> set (newest_first ?G)" "q \<noteq> p" "- pbAt q < - pbAt p \<or> - pbAt q = - pbAt p \<and> pbImage q \<le> pbImage p"
    have "q \<in> set pubs" "pbApp q = pbApp p" "pbProfile q = pbProfile p" using q(1) by (simp_all add: newest_first_def)
    then have "pbImage q \<noteq> pbImage p" using q(2) assms(1,2) by (auto simp: distinct_map publication_key_def inj_on_def)
    then show "newer_publication p q" using q by (auto simp: newer_publication_def newest_first_def)
  next
    have g: "distinct (newest_first ?G)" "set (newest_first ?G) = set ?G" using d by (simp_all add: newest_first_def)
    have "length (filter (newer_publication p) (newest_first ?G)) = length (filter (newer_publication p) ?G)"
      unfolding distinct_length_filter [OF d] distinct_length_filter [OF g(1)] g(2) ..
    also have "filter (newer_publication p) ?G = filter (newer_publication p) pubs"
      unfolding filter_filter by (rule filter_cong) (auto simp: newer_publication_def)
    finally show "length (filter (newer_publication p) (newest_first ?G)) < nat (keep_of ps (pbApp p))"
      using assms(3) by simp
  qed
  then show ?thesis by (simp add: kept_def)
qed

section \<open>The images of the rows\<close>

lemma artifacts_after_rows: "collects (snd (artifact_rows x c)) (artifacts x c)"
proof -
  obtain pubs d where "artifact_rows x c = (pubs, d)" by (cases "artifact_rows x c")
  then show ?thesis by (simp add: artifacts_def) (intro collecting)
qed

lemma artifact_row_image:
  assumes "p \<in> set (fst (artifact_row x a (pubs, c)))" and "p \<notin> set pubs"
  shows "image_at (snd (artifact_row x a (pubs, c))) (pbImage p) \<noteq> None"
proof -
  obtain q where q: "publication_of x a = Some q" "p = q"
    using assms add_publication_set by (auto simp: artifact_row_publications split: option.splits)
  then obtain key r profile at where k: "mProductID (daMeta a) = rxProduct x" "image_key (artifact_repo x a) (daDigest a) = Some (key, r)"
    "chronology x a = Some (profile, at)" "pbImage p = key"
    by (auto simp: publication_of_def split: if_splits option.splits)
  have i: "image (artifact_repo x a) (daDigest a) (daApplicationID a) [] c =
      (Some key, add_image (artifact_repo x a) (daDigest a) (daApplicationID a) [] c)"
    using k(2) by (simp add: image_def add_image_def Let_def)
  show ?thesis using k image_present [OF k(2), of "daApplicationID a" "[]" c]
    by (simp add: artifact_row_def i Let_def image_at_on_image)
qed

lemma artifact_row_images:
  assumes "\<And>p. p \<in> set (fst pc) \<Longrightarrow> image_at (snd pc) (pbImage p) \<noteq> None"
    and "p \<in> set (fst (artifact_row x a pc))"
  shows "image_at (snd (artifact_row x a pc)) (pbImage p) \<noteq> None"
proof (cases "p \<in> set (fst pc)")
  case True
  then show ?thesis
    using assms(1) collects_present [OF collects_artifact_row [OF collects_refl], of "snd pc" _ x a "fst pc"] by simp
next
  case False
  then show ?thesis using artifact_row_image [of p x a "fst pc" "snd pc"] assms(2) by simp
qed

lemma publication_image: "p \<in> set (publications x) \<Longrightarrow> image_at (snd (artifact_rows x c)) (pbImage p) \<noteq> None"
proof -
  have "(\<And>p. p \<in> set (fst pc) \<Longrightarrow> image_at (snd pc) (pbImage p) \<noteq> None) \<Longrightarrow>
      p \<in> set (fst (fold (artifact_row x) as pc)) \<Longrightarrow> image_at (snd (fold (artifact_row x) as pc)) (pbImage p) \<noteq> None" for as pc p
  proof (induction as arbitrary: pc)
    case (Cons a as)
    show ?case using Cons.IH [OF artifact_row_images [OF Cons.prems(1)]] Cons.prems(2) by simp
  qed simp
  then show "p \<in> set (publications x) \<Longrightarrow> ?thesis"
    using artifact_rows_publications [of x c] by (force simp: artifact_rows_def)
qed

lemma fold_protects:
  assumes "p \<in> set ps" and "image_at c (k p) \<noteq> None"
  shows "guarded (k p) (f p) (fold (\<lambda>p. protect (k p) (f p)) ps c)"
proof -
  obtain us vs where ps: "ps = us @ p # vs" using assms(1) by (meson split_list)
  define d where "d = fold (\<lambda>p. protect (k p) (f p)) us c"
  have "collects c d" unfolding d_def by (intro collecting)
  then have "guarded (k p) (f p) (protect (k p) (f p) d)" using assms(2) collects_present protect_guarded by blast
  moreover have "collects (protect (k p) (f p) d) (fold (\<lambda>p. protect (k p) (f p)) vs (protect (k p) (f p) d))"
    by (intro collecting)
  ultimately have "guarded (k p) (f p) (fold (\<lambda>p. protect (k p) (f p)) vs (protect (k p) (f p) d))"
    using collects_guarded by blast
  then show ?thesis by (simp add: ps d_def)
qed

end
