(* ===== verification/RegistryClosures.thy ===== *)
theory RegistryClosures
  imports RegistryRetention
begin

text \<open>
  The protected objects of a report are the closure of its protected images over the union of the
  admitted graphs, and a summary is current exactly when nothing is missing, old or in doubt.
\<close>

section \<open>Association lists that are built by updates\<close>

lemma update_values: "snd ` set (AList.update k v xs) \<subseteq> insert v (snd ` set xs)"
  by (induction xs) auto

lemma update_keys_set: "fst ` set (AList.update k v xs) = insert k (fst ` set xs)"
  by (induction xs) auto

lemma update_keyed: "\<forall>(j, e)\<in>set xs. j = k e \<Longrightarrow> \<forall>(j, e)\<in>set (AList.update (k y) y xs). j = k e"
  by (induction xs) auto

lemma fold_update_values: "snd ` set (fold (\<lambda>e. AList.update (k e) e) es xs) \<subseteq> set es \<union> snd ` set xs"
proof (induction es arbitrary: xs)
  case (Cons e es)
  then show ?case using Cons [of "AList.update (k e) e xs"] update_values [of "k e" e xs]
    by (simp only: fold.simps comp_def list.set) blast
qed simp

lemma fold_update_keys: "fst ` set (fold (\<lambda>e. AList.update (k e) e) es xs) = k ` set es \<union> fst ` set xs"
proof (induction es arbitrary: xs)
  case (Cons e es)
  show ?case using Cons [of "AList.update (k e) e xs"] update_keys_set [of "k e" e xs] by simp
qed simp

lemma fold_update_keyed:
  "\<forall>(j, e)\<in>set xs. j = k e \<Longrightarrow> \<forall>(j, e)\<in>set (fold (\<lambda>e. AList.update (k e) e) es xs). j = k e"
proof (induction es arbitrary: xs)
  case (Cons e es)
  show ?case using Cons.IH [OF update_keyed [OF Cons.prems]] by simp
qed simp

text \<open>Every entry has its key, so what the key determines is not lost.\<close>

lemma fold_update_images:
  assumes "\<And>d e. d \<in> set es \<Longrightarrow> e \<in> set es \<Longrightarrow> k d = k e \<Longrightarrow> f d = f e"
  shows "f ` snd ` set (fold (\<lambda>e. AList.update (k e) e) es []) = f ` set es"
proof (intro equalityI subsetI)
  let ?r = "fold (\<lambda>e. AList.update (k e) e) es []"
  have v: "snd ` set ?r \<subseteq> set es" using fold_update_values [of k es "[]"] by simp
  then show "y \<in> f ` set es" if "y \<in> f ` snd ` set ?r" for y using that by blast
  fix y assume "y \<in> f ` set es"
  then obtain d where d: "d \<in> set es" "y = f d" by blast
  then have "k d \<in> fst ` set ?r" using fold_update_keys [of k es "[]"] by simp
  then obtain e where e: "(k d, e) \<in> set ?r" by auto
  then have "k e = k d" using fold_update_keyed [of "[]" k es] by auto
  moreover have "e \<in> set es" using v e by force
  ultimately have "f e = f d" using assms d by blast
  moreover have "f e \<in> f ` snd ` set ?r" using imageI [OF imageI [OF e, of snd], of f] by simp
  ultimately show "y \<in> f ` snd ` set ?r" using d(2) by simp
qed

section \<open>The union of the admitted graphs\<close>

definition sound_edges :: "RegistryInventory \<Rightarrow> bool" where
  "sound_edges v \<longleftrightarrow> CHR 0x00 \<notin> set (rscImageRepository (wrrScope (riReport v))) \<and>
     list_all (\<lambda>e. sha256_digest (reFrom e) \<and> sha256_digest (reTo e)) (rgEdges (wrrGraph (riReport v)))"

text \<open>The edges that any admitted inventory ever showed in a repository.\<close>

definition ever_linked :: "State \<Rightarrow> string \<Rightarrow> (string \<times> string) set" where
  "ever_linked st repo = set (concat (map (\<lambda>v. graph_arcs (wrrGraph (riReport v)))
     (filter (\<lambda>v. rscImageRepository (wrrScope (riReport v)) = repo) (stRegistryInventories st))))"

lemma split_at_unique: "c \<notin> set a \<Longrightarrow> c \<notin> set b \<Longrightarrow> a @ c # s = b @ c # t \<Longrightarrow> a = b \<and> s = t"
  by (induction a arbitrary: b) (auto simp: Cons_eq_append_conv)

lemma digest_no_nul: "sha256_digest d \<Longrightarrow> CHR 0x00 \<notin> set d"
proof
  assume d: "sha256_digest d" "CHR 0x00 \<in> set d"
  have t: "take 7 d = ''sha256:''" using d(1) by (simp add: sha256_digest_def has_prefix_def numeral_eq_Suc)
  have "CHR 0x00 \<in> set (take 7 d @ drop 7 d)" using d(2) by simp
  then have "CHR 0x00 \<in> set (drop 7 d)" unfolding set_append t by simp
  then have "CHR 0x00 \<in> set hex_lower" using d(1) unfolding sha256_digest_def list_all_iff by blast
  then show False by (simp add: hex_lower_def)
qed

lemma edge_key_ends:
  assumes "protected_edge_key g d = protected_edge_key g e" and "CHR 0x00 \<notin> set (rpeImageRepository d)"
    and "CHR 0x00 \<notin> set (rpeImageRepository e)" and "sha256_digest (reFrom (rpeRegistryEdge d))"
    and "sha256_digest (reFrom (rpeRegistryEdge e))" and "sha256_digest (reTo (rpeRegistryEdge d))"
    and "sha256_digest (reTo (rpeRegistryEdge e))"
  shows "rpeImageRepository d = rpeImageRepository e \<and> reFrom (rpeRegistryEdge d) = reFrom (rpeRegistryEdge e) \<and>
    reTo (rpeRegistryEdge d) = reTo (rpeRegistryEdge e)"
proof -
  have "rpeImageRepository d @ CHR 0x00 # edge_key g (rpeRegistryEdge d) =
      rpeImageRepository e @ CHR 0x00 # edge_key g (rpeRegistryEdge e)"
    using assms(1) by (simp add: protected_edge_key_def)
  note 1 = split_at_unique [OF assms(2,3) this]
  have k: "reFrom (rpeRegistryEdge d) @ CHR 0x00 # (reTo (rpeRegistryEdge d) @ CHR 0x00 # (reKind (rpeRegistryEdge d) @ CHR 0x00 # gePlatformHash g (rePlatform (rpeRegistryEdge d)))) =
      reFrom (rpeRegistryEdge e) @ CHR 0x00 # (reTo (rpeRegistryEdge e) @ CHR 0x00 # (reKind (rpeRegistryEdge e) @ CHR 0x00 # gePlatformHash g (rePlatform (rpeRegistryEdge e))))"
    using 1 by (simp add: edge_key_def)
  note 2 = split_at_unique [OF digest_no_nul [OF assms(4)] digest_no_nul [OF assms(5)] k]
  note 3 = split_at_unique [OF digest_no_nul [OF assms(6)] digest_no_nul [OF assms(7)] conjunct2 [OF 2]]
  show ?thesis using 1 2 3 by blast
qed

definition edge_ends :: "RegistryProtectedEdge \<Rightarrow> string \<times> string \<times> string" where
  "edge_ends e = (rpeImageRepository e, reFrom (rpeRegistryEdge e), reTo (rpeRegistryEdge e))"

lemma historical_ends:
  assumes "list_all sound_edges vs"
  shows "edge_ends ` snd ` set (historical_edges g vs) = edge_ends ` set (concat (map inventory_edges vs))"
  unfolding historical_edges_def
proof (rule fold_update_images)
  fix d e assume m: "d \<in> set (concat (map inventory_edges vs))" "e \<in> set (concat (map inventory_edges vs))"
    and k: "protected_edge_key g d = protected_edge_key g e"
  have "CHR 0x00 \<notin> set (rpeImageRepository d) \<and> sha256_digest (reFrom (rpeRegistryEdge d)) \<and> sha256_digest (reTo (rpeRegistryEdge d))"
    if "d \<in> set (concat (map inventory_edges vs))" for d
    using that assms by (auto simp: inventory_edges_def list_all_iff sound_edges_def)
  then show "edge_ends d = edge_ends e" using edge_key_ends [OF k] m by (simp add: edge_ends_def)
qed

lemma repo_arcs_set: "set (repo_arcs es repo) = {(a, b). (repo, a, b) \<in> edge_ends ` snd ` set es}"
  by (force simp: repo_arcs_def edge_ends_def)

lemma repo_arcs_linked:
  assumes "list_all sound_edges (stRegistryInventories st)" and "repo \<in> set repos"
  shows "set (repo_arcs (historical_edges g (scoped_inventories repos st)) repo) = ever_linked st repo"
proof -
  have "list_all sound_edges (scoped_inventories repos st)" using assms(1) by (simp add: scoped_inventories_def list_all_iff)
  then have "set (repo_arcs (historical_edges g (scoped_inventories repos st)) repo) =
      {(a, b). (repo, a, b) \<in> edge_ends ` set (concat (map inventory_edges (scoped_inventories repos st)))}"
    by (simp only: repo_arcs_set historical_ends)
  also have "\<dots> = ever_linked st repo"
    using assms(2) by (force simp: ever_linked_def scoped_inventories_def inventory_edges_def edge_ends_def graph_arcs_def)
  finally show ?thesis .
qed

section \<open>The objects visited\<close>

definition object_pairs :: "(string \<times> RegistryProtectedObject) list \<Rightarrow> (string \<times> string) set" where
  "object_pairs obs = (\<lambda>(k, ob). (rpoImageRepository ob, rpoDigest ob)) ` set obs"

definition object_ok :: "string \<times> RegistryProtectedObject \<Rightarrow> bool" where
  "object_ok kob \<longleftrightarrow> (case kob of (k, ob) \<Rightarrow> k = object_key (rpoImageRepository ob) (rpoDigest ob) \<and>
     CHR ''@'' \<notin> set (rpoImageRepository ob) \<and> rpoProtected ob)"

lemma new_object_names [simp]:
  "rpoImageRepository (new_object ns degraded repo d) = repo" "rpoDigest (new_object ns degraded repo d) = d"
  "rpoProtected (new_object ns degraded repo d)"
  by (simp_all add: new_object_def Let_def split: option.splits)

lemma object_key_unique:
  "CHR ''@'' \<notin> set r \<Longrightarrow> CHR ''@'' \<notin> set r' \<Longrightarrow> object_key r d = object_key r' d' \<Longrightarrow> r = r' \<and> d = d'"
  using split_at_unique [of "CHR ''@''" r r' d d'] by (simp add: object_key_def)

lemma update_pairs:
  assumes "list_all object_ok obs" and "object_ok (k, ob)"
  shows "list_all object_ok (AList.update k ob obs) \<and>
    object_pairs (AList.update k ob obs) = insert (rpoImageRepository ob, rpoDigest ob) (object_pairs obs)"
  using assms
proof (induction obs)
  case (Cons p obs)
  obtain j o' where p: "p = (j, o')" by (cases p)
  show ?case
  proof (cases "j = k")
    case True
    then have "rpoImageRepository o' = rpoImageRepository ob \<and> rpoDigest o' = rpoDigest ob"
      using Cons.prems object_key_unique by (auto simp: p object_ok_def)
    then show ?thesis using Cons.prems True by (simp add: p object_pairs_def)
  next
    case False
    then show ?thesis using Cons by (auto simp: p object_pairs_def)
  qed
qed (simp_all add: object_pairs_def)

lemma visit_pairs:
  assumes "list_all object_ok obs" and "CHR ''@'' \<notin> set (imImageRepository v)"
  shows "list_all object_ok (visit_object ns degraded v d obs) \<and>
    object_pairs (visit_object ns degraded v d obs) = insert (imImageRepository v, d) (object_pairs obs)"
proof -
  define ob where "ob = (case map_of obs (object_key (imImageRepository v) d) of Some ob \<Rightarrow> ob
    | None \<Rightarrow> new_object ns degraded (imImageRepository v) d)"
  have "rpoImageRepository ob = imImageRepository v \<and> rpoDigest ob = d \<and> rpoProtected ob"
  proof (cases "map_of obs (object_key (imImageRepository v) d)")
    case (Some w)
    then have "object_ok (object_key (imImageRepository v) d, w)"
      using assms(1) by (auto simp: list_all_iff dest: map_of_SomeD)
    then show ?thesis using Some assms(2) object_key_unique [of "imImageRepository v" "rpoImageRepository w" d "rpoDigest w"]
      by (simp add: ob_def object_ok_def)
  qed (simp add: ob_def)
  then show ?thesis
    using update_pairs [OF assms(1), of "object_key (imImageRepository v) d"
        "ob\<lparr>rpoRootDigests := rpoRootDigests ob @ [imDigest v], rpoReasons := rpoReasons ob @ [closure_reason v]\<rparr>"] assms(2)
    by (simp add: visit_object_def ob_def [symmetric] Let_def object_ok_def)
qed

lemma visit_all_pairs:
  assumes "CHR ''@'' \<notin> set (imImageRepository v)"
  shows "list_all object_ok obs \<Longrightarrow> list_all object_ok (fold (visit_object ns degraded v) ds obs) \<and>
    object_pairs (fold (visit_object ns degraded v) ds obs) = Pair (imImageRepository v) ` set ds \<union> object_pairs obs"
proof (induction ds arbitrary: obs)
  case (Cons d ds)
  show ?case using Cons.IH visit_pairs [OF Cons.prems assms, of ns degraded d] by auto
qed simp

lemma visited_pairs:
  assumes "list_all (\<lambda>v. CHR ''@'' \<notin> set (imImageRepository v)) (rptImages rep)"
  shows "list_all object_ok (visited_objects ns es degraded rep) \<and>
    object_pairs (visited_objects ns es degraded rep) =
      (\<Union>v\<in>set (protected_roots rep). Pair (imImageRepository v) ` set (root_closure es v))"
proof -
  have "list_all object_ok obs \<Longrightarrow> list_all (\<lambda>v. CHR ''@'' \<notin> set (imImageRepository v)) vs \<Longrightarrow>
    list_all object_ok (fold (\<lambda>v. fold (visit_object ns degraded v) (root_closure es v)) vs obs) \<and>
    object_pairs (fold (\<lambda>v. fold (visit_object ns degraded v) (root_closure es v)) vs obs) =
      (\<Union>v\<in>set vs. Pair (imImageRepository v) ` set (root_closure es v)) \<union> object_pairs obs" for vs obs
  proof (induction vs arbitrary: obs)
    case (Cons v vs)
    show ?case using Cons visit_all_pairs [of v obs ns degraded "root_closure es v"] by auto
  qed simp
  from this [of "[]" "protected_roots rep"] assms show ?thesis
    by (auto simp: visited_objects_def protected_roots_def list_all_iff object_pairs_def)
qed

section \<open>The roots an object is listed for\<close>

definition object_roots :: "(string \<times> RegistryProtectedObject) list \<Rightarrow> (string \<times> string \<times> string) set" where
  "object_roots obs = {(rpoImageRepository ob, rpoDigest ob, root) | k ob root. (k, ob) \<in> set obs \<and> root \<in> set (rpoRootDigests ob)}"

lemma object_roots_cons: "object_roots ((k, ob) # obs) =
    (\<lambda>root. (rpoImageRepository ob, rpoDigest ob, root)) ` set (rpoRootDigests ob) \<union> object_roots obs"
  by (auto simp: object_roots_def)

definition object_triples :: "RegistryProtectedObject \<Rightarrow> (string \<times> string \<times> string) set" where
  "object_triples ob = (\<lambda>root. (rpoImageRepository ob, rpoDigest ob, root)) ` set (rpoRootDigests ob)"

lemma object_roots_triples: "object_roots obs = (\<Union>p\<in>set obs. object_triples (snd p))"
  by (force simp: object_roots_def object_triples_def)

lemma tidy_triples [simp]: "object_triples (tidy_object ob) = object_triples ob"
  by (simp add: object_triples_def tidy_object_def)

lemma new_object_roots [simp]: "rpoRootDigests (new_object ns degraded repo d) = []"
  by (simp add: new_object_def Let_def split: option.splits)

text \<open>An update that keeps the names and adds one root adds one triple.\<close>

lemma update_roots:
  assumes "list_all object_ok obs" and "object_ok (k, ob)"
    and "set (rpoRootDigests ob) = insert root (case map_of obs k of None \<Rightarrow> {} | Some old \<Rightarrow> set (rpoRootDigests old))"
  shows "object_roots (AList.update k ob obs) = insert (rpoImageRepository ob, rpoDigest ob, root) (object_roots obs)"
  using assms
proof (induction obs)
  case (Cons p obs)
  obtain j o' where p: "p = (j, o')" by (cases p)
  show ?case
  proof (cases "j = k")
    case True
    then have n: "rpoImageRepository o' = rpoImageRepository ob" "rpoDigest o' = rpoDigest ob"
      using Cons.prems(1,2) object_key_unique by (auto simp: p object_ok_def)
    have "set (rpoRootDigests ob) = insert root (set (rpoRootDigests o'))" using Cons.prems(3) True by (simp add: p)
    then show ?thesis by (simp add: p True object_roots_cons n)
  next
    case False
    then have "object_roots (AList.update k ob obs) = insert (rpoImageRepository ob, rpoDigest ob, root) (object_roots obs)"
      using Cons by (simp add: p)
    then show ?thesis using False by (simp add: p object_roots_cons insert_commute)
  qed
qed (auto simp: object_roots_def)

lemma visit_roots:
  assumes "list_all object_ok obs" and "CHR ''@'' \<notin> set (imImageRepository v)"
  shows "object_roots (visit_object ns degraded v d obs) = insert (imImageRepository v, d, imDigest v) (object_roots obs)"
proof -
  define key where "key = object_key (imImageRepository v) d"
  define ob where "ob = (case map_of obs key of Some ob \<Rightarrow> ob | None \<Rightarrow> new_object ns degraded (imImageRepository v) d)"
  define ob' where "ob' = ob\<lparr>rpoRootDigests := rpoRootDigests ob @ [imDigest v], rpoReasons := rpoReasons ob @ [closure_reason v]\<rparr>"
  have n: "rpoImageRepository ob = imImageRepository v \<and> rpoDigest ob = d \<and> rpoProtected ob"
  proof (cases "map_of obs key")
    case (Some w)
    then have "object_ok (key, w)" using assms(1) by (auto simp: list_all_iff dest: map_of_SomeD)
    then show ?thesis using Some assms(2) object_key_unique [of "imImageRepository v" "rpoImageRepository w" d "rpoDigest w"]
      by (simp add: ob_def key_def object_ok_def)
  qed (simp add: ob_def)
  have "object_ok (key, ob')" using n assms(2) by (simp add: ob'_def key_def object_ok_def)
  moreover have "set (rpoRootDigests ob') = insert (imDigest v) (case map_of obs key of None \<Rightarrow> {} | Some old \<Rightarrow> set (rpoRootDigests old))"
    by (simp add: ob'_def ob_def split: option.splits)
  ultimately have "object_roots (AList.update key ob' obs) = insert (rpoImageRepository ob', rpoDigest ob', imDigest v) (object_roots obs)"
    by (rule update_roots [OF assms(1)])
  then show ?thesis using n by (simp add: visit_object_def ob'_def ob_def key_def Let_def)
qed

lemma visit_all_roots:
  assumes "CHR ''@'' \<notin> set (imImageRepository v)"
  shows "list_all object_ok obs \<Longrightarrow> object_roots (fold (visit_object ns degraded v) ds obs) =
    (\<lambda>d. (imImageRepository v, d, imDigest v)) ` set ds \<union> object_roots obs"
proof (induction ds arbitrary: obs)
  case (Cons d ds)
  show ?case using Cons.IH visit_pairs [OF Cons.prems assms, of ns degraded d] visit_roots [OF Cons.prems assms, of ns degraded d] by auto
qed simp

lemma visited_roots:
  assumes "list_all (\<lambda>v. CHR ''@'' \<notin> set (imImageRepository v)) (rptImages rep)"
  shows "object_roots (visited_objects ns es degraded rep) =
      (\<Union>v\<in>set (protected_roots rep). (\<lambda>d. (imImageRepository v, d, imDigest v)) ` set (root_closure es v))"
proof -
  have "list_all object_ok obs \<Longrightarrow> list_all (\<lambda>v. CHR ''@'' \<notin> set (imImageRepository v)) vs \<Longrightarrow>
    object_roots (fold (\<lambda>v. fold (visit_object ns degraded v) (root_closure es v)) vs obs) =
      (\<Union>v\<in>set vs. (\<lambda>d. (imImageRepository v, d, imDigest v)) ` set (root_closure es v)) \<union> object_roots obs" for vs obs
  proof (induction vs arbitrary: obs)
    case (Cons v vs)
    show ?case using Cons visit_all_pairs [of v obs ns degraded "root_closure es v"] visit_all_roots [of v obs ns degraded "root_closure es v"]
      by auto
  qed simp
  from this [of "[]" "protected_roots rep"] assms show ?thesis
    by (auto simp: visited_objects_def protected_roots_def list_all_iff object_roots_def)
qed

text \<open>The protected objects of a report, as pairs of repository and digest.\<close>

definition protected_pairs :: "RetentionReport \<Rightarrow> (string \<times> string) set" where
  "protected_pairs rep = set (map (\<lambda>ob. (rpoImageRepository ob, rpoDigest ob)) (filter rpoProtected (rptProtectedObjects rep)))"

lemma tidy_object_simps [simp]:
  "rpoProtected (tidy_object ob) = rpoProtected ob" "rpoImageRepository (tidy_object ob) = rpoImageRepository ob"
  "rpoDigest (tidy_object ob) = rpoDigest ob"
  by (simp_all add: tidy_object_def)

definition linked_closure :: "State \<Rightarrow> RetentionImage list \<Rightarrow> (string \<times> string) set" where
  "linked_closure st ims =
     {(repo, d). \<exists>v\<in>set ims. imProtected v \<and> imImageRepository v = repo \<and> (imDigest v, d) \<in> (ever_linked st repo)\<^sup>*}"

lemma image_filter_all: "(\<And>y. y \<in> f ` A \<Longrightarrow> P y) \<Longrightarrow> {y \<in> f ` A. P y} = f ` A"
  by blast

lemma protected_pairs_closure:
  assumes "list_all sound_edges (stRegistryInventories st)"
    and "list_all (\<lambda>v. CHR ''@'' \<notin> set (imImageRepository v)) (rptImages rep)"
  shows "protected_pairs (registry_retention g st rep now as) = linked_closure st (rptImages rep)"
proof -
  define vs where "vs = scoped_inventories (scope_repos rep as) st"
  define obs where "obs = visited_objects (historical_nodes vs) (historical_edges g vs) (degraded_repos vs now) rep"
  note v = visited_pairs [OF assms(2), of "historical_nodes vs" "historical_edges g vs" "degraded_repos vs now", folded obs_def]
  have "set (rptProtectedObjects (registry_retention g st rep now as)) = (tidy_object \<circ> snd) ` set obs"
    by (simp add: registry_retention_def Let_def vs_def [symmetric] obs_def [symmetric])
  moreover have "rpoProtected (snd kob)" if "kob \<in> set obs" for kob
    using that v by (cases kob) (auto simp: list_all_iff object_ok_def)
  ultimately have "protected_pairs (registry_retention g st rep now as) = object_pairs obs"
    unfolding protected_pairs_def object_pairs_def by (simp add: image_image image_filter_all case_prod_unfold)
  also have "\<dots> = linked_closure st (rptImages rep)"
  proof -
    have "set (root_closure (historical_edges g vs) w) = {d. (imDigest w, d) \<in> (ever_linked st (imImageRepository w))\<^sup>*}"
      if "w \<in> set (protected_roots rep)" for w
      using that repo_arcs_linked [OF assms(1), of "imImageRepository w" "scope_repos rep as" g]
      by (simp add: root_closure_def reachable_closure vs_def scope_repos_def protected_roots_def)
    then show ?thesis using v by (auto simp: linked_closure_def protected_roots_def)
  qed
  finally show ?thesis .
qed

text \<open>The protected objects of a report, each with every root it is listed for.\<close>

definition protected_for :: "RetentionReport \<Rightarrow> (string \<times> string \<times> string) set" where
  "protected_for rep =
     {(rpoImageRepository ob, rpoDigest ob, root) | ob root.
        ob \<in> set (rptProtectedObjects rep) \<and> rpoProtected ob \<and> root \<in> set (rpoRootDigests ob)}"

definition rooted_closure :: "State \<Rightarrow> RetentionImage list \<Rightarrow> (string \<times> string \<times> string) set" where
  "rooted_closure st ims =
     {(repo, d, root). \<exists>v\<in>set ims. imProtected v \<and> imImageRepository v = repo \<and> imDigest v = root \<and>
        (root, d) \<in> (ever_linked st repo)\<^sup>*}"

lemma root_closure_linked:
  assumes "list_all sound_edges (stRegistryInventories st)" and "v \<in> set (protected_roots rep)"
  shows "set (root_closure (historical_edges g (scoped_inventories (scope_repos rep as) st)) v) =
    {d. (imDigest v, d) \<in> (ever_linked st (imImageRepository v))\<^sup>*}"
  using assms(2) repo_arcs_linked [OF assms(1), of "imImageRepository v" "scope_repos rep as" g]
  by (simp add: root_closure_def reachable_closure scope_repos_def protected_roots_def)

lemma protected_for_closure:
  assumes "list_all sound_edges (stRegistryInventories st)"
    and "list_all (\<lambda>v. CHR ''@'' \<notin> set (imImageRepository v)) (rptImages rep)"
  shows "protected_for (registry_retention g st rep now as) = rooted_closure st (rptImages rep)"
proof -
  define vs where "vs = scoped_inventories (scope_repos rep as) st"
  define obs where "obs = visited_objects (historical_nodes vs) (historical_edges g vs) (degraded_repos vs now) rep"
  note v = visited_pairs [OF assms(2), of "historical_nodes vs" "historical_edges g vs" "degraded_repos vs now", folded obs_def]
  have o': "set (rptProtectedObjects (registry_retention g st rep now as)) = (tidy_object \<circ> snd) ` set obs"
    by (simp add: registry_retention_def Let_def vs_def [symmetric] obs_def [symmetric])
  have "\<And>k ob. (k, ob) \<in> set obs \<Longrightarrow> rpoProtected ob" using v by (auto simp: list_all_iff object_ok_def)
  then have all: "\<forall>p\<in>set obs. rpoProtected (snd p)" by auto
  have "protected_for (registry_retention g st rep now as) = (\<Union>ob\<in>{ob \<in> (tidy_object \<circ> snd) ` set obs. rpoProtected ob}. object_triples ob)"
    unfolding protected_for_def o' object_triples_def by (rule set_eqI) (simp only: mem_Collect_eq UN_iff image_iff Bex_def, blast)
  also have "{ob \<in> (tidy_object \<circ> snd) ` set obs. rpoProtected ob} = (tidy_object \<circ> snd) ` set obs"
    by (rule image_filter_all) (use all in auto)
  also have "(\<Union>ob\<in>(tidy_object \<circ> snd) ` set obs. object_triples ob) = object_roots obs"
    by (simp add: object_roots_triples image_image)
  also have "\<dots> = rooted_closure st (rptImages rep)"
    using visited_roots [OF assms(2), of "historical_nodes vs" "historical_edges g vs" "degraded_repos vs now", folded obs_def]
      root_closure_linked [OF assms(1), of _ rep g as, folded vs_def]
    by (auto simp: rooted_closure_def protected_roots_def)
  finally show ?thesis .
qed

end
