(* ===== verification/RetentionGuards.thy ===== *)
theory RetentionGuards
  imports RetentionRanks RegistryClosures
begin

text \<open>From the stages of the evaluation to the report: what is guarded at any stage is protected in the end.\<close>

definition protected_in :: "RetentionReport \<Rightarrow> string \<Rightarrow> string \<Rightarrow> bool" where
  "protected_in rep key reason \<longleftrightarrow>
     list_ex (\<lambda>v. imIdentity v = key \<and> imProtected v \<and> reason \<in> set (imReasons v)) (rptImages rep)"

section \<open>The stages\<close>

lemma artifacts_stage: "collects (artifacts x (first_collector x)) (evaluate x)"
  unfolding evaluate_def comp_def first_collector_def by (intro collecting)

lemma operations_stage: "\<exists>c. collects (operations x c) (evaluate x)"
  unfolding evaluate_def comp_def
  by (rule exI [of _ "artifacts x (empty_collector\<lparr>clPolicies := effective_policies x\<rparr>)"]) (intro collecting)

lemma releases_stage: "\<exists>c. clPolicies c = effective_policies x \<and> collects (releases x c) (evaluate x)"
proof -
  define c where "c = environments x (restoration_roots x (baseline_roots x (operations x (artifacts x (first_collector x)))))"
  have "collects (first_collector x) c" unfolding c_def by (intro collecting)
  then have "clPolicies c = effective_policies x" using collects_policies by (fastforce simp: first_collector_def)
  moreover have "collects (releases x c) (evaluate x)"
    unfolding evaluate_def comp_def c_def first_collector_def by (intro collecting)
  ultimately show ?thesis by blast
qed

lemma pins_stage: "\<exists>c. collects (pin_roots x c) (evaluate x)"
  unfolding evaluate_def comp_def
  by (rule exI [of _ "releases x (environments x (restoration_roots x (baseline_roots x (operations x
    (artifacts x (empty_collector\<lparr>clPolicies := effective_policies x\<rparr>))))))"]) (intro collecting)

section \<open>The report\<close>

lemma evaluate_report:
  assumes "evaluate_retention g x as = Inr rep"
  obtains c where "collected x = Inr c" "rep = registry_retention g (rxState x) (base_report x c) (rxNow x) as"
    "rptImages rep = sort_key imIdentity (map (tidy_image \<circ> snd) (clImages c))" "well_kept c" "collects (evaluate x) c"
proof -
  obtain c where c: "collected x = Inr c" "rep = registry_retention g (rxState x) (base_report x c) (rxNow x) as"
    using assms by (auto simp: evaluate_retention_def map_sum_def split: sum.splits)
  moreover have "rptImages rep = sort_key imIdentity (map (tidy_image \<circ> snd) (clImages c))"
    by (simp add: c(2) registry_retention_def base_report_def Let_def)
  ultimately show thesis using that collected_well_kept collected_collects by blast
qed

lemma guarded_in_report:
  assumes images: "rptImages rep = sort_key imIdentity (map (tidy_image \<circ> snd) (clImages d))"
    and d: "well_kept d" and g: "guarded key reason d"
  shows "protected_in rep key reason"
proof -
  obtain v where v: "(key, v) \<in> set (clImages d)" "imProtected v" "reason \<in> set (imReasons v)"
    using g by (auto simp: guarded_def image_at_def split: option.splits dest: map_of_SomeD)
  moreover have "imIdentity v = key" using v(1) d by (auto simp: well_kept_def list_all_iff key_ok_def)
  ultimately show ?thesis
    unfolding protected_in_def images list_ex_iff
    by (intro bexI [of _ "tidy_image v"]) (force simp: tidy_image_def)+
qed

lemma guarded_report:
  assumes "evaluate_retention g x as = Inr rep" and "guarded key reason c" and "collects c (evaluate x)"
  shows "protected_in rep key reason"
  using assms(1)
proof (rule evaluate_report)
  fix d
  assume images: "rptImages rep = sort_key imIdentity (map (tidy_image \<circ> snd) (clImages d))"
    and d: "well_kept d" "collects (evaluate x) d"
  then have "guarded key reason d" using assms(2,3) collects_trans collects_guarded by blast
  with images d(1) show ?thesis by (rule guarded_in_report)
qed

end
