(* ===== verification/RegistrySummaries.thy ===== *)
theory RegistrySummaries
  imports RegistryRetention
begin

text \<open>When the summary of an observation authority is \<open>CURRENT\<close>: a specification that does not depend
  on the order of the state, and the steps of \<open>registrySummary\<close> towards it.\<close>

section \<open>The latest inventory\<close>

definition latest_so_far ::
  "RegistryObservationAuthority \<Rightarrow> RegistryInventory set \<Rightarrow> RegistryInventory option \<Rightarrow> bool" where
  "latest_so_far a vs l \<longleftrightarrow>
     (case l of
        None \<Rightarrow> \<forall>v\<in>vs. \<not> inventory_matches v a
      | Some w \<Rightarrow> w \<in> vs \<and> inventory_matches w a \<and>
          (\<forall>v\<in>vs. inventory_matches v a \<longrightarrow> riReceivedAt v \<le> riReceivedAt w))"

lemma later_inventory_step: "latest_so_far a vs l \<Longrightarrow> latest_so_far a (insert v vs) (later_inventory a v l)"
  by (cases l) (auto simp: latest_so_far_def later_inventory_def)

lemma fold_later: "latest_so_far a us l \<Longrightarrow> latest_so_far a (us \<union> set vs) (fold (later_inventory a) vs l)"
proof (induction vs arbitrary: us l)
  case (Cons v vs)
  then show ?case using Cons.IH [OF later_inventory_step [OF Cons.prems, of v]] by simp
qed simp

lemma registry_latest_spec: "latest_so_far a (set vs) (registry_latest vs a)"
  using fold_later [of a "{}" None vs] by (simp add: registry_latest_def latest_so_far_def)

section \<open>The status\<close>

lemma status_marks [simp]:
  "rcsStatus (also_blocked b s) = rcsStatus s" "rcsStatus (downgraded t b s) = t"
  "rcsFreshness (also_blocked b s) = rcsFreshness s" "rcsFreshness (downgraded t b s) = rcsFreshness s"
  by (simp_all add: also_blocked_def downgraded_def)

lemma fold_downgraded:
  "rcsStatus (fold (\<lambda>j s. if P j then downgraded t b s else s) js s) = (if list_ex P js then t else rcsStatus s)"
  by (induction js arbitrary: s) auto

lemma freshness_values: "inventory_freshness v now \<in> {''FRESH'', ''STALE'', ''UNKNOWN''}"
  by (simp add: inventory_freshness_def Let_def)

lemma observed_status:
  "rcsStatus (observed_summary l roots now (empty_summary g a roots)) = ''CURRENT'' \<longleftrightarrow>
     list_all (registry_covered (wrrGraph (riReport l))) roots \<and> rgDiscovery (wrrGraph (riReport l)) = ''COMPLETE'' \<and>
     inventory_freshness l now = ''FRESH''"
proof -
  have "length (filter P roots) = length roots \<longleftrightarrow> list_all P roots" for P :: "string \<Rightarrow> bool"
    by (metis filter_True length_filter_less less_irrefl list_all_iff)
  then show ?thesis using freshness_values [of l now]
    by (auto simp: observed_summary_def empty_summary_def Let_def)
qed

definition undisputed ::
  "State \<Rightarrow> string \<Rightarrow> RegistryObservationAuthority \<Rightarrow> RegistryInventory \<Rightarrow> bool" where
  "undisputed st product a l \<longleftrightarrow>
     \<not> list_ex (execution_unknown product a (Some l)) (stWorkerJobs st) \<and> raCurrent a \<and>
     \<not> list_ex (\<lambda>q. mProductID (nqMeta q) = product) (stNativeQuarantines st)"

lemma summary_status:
  "rcsStatus (registry_summary g st rep a now) = ''CURRENT'' \<longleftrightarrow>
     (case registry_latest (stRegistryInventories st) a of
        None \<Rightarrow> False
      | Some l \<Rightarrow> \<not> latest_ambiguous (stRegistryInventories st) a (Some l) \<and> undisputed st (rptProductID rep) a l \<and>
          rcsStatus (observed_summary l (known_roots rep (rscImageRepository (raScope a))) now
            (empty_summary g a (known_roots rep (rscImageRepository (raScope a))))) = ''CURRENT'')"
  by (auto simp: registry_summary_def Let_def fold_downgraded undisputed_def empty_summary_def split: option.splits)

text \<open>The evidence that a current summary rests on: an inventory that matches, no other one received later
  or with another report, and nothing missing, old or in doubt.\<close>

definition current_inventory ::
  "State \<Rightarrow> RetentionReport \<Rightarrow> RegistryObservationAuthority \<Rightarrow> time \<Rightarrow> RegistryInventory \<Rightarrow> bool" where
  "current_inventory st rep a now l \<longleftrightarrow>
     inventory_matches l a \<and>
     list_all (\<lambda>v. inventory_matches v a \<longrightarrow> riReceivedAt v < riReceivedAt l \<or>
       riReceivedAt v = riReceivedAt l \<and> riReport v = riReport l) (stRegistryInventories st) \<and>
     undisputed st (rptProductID rep) a l \<and> inventory_freshness l now = ''FRESH'' \<and>
     rgDiscovery (wrrGraph (riReport l)) = ''COMPLETE'' \<and>
     list_all (registry_covered (wrrGraph (riReport l))) (known_roots rep (rscImageRepository (raScope a)))"

lemma undisputed_cong: "riReceivedAt l = riReceivedAt m \<Longrightarrow> undisputed st p a l = undisputed st p a m"
  by (simp add: undisputed_def execution_unknown_def [abs_def])

lemma freshness_cong:
  "riReceivedAt l = riReceivedAt m \<Longrightarrow> riReport l = riReport m \<Longrightarrow> inventory_freshness l now = inventory_freshness m now"
  by (simp add: inventory_freshness_def)

text \<open>C25. A coverage summary (\<open>registrySummary\<close>) says CURRENT exactly when the authority is current, the product
  is not quarantined, and some matching inventory is the latest, undisputed by another of the same time, fresh
  in all three of its times, complete in its discovery, covers every known root with a COMPLETE closure, and
  no observation job that ended badly is newer.\<close>

theorem current_iff:
  "rcsStatus (registry_summary g st rep a now) = ''CURRENT'' \<longleftrightarrow>
     list_ex (current_inventory st rep a now) (stRegistryInventories st)"
proof (cases "registry_latest (stRegistryInventories st) a")
  case None
  then show ?thesis using registry_latest_spec [of a "stRegistryInventories st"]
    by (auto simp: summary_status latest_so_far_def list_ex_iff current_inventory_def)
next
  case (Some l)
  note spec = registry_latest_spec [of a "stRegistryInventories st", unfolded Some latest_so_far_def, simplified]
  have le: "riReceivedAt v < riReceivedAt l \<or> riReceivedAt v = riReceivedAt l"
    if "v \<in> set (stRegistryInventories st)" "inventory_matches v a" for v
    using spec that by (simp add: order.order_iff_strict)
  have amb: "\<not> latest_ambiguous (stRegistryInventories st) a (Some l) \<longleftrightarrow>
      list_all (\<lambda>v. inventory_matches v a \<longrightarrow> riReceivedAt v < riReceivedAt l \<or>
        riReceivedAt v = riReceivedAt l \<and> riReport v = riReport l) (stRegistryInventories st)"
    unfolding latest_ambiguous_def list_ex_iff list_all_iff option.case using le by (metis less_irrefl)
  have same: "current_inventory st rep a now m \<Longrightarrow> m \<in> set (stRegistryInventories st) \<Longrightarrow> current_inventory st rep a now l" for m
  proof -
    assume m: "current_inventory st rep a now m" "m \<in> set (stRegistryInventories st)"
    then have e: "riReceivedAt l = riReceivedAt m" "riReport l = riReport m"
      using spec by (force simp: current_inventory_def list_all_iff)+
    then show ?thesis using m(1) spec undisputed_cong [OF e(1)] freshness_cong [OF e]
      by (simp add: current_inventory_def)
  qed
  have "rcsStatus (registry_summary g st rep a now) = ''CURRENT'' \<longleftrightarrow> current_inventory st rep a now l"
    unfolding summary_status Some option.case observed_status amb current_inventory_def using spec by blast
  then show ?thesis using same spec by (auto simp: list_ex_iff)
qed

end
