(* ===== verification/ImageNameLemmas.thy ===== *)
theory ImageNameLemmas
  imports ImageNames JsonData
begin

text \<open>
  What the canonical name of an image repository consists of, towards the theorem that it is a fixed
  point of the normalisation.
\<close>

section \<open>The characters of a name\<close>

definition name_chars :: "char set" where
  "name_chars = set (lower_letters @ digits @ ''.-:'')"

lemma split_char_cover: "d \<in> set s \<Longrightarrow> d = c \<or> (\<exists>w\<in>set (split_char c s). d \<in> set w)"
  by (induction s) (auto split: list.splits)

lemma letters_apart: "list_all (\<lambda>c. c \<notin> set upper_letters) (lower_letters @ ''ik'')"
  by code_simp

lemma lower_char_not_upper: "lower_char c \<notin> set upper_letters"
proof (cases "map_of (zip upper_letters lower_letters) c")
  case None
  have "length upper_letters = length lower_letters" by (simp add: upper_letters_def lower_letters_def)
  from map_of_zip_is_None [OF this] have "c \<notin> set upper_letters" using None by simp
  then show ?thesis using None by (simp add: lower_char_def)
next
  case (Some l)
  then have "l \<in> set lower_letters" by (meson map_of_SomeD set_zip_rightD)
  then show ?thesis using Some letters_apart by (auto simp: lower_char_def list_all_iff)
qed

lemma plain_letters: "CHR ''i'' \<notin> set upper_letters" "CHR ''k'' \<notin> set upper_letters"
  using letters_apart by simp_all

lemma to_lower_not_upper: "set (to_lower s) \<inter> set upper_letters = {}"
proof (induction s rule: to_lower.induct)
  case (1 a b s)
  show ?case
  proof (cases "a = CHR 0xC4 \<and> b = CHR 0xB0")
    case True
    then show ?thesis using 1(1) plain_letters by simp
  next
    case False
    note no = False
    show ?thesis
    proof (cases s)
      case Nil
      then show ?thesis using no 1(2) [OF no Nil] lower_char_not_upper plain_letters by simp
    next
      case (Cons c s')
      have "to_lower (a # b # s) = (if a = CHR 0xE2 \<and> b = CHR 0x84 \<and> c = CHR 0xAA then CHR ''k'' # to_lower s'
          else lower_char a # to_lower (b # s))"
        using no unfolding Cons by (subst to_lower.simps(1)) (auto simp del: to_lower.simps)
      then show ?thesis using 1(3,4) [OF no Cons] lower_char_not_upper plain_letters
        by (simp del: to_lower.simps split: if_splits)
    qed
  qed
qed (simp_all add: lower_char_not_upper)

lemma is_digit_digits: "is_digit c \<longleftrightarrow> c \<in> set digits"
  by (simp add: is_digit_def)

lemma ipv4_chars: "is_ipv4 s \<Longrightarrow> d \<in> set s \<Longrightarrow> d \<in> set (digits @ ''.'')"
  using split_char_cover [of d s "CHR ''.''"] by (auto simp: is_ipv4_def list_all_iff ipv4_field_def is_digit_digits)

definition address_chars :: "char set" where
  "address_chars = set (''0123456789abcdefABCDEF'' @ ''.:'')"

lemma address_alphabet:
  "list_all (\<lambda>c. c \<in> set (''0123456789abcdefABCDEF'' @ ''.:'')) (digits @ ''.:'')"
  "list_all (\<lambda>c. c \<in> set upper_letters \<or> c \<in> set (lower_letters @ digits @ ''.-:'')) (''0123456789abcdefABCDEF'' @ ''.:'')"
  by code_simp+

lemma address_chars: "c \<in> set (digits @ ''.:'') \<Longrightarrow> c \<in> address_chars"
  "c \<in> address_chars \<Longrightarrow> c \<notin> set upper_letters \<Longrightarrow> c \<in> name_chars"
  using address_alphabet unfolding address_chars_def name_chars_def list_all_iff by blast+

lemma hextet_chars: "hextet g \<Longrightarrow> set g \<subseteq> address_chars"
  unfolding hextet_def list_all_iff address_chars_def set_append by blast

lemma ipv4_address_chars: "is_ipv4 g \<Longrightarrow> set g \<subseteq> address_chars"
  using ipv4_chars [of g] address_chars(1) by fastforce

lemma group_fields_chars: "group_fields v4 gs = Some n \<Longrightarrow> w \<in> set gs \<Longrightarrow> set w \<subseteq> address_chars"
  by (induction v4 gs arbitrary: n rule: group_fields.induct)
    (auto split: if_splits dest: hextet_chars ipv4_address_chars)

lemma split_colon_chars: "\<forall>w\<in>set (split_char CHR '':'' s). set w \<subseteq> address_chars \<Longrightarrow> set s \<subseteq> address_chars"
  using split_char_cover [of _ s "CHR '':''"] address_chars(1) [of "CHR '':''"] by fastforce

lemma side_fields_chars: "side_fields v4 s = Some n \<Longrightarrow> set s \<subseteq> address_chars"
  using split_colon_chars group_fields_chars by (auto simp: side_fields_def split: if_splits)

lemma double_colon_at: "double_colon s = Some n \<Longrightarrow> s = take n s @ ''::'' @ drop (n + 2) s"
  by (induction s arbitrary: n rule: double_colon.induct) (auto split: if_splits)

lemma ipv6_chars: "is_ipv6 s \<Longrightarrow> set s \<subseteq> address_chars"
proof (cases "double_colon s")
  case None
  assume "is_ipv6 s"
  then show ?thesis using None split_colon_chars group_fields_chars by (auto simp: is_ipv6_def)
next
  case (Some n)
  assume "is_ipv6 s"
  then have "set (take n s) \<subseteq> address_chars" "set (drop (n + 2) s) \<subseteq> address_chars"
    using Some side_fields_chars by (auto simp: is_ipv6_def split: option.splits)
  then have "set (take n s @ ''::'' @ drop (n + 2) s) \<subseteq> address_chars" using address_chars(1) [of "CHR '':''"] by simp
  then show ?thesis using double_colon_at [OF Some] by metis
qed

lemma is_ip_chars: "is_ip s \<Longrightarrow> set s \<subseteq> address_chars"
  using ipv6_chars [of s] ipv4_address_chars [of s] by (auto simp: is_ip_def split: option.splits if_splits)

definition host_name :: "string \<Rightarrow> bool" where
  "host_name name \<longleftrightarrow> name \<noteq> [] \<and> (is_ip name \<or> list_all host_label (split_char CHR ''.'' name))"

lemma host_name_chars:
  assumes "host_name name" and "name = to_lower u"
  shows "set name \<subseteq> name_chars"
proof
  fix d assume d: "d \<in> set name"
  then have u: "d \<notin> set upper_letters" using to_lower_not_upper [of u] assms(2) by auto
  show "d \<in> name_chars"
  proof (cases "is_ip name")
    case True
    then show ?thesis using is_ip_chars [of name] d u address_chars(2) by blast
  next
    case False
    then have "list_all host_label (split_char CHR ''.'' name)" using assms(1) by (simp add: host_name_def)
    then show ?thesis using split_char_cover [OF d, of "CHR ''.''"]
      by (auto simp: list_all_iff host_label_def name_chars_def)
  qed
qed

lemma name_alphabet:
  "list_all (\<lambda>c. (of_char c :: nat) < 128 \<and> lower_char c = c \<and> c \<notin> set ''%[]/@?#'' \<and>
     c \<notin> set [CHR 0x5C, CHR 0x00, CHR 0x0D, CHR 0x0A, CHR 0x09, CHR 0x20, CHR 0x0B, CHR 0x0C]) (lower_letters @ digits @ ''.-:'')"
  by code_simp

lemma name_chars_plain:
  "c \<in> name_chars \<Longrightarrow> (of_char c :: nat) < 128 \<and> lower_char c = c \<and> c \<notin> set ''%[]/@?#'' \<and>
     c \<notin> set [CHR 0x5C, CHR 0x00, CHR 0x0D, CHR 0x0A, CHR 0x09, CHR 0x20, CHR 0x0B, CHR 0x0C]"
  using name_alphabet unfolding name_chars_def list_all_iff by blast

lemma lower_name: "set name \<subseteq> name_chars \<Longrightarrow> to_lower name = name"
proof -
  assume n: "set name \<subseteq> name_chars"
  then have "ascii name" using name_chars_plain by (auto simp: ascii_def list_all_iff)
  moreover have "map lower_char name = name" using n name_chars_plain by (auto intro!: map_idI)
  ultimately show ?thesis by (simp add: to_lower_ascii)
qed

section \<open>Reading a canonical host again\<close>

lemma name_chars_no: "set name \<subseteq> name_chars \<Longrightarrow> c \<in> set ''%[]/@?#'' \<Longrightarrow> c \<notin> set name"
  using name_chars_plain by blast

lemma unescape_plain: "CHR ''%'' \<notin> set s \<Longrightarrow> unescape_host s = Some s"
  by (induction s) auto

lemma after_char_first: "c \<notin> set a \<Longrightarrow> after_char c (a @ c # b) = b"
  by (induction a) (auto simp: after_char_def)

lemma before_char_first: "c \<notin> set a \<Longrightarrow> before_char c (a @ c # b) = a"
  by (induction a) (auto simp: before_char_def)

lemma after_last_snoc: "c \<notin> set b \<Longrightarrow> after_last c (a @ c # b) = b"
  using before_char_first [of c "rev b" "rev a"] by (simp add: after_last_def)

lemma before_last_snoc: "c \<notin> set b \<Longrightarrow> before_last c (a @ c # b) = a"
  using after_char_first [of c "rev b" "rev a"] by (simp add: before_last_def)

definition port_ok :: "string \<Rightarrow> bool" where
  "port_ok p \<longleftrightarrow> list_all is_digit p \<and> canonical_port p = Some p"

lemma digit_chars: "list_all is_digit p \<Longrightarrow> set p \<subseteq> name_chars \<and> CHR '':'' \<notin> set p \<and> CHR '']'' \<notin> set p"
proof -
  have "list_all (\<lambda>c. c \<in> set (lower_letters @ digits @ ''.-:'') \<and> c \<noteq> CHR '':'' \<and> c \<noteq> CHR '']'') digits" by code_simp
  then show "list_all is_digit p \<Longrightarrow> ?thesis" by (auto simp: list_all_iff is_digit_def name_chars_def)
qed

lemma bracket_not_digit: "\<not> is_digit CHR '']''"
  by code_simp

lemma no_prefix: "c \<notin> set s \<Longrightarrow> \<not> has_prefix s [c]"
  by (cases s) (auto simp: has_prefix_def)

lemma join_host_again:
  assumes "set name \<subseteq> name_chars" and "list_all is_digit port"
  shows "parse_host (join_host name port) = Some (join_host name port) \<and>
         split_host_port (join_host name port) = (name, port)"
proof -
  note port = digit_chars [OF assms(2)]
  have name: "CHR ''['' \<notin> set name" "CHR '']'' \<notin> set name" "CHR ''%'' \<notin> set name" "CHR ''%'' \<notin> set port"
    using assms(1) port name_chars_no by auto
  have u: "unescape_host (join_host name port) = Some (join_host name port)"
    using name by (intro unescape_plain) (auto simp: join_host_def)
  show ?thesis
  proof (cases "CHR '':'' \<in> set name")
    case False
    have b: "\<not> has_prefix name ''[''" "\<not> has_prefix (name @ CHR '':'' # port) ''[''"
      using name(1) port name_chars_no [of port "CHR ''[''"] by (auto intro!: no_prefix)
    show ?thesis
    proof (cases "port = []")
      case True
      then have h: "join_host name port = name" using False by (simp add: join_host_def)
      show ?thesis using u False b(1) unfolding h by (simp add: True parse_host_def split_host_port_def)
    next
      case np: False
      then have h: "join_host name port = name @ CHR '':'' # port" using False by (simp add: join_host_def)
      show ?thesis using u False b port assms(2)
        unfolding h by (simp add: parse_host_def split_host_port_def after_last_snoc before_last_snoc)
    qed
  next
    case True
    have h: "join_host name port = CHR ''['' # (name @ CHR '']'' # (if port = [] then [] else CHR '':'' # port))"
      using True by (simp add: join_host_def)
    have p: "has_prefix (CHR ''['' # s) ''[''" for s by (simp add: has_prefix_def)
    have q: "has_suffix (CHR ''['' # name @ '']'') '']''" by (simp add: has_suffix_def has_prefix_def)
    have cr: "CHR '']'' \<notin> set (if port = [] then [] else CHR '':'' # port)" using port by simp
    have r: "after_last CHR '']'' (join_host name port) = (if port = [] then [] else CHR '':'' # port)"
      unfolding h using after_last_snoc [OF cr, of "CHR ''['' # name"] by simp
    have parse: "parse_host (join_host name port) = Some (join_host name port)"
      unfolding parse_host_def r using u p assms(2) by (simp add: h optional_port_def)
    show ?thesis
    proof (cases "port = []")
      case True
      obtain w where w: "after_last CHR '':'' (CHR ''['' # name @ '']'') = w @ '']''"
      proof -
        obtain a b where "name = a @ CHR '':'' # b" "CHR '':'' \<notin> set b"
          using \<open>CHR '':'' \<in> set name\<close> by (meson split_list_last)
        then have "after_last CHR '':'' ((CHR ''['' # a) @ CHR '':'' # (b @ '']'')) = b @ '']''"
          by (intro after_last_snoc) simp
        then show ?thesis using that \<open>name = a @ CHR '':'' # b\<close> by simp
      qed
      have h1: "join_host name port = CHR ''['' # name @ '']''" using True h by simp
      show ?thesis using parse True w bracket_not_digit p [of "name @ '']''"] q
        unfolding h1 by (simp add: split_host_port_def butlast_append)
    next
      case False
      have l: "after_last CHR '':'' ((CHR ''['' # name @ '']'') @ CHR '':'' # port) = port"
        "before_last CHR '':'' ((CHR ''['' # name @ '']'') @ CHR '':'' # port) = CHR ''['' # name @ '']''"
        using after_last_snoc before_last_snoc port by blast+
      have h1: "join_host name port = (CHR ''['' # name @ '']'') @ CHR '':'' # port" using False h by simp
      show ?thesis using parse False l assms(2) p [of "name @ '']''"] q
        unfolding h1 by (simp add: split_host_port_def butlast_append)
    qed
  qed
qed

section \<open>Ports\<close>

lemma digit_values: "list_all (\<lambda>n. digit_value (digits ! n) = Some (int n)) [0..<10]"
  by code_simp

lemma digit_value_nth: "n < 10 \<Longrightarrow> digit_value (digits ! n) = Some (int n)"
  using digit_values unfolding list_all_iff set_upt by (meson atLeastLessThan_iff le0)

lemma number_from_append: "number_from a (s @ t) = (case number_from a s of None \<Rightarrow> None | Some b \<Rightarrow> number_from b t)"
  by (induction s arbitrary: a) (auto split: option.splits)

lemma number_from_decimal: "number_from 0 (decimal n) = Some (int n)"
proof (induction n rule: decimal.induct)
  case (1 n)
  show ?case
  proof (cases "n < 10")
    case True
    then show ?thesis by (simp add: digit_value_nth)
  next
    case False
    have "10 * int (n div 10) + int (n mod 10) = int n" by presburger
    then show ?thesis using 1 [OF False] False
      by (subst decimal.simps) (simp add: number_from_append digit_value_nth)
  qed
qed

declare decimal.simps [simp del]

lemma decimal_digits: "list_all is_digit (decimal n) \<and> decimal n \<noteq> []"
proof (induction n rule: decimal.induct)
  case (1 n)
  have "length digits = 10" by (simp add: digits_def)
  then have "is_digit (digits ! m)" if "m < 10" for m using that by (simp add: is_digit_def)
  then show ?case using 1 by (subst (1 2) decimal.simps) simp
qed

lemma canonical_port_again: "canonical_port p = Some q \<Longrightarrow> list_all is_digit q \<and> canonical_port q = Some q"
  using decimal_digits number_from_decimal
  by (auto simp: canonical_port_def split: if_splits option.splits)

section \<open>The canonical form\<close>

lemma canonical_host_parts:
  assumes "canonical_host h = Some h'"
  obtains name port where "h' = join_host name port" "host_name name" "set name \<subseteq> name_chars"
    "list_all is_digit port" "canonical_port port = Some port"
proof -
  obtain u where u: "parse_host h = Some u" using assms by (auto simp: canonical_host_def split: option.splits)
  define name where "name = to_lower (fst (split_host_port u))"
  have n: "host_name name" and p: "\<exists>q. canonical_port (snd (split_host_port u)) = Some q \<and> h' = join_host name q"
    using assms u by (auto simp: canonical_host_def host_name_def name_def Let_def split: if_splits)
  then show thesis using that host_name_chars [OF n name_def] canonical_port_again by blast
qed

lemma canonical_host_again: "canonical_host h = Some h' \<Longrightarrow> canonical_host h' = Some h'"
proof (erule canonical_host_parts)
  fix name port
  assume h: "h' = join_host name port" "host_name name" "set name \<subseteq> name_chars" "list_all is_digit port"
    and p: "canonical_port port = Some port"
  then show "canonical_host h' = Some h'"
    using join_host_again [OF h(3,4)] lower_name [OF h(3)] p
    by (simp add: canonical_host_def host_name_def)
qed

lemma image_path_chars: "separated_by ''._-/'' b s \<Longrightarrow> set s \<subseteq> set (lower_letters @ digits @ ''._-/'')"
  by (induction "''._-/''" b s rule: separated_by.induct) (auto split: if_splits)

lemma image_path_first: "separated_by ''._-/'' False s \<Longrightarrow> s \<noteq> [] \<and> hd s \<in> set (lower_letters @ digits)"
  by (cases s) (auto split: if_splits)

lemma image_path_last: "separated_by ''._-/'' b s \<Longrightarrow> s \<noteq> [] \<Longrightarrow> last s \<in> set (lower_letters @ digits)"
  by (induction "''._-/''" b s rule: separated_by.induct) (auto split: if_splits)

definition plain_char :: "char \<Rightarrow> bool" where
  "plain_char c \<longleftrightarrow> (of_char c :: nat) < 128 \<and> c \<notin> set ''@?#'' \<and>
     c \<notin> set [CHR 0x5C, CHR 0x00, CHR 0x0D, CHR 0x0A, CHR 0x09, CHR 0x20, CHR 0x0B, CHR 0x0C]"

lemma plain_alphabet: "list_all plain_char (lower_letters @ digits @ ''.-:[]/_'')"
  by code_simp

lemma spaces_not_plain: "list_all (\<lambda>w. w \<noteq> [] \<and> \<not> plain_char (hd w) \<and> \<not> plain_char (last w)) go_spaces"
  by code_simp

lemma prefix_head: "prefix w s \<Longrightarrow> w \<noteq> [] \<Longrightarrow> hd w \<in> set s"
  by (cases w) (auto simp: prefix_def)

lemma trim_plain: "list_all plain_char s \<Longrightarrow> trim_space s = s"
proof -
  assume s: "list_all plain_char s"
  have "\<not> prefix w s" if "w \<in> set go_spaces" for w
    using that s spaces_not_plain prefix_head [of w s] by (auto simp: list_all_iff)
  then have l: "space_at go_spaces s = None" by (auto simp: space_at_def find_None_iff)
  have "\<not> prefix (rev w) (rev s)" if "w \<in> set go_spaces" for w
    using that s spaces_not_plain prefix_head [of "rev w" "rev s"] by (auto simp: list_all_iff hd_rev)
  then have r: "space_at (map rev go_spaces) (rev s) = None" by (auto simp: space_at_def find_None_iff)
  have "trim_left s = s" using l by (cases "length s") (simp_all add: trim_left_def)
  moreover have "trim_right s = s" using r by (cases "length s") (simp_all add: trim_right_def)
  ultimately show ?thesis by (simp add: trim_space_def)
qed

lemma no_scheme:
  assumes "CHR ''/'' \<notin> set h" and "CHR '':'' \<notin> set p" and "p = [] \<or> hd p \<noteq> CHR ''/''"
  shows "\<not> contains (h @ CHR ''/'' # p) ''://''"
proof
  assume "contains (h @ CHR ''/'' # p) ''://''"
  then obtain n where "prefix ''://'' (drop n (h @ CHR ''/'' # p))"
    unfolding contains_def list_ex_iff has_prefix_iff by blast
  then obtain t where t: "drop n (h @ CHR ''/'' # p) = CHR '':'' # CHR ''/'' # CHR ''/'' # t"
    unfolding prefix_def by force
  define a where "a = take n (h @ CHR ''/'' # p)"
  have e: "h @ CHR ''/'' # p = a @ CHR '':'' # CHR ''/'' # CHR ''/'' # t"
    unfolding a_def t [symmetric] by (rule append_take_drop_id [symmetric])
  have "takeWhile (\<lambda>d. d \<noteq> CHR ''/'') (h @ CHR ''/'' # p) = h" using assms(1) before_char_first by (simp add: before_char_def)
  moreover have "CHR ''/'' \<notin> set a" using assms(1,2) e by (auto simp: append_eq_append_conv2 append_eq_Cons_conv Cons_eq_append_conv)
  then have "takeWhile (\<lambda>d. d \<noteq> CHR ''/'') (a @ CHR '':'' # CHR ''/'' # CHR ''/'' # t) = a @ [CHR '':'']"
    using before_char_first [of "CHR ''/''" "a @ [CHR '':'']" "CHR ''/'' # t"] by (simp add: before_char_def)
  ultimately have "h = a @ [CHR '':'']" using e by simp
  then show False using e assms(3) by simp
qed

definition explicit_host :: "string \<Rightarrow> bool" where
  "explicit_host h \<longleftrightarrow> contains_any h ''.:'' \<or> h = ''localhost''"

lemma join_host_plain:
  "set name \<subseteq> name_chars \<Longrightarrow> list_all is_digit port \<Longrightarrow>
   CHR ''/'' \<notin> set (join_host name port) \<and> list_all plain_char (join_host name port)"
proof -
  assume n: "set name \<subseteq> name_chars" and p: "list_all is_digit port"
  have c: "plain_char c \<and> c \<noteq> CHR ''/''" if "c \<in> name_chars" for c
    using name_chars_plain [OF that] by (simp add: plain_char_def)
  have "plain_char c \<and> c \<noteq> CHR ''/''" if "c \<in> set name \<union> set port" for c
    using that n digit_chars [OF p] c by blast
  moreover have "list_all (\<lambda>c. plain_char c \<and> c \<noteq> CHR ''/'') ''[]:''" by code_simp
  ultimately show ?thesis by (auto simp: join_host_def list_all_iff)
qed

lemma image_path_plain: "image_path p \<Longrightarrow> list_all plain_char p \<and> CHR '':'' \<notin> set p \<and> p \<noteq> [] \<and> hd p \<noteq> CHR ''/''"
proof -
  assume p: "image_path p"
  have "CHR '':'' \<notin> set (lower_letters @ digits @ ''._-/'')" "CHR ''/'' \<notin> set (lower_letters @ digits)"
    by (simp_all add: lower_letters_def digits_def)
  then show ?thesis using p image_path_chars [of False p] image_path_first [of p] plain_alphabet
    unfolding image_path_def list_all_iff by fastforce
qed

lemma canonical_image_parts:
  assumes "canonical_image raw = Some r"
  obtains h p where "r = h @ CHR ''/'' # p" "image_path p" "canonical_host h = Some h"
    "CHR ''/'' \<notin> set h" "list_all plain_char r"
proof -
  obtain h p where r: "r = h @ CHR ''/'' # p" and p: "image_path p" and h: "\<exists>h0. canonical_host h0 = Some h"
    using assms by (auto simp: canonical_image_def Let_def split: if_splits)
  obtain name port where n: "h = join_host name port" "set name \<subseteq> name_chars" "list_all is_digit port"
    using h canonical_host_parts by metis
  have "canonical_host h = Some h" using h canonical_host_again by blast
  moreover have "CHR ''/'' \<notin> set h" "list_all plain_char r"
    using join_host_plain [OF n(2,3)] image_path_plain [OF p] plain_alphabet n(1) r by auto
  ultimately show thesis using that r p by blast
qed

lemma canonical_plain: "canonical_image raw = Some r \<Longrightarrow> list_all plain_char r"
  by (erule canonical_image_parts)

lemma canonical_image_again:
  assumes "canonical_image raw = Some r"
  shows "canonical_image r = (if length r \<le> 512 \<and> explicit_host (before_char CHR ''/'' r) then Some r else None)"
proof (rule canonical_image_parts [OF assms])
  fix h p
  assume r: "r = h @ CHR ''/'' # p" and p: "image_path p" and h: "canonical_host h = Some h"
    and plain: "CHR ''/'' \<notin> set h" "list_all plain_char r"
  have any: "\<not> contains_any r [CHR ''@'', CHR ''?'', CHR ''#'', CHR 0x5C, CHR 0x00, CHR 0x0D, CHR 0x0A, CHR 0x09]"
    using plain(2) by (auto simp: contains_any_def list_ex_iff list_all_iff plain_char_def)
  have parts: "before_char CHR ''/'' r = h" "after_char CHR ''/'' r = p"
    using plain(1) by (simp_all add: r before_char_first after_char_first)
  have "\<not> contains r ''://''" using no_scheme [OF plain(1)] image_path_plain [OF p] r by simp
  moreover have "CHR ''/'' \<in> set r" "r \<noteq> []" by (simp_all add: r)
  ultimately show ?thesis using any trim_plain [OF plain(2)] p h
    by (simp add: canonical_image_def parts explicit_host_def Let_def) (auto simp: r)
qed

text \<open>A repository that the normalisation gives back unchanged.\<close>

definition settled_repository :: "string \<Rightarrow> bool" where
  "settled_repository r \<longleftrightarrow> length r \<le> 512 \<and> explicit_host (before_char CHR ''/'' r)"

text \<open>C35. The canonical form of an image repository (\<open>CanonicalImageRepository\<close>) is a fixed point of the
  normalisation exactly when its host is explicit (it has a point or a colon, or is localhost) and it
  fits in 512 bytes. Every other canonical form is refused when it is read again: the default port is
  dropped after the test for an explicit host.\<close>
theorem canonical_form_again:
  assumes "canonical_image raw = Some r"
  shows "canonical_image r = (if settled_repository r then Some r else None)"
  using canonical_image_again [OF assms] by (simp add: settled_repository_def)

theorem canonical_form_again_witness:
  "canonical_image ''GHCR.io:443/team/app'' = Some ''ghcr.io/team/app'' \<and>
   canonical_image ''ghcr.io/team/app'' = Some ''ghcr.io/team/app'' \<and>
   canonical_image ''registry:443/app'' = Some ''registry/app'' \<and> canonical_image ''registry/app'' = None"
proof -
  have a: "canonical_image ''GHCR.io:443/team/app'' = Some ''ghcr.io/team/app''"
    and b: "canonical_image ''registry:443/app'' = Some ''registry/app''"
    and c: "settled_repository ''ghcr.io/team/app''" "\<not> settled_repository ''registry/app''" by code_simp+
  show ?thesis using canonical_form_again [OF a] canonical_form_again [OF b] a b c by simp
qed

end
