(* ===== verification/GraphProperties.thy ===== *)
theory GraphProperties
  imports RegistryClosures
begin

text \<open>The properties of admitted registry graphs: what a complete root and a content proof guarantee, the
  closure search, and the normal form.\<close>

section \<open>Complete roots\<close>

text \<open>C23. In a graph that \<open>ValidateRegistryGraph\<close> accepts, everything reachable from a root recorded as
  COMPLETE is a valid node, present in the registry, and at most 32 edges away: the closure loop leaves
  nothing out although it visits every digest once.\<close>

theorem complete_root_reaches_present:
  assumes "valid_graph g v l known" and "r \<in> set (rgRoots v)" and "rrClosure r = ''COMPLETE''"
    and "(rrDigest r, d) \<in> (set (graph_arcs v))\<^sup>*"
  shows "(\<exists>n. node_at v d = Some n \<and> rnAvailability n = ''PRESENT'' \<and> valid_node l n) \<and>
    (\<exists>k\<le>32. (rrDigest r, d) \<in> set (graph_arcs v) ^^ k)"
proof -
  have root: "valid_root l v r" and l: "rlMaxDepth l \<le> 32" and nodes: "list_all (valid_node l) (rgNodes v)"
    using assms(1,2) by (simp_all add: valid_graph_def list_all_iff valid_limits_def)
  let ?items = "closure (graph_arcs v) [(rrDigest r, 0)] []"
  have items: "list_all (closure_item_ok l v r) ?items" using root by (simp add: valid_root_def)
  then have "list_all (\<lambda>(d, n). n \<le> 32) ?items" using l by (fastforce simp: list_all_iff closure_item_ok_def Let_def)
  then have depth: "\<exists>k\<le>32. (rrDigest r, d) \<in> set (graph_arcs v) ^^ k" by (rule closure_within [OF _ assms(4)])
  have "d \<in> set (reachable (graph_arcs v) (rrDigest r))" using assms(4) by (simp add: reachable_closure)
  then obtain n where "(d, n) \<in> set ?items" by (auto simp: reachable_def)
  then have "closure_item_ok l v r (d, n)" using items by (simp add: list_all_iff)
  then have p: "rnAvailability (case node_at v d of None \<Rightarrow> zero_RegistryNode | Some x \<Rightarrow> x) = ''PRESENT''"
    using assms(3) by (simp add: closure_item_ok_def Let_def)
  obtain x where x: "node_at v d = Some x" "rnAvailability x = ''PRESENT''"
    using p by (cases "node_at v d") (simp_all add: zero_RegistryNode_def)
  have "x \<in> set (rgNodes v)" using x(1) unfolding node_at_def by (rule find_last_Some_in)
  then have "valid_node l x" using nodes by (simp add: list_all_iff)
  then show ?thesis using x depth by blast
qed

text \<open>C34. The breadth-first search of \<open>registryReachable\<close> ends on every graph, cyclic ones included, visits no
  digest twice, and visits exactly the digests reachable over the edges.\<close>

theorem search_is_closure:
  "set (reachable es root) = {d. (root, d) \<in> (set es)\<^sup>*} \<and> distinct (reachable es root)"
  by (simp add: reachable_closure reachable_distinct)

section \<open>Content proofs\<close>

text \<open>The manifests of an image and the references among them.\<close>

definition manifest_arcs :: "RegistryImageContentManifest list \<Rightarrow> (string \<times> string) set" where
  "manifest_arcs ms = {(d, t). \<exists>m. manifest_of ms d = Some m \<and> t \<in> set (manifest_children m)}"

definition walked :: "RegistryImageContentManifest list \<Rightarrow> string list \<Rightarrow> string list \<Rightarrow> bool" where
  "walked ms seen seen' \<longleftrightarrow> set seen \<subseteq> set seen' \<and>
     (\<forall>d\<in>set seen' - set seen. manifest_of ms d \<noteq> None \<and> manifest_arcs ms `` {d} \<subseteq> set seen')"

lemma walked_refl: "walked ms s s"
  by (simp add: walked_def)

lemma walked_trans: "walked ms a b \<Longrightarrow> walked ms b c \<Longrightarrow> walked ms a c"
  unfolding walked_def by blast

lemma fold_walked:
  assumes "\<And>y s t. y \<in> set ys \<Longrightarrow> f y s = Some t \<Longrightarrow> walked ms s t \<and> y \<in> set t"
  shows "fold_option f ys s = Some t \<Longrightarrow> walked ms s t \<and> set ys \<subseteq> set t"
  using assms
proof (induction ys arbitrary: s)
  case (Cons y ys)
  then obtain u where u: "f y s = Some u" "fold_option f ys u = Some t" by (auto split: option.splits)
  have a: "walked ms s u" "y \<in> set u" using Cons.prems(2) [OF _ u(1)] by simp_all
  have b: "walked ms u t" "set ys \<subseteq> set t" using Cons.IH [OF u(2)] Cons.prems(2) by auto
  show ?case using a b walked_trans [OF a(1) b(1)] by (auto simp: walked_def)
qed (simp add: walked_refl)

lemma content_walk_walked: "content_walk n ms active d s = Some t \<Longrightarrow> walked ms s t \<and> d \<in> set t"
proof (induction n arbitrary: active d s t)
  case (Suc n)
  show ?case
  proof (cases "d \<in> set s")
    case True
    then show ?thesis using Suc.prems by (auto simp: walked_refl split: if_splits)
  next
    case False
    then obtain m u where m: "manifest_of ms d = Some m" "t = d # u"
      and u: "fold_option (content_walk n ms (d # active)) (manifest_children m) s = Some u"
      using Suc.prems by (auto split: if_splits option.splits)
    have "walked ms s u \<and> set (manifest_children m) \<subseteq> set u"
      by (rule fold_walked [OF _ u]) (rule Suc.IH)
    then show ?thesis using m by (auto simp: walked_def manifest_arcs_def)
  qed
qed simp

lemma content_walk_reaches:
  assumes "content_walk n ms active d [] = Some t" and "(d, x) \<in> (manifest_arcs ms)\<^sup>*"
  shows "x \<in> set t \<and> manifest_of ms x \<noteq> None"
proof -
  have w: "walked ms [] t" "d \<in> set t" using content_walk_walked [OF assms(1)] by simp_all
  have "x \<in> set t" using assms(2)
  proof (induction rule: rtrancl_induct)
    case base
    show ?case by (rule w(2))
  next
    case (step y z)
    then show ?case using w(1) by (auto simp: walked_def)
  qed
  then show ?thesis using w(1) by (auto simp: walked_def)
qed

text \<open>The edges that a pull of an image follows.\<close>

definition pull_arcs :: "RegistryGraph \<Rightarrow> (string \<times> string) set" where
  "pull_arcs v = set (map (\<lambda>e. (reFrom e, reTo e)) (filter (\<lambda>e. reKind e \<in> set content_kinds) (rgEdges v)))"

lemma kind_no_nul: "k \<in> set content_kinds \<Longrightarrow> CHR 0x00 \<notin> set k"
  by (auto simp: content_kinds_def)

lemma pull_key_unique:
  assumes "edge_key g d = edge_key g e" and "sha256_digest (reFrom d)" and "sha256_digest (reFrom e)"
    and "sha256_digest (reTo d)" and "sha256_digest (reTo e)"
    and "reKind d \<in> set content_kinds" and "reKind e \<in> set content_kinds"
  shows "reTo d = reTo e \<and> reKind d = reKind e"
proof -
  have "reFrom d @ CHR 0x00 # (reTo d @ CHR 0x00 # (reKind d @ CHR 0x00 # gePlatformHash g (rePlatform d))) =
      reFrom e @ CHR 0x00 # (reTo e @ CHR 0x00 # (reKind e @ CHR 0x00 # gePlatformHash g (rePlatform e)))"
    using assms(1) by (simp add: edge_key_def)
  note 1 = split_at_unique [OF digest_no_nul [OF assms(2)] digest_no_nul [OF assms(3)] this]
  note 2 = split_at_unique [OF digest_no_nul [OF assms(4)] digest_no_nul [OF assms(5)] conjunct2 [OF 1]]
  note 3 = split_at_unique [OF kind_no_nul [OF assms(6)] kind_no_nul [OF assms(7)] conjunct2 [OF 2]]
  show ?thesis using 2 3 by blast
qed

lemma node_at_valid:
  "list_all (valid_node l) (rgNodes v) \<Longrightarrow> node_at v d = Some n \<Longrightarrow> rnDigest n = d \<and> valid_node l n \<and> sha256_digest d"
  using find_last_Some_in [of "\<lambda>n. rnDigest n = d" "rgNodes v" n] find_last_Some_prop [of "\<lambda>n. rnDigest n = d" "rgNodes v" n]
  unfolding node_at_def list_all_iff by (auto simp: valid_node_def)

text \<open>What a pull edge of a listed manifest leads to.\<close>

lemma manifest_edge:
  assumes g: "list_all (valid_node l) (rgNodes v)" "list_all (valid_edge v) (rgEdges v)"
    and m: "content_manifest_ok g l v m" and e: "e \<in> set (rgEdges v)" "reKind e \<in> set content_kinds" "reFrom e = icmDigest m"
  shows "(\<exists>t. node_at v (reTo e) = Some t \<and> rnAvailability t = ''PRESENT'' \<and>
    (reTo e \<in> set (manifest_children m) \<or> rnKind t = ''BLOB''))"
proof -
  have "edge_key g e \<in> set (outgoing_keys g v (icmDigest m))" using e by (auto simp: outgoing_keys_def)
  then have "edge_key g e \<in> set (map (descriptor_key g m) (icmDescriptors m))"
    using m by (simp add: content_manifest_ok_def)
  then obtain d where d: "d \<in> set (icmDescriptors m)" "edge_key g e = descriptor_key g m d" by auto
  have ok: "descriptor_ok g v m d" using m d(1) by (simp add: content_manifest_ok_def list_all_iff)
  obtain t where t: "node_at v (icdDigest d) = Some t" "rnAvailability t = ''PRESENT''" "sha256_digest (icdDigest d)"
    "icdKind d = ''CHILD'' \<or> icdKind d \<in> {''CONFIG'', ''LAYER''} \<and> rnKind t = ''BLOB''"
    using ok by (auto simp: descriptor_ok_def split: option.splits if_splits)
  have "valid_edge v e" using g(2) e(1) by (simp add: list_all_iff)
  then obtain a b where n: "node_at v (reFrom e) = Some a" "node_at v (reTo e) = Some b"
    by (auto simp: valid_edge_def split: option.splits)
  have sha: "sha256_digest (reFrom e)" "sha256_digest (reTo e)" using node_at_valid [OF g(1)] n by blast+
  have "reTo e = icdDigest d \<and> reKind e = icdKind d"
    using pull_key_unique [OF d(2) [unfolded descriptor_key_def]] sha t(3,4) e(2,3) by (auto simp: content_kinds_def)
  then show ?thesis using t d(1) by (auto simp: manifest_children_def)
qed

text \<open>C22. When \<open>RegistryImageContentProofHash\<close> returns a hash for a digest, every manifest, configuration and
  layer reachable from it over the pull edges (CHILD, CONFIG, LAYER) is a node of the graph and present.\<close>

theorem proven_image_is_present:
  assumes "content_proof_hash g v l requested d = Inr h" and "(d, x) \<in> (pull_arcs v)\<^sup>*"
  shows "\<exists>n. node_at v x = Some n \<and> rnAvailability n = ''PRESENT''"
proof -
  have valid: "valid_graph g v l requested" and "\<exists>r. find (\<lambda>r. icrDigest r = d \<and> icrClosure r = ''COMPLETE'') (rgImageContentRoots v) = Some r"
    using assms(1) by (auto simp: content_proof_hash_def split: if_splits option.splits)
  then obtain r where f: "find (\<lambda>r. icrDigest r = d \<and> icrClosure r = ''COMPLETE'') (rgImageContentRoots v) = Some r" by blast
  have r: "icrDigest r = d" "icrClosure r = ''COMPLETE''" "r \<in> set (rgImageContentRoots v)"
    using find_Some_prop [OF f] find_Some_in [OF f] by simp_all
  have "complete_content_ok g l v r"
  proof -
    have c: "valid_content g l v requested" "rgImageContentRoots v \<noteq> []" using valid r(3) by (auto simp: valid_graph_def)
    then have "length (rgImageContentRoots v) = length (sorted_unique requested)"
      "list_all (content_root_ok g l v) (zip (sorted_unique requested) (rgImageContentRoots v))"
      by (simp_all add: valid_content_def Let_def)
    then obtain y where "content_root_ok g l v (y, r)"
      using r(3) by (metis in_set_impl_in_set_zip2 list_all_iff)
    then show ?thesis using r(2) by (simp add: content_root_ok_def)
  qed
  then obtain seen where w: "content_walk (nat (rlMaxDepth l) + 1) (icrManifests r) [] d [] = Some seen"
    and ms: "list_all (content_manifest_ok g l v) (icrManifests r)"
    using r(1) by (auto simp: complete_content_ok_def split: option.splits)
  have g: "list_all (valid_node l) (rgNodes v)" "list_all (valid_edge v) (rgEdges v)"
    using valid by (simp_all add: valid_graph_def)
  have listed: "\<exists>m. manifest_of (icrManifests r) y = Some m \<and> content_manifest_ok g l v m \<and> icmDigest m = y" if "y \<in> set seen" for y
  proof -
    have "walked (icrManifests r) [] seen" using content_walk_walked [OF w] by simp
    then have "manifest_of (icrManifests r) y \<noteq> None" using that by (simp add: walked_def)
    then obtain m where m: "manifest_of (icrManifests r) y = Some m" by blast
    then have "m \<in> set (icrManifests r)" "icmDigest m = y"
      unfolding manifest_of_def by (rule find_Some_in) (rule find_Some_prop [OF m [unfolded manifest_of_def]])
    then show ?thesis using m ms by (simp add: list_all_iff)
  qed
  have closed: "manifest_arcs (icrManifests r) `` {y} \<subseteq> set seen" if "y \<in> set seen" for y
    using content_walk_walked [OF w] that by (auto simp: walked_def)
  have "\<exists>n. node_at v x = Some n \<and> rnAvailability n = ''PRESENT'' \<and> (x \<in> set seen \<or> rnKind n = ''BLOB'')"
    using assms(2)
  proof (induction rule: rtrancl_induct)
    case base
    have "d \<in> set seen" using content_walk_walked [OF w] by simp
    then show ?case using listed by (fastforce simp: content_manifest_ok_def split: option.splits)
  next
    case (step y z)
    obtain e where e: "e \<in> set (rgEdges v)" "reKind e \<in> set content_kinds" "reFrom e = y" "reTo e = z"
      using step(2) by (auto simp: pull_arcs_def)
    obtain n where n: "node_at v y = Some n" "y \<in> set seen \<or> rnKind n = ''BLOB''" using step(3) by blast
    have "valid_edge v e" using g(2) e(1) by (simp add: list_all_iff)
    then have "rnKind n \<noteq> ''BLOB''"
      using e n(1) by (auto simp: valid_edge_def edge_kinds_ok_def content_kinds_def split: option.splits)
    then have y: "y \<in> set seen" using n(2) by simp
    then obtain m where m: "manifest_of (icrManifests r) y = Some m" "content_manifest_ok g l v m" "icmDigest m = y"
      using listed by blast
    obtain t where t: "node_at v z = Some t" "rnAvailability t = ''PRESENT''" "z \<in> set (manifest_children m) \<or> rnKind t = ''BLOB''"
      using manifest_edge [OF g m(2) e(1,2)] unfolding e(3,4) m(3) by blast
    have "z \<in> set (manifest_children m) \<Longrightarrow> z \<in> set seen"
      using closed [OF y] m(1) by (auto simp: manifest_arcs_def)
    then show ?case using t by blast
  qed
  then show ?thesis by blast
qed

section \<open>The normal form\<close>

lemma sorted_graph_lists:
  assumes "distinct (map f xs)" and "distinct (map f ys)" and "set xs = set ys"
  shows "sort_key f xs = sort_key f ys"
  using assms map_sorted_distinct_set_unique [of f "sort_key f xs" "sort_key f ys"]
  by (simp add: distinct_map inj_on_def)

theorem normal_form_ignores_order:
  assumes "normalize_graph g v = Inr n" and "normalize_graph g w = Inr n'"
    and "set (rgNodes v) = set (rgNodes w)" and "set (rgEdges v) = set (rgEdges w)" and "set (rgRoots v) = set (rgRoots w)"
    and "set (rgBlockers v) = set (rgBlockers w)"
    and "w\<lparr>rgNodes := rgNodes v, rgEdges := rgEdges v, rgRoots := rgRoots v, rgBlockers := rgBlockers v\<rparr> = v"
  shows "n = n' \<and> graph_hash g v = graph_hash g w"
proof -
  have d: "distinct (map rnDigest (rgNodes v))" "distinct (map rnDigest (rgNodes w))"
    "distinct (map (edge_key g) (rgEdges v))" "distinct (map (edge_key g) (rgEdges w))"
    "distinct (map rrDigest (rgRoots v))" "distinct (map rrDigest (rgRoots w))"
    and n: "n = sorted_graph g v" "n' = sorted_graph g w"
    using assms(1,2) by (auto simp: normalize_graph_def chain_simps split: sum.splits)
  note rest = arg_cong [OF assms(7), of rgImageContentRoots, simplified, symmetric]
    arg_cong [OF assms(7), of rgTagCount, simplified, symmetric] arg_cong [OF assms(7), of rgTagSetHash, simplified, symmetric]
    arg_cong [OF assms(7), of rgDiscovery, simplified, symmetric] arg_cong [OF assms(7), of rgGraphHash, simplified, symmetric]
    arg_cong [OF assms(7), of rgGlobalInventoryComplete, simplified, symmetric]
  have "sorted_graph g v = sorted_graph g w"
    using sorted_graph_lists [OF d(1,2) assms(3)] sorted_graph_lists [OF d(3,4) assms(4)]
      sorted_graph_lists [OF d(5,6) assms(5)] sorted_unique_cong [OF assms(6)]
    unfolding sorted_graph_def by (intro RegistryGraph.equality) (simp_all add: rest)
  then show ?thesis using n assms(1,2) by (simp add: graph_hash_def)
qed

section \<open>An image with its configuration\<close>

definition digest_of :: "char \<Rightarrow> string" where
  "digest_of c = ''sha256:'' @ replicate 64 c"

definition sample_env :: GraphEnv where
  "sample_env = \<lparr>gePlatformHash = \<lambda>_. [], geGraphHash = \<lambda>_. ''hash'', geGraphSize = \<lambda>_. 1000, geDescriptorHash = \<lambda>_. ''list'',
     geContentHash = \<lambda>_. ''proof'', geReportSize = \<lambda>_. 1000, geRootSetHash = \<lambda>_ _ _ _ _ _. ''roots''\<rparr>"

definition sample_limits :: RegistryObserveLimits where
  "sample_limits = \<lparr>rlMaxResponseBytes = 4096, rlMaxTotalBytes = 8192, rlMaxNodes = 8, rlMaxEdges = 8, rlMaxDepth = 4,
     rlMaxPages = 2, rlMaxRequests = 16, rlTimeoutSeconds = 60\<rparr>"

definition sample_manifest :: RegistryImageContentManifest where
  "sample_manifest = \<lparr>icmDigest = digest_of CHR ''1'', icmKind = ''MANIFEST'',
     icmMediaType = ''application/vnd.oci.image.manifest.v1+json'', icmSize = 10, icmDescriptorCount = 1,
     icmDescriptorHash = ''list'', icmDescriptors = [\<lparr>icdDigest = digest_of CHR ''2'', icdKind = ''CONFIG'',
       icdMediaType = ''application/vnd.oci.image.config.v1+json'', icdSize = 5, icdPlatform = None\<rparr>]\<rparr>"

definition sample_edge :: RegistryEdge where
  "sample_edge = \<lparr>reFrom = digest_of CHR ''1'', reTo = digest_of CHR ''2'', reKind = ''CONFIG'', rePlatform = None\<rparr>"

definition sample_graph :: RegistryGraph where
  "sample_graph =
     \<lparr>rgImageContentRoots = [\<lparr>icrDigest = digest_of CHR ''1'', icrClosure = ''COMPLETE'', icrManifests = [sample_manifest],
        icrHash = ''proof''\<rparr>],
      rgNodes =
        [\<lparr>rnDigest = digest_of CHR ''1'', rnKind = ''MANIFEST'', rnMediaType = ''application/vnd.oci.image.manifest.v1+json'',
          rnAvailability = ''PRESENT'', rnSize = 10\<rparr>,
         \<lparr>rnDigest = digest_of CHR ''2'', rnKind = ''BLOB'', rnMediaType = ''application/vnd.oci.image.config.v1+json'',
          rnAvailability = ''PRESENT'', rnSize = 5\<rparr>],
      rgEdges = [sample_edge], rgRoots = [\<lparr>rrDigest = digest_of CHR ''1'', rrClosure = ''COMPLETE'', rrBlockers = []\<rparr>],
      rgTagCount = 1, rgTagSetHash = digest_of CHR ''3'', rgDiscovery = ''COMPLETE'', rgGlobalInventoryComplete = False,
      rgBlockers = [''registry_global_inventory_unproven''], rgGraphHash = ''hash''\<rparr>"

lemma sample_arc: "(digest_of CHR ''1'', digest_of CHR ''2'') \<in> set (graph_arcs sample_graph) \<and>
    (digest_of CHR ''1'', digest_of CHR ''2'') \<in> pull_arcs sample_graph"
  by (simp add: graph_arcs_def pull_arcs_def sample_graph_def sample_edge_def content_kinds_def)

lemma sample_graph_valid: "valid_graph sample_env sample_graph sample_limits [digest_of CHR ''1'']"
  by code_simp

theorem complete_root_reaches_present_witness:
  "\<exists>n. node_at sample_graph (digest_of CHR ''2'') = Some n \<and> rnAvailability n = ''PRESENT''"
proof -
  let ?r = "\<lparr>rrDigest = digest_of CHR ''1'', rrClosure = ''COMPLETE'', rrBlockers = []\<rparr>"
  have r: "?r \<in> set (rgRoots sample_graph)" by (simp add: sample_graph_def)
  have "(rrDigest ?r, digest_of CHR ''2'') \<in> (set (graph_arcs sample_graph))\<^sup>*" using sample_arc by auto
  from complete_root_reaches_present [OF sample_graph_valid r _ this] show ?thesis by auto
qed

theorem proven_image_is_present_witness:
  "content_proof_hash sample_env sample_graph sample_limits [digest_of CHR ''1''] (digest_of CHR ''1'') = Inr ''proof'' \<and>
   (\<exists>n. node_at sample_graph (digest_of CHR ''2'') = Some n \<and> rnAvailability n = ''PRESENT'')"
proof -
  have h: "content_proof_hash sample_env sample_graph sample_limits [digest_of CHR ''1''] (digest_of CHR ''1'') = Inr ''proof''"
    using sample_graph_valid by (simp add: content_proof_hash_def) (simp add: sample_graph_def)
  have "(digest_of CHR ''1'', digest_of CHR ''2'') \<in> (pull_arcs sample_graph)\<^sup>*" using sample_arc by blast
  from proven_image_is_present [OF h this] h show ?thesis by blast
qed

end
