(* ===== verification/RetentionProperties.thy ===== *)
theory RetentionProperties
  imports RetentionGuards RegistrySummaries ImageNameLemmas GraphProperties
begin

text \<open>
  The properties of the retention evaluator: every kind of root is protected in the report, the report is
  well formed, never allows a deletion, and its protected objects are the closure of its images.
\<close>

section \<open>Roots\<close>

lemma snapshot_guarded:
  assumes "image_key (frozen_repo x s) d = Some (key, r)" and "reason \<noteq> []"
  shows "guarded key reason (snapshot x s d reason c)"
proof -
  have "d \<noteq> []" using assms(1) by (auto simp: image_key_Some sha256_digest_def)
  then show ?thesis
    using image_guarded [OF assms] collects_guarded [OF collects_add [OF collects_refl]]
    by (simp add: snapshot_def Let_def)
qed

lemma snapshots_guarded:
  assumes "(s, d) \<in> set sds" and "image_key (frozen_repo x s) d = Some (key, r)" and "reason \<noteq> []"
  shows "guarded key reason (snapshots x sds reason c)"
  unfolding snapshots_def using assms(1)
  by (rule fold_guard) (auto intro: collecting snapshot_guarded [OF assms(2,3)] split: prod.splits)









text \<open>\<open>EvaluateRetention\<close> protects the image of every pin of the product that has not been released, for the
  reason of its purpose, whatever the rest of the state says.\<close>

theorem active_pin_protected:
  assumes "evaluate_retention g x as = Inr rep"
    and "p \<in> set (stArtifactPins (rxState x))" and "mProductID (apnMeta p) = rxProduct x" and "apnReleasedAt p = None"
    and "image_key (apnImageRepository p) (apnDigest p) = Some (key, r)"
  shows "protected_in rep key (''pin:'' @ apnPurpose p)"
proof -
  have "guarded key (''pin:'' @ apnPurpose p) (pin_root x p c)" for c
    using assms(3,4) image_guarded [OF assms(5)] by (simp add: pin_root_def)
  then have "guarded key (''pin:'' @ apnPurpose p) (pin_roots x c)" for c
    using pin_source.rows_guard [OF assms(2)] by (simp add: pin_roots_def)
  then show ?thesis using pins_stage [of x] guarded_report [OF assms(1)] by blast
qed

theorem unknown_publication_protected:
  assumes "evaluate_retention g x as = Inr rep"
    and "a \<in> set (stDeliveryArtifacts (rxState x))" and "mProductID (daMeta a) = rxProduct x"
    and "chronology x a = None" and "image_key (artifact_repo x a) (daDigest a) = Some (key, r)"
  shows "protected_in rep key ''unknown_publication_chronology''"
proof -
  have row: "guarded key ''unknown_publication_chronology'' (snd (artifact_row x a (pubs, c)))" for pubs c
  proof -
    have i: "image (artifact_repo x a) (daDigest a) (daApplicationID a) [] c =
        (Some key, add_image (artifact_repo x a) (daDigest a) (daApplicationID a) [] c)"
      using assms(5) by (simp add: image_def add_image_def Let_def)
    have "image_at (add_image (artifact_repo x a) (daDigest a) (daApplicationID a) [] c) key \<noteq> None"
      using image_present [OF assms(5)] .
    then show ?thesis using assms(3,4)
      by (auto simp: artifact_row_def i Let_def guarded_def image_at_on_image unknown_chronology_def)
  qed
  obtain us vs where as: "stDeliveryArtifacts (rxState x) = us @ a # vs" using assms(2) by (meson split_list)
  have "guarded key ''unknown_publication_chronology'' (snd (artifact_rows x c))" for c
  proof -
    define pc where "pc = fold (artifact_row x) us ([], c)"
    have "guarded key ''unknown_publication_chronology'' (snd (artifact_row x a pc))" using row [of "fst pc" "snd pc"] by simp
    then show ?thesis
      using collects_guarded [OF collects_artifact_rows [OF collects_refl]] by (simp add: artifact_rows_def as pc_def)
  qed
  then have "guarded key ''unknown_publication_chronology'' (artifacts x c)" for c
    using collects_guarded [OF artifacts_after_rows] by blast
  then show ?thesis using artifacts_stage guarded_report [OF assms(1)] by blast
qed

text \<open>C3. A publication with a known time is protected when fewer than the effective \<open>KeepLast\<close> of the publications
  of its component and profile are newer (ties by image name); without a policy of the component that number is ten.\<close>

theorem recent_publication_protected:
  assumes "evaluate_retention g x as = Inr rep" and "p \<in> set (publications x)"
    and "length (filter (newer_publication p) (publications x)) < nat (keep_of (effective_policies x) (pbApp p))"
  shows "protected_in rep (pbImage p) (keep_reason p)"
proof -
  have k: "p \<in> set (kept (effective_policies x) (publications x) (pbApp p, pbProfile p))"
    by (rule kept_publication [OF publications_distinct assms(2,3)])
  have g: "(pbApp p, pbProfile p) \<in> set (pub_groups (publications x))"
    using assms(2) by (force simp: pub_groups_def)
  define c where "c = snd (artifact_rows x (first_collector x))"
  have c: "artifact_rows x (first_collector x) = (publications x, c)" "clPolicies c = effective_policies x"
    using artifact_rows_publications [of x "first_collector x"] collects_policies [OF collects_artifact_rows [OF collects_refl]]
    by (simp_all add: c_def prod_eq_iff artifact_rows_def first_collector_def)
  have "image_at c (pbImage p) \<noteq> None" unfolding c_def by (rule publication_image [OF assms(2)])
  moreover have "p \<in> set (concat (map (kept (clPolicies c) (publications x)) (pub_groups (publications x))))"
    using k g c(2) by auto
  ultimately have "guarded (pbImage p) (keep_reason p) (artifacts x (first_collector x))"
    unfolding artifacts_def c(1) prod.case by (intro fold_protects [where k = pbImage and f = keep_reason])
  then show ?thesis using artifacts_stage guarded_report [OF assms(1)] by blast
qed

section \<open>Releases\<close>

lemma release_extra_least: "1 \<le> release_extra ps os"
proof -
  have "1 \<le> n \<Longrightarrow> 1 \<le> fold (\<lambda>p extra. if list_ex (\<lambda>o'. opApplicationID o' = polApplicationID p) os \<and> extra < polKeepPrevious p
      then polKeepPrevious p else extra) ps n" for n
    by (induction ps arbitrary: n) auto
  then show ?thesis by (simp add: release_extra_def)
qed

lemma release_group_guarded:
  assumes "n < length (newest_releases rs)" and "int n \<le> rrExtra (newest_releases rs ! n)"
    and "o' \<in> set (rrChildren (newest_releases rs ! n))" and "opSnapshot o' = Some s" and "opArtifact o' = Some a"
    and "image_key (frozen_repo x s) (arrDigest a) = Some (key, r)"
  shows "guarded key (release_reason n) (release_group x rs c)"
  unfolding release_group_def
proof (rule fold_guard [where y = "(n, newest_releases rs ! n)"])
  show "(n, newest_releases rs ! n) \<in> set (enumerate 0 (newest_releases rs))"
    using assms(1) by (simp add: in_set_enumerate_eq)
  have "release_reason n \<noteq> []" by (simp add: release_reason_def)
  moreover have "(s, arrDigest a) \<in> set (concat (map (\<lambda>o'. case (opSnapshot o', opArtifact o') of
      (Some s, Some a) \<Rightarrow> [(s, arrDigest a)] | _ \<Rightarrow> []) (rrChildren (newest_releases rs ! n))))"
    using assms(3-5) by (auto intro!: bexI [of _ o'])
  ultimately show "guarded key (release_reason n) ((case (n, newest_releases rs ! n) of (n, r) \<Rightarrow> \<lambda>c. if int n \<le> rrExtra r
      then snapshots x (concat (map (\<lambda>o'. case (opSnapshot o', opArtifact o') of
        (Some s, Some a) \<Rightarrow> [(s, arrDigest a)] | _ \<Rightarrow> []) (rrChildren r))) (release_reason n) c else c) c)" for c
    using snapshots_guarded [OF _ assms(6)] assms(2) by (simp only: prod.case if_True)
qed (intro collecting)

lemma release_extra_bounds:
  assumes "p \<in> set ps" and "list_ex (\<lambda>o'. opApplicationID o' = polApplicationID p) os"
  shows "polKeepPrevious p \<le> release_extra ps os"
proof -
  define f :: "EffectiveRetentionPolicy \<Rightarrow> int \<Rightarrow> int" where "f = (\<lambda>p extra. if list_ex (\<lambda>o'. opApplicationID o' = polApplicationID p) os \<and> extra < polKeepPrevious p
    then polKeepPrevious p else extra)"
  have grow: "n \<le> fold f qs n" for n qs
  proof (induction qs arbitrary: n)
    case (Cons q qs)
    have "n \<le> f q n" by (simp add: f_def)
    then show ?case using Cons.IH [of "f q n"] by simp
  qed simp
  obtain us vs where ps: "ps = us @ p # vs" using assms(1) by (meson split_list)
  have "polKeepPrevious p \<le> f p (fold f us 1)" using assms(2) by (simp add: f_def)
  then show ?thesis using grow [of "f p (fold f us 1)" vs] by (simp add: release_extra_def ps f_def [symmetric])
qed

text \<open>The proven production releases of the product, and those of them that come before a release in its scope.\<close>

definition production_releases :: "RetentionCtx \<Rightarrow> retained_release list" where
  "production_releases x = retained_releases x (effective_policies x)"

definition newer_releases :: "RetentionCtx \<Rightarrow> retained_release \<Rightarrow> retained_release list" where
  "newer_releases x r = filter (\<lambda>q. rrScope q = rrScope r \<and> (rrAt r < rrAt q \<or> rrAt q = rrAt r \<and> rrID q < rrID r)) (production_releases x)"

lemma retained_ids:
  assumes "distinct (map (\<lambda>v. mID (relMeta v)) (stReleases (rxState x)))"
  shows "distinct (map rrID (retained_releases x ps))"
proof -
  have id: "retained x ps v = Some q \<Longrightarrow> rrID q = mID (relMeta v)" for v q
    by (auto simp: retained_def Let_def split: option.splits if_splits)
  have sub: "set (map rrID (List.map_filter (retained x ps) vs)) \<subseteq> (\<lambda>v. mID (relMeta v)) ` set vs" for vs
    by (auto simp: map_filter_def id)
  have "distinct (map (\<lambda>v. mID (relMeta v)) vs) \<Longrightarrow> distinct (map rrID (List.map_filter (retained x ps) vs))" for vs
  proof (induction vs)
    case (Cons v vs)
    show ?case
    proof (cases "retained x ps v")
      case (Some q)
      have "mID (relMeta v) \<notin> set (map rrID (List.map_filter (retained x ps) vs))" using sub [of vs] Cons.prems by auto
      then show ?thesis using Cons Some id [OF Some] by (simp add: map_filter_simps)
    qed (use Cons in \<open>simp add: map_filter_simps\<close>)
  qed (simp add: map_filter_simps)
  then show ?thesis using assms by (simp add: retained_releases_def product_releases_def distinct_map_filter)
qed

lemma release_rank:
  assumes "distinct (map (\<lambda>v. mID (relMeta v)) (stReleases (rxState x)))" and "r \<in> set (production_releases x)"
    and "rs = newest_releases (filter (\<lambda>q. rrScope q = rrScope r) (production_releases x))"
  shows "length (newer_releases x r) < length rs \<and> rs ! length (newer_releases x r) = r"
proof -
  let ?N = "\<lambda>q. rrAt r < rrAt q \<or> rrAt q = rrAt r \<and> rrID q < rrID r"
  let ?G = "filter (\<lambda>q. rrScope q = rrScope r) (production_releases x)"
  have ids: "distinct (map rrID (production_releases x))" using retained_ids [OF assms(1)] by (simp add: production_releases_def)
  then have d: "distinct ?G" by (simp add: distinct_map)
  have rs: "set rs = set ?G" "distinct rs" using d by (simp_all add: assms(3) newest_releases_def)
  have "length (filter ?N rs) < length rs \<and> rs ! length (filter ?N rs) = r"
  proof (rule exact_rank)
    show "sorted_wrt (\<lambda>p q. - rrAt p < - rrAt q \<or> - rrAt p = - rrAt q \<and> rrID p \<le> rrID q) rs"
      unfolding assms(3) newest_releases_def by (rule sort_key_twice)
    fix q assume q: "q \<in> set rs"
    have "rrID q = rrID r \<Longrightarrow> q = r" using q ids assms(2) rs(1) by (auto simp: distinct_map inj_on_def)
    then show "q \<noteq> r \<Longrightarrow> - rrAt q < - rrAt r \<or> - rrAt q = - rrAt r \<and> rrID q \<le> rrID r \<Longrightarrow> ?N q" by (auto simp: order.order_iff_strict)
    show "q = r \<or> (- rrAt r < - rrAt q \<or> - rrAt r = - rrAt q \<and> rrID r \<le> rrID q) \<Longrightarrow> \<not> ?N q" by auto
  qed (use rs assms(2) in simp_all)
  moreover have "length (filter ?N rs) = length (newer_releases x r)"
  proof -
    have "length (filter ?N rs) = length (filter ?N ?G)"
      unfolding distinct_length_filter [OF d] distinct_length_filter [OF rs(2)] rs(1) ..
    then show ?thesis by (simp add: newer_releases_def conj_commute)
  qed
  ultimately show ?thesis by simp
qed

text \<open>The images a release deployed: a child of its promotion, for an application and digest it lists.\<close>

definition deployed_image :: "RetentionCtx \<Rightarrow> Release \<Rightarrow> string \<Rightarrow> bool" where
  "deployed_image x v key \<longleftrightarrow>
     (\<exists>parent o' s a r. op_of x (relExecutionOperationID v) = Some parent \<and> o' \<in> set (stOperations (rxState x)) \<and>
        mID (opMeta o') \<in> set (opChildIDs parent) \<and> opParentID o' = relExecutionOperationID v \<and>
        relExecutionOperationID v \<noteq> [] \<and> mProductID (opMeta o') = rxProduct x \<and>
        opSnapshot o' = Some s \<and> opArtifact o' = Some a \<and> (opApplicationID o', arrDigest a) \<in> set (relArtifactDigests v) \<and>
        image_key (frozen_repo x s) (arrDigest a) = Some (key, r))"

lemma map_filter_full: "length (List.map_filter f xs) = length xs \<Longrightarrow> y \<in> set xs \<Longrightarrow> f y \<noteq> None"
proof (induction xs)
  case (Cons z xs)
  have "length (List.map_filter f xs) \<le> length xs" by (simp add: map_filter_def)
  then show ?case using Cons by (auto simp: map_filter_simps split: option.splits)
qed simp

lemma map_filter_member: "f y = Some t \<Longrightarrow> y \<in> set xs \<Longrightarrow> t \<in> set (List.map_filter f xs)"
  by (induction xs) (auto simp: map_filter_simps split: option.splits)

lemma retained_children:
  assumes "retained x ps v = Some r"
  obtains parent where "op_of x (relExecutionOperationID v) = Some parent"
    "\<And>ad. ad \<in> set (relArtifactDigests v) \<Longrightarrow> \<exists>o' s. matched_children x parent v ad = [o'] \<and> opSnapshot o' = Some s \<and> o' \<in> set (rrChildren r)"
    "rrExtra r = release_extra ps (rrChildren r)"
proof -
  obtain parent where p: "op_of x (relExecutionOperationID v) = Some parent" "release_complete x parent v"
      "rrChildren r = map (fst \<circ> snd) (single_children x parent v)" "rrExtra r = release_extra ps (rrChildren r)"
    using assms by (auto simp: retained_def Let_def split: option.splits if_splits)
  have len: "length (single_children x parent v) = length (relArtifactDigests v)" using p(2) by (simp add: release_complete_def)
  have "\<exists>o' s. matched_children x parent v ad = [o'] \<and> opSnapshot o' = Some s \<and> o' \<in> set (rrChildren r)"
    if ad: "ad \<in> set (relArtifactDigests v)" for ad
  proof -
    let ?f = "\<lambda>ad. case matched_children x parent v ad of [o'] \<Rightarrow> map_option (\<lambda>s. (ad, o', s)) (opSnapshot o') | _ \<Rightarrow> None"
    obtain t where t: "?f ad = Some t" using map_filter_full [OF len [unfolded single_children_def] ad] by blast
    have "t \<in> set (single_children x parent v)" unfolding single_children_def using t ad by (rule map_filter_member)
    then show ?thesis using t by (force simp: p(3) split: list.splits)
  qed
  then show thesis using that p(1,4) by blast
qed

text \<open>C4. Consider the proven production releases to one scope (same components, targets, clusters and
  repositories), ordered by creation time, equal times by ID. The images that a release deployed are
  protected as \<open>production_current\<close> when no release of its scope is newer; as \<open>production_previous\<close> when exactly
  one is newer, or at most as many as the policy of one of its components keeps. Releases have unique IDs.\<close>

theorem production_release_protected:
  assumes "evaluate_retention g x as = Inr rep"
    and "distinct (map (\<lambda>v. mID (relMeta v)) (stReleases (rxState x)))"
    and "v \<in> set (stReleases (rxState x))" and "mProductID (relMeta v) = rxProduct x"
    and "retained x (effective_policies x) v = Some r" and "deployed_image x v key"
    and "length (newer_releases x r) \<le> 1 \<or>
      (\<exists>p\<in>set (effective_policies x). polApplicationID p \<in> fst ` set (relArtifactDigests v) \<and>
         int (length (newer_releases x r)) \<le> polKeepPrevious p)"
  shows "protected_in rep key (if newer_releases x r = [] then ''production_current'' else ''production_previous'')"
proof -
  define n where "n = length (newer_releases x r)"
  define rs where "rs = production_releases x"
  define row where "row = (\<lambda>s. release_group x (filter (\<lambda>r. rrScope r = s) rs))"
  have r: "r \<in> set rs"
    using assms(3-5) by (force simp: rs_def production_releases_def retained_releases_def map_filter_def product_releases_def)
  have rank: "n < length (newest_releases (filter (\<lambda>q. rrScope q = rrScope r) rs))"
      "newest_releases (filter (\<lambda>q. rrScope q = rrScope r) rs) ! n = r"
    using release_rank [OF assms(2) r [unfolded rs_def] refl] by (simp_all add: rs_def n_def)
  obtain parent where kids: "op_of x (relExecutionOperationID v) = Some parent" "rrExtra r = release_extra (effective_policies x) (rrChildren r)"
      "\<And>ad. ad \<in> set (relArtifactDigests v) \<Longrightarrow> \<exists>o' s. matched_children x parent v ad = [o'] \<and> opSnapshot o' = Some s \<and> o' \<in> set (rrChildren r)"
    by (rule retained_children [OF assms(5)]) blast
  obtain o' s a q where o': "o' \<in> set (matched_children x parent v (opApplicationID o', arrDigest a))"
      "(opApplicationID o', arrDigest a) \<in> set (relArtifactDigests v)" "opSnapshot o' = Some s" "opArtifact o' = Some a"
      "image_key (frozen_repo x s) (arrDigest a) = Some (key, q)"
    using assms(6) kids(1) by (auto simp: deployed_image_def matched_children_def release_children_def)
  then have child: "o' \<in> set (rrChildren r)" using kids(3) by fastforce
  have "int n \<le> rrExtra r"
  proof (cases "n \<le> 1")
    case True
    then show ?thesis using release_extra_least [of "effective_policies x" "rrChildren r"] by (simp add: kids(2))
  next
    case False
    then obtain p where p: "p \<in> set (effective_policies x)" "polApplicationID p \<in> fst ` set (relArtifactDigests v)" "int n \<le> polKeepPrevious p"
      using assms(7) n_def by auto
    then obtain d where "(polApplicationID p, d) \<in> set (relArtifactDigests v)" by auto
    then obtain k where k: "matched_children x parent v (polApplicationID p, d) = [k]" "k \<in> set (rrChildren r)" using kids(3) by blast
    then have "k \<in> set (matched_children x parent v (polApplicationID p, d))" by simp
    then have "opApplicationID k = polApplicationID p" by (auto simp: matched_children_def release_children_def)
    then show ?thesis using release_extra_bounds [OF p(1)] k(2) p(3) by (force simp: kids(2) list_ex_iff)
  qed
  then have "guarded key (release_reason n) (row (rrScope r) c)" for c
    unfolding row_def using rank child o'(3-5) by (intro release_group_guarded) simp_all
  moreover have "rrScope r \<in> set (remdups (map rrScope rs))" using r by force
  ultimately have g: "guarded key (release_reason n) (fold row (remdups (map rrScope rs)) c)" for c
    unfolding row_def by (intro release_source.rows_guard)
  obtain c where c: "clPolicies c = effective_policies x" "collects (releases x c) (evaluate x)"
    using releases_stage by blast
  have "guarded key (release_reason n) (releases x c)"
    using g by (simp add: releases_def Let_def c(1) rs_def production_releases_def row_def)
  then have "protected_in rep key (release_reason n)" using c(2) guarded_report [OF assms(1)] by blast
  then show ?thesis by (simp add: release_reason_def n_def)
qed

section \<open>The report\<close>

definition well_formed_image :: "RetentionImage \<Rightarrow> bool" where
  "well_formed_image v \<longleftrightarrow> imIdentity v = imImageRepository v @ ''@'' @ imDigest v \<and>
     (\<exists>raw. canonical_image raw = Some (imImageRepository v)) \<and> sha256_digest (imDigest v) \<and>
     (imProtected v \<longleftrightarrow> imReasons v \<noteq> []) \<and>
     sorted_wrt (<) (imReasons v) \<and> sorted_wrt (<) (imBlockers v) \<and> sorted_wrt (<) (imArtifactIDs v) \<and>
     sorted_wrt (<) (imApplicationIDs v) \<and> sorted_wrt (<) (imProfiles v)"

definition well_formed_report :: "RetentionReport \<Rightarrow> bool" where
  "well_formed_report rep \<longleftrightarrow>
     sorted_wrt (<) (map imIdentity (rptImages rep)) \<and> list_all well_formed_image (rptImages rep) \<and>
     sorted_wrt (<) (rptBlockers rep)"

lemma sorted_unique_nil [simp]: "sorted_unique xs = [] \<longleftrightarrow> xs = []"
  using sorted_unique_set [of xs] by (metis set_empty)

lemma tidy_well_formed: "key_ok (k, v) \<Longrightarrow> well_formed_image (tidy_image v) \<and> imIdentity (tidy_image v) = k"
  by (auto simp: key_ok_def well_formed_image_def tidy_image_def sorted_unique_sorted row_ok_def)

lemma report_shape:
  assumes "evaluate_retention g x as = Inr rep"
  shows "well_formed_report rep"
  using assms
proof (rule evaluate_report)
  fix c
  assume rep: "rep = registry_retention g (rxState x) (base_report x c) (rxNow x) as"
    and images: "rptImages rep = sort_key imIdentity (map (tidy_image \<circ> snd) (clImages c))" and c: "well_kept c"
  have ok: "well_formed_image (tidy_image v) \<and> imIdentity (tidy_image v) = k" if "(k, v) \<in> set (clImages c)" for k v
    using that c tidy_well_formed by (auto simp: well_kept_def list_all_iff)
  then have "map (imIdentity \<circ> (tidy_image \<circ> snd)) (clImages c) = map fst (clImages c)" by (auto intro!: map_cong)
  then have "distinct (map imIdentity (map (tidy_image \<circ> snd) (clImages c)))"
    unfolding map_map using c by (simp only: well_kept_def)
  then have "distinct (map imIdentity (rptImages rep))" by (simp add: images distinct_map del: map_map)
  moreover have "sorted (map imIdentity (rptImages rep))" by (simp add: images)
  ultimately have "sorted_wrt (<) (map imIdentity (rptImages rep))" by (simp add: strict_sorted_iff)
  moreover have "list_all well_formed_image (rptImages rep)" using ok by (auto simp: images list_all_iff)
  moreover have "sorted_wrt (<) (rptBlockers rep)"
    by (simp add: rep registry_retention_def Let_def sorted_unique_sorted)
  ultimately show ?thesis by (simp add: well_formed_report_def)
qed

text \<open>C27. Every report of \<open>EvaluateRetention\<close> is well formed: the images are sorted without repetition, each named
  by a canonical repository and a sha256 digest, an image is protected exactly when it has a reason, and
  reasons, blockers, artifacts, components and profiles are sorted and free of duplicates.\<close>

theorem report_well_formed:
  assumes "evaluate_retention g x as = Inr rep"
  shows "well_formed_report rep"
  by (rule report_shape [OF assms])

theorem deletion_never_allowed:
  assumes "evaluate_retention g x as = Inr rep"
  shows "\<not> rptDeletionAllowed rep \<and> \<not> rptGlobalInventoryComplete rep \<and>
    {''deletion_fence_unavailable'', ''registry_global_inventory_unproven'', ''registry_completeness_unavailable'',
     ''oci_closure_unavailable'', ''workload_coverage_unavailable''} \<subseteq> set (rptBlockers rep)"
  using assms by (rule evaluate_report) (simp add: registry_retention_def base_report_def Let_def)

lemma canonical_no_at: "canonical_image raw = Some r \<Longrightarrow> CHR ''@'' \<notin> set r"
  using canonical_plain [of raw r] by (auto simp: list_all_iff plain_char_def)

text \<open>C2. The objects listed as protected are exactly those reachable from a protected image over an edge that any
  recorded inventory of that repository ever reported, and the root digests an object is listed for are
  exactly the digests of the protected images of its repository that reach it: the search over keyed maps in
  \<open>registryRetention\<close> refines that closure. The recorded edges join sha256 digests, and the repository names of
  the inventories have no NUL, as the admission of a graph checks.\<close>

theorem protected_objects_closure:
  assumes "evaluate_retention g x as = Inr rep" and "list_all sound_edges (stRegistryInventories (rxState x))"
  shows "protected_pairs rep = linked_closure (rxState x) (rptImages rep) \<and>
    protected_for rep = rooted_closure (rxState x) (rptImages rep)"
  using assms(1)
proof (rule evaluate_report)
  fix c
  assume rep: "rep = registry_retention g (rxState x) (base_report x c) (rxNow x) as"
  have "list_all well_formed_image (rptImages rep)" using report_shape [OF assms(1)] by (simp add: well_formed_report_def)
  moreover have same: "rptImages rep = rptImages (base_report x c)" by (simp add: rep registry_retention_def Let_def)
  ultimately have "list_all (\<lambda>v. CHR ''@'' \<notin> set (imImageRepository v)) (rptImages (base_report x c))"
    using canonical_no_at by (auto simp: list_all_iff well_formed_image_def)
  from protected_pairs_closure [OF assms(2) this] protected_for_closure [OF assms(2) this] show ?thesis
    unfolding same by (simp add: rep)
qed

text \<open>Recording more inventories, however partial or stale, never removes an object from the protected ones of
  a report: a newer partial graph cannot unprotect bytes.\<close>

theorem newer_inventory_keeps_protection:
  assumes "list_all sound_edges (stRegistryInventories st @ later)"
    and "list_all (\<lambda>v. CHR ''@'' \<notin> set (imImageRepository v)) (rptImages rep)"
  shows "protected_pairs (registry_retention g st rep now as) \<subseteq>
    protected_pairs (registry_retention g (st\<lparr>stRegistryInventories := stRegistryInventories st @ later\<rparr>) rep now' as')"
proof -
  let ?st = "st\<lparr>stRegistryInventories := stRegistryInventories st @ later\<rparr>"
  have "ever_linked st repo \<subseteq> ever_linked ?st repo" for repo by (auto simp: ever_linked_def)
  then have "(ever_linked st repo)\<^sup>* \<subseteq> (ever_linked ?st repo)\<^sup>*" for repo by (rule rtrancl_mono)
  moreover have "list_all sound_edges (stRegistryInventories st)" "list_all sound_edges (stRegistryInventories ?st)"
    using assms(1) by simp_all
  ultimately show ?thesis using protected_pairs_closure [OF _ assms(2)] by (fastforce simp: linked_closure_def)
qed

section \<open>Other products\<close>

lemma fold_result_guard:
  assumes "fold_result f ys c = Inr c'" and "y \<in> set ys" and "collects b c"
    and "\<And>y c c'. f y c = Inr c' \<Longrightarrow> collects c c'"
    and "\<And>c c'. collects b c \<Longrightarrow> f y c = Inr c' \<Longrightarrow> guarded key reason c'"
  shows "guarded key reason c'"
  using assms(1-3)
proof (induction ys arbitrary: c)
  case (Cons w ys)
  then obtain d where d: "f w c = Inr d" "fold_result f ys d = Inr c'" by (auto split: sum.splits)
  have bd: "collects b d" using Cons.prems(3) assms(4) [OF d(1)] collects_trans by blast
  show ?case
  proof (cases "w = y")
    case True
    then have "guarded key reason d" using assms(5) Cons.prems(3) d(1) by blast
    moreover have "collects d c'" using assms(4) d(2) by (rule fold_result_collects)
    ultimately show ?thesis using collects_guarded by blast
  next
    case False
    then show ?thesis using Cons.IH [OF d(2) _ bd] Cons.prems(2) by simp
  qed
qed simp

lemma share_image_guarded:
  assumes "share_image repos (key, f) c = Inr c'" and "imProtected f" and "imImageRepository f \<in> set repos" and "key_ok (key, f)"
  shows "guarded key ''shared_product_root'' c'"
proof (cases "image_at c key")
  case None
  obtain k d where i: "image (imImageRepository f) (imDigest f) [] ''shared_product_root'' c = (k, d)"
    by (cases "image (imImageRepository f) (imDigest f) [] ''shared_product_root'' c")
  then obtain j where k: "k = Some j" "c' = image_blocked j ''registry_evidence_unknown'' d"
    using assms(1-3) None by (cases k) (auto simp: share_image_def)
  obtain r where r: "image_key (imImageRepository f) (imDigest f) = Some (j, r)"
    using i k(1) by (auto simp: image_def Let_def split: option.splits)
  have d: "d = add_image (imImageRepository f) (imDigest f) [] ''shared_product_root'' c" by (simp add: add_image_def i)
  have "guarded j ''shared_product_root'' c'"
    using image_guarded [OF r] collects_guarded [OF collects_image_blocked [OF collects_refl]] by (simp add: k(2) d)
  moreover have "j = key"
    using r assms(4) canonical_image_again by (auto simp: image_key_Some key_ok_def split: if_splits)
  ultimately show ?thesis by simp
next
  case (Some v)
  then have "c' = protect key ''shared_product_root'' c" using assms(1-3) by (simp add: share_image_def)
  then show ?thesis using protect_guarded [of c key] Some by simp
qed

text \<open>An image another product protects is protected here too, as \<open>shared_product_root\<close>, when its repository
  is used by an image or a component build of this product.\<close>

theorem shared_image_protected:
  assumes "evaluate_retention g x as = Inr rep"
    and "other \<in> set (known_products (rxState x))" and "other \<noteq> rxProduct x"
    and "(key, f) \<in> set (clImages (evaluate (x\<lparr>rxProduct := other\<rparr>)))" and "imProtected f"
    and "imImageRepository f \<in> set (local_repositories x (evaluate x))"
  shows "protected_in rep key ''shared_product_root''"
  using assms(1)
proof (rule evaluate_report)
  fix d
  assume col: "collected x = Inr d" and d: "rptImages rep = sort_key imIdentity (map (tidy_image \<circ> snd) (clImages d))"
    "well_kept d" "collects (evaluate x) d"
  have wf: "key_ok (key, f)"
    using assms(4) collects_well_kept [OF collects_evaluate first_well_kept, of "x\<lparr>rxProduct := other\<rparr>"]
    by (auto simp: well_kept_def list_all_iff)
  have "guarded key ''shared_product_root'' d"
  proof (rule fold_result_guard [OF col [unfolded collected_def], where y = other and b = "evaluate x"])
    show "other \<in> set (filter (\<lambda>p. p \<noteq> rxProduct x) (known_products (rxState x)))" using assms(2,3) by simp
    fix c c' assume c: "collects (evaluate x) c" "share_product x other c = Inr c'"
    have "imImageRepository f \<in> set (local_repositories x c)"
    proof (cases "imImageRepository f \<in> (imImageRepository \<circ> snd) ` set (clImages (evaluate x))")
      case True
      then obtain k v where v: "(k, v) \<in> set (clImages (evaluate x))" "imImageRepository v = imImageRepository f" by auto
      have "well_kept (evaluate x)" using collects_well_kept [OF collects_evaluate first_well_kept] .
      then have "image_at (evaluate x) k = Some v" using v(1) by (simp add: image_at_def well_kept_def)
      then obtain w where w: "image_at c k = Some w" "grows v w" using collects_image [OF c(1)] by blast
      then have "(k, w) \<in> set (clImages c)" by (simp add: image_at_def map_of_SomeD)
      then have "imImageRepository w \<in> set (local_repositories x c)" by (force simp: local_repositories_def)
      then show ?thesis using w(2) v(2) by (simp add: grows_def)
    next
      case False
      then show ?thesis using assms(6) by (auto simp: local_repositories_def)
    qed
    then have "guarded key ''shared_product_root'' b'" if "share_image (local_repositories x c) (key, f) b = Inr b'" for b b'
      using share_image_guarded [OF that assms(5) _ wf] by blast
    then show "guarded key ''shared_product_root'' c'"
      by (intro fold_result_guard [OF c(2) [unfolded share_product_def] assms(4) collects_refl])
        (auto intro: share_image_collects)
  qed (auto intro: share_product_collects)
  then show ?thesis using guarded_in_report [OF d(1,2)] by blast
qed

section \<open>Panics\<close>

lemma fold_result_error: "fold_result f ys c = Inl e \<Longrightarrow> \<exists>y\<in>set ys. \<exists>d. f y d = Inl e"
  by (induction ys arbitrary: c) (auto split: sum.splits)

text \<open>C39. \<open>EvaluateRetention\<close> fails only by dereferencing the nil image of a shared root, and then some product
  protects an image whose canonical repository is refused when it is read again; a state with such an image
  shared between products does make it fail.\<close>

theorem evaluation_panics_only_on_bare_hosts:
  assumes "evaluate_retention g x as = Inl e"
  shows "e = GoPanic ''nil image'' \<and>
    list_ex (\<lambda>p. list_ex (\<lambda>(k, f). imProtected f \<and> \<not> settled_repository (imImageRepository f))
        (clImages (evaluate (x\<lparr>rxProduct := p\<rparr>)))) (known_products (rxState x))"
proof -
  have "collected x = Inl e" using assms by (auto simp: evaluate_retention_def map_sum_def split: sum.splits)
  then obtain p d where p: "p \<in> set (known_products (rxState x))" "share_product x p d = Inl e"
    using fold_result_error by (fastforce simp: collected_def)
  then obtain k f b where f: "(k, f) \<in> set (clImages (evaluate (x\<lparr>rxProduct := p\<rparr>)))"
    and s: "share_image (local_repositories x d) (k, f) b = Inl e"
    using fold_result_error by (fastforce simp: share_product_def)
  have "key_ok (k, f)"
    using f collects_well_kept [OF collects_evaluate first_well_kept, of "x\<lparr>rxProduct := p\<rparr>"]
    by (auto simp: well_kept_def list_all_iff)
  moreover have "e = GoPanic ''nil image'' \<and> imProtected f \<and> image_key (imImageRepository f) (imDigest f) = None"
    using s image_None by (auto simp: share_image_def image_def Let_def split: if_splits option.splits)
  ultimately have "e = GoPanic ''nil image'' \<and> imProtected f \<and> \<not> settled_repository (imImageRepository f)"
    using canonical_image_again by (auto simp: key_ok_def image_key_def settled_repository_def split: option.splits)
  then show ?thesis using p(1) f by (auto simp: list_ex_iff)
qed

section \<open>A product with one of everything\<close>

definition in_product :: "string \<Rightarrow> string \<Rightarrow> Meta" where
  "in_product i p = zero_Meta\<lparr>mID := i, mProductID := p, mCreatedAt := 10, mUpdatedAt := 10\<rparr>"

definition sample_ctx :: "State \<Rightarrow> RetentionCtx" where
  "sample_ctx st = \<lparr>rxState = st, rxProduct = ''p1'', rxNow = 100, rxInputHash = \<lambda>_. [], rxScopeHash = concat,
     rxParseTime = \<lambda>_. Some 50, rxBaselineRoots = \<lambda>_ _ _. [], rxRestorationRoots = \<lambda>_ _ _. []\<rparr>"

lemma sole_product:
  assumes "filter (\<lambda>p. p \<noteq> rxProduct x) (known_products (rxState x)) = []"
  shows "evaluate_retention g x as = Inr (registry_retention g (rxState x) (base_report x (evaluate x)) (rxNow x) as)"
  by (simp add: evaluate_retention_def collected_def assms)

definition sample_active_pin :: ArtifactPin where
  "sample_active_pin = zero_ArtifactPin\<lparr>apnMeta := in_product ''pin1'' ''p1'', apnApplicationID := ''a1'',
     apnImageRepository := ''ghcr.io/team/app'', apnDigest := digest_of CHR ''1'', apnPurpose := ''manual''\<rparr>"

definition sample_inventory :: RegistryInventory where
  "sample_inventory = zero_RegistryInventory\<lparr>riMeta := in_product ''i1'' ''p1'', riReport := zero_WorkerRegistryReport\<lparr>
     wrrScope := zero_RegistryScope\<lparr>rscProductID := ''p1'', rscImageRepository := ''ghcr.io/team/app''\<rparr>, wrrGraph := sample_graph\<rparr>\<rparr>"

definition pinned_ctx :: RetentionCtx where
  "pinned_ctx = sample_ctx (zero_State\<lparr>stArtifactPins := [sample_active_pin], stRegistryInventories := [sample_inventory]\<rparr>)"

lemma pinned_report: "\<exists>rep. evaluate_retention sample_env pinned_ctx [] = Inr rep"
proof -
  have "filter (\<lambda>p. p \<noteq> rxProduct pinned_ctx) (known_products (rxState pinned_ctx)) = []" by code_simp
  then show ?thesis using sole_product by blast
qed

theorem active_pin_protected_witness:
  "\<exists>rep. evaluate_retention sample_env pinned_ctx [] = Inr rep \<and>
     protected_in rep (''ghcr.io/team/app@'' @ digest_of CHR ''1'') ''pin:manual''"
proof -
  obtain rep where rep: "evaluate_retention sample_env pinned_ctx [] = Inr rep" using pinned_report by blast
  have p: "sample_active_pin \<in> set (stArtifactPins (rxState pinned_ctx))" by (simp add: pinned_ctx_def sample_ctx_def)
  have "mProductID (apnMeta sample_active_pin) = rxProduct pinned_ctx" "apnReleasedAt sample_active_pin = None"
    "image_key (apnImageRepository sample_active_pin) (apnDigest sample_active_pin) =
       Some (''ghcr.io/team/app@'' @ digest_of CHR ''1'', ''ghcr.io/team/app'')" by code_simp+
  from active_pin_protected [OF rep p this] show ?thesis using rep by (simp add: sample_active_pin_def)
qed

theorem report_well_formed_witness:
  "\<exists>rep. evaluate_retention sample_env pinned_ctx [] = Inr rep \<and> well_formed_report rep"
  using pinned_report report_well_formed by blast

theorem protected_objects_closure_witness:
  "\<exists>rep. evaluate_retention sample_env pinned_ctx [] = Inr rep \<and>
     protected_pairs rep = linked_closure (rxState pinned_ctx) (rptImages rep) \<and>
     protected_for rep = rooted_closure (rxState pinned_ctx) (rptImages rep)"
proof -
  obtain rep where rep: "evaluate_retention sample_env pinned_ctx [] = Inr rep" using pinned_report by blast
  have "list_all sound_edges (stRegistryInventories (rxState pinned_ctx))" by code_simp
  from protected_objects_closure [OF rep this] rep show ?thesis by blast
qed

theorem newer_inventory_keeps_protection_witness:
  "protected_pairs (registry_retention sample_env zero_State (base_report pinned_ctx empty_collector) 100 []) \<subseteq>
   protected_pairs (registry_retention sample_env (zero_State\<lparr>stRegistryInventories := [sample_inventory]\<rparr>)
     (base_report pinned_ctx empty_collector) 200 [])"
proof -
  have "list_all sound_edges (stRegistryInventories zero_State @ [sample_inventory])" by code_simp
  moreover have "list_all (\<lambda>v. CHR ''@'' \<notin> set (imImageRepository v)) (rptImages (base_report pinned_ctx empty_collector))"
    by (simp add: base_report_def empty_collector_def)
  ultimately show ?thesis
    using newer_inventory_keeps_protection [of zero_State "[sample_inventory]" "base_report pinned_ctx empty_collector" sample_env 100 "[]" 200 "[]"]
    by (simp add: zero_State_def)
qed

definition sample_snapshot :: DeliverySnapshot where
  "sample_snapshot = zero_DeliverySnapshot\<lparr>dsApplication := zero_Application\<lparr>appMeta := in_product ''a1'' ''p1''\<rparr>,
     dsBuild := zero_ComponentBuild\<lparr>cbMeta := in_product ''b1'' ''p1'', cbApplicationID := ''a1'', cbImageRepository := ''ghcr.io/team/app''\<rparr>,
     dsRevision := zero_IntegrationRevision\<lparr>revMeta := in_product ''r1'' ''p1'', revRepositoryID := ''repo1'', revHeadCommit := ''c1''\<rparr>,
     dsSource := zero_RepositoryBinding\<lparr>rbMeta := in_product ''s1'' ''p1'', rbRepositoryID := ''repo1''\<rparr>,
     dsTarget := zero_EnvironmentBinding\<lparr>ebPurpose := ''PROD'', ebEnvironmentID := ''e1'', ebRepositoryID := ''g1'', ebRef := ''main'', ebPath := ''app''\<rparr>,
     dsEnvironment := zero_Environment\<lparr>eMeta := in_product ''e1'' ''p1''\<rparr>,
     dsBuildRequest := zero_BuildRequest\<lparr>brqOperationID := ''o1'', brqSourceSHA := ''c1'', brqRepository := ''app''\<rparr>\<rparr>"

definition sample_deploy :: ExternalOperation where
  "sample_deploy = zero_ExternalOperation\<lparr>opMeta := in_product ''o1'' ''p1'', opKind := ''DEPLOY'', opStatus := ''RUNNING'',
     opApplicationID := ''a1'', opEnvironmentID := ''e1'', opParentID := ''rel1'', opSnapshot := Some sample_snapshot,
     opArtifact := Some (zero_ArtifactResult\<lparr>arrDigest := digest_of CHR ''1''\<rparr>),
     opGitOpsResult := Some (zero_GitOpsResult\<lparr>gorCommitSHA := ''g1''\<rparr>)\<rparr>"





definition sample_artifact :: DeliveryArtifact where
  "sample_artifact = zero_DeliveryArtifact\<lparr>daMeta := in_product ''art1'' ''p1'', daApplicationID := ''a1'', daRepositoryID := ''repo1'',
     daSourceCommit := ''c1'', daImageRepository := ''ghcr.io/team/app'', daDigest := digest_of CHR ''1'', daBuildRunID := 7,
     daBuildRequest := dsBuildRequest sample_snapshot\<rparr>"

definition sample_run :: DeliveryBuildRun where
  "sample_run = zero_DeliveryBuildRun\<lparr>dbrMeta := in_product ''run1'' ''p1'', dbrOperationID := ''o1'', dbrApplicationID := ''a1'',
     dbrRequest := dsBuildRequest sample_snapshot,
     dbrResult := zero_RunResult\<lparr>rurFound := True, rurID := 7, rurStatus := ''completed'', rurConclusion := ''success'', rurHeadSHA := ''c1'',
       rurArtifacts := [(''operation_id'', ''o1''), (''source_sha'', ''c1''), (''image_repository'', ''ghcr.io/team/app''),
         (''image_tag'', []), (''digest'', digest_of CHR ''1''), (''available'', ''true''), (''observed_at'', ''now'')]\<rparr>\<rparr>"

definition published_ctx :: RetentionCtx where
  "published_ctx = sample_ctx (zero_State\<lparr>stOperations := [sample_deploy], stDeliveryArtifacts := [sample_artifact],
     stDeliveryBuildRuns := [sample_run]\<rparr>)"

theorem recent_publication_protected_witness:
  "\<exists>rep. evaluate_retention sample_env published_ctx [] = Inr rep \<and>
     protected_in rep (''ghcr.io/team/app@'' @ digest_of CHR ''1'') ''keep_last:a1:default''"
proof -
  have "filter (\<lambda>p. p \<noteq> rxProduct published_ctx) (known_products (rxState published_ctx)) = []" by code_simp
  then obtain rep where rep: "evaluate_retention sample_env published_ctx [] = Inr rep" using sole_product by blast
  let ?p = "\<lparr>pbImage = ''ghcr.io/team/app@'' @ digest_of CHR ''1'', pbApp = ''a1'', pbProfile = ''default'', pbAt = 50\<rparr>"
  have "?p \<in> set (publications published_ctx)"
    "length (filter (newer_publication ?p) (publications published_ctx)) < nat (keep_of (effective_policies published_ctx) (pbApp ?p))"
    by code_simp+
  from recent_publication_protected [OF rep this] rep show ?thesis by (simp add: keep_reason_def)
qed

definition sample_release :: Release where
  "sample_release = zero_Release\<lparr>relMeta := (in_product ''r1'' ''p1'')\<lparr>mCreatedAt := 20\<rparr>, relExecutionOperationID := ''rel1'', relStatus := ''released'',
     relArtifactDigests := [(''a1'', digest_of CHR ''1'')], relGitOpsCommits := [(''a1'', ''g1'')], relSourceCommits := [(''a1'', ''c1'')]\<rparr>"

text \<open>An older release of the other digest, to the same scope.\<close>

definition earlier_release :: Release where
  "earlier_release = sample_release\<lparr>relMeta := (in_product ''r0'' ''p1'')\<lparr>mCreatedAt := 15\<rparr>, relExecutionOperationID := ''rel0'',
     relArtifactDigests := [(''a1'', digest_of CHR ''2'')]\<rparr>"

definition deploy_of :: "string \<Rightarrow> string \<Rightarrow> char \<Rightarrow> ExternalOperation" where
  "deploy_of i parent ch = sample_deploy\<lparr>opMeta := in_product i ''p1'', opParentID := parent, opStatus := ''SUCCEEDED'',
     opArtifact := Some (zero_ArtifactResult\<lparr>arrDigest := digest_of ch\<rparr>)\<rparr>"

definition promotion_of :: "string \<Rightarrow> string \<Rightarrow> ExternalOperation" where
  "promotion_of i child = zero_ExternalOperation\<lparr>opMeta := in_product i ''p1'', opKind := ''RELEASE_PROMOTION'',
     opStatus := ''SUCCEEDED'', opChildIDs := [child]\<rparr>"

definition healthy_of :: "string \<Rightarrow> char \<Rightarrow> RuntimeObservation" where
  "healthy_of i ch = zero_RuntimeObservation\<lparr>robMeta := in_product (''ob'' @ i) ''p1'', robOperationID := i, robEnvironmentID := ''e1'',
     robHealthy := True, robGitOpsCommit := ''g1'', robArtifactDigest := digest_of ch\<rparr>"

definition released_ctx :: RetentionCtx where
  "released_ctx = sample_ctx (zero_State\<lparr>
     stOperations := [promotion_of ''rel0'' ''o0'', deploy_of ''o0'' ''rel0'' CHR ''2'', promotion_of ''rel1'' ''o1'', deploy_of ''o1'' ''rel1'' CHR ''1''],
     stReleases := [earlier_release, sample_release],
     stRuntimeObservations := [healthy_of ''o0'' CHR ''2'', healthy_of ''o1'' CHR ''1'']\<rparr>)"

lemma deployedI:
  assumes "list_ex (\<lambda>o'. (case op_of x (relExecutionOperationID v) of None \<Rightarrow> False
      | Some parent \<Rightarrow> mID (opMeta o') \<in> set (opChildIDs parent)) \<and> opParentID o' = relExecutionOperationID v \<and>
        relExecutionOperationID v \<noteq> [] \<and> mProductID (opMeta o') = rxProduct x \<and>
      (case (opSnapshot o', opArtifact o') of (Some s, Some a) \<Rightarrow> (opApplicationID o', arrDigest a) \<in> set (relArtifactDigests v) \<and>
        map_option fst (image_key (frozen_repo x s) (arrDigest a)) = Some key | _ \<Rightarrow> False)) (stOperations (rxState x))"
  shows "deployed_image x v key"
  using assms by (fastforce simp: list_ex_iff deployed_image_def split: option.splits)

lemma released_images:
  "deployed_image released_ctx sample_release (''ghcr.io/team/app@'' @ digest_of CHR ''1'')"
  "deployed_image released_ctx earlier_release (''ghcr.io/team/app@'' @ digest_of CHR ''2'')"
  by (rule deployedI; code_simp)+

theorem production_release_protected_witness:
  "\<exists>rep. evaluate_retention sample_env released_ctx [] = Inr rep \<and>
     protected_in rep (''ghcr.io/team/app@'' @ digest_of CHR ''1'') ''production_current'' \<and>
     protected_in rep (''ghcr.io/team/app@'' @ digest_of CHR ''2'') ''production_previous''"
proof -
  have "filter (\<lambda>p. p \<noteq> rxProduct released_ctx) (known_products (rxState released_ctx)) = []" by code_simp
  then obtain rep where rep: "evaluate_retention sample_env released_ctx [] = Inr rep" using sole_product by blast
  have ids: "distinct (map (\<lambda>v. mID (relMeta v)) (stReleases (rxState released_ctx)))" by code_simp
  have rel: "sample_release \<in> set (stReleases (rxState released_ctx))" "earlier_release \<in> set (stReleases (rxState released_ctx))"
    by (simp_all add: released_ctx_def sample_ctx_def)
  have p: "mProductID (relMeta sample_release) = rxProduct released_ctx" "mProductID (relMeta earlier_release) = rxProduct released_ctx"
    by code_simp+
  have "case retained released_ctx (effective_policies released_ctx) sample_release of None \<Rightarrow> False
      | Some r \<Rightarrow> newer_releases released_ctx r = []"
    "case retained released_ctx (effective_policies released_ctx) earlier_release of None \<Rightarrow> False
      | Some r \<Rightarrow> length (newer_releases released_ctx r) = 1" by code_simp+
  then obtain r r' where r: "retained released_ctx (effective_policies released_ctx) sample_release = Some r" "newer_releases released_ctx r = []"
    "retained released_ctx (effective_policies released_ctx) earlier_release = Some r'" "length (newer_releases released_ctx r') = 1"
    by (auto split: option.splits)
  have "protected_in rep (''ghcr.io/team/app@'' @ digest_of CHR ''1'') ''production_current''"
    using production_release_protected [OF rep ids rel(1) p(1) r(1) released_images(1)] r(2) by simp
  moreover have "protected_in rep (''ghcr.io/team/app@'' @ digest_of CHR ''2'') ''production_previous''"
    using production_release_protected [OF rep ids rel(2) p(2) r(3) released_images(2)] r(4) by (auto split: if_splits)
  ultimately show ?thesis using rep by blast
qed

section \<open>Two products\<close>

definition desired_image :: "string \<Rightarrow> string \<Rightarrow> string \<Rightarrow> Environment" where
  "desired_image i p rf = zero_Environment\<lparr>eMeta := in_product i p, eDesired := [(''image'', JStr rf)]\<rparr>"

definition shared_ctx :: "string \<Rightarrow> RetentionCtx" where
  "shared_ctx repo = sample_ctx (zero_State\<lparr>
     stProducts := [zero_Product\<lparr>pMeta := in_product ''p1'' []\<rparr>, zero_Product\<lparr>pMeta := in_product ''p2'' []\<rparr>],
     stEnvironments := [desired_image ''e1'' ''p1'' (repo @ ''@'' @ digest_of CHR ''1''),
       desired_image ''e2'' ''p2'' (repo @ ''@'' @ digest_of CHR ''2'')]\<rparr>)"

theorem shared_image_protected_witness:
  "\<exists>rep. evaluate_retention sample_env (shared_ctx ''ghcr.io/app'') [] = Inr rep \<and>
     protected_in rep (''ghcr.io/app@'' @ digest_of CHR ''2'') ''shared_product_root''"
proof -
  let ?x = "shared_ctx ''ghcr.io/app''"
  have "case collected ?x of Inl e \<Rightarrow> False | Inr c \<Rightarrow> True" by code_simp
  then obtain rep where rep: "evaluate_retention sample_env ?x [] = Inr rep"
    by (auto simp: evaluate_retention_def split: sum.splits)
  have "list_ex (\<lambda>(k, f). k = ''ghcr.io/app@'' @ digest_of CHR ''2'' \<and> imProtected f \<and>
      imImageRepository f \<in> set (local_repositories ?x (evaluate ?x))) (clImages (evaluate (?x\<lparr>rxProduct := ''p2''\<rparr>)))"
    by code_simp
  then obtain f where f: "(''ghcr.io/app@'' @ digest_of CHR ''2'', f) \<in> set (clImages (evaluate (?x\<lparr>rxProduct := ''p2''\<rparr>)))"
    "imProtected f" "imImageRepository f \<in> set (local_repositories ?x (evaluate ?x))"
    by (auto simp: list_ex_iff)
  have "''p2'' \<in> set (known_products (rxState ?x))" "''p2'' \<noteq> rxProduct ?x" by code_simp+
  from shared_image_protected [OF rep this f] rep show ?thesis by blast
qed

theorem evaluation_panics_only_on_bare_hosts_witness:
  "evaluate_retention sample_env (shared_ctx ''registry:443/app'') [] = Inl (GoPanic ''nil image'') \<and>
   list_ex (\<lambda>p. list_ex (\<lambda>(k, f). imProtected f \<and> \<not> settled_repository (imImageRepository f))
     (clImages (evaluate ((shared_ctx ''registry:443/app'')\<lparr>rxProduct := p\<rparr>)))) (known_products (rxState (shared_ctx ''registry:443/app'')))"
proof -
  have "collected (shared_ctx ''registry:443/app'') = Inl (GoPanic ''nil image'')" by code_simp
  then have e: "evaluate_retention sample_env (shared_ctx ''registry:443/app'') [] = Inl (GoPanic ''nil image'')"
    by (simp add: evaluate_retention_def)
  from evaluation_panics_only_on_bare_hosts [OF e] e show ?thesis by blast
qed

end
