(* ===== verification/PinProperties.thy ===== *)
theory PinProperties
  imports PinLemmas RetentionProperties
begin

text \<open>
  The properties of pins: an exact retry changes nothing, a pin never comes back, the stored pins stay
  valid; and where the normal form of an image repository is not one.
\<close>

section \<open>Validity\<close>

definition id_count :: "State \<Rightarrow> string \<Rightarrow> nat" where
  "id_count st i = length (filter (\<lambda>j. j = i) (state_ids st))"

lemma id_count_pos: "0 < id_count st i \<longleftrightarrow> i \<in> set (state_ids st)"
  by (auto simp: id_count_def length_greater_0_conv filter_empty_conv simp del: length_greater_0_conv)

lemma id_count_event: "id_count (st\<lparr>stEvents := stEvents st @ [e]\<rparr>) i = id_count st i + (if evID e = i then 1 else 0)"
  by (simp add: id_count_def state_ids_def)

lemma id_count_pin:
  "id_count (st\<lparr>stArtifactPins := stArtifactPins st @ [p]\<rparr>) i = id_count st i + (if mID (apnMeta p) = i then 1 else 0)"
  by (simp add: id_count_def state_ids_def)

lemma id_count_replaced:
  "map (mID \<circ> apnMeta) ps = map (mID \<circ> apnMeta) (stArtifactPins st) \<Longrightarrow> id_count (st\<lparr>stArtifactPins := ps\<rparr>) i = id_count st i"
  by (simp add: id_count_def state_ids_def)

lemma id_count_derive: "id_count (derive st) i = id_count st i"
proof -
  have "state_ids (derive st) = state_ids st" by (simp add: derive_def state_ids_def comp_def)
  then show ?thesis by (simp add: id_count_def)
qed

text \<open>The state a command leaves, with the audit event of the dispatcher.\<close>

definition recorded :: "Ctx \<Rightarrow> Command \<Rightarrow> Meta \<Rightarrow> State \<Rightarrow> State" where
  "recorded x c m st = derive (st\<lparr>stEvents := stEvents st @ [audit x c m]\<rparr>)"

lemma finish_pins:
  assumes "length (stOperations st) = n"
  shows "snd (finish x n c (out, m, st, True)) = recorded x c m st"
proof -
  have "stamp_new n st = st" using assms by (simp add: stamp_new_def)
  then show ?thesis by (simp add: finish_def recorded_def Let_def)
qed

lemma recorded_simps [simp]:
  "stArtifactPins (recorded x c m st) = stArtifactPins st" "stEvents (recorded x c m st) = stEvents st @ [audit x c m]"
  "stProducts (recorded x c m st) = stProducts st" "stApplications (recorded x c m st) = stApplications st"
  by (simp_all add: recorded_def derive_def)

lemma recorded_ids: "id_count (recorded x c m st) i = id_count st i + (if ctxEventID x = i then 1 else 0)"
  by (simp add: recorded_def id_count_derive id_count_event) (simp add: audit_def)

lemma valid_pins_iff:
  "validate_artifact_pins hash st = Inr () \<longleftrightarrow>
     list_all (pin_valid hash st) (stArtifactPins st) \<and> distinct (map pin_key (stArtifactPins st))"
  by (simp add: validate_artifact_pins_def)

lemma pin_valid_elsewhere:
  assumes "pin_valid hash st p" and "id_count st' (mID (apnMeta p)) = 1"
    and "release_events st' p = release_events st p"
    and "\<And>e. e \<in> set (release_events st p) \<Longrightarrow> id_count st' (evID e) = id_count st (evID e)"
    and "stProducts st' = stProducts st" and "stApplications st' = stApplications st"
  shows "pin_valid hash st' p"
proof -
  have "list_all (release_event_ok st' p) (release_events st p)"
    using assms(1,4) by (simp add: pin_valid_def list_all_iff release_event_ok_def Let_def id_count_def)
  then show ?thesis using assms
    by (simp add: pin_valid_def pin_fields_ok_def Let_def id_count_def product_exists_def)
qed

lemma valid_pin_ids:
  assumes "pin_valid hash st p"
  shows "id_count st (mID (apnMeta p)) = 1" and "e \<in> set (release_events st p) \<Longrightarrow> id_count st (evID e) = 1"
  using assms by (simp_all add: pin_valid_def pin_fields_ok_def list_all_iff release_event_ok_def Let_def id_count_def)

lemma pin_key_unique:
  assumes "pin_key p = pin_key q" and "pin_request_key (apnRequestKey p)" and "pin_request_key (apnRequestKey q)"
  shows "mProductID (apnMeta p) = mProductID (apnMeta q) \<and> apnRequestKey p = apnRequestKey q"
proof -
  have no: "CHR 0x00 \<notin> set (rev k)" if "pin_request_key k" for k
    using that by (auto simp: pin_request_key_def name_like_def alnum_def upper_letters_def lower_letters_def digits_def
        list_all_iff split: list.splits)
  have "rev (apnRequestKey p) @ CHR 0x00 # rev (mProductID (apnMeta p)) = rev (apnRequestKey q) @ CHR 0x00 # rev (mProductID (apnMeta q))"
    using arg_cong [OF assms(1), of rev] by (simp add: pin_key_def)
  from split_at_unique [OF no [OF assms(2)] no [OF assms(3)] this] show ?thesis by simp
qed

section \<open>Releasing a pin\<close>

lemma id_twice:
  assumes "r \<in> set (us @ vs)" and "mID (apnMeta r) = i" and "mID (apnMeta q) = i"
  shows "2 \<le> length (filter (\<lambda>j. j = i) (map (mID \<circ> apnMeta) (us @ q # vs)))"
proof -
  have "0 < length (filter (\<lambda>j. j = i) (map (mID \<circ> apnMeta) (us @ vs)))"
    using assms(1,2) by (force simp: length_greater_0_conv filter_empty_conv simp del: length_greater_0_conv)
  then have "1 \<le> length (filter (\<lambda>j. j = i) (map (mID \<circ> apnMeta) (us @ vs)))" by linarith
  then show ?thesis using assms(3) by simp
qed

lemma release_keeps_valid:
  assumes v: "validate_artifact_pins hash st = Inr ()"
    and f: "find (\<lambda>p. mID (apnMeta p) = cID c) (stArtifactPins st) = Some q" "apnReleasedAt q = None"
    and p: "p = q\<lparr>apnReleasedAt := Some t, apnMeta := (apnMeta q)\<lparr>mUpdatedAt := t, mActor := cActor c\<rparr>\<rparr>"
    and st': "st' = st\<lparr>stArtifactPins := update_first (\<lambda>p. mID (apnMeta p) = cID c) (\<lambda>_. p) (stArtifactPins st)\<rparr>"
    and scope: "pin_scope c st" "cAction c = ''release_artifact_pin''" "mProductID (apnMeta q) = cProductID c"
    and data: "cData c = [(''application_id'', JStr (apnApplicationID q))]"
    and sane: "ctxEventID x \<notin> set (state_ids st)" "ctxEventID x \<noteq> []" "trim_space (cActor c) \<noteq> []"
      "mCreatedAt (apnMeta q) \<le> t" "t \<noteq> zero_time"
  shows "validate_artifact_pins hash (recorded x c (apnMeta p) st') = Inr ()"
proof -
  let ?s = "recorded x c (apnMeta p) st'"
  obtain us vs where us: "stArtifactPins st = us @ q # vs"
    "update_first (\<lambda>p. mID (apnMeta p) = cID c) (\<lambda>_. p) (stArtifactPins st) = us @ p # vs"
    using update_first_split [OF f(1)] by blast
  have pins: "stArtifactPins ?s = us @ p # vs" by (simp add: st' us(2))
  have q: "mID (apnMeta q) = cID c" "pin_valid hash st q" "cID c \<noteq> []"
    using v f(1) us(1) by (auto simp: valid_pins_iff pin_valid_def pin_fields_ok_def Let_def dest: find_Some_prop)
  have same: "mID (apnMeta p) = cID c" "mProductID (apnMeta p) = mProductID (apnMeta q)" "pin_key p = pin_key q"
    by (simp_all add: p q(1) pin_key_def)
  have ids: "id_count ?s i = id_count st i + (if ctxEventID x = i then 1 else 0)" for i
    unfolding recorded_ids st' us(2) by (simp add: id_count_replaced us(1) same(1) q(1))
  have fresh: "id_count st (ctxEventID x) = 0" using sane(1) id_count_pos [of st "ctxEventID x"] by simp
  have known: "id_count ?s i = 1" if "id_count st i = 1" for i using that fresh ids by auto
  have one: "mID (apnMeta r) \<noteq> cID c" if "r \<in> set (us @ vs)" for r
  proof
    assume e: "mID (apnMeta r) = cID c"
    have "2 \<le> length (filter (\<lambda>j. j = cID c) (map (mID \<circ> apnMeta) (us @ q # vs)))"
      using id_twice [OF that e q(1)] .
    also have "\<dots> \<le> id_count st (cID c)" by (simp add: id_count_def state_ids_def us(1))
    finally show False using valid_pin_ids(1) [OF q(2)] q(1) by simp
  qed
  let ?e = "audit x c (apnMeta p)"
  have other: "pin_valid hash ?s r" if r: "r \<in> set (us @ vs)" for r
  proof (rule pin_valid_elsewhere [of hash st])
    show rv: "pin_valid hash st r" using v r us(1) by (auto simp: valid_pins_iff list_all_iff)
    show "id_count ?s (mID (apnMeta r)) = 1" using known valid_pin_ids(1) [OF rv] .
    show "release_events ?s r = release_events st r"
      using one [OF r] same(1) by (simp add: release_events_def st' names_release_def audit_def)
    show "id_count ?s (evID e) = id_count st (evID e)" if "e \<in> set (release_events st r)" for e
      using known valid_pin_ids(2) [OF rv that] by simp
  qed (simp_all add: st')
  have "names_release p = names_release q" by (simp add: names_release_def fun_eq_iff same(1) q(1))
  moreover have "release_events st q = []" using q(2) f(2) by (simp add: pin_valid_def)
  ultimately have events: "release_events ?s p = [?e]"
    using q(1) same(1) scope(2) by (simp add: release_events_def st') (simp add: names_release_def audit_def)
  have "mFeatureID (apnMeta q) = []" using q(2) by (simp add: pin_valid_def pin_fields_ok_def Let_def)
  then have "release_event_ok ?s p ?e"
    using scope sane(2,3) data ids [of "ctxEventID x"] fresh q(1)
    by (simp add: release_event_ok_def Let_def audit_def p pin_scope_def id_count_def [symmetric])
  moreover have "id_count ?s (cID c) = 1" using known valid_pin_ids(1) [OF q(2)] q(1) by simp
  ultimately have "pin_valid hash ?s p"
    using q(2) events sane(4,5) q(1)
    by (simp add: pin_valid_def pin_fields_ok_def Let_def id_count_def p product_exists_def st')
  then have "list_all (pin_valid hash ?s) (us @ p # vs)" using other by (simp add: list_all_iff)
  moreover have "distinct (map pin_key (us @ p # vs))"
    using v us(1) same(3) by (simp add: valid_pins_iff)
  ultimately show ?thesis by (simp only: valid_pins_iff pins)
qed

section \<open>Pinning\<close>

lemma pin_keeps_valid:
  assumes v: "validate_artifact_pins hash st = Inr ()"
    and req: "pin_request c st = Some (i, repo)" and p: "p = pin_of hash c i repo (meta x c)"
    and none: "find (same_request c i) (stArtifactPins st) = None"
    and st': "st' = st\<lparr>stArtifactPins := stArtifactPins st @ [p]\<rparr>"
    and scope: "pin_scope c st" "cAction c \<noteq> ''release_artifact_pin''"
    and sane: "ctxEventID x \<notin> set (state_ids st)" "ctxID x \<notin> set (state_ids st)" "ctxID x \<noteq> []" "ctxEventID x \<noteq> ctxID x"
      "ctxMetaNow x \<noteq> zero_time" "canonical_image repo = Some repo" "release_events st p = []"
  shows "validate_artifact_pins hash (recorded x c (apnMeta p) st') = Inr ()"
proof -
  let ?s = "recorded x c (apnMeta p) st'"
  have i: "pin_input_ok c i" "component_of st (cProductID c) (pinApplicationID i)"
    using req by (auto simp: pin_request_def split: sum.splits if_splits)
  then have m: "mID (apnMeta p) = ctxID x" "apnMeta p = meta x c" by (simp_all add: p pin_of_def meta_def pin_input_ok_def)
  have pins: "stArtifactPins ?s = stArtifactPins st @ [p]" by (simp add: st')
  have ids: "id_count ?s j = id_count st j + (if ctxID x = j then 1 else 0) + (if ctxEventID x = j then 1 else 0)" for j
    unfolding recorded_ids st' id_count_pin m(1) by simp
  have fresh: "id_count st (ctxEventID x) = 0" "id_count st (ctxID x) = 0"
    using sane(1,2) id_count_pos [of st "ctxEventID x"] id_count_pos [of st "ctxID x"] by simp_all
  have known: "id_count ?s j = 1" if "id_count st j = 1" for j using that fresh ids by auto
  have none_named: "release_events ?s r = release_events st r" for r
    using scope(2) by (simp add: release_events_def st' names_release_def audit_def)
  have other: "pin_valid hash ?s r" if r: "r \<in> set (stArtifactPins st)" for r
  proof (rule pin_valid_elsewhere [of hash st])
    show rv: "pin_valid hash st r" using v r by (auto simp: valid_pins_iff list_all_iff)
    show "id_count ?s (mID (apnMeta r)) = 1" using known valid_pin_ids(1) [OF rv] .
    show "release_events ?s r = release_events st r" by (rule none_named)
    show "id_count ?s (evID e) = id_count st (evID e)" if "e \<in> set (release_events st r)" for e
      using known valid_pin_ids(2) [OF rv that] by simp
  qed (simp_all add: st')
  have "id_count ?s (ctxID x) = 1" using ids fresh sane(4) by simp
  moreover have "product_exists ?s (cProductID c)" using scope(1) by (simp add: pin_scope_def product_exists_def st')
  moreover have "list_ex (\<lambda>a. mID (appMeta a) = pinApplicationID i \<and> mProductID (appMeta a) = cProductID c) (stApplications ?s)"
    using i(2) by (auto simp: component_of_def application_by_id_def list_ex_iff st' split: option.splits dest: find_Some_prop find_Some_in)
  ultimately have "pin_valid hash ?s p"
    using i(1) scope(1) sane(3,5,6,7) none_named [of p] m(1)
    by (simp add: pin_valid_def pin_fields_ok_def Let_def p pin_of_def meta_def pin_input_ok_def pin_scope_def id_count_def)
  then have all: "list_all (pin_valid hash ?s) (stArtifactPins st @ [p])" using other by (simp add: list_all_iff)
  have "pin_key p \<noteq> pin_key q" if q: "q \<in> set (stArtifactPins st)" for q
  proof
    assume k: "pin_key p = pin_key q"
    have "pin_valid hash st q" using v q unfolding valid_pins_iff list_all_iff by blast
    then have "pin_request_key (apnRequestKey q)" by (simp add: pin_valid_def pin_fields_ok_def Let_def)
    moreover have "pin_request_key (apnRequestKey p)" using i(1) by (simp add: p pin_of_def pin_input_ok_def)
    ultimately have "same_request c i q" using pin_key_unique [OF k] by (simp add: p pin_of_def meta_def)
    then show False using none q by (auto simp: find_None_iff)
  qed
  then have "pin_key p \<notin> pin_key ` set (stArtifactPins st)" by blast
  moreover have "distinct (map pin_key (stArtifactPins st))" using v by (simp add: valid_pins_iff)
  ultimately have "distinct (map pin_key (stArtifactPins st @ [p]))" by simp
  then show ?thesis using all by (simp only: valid_pins_iff pins)
qed

section \<open>Properties\<close>

text \<open>Repeating a pin or release command that was accepted, at any later time and with other identities,
  answers with the same pin, changes nothing and appends no audit event.\<close>

theorem pin_command_replay:
  assumes "apply_artifact_pin hash x c (meta x c) st = Inr (p, m, st', ch)"
  shows "apply_artifact_pin hash y c (meta y c) st' = Inr (p, m, st', False)"
proof -
  note s = apply_pin_scope [OF assms]
  have m: "mProductID (meta x c) = cProductID c" by (simp add: meta_def)
  show ?thesis
  proof (cases "cAction c = ''release_artifact_pin''")
    case True
    then have r: "release_pin x c st = Inr (p, m, st', ch)" using s(2) by simp
    then have "pin_scope c st'" using s(1) by (cases rule: release_pin_cases) simp_all
    then show ?thesis using True release_pin_replay [OF r] by (simp add: apply_pin_in_scope)
  next
    case False
    then have r: "new_pin hash c (meta x c) st = Inr (p, m, st', ch)" using s(2) by simp
    then have "pin_scope c st'" using s(1) by (cases rule: new_pin_cases) simp_all
    then show ?thesis using False new_pin_replay [OF r m] by (simp add: apply_pin_in_scope)
  qed
qed

theorem pins_only_grow:
  assumes "apply_artifact_pin hash x c m st = Inr (p, m', st', ch)"
  shows "list_all2 pin_kept (stArtifactPins st) (take (length (stArtifactPins st)) (stArtifactPins st')) \<and>
    (ch \<or> st' = st)"
proof -
  have "ch \<or> st' = st"
    using apply_pin_scope(2) [OF assms] by (cases "cAction c = ''release_artifact_pin''")
      (auto elim: release_pin_cases new_pin_cases)
  then show ?thesis using apply_pin_kept [OF assms] by blast
qed

definition sane_call :: "Ctx \<Rightarrow> Command \<Rightarrow> State \<Rightarrow> ArtifactPin \<Rightarrow> bool" where
  "sane_call x c st p \<longleftrightarrow>
     ctxEventID x \<notin> set (state_ids st) \<and> ctxEventID x \<noteq> [] \<and> trim_space (cActor c) \<noteq> [] \<and>
     (if cAction c = ''release_artifact_pin''
      then cData c = [(''application_id'', JStr (apnApplicationID p))] \<and> mCreatedAt (apnMeta p) \<le> ctxStepNow x \<and>
        ctxStepNow x \<noteq> zero_time
      else ctxID x \<notin> set (state_ids st) \<and> ctxID x \<noteq> [] \<and> ctxEventID x \<noteq> ctxID x \<and> ctxMetaNow x \<noteq> zero_time \<and>
        settled_repository (apnImageRepository p) \<and> release_events st p = [])"

text \<open>C26. An accepted pin or release command takes a state that \<open>ValidateArtifactPins\<close> accepts to one it accepts,
  with the audit event appended, under these conditions on the call (\<open>sane_call\<close>): it names an actor; the
  identities it is given are not empty, not in use and distinct, and the clock readings are not zero; a new
  pin is for a repository whose canonical form has an explicit host and at most 512 bytes, and no recorded
  event already releases its ID; a release carries exactly the key \<open>application_id\<close>, with the component of the
  pin, and the clock does not read less than when the pin was made. Without an explicit host the new pin is
  accepted and the state refused (\<open>accepted_pin_fails_validation\<close>).\<close>

theorem pins_stay_valid:
  assumes "validate_artifact_pins hash st = Inr ()" and "apply_artifact_pin hash x c (meta x c) st = Inr (p, m, st', True)"
    and "sane_call x c st p"
  shows "validate_artifact_pins hash (snd (finish x (length (stOperations st)) c (out, m, st', True))) = Inr ()"
proof -
  note s = apply_pin_scope [OF assms(2)]
  show ?thesis
  proof (cases "cAction c = ''release_artifact_pin''")
    case True
    then have "release_pin x c st = Inr (p, m, st', True)" using s(2) by simp
    then show ?thesis
    proof (cases rule: release_pin_cases)
      case (released q v)
      have "validate_artifact_pins hash (recorded x c (apnMeta p) st') = Inr ()"
        by (rule release_keeps_valid [OF assms(1) released(1,2,3,7) s(1) True released(6)])
          (use assms(3) True in \<open>simp_all add: sane_call_def released(3)\<close>)
      then show ?thesis using released(4,7) by (simp add: finish_pins)
    qed simp
  next
    case False
    then have "new_pin hash c (meta x c) st = Inr (p, m, st', True)" using s(2) by simp
    then show ?thesis
    proof (cases rule: new_pin_cases)
      case (pinned v repo)
      have m: "apnMeta p = m" "apnImageRepository p = repo" using pinned(2,3) by (simp_all add: pin_of_def)
      have again: "canonical_image repo = Some repo"
        using pinned(1) assms(3) False canonical_image_again
        by (auto simp: pin_request_def sane_call_def settled_repository_def m(2) split: option.splits sum.splits if_splits)
      have "validate_artifact_pins hash (recorded x c (apnMeta p) st') = Inr ()"
        by (rule pin_keeps_valid [OF assms(1) pinned(1,2,5,6) s(1) False])
          (use assms(3) False again in \<open>simp_all add: sane_call_def m(2)\<close>)
      then show ?thesis using m(1) pinned(6) by (simp add: finish_pins)
    qed simp
  qed
qed

text \<open>C40. A pin command for a repository whose canonical form has no explicit host (the default port of a bare
  host was dropped) is accepted by \<open>applyArtifactPin\<close>, and then the validation of the state refuses the
  pin, so that the command can never be stored.\<close>

theorem accepted_pin_fails_validation:
  assumes "apply_artifact_pin hash x c (meta x c) st = Inr (p, m, st', True)"
    and "cAction c \<noteq> ''release_artifact_pin''" and "\<not> explicit_host (before_char CHR ''/'' (apnImageRepository p))"
  shows "validate_artifact_pins hash (snd (finish x (length (stOperations st)) c (out, m, st', True))) \<noteq> Inr ()"
proof -
  have "new_pin hash c (meta x c) st = Inr (p, m, st', True)" using apply_pin_scope(2) [OF assms(1)] assms(2) by simp
  then show ?thesis
  proof (cases rule: new_pin_cases)
    case (pinned v repo)
    have r: "apnImageRepository p = repo" using pinned(2) by (simp add: pin_of_def)
    have "canonical_image (pinImageRepository v) = Some repo"
      using pinned(1) by (auto simp: pin_request_def split: sum.splits if_splits)
    then have "canonical_image repo = None" using canonical_image_again assms(3) r by simp
    then have "\<not> pin_valid hash s p" for s by (simp add: pin_valid_def pin_fields_ok_def Let_def r)
    moreover have "p \<in> set (stArtifactPins (recorded x c m st'))" by (simp add: pinned(6))
    ultimately show ?thesis using pinned(6) by (auto simp: finish_pins valid_pins_iff list_all_iff)
  qed simp
qed

section \<open>A product that pins\<close>

definition pin_call :: Ctx where
  "pin_call = \<lparr>ctxID = ''pin1'', ctxBindingID = [], ctxEventID = ''ev1'', ctxMetaNow = 5, ctxStepNow = 6, ctxEventNow = 7\<rparr>"

definition pin_command :: "string \<Rightarrow> Command" where
  "pin_command repo = zero_Command\<lparr>cAction := ''pin_artifact'', cActor := ''ops'', cProductID := ''p1'', cData :=
     [(''application_id'', JStr ''a1''), (''image_repository'', JStr repo), (''digest'', JStr (digest_of CHR ''1'')),
      (''purpose'', JStr ''manual''), (''request_key'', JStr ''key-1'')]\<rparr>"

definition pin_state :: State where
  "pin_state = zero_State\<lparr>stProducts := [zero_Product\<lparr>pMeta := in_product ''p1'' []\<rparr>],
     stApplications := [zero_Application\<lparr>appMeta := in_product ''a1'' ''p1''\<rparr>]\<rparr>"

definition sample_hash :: pin_hash where
  "sample_hash = (\<lambda>p a r d u k. p @ a @ r @ d @ u @ k)"

text \<open>The command is accepted, and the pin satisfies \<open>P\<close>.\<close>

definition accepted_with :: "string \<Rightarrow> (ArtifactPin \<Rightarrow> bool) \<Rightarrow> bool" where
  "accepted_with repo P \<longleftrightarrow>
     (case apply_artifact_pin sample_hash pin_call (pin_command repo) (meta pin_call (pin_command repo)) pin_state of
        Inl e \<Rightarrow> False | Inr (p, m, st', ch) \<Rightarrow> ch \<and> P p)"

lemma accepted_withE:
  assumes "accepted_with repo P"
  obtains p m st' where
    "apply_artifact_pin sample_hash pin_call (pin_command repo) (meta pin_call (pin_command repo)) pin_state = Inr (p, m, st', True)" "P p"
  using assms by (auto simp: accepted_with_def split: sum.splits prod.splits)

theorem pin_command_replay_witness:
  "\<exists>p m st'. apply_artifact_pin sample_hash pin_call (pin_command ''ghcr.io/app'') (meta pin_call (pin_command ''ghcr.io/app'')) pin_state =
       Inr (p, m, st', True) \<and>
     apply_artifact_pin sample_hash pin_call (pin_command ''ghcr.io/app'') (meta pin_call (pin_command ''ghcr.io/app'')) st' =
       Inr (p, m, st', False)"
proof -
  have "accepted_with ''ghcr.io/app'' (\<lambda>p. True)" by code_simp
  then show ?thesis by (rule accepted_withE) (use pin_command_replay in blast)
qed

theorem pins_only_grow_witness:
  "\<exists>p m st'. apply_artifact_pin sample_hash pin_call (pin_command ''ghcr.io/app'') (meta pin_call (pin_command ''ghcr.io/app'')) pin_state =
       Inr (p, m, st', True) \<and>
     list_all2 pin_kept (stArtifactPins pin_state) (take (length (stArtifactPins pin_state)) (stArtifactPins st'))"
proof -
  have "accepted_with ''ghcr.io/app'' (\<lambda>p. True)" by code_simp
  then show ?thesis by (rule accepted_withE) (use pins_only_grow in blast)
qed

lemma pin_state_valid: "validate_artifact_pins sample_hash pin_state = Inr ()"
  by code_simp

theorem pins_stay_valid_witness:
  "\<exists>p m st'. apply_artifact_pin sample_hash pin_call (pin_command ''ghcr.io/app'') (meta pin_call (pin_command ''ghcr.io/app'')) pin_state =
       Inr (p, m, st', True) \<and>
     validate_artifact_pins sample_hash
       (snd (finish pin_call (length (stOperations pin_state)) (pin_command ''ghcr.io/app'') (OutOther JNull, m, st', True))) = Inr ()"
proof -
  have "accepted_with ''ghcr.io/app'' (\<lambda>p. sane_call pin_call (pin_command ''ghcr.io/app'') pin_state p)" by code_simp
  then show ?thesis by (rule accepted_withE) (use pins_stay_valid [OF pin_state_valid] in blast)
qed

theorem accepted_pin_fails_validation_witness:
  "\<exists>p m st'. apply_artifact_pin sample_hash pin_call (pin_command ''registry:443/app'') (meta pin_call (pin_command ''registry:443/app'')) pin_state =
       Inr (p, m, st', True) \<and> validate_artifact_pins sample_hash pin_state = Inr () \<and>
     validate_artifact_pins sample_hash
       (snd (finish pin_call (length (stOperations pin_state)) (pin_command ''registry:443/app'') (OutOther JNull, m, st', True))) \<noteq> Inr ()"
proof -
  have a: "accepted_with ''registry:443/app'' (\<lambda>p. \<not> explicit_host (before_char CHR ''/'' (apnImageRepository p)))" by code_simp
  have r: "cAction (pin_command ''registry:443/app'') \<noteq> ''release_artifact_pin''" by code_simp
  show ?thesis by (rule accepted_withE [OF a]) (use accepted_pin_fails_validation [OF _ r] pin_state_valid in blast)
qed

end
