(* ===== verification/GoPaths.thy ===== *)
theory GoPaths
  imports GoStrings
begin

text \<open>Packages \<open>path\<close> and \<open>strings\<close>, as the validation of paths and branches uses them.\<close>

fun split_on :: "char \<Rightarrow> string \<Rightarrow> string list" where
  "split_on d [] = [[]]"
| "split_on d (c # s) =
     (if c = d then [] # split_on d s
      else (case split_on d s of [] \<Rightarrow> [[c]] | w # ws \<Rightarrow> (c # w) # ws))"

fun join_slashes :: "string list \<Rightarrow> string" where
  "join_slashes [] = []"
| "join_slashes [s] = s"
| "join_slashes (s # t # ss) = s @ ''/'' @ join_slashes (t # ss)"

text \<open>\<open>path.Clean\<close>: the elements kept so far, with their parents resolved.\<close>

definition clean_step :: "bool \<Rightarrow> string list \<Rightarrow> string \<Rightarrow> string list" where
  "clean_step rooted acc part =
     (if part = [] \<or> part = ''.'' then acc
      else if part = ''..'' then
        (if acc \<noteq> [] \<and> last acc \<noteq> ''..'' then butlast acc else if rooted then acc else acc @ [part])
      else acc @ [part])"

definition clean_path :: "string \<Rightarrow> string" where
  "clean_path s =
     (let rooted = has_prefix s ''/''; body = join_slashes (foldl (clean_step rooted) [] (split_on CHR ''/'' s)) in
      if rooted then ''/'' @ body else if body = [] then ''.'' else body)"

text \<open>\<open>path.Ext\<close>: from the last point of the last element.\<close>

definition path_ext :: "string \<Rightarrow> string" where
  "path_ext s =
     (let leaf = last (split_on CHR ''/'' s) in
      if CHR ''.'' \<in> set leaf then CHR ''.'' # last (split_on CHR ''.'' leaf) else [])"

definition contains_word :: "string \<Rightarrow> string \<Rightarrow> bool" where
  "contains_word s w \<longleftrightarrow> list_ex (\<lambda>n. has_prefix (drop n s) w) [0..<length s + 1]"

definition trim_suffix :: "string \<Rightarrow> string \<Rightarrow> string" where
  "trim_suffix s p = (if has_suffix s p then take (length s - length p) s else s)"

lemma split_on_nonempty [simp]: "split_on d s \<noteq> []"
  by (induction s) (auto split: list.split)

lemma join_split: "join_slashes (split_on CHR ''/'' s) = s"
proof (induction s)
  case (Cons c s)
  then show ?case by (cases "split_on CHR ''/'' s"; cases "tl (split_on CHR ''/'' s)") auto
qed simp

end
