(* ===== verification/AuthModel.thy ===== *)
theory AuthModel
  imports JsonData GoPaths "HOL-Library.AList"
begin

text \<open>
  The authentication boundary, \<open>internal/auth\<close>: the private state (\<open>store.go\<close>), login sessions
  (\<open>manager.go\<close>) and the enrolment of agents by device codes (\<open>device.go\<close>). Every handler is a
  function of the configuration, the call's clock readings and random values, the request and the
  private state. A Go map is an association list, in the order one iteration takes; the theorems
  hold for every order. The identity provider, the hashes and \<open>url.Parse\<close> are parameters.
\<close>

section \<open>Strings\<close>

text \<open>\<open>strings.Fields\<close>; the first argument is the field read so far.\<close>

fun words_from :: "string \<Rightarrow> string \<Rightarrow> string list" where
  "words_from acc [] = (if acc = [] then [] else [acc])"
| "words_from acc (c # s) =
     (case space_at go_spaces (c # s) of
        None \<Rightarrow> words_from (acc @ [c]) s
      | Some w \<Rightarrow> (if acc = [] then [] else [acc]) @ words_from [] (drop (length w - 1) s))"

definition string_fields :: "string \<Rightarrow> string list" where
  "string_fields s = words_from [] s"

text \<open>\<open>strings.ToUpper\<close> on ASCII letters and on the runes it takes to them: the dotless i and the
  long s.\<close>

definition upper_char :: "char \<Rightarrow> char" where
  "upper_char c = (case map_of (zip lower_letters upper_letters) c of Some u \<Rightarrow> u | None \<Rightarrow> c)"

fun to_upper :: "string \<Rightarrow> string" where
  "to_upper (a # b # s) =
     (if a = CHR 0xC4 \<and> b = CHR 0xB1 then CHR ''I'' # to_upper s
      else if a = CHR 0xC5 \<and> b = CHR 0xBF then CHR ''S'' # to_upper s
      else upper_char a # to_upper (b # s))"
| "to_upper (a # s) = upper_char a # to_upper s"
| "to_upper [] = []"

definition normalize_code :: "string \<Rightarrow> string" where
  "normalize_code s = to_upper (remove_char CHR ''-'' (trim_space s))"

definition unique_strings :: "string list \<Rightarrow> string list" where
  "unique_strings v = sort (remdups v)"

definition intersects :: "string list \<Rightarrow> string list \<Rightarrow> bool" where
  "intersects a b \<longleftrightarrow> list_ex (\<lambda>x. list_ex (\<lambda>y. x = y) b) a"

definition scope_subset :: "string list \<Rightarrow> string list \<Rightarrow> bool" where
  "scope_subset want allowed \<longleftrightarrow>
     want \<noteq> [] \<and> (intersects allowed [''*''] \<or> list_all (\<lambda>v. intersects allowed [v]) want)"

lemma intersects_iff [simp]: "intersects a b \<longleftrightarrow> set a \<inter> set b \<noteq> {}"
  by (auto simp: intersects_def list_ex_iff)

lemma unique_strings_set [simp]: "set (unique_strings v) = set v"
  by (simp add: unique_strings_def)

section \<open>Principals and the private state\<close>

record AuthPrincipal =
  pnID :: string
  pnKind :: string
  pnRole :: string
  pnProducts :: "string list"
  pnPermissions :: "string list"

definition no_principal :: AuthPrincipal where
  "no_principal = \<lparr>pnID = [], pnKind = [], pnRole = [], pnProducts = [], pnPermissions = []\<rparr>"

record login_flow =
  lfNonce :: string
  lfVerifier :: string
  lfReturnTo :: string
  lfExpires :: time

record auth_session =
  asPrincipal :: AuthPrincipal
  asExpires :: time

record agent_info =
  aiID :: string
  aiName :: string
  aiProducts :: "string list"
  aiPermissions :: "string list"
  aiCreatedAt :: time
  aiRevokedAt :: "time option"

record agent_record =
  agInfo :: agent_info
  agOwner :: string
  agVerifier :: string

record auth_device =
  dvName :: string
  dvUserHash :: string
  dvStatus :: string
  dvAgentID :: string
  dvOwner :: string
  dvProducts :: "string list"
  dvPermissions :: "string list"
  dvExpires :: time
  dvLastPoll :: time
  dvInterval :: int
  dvAttempts :: int

record auth_state =
  authFlows :: "(string \<times> login_flow) list"
  authSessions :: "(string \<times> auth_session) list"
  authAgents :: "(string \<times> agent_record) list"
  authDevices :: "(string \<times> auth_device) list"

definition empty_auth :: auth_state where
  "empty_auth = \<lparr>authFlows = [], authSessions = [], authAgents = [], authDevices = []\<rparr>"

text \<open>\<open>prune\<close>: what has expired; a device stays one hour longer.\<close>

definition prune :: "time \<Rightarrow> auth_state \<Rightarrow> auth_state" where
  "prune now st = st\<lparr>
     authFlows := filter (\<lambda>(k, v). now < lfExpires v) (authFlows st),
     authSessions := filter (\<lambda>(k, v). now < asExpires v) (authSessions st),
     authDevices := filter (\<lambda>(k, v). \<not> dvExpires v + hour < now) (authDevices st)\<rparr>"

section \<open>Configuration, calls and requests\<close>

record AuthConfig =
  acOIDC :: bool
  acPublicURL :: string
  acRolesClaim :: string
  acAllowedRoles :: "string list"
  acAdminRoles :: "string list"
  acProducts :: "string list"
  acBootstrapToken :: string
  acSessionTTL :: int
  acHash :: "string \<Rightarrow> string"
  acMac :: "string \<Rightarrow> string \<Rightarrow> string"
  acParseURL :: "string \<Rightarrow> (string \<times> string) option"

text \<open>What the identity provider answers to an authorization code: no token, no identity token, one
  that does not verify, or issuer, subject, nonce and claims.\<close>

datatype oidc_answer =
    CodeRejected
  | NotVerified
  | Verified string string string json_data

text \<open>The three clock readings of a call (before the transaction, when it prunes, inside it), whether
  the store is available (for the read of the authentication and for the handler's own transaction),
  whether the rate limit is exceeded, the random values drawn, and the provider.\<close>

record AuthCall =
  cxBefore :: time
  cxPrune :: time
  cxNow :: time
  cxReadable :: bool
  cxWritable :: bool
  cxLimited :: bool
  cxToken :: string
  cxNonce :: string
  cxVerifier :: string
  cxUserCode :: string
  cxExchange :: "string \<Rightarrow> string \<Rightarrow> oidc_answer"

text \<open>A request; the body is \<open>None\<close> when it is not exactly one JSON document of at most 8192 bytes, the
  form when it does not parse.\<close>

record AuthRequest =
  hqMethod :: string
  hqPath :: string
  hqURI :: string
  hqAuthorization :: string
  hqSession :: "string option"
  hqFlow :: "string option"
  hqOrigin :: string
  hqCSRF :: string
  hqContentType :: string
  hqQuery :: "string \<Rightarrow> string"
  hqForm :: "(string \<Rightarrow> string) option"
  hqBody :: "json option"

datatype auth_response =
    Failure nat string
  | Next "AuthPrincipal option"
  | LocalMe
  | LoginPage string
  | ProviderRedirect string string string
  | SessionStarted string string
  | Me AuthPrincipal "string option"
  | Done
  | DeviceCodes string string
  | DevicePage "auth_device option"
  | AgentToken string string
  | AgentList "agent_info list"
  | NotFound

text \<open>\<open>privateStore.update\<close>: nothing is kept when the store fails or the function returns an error.\<close>

definition store_update ::
  "AuthCall \<Rightarrow> bool \<Rightarrow> (auth_state \<Rightarrow> ('a \<times> auth_state) option) \<Rightarrow> auth_state \<Rightarrow> 'a option \<times> auth_state" where
  "store_update x available f st =
     (if \<not> available then (None, st)
      else case f (prune (cxPrune x) st) of None \<Rightarrow> (None, st) | Some (a, st') \<Rightarrow> (Some a, st'))"

definition unavailable :: auth_response where
  "unavailable = Failure 503 ''authentication_unavailable''"

text \<open>A handler whose last step is a transaction that chooses the response.\<close>

definition respond ::
  "AuthCall \<Rightarrow> (auth_state \<Rightarrow> (auth_response \<times> auth_state) option) \<Rightarrow> auth_state \<Rightarrow> auth_response \<times> auth_state" where
  "respond x f st =
     (case store_update x (cxWritable x) f st of (None, st') \<Rightarrow> (unavailable, st') | (Some r, st') \<Rightarrow> (r, st'))"

section \<open>Authentication\<close>

definition bearer_token :: "string \<Rightarrow> string option" where
  "bearer_token header =
     (case string_fields header of
        [scheme, token] \<Rightarrow> (if equal_fold scheme ''Bearer'' then Some token else None)
      | _ \<Rightarrow> None)"

definition bootstrap_principal :: "AuthConfig \<Rightarrow> AuthPrincipal" where
  "bootstrap_principal cfg =
     \<lparr>pnID = ''service/bootstrap'', pnKind = ''service'', pnRole = ''admin'', pnProducts = acProducts cfg,
      pnPermissions = [''read'', ''write'', ''deploy'', ''admin'']\<rparr>"

definition agent_principal :: "agent_record \<Rightarrow> AuthPrincipal" where
  "agent_principal a =
     \<lparr>pnID = aiID (agInfo a), pnKind = ''agent'', pnRole = ''member'', pnProducts = aiProducts (agInfo a),
      pnPermissions = aiPermissions (agInfo a)\<rparr>"

definition agent_with :: "AuthConfig \<Rightarrow> string \<Rightarrow> auth_state \<Rightarrow> agent_record option" where
  "agent_with cfg token st =
     map_option snd (find (\<lambda>(k, a). aiRevokedAt (agInfo a) = None \<and> agVerifier a = acHash cfg token) (authAgents st))"

definition session_with :: "AuthConfig \<Rightarrow> time \<Rightarrow> string \<Rightarrow> auth_state \<Rightarrow> auth_session option" where
  "session_with cfg now raw st =
     (case map_of (authSessions st) (acHash cfg raw) of
        None \<Rightarrow> None | Some s \<Rightarrow> if now < asExpires s then Some s else None)"

text \<open>\<open>authenticate\<close>: the principal, with an empty ID when there is none, and the raw session; the outer
  option is the failure of the store. The transactions only prune.\<close>

definition authenticate_bearer ::
  "AuthConfig \<Rightarrow> AuthCall \<Rightarrow> string \<Rightarrow> auth_state \<Rightarrow> (AuthPrincipal \<times> string) option \<times> auth_state" where
  "authenticate_bearer cfg x token st =
     (if acBootstrapToken cfg \<noteq> [] \<and> acHash cfg token = acHash cfg (acBootstrapToken cfg)
      then (Some (bootstrap_principal cfg, []), st)
      else if \<not> has_prefix token ''rcpa_'' \<or> 128 < length token then (Some (no_principal, []), st)
      else store_update x (cxReadable x) (\<lambda>st. Some
        (case agent_with cfg token st of None \<Rightarrow> (no_principal, []) | Some a \<Rightarrow> (agent_principal a, []), st)) st)"

definition authenticate_request ::
  "AuthConfig \<Rightarrow> AuthCall \<Rightarrow> AuthRequest \<Rightarrow> auth_state \<Rightarrow> (AuthPrincipal \<times> string) option \<times> auth_state" where
  "authenticate_request cfg x r st =
     (if hqAuthorization r \<noteq> []
      then case bearer_token (hqAuthorization r) of
          None \<Rightarrow> (Some (no_principal, []), st) | Some token \<Rightarrow> authenticate_bearer cfg x token st
      else case hqSession r of
        None \<Rightarrow> (Some (no_principal, []), st)
      | Some raw \<Rightarrow>
          (if 128 < length raw then (Some (no_principal, []), st)
           else store_update x (cxReadable x) (\<lambda>st. Some
             (case session_with cfg (cxNow x) raw st of
                None \<Rightarrow> (no_principal, [])
              | Some s \<Rightarrow> if pnID (asPrincipal s) = [] then (no_principal, []) else (asPrincipal s, raw), st)) st))"

text \<open>\<open>csrfOK\<close>\<close>

definition form_type :: "AuthRequest \<Rightarrow> bool" where
  "form_type r \<longleftrightarrow> has_prefix (hqContentType r) ''application/x-www-form-urlencoded''"

definition csrf_ok :: "AuthConfig \<Rightarrow> AuthRequest \<Rightarrow> string \<Rightarrow> bool" where
  "csrf_ok cfg r raw \<longleftrightarrow>
     (if hqOrigin r \<noteq> [] then hqOrigin r = acPublicURL cfg
      else case (if hqCSRF r = [] \<and> form_type r then map_option (\<lambda>f. f ''csrf_token'') (hqForm r) else Some (hqCSRF r)) of
        None \<Rightarrow> False
      | Some provided \<Rightarrow> raw \<noteq> [] \<and> provided = acMac cfg ''csrf'' raw)"

section \<open>Login\<close>

definition safe_return :: "AuthConfig \<Rightarrow> string \<Rightarrow> string" where
  "safe_return cfg target =
     (let u = (if acParseURL cfg target \<noteq> Some ([], []) \<or> \<not> has_prefix target ''/'' \<or> has_prefix target ''//'' \<or>
                  contains_any target [CHR 0x5C, CHR 0x0D, CHR 0x0A] then ''/'' else target)
      in if has_prefix u ''/auth/'' \<and> \<not> has_prefix u ''/auth/device?'' then ''/'' else u)"

definition auth_login :: "AuthConfig \<Rightarrow> AuthCall \<Rightarrow> AuthRequest \<Rightarrow> auth_state \<Rightarrow> auth_response \<times> auth_state" where
  "auth_login cfg x r st =
     (if hqMethod r \<noteq> ''GET'' then (Failure 405 ''method_not_allowed'', st)
      else respond x (\<lambda>st.
        if 4096 \<le> length (authFlows st) then None
        else Some (ProviderRedirect (cxToken x) (cxNonce x) (cxVerifier x),
          st\<lparr>authFlows := AList.update (acHash cfg (cxToken x))
            \<lparr>lfNonce = cxNonce x, lfVerifier = cxVerifier x, lfReturnTo = safe_return cfg (hqQuery r ''return_to''),
             lfExpires = cxNow x + 10 * minute\<rparr> (authFlows st)\<rparr>)) st)"

text \<open>\<open>claimStrings\<close>: the path is split at its points.\<close>

definition claim_member :: "json option \<Rightarrow> string \<Rightarrow> json option" where
  "claim_member v key = (case v of Some (JObj kvs) \<Rightarrow> Some (case map_of kvs key of None \<Rightarrow> JNull | Some j \<Rightarrow> j) | _ \<Rightarrow> None)"

definition claim_strings :: "json_data \<Rightarrow> string \<Rightarrow> string list" where
  "claim_strings claims path =
     (case foldl claim_member (Some (JObj claims)) (split_on CHR ''.'' path) of
        Some (JArr vs) \<Rightarrow> List.map_filter (\<lambda>v. case v of JStr s \<Rightarrow> Some s | _ \<Rightarrow> None) vs
      | _ \<Rightarrow> [])"

definition human_principal :: "AuthConfig \<Rightarrow> string \<Rightarrow> string \<Rightarrow> bool \<Rightarrow> AuthPrincipal" where
  "human_principal cfg issuer subject admin =
     \<lparr>pnID = ''human/'' @ acMac cfg ''subject'' (issuer @ [CHR 0x00] @ subject), pnKind = ''human'',
      pnRole = (if admin then ''admin'' else ''member''), pnProducts = acProducts cfg,
      pnPermissions = [''read'', ''write'', ''deploy''] @ (if admin then [''admin''] else [])\<rparr>"

text \<open>What the callback makes of the provider's answer.\<close>

definition identified :: "AuthConfig \<Rightarrow> login_flow \<Rightarrow> oidc_answer \<Rightarrow> auth_response + AuthPrincipal" where
  "identified cfg flow answer =
     (case answer of
        CodeRejected \<Rightarrow> Inl (Failure 401 ''invalid_code'')
      | NotVerified \<Rightarrow> Inl (Failure 401 ''invalid_identity'')
      | Verified issuer subject nonce claims \<Rightarrow>
          (if subject = [] \<or> nonce \<noteq> lfNonce flow then Inl (Failure 401 ''invalid_identity'')
           else let roles = claim_strings claims (acRolesClaim cfg); admin = intersects roles (acAdminRoles cfg) in
             if \<not> admin \<and> \<not> intersects roles (acAllowedRoles cfg) then Inl (Failure 403 ''role_required'')
             else Inr (human_principal cfg issuer subject admin)))"

definition start_session ::
  "AuthConfig \<Rightarrow> AuthCall \<Rightarrow> string \<Rightarrow> AuthPrincipal \<Rightarrow> auth_state \<Rightarrow> auth_response \<times> auth_state" where
  "start_session cfg x target p st = respond x (\<lambda>st.
     if 4096 \<le> length (authSessions st) then None
     else Some (SessionStarted (cxToken x) target,
       st\<lparr>authSessions := AList.update (acHash cfg (cxToken x)) \<lparr>asPrincipal = p, asExpires = cxNow x + acSessionTTL cfg\<rparr>
         (authSessions st)\<rparr>)) st"

text \<open>The flow is deleted before anything is known of the code.\<close>

definition take_flow :: "AuthConfig \<Rightarrow> string \<Rightarrow> auth_state \<Rightarrow> login_flow option \<times> auth_state" where
  "take_flow cfg state st =
     (map_of (authFlows st) (acHash cfg state), st\<lparr>authFlows := AList.delete (acHash cfg state) (authFlows st)\<rparr>)"

definition auth_callback :: "AuthConfig \<Rightarrow> AuthCall \<Rightarrow> AuthRequest \<Rightarrow> auth_state \<Rightarrow> auth_response \<times> auth_state" where
  "auth_callback cfg x r st =
     (let state = hqQuery r ''state'' in
      if hqMethod r \<noteq> ''GET'' then (Failure 405 ''method_not_allowed'', st)
      else if hqFlow r = None \<or> state = [] \<or> 128 < length state \<or> hqFlow r \<noteq> Some state
      then (Failure 400 ''invalid_state'', st)
      else case store_update x (cxReadable x) (\<lambda>st. Some (take_flow cfg state st)) st of
        (None, st') \<Rightarrow> (unavailable, st')
      | (Some found, st') \<Rightarrow>
          (case found of
             None \<Rightarrow> (Failure 400 ''invalid_state'', st')
           | Some flow \<Rightarrow>
               (if lfNonce flow = [] \<or> \<not> cxNow x < lfExpires flow then (Failure 400 ''invalid_state'', st')
                else case identified cfg flow (cxExchange x (hqQuery r ''code'') (lfVerifier flow)) of
                  Inl e \<Rightarrow> (e, st')
                | Inr p \<Rightarrow> start_session cfg x (lfReturnTo flow) p st')))"

definition auth_logout :: "AuthConfig \<Rightarrow> AuthCall \<Rightarrow> AuthRequest \<Rightarrow> string \<Rightarrow> auth_state \<Rightarrow> auth_response \<times> auth_state" where
  "auth_logout cfg x r raw st =
     (if hqMethod r \<noteq> ''POST'' then (Failure 405 ''method_not_allowed'', st)
      else if raw = [] then (Failure 403 ''human_session_required'', st)
      else respond x (\<lambda>st. Some (Done, st\<lparr>authSessions := AList.delete (acHash cfg raw) (authSessions st)\<rparr>)) st)"

end
