(* ===== verification/Authorization.thy ===== *)
theory Authorization
  imports DomainModel AuthModel
begin

text \<open>
  What an authenticated principal may do, \<open>internal/application/authorization.go\<close> and
  \<open>command_authorization.go\<close>: permissions and products, the scope of the state, and the inspection
  of a command, which follows every persisted reference its document names. The rows of a state are
  its JSON form by collection, in the order of one iteration over the map; the principal is missing
  for the local application and the internal workers.
\<close>

section \<open>Principals\<close>

definition err_forbidden :: go_error where
  "err_forbidden = GoError ''forbidden''"

definition attributed_actor :: "AuthPrincipal option \<Rightarrow> string \<Rightarrow> string" where
  "attributed_actor ctx actor = (case ctx of Some p \<Rightarrow> pnID p | None \<Rightarrow> actor)"

definition instance_admin :: "AuthPrincipal \<Rightarrow> bool" where
  "instance_admin p \<longleftrightarrow>
     (pnKind p = ''human'' \<or> pnKind p = ''service'' \<and> pnID p = ''service/bootstrap'') \<and> pnRole p = ''admin'' \<and>
     ''admin'' \<in> set (pnPermissions p) \<and> ''*'' \<in> set (pnProducts p)"

definition allowed_product :: "AuthPrincipal \<Rightarrow> string \<Rightarrow> bool" where
  "allowed_product p product \<longleftrightarrow> product \<noteq> [] \<and> (''*'' \<in> set (pnProducts p) \<or> product \<in> set (pnProducts p))"

definition authorize :: "AuthPrincipal option \<Rightarrow> string \<Rightarrow> string \<Rightarrow> unit result" where
  "authorize ctx permission product =
     (case ctx of
        None \<Rightarrow> Inr ()
      | Some p \<Rightarrow>
          (if instance_admin p then Inr ()
           else if permission = ''admin'' \<or> permission \<notin> set (pnPermissions p) \<or>
             product \<noteq> [] \<and> \<not> allowed_product p product then Inl err_forbidden
           else Inr ()))"

section \<open>Rows\<close>

type_synonym state_rows = "(string \<times> json_data list) list"

definition row_product :: "string \<Rightarrow> json_data \<Rightarrow> string" where
  "row_product kind row = data_string row (if kind = ''products'' then ''id'' else ''product_id'')"

text \<open>\<open>scopedState\<close>, on the rows.\<close>

definition scoped_rows :: "AuthPrincipal option \<Rightarrow> state_rows \<Rightarrow> state_rows result" where
  "scoped_rows ctx rows =
     (case authorize ctx ''read'' [] of
        Inl e \<Rightarrow> Inl e
      | Inr _ \<Rightarrow>
          (case ctx of
             None \<Rightarrow> Inr rows
           | Some p \<Rightarrow>
               (if instance_admin p then Inr rows
                else Inr (map (\<lambda>(kind, group). (kind, filter (\<lambda>row. allowed_product p (row_product kind row)) group)) rows))))"

text \<open>The rows by their ID, the last one of each ID first: \<open>owners\<close> and \<open>entities\<close>.\<close>

definition row_table :: "state_rows \<Rightarrow> (string \<times> string \<times> json_data) list" where
  "row_table rows =
     rev (concat (map (\<lambda>(kind, group). map (\<lambda>row. (data_string row ''id'', kind, row))
       (filter (\<lambda>row. data_string row ''id'' \<noteq> []) group)) rows))"

definition row_owner :: "state_rows \<Rightarrow> string \<Rightarrow> string option" where
  "row_owner rows v = map_option (\<lambda>(kind, row). row_product kind row) (map_of (row_table rows) v)"

definition production_row :: "state_rows \<Rightarrow> string \<Rightarrow> bool" where
  "production_row rows v \<longleftrightarrow>
     list_ex (\<lambda>(i, kind, row).
       kind = ''environments'' \<and> i = v \<and>
         (equal_fold (data_string row ''kind'') ''PROD'' \<or> equal_fold (data_string row ''kind'') ''production'') \<or>
       kind = ''environment_bindings'' \<and> map_of row ''purpose'' = Some (JStr ''PROD'') \<and> data_string row ''environment_id'' = v)
     (row_table rows)"

definition reference_keys :: "string list" where
  "reference_keys = [''environment_id'', ''composition_id'', ''candidate_operation_id'', ''operation_id'', ''parent_id'']"

definition references :: "state_rows \<Rightarrow> string \<Rightarrow> string list" where
  "references rows v =
     (case map_of (row_table rows) v of
        None \<Rightarrow> []
      | Some (kind, row) \<Rightarrow> filter (\<lambda>t. t \<noteq> []) (map (data_string row) reference_keys))"

section \<open>The inspection of a command\<close>

text \<open>\<open>inspect\<close> on strings: the visited rows are threaded, \<open>None\<close> is the refusal.\<close>

function inspect_refs :: "AuthPrincipal \<Rightarrow> state_rows \<Rightarrow> string list \<Rightarrow> string list \<Rightarrow> string list option" where
  "inspect_refs p rows seen [] = Some seen"
| "inspect_refs p rows seen (v # vs) =
     (case row_owner rows v of
        None \<Rightarrow> inspect_refs p rows seen vs
      | Some owner \<Rightarrow>
          (if \<not> allowed_product p owner \<or> production_row rows v then None
           else if v \<in> set seen then inspect_refs p rows seen vs
           else case inspect_refs p rows (v # seen) (references rows v) of
             None \<Rightarrow> None
           | Some seen' \<Rightarrow> inspect_refs p rows seen' vs))"
  by pat_completeness auto

lemma inspect_refs_grows:
  "inspect_refs_dom (p, rows, seen, vs) \<Longrightarrow> inspect_refs p rows seen vs = Some seen' \<Longrightarrow> set seen \<subseteq> set seen'"
proof (induction arbitrary: seen' rule: inspect_refs.pinduct)
  case (2 p rows seen v vs)
  show ?case
  proof (cases "row_owner rows v")
    case None
    then show ?thesis using 2 by (simp add: inspect_refs.psimps)
  next
    case (Some owner)
    then have ok: "\<not> (\<not> allowed_product p owner \<or> production_row rows v)"
      using 2(1,6) by (auto simp: inspect_refs.psimps split: if_splits)
    show ?thesis
    proof (cases "v \<in> set seen")
      case True
      then show ?thesis using 2(1,6) 2(3) [OF Some ok] Some ok by (simp add: inspect_refs.psimps)
    next
      case False
      then obtain mid where mid: "inspect_refs p rows (v # seen) (references rows v) = Some mid" "inspect_refs p rows mid vs = Some seen'"
        using 2(1,6) Some ok by (auto simp: inspect_refs.psimps split: option.splits)
      have "set (v # seen) \<subseteq> set mid" using 2(4) [OF Some ok False mid(1)] .
      moreover have "set mid \<subseteq> set seen'" using 2(5) [OF Some ok False mid(1) mid(2)] .
      ultimately show ?thesis by auto
    qed
  qed
qed (simp add: inspect_refs.psimps)

definition unseen :: "state_rows \<Rightarrow> string list \<Rightarrow> nat" where
  "unseen rows seen = card (fst ` set (row_table rows) - set seen)"

lemma unseen_visit:
  assumes "row_owner rows v = Some owner" and "v \<notin> set seen"
  shows "unseen rows (v # seen) < unseen rows seen"
proof -
  have "v \<in> fst ` set (row_table rows)" using assms(1) by (force simp: row_owner_def dest: map_of_SomeD)
  then show ?thesis unfolding unseen_def using assms(2) by (intro psubset_card_mono) auto
qed

lemma unseen_grows: "set seen \<subseteq> set seen' \<Longrightarrow> unseen rows seen' \<le> unseen rows seen"
  unfolding unseen_def by (intro card_mono) auto

termination inspect_refs
proof (relation "measures [\<lambda>(p, rows, seen, vs). unseen rows seen, \<lambda>(p, rows, seen, vs). length vs]", goal_cases)
  case (5 p rows seen v vs owner seen')
  then have "set seen \<subseteq> set seen'" using inspect_refs_grows [of p rows "v # seen"] by fastforce
  then show ?case using unseen_grows [of seen seen' rows] by auto
qed (auto dest: unseen_visit)

text \<open>\<open>inspect\<close> on the other values.\<close>

definition refused_entry :: "string \<Rightarrow> json \<Rightarrow> bool" where
  "refused_entry key item \<longleftrightarrow>
     key = ''approve_main_update'' \<and> item = JBool True \<or> key = ''status'' \<and> item = JStr ''released''"

fun inspect :: "AuthPrincipal \<Rightarrow> state_rows \<Rightarrow> string list \<Rightarrow> json \<Rightarrow> string list option"
  and inspect_items :: "AuthPrincipal \<Rightarrow> state_rows \<Rightarrow> string list \<Rightarrow> json list \<Rightarrow> string list option"
  and inspect_entries :: "AuthPrincipal \<Rightarrow> state_rows \<Rightarrow> string list \<Rightarrow> json_data \<Rightarrow> string list option" where
  "inspect p rows seen (JStr v) = inspect_refs p rows seen [v]"
| "inspect p rows seen (JArr items) = inspect_items p rows seen items"
| "inspect p rows seen (JObj entries) = inspect_entries p rows seen entries"
| "inspect p rows seen JNull = Some seen"
| "inspect p rows seen (JBool b) = Some seen"
| "inspect p rows seen (JInt n) = Some seen"
| "inspect p rows seen (JFrac s) = Some seen"
| "inspect_items p rows seen [] = Some seen"
| "inspect_items p rows seen (item # items) =
     (case inspect p rows seen item of None \<Rightarrow> None | Some seen' \<Rightarrow> inspect_items p rows seen' items)"
| "inspect_entries p rows seen [] = Some seen"
| "inspect_entries p rows seen ((key, item) # entries) =
     (if key = ''actor'' then inspect_entries p rows seen entries
      else if refused_entry key item then None
      else case inspect p rows seen item of None \<Rightarrow> None | Some seen' \<Rightarrow> inspect_entries p rows seen' entries)"

section \<open>Commands\<close>

definition member_write_actions :: "string list" where
  "member_write_actions =
     [''queue_intelligence_task'', ''cancel_intelligence_task'',
      ''create_integration_branch'', ''protect_integration_revision'', ''claim_composition_conflict'',
      ''record_conflict_resolution'', ''verify_conflict_resolution'',
      ''record_package_artifact'', ''create_hotfix'', ''create_test_scenario'', ''revise_test_scenario'', ''record_scenario_run'',
      ''refresh_integration_git'', ''refresh_repository_git'', ''refresh_environment_runtime'', ''record_runtime_observation'',
      ''record_integration_revision'', ''plan_composition'', ''select_composition'', ''create_feature'', ''update_feature'',
      ''create_integration'', ''update_integration'', ''start_integration'', ''transition_integration'',
      ''complete_integration'', ''record_progress'', ''record_decision'', ''record_discovery'', ''add_blocker'',
      ''resolve_blocker'', ''handoff'', ''create_gate'', ''add_check'', ''record_check_result'', ''record_finding'',
      ''resolve_finding'']"

definition member_deploy_actions :: "string list" where
  "member_deploy_actions = [''deploy_integration'', ''deploy_existing_artifact'', ''assemble_environment'', ''reconcile_composition'']"

definition human_actions :: "string list" where
  "human_actions = [''prepare_release_candidate'', ''promote_release_candidate'', ''plan_release'', ''record_release'']"

definition needed_permission :: "string \<Rightarrow> string" where
  "needed_permission action =
     (if action \<in> set member_deploy_actions then ''deploy''
      else if action \<in> set member_write_actions then ''write'' else ''admin'')"

text \<open>The document \<open>json.Marshal\<close> makes of a command.\<close>

definition omit_empty :: "string \<Rightarrow> string \<Rightarrow> json_data" where
  "omit_empty key s = (if s = [] then [] else [(key, JStr s)])"

definition command_json :: "Command \<Rightarrow> json" where
  "command_json c = JObj
     ([(''action'', JStr (cAction c)), (''actor'', JStr (cActor c))] @ omit_empty ''id'' (cID c) @
      omit_empty ''product_id'' (cProductID c) @ omit_empty ''feature_id'' (cFeatureID c) @
      omit_empty ''integration_id'' (cIntegrationID c) @ omit_empty ''gate_id'' (cGateID c) @
      omit_empty ''check_id'' (cCheckID c) @ omit_empty ''result_id'' (cResultID c) @ [(''data'', JObj (cData c))])"

definition command_matched :: "AuthPrincipal \<Rightarrow> state_rows \<Rightarrow> Command \<Rightarrow> bool" where
  "command_matched p rows c \<longleftrightarrow>
     cProductID c \<noteq> [] \<and> allowed_product p (cProductID c) \<or>
     list_ex (\<lambda>ref. case row_owner rows ref of None \<Rightarrow> False | Some owner \<Rightarrow> allowed_product p owner)
       [cID c, cFeatureID c, cIntegrationID c, cGateID c, cCheckID c, cResultID c]"

definition authorize_command :: "AuthPrincipal option \<Rightarrow> state_rows \<Rightarrow> Command \<Rightarrow> unit result" where
  "authorize_command ctx rows c =
     (case ctx of
        None \<Rightarrow> Inr ()
      | Some p \<Rightarrow>
          (if pnKind p \<noteq> ''human'' \<and> cAction c \<in> set human_actions then Inl err_forbidden
           else if instance_admin p then Inr ()
           else case authorize ctx (needed_permission (cAction c)) (cProductID c) of
             Inl e \<Rightarrow> Inl e
           | Inr _ \<Rightarrow>
               (case inspect p rows [] (command_json c) of
                  None \<Rightarrow> Inl err_forbidden
                | Some _ \<Rightarrow> if command_matched p rows c then Inr () else Inl err_forbidden)))"

text \<open>\<open>authorizeReferences\<close>: the loop over the IDs, the first one that is missing or foreign refuses.\<close>

definition authorize_references ::
  "AuthPrincipal option \<Rightarrow> state_rows result \<Rightarrow> string \<Rightarrow> string list \<Rightarrow> unit result" where
  "authorize_references ctx read permission ids =
     (case authorize ctx permission [] of
        Inl e \<Rightarrow> Inl e
      | Inr _ \<Rightarrow>
          (case ctx of
             None \<Rightarrow> Inr ()
           | Some p \<Rightarrow>
               (if instance_admin p then Inr ()
                else case read of
                  Inl e \<Rightarrow> Inl e
                | Inr rows \<Rightarrow>
                    (if list_all (\<lambda>i. list_ex (\<lambda>(kind, group). list_ex (\<lambda>row. map_of row ''id'' = Some (JStr i)) group) rows \<and>
                       list_all (\<lambda>(kind, group). list_all (\<lambda>row.
                         map_of row ''id'' = Some (JStr i) \<longrightarrow> allowed_product p (row_product kind row)) group) rows) ids
                     then Inr () else Inl err_forbidden))))"

section \<open>The store of a command\<close>

text \<open>\<open>commandAuthorizationStore\<close>, with the rows of a state as a parameter: a read is authorized on
  what it read, and a change on the state it is about to change.\<close>

definition guarded_read ::
  "('st \<Rightarrow> state_rows) \<Rightarrow> AuthPrincipal option \<Rightarrow> Command \<Rightarrow> 'st result \<Rightarrow> 'st result" where
  "guarded_read rows_of ctx c read =
     (case read of
        Inl e \<Rightarrow> Inl e
      | Inr st \<Rightarrow> (case authorize_command ctx (rows_of st) c of Inl e \<Rightarrow> Inl e | Inr _ \<Rightarrow> Inr st))"

definition guarded_change ::
  "('st \<Rightarrow> state_rows) \<Rightarrow> AuthPrincipal option \<Rightarrow> Command \<Rightarrow> ('st \<Rightarrow> 'st result) \<Rightarrow> 'st \<Rightarrow> 'st result" where
  "guarded_change rows_of ctx c change st =
     (if ctx \<noteq> None
      then case authorize_command ctx (rows_of st) c of Inl e \<Rightarrow> Inl e | Inr _ \<Rightarrow> change st
      else change st)"

text \<open>The entry of \<open>Execute\<close>: the command is attributed to the principal, and an authenticated one is
  authorized before anything else runs.\<close>

definition admitted_command ::
  "('st \<Rightarrow> state_rows) \<Rightarrow> AuthPrincipal option \<Rightarrow> 'st result \<Rightarrow> Command \<Rightarrow> Command result" where
  "admitted_command rows_of ctx read c =
     (let c' = c\<lparr>cActor := attributed_actor ctx (cActor c)\<rparr> in
      if ctx = None then Inr c'
      else case guarded_read rows_of ctx c' read of Inl e \<Rightarrow> Inl e | Inr _ \<Rightarrow> Inr c')"

end
