(* ===== verification/AuthDevices.thy ===== *)
theory AuthDevices
  imports AuthModel
begin

text \<open>
  The enrolment of agents (\<open>internal/auth/device.go\<close>) and the dispatch of requests
  (\<open>Wrap\<close> in \<open>manager.go\<close>): a device code is drawn, a human approves the short user code, the
  agent polls until its token is issued; agents are listed and revoked by their owner or an admin.
\<close>

section \<open>Request bodies\<close>

record DeviceCodeInput =
  dciName :: string
  dciScope :: string
  dciProducts :: "string list"

definition fields_DeviceCodeInput :: "DeviceCodeInput field list" where
  "fields_DeviceCodeInput =
     [field ''name'' dciName dciName_update dec_string,
      field ''scope'' dciScope dciScope_update dec_string,
      field ''products'' dciProducts dciProducts_update dec_strings]"

record DeviceTokenInput =
  dtiGrantType :: string
  dtiDeviceCode :: string

definition fields_DeviceTokenInput :: "DeviceTokenInput field list" where
  "fields_DeviceTokenInput =
     [field ''grant_type'' dtiGrantType dtiGrantType_update dec_string,
      field ''device_code'' dtiDeviceCode dtiDeviceCode_update dec_string]"

record CodeInput =
  ciValue :: string

definition fields_UserCode :: "CodeInput field list" where
  "fields_UserCode = [field ''user_code'' ciValue ciValue_update dec_string]"

definition fields_AgentID :: "CodeInput field list" where
  "fields_AgentID = [field ''id'' ciValue ciValue_update dec_string]"

text \<open>\<open>decodeJSON\<close>: one document, no unknown field.\<close>

definition read_body :: "'r field list \<Rightarrow> 'r \<Rightarrow> AuthRequest \<Rightarrow> 'r option" where
  "read_body tbl z r = (case hqBody r of None \<Rightarrow> None | Some j \<Rightarrow> dec_struct tbl j z)"

section \<open>Codes\<close>

definition default_scope :: "string list \<Rightarrow> string list" where
  "default_scope s = unique_strings (if s = [] then [''read'', ''write''] else s)"

definition requested_products :: "AuthConfig \<Rightarrow> DeviceCodeInput \<Rightarrow> string list" where
  "requested_products cfg v = unique_strings (if dciProducts v = [] then acProducts cfg else dciProducts v)"

definition new_device :: "AuthConfig \<Rightarrow> AuthCall \<Rightarrow> DeviceCodeInput \<Rightarrow> auth_device" where
  "new_device cfg x v =
     \<lparr>dvName = trim_space (dciName v), dvUserHash = acMac cfg ''user-code'' (normalize_code (cxUserCode x)),
      dvStatus = ''pending'', dvAgentID = [], dvOwner = [], dvProducts = requested_products cfg v,
      dvPermissions = default_scope (string_fields (dciScope v)), dvExpires = cxBefore x + 10 * minute,
      dvLastPoll = zero_time, dvInterval = 5, dvAttempts = 0\<rparr>"

definition device_code :: "AuthConfig \<Rightarrow> AuthCall \<Rightarrow> AuthRequest \<Rightarrow> auth_state \<Rightarrow> auth_response \<times> auth_state" where
  "device_code cfg x r st =
     (if hqMethod r \<noteq> ''POST'' then (Failure 405 ''method_not_allowed'', st)
      else case read_body fields_DeviceCodeInput \<lparr>dciName = [], dciScope = [], dciProducts = []\<rparr> r of
        None \<Rightarrow> (Failure 400 ''invalid_request'', st)
      | Some v \<Rightarrow>
          (let d = new_device cfg x v in
           if dvName d = [] \<or> 120 < length (dvName d) then (Failure 400 ''invalid_request'', st)
           else if \<not> list_all (\<lambda>p. p \<in> {''read'', ''write'', ''deploy''}) (dvPermissions d)
           then (Failure 400 ''invalid_scope'', st)
           else if \<not> scope_subset (dvProducts d) (acProducts cfg) then (Failure 400 ''invalid_scope'', st)
           else respond x (\<lambda>st.
             if 4096 \<le> length (authDevices st) then Some (unavailable, st)
             else Some (DeviceCodes (cxToken x) (cxUserCode x),
               st\<lparr>authDevices := AList.update (acHash cfg (cxToken x)) d (authDevices st)\<rparr>)) st))"

section \<open>Polling for the token\<close>

definition agent_token :: "AuthConfig \<Rightarrow> string \<Rightarrow> string" where
  "agent_token cfg code = ''rcpa_'' @ acMac cfg ''agent-token'' code"

fun join_spaces :: "string list \<Rightarrow> string" where
  "join_spaces [] = []"
| "join_spaces [s] = s"
| "join_spaces (s # t # ss) = s @ '' '' @ join_spaces (t # ss)"

definition token_answer :: "AuthConfig \<Rightarrow> string \<Rightarrow> auth_device \<Rightarrow> auth_response" where
  "token_answer cfg code d = AgentToken (agent_token cfg code) (join_spaces (dvPermissions d))"

definition polled_too_soon :: "time \<Rightarrow> auth_device \<Rightarrow> bool" where
  "polled_too_soon now d \<longleftrightarrow> dvLastPoll d \<noteq> zero_time \<and> now - dvLastPoll d < dvInterval d * second"

definition slowed :: "time \<Rightarrow> auth_device \<Rightarrow> auth_device" where
  "slowed now d = d\<lparr>dvInterval := min 60 (dvInterval d + 5), dvLastPoll := now\<rparr>"

definition agent_id :: "string \<Rightarrow> string" where
  "agent_id token = ''agent/'' @ token"

definition issued_agent :: "AuthConfig \<Rightarrow> AuthCall \<Rightarrow> string \<Rightarrow> auth_device \<Rightarrow> agent_record" where
  "issued_agent cfg x code d =
     \<lparr>agInfo = \<lparr>aiID = agent_id (cxToken x), aiName = dvName d, aiProducts = dvProducts d,
        aiPermissions = dvPermissions d, aiCreatedAt = cxNow x, aiRevokedAt = None\<rparr>,
      agOwner = dvOwner d, agVerifier = acHash cfg (agent_token cfg code)\<rparr>"

definition put_device :: "string \<Rightarrow> auth_device \<Rightarrow> auth_state \<Rightarrow> auth_state" where
  "put_device k d st = st\<lparr>authDevices := AList.update k d (authDevices st)\<rparr>"

definition put_agent :: "string \<Rightarrow> agent_record \<Rightarrow> auth_state \<Rightarrow> auth_state" where
  "put_agent k a st = st\<lparr>authAgents := AList.update k a (authAgents st)\<rparr>"

definition poll_device ::
  "AuthConfig \<Rightarrow> AuthCall \<Rightarrow> string \<Rightarrow> string \<Rightarrow> auth_device \<Rightarrow> auth_state \<Rightarrow> auth_response \<times> auth_state" where
  "poll_device cfg x code k d st =
     (let now = cxNow x in
      if \<not> now < dvExpires d then (Failure 400 ''expired_token'', st)
      else if dvStatus d = ''denied'' then (Failure 400 ''access_denied'', st)
      else if dvStatus d = ''issued'' then
        (case map_of (authAgents st) (dvAgentID d) of
           None \<Rightarrow> (Failure 400 ''access_denied'', st)
         | Some a \<Rightarrow> (if aiRevokedAt (agInfo a) \<noteq> None then (Failure 400 ''access_denied'', st)
                      else (token_answer cfg code d, st)))
      else if polled_too_soon now d then (Failure 400 ''slow_down'', put_device k (slowed now d) st)
      else if dvStatus d \<noteq> ''approved'' then (Failure 400 ''authorization_pending'', put_device k (d\<lparr>dvLastPoll := now\<rparr>) st)
      else let agent = issued_agent cfg x code d; i = aiID (agInfo agent) in
        (token_answer cfg code d,
         put_device k (d\<lparr>dvLastPoll := now, dvAgentID := i, dvStatus := ''issued''\<rparr>) (put_agent i agent st)))"

definition device_token :: "AuthConfig \<Rightarrow> AuthCall \<Rightarrow> AuthRequest \<Rightarrow> auth_state \<Rightarrow> auth_response \<times> auth_state" where
  "device_token cfg x r st =
     (if hqMethod r \<noteq> ''POST'' then (Failure 405 ''method_not_allowed'', st)
      else case read_body fields_DeviceTokenInput \<lparr>dtiGrantType = [], dtiDeviceCode = []\<rparr> r of
        None \<Rightarrow> (Failure 400 ''invalid_request'', st)
      | Some v \<Rightarrow>
          (if dtiGrantType v \<noteq> ''urn:ietf:params:oauth:grant-type:device_code''
           then (Failure 400 ''unsupported_grant_type'', st)
           else if length (dtiDeviceCode v) \<noteq> 43 then (Failure 400 ''invalid_grant'', st)
           else respond x (\<lambda>st. Some
             (let code = dtiDeviceCode v; k = acHash cfg code in
              case map_of (authDevices st) k of
                None \<Rightarrow> (Failure 400 ''invalid_grant'', st)
              | Some d \<Rightarrow> poll_device cfg x code k d st)) st))"

section \<open>Approval\<close>

definition within :: "AuthPrincipal \<Rightarrow> auth_device \<Rightarrow> bool" where
  "within p d \<longleftrightarrow> scope_subset (dvProducts d) (pnProducts p) \<and> scope_subset (dvPermissions d) (pnPermissions p)"

definition code_hash :: "AuthConfig \<Rightarrow> string \<Rightarrow> string" where
  "code_hash cfg code = acMac cfg ''user-code'' (normalize_code code)"

definition device_page ::
  "AuthConfig \<Rightarrow> AuthCall \<Rightarrow> AuthRequest \<Rightarrow> AuthPrincipal \<Rightarrow> auth_state \<Rightarrow> auth_response \<times> auth_state" where
  "device_page cfg x r p st =
     (let code = hqQuery r ''user_code'' in
      if hqMethod r \<noteq> ''GET'' then (Failure 405 ''method_not_allowed'', st)
      else if pnKind p \<noteq> ''human'' then (Failure 403 ''human_session_required'', st)
      else if cxLimited x then (Failure 429 ''slow_down'', st)
      else if code = [] then (DevicePage None, st)
      else if 24 < length code then (Failure 400 ''invalid_user_code'', st)
      else respond x (\<lambda>st. Some
        (case find (\<lambda>(k, d). dvUserHash d = code_hash cfg code \<and> cxNow x < dvExpires d \<and> dvStatus d = ''pending'')
            (authDevices st) of
           None \<Rightarrow> (Failure 400 ''invalid_user_code'', st)
         | Some (k, d) \<Rightarrow>
             (if \<not> within p d then (Failure 403 ''invalid_scope'', st) else (DevicePage (Some d), st)))) st)"

definition submitted_code :: "AuthRequest \<Rightarrow> string option" where
  "submitted_code r =
     (if form_type r then map_option (\<lambda>f. f ''user_code'') (hqForm r)
      else map_option ciValue (read_body fields_UserCode \<lparr>ciValue = []\<rparr> r))"

text \<open>The loop stops at the first device with the code, whatever it finds there.\<close>

definition decide_device ::
  "AuthCall \<Rightarrow> bool \<Rightarrow> AuthPrincipal \<Rightarrow> string \<Rightarrow> auth_device \<Rightarrow> auth_state \<Rightarrow> auth_response \<times> auth_state" where
  "decide_device x deny p k d st =
     (if \<not> cxNow x < dvExpires d then (Failure 400 ''expired_token'', st)
      else let d = d\<lparr>dvAttempts := dvAttempts d + 1\<rparr> in
        if dvStatus d \<noteq> ''pending'' \<or> 10 < dvAttempts d then (Failure 400 ''invalid_grant'', put_device k d st)
        else if \<not> within p d then (Failure 400 ''invalid_scope'', put_device k d st)
        else (Done, put_device k (d\<lparr>dvStatus := (if deny then ''denied'' else ''approved''), dvOwner := pnID p\<rparr>) st))"

definition device_approve ::
  "AuthConfig \<Rightarrow> AuthCall \<Rightarrow> AuthRequest \<Rightarrow> AuthPrincipal \<Rightarrow> auth_state \<Rightarrow> auth_response \<times> auth_state" where
  "device_approve cfg x r p st =
     (if hqMethod r \<noteq> ''POST'' then (Failure 405 ''method_not_allowed'', st)
      else if pnKind p \<noteq> ''human'' then (Failure 403 ''human_session_required'', st)
      else if cxLimited x then (Failure 429 ''slow_down'', st)
      else case submitted_code r of
        None \<Rightarrow> (Failure 400 ''invalid_request'', st)
      | Some code \<Rightarrow>
          (if 24 < length code \<or> code = [] then (Failure 400 ''invalid_user_code'', st)
           else respond x (\<lambda>st. Some
             (case find (\<lambda>(k, d). dvUserHash d = code_hash cfg code) (authDevices st) of
                None \<Rightarrow> (Failure 400 ''invalid_user_code'', st)
              | Some (k, d) \<Rightarrow> decide_device x (hqPath r = ''/auth/device/deny'') p k d st)) st))"

section \<open>Agents\<close>

definition manages :: "AuthPrincipal \<Rightarrow> agent_record \<Rightarrow> bool" where
  "manages p a \<longleftrightarrow> agOwner a = pnID p \<or> pnRole p = ''admin''"

definition list_agents :: "AuthCall \<Rightarrow> AuthRequest \<Rightarrow> AuthPrincipal \<Rightarrow> auth_state \<Rightarrow> auth_response \<times> auth_state" where
  "list_agents x r p st =
     (if hqMethod r \<noteq> ''GET'' then (Failure 405 ''method_not_allowed'', st)
      else if pnKind p \<noteq> ''human'' then (Failure 403 ''human_session_required'', st)
      else respond x (\<lambda>st. Some
        (AgentList (sort_key aiCreatedAt (map (agInfo \<circ> snd) (filter (\<lambda>(k, a). manages p a) (authAgents st)))), st)) st)"

definition revoked :: "time \<Rightarrow> agent_record \<Rightarrow> agent_record" where
  "revoked now a = (if aiRevokedAt (agInfo a) = None then a\<lparr>agInfo := (agInfo a)\<lparr>aiRevokedAt := Some now\<rparr>\<rparr> else a)"

definition revoke_agent :: "AuthCall \<Rightarrow> AuthRequest \<Rightarrow> AuthPrincipal \<Rightarrow> auth_state \<Rightarrow> auth_response \<times> auth_state" where
  "revoke_agent x r p st =
     (if hqMethod r \<noteq> ''POST'' then (Failure 405 ''method_not_allowed'', st)
      else if pnKind p \<noteq> ''human'' then (Failure 403 ''human_session_required'', st)
      else case read_body fields_AgentID \<lparr>ciValue = []\<rparr> r of
        None \<Rightarrow> (Failure 400 ''invalid_request'', st)
      | Some v \<Rightarrow> respond x (\<lambda>st. Some
          (case map_of (authAgents st) (ciValue v) of
             None \<Rightarrow> (Failure 404 ''agent_not_found'', st)
           | Some a \<Rightarrow>
               (if \<not> manages p a then (Failure 404 ''agent_not_found'', st)
                else (Done, put_agent (ciValue v) (revoked (cxNow x) a) st)))) st)"

section \<open>Dispatch\<close>

definition protected_path :: "string \<Rightarrow> bool" where
  "protected_path p \<longleftrightarrow> p = ''/mcp'' \<or> has_prefix p ''/mcp/'' \<or> p = ''/api'' \<or> has_prefix p ''/api/''"

definition open_paths :: "string list" where
  "open_paths = [''/auth/login'', ''/auth/callback'', ''/auth/device/code'', ''/auth/device/token'']"

definition serve_open :: "AuthConfig \<Rightarrow> AuthCall \<Rightarrow> AuthRequest \<Rightarrow> auth_state \<Rightarrow> auth_response \<times> auth_state" where
  "serve_open cfg x r st =
     (if cxLimited x then (Failure 429 ''slow_down'', st)
      else if hqPath r = ''/auth/login'' then auth_login cfg x r st
      else if hqPath r = ''/auth/callback'' then auth_callback cfg x r st
      else if hqPath r = ''/auth/device/code'' then device_code cfg x r st
      else device_token cfg x r st)"

definition serve_principal ::
  "AuthConfig \<Rightarrow> AuthCall \<Rightarrow> AuthRequest \<Rightarrow> AuthPrincipal \<Rightarrow> string \<Rightarrow> auth_state \<Rightarrow> auth_response \<times> auth_state" where
  "serve_principal cfg x r p raw st =
     (if hqPath r = ''/auth/me'' then
        (if hqMethod r \<noteq> ''GET'' then (Failure 405 ''method_not_allowed'', st)
         else (Me p (if raw = [] then None else Some (acMac cfg ''csrf'' raw)), st))
      else if hqPath r = ''/auth/logout'' then auth_logout cfg x r raw st
      else if hqPath r = ''/auth/device'' then device_page cfg x r p st
      else if hqPath r = ''/auth/device/approve'' \<or> hqPath r = ''/auth/device/deny'' then device_approve cfg x r p st
      else if hqPath r = ''/auth/agents'' then list_agents x r p st
      else if hqPath r = ''/auth/agents/revoke'' then revoke_agent x r p st
      else if has_prefix (hqPath r) ''/auth/'' then (NotFound, st)
      else (Next (Some p), st))"

definition reads_only :: "AuthRequest \<Rightarrow> bool" where
  "reads_only r \<longleftrightarrow> hqMethod r \<in> {''GET'', ''HEAD'', ''OPTIONS''}"

text \<open>\<open>Wrap\<close>\<close>

definition auth_wrap :: "AuthConfig \<Rightarrow> AuthCall \<Rightarrow> AuthRequest \<Rightarrow> auth_state \<Rightarrow> auth_response \<times> auth_state" where
  "auth_wrap cfg x r st =
     (if \<not> acOIDC cfg then (if hqPath r = ''/auth/me'' then LocalMe else Next None, st)
      else if hqPath r \<in> set open_paths then serve_open cfg x r st
      else case authenticate_request cfg x r st of
        (None, st') \<Rightarrow> (unavailable, st')
      | (Some (p, raw), st') \<Rightarrow>
          (if pnID p = [] then
             (if hqPath r = ''/auth/device'' \<and> hqMethod r = ''GET'' then LoginPage (hqURI r)
              else if protected_path (hqPath r) \<or> has_prefix (hqPath r) ''/auth/'' then Failure 401 ''unauthorized''
              else Next None, st')
           else if pnKind p = ''human'' \<and> \<not> reads_only r \<and> \<not> csrf_ok cfg r raw then (Failure 403 ''csrf_failed'', st')
           else serve_principal cfg x r p raw st'))"

text \<open>The state after a sequence of requests.\<close>

definition auth_run :: "AuthConfig \<Rightarrow> auth_state \<Rightarrow> (AuthCall \<times> AuthRequest) list \<Rightarrow> auth_state" where
  "auth_run cfg st cs = foldl (\<lambda>st (x, r). snd (auth_wrap cfg x r st)) st cs"

end
