(* ===== verification/AuthSteps.thy ===== *)
theory AuthSteps
  imports AuthDevices
begin

text \<open>
  What one request may change of the private state: every session, agent and device that it leaves is
  an old one, or comes from the login, the poll or the approval that the request is. The relation
  \<open>auth_effect\<close> states it, and every handler refines it.
\<close>

named_theorems auth_handlers \<open>the handlers behind the dispatch\<close>

section \<open>Association lists\<close>

lemma in_update: "(i, a) \<in> set (AList.update k v al) \<Longrightarrow> (i, a) = (k, v) \<or> (i, a) \<in> set al"
  by (induction al) (auto split: if_splits)

lemma in_delete: "(i, a) \<in> set (AList.delete k al) \<Longrightarrow> (i, a) \<in> set al"
  by (auto simp: AList.delete_eq)

lemma length_update_le: "length (AList.update k v al) \<le> Suc (length al)"
  by (induction al) auto

lemma find_in: "find P xs = Some (k, d) \<Longrightarrow> (k, d) \<in> set xs \<and> P (k, d)"
  using find_Some_in [of P xs "(k, d)"] find_Some_prop [of P xs "(k, d)"] by simp

section \<open>Transactions\<close>

text \<open>Flows, sessions and devices are only lost, and the agents are the same.\<close>

definition loses :: "auth_state \<Rightarrow> auth_state \<Rightarrow> bool" where
  "loses st st' \<longleftrightarrow>
     set (authFlows st') \<subseteq> set (authFlows st) \<and> set (authSessions st') \<subseteq> set (authSessions st) \<and>
     authAgents st' = authAgents st \<and> set (authDevices st') \<subseteq> set (authDevices st)"

lemma loses_refl [simp]: "loses st st"
  by (simp add: loses_def)

lemma loses_trans: "loses st st' \<Longrightarrow> loses st' st'' \<Longrightarrow> loses st st''"
  by (auto simp: loses_def)

lemma loses_prune: "loses s st \<Longrightarrow> loses s (prune now st)"
  by (auto simp: loses_def prune_def)

lemma loses_flows: "loses s st \<Longrightarrow> set fs \<subseteq> set (authFlows st) \<Longrightarrow> loses s (st\<lparr>authFlows := fs\<rparr>)"
  by (auto simp: loses_def)

lemma loses_sessions: "loses s st \<Longrightarrow> set ss \<subseteq> set (authSessions st) \<Longrightarrow> loses s (st\<lparr>authSessions := ss\<rparr>)"
  by (auto simp: loses_def)

lemma deleted_subset: "set (AList.delete k al) \<subseteq> set al"
  by (auto simp: AList.delete_eq)

lemmas loses_intros = loses_refl loses_prune loses_flows loses_sessions deleted_subset

lemma prune_loses [simp]: "loses st (prune now st)"
  by (intro loses_intros)

lemma prune_flows: "(k, v) \<in> set (authFlows (prune now st)) \<Longrightarrow> (k, v) \<in> set (authFlows st)"
  by (auto simp: prune_def)

lemma read_loses: "store_update x ok (\<lambda>s. Some (f s, s)) st = (res, st') \<Longrightarrow> loses st st'"
  by (auto simp: store_update_def split: if_splits)

lemma authenticate_loses: "authenticate_request cfg x r st = (res, st') \<Longrightarrow> loses st st'"
  by (auto simp: authenticate_request_def authenticate_bearer_def dest: read_loses split: option.splits if_splits)

section \<open>The effect of a request\<close>

text \<open>The request is a callback that starts a session for the principal, on a flow of the state and an
  identity the provider verified for it.\<close>

definition logs_in :: "AuthConfig \<Rightarrow> auth_state \<Rightarrow> AuthCall \<times> AuthRequest \<Rightarrow> AuthPrincipal \<Rightarrow> bool" where
  "logs_in cfg st c p \<longleftrightarrow>
     (case c of (x, r) \<Rightarrow>
        hqPath r = ''/auth/callback'' \<and> hqMethod r = ''GET'' \<and> hqFlow r = Some (hqQuery r ''state'') \<and>
        list_ex (\<lambda>(k, flow). k = acHash cfg (hqQuery r ''state'') \<and> lfNonce flow \<noteq> [] \<and> cxNow x < lfExpires flow \<and>
          identified cfg flow (cxExchange x (hqQuery r ''code'') (lfVerifier flow)) = Inr p) (authFlows st))"

text \<open>The request is the approval of a device by a human whose own scope contains the one of the device.\<close>

definition approves :: "AuthConfig \<Rightarrow> auth_state \<Rightarrow> AuthCall \<times> AuthRequest \<Rightarrow> string \<Rightarrow> string list \<Rightarrow> string list \<Rightarrow> bool" where
  "approves cfg st c owner products permissions \<longleftrightarrow>
     (case c of (x, r) \<Rightarrow>
        hqPath r = ''/auth/device/approve'' \<and> hqMethod r = ''POST'' \<and>
        (case fst (authenticate_request cfg x r st) of
           None \<Rightarrow> False
         | Some (p, raw) \<Rightarrow>
             pnKind p = ''human'' \<and> pnID p = owner \<and> owner \<noteq> [] \<and> csrf_ok cfg r raw \<and>
             scope_subset products (pnProducts p) \<and> scope_subset permissions (pnPermissions p)))"

definition settled_device :: "auth_device \<Rightarrow> bool" where
  "settled_device d \<longleftrightarrow> dvStatus d = ''approved'' \<or> dvStatus d = ''issued''"

definition same_grant :: "auth_device \<Rightarrow> auth_device \<Rightarrow> bool" where
  "same_grant d e \<longleftrightarrow> dvOwner e = dvOwner d \<and> dvProducts e = dvProducts d \<and> dvPermissions e = dvPermissions d"

definition agent_follows :: "agent_record \<Rightarrow> agent_record \<Rightarrow> bool" where
  "agent_follows a b \<longleftrightarrow>
     b = a \<or> (\<exists>at. b = a\<lparr>agInfo := (agInfo a)\<lparr>aiRevokedAt := Some at\<rparr>\<rparr>)"

definition session_step :: "AuthConfig \<Rightarrow> auth_state \<Rightarrow> AuthCall \<times> AuthRequest \<Rightarrow> auth_state \<Rightarrow> bool" where
  "session_step cfg st c st' \<longleftrightarrow>
     (\<forall>(k, s)\<in>set (authSessions st'). (k, s) \<in> set (authSessions st) \<or> logs_in cfg st c (asPrincipal s))"

definition device_step :: "AuthConfig \<Rightarrow> auth_state \<Rightarrow> AuthCall \<times> AuthRequest \<Rightarrow> auth_state \<Rightarrow> bool" where
  "device_step cfg st c st' \<longleftrightarrow>
     (\<forall>(k, d)\<in>set (authDevices st'). settled_device d \<longrightarrow>
        approves cfg st c (dvOwner d) (dvProducts d) (dvPermissions d) \<or>
        (\<exists>e. (k, e) \<in> set (authDevices st) \<and> settled_device e \<and> same_grant e d))"

definition agent_step :: "AuthConfig \<Rightarrow> auth_state \<Rightarrow> AuthCall \<times> AuthRequest \<Rightarrow> auth_state \<Rightarrow> bool" where
  "agent_step cfg st c st' \<longleftrightarrow>
     (\<forall>(i, a)\<in>set (authAgents st').
        (\<exists>b. (i, b) \<in> set (authAgents st) \<and> agent_follows b a) \<or>
        (\<exists>k d code. (k, d) \<in> set (authDevices st) \<and> dvStatus d = ''approved'' \<and> a = issued_agent cfg (fst c) code d \<and>
          i = agent_id (cxToken (fst c)) \<and> k = acHash cfg code))"

definition flow_step :: "AuthConfig \<Rightarrow> auth_state \<Rightarrow> AuthCall \<times> AuthRequest \<Rightarrow> auth_state \<Rightarrow> bool" where
  "flow_step cfg st c st' \<longleftrightarrow>
     fst ` set (authFlows st') \<subseteq> insert (acHash cfg (cxToken (fst c))) (fst ` set (authFlows st))"

definition keys_step :: "auth_state \<Rightarrow> auth_state \<Rightarrow> bool" where
  "keys_step st st' \<longleftrightarrow> (distinct (map fst (authAgents st)) \<longrightarrow> distinct (map fst (authAgents st')))"

definition auth_effect :: "AuthConfig \<Rightarrow> auth_state \<Rightarrow> AuthCall \<times> AuthRequest \<Rightarrow> auth_state \<Rightarrow> bool" where
  "auth_effect cfg st c st' \<longleftrightarrow> session_step cfg st c st' \<and> device_step cfg st c st' \<and> agent_step cfg st c st' \<and>
     flow_step cfg st c st' \<and> keys_step st st'"

lemmas auth_step_defs = auth_effect_def session_step_def device_step_def agent_step_def flow_step_def keys_step_def

lemma same_grant_refl [simp]: "same_grant d d"
  by (simp add: same_grant_def)

lemma agent_follows_refl [simp]: "agent_follows a a"
  by (simp add: agent_follows_def)

lemma effect_loses: "loses st st' \<Longrightarrow> auth_effect cfg st c st'"
  by (auto simp: auth_step_defs loses_def intro: same_grant_refl agent_follows_refl image_eqI)

lemma effect_refl [simp]: "auth_effect cfg st c st"
  by (simp add: effect_loses)

section \<open>Handlers\<close>

lemma respond_effect:
  assumes "\<And>a st'. f (prune (cxPrune x) st) = Some (a, st') \<Longrightarrow> auth_effect cfg s c st'" and "auth_effect cfg s c st"
  shows "auth_effect cfg s c (snd (respond x f st))"
  using assms by (auto simp: respond_def store_update_def split: option.splits)

lemma respond_some_effect:
  assumes "auth_effect cfg s c (snd (g (prune (cxPrune x) st)))" and "auth_effect cfg s c st"
  shows "auth_effect cfg s c (snd (respond x (\<lambda>st. Some (g st)) st))"
  using assms by (auto simp: respond_def store_update_def split: option.splits prod.splits)

lemma login_effect [auth_handlers]: "auth_effect cfg st (x, r) (snd (auth_login cfg x r st))"
proof -
  have "auth_effect cfg st (x, r) (st'\<lparr>authFlows := AList.update (acHash cfg (cxToken x)) f (authFlows st')\<rparr>)"
    if "loses st st'" for st' f
    using effect_loses [OF that, of cfg "(x, r)"] by (auto simp: auth_step_defs dest!: in_update)
  then show ?thesis unfolding auth_login_def by (auto intro!: respond_effect split: if_splits)
qed

lemma logout_effect [auth_handlers]: "loses s st \<Longrightarrow> auth_effect cfg s c (snd (auth_logout cfg x r raw st))"
  unfolding auth_logout_def
  by (auto intro!: respond_effect intro: effect_loses) (auto intro!: effect_loses loses_intros)

lemma code_effect [auth_handlers]: "auth_effect cfg st c (snd (device_code cfg x r st))"
proof -
  have "auth_effect cfg st c (prune (cxPrune x) st\<lparr>authDevices := AList.update k d (authDevices (prune (cxPrune x) st))\<rparr>)"
    if "\<not> settled_device d" for k d
    using that effect_loses [OF prune_loses, of cfg st c "cxPrune x"]
    by (auto simp: auth_step_defs dest!: in_update)
  then show ?thesis
    unfolding device_code_def Let_def
    by (auto intro!: respond_effect simp: new_device_def settled_device_def split: option.splits if_splits)
      (auto intro!: effect_loses loses_intros)
qed

lemma page_effect [auth_handlers]: "loses s st \<Longrightarrow> auth_effect cfg s c (snd (device_page cfg x r p st))"
  unfolding device_page_def Let_def
  by (auto intro!: respond_effect intro: effect_loses split: option.splits if_splits)
    (auto intro!: effect_loses loses_intros)

lemma list_effect [auth_handlers]: "loses s st \<Longrightarrow> auth_effect cfg s c (snd (list_agents x r p st))"
  unfolding list_agents_def
  by (auto intro!: respond_effect intro: effect_loses) (auto intro!: effect_loses loses_intros)

text \<open>Writing a row back.\<close>

lemma put_agent_effect:
  assumes "loses s st" and "(i, a) \<in> set (authAgents st)" and "agent_follows a b"
  shows "auth_effect cfg s c (put_agent i b st)"
proof -
  have "session_step cfg s c (put_agent i b st)" "device_step cfg s c (put_agent i b st)" "flow_step cfg s c (put_agent i b st)"
      "keys_step s (put_agent i b st)"
    using effect_loses [OF assms(1), of cfg c] by (simp_all add: auth_step_defs put_agent_def distinct_update)
  moreover have "agent_step cfg s c (put_agent i b st)"
    using assms by (auto simp: agent_step_def put_agent_def loses_def dest!: in_update intro: agent_follows_refl)
  ultimately show ?thesis by (simp add: auth_effect_def)
qed

lemma revoked_follows [simp]: "agent_follows a (revoked now a)"
  by (auto simp: agent_follows_def revoked_def)

lemma revoke_effect [auth_handlers]:
  assumes "loses s st"
  shows "auth_effect cfg s c (snd (revoke_agent x r p st))"
proof -
  have "auth_effect cfg s c (put_agent i (revoked now a) (prune (cxPrune x) st))"
    if "map_of (authAgents (prune (cxPrune x) st)) i = Some a" for i a now
    by (rule put_agent_effect [OF loses_prune [OF assms] map_of_SomeD [OF that] revoked_follows])
  moreover have "auth_effect cfg s c st" "auth_effect cfg s c (prune (cxPrune x) st)"
    by (rule effect_loses [OF assms], rule effect_loses [OF loses_prune [OF assms]])
  ultimately show ?thesis unfolding revoke_agent_def
    by (auto intro!: respond_effect split: option.splits if_splits)
qed

lemma put_device_effect:
  assumes "loses s st" and "(k, d) \<in> set (authDevices st)"
    and "settled_device e \<Longrightarrow> approves cfg s c (dvOwner e) (dvProducts e) (dvPermissions e) \<or> settled_device d \<and> same_grant d e"
  shows "auth_effect cfg s c (put_device k e st)"
proof -
  have "session_step cfg s c (put_device k e st)" "agent_step cfg s c (put_device k e st)" "flow_step cfg s c (put_device k e st)"
      "keys_step s (put_device k e st)"
    using effect_loses [OF assms(1), of cfg c] by (simp_all add: auth_step_defs put_device_def)
  moreover have "device_step cfg s c (put_device k e st)"
    using assms by (auto simp: device_step_def put_device_def loses_def dest!: in_update)
  ultimately show ?thesis by (simp add: auth_effect_def)
qed

lemma poll_effect:
  assumes "loses s st" and "(k, d) \<in> set (authDevices st)" and "k = acHash cfg code"
  shows "auth_effect cfg s (x, r) (snd (poll_device cfg x code k d st))"
proof -
  define agent where "agent = issued_agent cfg x code d"
  define e where "e = d\<lparr>dvLastPoll := cxNow x, dvAgentID := aiID (agInfo agent), dvStatus := ''issued''\<rparr>"
  have issue: "auth_effect cfg s (x, r) (put_device k e (put_agent (aiID (agInfo agent)) agent st))"
    if "dvStatus d = ''approved''"
  proof -
    have "settled_device d" "same_grant d e" using that by (simp_all add: settled_device_def e_def same_grant_def)
    then have "auth_effect cfg s (x, r) (put_device k e st)" using put_device_effect [OF assms(1,2)] by blast
    moreover have "agent_step cfg s (x, r) (put_agent (aiID (agInfo agent)) agent st)"
    proof -
      have i: "aiID (agInfo agent) = agent_id (cxToken x)" by (simp add: agent_def issued_agent_def)
      have kd: "(k, d) \<in> set (authDevices s)" "authAgents st = authAgents s" using assms(1,2) by (auto simp: loses_def)
      have "(\<exists>b. (j, b) \<in> set (authAgents s) \<and> agent_follows b a) \<or>
          (\<exists>k d code. (k, d) \<in> set (authDevices s) \<and> dvStatus d = ''approved'' \<and> a = issued_agent cfg x code d \<and>
            j = agent_id (cxToken x) \<and> k = acHash cfg code)"
        if "(j, a) \<in> set (AList.update (agent_id (cxToken x)) agent (authAgents s))" for j a
        using in_update [OF that] kd(1) \<open>dvStatus d = ''approved''\<close> assms(3) agent_def agent_follows_refl by blast
      then show ?thesis by (simp add: agent_step_def put_agent_def i kd(2) split: prod.split) blast
    qed
    ultimately show ?thesis by (simp add: auth_step_defs put_device_def put_agent_def distinct_update)
  qed
  have same: "auth_effect cfg s (x, r) (put_device k f st)" if "dvStatus f = dvStatus d" "same_grant d f" for f
    using that by (intro put_device_effect [OF assms(1,2)]) (simp add: settled_device_def)
  show ?thesis
    unfolding poll_device_def Let_def agent_def [symmetric] e_def [symmetric]
    by (auto intro!: issue same simp: effect_loses [OF assms(1)] slowed_def same_grant_def split: option.split)
qed

lemma token_effect [auth_handlers]: "auth_effect cfg st (x, r) (snd (device_token cfg x r st))"
proof -
  have "auth_effect cfg st (x, r) (snd (poll_device cfg x code k d (prune (cxPrune x) st)))"
    if "map_of (authDevices (prune (cxPrune x) st)) k = Some d" "k = acHash cfg code" for code k d
    using that by (intro poll_effect) (auto intro: map_of_SomeD)
  then show ?thesis
    unfolding device_token_def Let_def
    by (auto intro!: respond_some_effect simp: effect_loses split: option.splits if_splits)
qed

lemma approve_effect [auth_handlers]:
  assumes "authenticate_request cfg x r st = (Some (p, raw), st')" and "pnID p \<noteq> []"
    and "reads_only r \<or> csrf_ok cfg r raw"
  shows "hqPath r = ''/auth/device/approve'' \<or> hqPath r = ''/auth/device/deny'' \<Longrightarrow>
    auth_effect cfg st (x, r) (snd (device_approve cfg x r p st'))"
proof -
  assume path: "hqPath r = ''/auth/device/approve'' \<or> hqPath r = ''/auth/device/deny''"
  have l: "loses st (prune (cxPrune x) st')" using authenticate_loses [OF assms(1)] loses_prune by blast
  have "auth_effect cfg st (x, r) (snd (decide_device x (hqPath r = ''/auth/device/deny'') p k d (prune (cxPrune x) st')))"
    if "hqMethod r = ''POST''" "pnKind p = ''human''" "(k, d) \<in> set (authDevices (prune (cxPrune x) st'))" for k d
  proof -
    have "approves cfg st (x, r) (pnID p) (dvProducts d) (dvPermissions d)"
      if "hqPath r \<noteq> ''/auth/device/deny''" "within p d"
      using that path assms \<open>hqMethod r = ''POST''\<close> \<open>pnKind p = ''human''\<close>
      by (auto simp: approves_def within_def reads_only_def)
    then show ?thesis using that
      by (auto simp: decide_device_def Let_def effect_loses [OF l] settled_device_def same_grant_def within_def
          intro!: put_device_effect [OF l])
  qed
  note step = this
  have l': "auth_effect cfg st (x, r) st'" using authenticate_loses [OF assms(1)] effect_loses by blast
  show ?thesis
    unfolding device_approve_def
    by (auto intro!: respond_some_effect step simp: l' effect_loses [OF l] split: option.splits if_splits dest!: find_in)
qed

lemma take_flow_loses: "loses st (snd (take_flow cfg state st))"
  using deleted_subset by (simp add: take_flow_def loses_def)

lemma session_effect:
  assumes "loses s st" and "logs_in cfg s c p"
  shows "auth_effect cfg s c (snd (start_session cfg x target p st))"
proof -
  have "auth_effect cfg s c (st'\<lparr>authSessions := AList.update k \<lparr>asPrincipal = p, asExpires = e\<rparr> (authSessions st')\<rparr>)"
    if "loses s st'" for st' k e
    using effect_loses [OF that, of cfg c] assms(2) by (auto simp: auth_step_defs dest!: in_update)
  then show ?thesis unfolding start_session_def
    by (auto intro!: respond_effect simp: loses_prune effect_loses assms(1) split: if_splits)
qed

lemma callback_effect [auth_handlers]:
  assumes "hqPath r = ''/auth/callback''"
  shows "auth_effect cfg st (x, r) (snd (auth_callback cfg x r st))"
proof (cases "fst (store_update x (cxReadable x) (\<lambda>st. Some (take_flow cfg (hqQuery r ''state'') st)) st)")
  case None
  then show ?thesis
    by (auto simp: auth_callback_def Let_def store_update_def split: option.splits if_splits prod.splits)
next
  case (Some found)
  define st' where "st' = snd (take_flow cfg (hqQuery r ''state'') (prune (cxPrune x) st))"
  have upd: "store_update x (cxReadable x) (\<lambda>st. Some (take_flow cfg (hqQuery r ''state'') st)) st = (Some found, st')"
    and found: "found = map_of (authFlows (prune (cxPrune x) st)) (acHash cfg (hqQuery r ''state''))"
    using Some by (auto simp: store_update_def st'_def take_flow_def split: if_splits prod.splits)
  have l: "loses st st'" unfolding st'_def by (rule loses_trans [OF prune_loses take_flow_loses])
  have "auth_effect cfg st (x, r) (snd (start_session cfg x t p st'))"
    if "found = Some flow" "hqMethod r = ''GET''" "hqFlow r = Some (hqQuery r ''state'')" "lfNonce flow \<noteq> []"
      "cxNow x < lfExpires flow" "identified cfg flow (cxExchange x (hqQuery r ''code'') (lfVerifier flow)) = Inr p" for flow t p
  proof (rule session_effect [OF l])
    have "(acHash cfg (hqQuery r ''state''), flow) \<in> set (authFlows st)"
      using that(1) found by (metis map_of_SomeD prune_flows)
    then show "logs_in cfg st (x, r) p" using that assms by (force simp: logs_in_def list_ex_iff)
  qed
  then show ?thesis
    by (auto simp: auth_callback_def Let_def upd effect_loses [OF l] split: option.splits sum.splits)
qed

text \<open>The dispatch.\<close>

theorem wrap_effect: "auth_effect cfg st c (snd (auth_wrap cfg (fst c) (snd c) st))"
proof -
  obtain x r where c: "c = (x, r)" by force
  have open_ok: "auth_effect cfg st (x, r) (snd (serve_open cfg x r st))"
    by (auto simp: serve_open_def auth_handlers)
  have "auth_effect cfg st (x, r) (snd (serve_principal cfg x r p raw st'))"
    if "authenticate_request cfg x r st = (Some (p, raw), st')" "pnID p \<noteq> []" "pnKind p \<noteq> ''human'' \<or> reads_only r \<or> csrf_ok cfg r raw"
    for p raw st'
  proof -
    have l: "loses st st'" by (rule authenticate_loses [OF that(1)])
    have "auth_effect cfg st (x, r) (snd (device_approve cfg x r p st'))"
      if "hqPath r = ''/auth/device/approve'' \<or> hqPath r = ''/auth/device/deny''"
    proof (cases "pnKind p = ''human''")
      case True
      then show ?thesis using approve_effect that \<open>pnID p \<noteq> []\<close> \<open>authenticate_request cfg x r st = _\<close>
          \<open>pnKind p \<noteq> ''human'' \<or> _\<close> by blast
    next
      case False
      then show ?thesis using effect_loses [OF l] by (simp add: device_approve_def)
    qed
    then show ?thesis
      by (auto simp: serve_principal_def effect_loses [OF l] auth_handlers l)
  qed
  then show ?thesis using open_ok
    by (auto simp: c auth_wrap_def effect_loses dest: authenticate_loses split: option.splits prod.splits)
qed

end
