(* ===== verification/AuthProperties.thy ===== *)
theory AuthProperties
  imports AuthSteps
begin

text \<open>
  Properties of the authentication boundary: who reaches the application, what revocation and the
  single use of a login mean over runs, and the enrolment of an agent from its code to its token.
\<close>

section \<open>Events of a run\<close>

text \<open>A request that satisfies a condition in the state it met.\<close>

definition happened :: "AuthConfig \<Rightarrow> (AuthCall \<times> AuthRequest) list \<Rightarrow> (auth_state \<Rightarrow> AuthCall \<times> AuthRequest \<Rightarrow> bool) \<Rightarrow> bool" where
  "happened cfg cs P \<longleftrightarrow> list_ex (\<lambda>n. P (auth_run cfg empty_auth (take n cs)) (cs ! n)) [0..<length cs]"

lemma run_snoc: "auth_run cfg st (cs @ [c]) = snd (auth_wrap cfg (fst c) (snd c) (auth_run cfg st cs))"
  by (simp add: auth_run_def split: prod.split)

lemma run_Cons: "auth_run cfg st ((x, r) # cs) = auth_run cfg (snd (auth_wrap cfg x r st)) cs"
  by (simp add: auth_run_def)

lemma happened_snoc: "happened cfg cs P \<or> P (auth_run cfg empty_auth cs) c \<Longrightarrow> happened cfg (cs @ [c]) P"
  by (auto simp: happened_def list_ex_iff nth_append)

definition granted_scope :: "AuthConfig \<Rightarrow> (AuthCall \<times> AuthRequest) list \<Rightarrow> string \<Rightarrow> string list \<Rightarrow> string list \<Rightarrow> bool" where
  "granted_scope cfg cs owner products permissions \<longleftrightarrow>
     happened cfg cs (\<lambda>st c. approves cfg st c owner products permissions)"

definition agent_row :: "AuthConfig \<Rightarrow> (AuthCall \<times> AuthRequest) list \<Rightarrow> string \<times> agent_record \<Rightarrow> bool" where
  "agent_row cfg cs ia \<longleftrightarrow>
     (case ia of (i, a) \<Rightarrow> aiID (agInfo a) = i \<and> has_prefix i ''agent/'' \<and>
        granted_scope cfg cs (agOwner a) (aiProducts (agInfo a)) (aiPermissions (agInfo a)))"

definition recorded_auth :: "AuthConfig \<Rightarrow> (AuthCall \<times> AuthRequest) list \<Rightarrow> auth_state \<Rightarrow> bool" where
  "recorded_auth cfg cs st \<longleftrightarrow>
     (\<forall>(k, s)\<in>set (authSessions st). happened cfg cs (\<lambda>st c. logs_in cfg st c (asPrincipal s))) \<and>
     (\<forall>(k, d)\<in>set (authDevices st). settled_device d \<longrightarrow>
        granted_scope cfg cs (dvOwner d) (dvProducts d) (dvPermissions d)) \<and>
     (\<forall>ia\<in>set (authAgents st). agent_row cfg cs ia)"

lemma granted_snoc:
  "granted_scope cfg cs o' ps rs \<or> approves cfg (auth_run cfg empty_auth cs) c o' ps rs \<Longrightarrow> granted_scope cfg (cs @ [c]) o' ps rs"
  by (simp add: granted_scope_def happened_snoc)

lemma issued_simps [simp]:
  "agOwner (issued_agent cfg x code d) = dvOwner d" "aiProducts (agInfo (issued_agent cfg x code d)) = dvProducts d"
  "aiPermissions (agInfo (issued_agent cfg x code d)) = dvPermissions d"
  "aiID (agInfo (issued_agent cfg x code d)) = agent_id (cxToken x)"
  "agVerifier (issued_agent cfg x code d) = acHash cfg (agent_token cfg code)"
  "aiRevokedAt (agInfo (issued_agent cfg x code d)) = None"
  by (simp_all add: issued_agent_def)

lemma follows_row: "agent_row cfg cs (i, b) \<Longrightarrow> agent_follows b a \<Longrightarrow> agent_row cfg (cs @ [c]) (i, a)"
  by (auto simp: agent_row_def agent_follows_def granted_snoc)

lemma run_recorded: "recorded_auth cfg cs (auth_run cfg empty_auth cs)"
proof (induction cs rule: rev_induct)
  case Nil
  then show ?case by (simp add: recorded_auth_def auth_run_def empty_auth_def)
next
  case (snoc c cs)
  define st where "st = auth_run cfg empty_auth cs"
  define st' where "st' = snd (auth_wrap cfg (fst c) (snd c) st)"
  have eff: "session_step cfg st c st'" "device_step cfg st c st'" "agent_step cfg st c st'"
    using wrap_effect [of cfg st c] by (simp_all add: auth_effect_def st'_def)
  have rec: "recorded_auth cfg cs st" using snoc.IH by (simp add: st_def)
  have "happened cfg (cs @ [c]) (\<lambda>st c. logs_in cfg st c (asPrincipal s))" if "(k, s) \<in> set (authSessions st')" for k s
    using that eff(1) rec by (intro happened_snoc) (auto simp: session_step_def recorded_auth_def st_def)
  moreover have dev: "granted_scope cfg (cs @ [c]) (dvOwner d) (dvProducts d) (dvPermissions d)"
    if "(k, d) \<in> set (authDevices st')" "settled_device d" for k d
    using that eff(2) rec by (intro granted_snoc) (fastforce simp: device_step_def recorded_auth_def st_def same_grant_def)
  moreover have "agent_row cfg (cs @ [c]) (i, a)" if ia: "(i, a) \<in> set (authAgents st')" for i a
  proof -
    consider (old) b where "(i, b) \<in> set (authAgents st)" "agent_follows b a"
      | (new) k d code where "(k, d) \<in> set (authDevices st)" "dvStatus d = ''approved''"
          "a = issued_agent cfg (fst c) code d" "i = agent_id (cxToken (fst c))"
      using eff(3) ia by (auto simp: agent_step_def)
    then show ?thesis
    proof cases
      case old
      then show ?thesis using rec by (auto simp: recorded_auth_def intro: follows_row)
    next
      case new
      then have "granted_scope cfg cs (dvOwner d) (dvProducts d) (dvPermissions d)"
        using rec by (auto simp: recorded_auth_def settled_device_def)
      then show ?thesis using new by (simp add: agent_row_def granted_snoc has_prefix_def agent_id_def)
    qed
  qed
  ultimately show ?case by (auto simp: recorded_auth_def run_snoc st_def [symmetric] st'_def [symmetric])
qed

section \<open>Who reaches the application\<close>

lemma identified_human: "identified cfg flow ans = Inr p \<Longrightarrow> pnKind p = ''human'' \<and> \<not> has_prefix (pnID p) ''agent/''"
  by (auto simp: identified_def human_principal_def Let_def has_prefix_def split: oidc_answer.splits if_splits)

lemma logs_in_human: "logs_in cfg st c p \<Longrightarrow> pnKind p = ''human'' \<and> \<not> has_prefix (pnID p) ''agent/''"
  by (auto simp: logs_in_def list_ex_iff dest: identified_human)

text \<open>What a principal rests on, at a request that carries it.\<close>

definition has_authority :: "AuthConfig \<Rightarrow> (AuthCall \<times> AuthRequest) list \<Rightarrow> AuthRequest \<Rightarrow> AuthPrincipal \<Rightarrow> bool" where
  "has_authority cfg cs r p \<longleftrightarrow>
     pnKind p = ''service'' \<and> p = bootstrap_principal cfg \<and> acBootstrapToken cfg \<noteq> [] \<and>
       map_option (acHash cfg) (bearer_token (hqAuthorization r)) = Some (acHash cfg (acBootstrapToken cfg)) \<or>
     pnKind p = ''human'' \<and> happened cfg cs (\<lambda>st c. logs_in cfg st c p) \<and>
       (reads_only r \<or> (\<exists>raw. hqSession r = Some raw \<and> csrf_ok cfg r raw)) \<or>
     pnKind p = ''agent'' \<and> (\<exists>owner. granted_scope cfg cs owner (pnProducts p) (pnPermissions p))"

lemma prune_agents [simp]: "authAgents (prune now st) = authAgents st"
  by (simp add: prune_def)

lemma bearer_cases:
  assumes "authenticate_bearer cfg x token st = (Some (p, raw), st')" and "pnID p \<noteq> []"
  shows "raw = [] \<and> (p = bootstrap_principal cfg \<and> acBootstrapToken cfg \<noteq> [] \<and> acHash cfg token = acHash cfg (acBootstrapToken cfg) \<or>
    (\<exists>i a. (i, a) \<in> set (authAgents st) \<and> p = agent_principal a \<and> aiRevokedAt (agInfo a) = None \<and> agVerifier a = acHash cfg token))"
  using assms
  by (auto simp: authenticate_bearer_def store_update_def agent_with_def no_principal_def simp del: not_None_eq
      split: if_splits option.splits dest!: find_in)

lemma session_cases:
  assumes "authenticate_request cfg x r st = (Some (p, raw), st')" and "pnID p \<noteq> []" and "hqAuthorization r = []"
  shows "hqSession r = Some raw \<and> (\<exists>k s. (k, s) \<in> set (authSessions st) \<and> p = asPrincipal s)"
proof -
  have "\<exists>k s'. (k, s') \<in> set (authSessions st) \<and> s = s'" if "session_with cfg now raw' (prune n st) = Some s" for now raw' n s
    using that by (auto simp: session_with_def prune_def split: option.splits if_splits dest!: map_of_SomeD)
  then show ?thesis using assms
    by (auto simp: authenticate_request_def store_update_def no_principal_def split: if_splits option.splits) blast+
qed

lemma reached_authority:
  assumes "acOIDC cfg" and "protected_path (hqPath r)" and "fst (auth_wrap cfg x r (auth_run cfg empty_auth cs)) = Next o'"
  shows "\<exists>p. o' = Some p \<and> pnID p \<noteq> [] \<and> has_authority cfg cs r p"
proof -
  define st where "st = auth_run cfg empty_auth cs"
  have rec: "recorded_auth cfg cs st" using run_recorded by (simp add: st_def)
  have "\<not> hqPath r \<in> set open_paths" using assms(2) by (auto simp: protected_path_def open_paths_def has_prefix_def)
  then obtain p raw st' where auth: "authenticate_request cfg x r st = (Some (p, raw), st')" "pnID p \<noteq> []"
      and csrf: "pnKind p = ''human'' \<Longrightarrow> reads_only r \<or> csrf_ok cfg r raw"
      and served: "fst (serve_principal cfg x r p raw st') = Next o'"
    using assms by (auto simp: auth_wrap_def st_def [symmetric] unavailable_def split: option.splits prod.splits if_splits)
  have o': "o' = Some p"
    using served by (auto simp: serve_principal_def auth_logout_def device_page_def device_approve_def list_agents_def
        revoke_agent_def respond_def store_update_def decide_device_def unavailable_def Let_def
        split: if_splits option.splits prod.splits)
  show ?thesis
  proof (cases "hqAuthorization r = []")
    case True
    then obtain k s where s: "(k, s) \<in> set (authSessions st)" "p = asPrincipal s" "hqSession r = Some raw"
      using session_cases [OF auth True] by blast
    then have h: "happened cfg cs (\<lambda>st c. logs_in cfg st c p)" using rec by (auto simp: recorded_auth_def)
    moreover have "pnKind p = ''human''" using h by (auto simp: happened_def list_ex_iff dest: logs_in_human)
    ultimately show ?thesis using o' auth(2) csrf s(3) by (auto simp: has_authority_def)
  next
    case False
    then obtain token where t: "bearer_token (hqAuthorization r) = Some token"
        "authenticate_bearer cfg x token st = (Some (p, raw), st')"
      using auth by (auto simp: authenticate_request_def no_principal_def split: option.splits)
    show ?thesis using bearer_cases [OF t(2) auth(2)]
    proof (elim conjE disjE exE)
      fix i a assume "(i, a) \<in> set (authAgents st)" "p = agent_principal a"
      then have "granted_scope cfg cs (agOwner a) (pnProducts p) (pnPermissions p) \<and> pnKind p = ''agent''"
        using rec by (auto simp: recorded_auth_def agent_row_def agent_principal_def)
      then show ?thesis using o' auth(2) by (auto simp: has_authority_def)
    qed (use o' auth(2) t(1) in \<open>auto simp: has_authority_def bootstrap_principal_def\<close>)
  qed
qed

text \<open>C6. A request reaches the application on a protected path only with a principal that has authority:
  the bearer of the bootstrap token, a human whose session was started by an earlier verified login on a
  flow of this server (and, unless the request only reads, with the CSRF proof of that session), or an
  agent whose scope an earlier CSRF-protected approval by a human with at least that scope granted.\<close>

theorem application_reached_with_authority:
  assumes "acOIDC cfg" and "protected_path (hqPath r)" and "fst (auth_wrap cfg x r (auth_run cfg empty_auth cs)) = Next o'"
  shows "\<exists>p. o' = Some p \<and> pnID p \<noteq> [] \<and> has_authority cfg cs r p"
  by (rule reached_authority [OF assms])

section \<open>A run\<close>

text \<open>A concrete server and the requests of one enrolment: login, callback, device code, approval, poll.\<close>

definition demo_auth :: AuthConfig where
  "demo_auth =
     \<lparr>acOIDC = True, acPublicURL = ''u'', acRolesClaim = ''r'', acAllowedRoles = [''dev''], acAdminRoles = [],
      acProducts = [''p''], acBootstrapToken = [], acSessionTTL = hour, acHash = (\<lambda>s. s), acMac = (\<lambda>l s. l @ s),
      acParseURL = (\<lambda>_. Some ([], []))\<rparr>"

definition demo_call :: "string \<Rightarrow> time \<Rightarrow> AuthCall" where
  "demo_call token now =
     \<lparr>cxBefore = now, cxPrune = now, cxNow = now, cxReadable = True, cxWritable = True, cxLimited = False,
      cxToken = token, cxNonce = ''n'', cxVerifier = ''v'', cxUserCode = ''AB'',
      cxExchange = (\<lambda>_ _. Verified ''i'' ''s'' ''n'' [(''r'', JArr [JStr ''dev''])])\<rparr>"

definition demo_request :: "string \<Rightarrow> string \<Rightarrow> json option \<Rightarrow> AuthRequest" where
  "demo_request verb path body =
     \<lparr>hqMethod = verb, hqPath = path, hqURI = path, hqAuthorization = [], hqSession = Some ''k'', hqFlow = Some ''f'',
      hqOrigin = ''u'', hqCSRF = [], hqContentType = [], hqQuery = (\<lambda>k. if k = ''state'' then ''f'' else []),
      hqForm = None, hqBody = body\<rparr>"

definition demo_code :: string where
  "demo_code = replicate 43 CHR ''c''"

definition demo_login :: "(AuthCall \<times> AuthRequest) list" where
  "demo_login = [(demo_call ''f'' 0, demo_request ''GET'' ''/auth/login'' None)]"

definition demo_callback :: AuthRequest where
  "demo_callback = demo_request ''GET'' ''/auth/callback'' None"

definition demo_approval :: AuthRequest where
  "demo_approval = demo_request ''POST'' ''/auth/device/approve'' (Some (JObj [(''user_code'', JStr ''AB'')]))"

definition demo_poll :: AuthRequest where
  "demo_poll = demo_request ''POST'' ''/auth/device/token'' (Some (JObj
     [(''grant_type'', JStr ''urn:ietf:params:oauth:grant-type:device_code''), (''device_code'', JStr demo_code)]))"

definition demo_enrolling :: "(AuthCall \<times> AuthRequest) list" where
  "demo_enrolling = demo_login @
     [(demo_call ''k'' 1, demo_callback),
      (demo_call demo_code 2, demo_request ''POST'' ''/auth/device/code''
        (Some (JObj [(''name'', JStr ''bot''), (''scope'', JStr ''read''), (''products'', JArr [JStr ''p''])])))]"

definition demo_enrolled :: "(AuthCall \<times> AuthRequest) list" where
  "demo_enrolled = demo_enrolling @ [(demo_call ''x'' 3, demo_approval), (demo_call ''a'' 4, demo_poll)]"

definition demo_work :: AuthRequest where
  "demo_work = (demo_request ''POST'' ''/api'' None)\<lparr>hqAuthorization := ''Bearer '' @ agent_token demo_auth demo_code\<rparr>"

definition demo_bot :: AuthPrincipal where
  "demo_bot = \<lparr>pnID = ''agent/a'', pnKind = ''agent'', pnRole = ''member'', pnProducts = [''p''], pnPermissions = [''read'']\<rparr>"

definition demo_revocation :: AuthRequest where
  "demo_revocation = demo_request ''POST'' ''/auth/agents/revoke'' (Some (JObj [(''id'', JStr ''agent/a'')]))"

lemma demo_served:
  "acOIDC demo_auth" "protected_path (hqPath demo_work)"
  "fst (auth_wrap demo_auth (demo_call ''z'' 5) demo_work (auth_run demo_auth empty_auth demo_enrolled)) = Next (Some demo_bot)"
  by code_simp+

theorem application_reached_with_authority_witness:
  "\<exists>p. Some demo_bot = Some p \<and> pnID p \<noteq> [] \<and> has_authority demo_auth demo_enrolled demo_work p"
  by (rule application_reached_with_authority [OF demo_served])

section \<open>Revocation and single use\<close>

definition locked_out :: "string \<Rightarrow> auth_state \<Rightarrow> bool" where
  "locked_out i st \<longleftrightarrow> list_all (\<lambda>(j, a). j = i \<longrightarrow> aiRevokedAt (agInfo a) \<noteq> None) (authAgents st)"

lemma locked_out_step:
  assumes "locked_out i st" and "agent_id (cxToken (fst c)) \<noteq> i"
  shows "locked_out i (snd (auth_wrap cfg (fst c) (snd c) st))"
proof -
  have "agent_step cfg st c (snd (auth_wrap cfg (fst c) (snd c) st))" using wrap_effect by (auto simp: auth_effect_def)
  then show ?thesis using assms
    by (fastforce simp: agent_step_def locked_out_def list_all_iff agent_follows_def)
qed

lemma locked_out_run:
  "locked_out i st \<Longrightarrow> list_all (\<lambda>(y, q). agent_id (cxToken y) \<noteq> i) ds \<Longrightarrow> locked_out i (auth_run cfg st ds)"
proof (induction ds arbitrary: st)
  case (Cons c ds)
  then have "locked_out i (snd (auth_wrap cfg (fst c) (snd c) st))" by (intro locked_out_step) auto
  then show ?case using Cons by (cases c) (simp add: run_Cons)
qed (simp add: auth_run_def)

lemma update_others: "(j, b) \<in> set (AList.update i a al) \<Longrightarrow> distinct (map fst al) \<Longrightarrow> j = i \<Longrightarrow> b = a"
  by (induction al) (force split: if_splits)+

lemma run_keys: "distinct (map fst (authAgents (auth_run cfg empty_auth cs)))"
proof (induction cs rule: rev_induct)
  case (snoc c cs)
  then show ?case using wrap_effect [of cfg "auth_run cfg empty_auth cs" c] by (simp add: run_snoc auth_effect_def keys_step_def)
qed (simp add: auth_run_def empty_auth_def)

lemma principal_ids:
  assumes "recorded_auth cfg cs st" and "authenticate_request cfg y q st' = (Some (p, raw), s)" and "has_prefix (pnID p) ''agent/''"
    and "recorded_auth cfg cs st'"
  shows "\<exists>a. (pnID p, a) \<in> set (authAgents st') \<and> aiRevokedAt (agInfo a) = None"
proof -
  have n: "pnID p \<noteq> []" using assms(3) by (auto simp: has_prefix_def)
  have human: "\<not> has_prefix (pnID p') ''agent/''" if "happened cfg cs (\<lambda>st c. logs_in cfg st c p')" for p'
    using that by (auto simp: happened_def list_ex_iff dest: logs_in_human)
  show ?thesis
  proof (cases "hqAuthorization q = []")
    case True
    then show ?thesis using session_cases [OF assms(2) n True] human assms(3,4) by (auto simp: recorded_auth_def)
  next
    case False
    then obtain token where "authenticate_bearer cfg y token st' = (Some (p, raw), s)"
      using assms(2) n by (auto simp: authenticate_request_def no_principal_def split: option.splits)
    then show ?thesis using bearer_cases [OF _ n] assms(3,4)
      by (fastforce simp: bootstrap_principal_def has_prefix_def recorded_auth_def agent_row_def agent_principal_def)
  qed
qed

text \<open>C10. Revocation is final: once a revocation of an agent has been answered with success, no request after
  any further sequence of requests is authenticated as that agent, its token and its device code included,
  as long as the random identity of the agent is not drawn again.\<close>

theorem revoked_agent_locked_out:
  assumes "auth_wrap cfg x r (auth_run cfg empty_auth cs) = (Done, st')" and "hqPath r = ''/auth/agents/revoke''"
    and "read_body fields_AgentID \<lparr>ciValue = []\<rparr> r = Some v"
    and "list_all (\<lambda>(y, q). agent_id (cxToken y) \<noteq> ciValue v) ds"
  shows "fst (authenticate_request cfg y q (auth_run cfg st' ds)) \<noteq> Some (p, raw) \<or> pnID p \<noteq> ciValue v"
proof -
  define st where "st = auth_run cfg empty_auth cs"
  have rec: "recorded_auth cfg cs st" using run_recorded by (simp add: st_def)
  have st': "st' = auth_run cfg empty_auth (cs @ [(x, r)])" using assms(1) by (simp add: run_snoc)
  obtain p' raw' s where a: "authenticate_request cfg x r st = (Some (p', raw'), s)"
      and w: "revoke_agent x r p' s = (Done, st')"
    using assms(1,2)
    by (auto simp: auth_wrap_def st_def [symmetric] unavailable_def open_paths_def serve_principal_def protected_path_def
        has_prefix_def split: option.splits prod.splits if_splits)
  obtain b where b: "map_of (authAgents s) (ciValue v) = Some b"
      and put: "authAgents st' = AList.update (ciValue v) (revoked (cxNow x) b) (authAgents s)"
    using w assms(3)
    by (auto simp: revoke_agent_def respond_def store_update_def unavailable_def put_agent_def
        split: option.splits if_splits prod.splits)
  have s: "authAgents s = authAgents st" using authenticate_loses [OF a] by (simp add: loses_def)
  have "locked_out (ciValue v) st'"
    using update_others run_keys [of cfg cs]
    by (fastforce simp: locked_out_def list_all_iff put s st_def revoked_def split: if_splits)
  then have l: "locked_out (ciValue v) (auth_run cfg st' ds)" using assms(4) by (rule locked_out_run)
  have run: "auth_run cfg st' ds = auth_run cfg empty_auth ((cs @ [(x, r)]) @ ds)"
    unfolding st' by (simp add: auth_run_def)
  have pre: "has_prefix (ciValue v) ''agent/''"
    using rec map_of_SomeD [OF b] by (auto simp: s recorded_auth_def agent_row_def)
  show ?thesis
  proof (rule ccontr)
    assume "\<not> ?thesis"
    then have p: "pnID p = ciValue v" "fst (authenticate_request cfg y q (auth_run cfg st' ds)) = Some (p, raw)" by auto
    then obtain s2 where "authenticate_request cfg y q (auth_run cfg st' ds) = (Some (p, raw), s2)" by (metis prod.collapse)
    then obtain a where "(ciValue v, a) \<in> set (authAgents (auth_run cfg st' ds))" "aiRevokedAt (agInfo a) = None"
      using principal_ids [OF run_recorded _ _ run_recorded] pre p(1) run by metis
    then show False using l by (auto simp: locked_out_def list_all_iff)
  qed
qed

definition demo_revoked :: "auth_response \<times> auth_state" where
  "demo_revoked = auth_wrap demo_auth (demo_call ''z'' 5) demo_revocation (auth_run demo_auth empty_auth demo_enrolled)"

lemma demo_revoked_done:
  "fst demo_revoked = Done" "hqPath demo_revocation = ''/auth/agents/revoke''"
  "read_body fields_AgentID \<lparr>ciValue = []\<rparr> demo_revocation = Some \<lparr>ciValue = ''agent/a''\<rparr>"
  "list_all (\<lambda>(y, q). agent_id (cxToken y) \<noteq> ''agent/a'') [(demo_call ''b'' 6, demo_poll)]"
  by code_simp+

theorem revoked_agent_locked_out_witness:
  "fst (authenticate_request demo_auth (demo_call ''z'' 7) demo_work
     (auth_run demo_auth (snd demo_revoked) [(demo_call ''b'' 6, demo_poll)])) \<noteq> Some (demo_bot, [])"
proof -
  have "auth_wrap demo_auth (demo_call ''z'' 5) demo_revocation (auth_run demo_auth empty_auth demo_enrolled) = (Done, snd demo_revoked)"
    using demo_revoked_done(1) by (metis demo_revoked_def prod.collapse)
  from revoked_agent_locked_out [OF this demo_revoked_done(2,3), of "[(demo_call ''b'' 6, demo_poll)]" "demo_call ''z'' 7" demo_work demo_bot "[]"]
  show ?thesis using demo_revoked_done(4) by (simp add: demo_bot_def)
qed

lemma spent_run:
  "h \<notin> fst ` set (authFlows st) \<Longrightarrow> list_all (\<lambda>(y, q). acHash cfg (cxToken y) \<noteq> h) ds \<Longrightarrow>
   h \<notin> fst ` set (authFlows (auth_run cfg st ds))"
proof (induction ds arbitrary: st)
  case (Cons c ds)
  have "flow_step cfg st c (snd (auth_wrap cfg (fst c) (snd c) st))" using wrap_effect by (auto simp: auth_effect_def)
  then have "h \<notin> fst ` set (authFlows (snd (auth_wrap cfg (fst c) (snd c) st)))"
    using Cons.prems by (auto simp: flow_step_def)
  then show ?case using Cons.IH Cons.prems by (cases c) (simp add: run_Cons)
qed (simp add: auth_run_def)

text \<open>Only a callback starts a session, and it has spent its flow.\<close>

lemma respond_answer: "fst (respond x f st) = unavailable \<or> (\<exists>a st'. f (prune (cxPrune x) st) = Some (a, st') \<and> fst (respond x f st) = a)"
  by (auto simp: respond_def store_update_def split: option.splits)

lemma respond_never:
  assumes "\<And>a st'. f (prune (cxPrune x) st) = Some (a, st') \<Longrightarrow> a \<noteq> SessionStarted t u"
  shows "fst (respond x f st) \<noteq> SessionStarted t u"
  using respond_answer [of x f st] assms by (auto simp: unavailable_def)

lemma never_session [simp]:
  "fst (auth_login cfg x r st) \<noteq> SessionStarted t u" "fst (device_code cfg x r st) \<noteq> SessionStarted t u"
  "fst (auth_logout cfg x r raw st) \<noteq> SessionStarted t u" "fst (device_page cfg x r p st) \<noteq> SessionStarted t u"
  "fst (list_agents x r p st) \<noteq> SessionStarted t u" "fst (revoke_agent x r p st) \<noteq> SessionStarted t u"
  by (auto simp: auth_login_def device_code_def auth_logout_def device_page_def list_agents_def revoke_agent_def Let_def
      unavailable_def intro!: respond_never split: if_splits option.splits)

lemma poll_never [simp]: "fst (poll_device cfg x code k d st) \<noteq> SessionStarted t u"
  by (simp add: poll_device_def token_answer_def Let_def split: option.split)

lemma decide_never [simp]: "fst (decide_device x deny p k d st) \<noteq> SessionStarted t u"
  by (simp add: decide_device_def Let_def)

lemma respond_some_never:
  assumes "\<And>st. fst (g st) \<noteq> SessionStarted t u"
  shows "fst (respond x (\<lambda>st. Some (g st)) st) \<noteq> SessionStarted t u"
  by (rule respond_never) (metis assms fst_conv option.inject)

lemma token_never [simp]: "fst (device_token cfg x r st) \<noteq> SessionStarted t u"
  by (auto simp: device_token_def Let_def intro!: respond_some_never split: option.splits)

lemma approve_never [simp]: "fst (device_approve cfg x r p st) \<noteq> SessionStarted t u"
  by (auto simp: device_approve_def intro!: respond_some_never split: option.splits)

lemma principal_never [simp]: "fst (serve_principal cfg x r p raw st) \<noteq> SessionStarted t u"
  by (simp add: serve_principal_def)

lemma only_callback:
  assumes "fst (auth_wrap cfg x r st) = SessionStarted t u"
  shows "hqPath r = ''/auth/callback'' \<and> auth_wrap cfg x r st = auth_callback cfg x r st"
  using assms
  by (auto simp: auth_wrap_def serve_open_def unavailable_def split: if_splits option.splits prod.splits)

lemma session_spends:
  assumes "auth_callback cfg x r st = (SessionStarted t u, st')"
  shows "acHash cfg (hqQuery r ''state'') \<in> fst ` set (authFlows st) \<and> acHash cfg (hqQuery r ''state'') \<notin> fst ` set (authFlows st')"
proof -
  let ?h = "acHash cfg (hqQuery r ''state'')"
  obtain found s where f: "store_update x (cxReadable x) (\<lambda>st. Some (take_flow cfg (hqQuery r ''state'') st)) st = (Some found, s)"
      "found \<noteq> None" and ss: "\<exists>p target. start_session cfg x target p s = (SessionStarted t u, st')"
    using assms
    by (auto simp: auth_callback_def Let_def unavailable_def identified_def
        split: if_splits option.splits prod.splits sum.splits oidc_answer.splits)
  have s: "found = map_of (authFlows (prune (cxPrune x) st)) ?h" "authFlows s = AList.delete ?h (authFlows (prune (cxPrune x) st))"
    using f(1) by (auto simp: store_update_def take_flow_def split: if_splits)
  have "set (authFlows st') \<subseteq> set (authFlows s)"
    using ss by (auto simp: start_session_def respond_def store_update_def unavailable_def prune_def
        split: if_splits option.splits prod.splits)
  moreover have "?h \<notin> fst ` set (authFlows s)" by (auto simp: s(2) AList.delete_eq)
  moreover have "?h \<in> fst ` set (authFlows st)"
  proof -
    obtain v where "map_of (authFlows (prune (cxPrune x) st)) ?h = Some v" using f(2) s(1) by auto
    then show ?thesis using prune_flows map_of_SomeD by (metis fst_conv image_eqI)
  qed
  ultimately show ?thesis by blast
qed

lemma session_started:
  assumes "auth_wrap cfg x r st = (SessionStarted t u, st')"
  shows "acHash cfg (hqQuery r ''state'') \<in> fst ` set (authFlows st) \<and> acHash cfg (hqQuery r ''state'') \<notin> fst ` set (authFlows st')"
proof -
  have "auth_wrap cfg x r st = auth_callback cfg x r st" using only_callback [of cfg x r st t u] assms by simp
  then have "auth_callback cfg x r st = (SessionStarted t u, st')" using assms by simp
  then show ?thesis by (rule session_spends)
qed

text \<open>C12. A login is used once: after a callback has started a session, no later callback with the same
  state starts another, whatever happens in between, unless a new login draws the same state.\<close>

theorem login_used_once:
  assumes "auth_wrap cfg x r st = (SessionStarted t u, st')"
    and "list_all (\<lambda>(y, q). acHash cfg (cxToken y) \<noteq> acHash cfg (hqQuery r ''state'')) ds"
    and "hqQuery q ''state'' = hqQuery r ''state''"
  shows "fst (auth_wrap cfg y q (auth_run cfg st' ds)) \<noteq> SessionStarted t2 u2"
proof
  assume "fst (auth_wrap cfg y q (auth_run cfg st' ds)) = SessionStarted t2 u2"
  then obtain s where "auth_wrap cfg y q (auth_run cfg st' ds) = (SessionStarted t2 u2, s)" by (metis prod.collapse)
  from session_started [OF this] have "acHash cfg (hqQuery r ''state'') \<in> fst ` set (authFlows (auth_run cfg st' ds))"
    by (simp add: assms(3))
  then show False using spent_run [OF conjunct2 [OF session_started [OF assms(1)]] assms(2)] by simp
qed

definition demo_session :: "auth_response \<times> auth_state" where
  "demo_session = auth_wrap demo_auth (demo_call ''k'' 1) demo_callback (auth_run demo_auth empty_auth demo_login)"

lemma demo_session_started:
  "fst demo_session = SessionStarted ''k'' ''/''"
  "list_all (\<lambda>(y, q). acHash demo_auth (cxToken y) \<noteq> acHash demo_auth (hqQuery demo_callback ''state''))
     [(demo_call ''g'' 2, demo_request ''GET'' ''/auth/login'' None)]"
  by code_simp+

theorem login_used_once_witness:
  "fst (auth_wrap demo_auth (demo_call ''k'' 3) demo_callback
     (auth_run demo_auth (snd demo_session) [(demo_call ''g'' 2, demo_request ''GET'' ''/auth/login'' None)])) \<noteq>
   SessionStarted ''k'' ''/''"
proof -
  have "auth_wrap demo_auth (demo_call ''k'' 1) demo_callback (auth_run demo_auth empty_auth demo_login) =
      (SessionStarted ''k'' ''/'', snd demo_session)"
    using demo_session_started(1) by (metis demo_session_def prod.collapse)
  from login_used_once [OF this demo_session_started(2) refl] show ?thesis .
qed

section \<open>Enrolment\<close>

text \<open>A code that waits for its approval: no other device has the user code.\<close>

definition pending_code :: "AuthConfig \<Rightarrow> auth_state \<Rightarrow> string \<Rightarrow> string \<Rightarrow> auth_device \<Rightarrow> bool" where
  "pending_code cfg st code user d \<longleftrightarrow>
     map_of (authDevices st) (acHash cfg code) = Some d \<and> distinct (map fst (authDevices st)) \<and>
     list_all (\<lambda>(j, e). dvUserHash e = code_hash cfg user \<longrightarrow> j = acHash cfg code) (authDevices st) \<and>
     dvUserHash d = code_hash cfg user \<and> dvStatus d = ''pending'' \<and> dvAttempts d < 10 \<and> length code = 43 \<and>
     user \<noteq> [] \<and> length user \<le> 24"

definition timely :: "AuthCall \<Rightarrow> auth_device \<Rightarrow> bool" where
  "timely x d \<longleftrightarrow> cxWritable x \<and> \<not> cxLimited x \<and> cxPrune x \<le> cxNow x \<and> cxNow x < dvExpires d"

definition token_request :: "AuthRequest \<Rightarrow> string \<Rightarrow> bool" where
  "token_request q code \<longleftrightarrow> hqMethod q = ''POST'' \<and>
     read_body fields_DeviceTokenInput \<lparr>dtiGrantType = [], dtiDeviceCode = []\<rparr> q =
       Some \<lparr>dtiGrantType = ''urn:ietf:params:oauth:grant-type:device_code'', dtiDeviceCode = code\<rparr>"

lemma pruned_device:
  assumes "map_of (authDevices st) k = Some d" and "distinct (map fst (authDevices st))" and "timely x d"
  shows "map_of (authDevices (prune (cxPrune x) st)) k = Some d"
proof -
  have "\<not> dvExpires d + hour < cxPrune x" using assms(3) by (simp add: timely_def hour_def minute_def second_def)
  then have "(k, d) \<in> set (authDevices (prune (cxPrune x) st))" using map_of_SomeD [OF assms(1)] by (simp add: prune_def)
  moreover have "distinct (map fst (authDevices (prune (cxPrune x) st)))"
    using assms(2) by (simp add: prune_def distinct_map_filter)
  ultimately show ?thesis by simp
qed

lemma put_device_simps [simp]:
  "authAgents (put_device k d st) = authAgents st" "authDevices (put_agent i a st) = authDevices st"
  "map_of (authDevices (put_device k d st)) k = Some d" "map_of (authAgents (put_agent i a st)) i = Some a"
  by (simp_all add: put_device_def put_agent_def update_conv)

lemma put_device_distinct [simp]:
  "distinct (map fst (authDevices st)) \<Longrightarrow> distinct (map fst (authDevices (put_device k d st)))"
  by (simp add: put_device_def distinct_update)

lemma prune_distinct [simp]: "distinct (map fst (authDevices st)) \<Longrightarrow> distinct (map fst (authDevices (prune n st)))"
  by (simp add: prune_def distinct_map_filter)

lemma find_only:
  "map_of ds k = Some d \<Longrightarrow> P d \<Longrightarrow> list_all (\<lambda>(j, e). P e \<longrightarrow> j = k) ds \<Longrightarrow> find (\<lambda>(j, e). P e) ds = Some (k, d)"
  by (induction ds) (auto split: if_splits)

lemma approval_step:
  assumes "pending_code cfg st code user d" and "timely x d" and "hqMethod r = ''POST''" and "hqPath r = ''/auth/device/approve''"
    and "submitted_code r = Some user" and "pnKind p = ''human''" and "within p d"
  shows "device_approve cfg x r p st = (Done, put_device (acHash cfg code)
    (d\<lparr>dvAttempts := dvAttempts d + 1, dvStatus := ''approved'', dvOwner := pnID p\<rparr>) (prune (cxPrune x) st))"
proof -
  let ?ds = "authDevices (prune (cxPrune x) st)"
  have m: "map_of ?ds (acHash cfg code) = Some d" using assms(1,2) by (intro pruned_device) (auto simp: pending_code_def)
  have u: "list_all (\<lambda>(j, e). dvUserHash e = code_hash cfg user \<longrightarrow> j = acHash cfg code) ?ds"
    using assms(1) by (auto simp: pending_code_def list_all_iff prune_def)
  have "find (\<lambda>(k, d). dvUserHash d = code_hash cfg user) ?ds = Some (acHash cfg code, d)"
    using assms(1) by (intro find_only [OF m _ u]) (simp add: pending_code_def)
  then show ?thesis using assms
    by (simp add: device_approve_def respond_def store_update_def decide_device_def timely_def pending_code_def within_def)
qed

lemma issue_step:
  assumes "map_of (authDevices st) (acHash cfg code) = Some d" and "distinct (map fst (authDevices st))" and "timely y d"
    and "token_request q code" and "length code = 43" and "dvStatus d = ''approved''" and "\<not> polled_too_soon (cxNow y) d"
  shows "device_token cfg y q st = (token_answer cfg code d,
    put_device (acHash cfg code) (d\<lparr>dvLastPoll := cxNow y, dvAgentID := agent_id (cxToken y), dvStatus := ''issued''\<rparr>)
      (put_agent (agent_id (cxToken y)) (issued_agent cfg y code d) (prune (cxPrune y) st)))"
  using assms pruned_device [OF assms(1-3)]
  by (simp add: device_token_def token_request_def respond_def store_update_def poll_device_def Let_def timely_def)

lemma replay_step:
  assumes "map_of (authDevices st) (acHash cfg code) = Some d" and "distinct (map fst (authDevices st))" and "timely z d"
    and "token_request q code" and "length code = 43" and "dvStatus d = ''issued''"
    and "map_of (authAgents st) (dvAgentID d) = Some a" and "aiRevokedAt (agInfo a) = None"
  shows "device_token cfg z q st = (token_answer cfg code d, prune (cxPrune z) st)"
  using assms pruned_device [OF assms(1-3)]
  by (simp add: device_token_def token_request_def respond_def store_update_def poll_device_def Let_def timely_def)

lemma bearer_step:
  assumes "map_of (authAgents st) i = Some a" and "aiRevokedAt (agInfo a) = None" and "agVerifier a = acHash cfg (agent_token cfg code)"
    and "list_all (\<lambda>(j, b). agVerifier b = acHash cfg (agent_token cfg code) \<longrightarrow> j = i) (authAgents st)"
    and "length (agent_token cfg code) \<le> 128" and "cxReadable w"
    and "acHash cfg (agent_token cfg code) \<noteq> acHash cfg (acBootstrapToken cfg)"
  shows "fst (authenticate_bearer cfg w (agent_token cfg code) st) = Some (agent_principal a, [])"
proof -
  have "find (\<lambda>(k, a). aiRevokedAt (agInfo a) = None \<and> agVerifier a = acHash cfg (agent_token cfg code)) (authAgents st) = Some (i, a)"
    using assms(2-4) by (intro find_only [OF assms(1)]) (auto simp: list_all_iff)
  then have "agent_with cfg (agent_token cfg code) st = Some a" by (simp add: agent_with_def)
  then have "agent_with cfg (agent_token cfg code) (prune n st) = Some a" for n by (simp add: agent_with_def)
  moreover have "has_prefix (agent_token cfg code) ''rcpa_''" by (simp add: agent_token_def has_prefix_def)
  ultimately show ?thesis using assms(5-7) by (simp add: authenticate_bearer_def store_update_def)
qed

text \<open>C11. An enrolment completes: for a code that waits, the approval by a human whose scope contains the one
  asked for succeeds, the next poll that is not too soon issues the token, a repeated poll before the code
  expires answers with the same token and creates no second agent, and the token authenticates as an agent
  with exactly the products and permissions that were asked for.\<close>

theorem enrolment_completes:
  assumes "pending_code cfg st code user d" and "timely x d" and "timely y d" and "timely z d"
    and "hqMethod r = ''POST''" and "hqPath r = ''/auth/device/approve''" and "submitted_code r = Some user"
    and "pnKind p = ''human''" and "within p d" and "token_request q code" and "\<not> polled_too_soon (cxNow y) d"
    and "list_all (\<lambda>(j, b). agVerifier b \<noteq> acHash cfg (agent_token cfg code)) (authAgents st)"
    and "length (agent_token cfg code) \<le> 128" and "acHash cfg (agent_token cfg code) \<noteq> acHash cfg (acBootstrapToken cfg)"
    and "cxReadable w"
  shows "case device_approve cfg x r p st of (a1, s1) \<Rightarrow> case device_token cfg y q s1 of (a2, s2) \<Rightarrow>
    case device_token cfg z q s2 of (a3, s3) \<Rightarrow>
      a1 = Done \<and> a2 = token_answer cfg code d \<and> a3 = a2 \<and> authAgents s3 = authAgents s2 \<and>
      fst (authenticate_bearer cfg w (agent_token cfg code) s3) =
        Some (\<lparr>pnID = agent_id (cxToken y), pnKind = ''agent'', pnRole = ''member'', pnProducts = dvProducts d,
          pnPermissions = dvPermissions d\<rparr>, [])"
proof -
  define k where "k = acHash cfg code"
  define d1 where "d1 = d\<lparr>dvAttempts := dvAttempts d + 1, dvStatus := ''approved'', dvOwner := pnID p\<rparr>"
  define s1 where "s1 = put_device k d1 (prune (cxPrune x) st)"
  define i where "i = agent_id (cxToken y)"
  define a where "a = issued_agent cfg y code d1"
  define d2 where "d2 = d1\<lparr>dvLastPoll := cxNow y, dvAgentID := i, dvStatus := ''issued''\<rparr>"
  define s2 where "s2 = put_device k d2 (put_agent i a (prune (cxPrune y) s1))"
  have dist: "distinct (map fst (authDevices st))" and len: "length code = 43" using assms(1) by (auto simp: pending_code_def)
  have one: "device_approve cfg x r p st = (Done, s1)"
    unfolding s1_def k_def d1_def by (rule approval_step [OF assms(1,2,5,6,7,8,9)])
  have dist1: "distinct (map fst (authDevices s1))" using dist by (simp add: s1_def)
  have two: "device_token cfg y q s1 = (token_answer cfg code d, s2)"
    using issue_step [of s1 cfg code d1 y q] dist1 assms(3,10,11) len
    by (simp add: s1_def s2_def k_def d1_def d2_def i_def a_def timely_def polled_too_soon_def token_answer_def)
  have dist2: "distinct (map fst (authDevices s2))" using dist1 by (simp add: s2_def put_agent_def)
  have three: "device_token cfg z q s2 = (token_answer cfg code d, prune (cxPrune z) s2)"
    using replay_step [of s2 cfg code d2 z q a] dist2 assms(4,10) len
    by (simp add: s2_def k_def d2_def d1_def timely_def token_answer_def a_def)
  have agents: "authAgents s2 = AList.update i a (authAgents st)" by (simp add: s2_def s1_def put_agent_def)
  have "fst (authenticate_bearer cfg w (agent_token cfg code) (prune (cxPrune z) s2)) = Some (agent_principal a, [])"
    using assms(12)
    by (intro bearer_step [of _ i] assms(13,14,15)) (auto simp: agents a_def list_all_iff update_conv dest!: in_update)
  then show ?thesis by (simp add: one two three agent_principal_def a_def d1_def)
qed

definition demo_human :: AuthPrincipal where
  "demo_human = \<lparr>pnID = ''human/subjecti'' @ [CHR 0x00] @ ''s'', pnKind = ''human'', pnRole = ''member'', pnProducts = [''p''],
     pnPermissions = [''read'', ''write'', ''deploy'']\<rparr>"

definition demo_waiting :: auth_state where
  "demo_waiting = auth_run demo_auth empty_auth demo_enrolling"

definition demo_device :: auth_device where
  "demo_device = (case authDevices demo_waiting of [] \<Rightarrow> new_device demo_auth (demo_call [] 0) \<lparr>dciName = [], dciScope = [], dciProducts = []\<rparr>
     | (k, d) # ds \<Rightarrow> d)"

lemma demo_pending:
  "pending_code demo_auth demo_waiting demo_code ''AB'' demo_device"
  "timely (demo_call ''x'' 3) demo_device" "timely (demo_call ''a'' 4) demo_device" "timely (demo_call ''b'' 5) demo_device"
  by code_simp+

lemma demo_approves:
  "hqMethod demo_approval = ''POST''" "hqPath demo_approval = ''/auth/device/approve''" "submitted_code demo_approval = Some ''AB''"
  "pnKind demo_human = ''human''" "within demo_human demo_device" "token_request demo_poll demo_code"
  "\<not> polled_too_soon (cxNow (demo_call ''a'' 4)) demo_device"
  by code_simp+

lemma demo_fresh:
  "list_all (\<lambda>(j, b). agVerifier b \<noteq> acHash demo_auth (agent_token demo_auth demo_code)) (authAgents demo_waiting)"
  "length (agent_token demo_auth demo_code) \<le> 128"
  "acHash demo_auth (agent_token demo_auth demo_code) \<noteq> acHash demo_auth (acBootstrapToken demo_auth)"
  "cxReadable (demo_call ''w'' 6)"
  by code_simp+

theorem enrolment_completes_witness:
  "case device_approve demo_auth (demo_call ''x'' 3) demo_approval demo_human demo_waiting of (a1, s1) \<Rightarrow>
    case device_token demo_auth (demo_call ''a'' 4) demo_poll s1 of (a2, s2) \<Rightarrow>
    case device_token demo_auth (demo_call ''b'' 5) demo_poll s2 of (a3, s3) \<Rightarrow>
      a1 = Done \<and> a2 = token_answer demo_auth demo_code demo_device \<and> a3 = a2 \<and> authAgents s3 = authAgents s2 \<and>
      fst (authenticate_bearer demo_auth (demo_call ''w'' 6) (agent_token demo_auth demo_code) s3) =
        Some (\<lparr>pnID = agent_id (cxToken (demo_call ''a'' 4)), pnKind = ''agent'', pnRole = ''member'',
          pnProducts = dvProducts demo_device, pnPermissions = dvPermissions demo_device\<rparr>, [])"
  by (rule enrolment_completes [OF demo_pending demo_approves demo_fresh])

end
