(* ===== verification/AuthorizationProperties.thy ===== *)
theory AuthorizationProperties
  imports Authorization AuthProperties
begin

text \<open>
  Properties of authorization: the inspection of a command accepts exactly the commands all whose
  references stay within the products of the principal and off production, and what an enrolled
  agent can have executed is confined to what a human approved.
\<close>

section \<open>What the inspection accepts\<close>

definition refers :: "state_rows \<Rightarrow> string \<Rightarrow> string \<Rightarrow> bool" where
  "refers rows v t \<longleftrightarrow> t \<in> set (references rows v)"

text \<open>A row that a principal may not touch.\<close>

definition off_limits :: "AuthPrincipal \<Rightarrow> state_rows \<Rightarrow> string \<Rightarrow> bool" where
  "off_limits p rows v \<longleftrightarrow>
     (case row_owner rows v of None \<Rightarrow> False | Some owner \<Rightarrow> \<not> allowed_product p owner \<or> production_row rows v)"

text \<open>Every row that the references of a string lead to can be touched.\<close>

definition within_reach :: "AuthPrincipal \<Rightarrow> state_rows \<Rightarrow> string \<Rightarrow> bool" where
  "within_reach p rows s \<longleftrightarrow> (\<forall>v. (refers rows)\<^sup>*\<^sup>* s v \<longrightarrow> \<not> off_limits p rows v)"

lemma no_row_no_references: "row_owner rows v = None \<Longrightarrow> references rows v = []"
  by (simp add: row_owner_def references_def)

text \<open>A set of visited rows whose new members are allowed and refer to visited rows only.\<close>

definition closed_off :: "AuthPrincipal \<Rightarrow> state_rows \<Rightarrow> string set \<Rightarrow> string set \<Rightarrow> bool" where
  "closed_off p rows old new \<longleftrightarrow>
     old \<subseteq> new \<and> (\<forall>v\<in>new - old. \<not> off_limits p rows v \<and>
       (\<forall>t. refers rows v t \<longrightarrow> row_owner rows t \<noteq> None \<longrightarrow> t \<in> new))"

lemma closed_off_refl [simp]: "closed_off p rows s s"
  by (simp add: closed_off_def)

lemma closed_off_trans: "closed_off p rows a b \<Longrightarrow> closed_off p rows b c \<Longrightarrow> closed_off p rows a c"
  unfolding closed_off_def by blast

lemma closed_off_visit:
  assumes "closed_off p rows (set (v # seen)) mid" and "\<not> off_limits p rows v"
    and "\<And>t. refers rows v t \<Longrightarrow> row_owner rows t \<noteq> None \<Longrightarrow> t \<in> mid"
  shows "closed_off p rows (set seen) mid"
proof -
  have "\<not> off_limits p rows u \<and> (\<forall>t. refers rows u t \<longrightarrow> row_owner rows t \<noteq> None \<longrightarrow> t \<in> mid)"
    if "u \<in> mid" "u \<notin> set seen" for u
  proof (cases "u = v")
    case True
    then show ?thesis using assms(2,3) by blast
  next
    case False
    then have "u \<in> mid - set (v # seen)" using that by simp
    then show ?thesis using assms(1) unfolding closed_off_def by blast
  qed
  moreover have "set seen \<subseteq> mid" using assms(1) by (simp add: closed_off_def)
  ultimately show ?thesis unfolding closed_off_def by blast
qed

lemma inspect_refs_closed:
  "inspect_refs p rows seen vs = Some seen' \<Longrightarrow>
   closed_off p rows (set seen) (set seen') \<and> (\<forall>v\<in>set vs. row_owner rows v \<noteq> None \<longrightarrow> v \<in> set seen')"
proof (induction p rows seen vs arbitrary: seen' rule: inspect_refs.induct)
  case (2 p rows seen v vs)
  show ?case
  proof (cases "row_owner rows v")
    case None
    then have "inspect_refs p rows seen vs = Some seen'" using 2(5) by simp
    from 2(1) [OF None this] show ?thesis using None by simp
  next
    case (Some owner)
    then have ok: "\<not> (\<not> allowed_product p owner \<or> production_row rows v)" using 2(5) by (auto split: if_splits)
    show ?thesis
    proof (cases "v \<in> set seen")
      case True
      have "inspect_refs p rows seen vs = Some seen'" using 2(5) Some ok True by simp
      from 2(2) [OF Some ok True this] show ?thesis using True by (auto simp: closed_off_def)
    next
      case False
      then obtain mid where mid: "inspect_refs p rows (v # seen) (references rows v) = Some mid" "inspect_refs p rows mid vs = Some seen'"
        using 2(5) Some ok by (auto split: option.splits)
      have a: "closed_off p rows (set (v # seen)) (set mid)" "\<forall>t\<in>set (references rows v). row_owner rows t \<noteq> None \<longrightarrow> t \<in> set mid"
        using 2(3) [OF Some ok False mid(1)] by auto
      have b: "closed_off p rows (set mid) (set seen')" "\<forall>v\<in>set vs. row_owner rows v \<noteq> None \<longrightarrow> v \<in> set seen'"
        using 2(4) [OF Some ok False mid(1) mid(2)] by auto
      have "\<not> off_limits p rows v" using ok Some by (simp add: off_limits_def)
      moreover have "t \<in> set mid" if "refers rows v t" "row_owner rows t \<noteq> None" for t
        using a(2) that by (simp add: refers_def)
      ultimately have "closed_off p rows (set seen) (set mid)" by (rule closed_off_visit [OF a(1)])
      then have "closed_off p rows (set seen) (set seen')" using closed_off_trans b(1) by blast
      moreover have "v \<in> set seen'" using a(1) b(1) by (auto simp: closed_off_def)
      ultimately show ?thesis using b(2) by simp
    qed
  qed
qed simp

lemma closed_within_reach:
  assumes "closed_off p rows {} seen" and "row_owner rows s \<noteq> None \<longrightarrow> s \<in> seen"
  shows "within_reach p rows s"
proof -
  have "row_owner rows v \<noteq> None \<longrightarrow> v \<in> seen" if "(refers rows)\<^sup>*\<^sup>* s v" for v
    using that assms
  proof (induction rule: rtranclp_induct)
    case (step y z)
    then have "row_owner rows y \<noteq> None" using no_row_no_references by (fastforce simp: refers_def)
    then show ?case using step by (auto simp: closed_off_def)
  qed auto
  then show ?thesis using assms(1) by (fastforce simp: within_reach_def closed_off_def off_limits_def split: option.splits)
qed

lemma within_reach_step: "within_reach p rows s \<Longrightarrow> refers rows s t \<Longrightarrow> within_reach p rows t"
  unfolding within_reach_def by (meson converse_rtranclp_into_rtranclp)

lemma inspect_refs_refuses: "inspect_refs p rows seen vs = None \<Longrightarrow> \<exists>v\<in>set vs. \<not> within_reach p rows v"
proof (induction p rows seen vs rule: inspect_refs.induct)
  case (2 p rows seen v vs)
  show ?case
  proof (cases "row_owner rows v")
    case None
    then have "inspect_refs p rows seen vs = None" using 2(5) by simp
    from 2(1) [OF None this] show ?thesis by simp
  next
    case (Some owner)
    show ?thesis
    proof (cases "\<not> allowed_product p owner \<or> production_row rows v")
      case True
      then have "off_limits p rows v" using Some by (simp add: off_limits_def)
      then show ?thesis by (auto simp: within_reach_def)
    next
      case False
      show ?thesis
      proof (cases "v \<in> set seen")
        case True
        have "inspect_refs p rows seen vs = None" using 2(5) Some False True by simp
        from 2(2) [OF Some False True this] show ?thesis by simp
      next
        case unseen: False
        show ?thesis
        proof (cases "inspect_refs p rows (v # seen) (references rows v)")
          case None
          from 2(3) [OF Some False unseen this] show ?thesis using within_reach_step by (auto simp: refers_def)
        next
          case (Some mid)
          then have "inspect_refs p rows mid vs = None" using 2(5) \<open>row_owner rows v = Some owner\<close> False unseen by simp
          from 2(4) [OF \<open>row_owner rows v = Some owner\<close> False unseen Some this] show ?thesis by simp
        qed
      qed
    qed
  qed
qed simp

text \<open>The strings of a document that are inspected, and the entries it must not have.\<close>

fun document_strings :: "json \<Rightarrow> string list" and items_strings :: "json list \<Rightarrow> string list"
  and entries_strings :: "json_data \<Rightarrow> string list" where
  "document_strings (JStr v) = [v]"
| "document_strings (JArr items) = items_strings items"
| "document_strings (JObj entries) = entries_strings entries"
| "document_strings JNull = []"
| "document_strings (JBool b) = []"
| "document_strings (JInt n) = []"
| "document_strings (JFrac s) = []"
| "items_strings [] = []"
| "items_strings (item # items) = document_strings item @ items_strings items"
| "entries_strings [] = []"
| "entries_strings ((key, item) # entries) =
     (if key = ''actor'' then [] else document_strings item) @ entries_strings entries"

fun document_refused :: "json \<Rightarrow> bool" and items_refused :: "json list \<Rightarrow> bool" and entries_refused :: "json_data \<Rightarrow> bool" where
  "document_refused (JStr v) = False"
| "document_refused (JArr items) = items_refused items"
| "document_refused (JObj entries) = entries_refused entries"
| "document_refused JNull = False"
| "document_refused (JBool b) = False"
| "document_refused (JInt n) = False"
| "document_refused (JFrac s) = False"
| "items_refused [] = False"
| "items_refused (item # items) = (document_refused item \<or> items_refused items)"
| "entries_refused [] = False"
| "entries_refused ((key, item) # entries) =
     (key \<noteq> ''actor'' \<and> (refused_entry key item \<or> document_refused item) \<or> entries_refused entries)"

definition reached_by :: "state_rows \<Rightarrow> string list \<Rightarrow> string set \<Rightarrow> bool" where
  "reached_by rows ss seen \<longleftrightarrow> (\<forall>s\<in>set ss. row_owner rows s \<noteq> None \<longrightarrow> s \<in> seen)"

lemma inspect_closed:
  "inspect p rows seen v = Some seen' \<Longrightarrow>
     closed_off p rows (set seen) (set seen') \<and> reached_by rows (document_strings v) (set seen') \<and> \<not> document_refused v"
  "inspect_items p rows seen items = Some seen' \<Longrightarrow>
     closed_off p rows (set seen) (set seen') \<and> reached_by rows (items_strings items) (set seen') \<and> \<not> items_refused items"
  "inspect_entries p rows seen entries = Some seen' \<Longrightarrow>
     closed_off p rows (set seen) (set seen') \<and> reached_by rows (entries_strings entries) (set seen') \<and> \<not> entries_refused entries"
proof (induction p rows seen v and p rows seen items and p rows seen entries arbitrary: seen' and seen' and seen'
    rule: inspect_inspect_items_inspect_entries.induct)
  case (1 p rows seen v)
  then have "inspect_refs p rows seen [v] = Some seen'" by (simp only: inspect.simps)
  from inspect_refs_closed [OF this] show ?case by (simp add: reached_by_def)
next
  case (9 p rows seen item items)
  then obtain mid where m: "inspect p rows seen item = Some mid" "inspect_items p rows mid items = Some seen'"
    by (auto split: option.splits)
  have a: "closed_off p rows (set mid) (set seen')" "reached_by rows (items_strings items) (set seen')" "\<not> items_refused items"
    using 9(2) [OF m] by simp_all
  then show ?case using 9(1) [OF m(1)] closed_off_trans [of p rows "set seen" "set mid" "set seen'"]
    by (auto simp: reached_by_def closed_off_def [of _ _ "set mid"])
next
  case (11 p rows seen key item entries)
  show ?case
  proof (cases "key = ''actor''")
    case True
    then have "inspect_entries p rows seen entries = Some seen'" using 11(4) by simp
    from 11(1) [OF True this] show ?thesis using True by (simp add: reached_by_def)
  next
    case False
    with 11(4) obtain mid where r: "\<not> refused_entry key item" and m: "inspect p rows seen item = Some mid"
        "inspect_entries p rows mid entries = Some seen'"
      by (auto split: option.splits if_splits)
    have a: "closed_off p rows (set mid) (set seen')" "reached_by rows (entries_strings entries) (set seen')" "\<not> entries_refused entries"
      using 11(3) [OF False r m] by simp_all
    then show ?thesis using 11(2) [OF False r m(1)] closed_off_trans [of p rows "set seen" "set mid" "set seen'"] False r
      by (auto simp: reached_by_def closed_off_def [of _ _ "set mid"])
  qed
qed (simp_all add: reached_by_def)

lemma inspect_refuses:
  "inspect p rows seen v = None \<Longrightarrow> document_refused v \<or> (\<exists>s\<in>set (document_strings v). \<not> within_reach p rows s)"
  "inspect_items p rows seen items = None \<Longrightarrow> items_refused items \<or> (\<exists>s\<in>set (items_strings items). \<not> within_reach p rows s)"
  "inspect_entries p rows seen entries = None \<Longrightarrow>
     entries_refused entries \<or> (\<exists>s\<in>set (entries_strings entries). \<not> within_reach p rows s)"
proof (induction p rows seen v and p rows seen items and p rows seen entries rule: inspect_inspect_items_inspect_entries.induct)
  case (1 p rows seen v)
  then have "inspect_refs p rows seen [v] = None" by (simp only: inspect.simps)
  from inspect_refs_refuses [OF this] show ?case by simp
qed (auto split: option.splits if_splits)

lemma inspect_iff:
  "inspect p rows [] v \<noteq> None \<longleftrightarrow> \<not> document_refused v \<and> list_all (within_reach p rows) (document_strings v)"
proof (cases "inspect p rows [] v")
  case None
  then show ?thesis using inspect_refuses(1) [OF None] by (auto simp: list_all_iff)
next
  case (Some seen)
  then show ?thesis using inspect_closed(1) [OF Some] closed_within_reach by (auto simp: list_all_iff reached_by_def)
qed

section \<open>Commands\<close>

text \<open>The specification: a permission members can have, the named product among the principal's, no
  refused entry, and every row the document leads to within the products and off production.\<close>

definition permitted_command :: "AuthPrincipal \<Rightarrow> state_rows \<Rightarrow> Command \<Rightarrow> bool" where
  "permitted_command p rows c \<longleftrightarrow>
     needed_permission (cAction c) \<noteq> ''admin'' \<and> needed_permission (cAction c) \<in> set (pnPermissions p) \<and>
     (cProductID c = [] \<or> allowed_product p (cProductID c)) \<and> command_matched p rows c \<and>
     \<not> document_refused (command_json c) \<and> list_all (within_reach p rows) (document_strings (command_json c))"

lemma authorized_iff:
  "authorize_command (Some p) rows c = Inr () \<longleftrightarrow>
     \<not> (pnKind p \<noteq> ''human'' \<and> cAction c \<in> set human_actions) \<and> (instance_admin p \<or> permitted_command p rows c)"
  using inspect_iff [of p rows "command_json c"]
  by (auto simp: authorize_command_def authorize_def permitted_command_def split: option.splits sum.splits if_splits)

text \<open>C8. The inspection decides its specification, with references that may be cyclic, shared or nested
  anywhere in the document. A command of a principal is authorized exactly when it is not a release action of
  an agent, and the principal is an instance admin or all of this holds: the action needs the permission
  write or deploy and the principal has it; the product the command names, if any, is one of its products; the
  command names a product, or one of its six reference fields is the ID of a row in one of its products
  (\<open>command_matched\<close>); no entry of the document sets \<open>status\<close> to \<open>released\<close> or \<open>approve_main_update\<close> to true outside
  the value of \<open>actor\<close> (\<open>document_refused\<close>); and every row that the strings of the document lead to over the
  reference fields of the rows belongs to one of its products and is not a production environment.\<close>

theorem command_authorized_iff:
  "authorize_command (Some p) rows c = Inr () \<longleftrightarrow>
     \<not> (pnKind p \<noteq> ''human'' \<and> cAction c \<in> set human_actions) \<and> (instance_admin p \<or> permitted_command p rows c)"
  by (rule authorized_iff)

lemma agent_authority:
  "has_authority cfg cs r p \<Longrightarrow> pnKind p = ''agent'' \<Longrightarrow>
   \<exists>owner. granted_scope cfg cs owner (pnProducts p) (pnPermissions p)"
  by (auto simp: has_authority_def)

text \<open>C7. An agent is confined to what a human approved: a command of an authenticated agent that is
  authorized on the current rows is not a release action, needs a permission that an approval granted to
  exactly this scope, and leads to no row outside the approved products and to no production row.\<close>

theorem agent_confined_to_grant:
  assumes "acOIDC cfg" and "protected_path (hqPath r)"
    and "fst (auth_wrap cfg x r (auth_run cfg empty_auth cs)) = Next (Some p)" and "pnKind p = ''agent''"
    and "authorize_command (Some p) rows c = Inr ()"
  shows "(\<exists>owner. granted_scope cfg cs owner (pnProducts p) (pnPermissions p)) \<and>
    cAction c \<notin> set human_actions \<and> needed_permission (cAction c) \<in> set (pnPermissions p) - {''admin''} \<and>
    list_all (\<lambda>s. \<forall>v. (refers rows)\<^sup>*\<^sup>* s v \<longrightarrow> \<not> off_limits p rows v) (document_strings (command_json c))"
proof -
  have "has_authority cfg cs r p" using reached_authority [OF assms(1-3)] by simp
  moreover have "permitted_command p rows c" "cAction c \<notin> set human_actions"
    using assms(4,5) by (simp_all add: authorized_iff instance_admin_def)
  ultimately show ?thesis using agent_authority assms(4)
    by (simp add: permitted_command_def within_reach_def [abs_def])
qed

definition demo_rows :: state_rows where
  "demo_rows =
     [(''products'', [[(''id'', JStr ''p'')], [(''id'', JStr ''q'')]]),
      (''features'', [[(''id'', JStr ''f1''), (''product_id'', JStr ''p''), (''parent_id'', JStr ''f1'')],
        [(''id'', JStr ''f2''), (''product_id'', JStr ''q'')]]),
      (''environments'', [[(''id'', JStr ''e1''), (''product_id'', JStr ''p''), (''kind'', JStr ''prod'')]])]"

definition demo_update :: "json_data \<Rightarrow> Command" where
  "demo_update data = zero_Command\<lparr>cAction := ''update_feature'', cID := ''f1'', cData := data\<rparr>"

definition demo_member :: AuthPrincipal where
  "demo_member = \<lparr>pnID = ''agent/a'', pnKind = ''agent'', pnRole = ''member'', pnProducts = [''p''], pnPermissions = [''read'', ''write'']\<rparr>"

lemma demo_decisions:
  "authorize_command (Some demo_member) demo_rows (demo_update [(''related'', JArr [JStr ''p''])]) = Inr ()"
  "authorize_command (Some demo_member) demo_rows (demo_update [(''related'', JArr [JStr ''f2''])]) = Inl err_forbidden"
  "authorize_command (Some demo_member) demo_rows (demo_update [(''environment_id'', JStr ''e1'')]) = Inl err_forbidden"
  "authorize_command (Some demo_member) demo_rows (demo_update [(''status'', JStr ''released'')]) = Inl err_forbidden"
  by code_simp+

text \<open>A key that folds to \<open>status\<close> and is not spelled so passes the inspection.\<close>

lemma long_s_release_authorized:
  "equal_fold [CHR 0xC5, CHR 0xBF, CHR ''t'', CHR ''a'', CHR ''t'', CHR ''u'', CHR ''s''] ''status''"
  "authorize_command (Some demo_member) demo_rows
     (demo_update [([CHR 0xC5, CHR 0xBF, CHR ''t'', CHR ''a'', CHR ''t'', CHR ''u'', CHR ''s''], JStr ''released'')]) = Inr ()"
  by code_simp+

text \<open>The enrolment of the run, with a scope that includes writing.\<close>

definition demo_writers :: "(AuthCall \<times> AuthRequest) list" where
  "demo_writers = demo_login @
     [(demo_call ''k'' 1, demo_callback),
      (demo_call demo_code 2, demo_request ''POST'' ''/auth/device/code''
        (Some (JObj [(''name'', JStr ''bot''), (''scope'', JStr ''write read''), (''products'', JArr [JStr ''p''])]))),
      (demo_call ''x'' 3, demo_approval), (demo_call ''a'' 4, demo_poll)]"

lemma demo_writer_served:
  "fst (auth_wrap demo_auth (demo_call ''z'' 5) demo_work (auth_run demo_auth empty_auth demo_writers)) = Next (Some demo_member)"
  "pnKind demo_member = ''agent''"
  by code_simp+

theorem agent_confined_to_grant_witness:
  "(\<exists>owner. granted_scope demo_auth demo_writers owner (pnProducts demo_member) (pnPermissions demo_member)) \<and>
    cAction (demo_update [(''related'', JArr [JStr ''p''])]) \<notin> set human_actions \<and>
    needed_permission (cAction (demo_update [(''related'', JArr [JStr ''p''])])) \<in> set (pnPermissions demo_member) - {''admin''} \<and>
    list_all (\<lambda>s. \<forall>v. (refers demo_rows)\<^sup>*\<^sup>* s v \<longrightarrow> \<not> off_limits demo_member demo_rows v)
      (document_strings (command_json (demo_update [(''related'', JArr [JStr ''p''])])))"
  by (rule agent_confined_to_grant [OF demo_served(1,2) demo_writer_served demo_decisions(1)])

end
