(* ===== verification/PatchFormat.thy ===== *)
theory PatchFormat
  imports GoPaths
begin

text \<open>
  The validation of a patch a model proposes, \<open>internal/intelligencepatch/patch.go\<close>: paths that are
  clean, portable and off the sensitive names, exact preimage hashes, and bounded text without conflict
  markers. Strings are bytes.
\<close>

datatype patch_error =
    PatchError string
  | RollbackRefused string string
  | RollbackFailed string string

record Edit =
  edPath :: string
  edBeforeHash :: string
  edContent :: string

record Proposal =
  prpBaseSHA :: string
  prpHeadSHA :: string
  prpEdits :: "Edit list"

definition max_files :: nat where
  "max_files = 3"

definition max_bytes :: int where
  "max_bytes = 32 * 1024"

section \<open>Paths\<close>

definition device_stem :: "string \<Rightarrow> bool" where
  "device_stem stem \<longleftrightarrow>
     stem = ''con'' \<or> stem = ''prn'' \<or> stem = ''aux'' \<or> stem = ''nul'' \<or>
     length stem = 4 \<and> (has_prefix stem ''com'' \<or> has_prefix stem ''lpt'') \<and> stem ! 3 \<in> set digits"

definition refused_names :: "string list" where
  "refused_names =
     [''vendor'', ''node_modules'', ''deps'', ''dependencies'', ''go.mod'', ''go.sum'', ''makefile'', ''dockerfile'',
      ''gemfile'', ''gemfile.lock'', ''cargo.lock'', ''cargo.toml'', ''pyproject.toml'', ''poetry.lock'', ''uv.lock'',
      ''requirements.txt'', ''requirements-dev.txt'']"

definition patch_extensions :: "string list" where
  "patch_extensions =
     [''.go'', ''.py'', ''.js'', ''.jsx'', ''.ts'', ''.tsx'', ''.rs'', ''.java'', ''.kt'', ''.c'', ''.cc'', ''.cpp'', ''.h'',
      ''.hpp'', ''.cs'', ''.rb'', ''.php'', ''.swift'', ''.scala'', ''.vue'', ''.svelte'', ''.css'', ''.scss'', ''.html'',
      ''.md'', ''.txt'']"

definition safe_part :: "string \<Rightarrow> bool" where
  "safe_part p \<longleftrightarrow>
     (let part = to_lower p in
      \<not> (part = [] \<or> part = ''.'' \<or> part = ''..'' \<or> has_prefix part ''.'' \<or> has_suffix part ''.'') \<and>
      \<not> device_stem (hd (split_on CHR ''.'' part)) \<and>
      \<not> list_ex (contains_word part) [''secret'', ''credential'', ''password'', ''migration'', ''token''] \<and>
      \<not> list_ex (has_prefix part) [''auth'', ''security'', ''crypto'', ''config''] \<and>
      part \<notin> set refused_names)"

definition path_char :: "char \<Rightarrow> bool" where
  "path_char c \<longleftrightarrow> 33 \<le> (of_char c :: int) \<and> (of_char c :: int) \<le> 126 \<and> \<not> contains_any [c] '':*?\"<>|''"

definition safe_path :: "string \<Rightarrow> bool" where
  "safe_path name \<longleftrightarrow>
     \<not> (name = [] \<or> 256 < int (length name) \<or> clean_path name \<noteq> name \<or> has_prefix name ''/'' \<or> contains_any name [CHR 0x5C]) \<and>
     list_all path_char name \<and> length (split_on CHR ''/'' name) \<le> 16 \<and>
     list_all safe_part (split_on CHR ''/'' name) \<and> to_lower (path_ext name) \<in> set patch_extensions"

section \<open>Text\<close>

definition in_range :: "int \<Rightarrow> int \<Rightarrow> char \<Rightarrow> bool" where
  "in_range lo hi c \<longleftrightarrow> lo \<le> (of_char c :: int) \<and> (of_char c :: int) \<le> hi"

text \<open>\<open>utf8.ValidString\<close>: a second byte has a narrower range after E0, ED, F0 and F4.\<close>

fun utf8_valid :: "string \<Rightarrow> bool" where
  "utf8_valid [] = True"
| "utf8_valid (a # s) =
     (if in_range 0 0x7F a then utf8_valid s
      else if in_range 0xC2 0xDF a then
        (case s of b # s' \<Rightarrow> in_range 0x80 0xBF b \<and> utf8_valid s' | _ \<Rightarrow> False)
      else if in_range 0xE0 0xEF a then
        (case s of b # c # s' \<Rightarrow>
           in_range (if a = CHR 0xE0 then 0xA0 else 0x80) (if a = CHR 0xED then 0x9F else 0xBF) b \<and>
           in_range 0x80 0xBF c \<and> utf8_valid s'
         | _ \<Rightarrow> False)
      else if in_range 0xF0 0xF4 a then
        (case s of b # c # d # s' \<Rightarrow>
           in_range (if a = CHR 0xF0 then 0x90 else 0x80) (if a = CHR 0xF4 then 0x8F else 0xBF) b \<and>
           in_range 0x80 0xBF c \<and> in_range 0x80 0xBF d \<and> utf8_valid s'
         | _ \<Rightarrow> False)
      else False)"

text \<open>\<open>text\<close>: the control runes are single bytes.\<close>

definition text_char :: "char \<Rightarrow> bool" where
  "text_char c \<longleftrightarrow> c \<noteq> CHR 0x7F \<and> (in_range 0 31 c \<longrightarrow> c \<in> {CHR 0x09, CHR 0x0A, CHR 0x0D})"

definition is_text :: "string \<Rightarrow> bool" where
  "is_text s \<longleftrightarrow> utf8_valid s \<and> list_all text_char s"

definition marker_line :: "string \<Rightarrow> bool" where
  "marker_line l \<longleftrightarrow>
     (let line = trim_suffix l [CHR 0x0D] in
      has_prefix line ''<<<<<<<'' \<or> has_prefix line ''|||||||'' \<or> has_prefix line ''>>>>>>>'' \<or> line = ''======='')"

definition conflict_markers :: "string \<Rightarrow> bool" where
  "conflict_markers s \<longleftrightarrow> list_ex marker_line (split_on CHR 0x0A s)"

section \<open>Proposals\<close>

text \<open>The loop over the allowlist; the argument collects the lower-cased names.\<close>

fun allowlist_ok :: "string list \<Rightarrow> string list \<Rightarrow> bool" where
  "allowlist_ok allowed [] = True"
| "allowlist_ok allowed (name # names) =
     (safe_path name \<and> to_lower name \<notin> set allowed \<and> allowlist_ok (to_lower name # allowed) names)"

fun validate_edits :: "string list \<Rightarrow> string list \<Rightarrow> int \<Rightarrow> Edit list \<Rightarrow> patch_error + unit" where
  "validate_edits allowed seen bytes [] = Inr ()"
| "validate_edits allowed seen bytes (e # es) =
     (if \<not> safe_path (edPath e) \<or> edPath e \<notin> set allowed \<or> to_lower (edPath e) \<in> set seen
      then Inl (PatchError ''unsafe, duplicate, or unapproved patch path'')
      else if \<not> sha256_digest (edBeforeHash e) then Inl (PatchError ''patch requires an exact SHA-256 preimage hash'')
      else if max_bytes < bytes + int (length (edContent e)) \<or> \<not> is_text (edContent e) \<or> conflict_markers (edContent e)
      then Inl (PatchError ''patch replacement is not bounded resolved text'')
      else validate_edits allowed (to_lower (edPath e) # seen) (bytes + int (length (edContent e))) es)"

definition validate_patch :: "Proposal \<Rightarrow> string \<Rightarrow> string \<Rightarrow> string list \<Rightarrow> patch_error + unit" where
  "validate_patch p base_sha head_sha allowed =
     (if \<not> full_sha base_sha \<or> \<not> full_sha head_sha \<or> prpBaseSHA p \<noteq> base_sha \<or> prpHeadSHA p \<noteq> head_sha
      then Inl (PatchError ''patch source identity mismatch'')
      else if prpEdits p = [] \<or> max_files < length (prpEdits p) \<or> allowed = [] \<or> max_files < length allowed
      then Inl (PatchError ''patch file count is outside limits'')
      else if \<not> allowlist_ok [] allowed then Inl (PatchError ''unsafe or duplicate patch allowlist path'')
      else validate_edits allowed [] 0 (prpEdits p))"

end
