(* ===== verification/PatchFiles.thy ===== *)
theory PatchFiles
  imports PatchFormat
begin

text \<open>
  The application of a validated patch, \<open>Apply\<close> of \<open>internal/intelligencepatch/patch.go\<close>, over a
  file system whose every call may fail: preimages are read and hashed, replacements and backups are
  staged beside the targets, each target is replaced by a rename, and an error rolls the replaced
  targets back. A path is the list of its elements below the opened root; the snapshot is owned by
  one worker, so nothing else writes during a call.
\<close>

section \<open>The file system\<close>

datatype file_node =
    RegularFile (node_id: int) string int bool
  | DirectoryNode (node_id: int)
  | SymlinkNode (node_id: int)
  | OtherNode (node_id: int)

text \<open>A regular file has its content, permission bits and whether one of setuid, setgid and sticky is
  set. The scripts say which of the next calls fail and which random names are drawn.\<close>

record patch_fs =
  pfNodes :: "string list \<Rightarrow> file_node option"
  pfNext :: int
  pfFaults :: "bool list"
  pfTokens :: "string list"

type_synonym 'a fs_op = "patch_fs \<Rightarrow> (patch_error + 'a) \<times> patch_fs"

definition take_fault :: "patch_fs \<Rightarrow> bool \<times> patch_fs" where
  "take_fault fs = (case pfFaults fs of [] \<Rightarrow> (False, fs) | b # bs \<Rightarrow> (b, fs\<lparr>pfFaults := bs\<rparr>))"

definition fs_call :: "patch_error \<Rightarrow> (patch_fs \<Rightarrow> ('a \<times> patch_fs) option) \<Rightarrow> 'a fs_op" where
  "fs_call e f fs =
     (case take_fault fs of (fault, fs1) \<Rightarrow>
        if fault then (Inl e, fs1)
        else case f fs1 of None \<Rightarrow> (Inl e, fs1) | Some (a, fs2) \<Rightarrow> (Inr a, fs2))"

definition and_then :: "'a fs_op \<Rightarrow> ('a \<Rightarrow> 'b fs_op) \<Rightarrow> 'b fs_op" where
  "and_then f g fs = (case f fs of (Inl e, fs1) \<Rightarrow> (Inl e, fs1) | (Inr a, fs1) \<Rightarrow> g a fs1)"

definition fs_return :: "'a \<Rightarrow> 'a fs_op" where
  "fs_return a fs = (Inr a, fs)"

definition fs_check :: "patch_error \<Rightarrow> bool \<Rightarrow> unit fs_op" where
  "fs_check e b fs = (if b then Inr () else Inl e, fs)"

text \<open>Two calls that are both made before the first error is looked at.\<close>

definition fs_pair :: "'a fs_op \<Rightarrow> 'b fs_op \<Rightarrow> ('a \<times> 'b) fs_op" where
  "fs_pair f g fs =
     (case f fs of (ra, fs1) \<Rightarrow> case g fs1 of (rb, fs2) \<Rightarrow>
        (case ra of Inl e \<Rightarrow> Inl e | Inr a \<Rightarrow> (case rb of Inl e \<Rightarrow> Inl e | Inr b \<Rightarrow> Inr (a, b)), fs2))"

definition fs_stat :: "patch_error \<Rightarrow> string list \<Rightarrow> file_node fs_op" where
  "fs_stat e q = fs_call e (\<lambda>fs. map_option (\<lambda>n. (n, fs)) (pfNodes fs q))"

fun is_directory :: "file_node \<Rightarrow> bool" where
  "is_directory (DirectoryNode i) = True"
| "is_directory n = False"

fun is_symlink :: "file_node \<Rightarrow> bool" where
  "is_symlink (SymlinkNode i) = True"
| "is_symlink n = False"

fun is_regular :: "file_node \<Rightarrow> bool" where
  "is_regular (RegularFile i c m s) = True"
| "is_regular n = False"

definition same_file :: "file_node \<Rightarrow> file_node \<Rightarrow> bool" where
  "same_file a b \<longleftrightarrow> node_id a = node_id b"

definition fs_open_directory :: "patch_error \<Rightarrow> string list \<Rightarrow> unit fs_op" where
  "fs_open_directory e q = fs_call e (\<lambda>fs. case pfNodes fs q of Some (DirectoryNode i) \<Rightarrow> Some ((), fs) | _ \<Rightarrow> None)"

definition put_node :: "string list \<Rightarrow> file_node option \<Rightarrow> patch_fs \<Rightarrow> patch_fs" where
  "put_node q n fs = fs\<lparr>pfNodes := (pfNodes fs)(q := n)\<rparr>"

definition fs_remove :: "string list \<Rightarrow> patch_fs \<Rightarrow> patch_fs" where
  "fs_remove q fs = snd (fs_call (PatchError []) (\<lambda>fs. Some ((), put_node q None fs)) fs)"

text \<open>A rename replaces the target, which is not a directory, atomically.\<close>

definition fs_rename :: "patch_error \<Rightarrow> string list \<Rightarrow> string list \<Rightarrow> unit fs_op" where
  "fs_rename e src dst = fs_call e (\<lambda>fs.
     case (pfNodes fs src, pfNodes fs dst) of
       (None, _) \<Rightarrow> None
     | (Some n, Some (DirectoryNode i)) \<Rightarrow> None
     | (Some n, _) \<Rightarrow> Some ((), put_node dst (Some n) (put_node src None fs)))"

section \<open>Reading a target\<close>

text \<open>\<open>openParent\<close>\<close>

fun open_below :: "string list \<Rightarrow> string list \<Rightarrow> string list fs_op" where
  "open_below current [] = fs_return current"
| "open_below current (part # parts) =
     (let q = current @ [part]; e = PatchError ''patch parent must be an existing nonsymlink directory'';
          changed = PatchError ''patch parent changed'' in
      and_then (fs_stat e q) (\<lambda>info.
      and_then (fs_check e (is_directory info)) (\<lambda>_.
      and_then (fs_open_directory (PatchError ''cannot open patch parent'') q) (\<lambda>_.
      and_then (fs_pair (fs_stat changed q) (fs_stat changed q)) (\<lambda>(actual, check).
      and_then (fs_check changed (\<not> is_symlink check \<and> same_file info actual \<and> same_file info check)) (\<lambda>_.
      open_below q parts))))))"

definition open_parent :: "string \<Rightarrow> string list fs_op" where
  "open_parent name =
     and_then (fs_open_directory (PatchError ''cannot open patch parent'') []) (\<lambda>_.
       open_below [] (butlast (split_on CHR ''/'' name)))"

text \<open>\<open>readOriginal\<close>: the content and the node of the open file.\<close>

fun bounded_regular :: "file_node \<Rightarrow> bool" where
  "bounded_regular (RegularFile i c m special) \<longleftrightarrow> \<not> special \<and> int (length c) \<le> max_bytes"
| "bounded_regular n = False"

fun file_content :: "file_node \<Rightarrow> string" where
  "file_content (RegularFile i c m s) = c"
| "file_content n = []"

fun file_mode :: "file_node \<Rightarrow> int \<times> bool" where
  "file_mode (RegularFile i c m s) = (m, s)"
| "file_mode n = (0, False)"

definition read_original :: "string list \<Rightarrow> (string \<times> file_node) fs_op" where
  "read_original q =
     (let e = PatchError ''patch target must be an existing bounded regular file''; changed = PatchError ''patch target changed'';
          unbounded = PatchError ''patch preimage is not bounded text'' in
      and_then (fs_stat e q) (\<lambda>info.
      and_then (fs_check e (bounded_regular info)) (\<lambda>_.
      and_then (fs_call (PatchError ''cannot open nonsymlink patch file'') (\<lambda>fs.
        case pfNodes fs q of None \<Rightarrow> None | Some n \<Rightarrow> if is_symlink n then None else Some (n, fs))) (\<lambda>file.
      and_then (fs_pair (fs_call changed (\<lambda>fs. Some (file, fs))) (fs_stat changed q)) (\<lambda>(actual, check).
      and_then (fs_check changed (is_regular actual \<and> \<not> is_symlink check \<and> same_file info actual \<and> same_file info check)) (\<lambda>_.
      and_then (fs_call unbounded (\<lambda>fs. Some (file_content file, fs))) (\<lambda>content.
      and_then (fs_check unbounded (int (length content) \<le> max_bytes \<and> is_text content)) (\<lambda>_.
      fs_return (content, actual)))))))))"

section \<open>Prepared edits\<close>

record prepared_edit =
  ppEdit :: Edit
  ppParent :: "string list"
  ppLeaf :: string
  ppBefore :: string
  ppInfo :: file_node
  ppStage :: string
  ppBackup :: string
  ppApplied :: bool

definition target_path :: "prepared_edit \<Rightarrow> string list" where
  "target_path i = ppParent i @ [ppLeaf i]"

definition unchanged :: "prepared_edit \<Rightarrow> unit fs_op" where
  "unchanged i fs =
     (let e = PatchError ''patch preimage changed before replacement'' in
      case read_original (target_path i) fs of
        (Inl _, fs') \<Rightarrow> (Inl e, fs')
      | (Inr (content, info), fs') \<Rightarrow>
          (if same_file (ppInfo i) info \<and> file_mode info = file_mode (ppInfo i) \<and> content = ppBefore i
           then Inr () else Inl e, fs'))"

text \<open>\<open>stage\<close>: a new file under a random name, removed again when a later step fails.\<close>

definition fs_create :: "patch_error \<Rightarrow> string list \<Rightarrow> int \<Rightarrow> unit fs_op" where
  "fs_create e q mode = fs_call e (\<lambda>fs.
     if pfNodes fs q \<noteq> None then None
     else Some ((), (put_node q (Some (RegularFile (pfNext fs) [] mode False)) fs)\<lparr>pfNext := pfNext fs + 1\<rparr>))"

definition fs_rewrite :: "patch_error \<Rightarrow> string list \<Rightarrow> (file_node \<Rightarrow> file_node) \<Rightarrow> unit fs_op" where
  "fs_rewrite e q f = fs_call e (\<lambda>fs. Some ((), put_node q (map_option f (pfNodes fs q)) fs))"

fun with_content :: "string \<Rightarrow> file_node \<Rightarrow> file_node" where
  "with_content c (RegularFile i _ m s) = RegularFile i c m s"
| "with_content c n = n"

fun with_mode :: "int \<Rightarrow> file_node \<Rightarrow> file_node" where
  "with_mode m (RegularFile i c _ s) = RegularFile i c m s"
| "with_mode m n = n"

definition draw_token :: "string fs_op" where
  "draw_token = fs_call (PatchError ''cannot allocate patch stage'') (\<lambda>fs.
     case pfTokens fs of [] \<Rightarrow> None | t # ts \<Rightarrow> Some (t, fs\<lparr>pfTokens := ts\<rparr>))"

definition stage_prefix :: string where
  "stage_prefix = ''.rcp-intelligence-''"

definition write_stage :: "string list \<Rightarrow> string \<Rightarrow> int \<Rightarrow> unit fs_op" where
  "write_stage q content mode =
     and_then (fs_rewrite (PatchError ''cannot write patch stage'') q (with_content content)) (\<lambda>_.
     and_then (fs_rewrite (PatchError ''cannot preserve patch file mode'') q (with_mode mode)) (\<lambda>_.
     and_then (fs_call (PatchError ''cannot sync patch stage'') (\<lambda>fs. Some ((), fs))) (\<lambda>_.
     fs_call (PatchError ''cannot close patch stage'') (\<lambda>fs. Some ((), fs)))))"

definition stage_file :: "string list \<Rightarrow> string \<Rightarrow> int \<Rightarrow> string fs_op" where
  "stage_file parent content mode =
     and_then draw_token (\<lambda>token.
     and_then (fs_create (PatchError ''cannot create patch stage'') (parent @ [stage_prefix @ token]) 384) (\<lambda>_ fs.
       case write_stage (parent @ [stage_prefix @ token]) content mode fs of
         (Inl e, fs') \<Rightarrow> (Inl e, fs_remove (parent @ [stage_prefix @ token]) fs')
       | (Inr _, fs') \<Rightarrow> (Inr (stage_prefix @ token), fs')))"

section \<open>Apply\<close>

type_synonym patch_step = "prepared_edit list \<times> (patch_error list + unit) \<times> patch_fs"

text \<open>The first loop: the edits are prepared in order; an item whose read fails stays without stages.\<close>

definition new_item :: "Edit \<Rightarrow> string list \<Rightarrow> prepared_edit" where
  "new_item e parent =
     \<lparr>ppEdit = e, ppParent = parent, ppLeaf = last (split_on CHR ''/'' (edPath e)), ppBefore = [], ppInfo = OtherNode 0,
      ppStage = [], ppBackup = [], ppApplied = False\<rparr>"

fun prepare_edits :: "(string \<Rightarrow> string) \<Rightarrow> int \<Rightarrow> prepared_edit list \<Rightarrow> Edit list \<Rightarrow> patch_fs \<Rightarrow> patch_step" where
  "prepare_edits sha bytes items [] fs = (items, Inr (), fs)"
| "prepare_edits sha bytes items (e # es) fs =
     (case open_parent (edPath e) fs of
        (Inl err, fs1) \<Rightarrow> (items, Inl [err], fs1)
      | (Inr parent, fs1) \<Rightarrow>
          (let item = new_item e parent in
           case read_original (target_path item) fs1 of
             (Inl err, fs2) \<Rightarrow> (items @ [item], Inl [err], fs2)
           | (Inr (preimage, info), fs2) \<Rightarrow>
               (let items' = items @ [item\<lparr>ppBefore := preimage, ppInfo := info\<rparr>];
                    bytes' = bytes + int (length preimage) + int (length (edContent e)) in
                if ''sha256:'' @ sha preimage \<noteq> edBeforeHash e then (items', Inl [PatchError ''patch preimage hash mismatch''], fs2)
                else if max_bytes < bytes' then (items', Inl [PatchError ''patch combined text exceeds limit''], fs2)
                else prepare_edits sha bytes' items' es fs2)))"

fun stage_items :: "prepared_edit list \<Rightarrow> prepared_edit list \<Rightarrow> patch_fs \<Rightarrow> patch_step" where
  "stage_items ready [] fs = (ready, Inr (), fs)"
| "stage_items ready (i # is) fs =
     (case stage_file (ppParent i) (edContent (ppEdit i)) (fst (file_mode (ppInfo i))) fs of
        (Inl err, fs1) \<Rightarrow> (ready @ i # is, Inl [err], fs1)
      | (Inr name, fs1) \<Rightarrow>
          (case stage_file (ppParent i) (ppBefore i) (fst (file_mode (ppInfo i))) fs1 of
             (Inl err, fs2) \<Rightarrow> (ready @ i\<lparr>ppStage := name\<rparr> # is, Inl [err], fs2)
           | (Inr backup, fs2) \<Rightarrow> stage_items (ready @ [i\<lparr>ppStage := name, ppBackup := backup\<rparr>]) is fs2))"

fun recheck :: "prepared_edit list \<Rightarrow> patch_fs \<Rightarrow> (patch_error list + unit) \<times> patch_fs" where
  "recheck [] fs = (Inr (), fs)"
| "recheck (i # is) fs = (case unchanged i fs of (Inl e, fs1) \<Rightarrow> (Inl [e], fs1) | (Inr _, fs1) \<Rightarrow> recheck is fs1)"

text \<open>\<open>rollback\<close> of one item, and of all of them in reverse order.\<close>

definition retained_at :: "prepared_edit \<Rightarrow> string" where
  "retained_at i = join_slashes (ppParent i @ [ppBackup i])"

definition rollback_item :: "prepared_edit \<Rightarrow> patch_fs \<Rightarrow> prepared_edit \<times> patch_error list \<times> patch_fs" where
  "rollback_item i fs =
     (if \<not> ppApplied i then (i, [], fs)
      else case read_original (target_path i) fs of
        (Inl _, fs1) \<Rightarrow> (i, [RollbackRefused (edPath (ppEdit i)) (retained_at i)], fs1)
      | (Inr (current, _), fs1) \<Rightarrow>
          (if current \<noteq> edContent (ppEdit i) then (i, [RollbackRefused (edPath (ppEdit i)) (retained_at i)], fs1)
           else case fs_rename (PatchError []) (ppParent i @ [ppBackup i]) (target_path i) fs1 of
             (Inl _, fs2) \<Rightarrow> (i, [RollbackFailed (edPath (ppEdit i)) (retained_at i)], fs2)
           | (Inr _, fs2) \<Rightarrow> (i\<lparr>ppBackup := [], ppApplied := False\<rparr>, [], fs2)))"

fun rollback :: "prepared_edit list \<Rightarrow> patch_fs \<Rightarrow> prepared_edit list \<times> patch_error list \<times> patch_fs" where
  "rollback [] fs = ([], [], fs)"
| "rollback (i # is) fs =
     (case rollback is fs of (is', es, fs1) \<Rightarrow>
      case rollback_item i fs1 of (i', es', fs2) \<Rightarrow> (i' # is', es @ es', fs2))"

definition fail_back :: "patch_error \<Rightarrow> prepared_edit list \<Rightarrow> patch_fs \<Rightarrow> patch_step" where
  "fail_back e items fs = (case rollback items fs of (items', es, fs') \<Rightarrow> (items', Inl (e # es), fs'))"

fun replace_items :: "prepared_edit list \<Rightarrow> prepared_edit list \<Rightarrow> patch_fs \<Rightarrow> patch_step" where
  "replace_items ready [] fs = (ready, Inr (), fs)"
| "replace_items ready (i # is) fs =
     (case unchanged i fs of
        (Inl e, fs1) \<Rightarrow> fail_back e (ready @ i # is) fs1
      | (Inr _, fs1) \<Rightarrow>
          (case fs_rename (PatchError ''cannot replace patch file'') (ppParent i @ [ppStage i]) (target_path i) fs1 of
             (Inl e, fs2) \<Rightarrow> fail_back e (ready @ i # is) fs2
           | (Inr _, fs2) \<Rightarrow> replace_items (ready @ [i\<lparr>ppStage := [], ppApplied := True\<rparr>]) is fs2))"

text \<open>The deferred cleanup: a backup is kept when its target was replaced and not rolled back.\<close>

definition leftovers :: "bool \<Rightarrow> prepared_edit \<Rightarrow> string list list" where
  "leftovers complete i =
     map (\<lambda>n. ppParent i @ [n])
       (filter (\<lambda>n. n \<noteq> []) (ppStage i # (if complete \<or> \<not> ppApplied i then [ppBackup i] else [])))"

definition cleanup :: "bool \<Rightarrow> prepared_edit list \<Rightarrow> patch_fs \<Rightarrow> patch_fs" where
  "cleanup complete items fs = foldl (\<lambda>fs q. fs_remove q fs) fs (concat (map (leftovers complete) items))"

definition open_patch_root :: "unit fs_op" where
  "open_patch_root =
     (let e = PatchError ''patch root must be an existing nonsymlink directory''; changed = PatchError ''patch root changed'' in
      and_then (fs_stat e []) (\<lambda>info.
      and_then (fs_check e (is_directory info \<and> \<not> is_symlink info)) (\<lambda>_.
      and_then (fs_open_directory (PatchError ''cannot open patch root'') []) (\<lambda>_.
      and_then (fs_stat changed []) (\<lambda>actual.
      fs_check changed (same_file info actual))))))"

definition and_step :: "patch_step \<Rightarrow> (prepared_edit list \<Rightarrow> patch_fs \<Rightarrow> patch_step) \<Rightarrow> patch_step" where
  "and_step s f = (case s of (items, Inl es, fs) \<Rightarrow> (items, Inl es, fs) | (items, Inr _, fs) \<Rightarrow> f items fs)"

definition patch_steps :: "(string \<Rightarrow> string) \<Rightarrow> Proposal \<Rightarrow> patch_fs \<Rightarrow> patch_step" where
  "patch_steps sha p fs =
     and_step (prepare_edits sha 0 [] (prpEdits p) fs) (\<lambda>items fs.
     and_step (stage_items [] items fs) (\<lambda>items fs.
     and_step (case recheck items fs of (r, fs') \<Rightarrow> (items, r, fs')) (\<lambda>items fs.
     replace_items [] items fs)))"

definition apply_patch ::
  "(string \<Rightarrow> string) \<Rightarrow> Proposal \<Rightarrow> string \<Rightarrow> string \<Rightarrow> string list \<Rightarrow> patch_fs \<Rightarrow> (patch_error list + unit) \<times> patch_fs" where
  "apply_patch sha p base_sha head_sha allowed fs =
     (case validate_patch p base_sha head_sha allowed of
        Inl e \<Rightarrow> (Inl [e], fs)
      | Inr _ \<Rightarrow>
          (case open_patch_root fs of
             (Inl e, fs1) \<Rightarrow> (Inl [e], fs1)
           | (Inr _, fs1) \<Rightarrow>
               (case patch_steps sha p fs1 of (items, r, fs2) \<Rightarrow>
                  (r, cleanup (\<not> (case r of Inl es \<Rightarrow> True | Inr _ \<Rightarrow> False)) items fs2))))"

end
