(* ===== verification/PatchSteps.thy ===== *)
theory PatchSteps
  imports PatchFiles
begin

text \<open>
  The invariant of an application in patch_progress: every target holds its preimage or the replacement,
  every replaced target has its preimage in a backup, and nothing else but staging files differs from
  the start. Each step of \<open>apply_patch\<close> keeps it, whichever calls fail.
\<close>

named_theorems read_ops \<open>operations that leave the nodes alone\<close>

section \<open>Calls that only read\<close>

definition reads :: "'a fs_op \<Rightarrow> bool" where
  "reads f \<longleftrightarrow> (\<forall>fs. pfNodes (snd (f fs)) = pfNodes fs)"

lemma readsD: "reads f \<Longrightarrow> f fs = (r, fs') \<Longrightarrow> pfNodes fs' = pfNodes fs"
  unfolding reads_def by (metis snd_conv)

lemma take_fault_nodes: "take_fault fs = (b, fs') \<Longrightarrow> pfNodes fs' = pfNodes fs"
  by (auto simp: take_fault_def split: list.splits)

lemma reads_call [read_ops]:
  assumes "\<And>fs a fs'. f fs = Some (a, fs') \<Longrightarrow> pfNodes fs' = pfNodes fs"
  shows "reads (fs_call e f)"
  using assms by (auto simp: reads_def fs_call_def split: prod.splits option.splits dest: take_fault_nodes)

lemma reads_then [read_ops]: "reads f \<Longrightarrow> (\<And>a. reads (g a)) \<Longrightarrow> reads (and_then f g)"
  unfolding reads_def and_then_def by (auto split: prod.splits sum.splits) (metis snd_conv)+

lemma reads_pair [read_ops]: "reads f \<Longrightarrow> reads g \<Longrightarrow> reads (fs_pair f g)"
  unfolding reads_def fs_pair_def by (auto split: prod.splits) (metis snd_conv)

lemma reads_simple [read_ops, simp]: "reads (fs_return a)" "reads (fs_check e b)" "reads (fs_stat e q)" "reads (fs_open_directory e q)"
  by (simp add: reads_def fs_return_def, simp add: reads_def fs_check_def,
      auto simp: fs_stat_def fs_open_directory_def intro!: reads_call split: option.splits file_node.splits)

lemma reads_open_below [read_ops]: "reads (open_below q parts)"
proof (induction parts arbitrary: q)
  case (Cons part parts)
  then show ?case by (auto simp: Let_def intro!: reads_then reads_pair split: prod.split)
qed simp

lemma reads_open_parent: "reads (open_parent name)"
  unfolding open_parent_def by (intro reads_then reads_open_below reads_simple)

lemma reads_original: "reads (read_original q)"
  unfolding read_original_def Let_def
  by (auto intro!: reads_then reads_pair reads_call split: prod.split option.splits if_splits)

lemma reads_unchanged: "unchanged i fs = (r, fs') \<Longrightarrow> pfNodes fs' = pfNodes fs"
  unfolding unchanged_def Let_def
  by (auto split: prod.splits sum.splits dest: readsD [OF reads_original])

lemma reads_recheck: "recheck is fs = (r, fs') \<Longrightarrow> pfNodes fs' = pfNodes fs"
proof (induction "is" arbitrary: fs)
  case (Cons i "is")
  obtain s fs1 where u: "unchanged i fs = (s, fs1)" by force
  have "pfNodes fs' = pfNodes fs1"
    using Cons.prems Cons.IH [of fs1] u by (auto split: sum.splits)
  then show ?case using reads_unchanged [OF u] by simp
qed simp

section \<open>What a call returns\<close>

lemma and_then_Inr:
  assumes "and_then f g fs = (Inr b, fs')"
  obtains a fs1 where "f fs = (Inr a, fs1)" and "g a fs1 = (Inr b, fs')"
  using assms by (auto simp: and_then_def split: prod.splits sum.splits)

lemma fs_stat_Inr: "fs_stat e q fs = (Inr n, fs') \<Longrightarrow> pfNodes fs q = Some n \<and> pfNodes fs' = pfNodes fs"
  by (auto simp: fs_stat_def fs_call_def split: prod.splits option.splits if_splits dest!: take_fault_nodes)

lemma fs_check_Inr: "fs_check e b fs = (Inr u, fs') \<Longrightarrow> b \<and> fs' = fs"
  by (auto simp: fs_check_def split: if_splits)

lemma fs_call_Inr:
  assumes "fs_call e f fs = (Inr a, fs')"
  obtains fs1 where "pfNodes fs1 = pfNodes fs" and "f fs1 = Some (a, fs')"
  using assms by (auto simp: fs_call_def split: prod.splits option.splits if_splits dest!: take_fault_nodes)

lemma fs_call_Inl:
  assumes "fs_call e f fs = (Inl x, fs')"
  shows "pfNodes fs' = pfNodes fs"
  using assms by (auto simp: fs_call_def split: prod.splits option.splits if_splits dest!: take_fault_nodes)

lemma fs_pair_Inr:
  assumes "fs_pair f g fs = (Inr (a, b), fs')"
  obtains fs1 where "f fs = (Inr a, fs1)" and "g fs1 = (Inr b, fs')"
  using assms by (auto simp: fs_pair_def split: prod.splits sum.splits)

lemma open_below_result: "open_below q parts fs = (Inr r, fs') \<Longrightarrow> r = q @ parts"
proof (induction parts arbitrary: q fs)
  case Nil
  then show ?case by (simp add: fs_return_def)
next
  case (Cons part parts)
  then show ?case by (fastforce simp: Let_def elim!: and_then_Inr split: prod.splits)
qed

lemma open_parent_result:
  assumes "open_parent name fs = (Inr parent, fs')"
  shows "parent = butlast (split_on CHR ''/'' name)"
  using assms by (auto simp: open_parent_def elim!: and_then_Inr dest: open_below_result)

lemma read_original_Inr:
  assumes "read_original q fs = (Inr (c, n), fs')"
  shows "\<exists>i m. n = RegularFile i c m False \<and> pfNodes fs q = Some n \<and> pfNodes fs' = pfNodes fs"
proof -
  have same: "pfNodes fs' = pfNodes fs" by (rule readsD [OF reads_original assms])
  show ?thesis
    using assms same unfolding read_original_def Let_def
    by (cases n) (auto elim!: and_then_Inr fs_call_Inr fs_pair_Inr dest!: fs_stat_Inr fs_check_Inr
        simp: fs_return_def split: option.splits if_splits)
qed

section \<open>Staging files\<close>

definition stage_path :: "string list \<Rightarrow> bool" where
  "stage_path q \<longleftrightarrow> q \<noteq> [] \<and> has_prefix (last q) stage_prefix"

text \<open>At most one new node, under a staging name.\<close>

definition may_stage :: "patch_fs \<Rightarrow> patch_fs \<Rightarrow> bool" where
  "may_stage fs fs' \<longleftrightarrow>
     pfNodes fs' = pfNodes fs \<or>
     (\<exists>q n. stage_path q \<and> pfNodes fs q = None \<and> pfNodes fs' = (pfNodes fs)(q \<mapsto> n))"

lemma create_Inr:
  assumes "fs_create e q m fs = (Inr u, fs')"
  shows "pfNodes fs q = None \<and> (\<exists>i. pfNodes fs' = (pfNodes fs)(q \<mapsto> RegularFile i [] m False))"
  using assms unfolding fs_create_def by (elim fs_call_Inr) (auto simp: put_node_def split: if_splits)

lemma rewrite_nodes:
  "fs_rewrite e q f fs = (r, fs') \<Longrightarrow> pfNodes fs q = Some n \<Longrightarrow>
   (case r of Inl _ \<Rightarrow> pfNodes fs' = pfNodes fs | Inr _ \<Rightarrow> pfNodes fs' = (pfNodes fs)(q \<mapsto> f n))"
  unfolding fs_rewrite_def
  by (auto split: sum.split dest: fs_call_Inl elim!: fs_call_Inr simp: put_node_def)

lemma skip_nodes: "fs_call e (\<lambda>fs. Some ((), fs)) fs = (r, fs') \<Longrightarrow> pfNodes fs' = pfNodes fs"
  by (auto simp: fs_call_def split: prod.splits if_splits dest!: take_fault_nodes)

lemma write_stage_nodes:
  assumes "write_stage q content m fs = (r, fs')" and "pfNodes fs q = Some (RegularFile i c0 m0 s)"
  shows "(\<exists>n. pfNodes fs' = (pfNodes fs)(q \<mapsto> n)) \<and> (r = Inr () \<longrightarrow> pfNodes fs' = (pfNodes fs)(q \<mapsto> RegularFile i content m s))"
proof -
  obtain r1 fs1 where 1: "fs_rewrite (PatchError ''cannot write patch stage'') q (with_content content) fs = (r1, fs1)" by force
  show ?thesis
  proof (cases r1)
    case (Inl e)
    then have "r = Inl e" "fs' = fs1" using assms(1) 1 by (simp_all add: write_stage_def and_then_def)
    then show ?thesis using rewrite_nodes [OF 1 assms(2)] Inl assms(2) by (auto intro!: exI [of _ "RegularFile i c0 m0 s"])
  next
    case (Inr u)
    then have n1: "pfNodes fs1 = (pfNodes fs)(q \<mapsto> RegularFile i content m0 s)" using rewrite_nodes [OF 1 assms(2)] by simp
    obtain r2 fs2 where 2: "fs_rewrite (PatchError ''cannot preserve patch file mode'') q (with_mode m) fs1 = (r2, fs2)" by force
    show ?thesis
    proof (cases r2)
      case (Inl e)
      then have "r = Inl e" "fs' = fs2" using assms(1) 1 2 Inr by (simp_all add: write_stage_def and_then_def)
      then show ?thesis using rewrite_nodes [OF 2, of "RegularFile i content m0 s"] Inl n1 by auto
    next
      case (Inr v)
      then have n2: "pfNodes fs2 = (pfNodes fs)(q \<mapsto> RegularFile i content m s)"
        using rewrite_nodes [OF 2, of "RegularFile i content m0 s"] n1 by simp
      have "pfNodes fs' = pfNodes fs2"
        using assms(1) 1 2 Inr \<open>r1 = Inr u\<close>
        by (auto simp: write_stage_def and_then_def split: prod.splits sum.splits dest!: skip_nodes)
      then show ?thesis using n2 by auto
    qed
  qed
qed

lemma draw_nodes: "draw_token fs = (r, fs') \<Longrightarrow> pfNodes fs' = pfNodes fs"
  unfolding draw_token_def by (auto simp: fs_call_def split: prod.splits if_splits list.splits option.splits dest!: take_fault_nodes)

lemma remove_nodes: "pfNodes (fs_remove q fs) = pfNodes fs \<or> pfNodes (fs_remove q fs) = (pfNodes fs)(q := None)"
  by (auto simp: fs_remove_def fs_call_def put_node_def split: prod.split dest!: take_fault_nodes)

lemma new_stage_path [simp]: "stage_path (parent @ [stage_prefix @ t])"
  by (simp add: stage_path_def has_prefix_def)

lemma stage_file_nodes:
  assumes "stage_file parent content m fs = (r, fs')"
  shows "case r of
      Inl _ \<Rightarrow> may_stage fs fs'
    | Inr name \<Rightarrow> name \<noteq> [] \<and> stage_path (parent @ [name]) \<and> pfNodes fs (parent @ [name]) = None \<and>
        (\<exists>i. pfNodes fs' = (pfNodes fs)(parent @ [name] \<mapsto> RegularFile i content m False))"
proof -
  obtain rt fs1 where t: "draw_token fs = (rt, fs1)" by force
  note n1 = draw_nodes [OF t]
  show ?thesis
  proof (cases rt)
    case (Inl e)
    then show ?thesis using assms t n1 by (auto simp: stage_file_def and_then_def may_stage_def)
  next
    case (Inr token)
    define q where "q = parent @ [stage_prefix @ token]"
    obtain rc fs2 where c: "fs_create (PatchError ''cannot create patch stage'') q 384 fs1 = (rc, fs2)" by force
    show ?thesis
    proof (cases rc)
      case (Inl e)
      moreover have "pfNodes fs2 = pfNodes fs1" using c Inl unfolding fs_create_def by (auto dest: fs_call_Inl)
      ultimately show ?thesis using assms t n1 Inr c
        by (auto simp: stage_file_def and_then_def may_stage_def q_def [symmetric])
    next
      case (Inr u)
      with create_Inr [of _ q 384 fs1 u fs2] c obtain i where new: "pfNodes fs1 q = None"
          "pfNodes fs2 = (pfNodes fs1)(q \<mapsto> RegularFile i [] 384 False)" by blast
      obtain rw fs3 where w: "write_stage q content m fs2 = (rw, fs3)" by force
      note n3 = write_stage_nodes [OF w, of i "[]" 384 False]
      show ?thesis
      proof (cases rw)
        case (Inl e)
        then have r: "r = Inl e" "fs' = fs_remove q fs3"
          using assms t \<open>rt = Inr token\<close> c Inr w by (simp_all add: stage_file_def and_then_def q_def [symmetric])
        obtain n where "pfNodes fs3 = (pfNodes fs)(q \<mapsto> n)" using n3 new n1 by auto
        then have "pfNodes fs' = pfNodes fs \<or> pfNodes fs' = (pfNodes fs)(q \<mapsto> n)"
          using remove_nodes [of q fs3] new n1 r by auto
        moreover have "stage_path q" by (simp add: q_def)
        ultimately have "may_stage fs fs'" using new(1) n1 unfolding may_stage_def by metis
        then show ?thesis by (simp add: r)
      next
        case (Inr v)
        then have "r = Inr (stage_prefix @ token)" "fs' = fs3"
          using assms t \<open>rt = Inr token\<close> c \<open>rc = Inr u\<close> w by (simp_all add: stage_file_def and_then_def q_def [symmetric])
        moreover have "stage_prefix @ token \<noteq> []" by (simp add: stage_prefix_def)
        moreover have "pfNodes fs q = None" "pfNodes fs3 = (pfNodes fs)(q \<mapsto> RegularFile i content m False)"
          using n3 new n1 Inr by simp_all
        ultimately show ?thesis unfolding q_def by (auto simp only: sum.case new_stage_path)
      qed
    qed
  qed
qed

section \<open>The invariant\<close>

definition file_is :: "patch_fs \<Rightarrow> string list \<Rightarrow> string \<Rightarrow> int \<Rightarrow> bool" where
  "file_is fs q c m \<longleftrightarrow> (\<exists>i. pfNodes fs q = Some (RegularFile i c m False))"

abbreviation item_mode :: "prepared_edit \<Rightarrow> int" where
  "item_mode i \<equiv> fst (file_mode (ppInfo i))"

definition staged_files :: "prepared_edit \<Rightarrow> (string list \<times> string) list" where
  "staged_files i =
     (if ppStage i = [] then [] else [(ppParent i @ [ppStage i], edContent (ppEdit i))]) @
     (if ppBackup i = [] then [] else [(ppParent i @ [ppBackup i], ppBefore i)])"

definition item_paths :: "prepared_edit \<Rightarrow> string list list" where
  "item_paths i = target_path i # map fst (staged_files i)"

definition item_ok :: "patch_fs \<Rightarrow> patch_fs \<Rightarrow> prepared_edit \<Rightarrow> bool" where
  "item_ok fs0 fs i \<longleftrightarrow>
     \<not> stage_path (target_path i) \<and> file_is fs0 (target_path i) (ppBefore i) (item_mode i) \<and>
     file_is fs (target_path i) (if ppApplied i then edContent (ppEdit i) else ppBefore i) (item_mode i) \<and>
     (ppApplied i \<longrightarrow> ppBackup i \<noteq> []) \<and>
     (\<forall>(q, c)\<in>set (staged_files i). stage_path q \<and> pfNodes fs0 q = None \<and> file_is fs q c (item_mode i))"

definition others_kept :: "patch_fs \<Rightarrow> patch_fs \<Rightarrow> string list set \<Rightarrow> bool" where
  "others_kept fs0 fs targets \<longleftrightarrow>
     (\<forall>q. q \<notin> targets \<longrightarrow> pfNodes fs q = pfNodes fs0 q \<or> pfNodes fs0 q = None \<and> stage_path q)"

definition patch_inv :: "patch_fs \<Rightarrow> prepared_edit list \<Rightarrow> patch_fs \<Rightarrow> bool" where
  "patch_inv fs0 items fs \<longleftrightarrow>
     (\<forall>i\<in>set items. item_ok fs0 fs i) \<and> distinct (concat (map item_paths items)) \<and>
     others_kept fs0 fs (target_path ` set items)"

lemma inv_nodes: "patch_inv fs0 items fs \<Longrightarrow> pfNodes fs' = pfNodes fs \<Longrightarrow> patch_inv fs0 items fs'"
  by (simp add: patch_inv_def item_ok_def others_kept_def file_is_def)

lemma item_ok_frame:
  assumes "item_ok fs0 fs i" and "\<And>q. q \<in> set (item_paths i) \<Longrightarrow> pfNodes fs' q = pfNodes fs q"
  shows "item_ok fs0 fs' i"
proof -
  have t: "file_is fs' (target_path i) c m = file_is fs (target_path i) c m" for c m
    using assms(2) by (simp add: item_paths_def file_is_def)
  have q: "file_is fs' q c m = file_is fs q c m" if "(q, c) \<in> set (staged_files i)" for q c m
  proof -
    have "q \<in> set (item_paths i)" unfolding item_paths_def using that by (auto intro: rev_image_eqI)
    then show ?thesis using assms(2) by (simp add: file_is_def)
  qed
  show ?thesis using assms(1) q unfolding item_ok_def t by blast
qed

lemma paths_exist: "item_ok fs0 fs i \<Longrightarrow> q \<in> set (item_paths i) \<Longrightarrow> pfNodes fs q \<noteq> None"
  by (auto simp: item_ok_def item_paths_def file_is_def)

lemma inv_stage:
  assumes "patch_inv fs0 items fs" and "may_stage fs fs'"
  shows "patch_inv fs0 items fs'"
proof (cases "pfNodes fs' = pfNodes fs")
  case True
  then show ?thesis using assms(1) inv_nodes by blast
next
  case False
  then obtain q n where q: "stage_path q" "pfNodes fs q = None" "pfNodes fs' = (pfNodes fs)(q \<mapsto> n)"
    using assms(2) by (auto simp: may_stage_def)
  have "item_ok fs0 fs' i" if "i \<in> set items" for i
  proof -
    have ok: "item_ok fs0 fs i" using that assms(1) by (simp add: patch_inv_def)
    then have "q \<notin> set (item_paths i)" using paths_exist q(2) by metis
    then have "pfNodes fs' p = pfNodes fs p" if "p \<in> set (item_paths i)" for p using q(3) that by auto
    then show ?thesis by (rule item_ok_frame [OF ok])
  qed
  moreover have "others_kept fs0 fs' (target_path ` set items)"
    using assms(1) q by (auto simp: patch_inv_def others_kept_def)
  ultimately show ?thesis using assms(1) by (simp add: patch_inv_def)
qed

text \<open>The update of one item.\<close>

lemma inv_update:
  assumes inv: "patch_inv fs0 (ready @ i # is) fs" and ok: "item_ok fs0 fs' i'" and t: "target_path i' = target_path i"
    and same: "\<And>q. q \<notin> set (item_paths i) \<Longrightarrow> q \<notin> set (item_paths i') \<Longrightarrow> pfNodes fs' q = pfNodes fs q"
    and dist: "distinct (item_paths i')"
    and fresh: "\<And>q. q \<in> set (item_paths i') \<Longrightarrow> q \<notin> set (item_paths i) \<Longrightarrow> pfNodes fs q = None"
  shows "patch_inv fs0 (ready @ i' # is) fs'"
proof -
  have i: "item_ok fs0 fs i" using inv by (simp add: patch_inv_def)
  have apart: "set (item_paths j) \<inter> (set (item_paths i) \<union> set (item_paths i')) = {}" if "j \<in> set ready \<union> set is" for j
  proof -
    have "item_ok fs0 fs j" using inv that by (auto simp: patch_inv_def)
    then have "q \<notin> set (item_paths i') - set (item_paths i)" if "q \<in> set (item_paths j)" for q
      using paths_exist [OF _ that] fresh by blast
    moreover have "set (item_paths j) \<inter> set (item_paths i) = {}"
      using inv that by (auto simp: patch_inv_def)
    ultimately show ?thesis by blast
  qed
  have "item_ok fs0 fs' j" if "j \<in> set ready \<union> set is" for j
  proof (rule item_ok_frame)
    show "item_ok fs0 fs j" using inv that by (auto simp: patch_inv_def)
    show "pfNodes fs' q = pfNodes fs q" if "q \<in> set (item_paths j)" for q
      using apart [OF \<open>j \<in> _\<close>] that same by blast
  qed
  moreover have "distinct (concat (map item_paths (ready @ i' # is)))"
    using inv dist apart by (auto simp: patch_inv_def)
  moreover have "pfNodes fs' q = pfNodes fs0 q \<or> pfNodes fs0 q = None \<and> stage_path q"
    if "q \<notin> target_path ` set (ready @ i' # is)" for q
  proof (cases "q \<in> set (item_paths i) \<union> set (item_paths i')")
    case True
    then show ?thesis using i ok that t by (auto simp: item_ok_def item_paths_def)
  next
    case False
    then show ?thesis using same [of q] inv that t by (auto simp: patch_inv_def others_kept_def)
  qed
  ultimately show ?thesis using ok by (auto simp: patch_inv_def others_kept_def)
qed

end
