(* ===== verification/PatchProperties.thy ===== *)
theory PatchProperties
  imports PatchSteps
begin

text \<open>
  Properties of the application of a patch: whichever calls fail, it replaces every target or loses
  none, and touches nothing else; without failing calls it succeeds on a validated patch.
\<close>

section \<open>Renames\<close>

lemma fs_rename_Inr:
  assumes "fs_rename e src dst fs = (Inr u, fs')"
  shows "pfNodes fs src \<noteq> None \<and> pfNodes fs' = (pfNodes fs)(src := None, dst := pfNodes fs src)"
  using assms unfolding fs_rename_def
  by (elim fs_call_Inr) (auto simp: put_node_def split: option.splits file_node.splits)

lemma fs_rename_Inl: "fs_rename e src dst fs = (Inl x, fs') \<Longrightarrow> pfNodes fs' = pfNodes fs"
  unfolding fs_rename_def by (rule fs_call_Inl)

lemma inv_item: "patch_inv fs0 (ready @ i # is) fs \<Longrightarrow> item_ok fs0 fs i \<and> distinct (item_paths i)"
  by (simp add: patch_inv_def)

text \<open>A staged file of an item becomes its target.\<close>

lemma inv_rename:
  assumes inv: "patch_inv fs0 (ready @ i # is) fs" and src: "(src, c) \<in> set (staged_files i)"
    and nodes: "pfNodes fs' = (pfNodes fs)(src := None, target_path i := pfNodes fs src)"
    and i': "target_path i' = target_path i" "item_mode i' = item_mode i" "ppBefore i' = ppBefore i"
    and left: "set (staged_files i') \<subseteq> {x \<in> set (staged_files i). fst x \<noteq> src}" "distinct (map fst (staged_files i'))"
    and c: "c = (if ppApplied i' then edContent (ppEdit i') else ppBefore i')" "ppApplied i' \<longrightarrow> ppBackup i' \<noteq> []"
  shows "patch_inv fs0 (ready @ i' # is) fs'"
proof -
  have ok: "item_ok fs0 fs i" using inv_item [OF inv] by simp
  then have s: "stage_path src" "file_is fs src c (item_mode i)" "\<not> stage_path (target_path i)"
    using src by (auto simp: item_ok_def)
  have sub: "fst ` set (staged_files i') \<subseteq> fst ` set (staged_files i)" using left(1) by auto
  have staged: "stage_path q \<and> pfNodes fs0 q = None \<and> file_is fs' q d (item_mode i')" if "(q, d) \<in> set (staged_files i')" for q d
  proof -
    have "(q, d) \<in> set (staged_files i)" "q \<noteq> src" using that left(1) by auto
    moreover from this have "stage_path q \<and> pfNodes fs0 q = None \<and> file_is fs q d (item_mode i)" using ok by (auto simp: item_ok_def)
    moreover from this have "q \<noteq> target_path i" using s(3) by auto
    ultimately show ?thesis by (simp add: file_is_def nodes i')
  qed
  have target: "file_is fs' (target_path i) c (item_mode i)" using s by (auto simp: file_is_def nodes)
  have ok': "item_ok fs0 fs' i'"
    using ok staged target c i' unfolding item_ok_def by auto
  show ?thesis
  proof (rule inv_update [OF inv ok' i'(1)])
    show "pfNodes fs' q = pfNodes fs q" if "q \<notin> set (item_paths i)" for q
      using that src by (force simp: nodes item_paths_def)
    show "distinct (item_paths i')"
      using left(2) staged s(3) by (auto simp: item_paths_def i'(1))
    show "pfNodes fs q = None" if "q \<in> set (item_paths i')" "q \<notin> set (item_paths i)" for q
      using that sub by (auto simp: item_paths_def i'(1))
  qed
qed

section \<open>The phases\<close>

definition edit_path :: "Edit \<Rightarrow> string list" where
  "edit_path e = split_on CHR ''/'' (edPath e)"

definition item_of :: "(string \<Rightarrow> string) \<Rightarrow> prepared_edit \<Rightarrow> bool" where
  "item_of sha i \<longleftrightarrow> target_path i = edit_path (ppEdit i) \<and> ''sha256:'' @ sha (ppBefore i) = edBeforeHash (ppEdit i)"

definition clean_item :: "prepared_edit \<Rightarrow> bool" where
  "clean_item i \<longleftrightarrow> ppStage i = [] \<and> ppBackup i = [] \<and> \<not> ppApplied i"

definition patch_progress :: "(string \<Rightarrow> string) \<Rightarrow> Edit list \<Rightarrow> patch_fs \<Rightarrow> prepared_edit list \<Rightarrow> patch_fs \<Rightarrow> bool" where
  "patch_progress sha es fs0 items fs \<longleftrightarrow> patch_inv fs0 items fs \<and> list_all (item_of sha) items \<and> map ppEdit items = es"

lemma progressD: "patch_progress sha es fs0 items fs \<Longrightarrow> patch_inv fs0 items fs"
  by (simp add: patch_progress_def)

lemma progress_item:
  "patch_progress sha es fs0 (ready @ i # is) fs \<Longrightarrow> patch_inv fs0 (ready @ i' # is) fs' \<Longrightarrow>
   target_path i' = target_path i \<Longrightarrow> ppEdit i' = ppEdit i \<Longrightarrow> ppBefore i' = ppBefore i \<Longrightarrow>
   patch_progress sha es fs0 (ready @ i' # is) fs'"
  by (auto simp: patch_progress_def item_of_def)

lemma progress_nodes: "patch_progress sha es fs0 items fs \<Longrightarrow> pfNodes fs' = pfNodes fs \<Longrightarrow> patch_progress sha es fs0 items fs'"
  using inv_nodes by (auto simp: patch_progress_def)

definition read_item :: "(string \<Rightarrow> string) \<Rightarrow> patch_fs \<Rightarrow> prepared_edit \<Rightarrow> bool" where
  "read_item sha fs i \<longleftrightarrow> item_of sha i \<and> clean_item i \<and> file_is fs (target_path i) (ppBefore i) (item_mode i)"

lemma new_item_target:
  assumes "open_parent (edPath e) fs = (Inr parent, fs1)"
  shows "target_path (new_item e parent) = edit_path e"
  using open_parent_result [OF assms] by (simp add: target_path_def new_item_def edit_path_def)

lemma prepare_result:
  "prepare_edits sha n items0 es fs = (items, r, fs') \<Longrightarrow> list_all clean_item items0 \<Longrightarrow>
   pfNodes fs' = pfNodes fs \<and> list_all clean_item items \<and>
   (r = Inr () \<longrightarrow> (\<exists>new. items = items0 @ new \<and> map ppEdit new = es \<and> list_all (read_item sha fs) new))"
proof (induction es arbitrary: n items0 fs)
  case (Cons e es)
  obtain ro fs1 where o1: "open_parent (edPath e) fs = (ro, fs1)" by force
  have n1: "pfNodes fs1 = pfNodes fs" by (rule readsD [OF reads_open_parent o1])
  show ?case
  proof (cases ro)
    case (Inl err)
    then show ?thesis using Cons.prems o1 n1 by auto
  next
    case (Inr parent)
    define item where "item = new_item e parent"
    have t: "target_path item = edit_path e" unfolding item_def by (rule new_item_target [of e fs parent fs1]) (simp add: o1 Inr)
    have ci: "clean_item item" "ppEdit item = e" by (simp_all add: item_def new_item_def clean_item_def)
    obtain rr fs2 where r2: "read_original (target_path item) fs1 = (rr, fs2)" by force
    have n2: "pfNodes fs2 = pfNodes fs" using readsD [OF reads_original r2] n1 by simp
    show ?thesis
    proof (cases rr)
      case (Inl err)
      then show ?thesis using Cons.prems o1 r2 n2 \<open>ro = Inr parent\<close> ci by (auto simp: Let_def item_def [symmetric])
    next
      case (Inr bi)
      obtain preimage info where bi: "bi = (preimage, info)" by force
      define item' where "item' = item\<lparr>ppBefore := preimage, ppInfo := info\<rparr>"
      have ci': "clean_item item'" "ppEdit item' = e" "target_path item' = edit_path e" "ppBefore item' = preimage"
        using ci t by (simp_all add: item'_def clean_item_def target_path_def)
      have step: "prepare_edits sha n items0 (e # es) fs =
          (if ''sha256:'' @ sha preimage \<noteq> edBeforeHash e then (items0 @ [item'], Inl [PatchError ''patch preimage hash mismatch''], fs2)
           else if max_bytes < n + int (length preimage) + int (length (edContent e))
           then (items0 @ [item'], Inl [PatchError ''patch combined text exceeds limit''], fs2)
           else prepare_edits sha (n + int (length preimage) + int (length (edContent e))) (items0 @ [item']) es fs2)"
        using o1 \<open>ro = Inr parent\<close> r2 Inr bi by (simp add: Let_def item_def [symmetric] item'_def)
      show ?thesis
      proof (cases "''sha256:'' @ sha preimage \<noteq> edBeforeHash e \<or> max_bytes < n + int (length preimage) + int (length (edContent e))")
        case True
        then show ?thesis using Cons.prems step n2 ci' by (auto split: if_splits)
      next
        case False
        then have go: "prepare_edits sha (n + int (length preimage) + int (length (edContent e))) (items0 @ [item']) es fs2 = (items, r, fs')"
          using Cons.prems(1) step by simp
        have "file_is fs (target_path item') preimage (item_mode item')"
          using read_original_Inr [of "target_path item" fs1 preimage info fs2] r2 Inr bi n1 t ci'(3)
          by (auto simp: file_is_def item'_def)
        then have "read_item sha fs item'" using False ci' by (simp add: read_item_def item_of_def)
        then have "read_item sha fs2 item'" "read_item sha fs2 = read_item sha fs"
          using n2 by (simp_all add: read_item_def file_is_def fun_eq_iff)
        then show ?thesis using Cons.IH [OF go] Cons.prems(2) ci' n2 by auto
      qed
    qed
  qed
qed simp

lemma prepared_inv:
  assumes "list_all (read_item sha fs) items" and "distinct (map target_path items)" and "list_all (\<lambda>i. \<not> stage_path (target_path i)) items"
  shows "patch_progress sha (map ppEdit items) fs items fs"
proof -
  have p: "item_paths i = [target_path i]" "staged_files i = []" if "i \<in> set items" for i
    using assms(1) that by (auto simp: list_all_iff read_item_def clean_item_def item_paths_def staged_files_def)
  then have "concat (map item_paths items) = map target_path items" by (induction items) auto
  moreover have "item_ok fs fs i" if "i \<in> set items" for i
    using assms(1,3) that p(2) [OF that] by (auto simp: list_all_iff read_item_def clean_item_def item_ok_def)
  ultimately show ?thesis using assms(1,2)
    by (auto simp: patch_progress_def patch_inv_def others_kept_def list_all_iff read_item_def)
qed

text \<open>Staging.\<close>

lemma inv_staged:
  assumes inv: "patch_inv fs0 (ready @ i # is) fs"
    and new: "name \<noteq> []" "stage_path (ppParent i @ [name])" "pfNodes fs (ppParent i @ [name]) = None"
      "pfNodes fs' = (pfNodes fs)(ppParent i @ [name] \<mapsto> RegularFile k c (item_mode i) False)"
    and i': "set (staged_files i') = insert (ppParent i @ [name], c) (set (staged_files i))" "target_path i' = target_path i"
      "ppBefore i' = ppBefore i" "ppEdit i' = ppEdit i" "ppInfo i' = ppInfo i" "ppApplied i' = ppApplied i" "\<not> ppApplied i"
      "distinct (map fst (staged_files i'))"
  shows "patch_inv fs0 (ready @ i' # is) fs'"
proof -
  let ?q = "ppParent i @ [name]"
  have ok: "item_ok fs0 fs i" using inv_item [OF inv] by simp
  have fresh: "?q \<notin> set (item_paths i)" using paths_exist [OF ok] new(3) by metis
  have "item_ok fs0 fs' i"
    by (rule item_ok_frame [OF ok]) (use fresh new(4) in auto)
  moreover have "pfNodes fs0 ?q = None"
  proof -
    have "\<not> stage_path (target_path j)" if "j \<in> set (ready @ i # is)" for j
      using inv that unfolding patch_inv_def item_ok_def by blast
    then have "?q \<notin> target_path ` set (ready @ i # is)" using new(2) by fastforce
    then have "pfNodes fs ?q = pfNodes fs0 ?q \<or> pfNodes fs0 ?q = None \<and> stage_path ?q"
      using inv unfolding patch_inv_def others_kept_def by blast
    then show ?thesis using new(3) by auto
  qed
  moreover have "file_is fs' ?q c (item_mode i)" by (simp add: file_is_def new(4))
  ultimately have "stage_path p \<and> pfNodes fs0 p = None \<and> file_is fs' p d (item_mode i')" if "(p, d) \<in> set (staged_files i')" for p d
    using that new(2) \<open>item_ok fs0 fs' i\<close> unfolding item_ok_def i'(1,5) by blast
  then have ok': "item_ok fs0 fs' i'"
    using \<open>item_ok fs0 fs' i\<close> i'(6,7) unfolding item_ok_def i'(2-6) by blast
  have paths: "set (item_paths i') = insert ?q (set (item_paths i))" using i'(1,2) by (auto simp: item_paths_def)
  show ?thesis
  proof (rule inv_update [OF inv ok' i'(2)])
    show "pfNodes fs' q = pfNodes fs q" if "q \<notin> set (item_paths i')" for q using that new(4) paths by auto
    show "distinct (item_paths i')"
      using i'(8) ok' unfolding item_paths_def item_ok_def by auto
    show "pfNodes fs q = None" if "q \<in> set (item_paths i')" "q \<notin> set (item_paths i)" for q
      using that paths new(3) by auto
  qed
qed

definition staged_item :: "prepared_edit \<Rightarrow> bool" where
  "staged_item i \<longleftrightarrow> ppStage i \<noteq> [] \<and> ppBackup i \<noteq> [] \<and> \<not> ppApplied i"

lemma stage_result:
  "stage_items ready todo fs = (items, r, fs') \<Longrightarrow> patch_progress sha es fs0 (ready @ todo) fs \<Longrightarrow>
   list_all clean_item todo \<Longrightarrow> list_all staged_item ready \<Longrightarrow>
   patch_progress sha es fs0 items fs' \<and> list_all (\<lambda>i. \<not> ppApplied i) items \<and> (r = Inr () \<longrightarrow> list_all staged_item items)"
proof (induction todo arbitrary: ready fs)
  case Nil
  then show ?case by (auto simp: list_all_iff staged_item_def)
next
  case (Cons i "is")
  have idle: "list_all (\<lambda>i. \<not> ppApplied i) (ready @ i # is)" and ci: "ppStage i = []" "ppBackup i = []" "\<not> ppApplied i"
    using Cons.prems(3,4) by (auto simp: list_all_iff staged_item_def clean_item_def)
  obtain r1 fs1 where 1: "stage_file (ppParent i) (edContent (ppEdit i)) (item_mode i) fs = (r1, fs1)" by force
  show ?case
  proof (cases r1)
    case (Inl err)
    then have "items = ready @ i # is" "r = Inl [err]" "fs' = fs1" using Cons.prems(1) 1 by auto
    moreover have "patch_progress sha es fs0 (ready @ i # is) fs1"
      using Cons.prems(2) inv_stage stage_file_nodes [OF 1] Inl by (auto simp: patch_progress_def)
    ultimately show ?thesis using idle by simp
  next
    case (Inr name)
    define i1 where "i1 = i\<lparr>ppStage := name\<rparr>"
    obtain k where new: "name \<noteq> []" "stage_path (ppParent i @ [name])" "pfNodes fs (ppParent i @ [name]) = None"
        "pfNodes fs1 = (pfNodes fs)(ppParent i @ [name] \<mapsto> RegularFile k (edContent (ppEdit i)) (item_mode i) False)"
      using stage_file_nodes [OF 1] Inr by auto
    have same1: "target_path i1 = target_path i" "ppEdit i1 = ppEdit i" "ppBefore i1 = ppBefore i" "item_mode i1 = item_mode i"
        "ppInfo i1 = ppInfo i" "ppParent i1 = ppParent i" "ppApplied i1 = ppApplied i" "ppBackup i1 = []" "ppStage i1 = name"
      by (simp_all add: i1_def target_path_def ci)
    have "patch_inv fs0 (ready @ i1 # is) fs1"
      by (rule inv_staged [OF progressD [OF Cons.prems(2)] new]) (simp_all add: same1 ci staged_files_def new(1))
    then have p1: "patch_progress sha es fs0 (ready @ i1 # is) fs1" by (rule progress_item [OF Cons.prems(2)]) (simp_all add: same1)
    obtain r2 fs2 where 2: "stage_file (ppParent i) (ppBefore i) (item_mode i) fs1 = (r2, fs2)" by force
    show ?thesis
    proof (cases r2)
      case (Inl err)
      then have "items = ready @ i1 # is" "r = Inl [err]" "fs' = fs2" using Cons.prems(1) 1 2 \<open>r1 = Inr name\<close> by (auto simp: i1_def)
      moreover have "patch_progress sha es fs0 (ready @ i1 # is) fs2"
        using p1 inv_stage stage_file_nodes [OF 2] Inl by (auto simp: patch_progress_def)
      ultimately show ?thesis using idle same1 by simp
    next
      case (Inr backup)
      define i2 where "i2 = i\<lparr>ppStage := name, ppBackup := backup\<rparr>"
      obtain l where new2: "backup \<noteq> []" "stage_path (ppParent i1 @ [backup])" "pfNodes fs1 (ppParent i1 @ [backup]) = None"
          "pfNodes fs2 = (pfNodes fs1)(ppParent i1 @ [backup] \<mapsto> RegularFile l (ppBefore i) (item_mode i1) False)"
        using stage_file_nodes [OF 2] Inr same1 by auto
      then have "backup \<noteq> name" using new(4) by (auto simp: same1)
      then have "patch_inv fs0 (ready @ i2 # is) fs2"
        by (intro inv_staged [OF progressD [OF p1] new2])
          (auto simp add: same1 ci staged_files_def new(1) new2(1) i2_def i1_def target_path_def)
      then have "patch_progress sha es fs0 (ready @ i2 # is) fs2"
        by (rule progress_item [OF Cons.prems(2)]) (simp_all add: i2_def target_path_def)
      then have "patch_progress sha es fs0 ((ready @ [i2]) @ is) fs2" by simp
      moreover have "stage_items (ready @ [i2]) is fs2 = (items, r, fs')"
        using Cons.prems(1) 1 2 \<open>r1 = Inr name\<close> Inr by (simp add: i2_def)
      moreover have "staged_item i2" by (simp add: i2_def staged_item_def new(1) new2(1) ci)
      ultimately show ?thesis using Cons.IH [of "ready @ [i2]" fs2] Cons.prems(3,4) by simp
    qed
  qed
qed

text \<open>Rollback: what stays replaced is reported with the place of its original.\<close>

definition told :: "patch_error list \<Rightarrow> prepared_edit \<Rightarrow> bool" where
  "told es i \<longleftrightarrow>
     RollbackRefused (edPath (ppEdit i)) (retained_at i) \<in> set es \<or> RollbackFailed (edPath (ppEdit i)) (retained_at i) \<in> set es"

lemma told_more: "told es i \<Longrightarrow> set es \<subseteq> set es' \<Longrightarrow> told es' i"
  by (auto simp: told_def)

lemma rollback_item_result:
  assumes "rollback_item i fs = (i', es', fs')" and "patch_progress sha es fs0 (ready @ i # is) fs"
  shows "patch_progress sha es fs0 (ready @ i' # is) fs' \<and> (ppApplied i' \<longrightarrow> told es' i')"
proof (cases "ppApplied i")
  case False
  then show ?thesis using assms by (simp add: rollback_item_def)
next
  case True
  obtain r1 fs1 where 1: "read_original (target_path i) fs = (r1, fs1)" by force
  have p1: "patch_progress sha es fs0 (ready @ i # is) fs1"
    by (rule progress_nodes [OF assms(2) readsD [OF reads_original 1]])
  show ?thesis
  proof (cases "\<exists>c n. r1 = Inr (c, n) \<and> c = edContent (ppEdit i)")
    case False
    then have "i' = i" "fs' = fs1" "told es' i" using assms(1) 1 True
      by (auto simp: rollback_item_def told_def split: sum.splits prod.splits if_splits)
    then show ?thesis using p1 by simp
  next
    case same: True
    obtain r2 fs2 where 2: "fs_rename (PatchError []) (ppParent i @ [ppBackup i]) (target_path i) fs1 = (r2, fs2)" by force
    show ?thesis
    proof (cases r2)
      case (Inl err)
      then have "i' = i" "fs' = fs2" "told es' i" using assms(1) 1 2 True same by (auto simp: rollback_item_def told_def)
      then show ?thesis using progress_nodes [OF p1] fs_rename_Inl 2 Inl by auto
    next
      case (Inr u)
      then have i': "i' = i\<lparr>ppBackup := [], ppApplied := False\<rparr>" "fs' = fs2"
        using assms(1) 1 2 True same by (auto simp: rollback_item_def)
      have "ppBackup i \<noteq> []" "distinct (item_paths i)"
        using inv_item [OF progressD [OF p1]] True by (auto simp: item_ok_def)
      then have src: "(ppParent i @ [ppBackup i], ppBefore i) \<in> set (staged_files i)"
        and left: "set (staged_files i') \<subseteq> {x \<in> set (staged_files i). fst x \<noteq> ppParent i @ [ppBackup i]}" "distinct (map fst (staged_files i'))"
        by (auto simp: staged_files_def item_paths_def i')
      have "patch_inv fs0 (ready @ i' # is) fs'"
        by (rule inv_rename [OF progressD [OF p1] src _ _ _ _ left])
          (use fs_rename_Inr [of _ _ _ fs1 u fs2] 2 Inr in \<open>simp_all add: i' target_path_def\<close>)
      then show ?thesis using progress_item [OF p1] by (simp add: i' target_path_def)
    qed
  qed
qed

lemma rollback_result:
  "rollback todo fs = (todo', es', fs') \<Longrightarrow> patch_progress sha es fs0 (ready @ todo) fs \<Longrightarrow>
   patch_progress sha es fs0 (ready @ todo') fs' \<and> list_all (\<lambda>i. ppApplied i \<longrightarrow> told es' i) todo'"
proof (induction todo arbitrary: ready fs todo' es' fs')
  case (Cons i "is")
  obtain is' es1 fs1 where 1: "rollback is fs = (is', es1, fs1)" by (metis prod_cases3)
  obtain i' es2 fs2 where 2: "rollback_item i fs1 = (i', es2, fs2)" by (metis prod_cases3)
  have eq: "todo' = i' # is'" "es' = es1 @ es2" "fs' = fs2" using Cons.prems(1) 1 2 by simp_all
  have "patch_progress sha es fs0 ((ready @ [i]) @ is') fs1 \<and> list_all (\<lambda>i. ppApplied i \<longrightarrow> told es1 i) is'"
    using Cons.IH [OF 1, of "ready @ [i]"] Cons.prems(2) by simp
  moreover from this have "patch_progress sha es fs0 (ready @ i' # is') fs2 \<and> (ppApplied i' \<longrightarrow> told es2 i')"
    by (intro rollback_item_result [OF 2]) simp
  ultimately show ?case unfolding eq by (auto simp: list_all_iff intro: told_more)
qed (simp add: )

text \<open>Replacement.\<close>

definition settled :: "patch_error list + unit \<Rightarrow> prepared_edit \<Rightarrow> bool" where
  "settled r i \<longleftrightarrow> (case r of Inr _ \<Rightarrow> ppApplied i | Inl es \<Rightarrow> ppApplied i \<longrightarrow> told es i)"

lemma fail_back_result:
  assumes "fail_back e items fs = (items', r, fs')" and "patch_progress sha es fs0 items fs"
  shows "patch_progress sha es fs0 items' fs' \<and> list_all (settled r) items'"
proof -
  obtain is' es' fs1 where 1: "rollback items fs = (is', es', fs1)" by (metis prod_cases3)
  then have "items' = is'" "r = Inl (e # es')" "fs' = fs1" using assms(1) by (simp_all add: fail_back_def)
  then show ?thesis using rollback_result [of items fs is' es' fs1 sha es fs0 "[]"] 1 assms(2)
    by (auto simp: list_all_iff settled_def intro: told_more)
qed

lemma replace_result:
  "replace_items ready todo fs = (items, r, fs') \<Longrightarrow> patch_progress sha es fs0 (ready @ todo) fs \<Longrightarrow>
   list_all ppApplied ready \<Longrightarrow> list_all staged_item todo \<Longrightarrow>
   patch_progress sha es fs0 items fs' \<and> list_all (settled r) items"
proof (induction todo arbitrary: ready fs)
  case Nil
  then show ?case by (auto simp: list_all_iff settled_def)
next
  case (Cons i "is")
  obtain r1 fs1 where 1: "unchanged i fs = (r1, fs1)" by force
  have p1: "patch_progress sha es fs0 (ready @ i # is) fs1" by (rule progress_nodes [OF Cons.prems(2) reads_unchanged [OF 1]])
  show ?case
  proof (cases r1)
    case (Inl e)
    then have "fail_back e (ready @ i # is) fs1 = (items, r, fs')" using Cons.prems(1) 1 by simp
    then show ?thesis using fail_back_result p1 by blast
  next
    case (Inr u)
    obtain r2 fs2 where 2: "fs_rename (PatchError ''cannot replace patch file'') (ppParent i @ [ppStage i]) (target_path i) fs1 = (r2, fs2)" by force
    show ?thesis
    proof (cases r2)
      case (Inl e)
      then have "fail_back e (ready @ i # is) fs2 = (items, r, fs')" using Cons.prems(1) 1 2 Inr by simp
      moreover have "patch_progress sha es fs0 (ready @ i # is) fs2" using progress_nodes [OF p1] fs_rename_Inl 2 Inl by blast
      ultimately show ?thesis using fail_back_result by blast
    next
      case (Inr v)
      define i' where "i' = i\<lparr>ppStage := [], ppApplied := True\<rparr>"
      have st: "ppStage i \<noteq> []" "ppBackup i \<noteq> []" using Cons.prems(4) by (auto simp: staged_item_def)
      have "distinct (item_paths i)" using inv_item [OF progressD [OF p1]] by simp
      then have src: "(ppParent i @ [ppStage i], edContent (ppEdit i)) \<in> set (staged_files i)"
        and left: "set (staged_files i') \<subseteq> {x \<in> set (staged_files i). fst x \<noteq> ppParent i @ [ppStage i]}" "distinct (map fst (staged_files i'))"
        using st by (auto simp: staged_files_def item_paths_def i'_def)
      have "patch_inv fs0 (ready @ i' # is) fs2"
        by (rule inv_rename [OF progressD [OF p1] src _ _ _ _ left])
          (use fs_rename_Inr [of _ _ _ fs1 v fs2] 2 Inr st in \<open>simp_all add: i'_def target_path_def\<close>)
      then have "patch_progress sha es fs0 ((ready @ [i']) @ is) fs2" using progress_item [OF p1] by (simp add: i'_def target_path_def)
      moreover have "replace_items (ready @ [i']) is fs2 = (items, r, fs')"
        using Cons.prems(1) 1 2 \<open>r1 = Inr u\<close> Inr by (simp add: i'_def)
      ultimately show ?thesis using Cons.IH [of "ready @ [i']" fs2] Cons.prems(3,4) by (simp add: i'_def)
    qed
  qed
qed

text \<open>The cleanup removes staging files and keeps the reported originals.\<close>

lemma removals_nodes:
  "pfNodes (foldl (\<lambda>fs q. fs_remove q fs) fs qs) q = pfNodes fs q \<or>
   q \<in> set qs \<and> pfNodes (foldl (\<lambda>fs q. fs_remove q fs) fs qs) q = None"
proof (induction qs arbitrary: fs)
  case (Cons p qs)
  have "pfNodes (fs_remove p fs) q = pfNodes fs q \<or> p = q \<and> pfNodes (fs_remove p fs) q = None"
    using remove_nodes [of p fs] by (auto split: if_splits)
  then show ?case using Cons [of "fs_remove p fs"] by auto
qed simp

lemma leftovers_staged: "set (leftovers complete i) \<subseteq> fst ` set (staged_files i)"
  by (auto simp: leftovers_def staged_files_def)

lemma concat_apart:
  "distinct (concat (map f xs)) \<Longrightarrow> x \<in> set xs \<Longrightarrow> y \<in> set xs \<Longrightarrow> x \<noteq> y \<Longrightarrow> set (f x) \<inter> set (f y) = {}"
  by (induction xs) auto

lemma concat_distinct: "distinct (concat (map f xs)) \<Longrightarrow> x \<in> set xs \<Longrightarrow> distinct (f x)"
  by (induction xs) auto

lemma cleanup_keeps:
  assumes inv: "patch_inv fs0 items fs" and i: "i \<in> set items" and q: "q \<in> set (item_paths i)" "q \<notin> set (leftovers complete i)"
  shows "pfNodes (cleanup complete items fs) q = pfNodes fs q"
proof -
  have "q \<notin> set (leftovers complete j)" if "j \<in> set items" for j
  proof (cases "j = i")
    case False
    then have "set (item_paths i) \<inter> set (item_paths j) = {}"
      using concat_apart [of item_paths items i j] inv i that by (auto simp: patch_inv_def)
    moreover have "set (leftovers complete j) \<subseteq> set (item_paths j)"
      using leftovers_staged [of complete j] by (auto simp: item_paths_def)
    ultimately show ?thesis using q(1) by blast
  qed (use q(2) in simp)
  then show ?thesis using removals_nodes [of fs "concat (map (leftovers complete) items)" q]
    by (auto simp: cleanup_def)
qed

lemma cleanup_others:
  assumes "patch_inv fs0 items fs"
  shows "others_kept fs0 (cleanup complete items fs) (target_path ` set items)"
proof -
  have "pfNodes fs0 q = None \<and> stage_path q" if "j \<in> set items" "q \<in> set (leftovers complete j)" for j q
  proof -
    have "item_ok fs0 fs j" using assms that(1) by (simp add: patch_inv_def)
    moreover have "q \<in> fst ` set (staged_files j)" using that(2) leftovers_staged [of complete j] by auto
    ultimately show ?thesis by (auto simp: item_ok_def)
  qed
  then have removed: "pfNodes fs0 q = None \<and> stage_path q" if "q \<in> set (concat (map (leftovers complete) items))" for q
    using that by auto
  show ?thesis unfolding others_kept_def
  proof (intro allI impI)
    fix q assume "q \<notin> target_path ` set items"
    then have "pfNodes fs q = pfNodes fs0 q \<or> pfNodes fs0 q = None \<and> stage_path q"
      using assms by (simp add: patch_inv_def others_kept_def)
    then show "pfNodes (cleanup complete items fs) q = pfNodes fs0 q \<or> pfNodes fs0 q = None \<and> stage_path q"
      using removals_nodes [of fs "concat (map (leftovers complete) items)" q] removed unfolding cleanup_def by metis
  qed
qed

section \<open>All or nothing\<close>

text \<open>The validation keeps targets apart and off the staging names.\<close>

lemma edit_path_inj: "edit_path e = edit_path f \<Longrightarrow> edPath e = edPath f"
  unfolding edit_path_def by (metis join_split)

lemma edits_apart:
  "validate_edits allowed seen n es = Inr () \<Longrightarrow>
   distinct (map (to_lower \<circ> edPath) es) \<and> list_all (\<lambda>e. safe_path (edPath e) \<and> to_lower (edPath e) \<notin> set seen) es"
proof (induction es arbitrary: seen n)
  case (Cons e es)
  then have "validate_edits allowed (to_lower (edPath e) # seen) (n + int (length (edContent e))) es = Inr ()"
      "safe_path (edPath e)" "to_lower (edPath e) \<notin> set seen"
    by (auto split: if_splits)
  with Cons.IH [OF this(1)] show ?case by (auto simp: list_all_iff)
qed simp

lemma lower_point: "to_lower (CHR ''.'' # s) = CHR ''.'' # to_lower s"
  by (cases s) (auto simp: lower_char_def upper_letters_def lower_letters_def split: list.split)

lemma safe_not_staging: "safe_path (edPath e) \<Longrightarrow> \<not> stage_path (edit_path e)"
proof -
  assume "safe_path (edPath e)"
  then have "safe_part (last (edit_path e))"
    unfolding safe_path_def edit_path_def list_all_iff by (metis last_in_set split_on_nonempty)
  then have "\<not> has_prefix (to_lower (last (edit_path e))) ''.''" by (simp add: safe_part_def Let_def)
  moreover have "has_prefix (to_lower p) ''.''" if "has_prefix p stage_prefix" for p
    using that lower_point by (cases p) (auto simp: has_prefix_def stage_prefix_def)
  ultimately show ?thesis by (auto simp: stage_path_def)
qed

lemma validated_paths:
  assumes "validate_patch p b h allowed = Inr ()"
  shows "distinct (map edit_path (prpEdits p)) \<and> list_all (\<lambda>e. \<not> stage_path (edit_path e)) (prpEdits p)"
proof -
  have "distinct (map (to_lower \<circ> edPath) (prpEdits p)) \<and> list_all (\<lambda>e. safe_path (edPath e)) (prpEdits p)"
    using edits_apart [of allowed "[]" 0 "prpEdits p"] assms by (auto simp: validate_patch_def list_all_iff split: if_splits)
  then show ?thesis using safe_not_staging edit_path_inj
    unfolding list_all_iff distinct_map inj_on_def by (metis comp_apply)
qed

text \<open>The outcomes for one edit: its target was replaced, is as it was, or is reported with the file that
  holds its original.\<close>

definition replaced :: "(string \<Rightarrow> string) \<Rightarrow> patch_fs \<Rightarrow> patch_fs \<Rightarrow> Edit \<Rightarrow> bool" where
  "replaced sha fs fs' e \<longleftrightarrow>
     (\<exists>preimage m. file_is fs (edit_path e) preimage m \<and> ''sha256:'' @ sha preimage = edBeforeHash e \<and>
        file_is fs' (edit_path e) (edContent e) m)"

definition restored :: "patch_fs \<Rightarrow> patch_fs \<Rightarrow> Edit \<Rightarrow> bool" where
  "restored fs fs' e \<longleftrightarrow>
     pfNodes fs' (edit_path e) = pfNodes fs (edit_path e) \<or>
     (\<exists>c m. file_is fs (edit_path e) c m \<and> file_is fs' (edit_path e) c m)"

definition original_retained :: "patch_fs \<Rightarrow> patch_fs \<Rightarrow> patch_error list \<Rightarrow> Edit \<Rightarrow> bool" where
  "original_retained fs fs' es e \<longleftrightarrow>
     (\<exists>preimage m q. file_is fs (edit_path e) preimage m \<and> file_is fs' (edit_path e) (edContent e) m \<and> file_is fs' q preimage m \<and>
        (RollbackRefused (edPath e) (join_slashes q) \<in> set es \<or> RollbackFailed (edPath e) (join_slashes q) \<in> set es))"

definition patch_outcome :: "(string \<Rightarrow> string) \<Rightarrow> patch_fs \<Rightarrow> patch_error list + unit \<Rightarrow> patch_fs \<Rightarrow> Edit \<Rightarrow> bool" where
  "patch_outcome sha fs r fs' e \<longleftrightarrow>
     (case r of Inr _ \<Rightarrow> replaced sha fs fs' e | Inl es \<Rightarrow> restored fs fs' e \<or> original_retained fs fs' es e)"

lemma settled_outcome:
  assumes prog: "patch_progress sha es fs0 items fs" and i: "i \<in> set items" and s: "settled r i"
    and complete: "complete = (\<not> (case r of Inl es \<Rightarrow> True | Inr _ \<Rightarrow> False))"
  shows "patch_outcome sha fs0 r (cleanup complete items fs) (ppEdit i)"
proof -
  let ?fs = "cleanup complete items fs"
  have inv: "patch_inv fs0 items fs" and ok: "item_ok fs0 fs i" and of: "item_of sha i"
    using prog i by (auto simp: patch_progress_def patch_inv_def list_all_iff)
  have t: "target_path i = edit_path (ppEdit i)" using of by (simp add: item_of_def)
  have "target_path i \<notin> set (leftovers complete i)"
  proof -
    have "target_path i \<notin> fst ` set (staged_files i)" using ok by (auto simp: item_ok_def)
    then show ?thesis using leftovers_staged [of complete i] by blast
  qed
  then have same: "pfNodes ?fs (target_path i) = pfNodes fs (target_path i)"
    by (intro cleanup_keeps [OF inv i]) (simp_all add: item_paths_def)
  have now: "file_is ?fs (target_path i) (if ppApplied i then edContent (ppEdit i) else ppBefore i) (item_mode i)"
    using ok same by (simp add: item_ok_def file_is_def)
  have preimage: "file_is fs0 (target_path i) (ppBefore i) (item_mode i)" using ok by (simp add: item_ok_def)
  show ?thesis
  proof (cases "ppApplied i")
    case False
    then show ?thesis using s now preimage t
      by (cases r) (auto simp: patch_outcome_def settled_def restored_def)
  next
    case applied: True
    show ?thesis
    proof (cases r)
      case (Inr u)
      then show ?thesis using now preimage t applied of by (auto simp: patch_outcome_def replaced_def item_of_def)
    next
      case (Inl errs)
      let ?q = "ppParent i @ [ppBackup i]"
      have b: "ppBackup i \<noteq> []" using ok applied by (auto simp: item_ok_def)
      then have st: "(?q, ppBefore i) \<in> set (staged_files i)" by (simp add: staged_files_def)
      have "distinct (map fst (staged_files i))" using inv i concat_distinct by (fastforce simp: patch_inv_def item_paths_def)
      then have "?q \<notin> set (leftovers complete i)"
        using b applied complete Inl by (auto simp: leftovers_def staged_files_def)
      then have "pfNodes ?fs ?q = pfNodes fs ?q"
        using st by (intro cleanup_keeps [OF inv i]) (auto simp: item_paths_def intro: rev_image_eqI)
      then have "file_is ?fs ?q (ppBefore i) (item_mode i)" using ok st by (auto simp: item_ok_def file_is_def)
      then have "original_retained fs0 ?fs errs (ppEdit i)"
        using now preimage t applied s Inl unfolding original_retained_def settled_def told_def retained_at_def by auto
      then show ?thesis using Inl by (simp add: patch_outcome_def)
    qed
  qed
qed

lemma untouched_edits:
  "list_all clean_item items \<Longrightarrow> pfNodes fs' = pfNodes fs \<Longrightarrow>
   pfNodes (cleanup False items fs') = pfNodes fs"
proof -
  assume "list_all clean_item items" and same: "pfNodes fs' = pfNodes fs"
  then have "leftovers False i = []" if "i \<in> set items" for i
    using that by (simp add: list_all_iff clean_item_def leftovers_def)
  then have "concat (map (leftovers False) items) = []" by (simp add: concat_eq_Nil_conv)
  then show ?thesis using same unfolding cleanup_def by (simp only: foldl_Nil)
qed

lemma reads_root: "reads open_patch_root"
  unfolding open_patch_root_def Let_def by (auto intro!: reads_then)

lemma outcome_nodes:
  "pfNodes fs' = pfNodes fs \<Longrightarrow> patch_outcome sha fs (Inl es) fs' e"
  by (simp add: patch_outcome_def restored_def)

lemma outcome_start: "pfNodes fs1 = pfNodes fs \<Longrightarrow> patch_outcome sha fs1 r fs' = patch_outcome sha fs r fs'"
  by (cases r) (simp_all add: fun_eq_iff patch_outcome_def replaced_def restored_def original_retained_def file_is_def)

lemma later_steps:
  assumes "and_step (stage_items [] items3 fs3) (\<lambda>items fs.
      and_step (case recheck items fs of (r, fs') \<Rightarrow> (items, r, fs')) (\<lambda>items fs. replace_items [] items fs)) = (items, r, fs2)"
    and "patch_progress sha es fs1 items3 fs3" and "list_all clean_item items3"
  shows "patch_progress sha es fs1 items fs2 \<and> list_all (settled r) items"
proof -
  obtain items4 r4 fs4 where 4: "stage_items [] items3 fs3 = (items4, r4, fs4)" by (metis prod_cases3)
  note st = stage_result [OF 4, of sha es fs1, simplified, OF assms(2,3)]
  show ?thesis
  proof (cases r4)
    case (Inl errs)
    then have "items = items4" "r = Inl errs" "fs2 = fs4" using assms(1) 4 by (auto simp: and_step_def)
    then show ?thesis using st by (auto simp: list_all_iff settled_def)
  next
    case (Inr x)
    obtain r5 fs5 where 5: "recheck items4 fs4 = (r5, fs5)" by force
    have p5: "patch_progress sha es fs1 items4 fs5" using st progress_nodes reads_recheck [OF 5] by blast
    show ?thesis
    proof (cases r5)
      case (Inl errs)
      then have "items = items4" "r = Inl errs" "fs2 = fs5" using assms(1) 4 5 \<open>r4 = Inr x\<close> by (auto simp: and_step_def)
      then show ?thesis using st p5 by (auto simp: list_all_iff settled_def)
    next
      case (Inr y)
      then have "replace_items [] items4 fs5 = (items, r, fs2)" using assms(1) 4 5 \<open>r4 = Inr x\<close> by (auto simp: and_step_def)
      then show ?thesis using replace_result [of "[]" items4 fs5] p5 st \<open>r4 = Inr x\<close> by simp
    qed
  qed
qed

lemma steps_progress:
  assumes "patch_steps sha p fs1 = (items, r, fs2)" and ok: "validate_patch p base_sha head_sha allowed = Inr u"
    and 3: "prepare_edits sha 0 [] (prpEdits p) fs1 = (items3, r3, fs3)" and "r3 = Inr w"
  shows "patch_progress sha (prpEdits p) fs1 items fs2 \<and> list_all (settled r) items"
proof -
  have p3: "map ppEdit items3 = prpEdits p" "list_all (read_item sha fs1) items3" "list_all clean_item items3"
      "pfNodes fs3 = pfNodes fs1"
    using prepare_result [OF 3, simplified] assms(4) by auto
  have t: "map target_path items3 = map edit_path (prpEdits p)"
    using p3(2) unfolding p3(1) [symmetric] by (auto simp: list_all_iff read_item_def item_of_def)
  have "list_all (\<lambda>q. \<not> stage_path q) (map target_path items3)" "distinct (map target_path items3)"
    using validated_paths [of p base_sha head_sha allowed] ok unfolding t by (simp_all add: list.pred_map comp_def)
  then have "list_all (\<lambda>i. \<not> stage_path (target_path i)) items3" "distinct (map target_path items3)"
    by (simp_all add: list.pred_map comp_def)
  then have "patch_progress sha (prpEdits p) fs1 items3 fs1" using prepared_inv [OF p3(2)] p3(1) by simp
  then have "patch_progress sha (prpEdits p) fs1 items3 fs3" using progress_nodes p3(4) by blast
  then show ?thesis
    by (rule later_steps [rotated]) (use p3(3) assms(1,4) 3 in \<open>simp_all add: patch_steps_def and_step_def\<close>)
qed

lemma settled_result:
  assumes prog: "patch_progress sha edits fs items fs2" and "list_all (settled r) items"
  shows "list_all (patch_outcome sha fs r (cleanup (\<not> (case r of Inl es \<Rightarrow> True | Inr _ \<Rightarrow> False)) items fs2)) edits \<and>
    others_kept fs (cleanup (\<not> (case r of Inl es \<Rightarrow> True | Inr _ \<Rightarrow> False)) items fs2) (edit_path ` set edits)"
proof -
  have e: "edits = map ppEdit items" using prog by (simp add: patch_progress_def)
  have "target_path ` set items = edit_path ` set edits"
    using prog unfolding e by (auto simp: patch_progress_def list_all_iff item_of_def image_iff)
  moreover have "list_all (patch_outcome sha fs r (cleanup (\<not> (case r of Inl es \<Rightarrow> True | Inr _ \<Rightarrow> False)) items fs2)) edits"
    using settled_outcome [OF prog] assms(2) unfolding e list_all_iff by auto
  ultimately show ?thesis using cleanup_others [OF progressD [OF prog]] by simp
qed

text \<open>C9. A patch is applied as a whole or not at all, whichever calls of the file system fail and at whatever
  point: when \<open>Apply\<close> returns no error every target, whose hashed preimage was the expected one, holds the
  new content under its old permission bits; when it returns an error every target is as it was, or the error
  names a file that holds the original. No other path changes, but for new files under the staging name.\<close>

theorem patch_all_or_nothing:
  assumes "apply_patch sha p base_sha head_sha allowed fs = (r, fs')"
  shows "list_all (patch_outcome sha fs r fs') (prpEdits p) \<and>
    others_kept fs fs' (edit_path ` set (prpEdits p))"
proof -
  have idle: ?thesis if "pfNodes fs' = pfNodes fs" "r = Inl es" for es
    using that outcome_nodes by (auto simp: list_all_iff others_kept_def)
  show ?thesis
  proof (cases "validate_patch p base_sha head_sha allowed")
    case (Inl e)
    then show ?thesis using assms idle by (auto simp: apply_patch_def)
  next
    case (Inr u)
    obtain r1 fs1 where root: "open_patch_root fs = (r1, fs1)" by force
    note n1 = readsD [OF reads_root root]
    show ?thesis
    proof (cases r1)
      case (Inl e)
      then show ?thesis using assms idle root n1 \<open>validate_patch p base_sha head_sha allowed = Inr u\<close> by (auto simp: apply_patch_def)
    next
      case (Inr v)
      obtain items fs2 where steps: "patch_steps sha p fs1 = (items, r, fs2)"
        and fs': "fs' = cleanup (\<not> (case r of Inl es \<Rightarrow> True | Inr _ \<Rightarrow> False)) items fs2"
        using assms root \<open>validate_patch p base_sha head_sha allowed = Inr u\<close> Inr
        by (auto simp: apply_patch_def split: prod.splits)
      obtain items3 r3 fs3 where 3: "prepare_edits sha 0 [] (prpEdits p) fs1 = (items3, r3, fs3)" by (metis prod_cases3)
      note prep = prepare_result [OF 3, simplified]
      show ?thesis
      proof (cases r3)
        case (Inl es)
        then have "items = items3" "r = Inl es" "fs2 = fs3" using steps 3 by (auto simp: patch_steps_def and_step_def)
        then show ?thesis using idle [of es] untouched_edits [of items3 fs3 fs] prep n1 fs' by simp
      next
        case (Inr w)
        have "patch_progress sha (prpEdits p) fs1 items fs2 \<and> list_all (settled r) items"
          by (rule steps_progress [OF steps \<open>validate_patch p base_sha head_sha allowed = Inr u\<close> 3 \<open>r3 = Inr w\<close>])
        then show ?thesis using settled_result [of sha "prpEdits p" fs1 items fs2 r] n1 outcome_start [OF n1]
          unfolding fs' by (simp add: others_kept_def)
      qed
    qed
  qed
qed

section \<open>Runs\<close>

text \<open>Two files below one directory, and the calls that fail.\<close>

definition demo_fs :: "bool list \<Rightarrow> patch_fs" where
  "demo_fs faults =
     \<lparr>pfNodes = [[] \<mapsto> DirectoryNode 1, [''d''] \<mapsto> DirectoryNode 2, [''d'', ''a.go''] \<mapsto> RegularFile 3 ''old'' 420 False,
        [''d'', ''b.go''] \<mapsto> RegularFile 4 ''older'' 292 False],
      pfNext = 5, pfFaults = faults, pfTokens = [''1'', ''2'', ''3'', ''4'']\<rparr>"

definition demo_sha :: "string \<Rightarrow> string" where
  "demo_sha s = replicate 64 (if s = ''old'' then CHR ''a'' else CHR ''b'')"

definition demo_patch :: Proposal where
  "demo_patch =
     \<lparr>prpBaseSHA = replicate 40 CHR ''0'', prpHeadSHA = replicate 40 CHR ''1'',
      prpEdits = [\<lparr>edPath = ''d/a.go'', edBeforeHash = ''sha256:'' @ replicate 64 CHR ''a'', edContent = ''new''\<rparr>,
        \<lparr>edPath = ''d/b.go'', edBeforeHash = ''sha256:'' @ replicate 64 CHR ''b'', edContent = ''newer''\<rparr>]\<rparr>"

definition demo_apply :: "bool list \<Rightarrow> (patch_error list + unit) \<times> patch_fs" where
  "demo_apply faults =
     apply_patch demo_sha demo_patch (replicate 40 CHR ''0'') (replicate 40 CHR ''1'') [''d/a.go'', ''d/b.go''] (demo_fs faults)"

text \<open>Without failing calls both files are replaced; when the second rename fails the first file is rolled
  back; when its rollback fails too, the original is named and still there.\<close>

text \<open>Without failing calls both files are replaced and nothing is left over; when the second rename and then
  the rename of the rollback fail, the error names the original of the first file, and it is there.\<close>

definition renames_fail :: "bool list" where
  "renames_fail = replicate 68 False @ [True] @ replicate 5 False @ [True]"

lemma demo_applied:
  "case demo_apply [] of (r, fs) \<Rightarrow> r = Inr () \<and> pfNodes fs [''d'', ''a.go''] = Some (RegularFile 5 ''new'' 420 False) \<and>
     pfNodes fs [''d'', ''b.go''] = Some (RegularFile 7 ''newer'' 292 False) \<and> pfNodes fs [''d'', stage_prefix @ ''4''] = None"
  by code_simp

lemma demo_retained:
  "case demo_apply renames_fail of (r, fs) \<Rightarrow>
     r = Inl [PatchError ''cannot replace patch file'', RollbackFailed ''d/a.go'' ''d/.rcp-intelligence-2''] \<and>
     pfNodes fs [''d'', ''a.go''] = Some (RegularFile 5 ''new'' 420 False) \<and>
     pfNodes fs [''d'', ''.rcp-intelligence-2''] = Some (RegularFile 6 ''old'' 420 False)"
  by code_simp

theorem patch_all_or_nothing_witness:
  "list_all (patch_outcome demo_sha (demo_fs renames_fail) (fst (demo_apply renames_fail)) (snd (demo_apply renames_fail)))
     (prpEdits demo_patch) \<and>
   others_kept (demo_fs renames_fail) (snd (demo_apply renames_fail)) (edit_path ` set (prpEdits demo_patch))"
  by (rule patch_all_or_nothing [of demo_sha demo_patch "replicate 40 CHR ''0''" "replicate 40 CHR ''1''"
      "[''d/a.go'', ''d/b.go'']" "demo_fs renames_fail"]) (simp add: demo_apply_def)

end
