(* ===== verification/Compositions.thy ===== *)
theory Compositions
  imports Releases GoPaths
begin

text \<open>
  Compositions, \<open>internal/application/composition.go\<close>: the applications of a product, the captured
  revisions of integrations, the plan that merges chosen revisions into generated branches of an
  environment, its selection, and the assembly of a plan from the latest revisions, which only the tests
  call so far. The observations of Git are an argument, as the state of the model does not hold them.
\<close>

section \<open>Lookups\<close>

definition revision_by_id :: "State \<Rightarrow> string \<Rightarrow> IntegrationRevision option" where
  "revision_by_id st i = find (\<lambda>r. mID (revMeta r) = i) (stIntegrationRevisions st)"

definition repository_role :: "State \<Rightarrow> string \<Rightarrow> string" where
  "repository_role st i =
     (case repository_binding st i of
        Some b \<Rightarrow> rbRole b
      | None \<Rightarrow> (case find (\<lambda>r. mID (repoMeta r) = i) (stRepositories st) of Some r \<Rightarrow> repoRole r | None \<Rightarrow> []))"

definition source_role :: "string \<Rightarrow> bool" where
  "source_role role \<longleftrightarrow> role \<in> {''APPLICATION'', ''LIBRARY'', ''MIXED''}"

definition configured_base :: "RepositoryBinding \<Rightarrow> string" where
  "configured_base b = (if rbBaseBranch b \<noteq> [] then rbBaseBranch b else rbDefaultBranch b)"

definition safe_branch :: "string \<Rightarrow> bool" where
  "safe_branch ref \<longleftrightarrow>
     \<not> (ref = [] \<or> ref = ''@'' \<or> has_prefix ref ''-'' \<or> has_suffix ref ''.'' \<or> contains_any ref ('' ~^:?*['' @ [CHR 0x5C]) \<or>
        contains_word ref ''..'' \<or> contains_word ref [CHR ''@'', CHR ''{'']) \<and>
     list_all (\<lambda>r. 0x20 \<le> (of_char r :: int) \<and> r \<noteq> CHR 0x7F) ref \<and>
     list_all (\<lambda>s. \<not> (s = [] \<or> has_prefix s ''.'' \<or> has_suffix s ''.lock'')) (split_on CHR ''/'' ref)"

datatype composition_output =
    CompApplication Application
  | CompRevision IntegrationRevision
  | CompPlan Composition
  | CompEnvironment Environment

type_synonym composition_result = "(composition_output \<times> Meta \<times> State) result"

section \<open>Applications\<close>

record ApplicationInput =
  apiParameters :: "(string \<times> string) list"
  apiName :: string
  apiKind :: string
  apiRepositoryID :: string
  apiPath :: string

definition fields_ApplicationInput :: "ApplicationInput field list" where
  "fields_ApplicationInput =
     [field ''parameters'' apiParameters apiParameters_update (dec_map dec_string []),
      field ''name'' apiName apiName_update dec_string,
      field ''kind'' apiKind apiKind_update dec_string,
      field ''repository_id'' apiRepositoryID apiRepositoryID_update dec_string,
      field ''path'' apiPath apiPath_update dec_string]"

definition relative_path :: "string \<Rightarrow> bool" where
  "relative_path p \<longleftrightarrow>
     p = [] \<or> \<not> (has_prefix p ''/'' \<or> clean_path p \<noteq> p \<or> p = ''..'' \<or> has_prefix p ''../'' \<or> contains_any p [CHR 0x5C])"

definition create_application :: "Command \<Rightarrow> Meta \<Rightarrow> State \<Rightarrow> composition_result" where
  "create_application c m st =
     (case decode fields_ApplicationInput (cData c)
        \<lparr>apiParameters = [], apiName = [], apiKind = [], apiRepositoryID = [], apiPath = []\<rparr> of
        Inl e \<Rightarrow> Inl e
      | Inr v \<Rightarrow>
          (let kind = (if apiKind v = [] then ''APPLICATION'' else apiKind v);
               a = zero_Application\<lparr>appParameters := apiParameters v, appMeta := m, appKind := kind, appName := apiName v,
                 appRepositoryID := apiRepositoryID v, appPath := apiPath v\<rparr> in
           case chain
             [reject (\<not> product_exists st (cProductID c)) (missing ''product'' (cProductID c)),
              reject (trim_space (apiName v) = []) (invalid ''application name required'' []),
              repositories st [apiRepositoryID v] (cProductID c),
              reject (\<not> relative_path (apiPath v)) (invalid ''application path must be a clean repository-relative path'' []),
              reject (kind \<notin> set component_kinds) (invalid ''invalid component kind'' []),
              reject (\<not> repository_allows (repository_role st (apiRepositoryID v)) kind)
                (invalid ''repository purpose does not support this component kind'' [])] of
             Inl e \<Rightarrow> Inl e
           | Inr _ \<Rightarrow> Inr (CompApplication a, m, st\<lparr>stApplications := stApplications st @ [a]\<rparr>)))"

section \<open>Revisions\<close>

record RevisionInput =
  rviRepositoryID :: string
  rviBranch :: string
  rviBaseCommit :: string
  rviHeadCommit :: string
  rviCommits :: "string list"

definition fields_RevisionInput :: "RevisionInput field list" where
  "fields_RevisionInput =
     [field ''repository_id'' rviRepositoryID rviRepositoryID_update dec_string,
      field ''branch'' rviBranch rviBranch_update dec_string,
      field ''base_commit'' rviBaseCommit rviBaseCommit_update dec_string,
      field ''head_commit'' rviHeadCommit rviHeadCommit_update dec_string,
      field ''commits'' rviCommits rviCommits_update dec_strings]"

fun commits_ok :: "string \<Rightarrow> string list \<Rightarrow> string list \<Rightarrow> unit result" where
  "commits_ok head seen [] = Inr ()"
| "commits_ok head seen (sha # shas) =
     (if \<not> full_sha sha \<or> length sha \<noteq> length head \<or> sha \<in> set seen
      then Inl (invalid ''invalid, mixed-format or duplicate commit'' [])
      else commits_ok head (sha # seen) shas)"

definition record_revision :: "Command \<Rightarrow> Meta \<Rightarrow> State \<Rightarrow> composition_result" where
  "record_revision c m st =
     (case decode fields_RevisionInput (cData c)
        \<lparr>rviRepositoryID = [], rviBranch = [], rviBaseCommit = [], rviHeadCommit = [], rviCommits = []\<rparr> of
        Inl e \<Rightarrow> Inl e
      | Inr v \<Rightarrow>
          (case integration st (cIntegrationID c) of
             None \<Rightarrow> Inl (missing ''integration'' (cIntegrationID c))
           | Some i \<Rightarrow>
               (let r = zero_IntegrationRevision\<lparr>revMeta := m, revIntegrationID := mID (iMeta i), revRepositoryID := rviRepositoryID v,
                  revBranch := rviBranch v, revBaseCommit := rviBaseCommit v, revHeadCommit := rviHeadCommit v,
                  revCommits := rviCommits v\<rparr> in
                case chain
                  [repositories st [rviRepositoryID v] (mProductID (iMeta i)),
                   (case feature st (mFeatureID (iMeta i)) of None \<Rightarrow> Inr ()
                    | Some f \<Rightarrow> reject (fRepositories f \<noteq> [] \<and> rviRepositoryID v \<notin> set (fRepositories f))
                        (invalid ''revision repository outside feature scope'' [])),
                   reject (iRepositories i \<noteq> [] \<and> rviRepositoryID v \<notin> set (iRepositories i))
                     (invalid ''revision repository must be declared by integration'' []),
                   reject (\<not> safe_branch (rviBranch v)) (invalid ''valid source branch required'' []),
                   reject (\<not> full_sha (rviBaseCommit v) \<or> \<not> full_sha (rviHeadCommit v) \<or> rviCommits v = [])
                     (invalid ''base_commit, head_commit and nonempty commits require full lowercase SHA40 or SHA64'' []),
                   commits_ok (rviHeadCommit v) [] (rviCommits v),
                   reject (length (rviBaseCommit v) \<noteq> length (rviHeadCommit v) \<or> rviHeadCommit v \<notin> set (rviCommits v))
                     (invalid ''head_commit must occur in commits, using the base commit hash format'' [])] of
                  Inl e \<Rightarrow> Inl e
                | Inr _ \<Rightarrow> Inr (CompRevision r, m, st\<lparr>stIntegrationRevisions := stIntegrationRevisions st @ [r]\<rparr>))))"

section \<open>Plans\<close>

definition fields_CompositionComponent :: "CompositionComponent field list" where
  "fields_CompositionComponent =
     [field ''application_id'' cmcApplicationID cmcApplicationID_update dec_string,
      field ''base_ref'' cmcBaseRef cmcBaseRef_update dec_string,
      field ''base_commit'' cmcBaseCommit cmcBaseCommit_update dec_string,
      field ''target_branch'' cmcTargetBranch cmcTargetBranch_update dec_string,
      field ''revision_ids'' cmcRevisionIDs cmcRevisionIDs_update dec_strings]"

record PlanInput =
  pliAutoRefresh :: bool
  pliEnvironmentID :: string
  pliName :: string
  pliComponents :: "CompositionComponent list"

definition fields_PlanInput :: "PlanInput field list" where
  "fields_PlanInput =
     [field ''auto_refresh'' pliAutoRefresh pliAutoRefresh_update dec_bool,
      field ''environment_id'' pliEnvironmentID pliEnvironmentID_update dec_string,
      field ''name'' pliName pliName_update dec_string,
      field ''components'' pliComponents pliComponents_update
        (dec_list (dec_struct fields_CompositionComponent) zero_CompositionComponent)]"

text \<open>What the loop over the components collects: the applications and their snapshots, the plan of each
  repository, the revision of each integration and repository, the selected integrations, and the
  revisions with their snapshots.\<close>

record plan_state =
  psApps :: "string list"
  psAppSnapshots :: "Application list"
  psPlans :: "(string \<times> CompositionComponent) list"
  psChosen :: "(string \<times> string) list"
  psSelected :: "string list"
  psRevisions :: "string list"
  psRevisionSnapshots :: "IntegrationRevision list"

definition empty_plan :: plan_state where
  "empty_plan = \<lparr>psApps = [], psAppSnapshots = [], psPlans = [], psChosen = [], psSelected = [], psRevisions = [],
     psRevisionSnapshots = []\<rparr>"

definition same_merge :: "CompositionComponent \<Rightarrow> CompositionComponent \<Rightarrow> bool" where
  "same_merge a b \<longleftrightarrow>
     cmcBaseRef a = cmcBaseRef b \<and> cmcBaseCommit a = cmcBaseCommit b \<and> cmcTargetBranch a = cmcTargetBranch b \<and>
     cmcRevisionIDs a = cmcRevisionIDs b"

definition chosen_key :: "IntegrationRevision \<Rightarrow> string" where
  "chosen_key r = revIntegrationID r @ ''/'' @ revRepositoryID r"

definition note_revision :: "string \<Rightarrow> IntegrationRevision \<Rightarrow> plan_state \<Rightarrow> plan_state" where
  "note_revision rid r ps = ps\<lparr>
     psChosen := (chosen_key r, rid) # psChosen ps, psSelected := revIntegrationID r # psSelected ps,
     psRevisions := (if rid \<in> set (psRevisions ps) then psRevisions ps else psRevisions ps @ [rid]),
     psRevisionSnapshots :=
       (if rid \<in> set (psRevisions ps) then psRevisionSnapshots ps else psRevisionSnapshots ps @ [r])\<rparr>"

text \<open>The inner loop; the list collects \<open>componentSeen\<close>.\<close>

fun plan_revisions :: "State \<Rightarrow> string \<Rightarrow> string \<Rightarrow> string list \<Rightarrow> string list \<Rightarrow> plan_state \<Rightarrow> plan_state result" where
  "plan_revisions st product repo seen [] ps = Inr ps"
| "plan_revisions st product repo seen (rid # rids) ps =
     (let bad = Inl (invalid ''revision must be unique within component and match application repository/product'' []) in
      case revision_by_id st rid of
        None \<Rightarrow> bad
      | Some r \<Rightarrow>
          (if mProductID (revMeta r) \<noteq> product \<or> revRepositoryID r \<noteq> repo \<or> rid \<in> set seen then bad
           else if map_of (psChosen ps) (chosen_key r) \<noteq> None \<and> map_of (psChosen ps) (chosen_key r) \<noteq> Some rid
           then Inl (invalid ''only one revision per integration and repository may be selected'' [])
           else plan_revisions st product repo (rid # seen) rids
             (note_revision rid r ps)))"

definition note_application :: "CompositionComponent \<Rightarrow> Application \<Rightarrow> plan_state \<Rightarrow> plan_state" where
  "note_application k a ps = ps\<lparr>
     psApps := psApps ps @ [mID (appMeta a)], psAppSnapshots := psAppSnapshots ps @ [a],
     psPlans := (appRepositoryID a, k) # psPlans ps\<rparr>"

definition plan_component :: "State \<Rightarrow> string \<Rightarrow> CompositionComponent \<Rightarrow> plan_state \<Rightarrow> plan_state result" where
  "plan_component st product k ps =
     (let bad = Inl (invalid ''component applications must be unique and belong to product'' []) in
      case application_by_id st (cmcApplicationID k) of
        None \<Rightarrow> bad
      | Some a \<Rightarrow>
          (if mProductID (appMeta a) \<noteq> product \<or> mID (appMeta a) \<in> set (psApps ps) \<or> component_kind a \<noteq> ''APPLICATION'' then bad
           else case chain
             [reject (\<not> safe_branch (cmcBaseRef k) \<or> \<not> full_sha (cmcBaseCommit k))
                (invalid ''component base_ref and full base_commit required'' []),
              reject (\<not> safe_branch (cmcTargetBranch k) \<or> \<not> has_prefix (cmcTargetBranch k) ''generated/'' \<or>
                  cmcTargetBranch k = cmcBaseRef k)
                (invalid ''target_branch must be a separate generated/ branch'' []),
              reject (case map_of (psPlans ps) (appRepositoryID a) of None \<Rightarrow> False | Some prior \<Rightarrow> \<not> same_merge prior k)
                (invalid ''applications sharing a repository must use the same base, target branch and ordered revisions'' [])] of
             Inl e \<Rightarrow> Inl e
           | Inr _ \<Rightarrow> plan_revisions st product (appRepositoryID a) [] (cmcRevisionIDs k)
               (note_application k a ps)))"

fun plan_components :: "State \<Rightarrow> string \<Rightarrow> CompositionComponent list \<Rightarrow> plan_state \<Rightarrow> plan_state result" where
  "plan_components st product [] ps = Inr ps"
| "plan_components st product (k # ks) ps =
     (case plan_component st product k ps of Inl e \<Rightarrow> Inl e | Inr ps' \<Rightarrow> plan_components st product ks ps')"

definition dependencies_selected :: "State \<Rightarrow> string list \<Rightarrow> string \<Rightarrow> unit result" where
  "dependencies_selected st selected iid =
     (case integration st iid of
        None \<Rightarrow> Inl (invalid ''revision integration no longer exists'' [])
      | Some i \<Rightarrow> each (\<lambda>dep.
          reject (case integration st dep of None \<Rightarrow> True | Some d \<Rightarrow> iStatus d \<noteq> ''released'' \<and> dep \<notin> set selected)
            (invalid ''composition must include dependency %s or it must already be released'' [dep])) (iDependencies i))"

definition plan_input :: "string \<Rightarrow> Meta \<Rightarrow> PlanInput \<Rightarrow> State \<Rightarrow> composition_result" where
  "plan_input product m v st =
     (if \<not> product_exists st product then Inl (missing ''product'' product)
      else case environment_by_id st (pliEnvironmentID v) of
        None \<Rightarrow> Inl (invalid ''environment must belong to product'' [])
      | Some e \<Rightarrow>
          (if mProductID (eMeta e) \<noteq> product then Inl (invalid ''environment must belong to product'' [])
           else if trim_space (pliName v) = [] \<or> pliComponents v = []
           then Inl (invalid ''composition name and components required'' [])
           else case plan_components st product (pliComponents v) empty_plan of
             Inl err \<Rightarrow> Inl err
           | Inr ps \<Rightarrow>
               (case each (dependencies_selected st (psSelected ps)) (remdups (psSelected ps)) of
                  Inl err \<Rightarrow> Inl err
                | Inr _ \<Rightarrow>
                    (let p = \<lparr>cmpAutoRefresh = pliAutoRefresh v, cmpMeta = m, cmpEnvironmentID = pliEnvironmentID v,
                       cmpName = pliName v, cmpStatus = ''planned'', cmpComponents = pliComponents v,
                       cmpApplicationSnapshots = psAppSnapshots ps, cmpRevisionSnapshots = psRevisionSnapshots ps,
                       cmpEnvironmentSnapshot = e\<rparr> in
                     Inr (CompPlan p, m, st\<lparr>stCompositions := stCompositions st @ [p]\<rparr>)))))"

definition plan_composition :: "Command \<Rightarrow> Meta \<Rightarrow> State \<Rightarrow> composition_result" where
  "plan_composition c m st =
     (case decode fields_PlanInput (cData c) \<lparr>pliAutoRefresh = False, pliEnvironmentID = [], pliName = [], pliComponents = []\<rparr> of
        Inl e \<Rightarrow> Inl e
      | Inr v \<Rightarrow> plan_input (cProductID c) m v st)"

section \<open>Selection\<close>

definition select_composition :: "Parts \<Rightarrow> Ctx \<Rightarrow> Command \<Rightarrow> Meta \<Rightarrow> State \<Rightarrow> composition_result" where
  "select_composition p x c m st =
     (case decode [] (cData c) () of
        Inl e \<Rightarrow> Inl e
      | Inr _ \<Rightarrow>
          (case find (\<lambda>v. mID (cmpMeta v) = cID c) (stCompositions st) of
             None \<Rightarrow> Inl (missing ''composition'' (cID c))
           | Some v \<Rightarrow>
               (if cProductID c \<noteq> [] \<and> cProductID c \<noteq> mProductID (cmpMeta v) then Inl (invalid ''composition product mismatch'' [])
                else case environment_by_id st (cmpEnvironmentID v) of
                  None \<Rightarrow> Inl (invalid ''composition environment missing'' [])
                | Some e \<Rightarrow>
                    (if mProductID (eMeta e) \<noteq> mProductID (cmpMeta v) then Inl (invalid ''composition environment missing'' [])
                     else if eCluster e \<noteq> eCluster (cmpEnvironmentSnapshot v) \<or> eNamespace e \<noteq> eNamespace (cmpEnvironmentSnapshot v)
                     then Inl (invalid ''environment target changed; create a new composition plan'' [])
                     else case selection_allowed p (ctxStepNow x) st (mID (eMeta e)) of
                       Inl err \<Rightarrow> Inl err
                     | Inr _ \<Rightarrow>
                         (case advance_selection e of
                            Inl err \<Rightarrow> Inl err
                          | Inr e1 \<Rightarrow>
                              (let e2 = e1\<lparr>eDesiredOperationID := [], eDesiredCompositionID := mID (cmpMeta v),
                                 eMeta := (eMeta e1)\<lparr>mUpdatedAt := mUpdatedAt m, mActor := cActor c\<rparr>\<rparr> in
                               Inr (CompEnvironment e2, m\<lparr>mProductID := mProductID (cmpMeta v)\<rparr>,
                                 st\<lparr>stEnvironments :=
                                   update_first (\<lambda>r. mID (eMeta r) = cmpEnvironmentID v) (\<lambda>_. e2) (stEnvironments st)\<rparr>)))))))"

definition apply_composition :: "Parts \<Rightarrow> Ctx \<Rightarrow> Command \<Rightarrow> Meta \<Rightarrow> State \<Rightarrow> composition_result" where
  "apply_composition p x c m st =
     (if cAction c = ''create_application'' then create_application c m st
      else if cAction c = ''record_integration_revision'' then record_revision c m st
      else if cAction c = ''plan_composition'' then plan_composition c m st
      else if cAction c = ''select_composition'' then select_composition p x c m st
      else Inl (invalid ''unknown composition action'' []))"

section \<open>Assembly\<close>

text \<open>An observation of Git, without its list of commits, which the assembly does not read.\<close>

record GitObservation =
  gobMeta :: Meta
  gobIntegrationID :: string
  gobRepositoryID :: string
  gobBranch :: string
  gobHeadCommit :: string
  gobMainCommit :: string
  gobAhead :: int
  gobBehind :: int
  gobStatus :: string
  gobObservedAt :: time

definition active_integrations :: "State \<Rightarrow> string \<Rightarrow> string list" where
  "active_integrations st product =
     map (\<lambda>i. mID (iMeta i)) (filter (\<lambda>i.
       mProductID (iMeta i) = product \<and> iStatus i \<in> {''working'', ''implemented'', ''verifying'', ''ready''} \<and>
       list_ex (\<lambda>r. revIntegrationID r = mID (iMeta i)) (stIntegrationRevisions st)) (stIntegrations st))"

text \<open>The repositories of an integration: the declared ones, or those of its revisions.\<close>

definition assembled_repositories :: "State \<Rightarrow> Integration \<Rightarrow> string \<Rightarrow> string list" where
  "assembled_repositories st i iid =
     (if iRepositories i \<noteq> [] then iRepositories i
      else foldl (\<lambda>rs r. if revIntegrationID r = iid \<and> revRepositoryID r \<notin> set rs then rs @ [revRepositoryID r] else rs) []
        (stIntegrationRevisions st))"

definition latest_revision :: "State \<Rightarrow> string \<Rightarrow> string \<Rightarrow> IntegrationRevision option" where
  "latest_revision st iid repo =
     find_last (\<lambda>r. revIntegrationID r = iid \<and> revRepositoryID r = repo) (stIntegrationRevisions st)"

text \<open>The main commit of the latest observation, the last one of several at the same time.\<close>

definition observed_base :: "GitObservation list \<Rightarrow> string \<Rightarrow> string \<Rightarrow> string \<Rightarrow> string" where
  "observed_base obs product repo base =
     fst (foldl (\<lambda>(commit, at) o'.
       if mProductID (gobMeta o') = product \<and> gobRepositoryID o' = repo \<and> gobMainCommit o' \<noteq> [] \<and>
         (at = zero_time \<or> at < gobObservedAt o') then (gobMainCommit o', gobObservedAt o') else (commit, at))
       (base, zero_time) (rev obs))"

text \<open>The base and the ordered revisions of each repository: \<open>baseRefs\<close>, \<open>baseCommits\<close> and
  \<open>orderedRevisions\<close>, which have the same keys.\<close>

type_synonym assembly = "(string \<times> (string \<times> string \<times> string list)) list"

fun assemble_repositories ::
  "State \<Rightarrow> GitObservation list \<Rightarrow> string \<Rightarrow> string \<Rightarrow> string list \<Rightarrow> assembly \<Rightarrow> assembly result" where
  "assemble_repositories st obs product iid [] asm = Inr asm"
| "assemble_repositories st obs product iid (repo # repos) asm =
     (case latest_revision st iid repo of
        None \<Rightarrow> Inl (invalid ''no captured revision for %s in repository %s; refresh Git first'' [iid, repo])
      | Some r \<Rightarrow>
          (case repository_binding st repo of
             None \<Rightarrow> Inl (invalid ''source repository configuration missing: %s'' [repo])
           | Some b \<Rightarrow>
               (if \<not> source_role (rbRole b) then Inl (invalid ''source repository configuration missing: %s'' [repo])
                else let base = observed_base obs product repo (revBaseCommit r) in
                  case map_of asm repo of
                    None \<Rightarrow> assemble_repositories st obs product iid repos
                      (put_entry repo (configured_base b, base, [mID (revMeta r)]) asm)
                  | Some (_, prior, ids) \<Rightarrow>
                      (if prior \<noteq> base
                       then Inl (invalid ''selected revisions for repository %s have different main bases'' [repo])
                       else assemble_repositories st obs product iid repos
                         (put_entry repo (configured_base b, base, ids @ [mID (revMeta r)]) asm)))))"

fun assemble_integrations ::
  "State \<Rightarrow> GitObservation list \<Rightarrow> string \<Rightarrow> string list \<Rightarrow> string list \<Rightarrow> assembly \<Rightarrow> assembly result" where
  "assemble_integrations st obs product seen [] asm = Inr asm"
| "assemble_integrations st obs product seen (iid # iids) asm =
     (if iid \<in> set seen then assemble_integrations st obs product seen iids asm
      else case integration st iid of
        None \<Rightarrow> Inl (invalid ''integration must belong to product: %s'' [iid])
      | Some i \<Rightarrow>
          (if mProductID (iMeta i) \<noteq> product then Inl (invalid ''integration must belong to product: %s'' [iid])
           else if iStatus i = ''released'' then Inl (invalid ''released integration is already part of the base: %s'' [iid])
           else case assemble_repositories st obs product iid (assembled_repositories st i iid) asm of
             Inl e \<Rightarrow> Inl e
           | Inr asm' \<Rightarrow> assemble_integrations st obs product (iid # seen) iids asm'))"

definition generated_branch :: "string \<Rightarrow> string \<Rightarrow> string \<Rightarrow> string" where
  "generated_branch environment composition repo = ''generated/'' @ environment @ ''/'' @ composition @ ''/'' @ repo"

definition assembled_components ::
  "State \<Rightarrow> string \<Rightarrow> string \<Rightarrow> string \<Rightarrow> string \<times> (string \<times> string \<times> string list) \<Rightarrow> CompositionComponent list" where
  "assembled_components st product environment composition entry =
     (case entry of (repo, base_ref, base_commit, ids) \<Rightarrow>
        map (\<lambda>a. \<lparr>cmcApplicationID = mID (appMeta a), cmcBaseRef = base_ref, cmcBaseCommit = base_commit,
            cmcTargetBranch = generated_branch environment composition repo, cmcRevisionIDs = ids\<rparr>)
          (filter (\<lambda>a. mProductID (appMeta a) = product \<and> appRepositoryID a = repo \<and> component_kind a = ''APPLICATION'')
            (stApplications st)))"

definition assemble_components ::
  "State \<Rightarrow> GitObservation list \<Rightarrow> string \<Rightarrow> string \<Rightarrow> string \<Rightarrow> string list \<Rightarrow> CompositionComponent list result" where
  "assemble_components st obs product environment composition requested =
     (case environment_by_id st environment of
        None \<Rightarrow> Inl (invalid ''environment must belong to product'' [])
      | Some e \<Rightarrow>
          (if mProductID (eMeta e) \<noteq> product then Inl (invalid ''environment must belong to product'' [])
           else case assemble_integrations st obs product []
               (if requested = [] then active_integrations st product else requested) [] of
             Inl err \<Rightarrow> Inl err
           | Inr asm \<Rightarrow>
               (let ks = concat (map (assembled_components st product environment composition) asm) in
                if ks = [] then Inl (invalid ''selected integrations have no deployable application revisions'' []) else Inr ks)))"

end
