(* ===== verification/CompositionProperties.thy ===== *)
theory CompositionProperties
  imports Compositions
begin

text \<open>
  Properties of compositions: the loop over the components, with its maps of what it has seen, accepts
  exactly the plans of a declarative specification, and freezes exactly what they name.
\<close>

section \<open>The specification of a plan\<close>

definition all_revisions :: "CompositionComponent list \<Rightarrow> string list" where
  "all_revisions ks = concat (map cmcRevisionIDs ks)"

definition revision_fits :: "State \<Rightarrow> string \<Rightarrow> string \<Rightarrow> string \<Rightarrow> bool" where
  "revision_fits st product repo rid \<longleftrightarrow>
     (case revision_by_id st rid of None \<Rightarrow> False
      | Some r \<Rightarrow> mProductID (revMeta r) = product \<and> revRepositoryID r = repo)"

definition component_fits :: "State \<Rightarrow> string \<Rightarrow> CompositionComponent \<Rightarrow> bool" where
  "component_fits st product k \<longleftrightarrow>
     (case application_by_id st (cmcApplicationID k) of None \<Rightarrow> False
      | Some a \<Rightarrow> mProductID (appMeta a) = product \<and> component_kind a = ''APPLICATION'' \<and>
          safe_branch (cmcBaseRef k) \<and> full_sha (cmcBaseCommit k) \<and> safe_branch (cmcTargetBranch k) \<and>
          has_prefix (cmcTargetBranch k) ''generated/'' \<and> cmcTargetBranch k \<noteq> cmcBaseRef k \<and>
          distinct (cmcRevisionIDs k) \<and> list_all (revision_fits st product (appRepositoryID a)) (cmcRevisionIDs k))"

abbreviation the_app :: "State \<Rightarrow> CompositionComponent \<Rightarrow> Application" where
  "the_app st k \<equiv> the (application_by_id st (cmcApplicationID k))"

abbreviation the_revision :: "State \<Rightarrow> string \<Rightarrow> IntegrationRevision" where
  "the_revision st rid \<equiv> the (revision_by_id st rid)"

definition revision_key :: "State \<Rightarrow> string \<Rightarrow> string" where
  "revision_key st rid = chosen_key (the_revision st rid)"

text \<open>At most one revision of an integration for each repository.\<close>

definition one_revision :: "State \<Rightarrow> string list \<Rightarrow> bool" where
  "one_revision st rids \<longleftrightarrow> list_all (\<lambda>a. list_all (\<lambda>b. revision_key st a = revision_key st b \<longrightarrow> a = b) rids) rids"

text \<open>Applications of one repository are merged from the same base to the same branch in the same order.\<close>

definition merged_alike :: "State \<Rightarrow> CompositionComponent list \<Rightarrow> bool" where
  "merged_alike st ks \<longleftrightarrow>
     list_all (\<lambda>a. list_all (\<lambda>b. appRepositoryID (the_app st a) = appRepositoryID (the_app st b) \<longrightarrow> same_merge a b) ks) ks"

definition sound_components :: "State \<Rightarrow> string \<Rightarrow> CompositionComponent list \<Rightarrow> bool" where
  "sound_components st product ks \<longleftrightarrow>
     list_all (component_fits st product) ks \<and> distinct (map cmcApplicationID ks) \<and> merged_alike st ks \<and>
     one_revision st (all_revisions ks)"

definition dependencies_closed :: "State \<Rightarrow> string list \<Rightarrow> bool" where
  "dependencies_closed st iids \<longleftrightarrow>
     list_all (\<lambda>iid. case integration st iid of None \<Rightarrow> False
       | Some i \<Rightarrow> list_all (\<lambda>dep. case integration st dep of None \<Rightarrow> False
           | Some d \<Rightarrow> iStatus d = ''released'' \<or> dep \<in> set iids) (iDependencies i)) iids"

definition keep_first :: "'a list \<Rightarrow> 'a list" where
  "keep_first xs = rev (remdups (rev xs))"

lemma keep_first_snoc: "keep_first (xs @ [x]) = (if x \<in> set xs then keep_first xs else keep_first xs @ [x])"
  by (simp add: keep_first_def)

lemma set_keep_first [simp]: "set (keep_first xs) = set xs"
  by (simp add: keep_first_def)

section \<open>The loops\<close>

definition with_revisions :: "State \<Rightarrow> string list \<Rightarrow> plan_state \<Rightarrow> plan_state" where
  "with_revisions st rids ps = ps\<lparr>
     psChosen := rev (map (\<lambda>r. (revision_key st r, r)) rids),
     psSelected := rev (map (\<lambda>r. revIntegrationID (the_revision st r)) rids),
     psRevisions := keep_first rids, psRevisionSnapshots := map (the_revision st) (keep_first rids)\<rparr>"

definition planned :: "State \<Rightarrow> CompositionComponent list \<Rightarrow> plan_state" where
  "planned st ks = with_revisions st (all_revisions ks)
     \<lparr>psApps = map cmcApplicationID ks, psAppSnapshots = map (the_app st) ks,
      psPlans = rev (map (\<lambda>k. (appRepositoryID (the_app st k), k)) ks), psChosen = [], psSelected = [], psRevisions = [],
      psRevisionSnapshots = []\<rparr>"

lemma map_of_rev_keys:
  "map_of (rev (map (\<lambda>x. (f x, x)) xs)) k = Some v \<Longrightarrow> v \<in> set xs \<and> f v = k"
  "map_of (rev (map (\<lambda>x. (f x, x)) xs)) k = None \<longleftrightarrow> k \<notin> f ` set xs"
  by (auto dest!: map_of_SomeD simp: map_of_eq_None_iff image_image)

text \<open>A relation that holds between all members with the same key, when one more member comes.\<close>

definition keyed_alike :: "('a \<Rightarrow> 'k) \<Rightarrow> ('a \<Rightarrow> 'a \<Rightarrow> bool) \<Rightarrow> 'a list \<Rightarrow> bool" where
  "keyed_alike f R xs \<longleftrightarrow> list_all (\<lambda>a. list_all (\<lambda>b. f a = f b \<longrightarrow> R a b) xs) xs"

lemma keyed_alike_snoc:
  assumes "keyed_alike f R xs" and equiv: "equivp R"
  shows "keyed_alike f R (xs @ [x]) \<longleftrightarrow>
    (case map_of (rev (map (\<lambda>y. (f y, y)) xs)) (f x) of None \<Rightarrow> True | Some y \<Rightarrow> R y x)"
proof -
  have R: "R a a" "R a b \<Longrightarrow> R b a" "R a b \<Longrightarrow> R b c \<Longrightarrow> R a c" for a b c
    using equiv by (auto elim: equivpE reflpE sympE transpE)
  have snoc: "keyed_alike f R (xs @ [x]) \<longleftrightarrow> (\<forall>y\<in>set xs. f y = f x \<longrightarrow> R y x)"
    using assms(1) R(1,2) unfolding keyed_alike_def list_all_iff set_append by fastforce
  show ?thesis
  proof (cases "map_of (rev (map (\<lambda>y. (f y, y)) xs)) (f x)")
    case None
    then have "f x \<notin> f ` set xs" using map_of_rev_keys(2) [of f xs "f x"] by blast
    then have "\<forall>y\<in>set xs. f y = f x \<longrightarrow> R y x" by (metis image_eqI)
    then show ?thesis unfolding snoc None by simp
  next
    case (Some y)
    then have y: "y \<in> set xs" "f y = f x" using map_of_rev_keys(1) [OF Some] by simp_all
    have "R z x" if "R y x" "z \<in> set xs" "f z = f x" for z
    proof -
      have "R z y" using assms(1) that y unfolding keyed_alike_def list_all_iff by metis
      then show ?thesis using R(3) that(1) by blast
    qed
    then show ?thesis unfolding snoc Some option.case using y by blast
  qed
qed

lemma one_revision_snoc:
  assumes "one_revision st rids"
  shows "one_revision st (rids @ [rid]) \<longleftrightarrow>
    (case map_of (rev (map (\<lambda>r. (revision_key st r, r)) rids)) (revision_key st rid) of None \<Rightarrow> True | Some x \<Rightarrow> x = rid)"
proof -
  have eq: "one_revision st xs = keyed_alike (revision_key st) (=) xs" for xs
    by (simp only: one_revision_def keyed_alike_def)
  show ?thesis using keyed_alike_snoc [OF assms [unfolded eq] identity_equivp, of rid] by (simp only: eq)
qed

lemma one_revision_prefix: "one_revision st (a @ b) \<Longrightarrow> one_revision st a"
  by (simp add: one_revision_def list_all_iff)

lemma with_revisions_again [simp]: "with_revisions st a (with_revisions st b ps) = with_revisions st a ps"
  by (simp add: with_revisions_def)

lemma plan_revisions_iff:
  "one_revision st done \<Longrightarrow>
   plan_revisions st product repo seen rids (with_revisions st done ps) = Inr ps' \<longleftrightarrow>
     list_all (revision_fits st product repo) rids \<and> distinct rids \<and> set rids \<inter> set seen = {} \<and>
     one_revision st (done @ rids) \<and> ps' = with_revisions st (done @ rids) ps"
proof (induction rids arbitrary: "done" seen)
  case (Cons rid rids)
  show ?case
  proof (cases "revision_by_id st rid")
    case None
    then show ?thesis by (simp add: revision_fits_def)
  next
    case (Some r)
    have key: "chosen_key r = revision_key st rid" using Some by (simp add: revision_key_def)
    have step: "note_revision rid r (with_revisions st done ps) = with_revisions st (done @ [rid]) ps"
      using Some by (simp add: with_revisions_def note_revision_def key keep_first_snoc)
    have chosen: "psChosen (with_revisions st done ps) = rev (map (\<lambda>r. (revision_key st r, r)) done)" by (simp add: with_revisions_def)
    show ?thesis
    proof (cases "revision_fits st product repo rid \<and> rid \<notin> set seen \<and> one_revision st (done @ [rid])")
      case True
      then have "plan_revisions st product repo seen (rid # rids) (with_revisions st done ps) =
          plan_revisions st product repo (rid # seen) rids (with_revisions st (done @ [rid]) ps)"
        using Some one_revision_snoc [OF Cons.prems, of rid]
        by (auto simp: Let_def step revision_fits_def key chosen split: option.splits)
      then show ?thesis using Cons.IH [of "done @ [rid]" "rid # seen"] True by auto
    next
      case False
      then have "plan_revisions st product repo seen (rid # rids) (with_revisions st done ps) \<noteq> Inr ps'"
        using Some one_revision_snoc [OF Cons.prems, of rid]
        by (auto simp: Let_def revision_fits_def key chosen split: option.splits)
      moreover have "\<not> (list_all (revision_fits st product repo) (rid # rids) \<and> set (rid # rids) \<inter> set seen = {} \<and>
          one_revision st (done @ rid # rids))"
        using False one_revision_prefix [of st "done @ [rid]" rids] by auto
      ultimately show ?thesis by blast
    qed
  qed
qed auto

lemma merged_snoc:
  assumes "merged_alike st ks"
  shows "merged_alike st (ks @ [k]) \<longleftrightarrow>
    (case map_of (rev (map (\<lambda>k. (appRepositoryID (the_app st k), k)) ks)) (appRepositoryID (the_app st k)) of
       None \<Rightarrow> True | Some prior \<Rightarrow> same_merge prior k)"
proof -
  have eq: "merged_alike st xs = keyed_alike (\<lambda>k. appRepositoryID (the_app st k)) same_merge xs" for xs
    by (simp only: merged_alike_def keyed_alike_def)
  have "equivp same_merge" by (auto intro!: equivpI reflpI sympI transpI simp: same_merge_def)
  from keyed_alike_snoc [OF assms [unfolded eq] this, of k] show ?thesis by (simp only: eq)
qed

lemma sound_snoc:
  "sound_components st product (ks @ [k]) \<longleftrightarrow>
     sound_components st product ks \<and> component_fits st product k \<and> cmcApplicationID k \<notin> cmcApplicationID ` set ks \<and>
     merged_alike st (ks @ [k]) \<and> one_revision st (all_revisions ks @ cmcRevisionIDs k)"
  by (auto simp: sound_components_def all_revisions_def merged_alike_def list_all_iff dest: one_revision_prefix)

lemma sound_prefix: "sound_components st product (a @ b) \<Longrightarrow> sound_components st product a"
  by (induction b rule: rev_induct) (auto simp: sound_snoc simp flip: append_assoc)

lemma planned_note:
  assumes "application_by_id st (cmcApplicationID k) = Some a"
  shows "with_revisions st (all_revisions ks @ cmcRevisionIDs k)
      (note_application k a (planned st ks)) = planned st (ks @ [k])"
    and "note_application k a (planned st ks) = with_revisions st (all_revisions ks) (note_application k a (planned st ks))"
proof -
  have "mID (appMeta a) = cmcApplicationID k" using assms by (auto simp: application_by_id_def dest: find_Some_prop)
  then show "with_revisions st (all_revisions ks @ cmcRevisionIDs k)
      (note_application k a (planned st ks)) = planned st (ks @ [k])"
    using assms by (simp add: planned_def with_revisions_def note_application_def all_revisions_def)
  show "note_application k a (planned st ks) = with_revisions st (all_revisions ks) (note_application k a (planned st ks))"
    by (simp add: planned_def with_revisions_def note_application_def)
qed

lemma plan_component_iff:
  assumes "sound_components st product ks"
  shows "plan_component st product k (planned st ks) = Inr ps \<longleftrightarrow>
    sound_components st product (ks @ [k]) \<and> ps = planned st (ks @ [k])"
proof (cases "application_by_id st (cmcApplicationID k)")
  case None
  then show ?thesis by (simp add: plan_component_def sound_snoc component_fits_def)
next
  case (Some a)
  have i: "mID (appMeta a) = cmcApplicationID k" using Some by (auto simp: application_by_id_def dest: find_Some_prop)
  have fields: "psApps (planned st ks) = map cmcApplicationID ks"
      "psPlans (planned st ks) = rev (map (\<lambda>k. (appRepositoryID (the_app st k), k)) ks)"
    by (simp_all add: planned_def with_revisions_def)
  have one: "one_revision st (all_revisions ks)" using assms by (simp add: sound_components_def)
  have inner: "plan_revisions st product (appRepositoryID a) [] (cmcRevisionIDs k) (note_application k a (planned st ks)) = Inr ps \<longleftrightarrow>
      list_all (revision_fits st product (appRepositoryID a)) (cmcRevisionIDs k) \<and> distinct (cmcRevisionIDs k) \<and>
      one_revision st (all_revisions ks @ cmcRevisionIDs k) \<and> ps = planned st (ks @ [k])"
    using plan_revisions_iff [OF one, of product "appRepositoryID a" "[]" "cmcRevisionIDs k" "note_application k a (planned st ks)" ps]
    by (simp add: planned_note [OF Some] flip: planned_note(2) [OF Some])
  have merged: "merged_alike st ks" using assms by (simp add: sound_components_def)
  have "plan_component st product k (planned st ks) = Inr ps \<longleftrightarrow>
      mProductID (appMeta a) = product \<and> cmcApplicationID k \<notin> cmcApplicationID ` set ks \<and> component_kind a = ''APPLICATION'' \<and>
      safe_branch (cmcBaseRef k) \<and> full_sha (cmcBaseCommit k) \<and> safe_branch (cmcTargetBranch k) \<and>
      has_prefix (cmcTargetBranch k) ''generated/'' \<and> cmcTargetBranch k \<noteq> cmcBaseRef k \<and> merged_alike st (ks @ [k]) \<and>
      plan_revisions st product (appRepositoryID a) [] (cmcRevisionIDs k) (note_application k a (planned st ks)) = Inr ps"
    using merged_snoc [OF merged, of k] Some
    by (auto simp: plan_component_def fields i reject_def chain_simps split: sum.splits option.splits)
  then show ?thesis unfolding inner sound_snoc component_fits_def using Some assms by auto
qed

lemma plan_components_iff:
  "sound_components st product done \<Longrightarrow>
   plan_components st product ks (planned st done) = Inr ps \<longleftrightarrow>
     sound_components st product (done @ ks) \<and> ps = planned st (done @ ks)"
proof (induction ks arbitrary: "done")
  case (Cons k ks)
  show ?case
  proof (cases "sound_components st product (done @ [k])")
    case True
    then have "plan_component st product k (planned st done) = Inr (planned st (done @ [k]))"
      using plan_component_iff [OF Cons.prems] by simp
    then show ?thesis using Cons.IH [OF True] by simp
  next
    case False
    then obtain e where "plan_component st product k (planned st done) = Inl e"
      using plan_component_iff [OF Cons.prems] by (cases "plan_component st product k (planned st done)") auto
    moreover have "\<not> sound_components st product (done @ k # ks)"
      using False sound_prefix [of st product "done @ [k]" ks] by auto
    ultimately show ?thesis by simp
  qed
qed auto

definition integrations_of :: "State \<Rightarrow> CompositionComponent list \<Rightarrow> string list" where
  "integrations_of st ks = map (\<lambda>r. revIntegrationID (the_revision st r)) (all_revisions ks)"

lemma dependencies_iff:
  "each (dependencies_selected st sel) (remdups sel) = Inr () \<longleftrightarrow> dependencies_closed st sel"
  by (auto simp: each_ok dependencies_selected_def dependencies_closed_def list_all_iff reject_def split: option.splits)

lemma dependencies_rev: "dependencies_closed st (rev iids) = dependencies_closed st iids"
  by (auto simp: dependencies_closed_def list_all_iff split: option.splits)

section \<open>Plans\<close>

text \<open>The composition a plan freezes: the components as given, the applications and every chosen revision once,
  as they are now, and the environment with its target.\<close>

definition frozen_plan :: "State \<Rightarrow> Meta \<Rightarrow> PlanInput \<Rightarrow> Environment \<Rightarrow> Composition" where
  "frozen_plan st m v e =
     \<lparr>cmpAutoRefresh = pliAutoRefresh v, cmpMeta = m, cmpEnvironmentID = pliEnvironmentID v, cmpName = pliName v,
      cmpStatus = ''planned'', cmpComponents = pliComponents v,
      cmpApplicationSnapshots = map (the_app st) (pliComponents v),
      cmpRevisionSnapshots = map (the_revision st) (keep_first (all_revisions (pliComponents v))),
      cmpEnvironmentSnapshot = e\<rparr>"

definition plannable :: "State \<Rightarrow> string \<Rightarrow> PlanInput \<Rightarrow> Environment \<Rightarrow> bool" where
  "plannable st product v e \<longleftrightarrow>
     product_exists st product \<and> environment_by_id st (pliEnvironmentID v) = Some e \<and> mProductID (eMeta e) = product \<and>
     trim_space (pliName v) \<noteq> [] \<and> pliComponents v \<noteq> [] \<and> sound_components st product (pliComponents v) \<and>
     dependencies_closed st (integrations_of st (pliComponents v))"

lemma planned_start: "empty_plan = planned st []"
  by (simp add: empty_plan_def planned_def with_revisions_def all_revisions_def keep_first_def)

lemma plan_input_iff:
  "plan_input product m v st = Inr out \<longleftrightarrow>
     (\<exists>e. plannable st product v e \<and>
        out = (CompPlan (frozen_plan st m v e), m, st\<lparr>stCompositions := stCompositions st @ [frozen_plan st m v e]\<rparr>))"
proof (cases "environment_by_id st (pliEnvironmentID v)")
  case None
  then show ?thesis by (simp add: plan_input_def plannable_def)
next
  case (Some e)
  have "sound_components st product []"
    by (simp add: sound_components_def merged_alike_def one_revision_def all_revisions_def)
  note loop = plan_components_iff [OF this, of "pliComponents v", simplified]
  have fields: "psSelected (planned st ks) = rev (integrations_of st ks)" "psAppSnapshots (planned st ks) = map (the_app st) ks"
      "psRevisionSnapshots (planned st ks) = map (the_revision st) (keep_first (all_revisions ks))" for ks
    by (simp_all add: planned_def with_revisions_def integrations_of_def rev_map)
  show ?thesis
  proof (cases "sound_components st product (pliComponents v)")
    case True
    then have "plan_components st product (pliComponents v) empty_plan = Inr (planned st (pliComponents v))"
      using loop by (simp add: planned_start [of st])
    then show ?thesis using Some True dependencies_iff [of st "rev (integrations_of st (pliComponents v))"]
      by (auto simp: plan_input_def plannable_def fields frozen_plan_def Let_def dependencies_rev split: sum.splits)
  next
    case False
    then have "plan_components st product (pliComponents v) empty_plan \<noteq> Inr ps" for ps
      using loop by (simp add: planned_start [of st])
    then show ?thesis using False by (auto simp: plan_input_def plannable_def split: sum.splits option.splits if_splits)
  qed
qed

text \<open>C28. \<open>plan_composition\<close> accepts exactly the sound plans and freezes exactly what they name: the applications
  belong to the product and are named once, those of one repository share base, target and the order of
  revisions, every integration contributes at most one revision to a repository, the integrations are closed
  under dependencies that are not released, and the snapshots are the applications in order, each chosen
  revision once, and the environment. Nothing else of the state changes.\<close>

theorem plan_accepted_iff:
  "plan_input product m v st = Inr out \<longleftrightarrow>
     (\<exists>e. plannable st product v e \<and>
        out = (CompPlan (frozen_plan st m v e), m, st\<lparr>stCompositions := stCompositions st @ [frozen_plan st m v e]\<rparr>))"
  by (rule plan_input_iff)

section \<open>Assembled plans\<close>

text \<open>The IDs of the state are unique, a revision has the product of its integration, and the IDs of the
  integrations have no slash.\<close>

definition composition_rows_ok :: "State \<Rightarrow> bool" where
  "composition_rows_ok st \<longleftrightarrow>
     distinct (map (\<lambda>a. mID (appMeta a)) (stApplications st)) \<and> distinct (map (\<lambda>r. mID (revMeta r)) (stIntegrationRevisions st)) \<and>
     list_all (\<lambda>r. CHR ''/'' \<notin> set (revIntegrationID r) \<and>
       (case integration st (revIntegrationID r) of None \<Rightarrow> True | Some i \<Rightarrow> mProductID (revMeta r) = mProductID (iMeta i)))
       (stIntegrationRevisions st)"

text \<open>The latest revision of an integration of the product for a repository.\<close>

definition latest_of :: "State \<Rightarrow> string \<Rightarrow> string \<Rightarrow> string \<Rightarrow> bool" where
  "latest_of st product repo rid \<longleftrightarrow>
     (\<exists>iid r i. latest_revision st iid repo = Some r \<and> mID (revMeta r) = rid \<and> integration st iid = Some i \<and>
        mProductID (iMeta i) = product)"

definition assembly_ok :: "State \<Rightarrow> string \<Rightarrow> assembly \<Rightarrow> bool" where
  "assembly_ok st product asm \<longleftrightarrow>
     distinct (map fst asm) \<and> (\<forall>(repo, b, c, ids)\<in>set asm. list_all (latest_of st product repo) ids)"

lemma put_entry_keys: "fst ` set (put_entry k v m) = insert k (fst ` set m)"
  by (induction k v m rule: put_entry.induct) auto

lemma put_entry_distinct: "distinct (map fst m) \<Longrightarrow> distinct (map fst (put_entry k v m))"
  by (induction k v m rule: put_entry.induct) (auto simp: put_entry_keys)

lemma put_entry_in: "x \<in> set (put_entry k v m) \<Longrightarrow> x = (k, v) \<or> x \<in> set m"
  by (induction k v m rule: put_entry.induct) (auto split: if_splits)

lemma assembly_put:
  assumes "assembly_ok st product asm" and "list_all (latest_of st product repo) ids"
  shows "assembly_ok st product (put_entry repo (b, c, ids) asm)"
  using assms by (auto simp: assembly_ok_def put_entry_distinct dest!: put_entry_in)

lemma assembly_repositories:
  assumes "integration st iid = Some i" and "mProductID (iMeta i) = product"
  shows "assemble_repositories st obs product iid repos asm = Inr asm' \<Longrightarrow> assembly_ok st product asm \<Longrightarrow> assembly_ok st product asm'"
proof (induction repos arbitrary: asm)
  case (Cons repo repos)
  then obtain r where r: "latest_revision st iid repo = Some r" by (auto split: option.splits)
  then have l: "latest_of st product repo (mID (revMeta r))" using assms by (auto simp: latest_of_def)
  obtain b base where next': "(map_of asm repo = None \<and>
        assemble_repositories st obs product iid repos (put_entry repo (b, base, [mID (revMeta r)]) asm) = Inr asm') \<or>
      (\<exists>x ids. map_of asm repo = Some (x, base, ids) \<and>
        assemble_repositories st obs product iid repos (put_entry repo (b, base, ids @ [mID (revMeta r)]) asm) = Inr asm')"
    using Cons.prems(1) r by (auto simp: Let_def split: option.splits if_splits)
  then show ?case
  proof (elim disjE conjE exE)
    assume "assemble_repositories st obs product iid repos (put_entry repo (b, base, [mID (revMeta r)]) asm) = Inr asm'"
    then show ?thesis using Cons.IH assembly_put [OF Cons.prems(2), of repo "[mID (revMeta r)]"] l by simp
  next
    fix x ids assume m: "map_of asm repo = Some (x, base, ids)"
      and go: "assemble_repositories st obs product iid repos (put_entry repo (b, base, ids @ [mID (revMeta r)]) asm) = Inr asm'"
    have "list_all (latest_of st product repo) ids"
      using map_of_SomeD [OF m] Cons.prems(2) by (auto simp: assembly_ok_def)
    then show ?thesis using Cons.IH [OF go] assembly_put [OF Cons.prems(2), of repo "ids @ [mID (revMeta r)]"] l by simp
  qed
qed simp

lemma assembly_integrations:
  "assemble_integrations st obs product seen iids asm = Inr asm' \<Longrightarrow> assembly_ok st product asm \<Longrightarrow> assembly_ok st product asm'"
proof (induction iids arbitrary: seen asm)
  case (Cons iid iids)
  show ?case
  proof (cases "iid \<in> set seen")
    case True
    then show ?thesis using Cons by simp
  next
    case False
    then obtain i mid where "integration st iid = Some i" "mProductID (iMeta i) = product"
        "assemble_repositories st obs product iid (assembled_repositories st i iid) asm = Inr mid"
        "assemble_integrations st obs product (iid # seen) iids mid = Inr asm'"
      using Cons.prems(1) by (auto split: option.splits if_splits sum.splits)
    then show ?thesis using Cons.IH assembly_repositories Cons.prems(2) by blast
  qed
qed simp

lemma revision_found:
  "composition_rows_ok st \<Longrightarrow> r \<in> set (stIntegrationRevisions st) \<Longrightarrow> revision_by_id st (mID (revMeta r)) = Some r"
  unfolding revision_by_id_def composition_rows_ok_def
  by (elim conjE) (rule find_distinct_key [where key = "\<lambda>r. mID (revMeta r)"])

lemma app_found:
  "composition_rows_ok st \<Longrightarrow> a \<in> set (stApplications st) \<Longrightarrow> application_by_id st (mID (appMeta a)) = Some a"
  unfolding application_by_id_def composition_rows_ok_def
  by (elim conjE) (rule find_distinct_key [where key = "\<lambda>a. mID (appMeta a)"])

lemma latest_found:
  assumes "composition_rows_ok st" and "latest_of st product repo rid"
  obtains iid r where "revision_by_id st rid = Some r" "latest_revision st iid repo = Some r" "revIntegrationID r = iid"
    "revRepositoryID r = repo" "mProductID (revMeta r) = product" "mID (revMeta r) = rid" "CHR ''/'' \<notin> set iid"
proof -
  obtain iid r i where r: "latest_revision st iid repo = Some r" "mID (revMeta r) = rid" "integration st iid = Some i"
      "mProductID (iMeta i) = product"
    using assms(2) by (auto simp: latest_of_def)
  then have "r \<in> set (stIntegrationRevisions st)" "revIntegrationID r = iid" "revRepositoryID r = repo"
    by (auto simp: latest_revision_def dest: find_last_Some_in find_last_Some_prop)
  then show thesis using that [of r iid] r revision_found [OF assms(1)] assms(1)
    by (auto simp: composition_rows_ok_def list_all_iff)
qed

lemma slash_split: "a @ CHR ''/'' # b = c @ CHR ''/'' # d \<Longrightarrow> CHR ''/'' \<notin> set a \<Longrightarrow> CHR ''/'' \<notin> set c \<Longrightarrow> a = c \<and> b = d"
  by (induction a arbitrary: c) (auto simp: Cons_eq_append_conv)

lemma latest_same:
  assumes "composition_rows_ok st" and "latest_of st product repo rid" and "latest_of st product repo' rid'"
    and "revision_key st rid = revision_key st rid'"
  shows "rid = rid'"
proof -
  obtain iid r where r: "revision_by_id st rid = Some r" "latest_revision st iid repo = Some r" "revIntegrationID r = iid"
      "revRepositoryID r = repo" "mID (revMeta r) = rid" "CHR ''/'' \<notin> set iid"
    by (rule latest_found [OF assms(1,2)])
  obtain iid' r' where r': "revision_by_id st rid' = Some r'" "latest_revision st iid' repo' = Some r'" "revIntegrationID r' = iid'"
      "revRepositoryID r' = repo'" "mID (revMeta r') = rid'" "CHR ''/'' \<notin> set iid'"
    by (rule latest_found [OF assms(1,3)])
  have "iid = iid' \<and> repo = repo'"
    using assms(4) r r' by (intro slash_split) (simp_all add: revision_key_def chosen_key_def)
  then show ?thesis using r r' by simp
qed

text \<open>What the assembly does not look at.\<close>

definition merge_names_ok :: "CompositionComponent \<Rightarrow> bool" where
  "merge_names_ok k \<longleftrightarrow>
     safe_branch (cmcBaseRef k) \<and> full_sha (cmcBaseCommit k) \<and> safe_branch (cmcTargetBranch k) \<and>
     cmcTargetBranch k \<noteq> cmcBaseRef k \<and> distinct (cmcRevisionIDs k)"

lemma assembled_component:
  assumes "composition_rows_ok st" and "assembly_ok st product asm" and "entry \<in> set asm"
    and "k \<in> set (assembled_components st product environment composition entry)"
  shows "component_fits st product k \<longleftrightarrow> merge_names_ok k" and "appRepositoryID (the_app st k) = fst entry"
    and "list_all (latest_of st product (fst entry)) (cmcRevisionIDs k)"
proof -
  obtain repo b c ids where e: "entry = (repo, b, c, ids)" by (metis prod_cases4)
  obtain a where a: "a \<in> set (stApplications st)" "mProductID (appMeta a) = product" "appRepositoryID a = repo"
      "component_kind a = ''APPLICATION''" and k: "cmcApplicationID k = mID (appMeta a)" "cmcRevisionIDs k = ids"
      "cmcTargetBranch k = generated_branch environment composition repo"
    using assms(4) by (auto simp: e assembled_components_def)
  have found: "application_by_id st (cmcApplicationID k) = Some a" using app_found [OF assms(1) a(1)] k(1) by simp
  show latest: "list_all (latest_of st product (fst entry)) (cmcRevisionIDs k)"
    using assms(2,3) e k(2) by (auto simp: assembly_ok_def)
  have "revision_fits st product repo rid" if "latest_of st product repo rid" for rid
    by (rule latest_found [OF assms(1) that]) (simp add: revision_fits_def)
  then have "list_all (revision_fits st product repo) (cmcRevisionIDs k)" using latest e by (auto simp: list_all_iff)
  then show "component_fits st product k \<longleftrightarrow> merge_names_ok k"
    using found a k(3) by (auto simp: component_fits_def merge_names_ok_def generated_branch_def has_prefix_def)
  show "appRepositoryID (the_app st k) = fst entry" using found a e by simp
qed

lemma assembled_sound:
  assumes "composition_rows_ok st" and "assembly_ok st product asm"
    and "ks = concat (map (assembled_components st product environment composition) asm)"
  shows "sound_components st product ks \<longleftrightarrow> list_all merge_names_ok ks"
proof -
  have entry: "\<exists>entry\<in>set asm. k \<in> set (assembled_components st product environment composition entry)" if "k \<in> set ks" for k
    using that by (auto simp: assms(3))
  have fits: "list_all (component_fits st product) ks \<longleftrightarrow> list_all merge_names_ok ks"
    using entry assembled_component(1) [OF assms(1,2)] unfolding list_all_iff by blast
  have "same_merge k l" if kl: "k \<in> set ks" "l \<in> set ks" "appRepositoryID (the_app st k) = appRepositoryID (the_app st l)" for k l
  proof -
    obtain x y where x: "x \<in> set asm" "k \<in> set (assembled_components st product environment composition x)"
      and y: "y \<in> set asm" "l \<in> set (assembled_components st product environment composition y)"
      using entry kl(1,2) by blast
    have "fst x = fst y" using assembled_component(2) [OF assms(1,2)] x y kl(3) by metis
    then have "x = y" using assms(2) x(1) y(1) unfolding assembly_ok_def by (metis eq_key_imp_eq_value prod.collapse)
    then show ?thesis using x(2) y(2) by (auto simp: assembled_components_def same_merge_def split: prod.splits)
  qed
  then have "merged_alike st ks" by (auto simp: merged_alike_def list_all_iff)
  moreover have "one_revision st (all_revisions ks)"
  proof -
    have "\<exists>repo. latest_of st product repo rid" if "rid \<in> set (all_revisions ks)" for rid
      using that entry assembled_component(3) [OF assms(1,2)] by (fastforce simp: all_revisions_def list_all_iff)
    then show ?thesis using latest_same [OF assms(1)] unfolding one_revision_def list_all_iff by metis
  qed
  moreover have "distinct (map cmcApplicationID ks)"
  proof -
    have ids: "map cmcApplicationID (assembled_components st product environment composition x) =
        map (\<lambda>a. mID (appMeta a)) (filter (\<lambda>a. mProductID (appMeta a) = product \<and> appRepositoryID a = fst x \<and>
          component_kind a = ''APPLICATION'') (stApplications st))" for x
      by (cases x) (simp add: assembled_components_def)
    have d: "distinct (map (\<lambda>a. mID (appMeta a)) (stApplications st))" using assms(1) by (simp add: composition_rows_ok_def)
    have apart: "cmcApplicationID k \<noteq> cmcApplicationID l"
      if "x \<in> set asm" "y \<in> set asm" "fst x \<noteq> fst y" "k \<in> set (assembled_components st product environment composition x)"
        "l \<in> set (assembled_components st product environment composition y)" for x y k l
      using that assembled_component(2) [OF assms(1,2)] by metis
    have "distinct (map cmcApplicationID (concat (map (assembled_components st product environment composition) xs)))"
      if "distinct (map fst xs)" "set xs \<subseteq> set asm" for xs
      using that
    proof (induction xs)
      case (Cons x xs)
      have "distinct (map cmcApplicationID (assembled_components st product environment composition x))"
        unfolding ids using d by (simp add: distinct_map_filter)
      moreover have "cmcApplicationID k \<noteq> cmcApplicationID l"
        if "k \<in> set (assembled_components st product environment composition x)" "y \<in> set xs"
          "l \<in> set (assembled_components st product environment composition y)" for k l y
        using apart [of x y k l] Cons.prems that by force
      ultimately show ?case using Cons by fastforce
    qed simp
    then show ?thesis using assms(2,3) by (simp add: assembly_ok_def)
  qed
  ultimately show ?thesis using fits by (simp add: sound_components_def)
qed

text \<open>An assembled plan is sound but for what the assembly does not look at: in a state with unique IDs the
  components that \<open>assembleComponents\<close> makes of the latest revisions are always consistent (each
  application once, repositories merged alike, one revision of an integration for a repository), so
  \<open>plan_composition\<close> accepts them exactly when their branches and base commits are well formed, no component
  lists a revision twice, and the dependencies are selected or released.\<close>

theorem assembled_plan_accepted:
  assumes "composition_rows_ok st" and "assemble_components st obs product environment composition requested = Inr ks"
    and "product_exists st product" and "trim_space name \<noteq> []"
  shows "(\<exists>out. plan_input product m \<lparr>pliAutoRefresh = True, pliEnvironmentID = environment, pliName = name, pliComponents = ks\<rparr> st = Inr out)
    \<longleftrightarrow> list_all merge_names_ok ks \<and> dependencies_closed st (integrations_of st ks)"
proof -
  obtain e asm where e: "environment_by_id st environment = Some e" "mProductID (eMeta e) = product"
    and asm: "assemble_integrations st obs product [] (if requested = [] then active_integrations st product else requested) [] = Inr asm"
    and ks: "ks = concat (map (assembled_components st product environment composition) asm)" "ks \<noteq> []"
    using assms(2) by (auto simp: assemble_components_def Let_def split: option.splits sum.splits if_splits)
  have "assembly_ok st product asm" using assembly_integrations [OF asm] by (simp add: assembly_ok_def)
  then have "sound_components st product ks \<longleftrightarrow> list_all merge_names_ok ks" using assembled_sound [OF assms(1) _ ks(1)] by simp
  then show ?thesis using e ks(2) assms(3,4)
    by (auto simp: plan_input_iff plannable_def)
qed

section \<open>A product with two integrations\<close>

definition product_meta :: "string \<Rightarrow> Meta" where
  "product_meta i = zero_Meta\<lparr>mID := i, mProductID := ''p''\<rparr>"

definition captured :: "string \<Rightarrow> string \<Rightarrow> IntegrationRevision" where
  "captured rid iid = zero_IntegrationRevision\<lparr>revMeta := product_meta rid, revIntegrationID := iid,
     revRepositoryID := ''repo'', revBaseCommit := replicate 40 CHR ''a'', revHeadCommit := replicate 40 CHR ''b''\<rparr>"

definition open_integration :: "string \<Rightarrow> string list \<Rightarrow> string list \<Rightarrow> Integration" where
  "open_integration iid deps repos = zero_Integration\<lparr>iMeta := product_meta iid, iStatus := ''working'',
     iDependencies := deps, iRepositories := repos\<rparr>"

definition composed_state :: "string list \<Rightarrow> State" where
  "composed_state repos = zero_State\<lparr>stProducts := [zero_Product\<lparr>pMeta := product_meta ''p''\<rparr>],
     stEnvironments := [zero_Environment\<lparr>eMeta := product_meta ''env''\<rparr>],
     stRepositoryBindings := [zero_RepositoryBinding\<lparr>rbMeta := product_meta ''b'', rbRepositoryID := ''repo'',
       rbRole := ''MIXED'', rbDefaultBranch := ''main''\<rparr>],
     stApplications := map (\<lambda>i. zero_Application\<lparr>appMeta := product_meta i, appKind := ''APPLICATION'',
       appRepositoryID := ''repo''\<rparr>) [''app'', ''web''],
     stIntegrations := [open_integration ''i1'' [] repos, open_integration ''i2'' [''i1''] [''repo'']],
     stIntegrationRevisions := [captured ''r0'' ''i1'', captured ''r1'' ''i1'', captured ''r2'' ''i2'']\<rparr>"

definition composed :: "State \<Rightarrow> string list \<Rightarrow> CompositionComponent list" where
  "composed st iids =
     (case assemble_components st [] ''p'' ''env'' ''c'' iids of Inl _ \<Rightarrow> [] | Inr ks \<Rightarrow> ks)"

text \<open>Both integrations make a plan of two applications that merges the latest revisions in order; the second one
  without the first makes one that is refused.\<close>

theorem assembled_plan_accepted_witness:
  "map cmcRevisionIDs (composed (composed_state [''repo'']) [''i1'', ''i2'']) = [[''r1'', ''r2''], [''r1'', ''r2'']] \<and>
   (\<exists>out. plan_input ''p'' zero_Meta \<lparr>pliAutoRefresh = True, pliEnvironmentID = ''env'', pliName = ''n'',
     pliComponents = composed (composed_state [''repo'']) [''i1'', ''i2'']\<rparr> (composed_state [''repo'']) = Inr out) \<and>
   (\<nexists>out. plan_input ''p'' zero_Meta \<lparr>pliAutoRefresh = True, pliEnvironmentID = ''env'', pliName = ''n'',
     pliComponents = composed (composed_state [''repo'']) [''i2'']\<rparr> (composed_state [''repo'']) = Inr out)"
proof -
  let ?st = "composed_state [''repo'']"
  have kept: "composition_rows_ok ?st" "product_exists ?st ''p''" "trim_space ''n'' \<noteq> []" by code_simp+
  have two: "map cmcRevisionIDs (composed ?st [''i1'', ''i2'']) = [[''r1'', ''r2''], [''r1'', ''r2'']]" by code_simp
  then have run: "assemble_components ?st [] ''p'' ''env'' ''c'' [''i1'', ''i2''] = Inr (composed ?st [''i1'', ''i2''])"
    by (auto simp: composed_def split: sum.splits)
  have "map cmcRevisionIDs (composed ?st [''i2'']) = [[''r2''], [''r2'']]" by code_simp
  then have alone: "assemble_components ?st [] ''p'' ''env'' ''c'' [''i2''] = Inr (composed ?st [''i2''])"
    by (auto simp: composed_def split: sum.splits)
  have closed: "dependencies_closed ?st (integrations_of ?st (composed ?st [''i1'', ''i2'']))" by code_simp
  have names: "list_all merge_names_ok (composed ?st [''i1'', ''i2''])" by code_simp
  have open': "\<not> dependencies_closed ?st (integrations_of ?st (composed ?st [''i2'']))" by code_simp
  show ?thesis using two closed names open' assembled_plan_accepted [OF kept(1) run kept(2,3)]
    assembled_plan_accepted [OF kept(1) alone kept(2,3)] by blast
qed

text \<open>An integration that lists a repository twice, which its validation does not refuse, is assembled into a
  component with its revision twice, and no plan accepts it.\<close>

lemma repository_listed_twice:
  "map cmcRevisionIDs (composed (composed_state [''repo'', ''repo'']) [''i1'']) = [[''r1'', ''r1''], [''r1'', ''r1'']] \<and>
   plan_input ''p'' m \<lparr>pliAutoRefresh = True, pliEnvironmentID = ''env'', pliName = ''n'',
     pliComponents = composed (composed_state [''repo'', ''repo'']) [''i1'']\<rparr> (composed_state [''repo'', ''repo'']) \<noteq> Inr out"
proof -
  have twice: "map cmcRevisionIDs (composed (composed_state [''repo'', ''repo'']) [''i1'']) = [[''r1'', ''r1''], [''r1'', ''r1'']]"
    by code_simp
  have "\<not> list_all (component_fits (composed_state [''repo'', ''repo'']) ''p'')
      (composed (composed_state [''repo'', ''repo'']) [''i1''])" by code_simp
  then show ?thesis using twice by (simp add: plan_input_iff plannable_def sound_components_def)
qed

end
