(* ===== verification/Spec2Isabelle.thy ===== *)
theory Spec2Isabelle
  imports CommandProperties EvidenceProperties ReleaseProperties Lifecycle StatusCatalog
    WorkerConfigProperties CheckProperties PinProperties AuthorizationProperties PatchProperties
    CompositionProperties
begin

text \<open>
  A verification library of the release control plane (Go module \<open>releasecontrol\<close>).

  \<^bold>\<open>The program.\<close> One process keeps a single durable value \<open>domain.State\<close>, a record of tables. Every
  command is a function run by \<open>Store.Update\<close>: it reads and changes the state through pointers to
  rows and its changes are kept when it returns no error. Three families of operations are modelled:
  the command service (\<open>internal/application/service.go\<close> with the rules of
  \<open>internal/domain/status.go\<close> and \<open>lifecycle.go\<close>) and the worker protocol
  (\<open>internal/application/worker_execution.go\<close> with the operator's configuration in
  \<open>internal/workerconfig\<close>), and the evaluation of what must be kept in the image registries
  (\<open>internal/domain/retention.go\<close>, \<open>registry_retention.go\<close>), which reads the tables both leave: the
  artifacts, operations, jobs, observations, releases, pins and registry inventories. The worker protocol
  projects the status of its jobs into the operations the service shows.

  \<^bold>\<open>Theories.\<close>
  \<^item> \<open>GoPrelude\<close>, \<open>GoStrings\<close>, \<open>GoTime\<close>, \<open>JsonData\<close>: Go values (byte strings, times as
    nanoseconds, errors as the left side of a sum, nil as an option), tables searched and written
    through pointers, \<open>encoding/json\<close> as used by \<open>decode\<close>. The interfaces \<open>keyed_table\<close> and
    \<open>transactional\<close> are stated here.
  \<^item> \<open>DomainModel\<close>, \<open>WorkerModel\<close>, \<open>StateModel\<close>: the records of \<open>internal/domain\<close>, with the same
    fields (prefixed, as Isabelle's selectors are global) and the decoders of their JSON names.
  \<^item> \<open>StatusCatalog\<close>, \<open>Lifecycle\<close>: the transition tables and the rules of deployments, conflicts and
    artifacts. \<open>Readiness\<close>: derived gate results, readiness, and the cycle search of the
    dependencies, whose recursion ends as the set of unvisited integrations shrinks.
  \<^item> \<open>Commands\<close>, \<open>Evidence\<close>, \<open>Releases\<close>: one definition per case of the switch of
    \<open>applyAuthorizedOrigin\<close>; \<open>Dispatch\<close>: its guards, the dispatch, the audit event.
    \<open>Workflow\<close> states what a command may change as the relation \<open>effect\<close>, proves that every
    handler refines it, and draws the invariants from the relation. \<open>CommandProperties\<close>,
    \<open>EvidenceProperties\<close> and \<open>ReleaseProperties\<close> hold the properties.
  \<^item> \<open>WorkerConfig\<close>, \<open>WorkerConfigProperties\<close>: validation of the configuration, authentication.
  \<^item> \<open>WorkerProtocol\<close>: queue, claims, leases, reports, recovery. \<open>WorkerLifecycle\<close>: the steps a job
    may make (\<open>job_step\<close>) and the proof that every operation moves every job along them;
    \<open>WorkerInvariants\<close>: fences, attempts and leases; \<open>WorkerLeases\<close>: what a claim and a mutation
    answer, the report of an attempt, the queue's request keys; \<open>WorkerClaims\<close>: which job the pass of a
    claim takes and what it leaves of the others.
  \<^item> \<open>Checks\<close> (\<open>internal/application/checks.go\<close>, \<open>internal/domain/worker_checks.go\<close>): the admission of a
    GitHub check with a build, its live authority, the two transactions of a tick around one provider
    call (\<open>check_prepare\<close>, \<open>check_commit\<close>), and what the store validates. \<open>CheckValidity\<close>: admission
    keeps what is valid; \<open>CheckSteps\<close>: the outcomes of both transactions; \<open>Scheduler\<close>: the choice and
    lease of the next operation in \<open>Tick\<close> (\<open>internal/application/worker.go\<close>).
  \<^item> \<open>WorkerService\<close>: the requests of users, workers and the scheduler as one type \<open>worker_request\<close>,
    \<open>serve\<close> as one transaction, and runs of any interleaving; \<open>CheckRuns\<close>: what a run leaves of the
    operations. \<open>WorkerProperties\<close> and \<open>CheckProperties\<close> hold the properties, which are about runs. The
    transactions of native deliveries and publications that queue, report and reconcile publication jobs are
    not requests of this type.
  \<^item> \<open>ImageNames\<close>, \<open>ImageNameLemmas\<close>: \<open>CanonicalImageRepository\<close> with the parts of \<open>net/url\<close> and
    \<open>net.ParseIP\<close> it reaches, and when its result is a fixed point. \<open>RegistryGraphs\<close>, \<open>GraphProperties\<close>: the
    graphs an observation worker reports (\<open>registry_inventory.go\<close>, \<open>registry_image_content.go\<close>), their
    normal form and validation, the breadth-first closure and what it proves of complete roots.
  \<^item> \<open>Retention\<close>, \<open>RetentionRoots\<close>, \<open>RetentionReports\<close>: the methods of \<open>retentionCollector\<close> as functions on
    the record \<open>Collector\<close>, in the order of \<open>evaluate\<close>, and \<open>EvaluateRetention\<close>. \<open>RegistryRetention\<close>: the
    summaries and the protected closure of \<open>registryRetention\<close>. \<open>RetentionSteps\<close> states what a method may
    do to the collector as the relation \<open>collect\<close> and the interface \<open>root_source\<close> of the loops over rows;
    \<open>RetentionSources\<close> interprets it on every kind of root; \<open>RetentionRanks\<close>, \<open>RetentionGuards\<close>,
    \<open>RegistryClosures\<close>, \<open>RegistrySummaries\<close> and \<open>RetentionProperties\<close> draw the properties from it.
  \<^item> \<open>ArtifactPins\<close>, \<open>PinLemmas\<close>, \<open>PinProperties\<close>: the pin commands and \<open>ValidateArtifactPins\<close>.

  \<^item> \<open>AuthModel\<close>, \<open>AuthDevices\<close> (\<open>internal/auth\<close>): the private state of sessions, agents and device codes,
    one function per handler from the configuration, a call and a request to the response and the next
    state, and the dispatch \<open>auth_wrap\<close>. \<open>AuthSteps\<close> states what a request may change as the relation
    \<open>auth_effect\<close>, which every handler refines; \<open>AuthProperties\<close> draws from it, over runs, on whose authority
    a request reaches the application, that revocation and the use of a login are final, and that an
    enrolment completes.
  \<^item> \<open>Authorization\<close> (\<open>internal/application/authorization.go\<close>, \<open>command_authorization.go\<close>): permissions, scopes
    and the inspection of a command, whose recursion over the references between rows ends as the set of
    unvisited rows shrinks. \<open>AuthorizationProperties\<close>: the inspection decides its specification, and an agent
    is confined to what was approved for it, which joins both components.
  \<^item> \<open>PatchFormat\<close>, \<open>PatchFiles\<close> (\<open>internal/intelligencepatch/patch.go\<close>): the validation of a proposed patch and
    its application over a file system in which every call may fail. \<open>PatchSteps\<close> holds the invariant
    \<open>patch_inv\<close> of an application in progress, \<open>PatchProperties\<close> that every phase keeps it. \<open>GoPaths\<close>
    holds the operations on slash-separated paths that these, the tokens and the branches use.
  \<^item> \<open>Compositions\<close> (\<open>internal/application/composition.go\<close>): applications, captured revisions, composition
    plans, their selection, and the assembly of a plan from the latest revisions.
    \<open>CompositionProperties\<close>: the loop that checks a plan decides the specification \<open>plannable\<close>, and
    an assembled plan can only fail it in its names and in its dependencies (\<open>assembled_plan_accepted\<close>).

  \<^bold>\<open>Parameters.\<close> The clock readings and random IDs of a call are arguments (\<open>Ctx\<close>, \<open>WorkerCtx\<close>),
  and so are the Git observations that the assembly of a plan reads.
  Hashes, URL parsing and the environment are the record \<open>ConfigEnv\<close>; the hashes and JSON sizes of registry
  graphs are the record \<open>GraphEnv\<close>. A retention evaluation takes its clock, its hashes and the roots of
  development baselines and restorations (as lists of \<open>root_action\<close>) in \<open>RetentionCtx\<close>.
  A call of the authentication (\<open>AuthCall\<close>) holds its clock readings, random values, the rate limit, whether the
  store is available and what the identity provider answers; the hashes and \<open>url.Parse\<close> are in
  \<open>AuthConfig\<close>. The authorization takes the JSON rows of the state. The file system of a patch carries the
  list of the calls that fail and the random names it draws. The handlers of files that
  are not modelled are the fields of \<open>Parts\<close> and \<open>WorkerParts\<close>; a property that uses one states
  what it needs of it as a hypothesis.

  \<^bold>\<open>Bounds.\<close> Machine integers keep their width where the code relies on it: generations, epochs and
  fences are 64-bit words, and the properties show that the fences never wrap. Times are unbounded.
  A check makes at most 64 calls of the provider (\<open>observation_budget\<close>). The walk over the manifests of an
  image counts down the depth that the limits allow, as the code does. Go maps are association lists in one
  fixed order: where the code ranges over a map it sorts what it collects, or, in the authentication and
  the authorization, the properties hold for every order; a plan does not depend on the order in which its integrations
  are tested, and its assembly lists the repositories in the order of their first use. A nil and an empty
  slice are the same list. Every recursion is structural
  or has a measure; there is no fuel.

  \<^bold>\<open>What the model shows of the code.\<close> \<open>long_s_sets_status\<close>, \<open>null_integer_parameter\<close>,
  \<open>cancel_rewrites_failed_delivery\<close>, \<open>check_without_configuration\<close>, \<open>accepted_pin_fails_validation\<close> and
  \<open>evaluation_panics_only_on_bare_hosts\<close>, with \<open>long_s_release_authorized\<close> and
  \<open>repository_listed_twice\<close>, prove behaviours the code does not mean to have: a key that folds to
  \<open>status\<close> passes the guard of the envelope and the inspection of a member's command, an integer
  parameter takes \<open>null\<close>, a settled delivery is settled again, a tick without a configuration panics, an
  integration that lists a repository twice is assembled into a plan that is refused, and a repository
  whose default port was dropped is refused when it is read again, which fails a pin command and makes an
  evaluation panic.

  \<^bold>\<open>Not modelled.\<close> Everything that talks to a provider, a registry or a container runtime, the HTTP and
  MCP transport, the persistence layer with the encryption of the private state, and the flows that are
  mostly such I/O; the development environments, main candidates and managed branches, the fingerprint of
  a retention report and the evidence it hashes, and the intelligence tasks. In the patches a write that fails leaves its staging file empty, and
  no other process writes to the snapshot.
\<close>

end
